(* ===== verification/Go_Base.thy ===== *)
theory Go_Base
  imports Main "HOL-Library.Word" "HOL-Library.Signed_Division"
begin

text \<open>
  Prelude of the development: the parts of the Go language that every component uses.
  \<^item> \<open>int64\<close> and \<open>int\<close> (64 bits on the platforms the services are built for) are HOL
    integers; every arithmetic operation that may leave the range is followed by
    \<open>wrap64\<close>, two's complement reduction (\<open>wrap64_eq_sint\<close> ties it to \<open>64 word\<close>);
  \<^item> Go's \<open>/\<close> and \<open>%\<close> truncate towards zero: \<open>go_quot\<close>, \<open>go_rem\<close>;
  \<^item> a \<open>(value, error)\<close> pair is a sum, \<open>Inl\<close> the error; \<open>rbind\<close> is the
    \<open>if err != nil { return ..., err }\<close> idiom;
  \<^item> the collections \<open>go_arith\<close> and \<open>res_simps\<close> gather the rewrite rules the
    component proofs use.
\<close>

named_theorems go_arith \<open>range and wrap-around facts on Go integers\<close>
named_theorems res_simps \<open>rewriting of error-or-value results\<close>

section \<open>64-bit integers\<close>

abbreviation min_i64 :: int where "min_i64 \<equiv> - 9223372036854775808"
abbreviation max_i64 :: int where "max_i64 \<equiv> 9223372036854775807"

definition is_i64 :: "int \<Rightarrow> bool" where
  "is_i64 x \<longleftrightarrow> min_i64 \<le> x \<and> x \<le> max_i64"

definition wrap64 :: "int \<Rightarrow> int" where
  "wrap64 x = (x + 9223372036854775808) mod 18446744073709551616 - 9223372036854775808"

lemma wrap64_id [simp, go_arith]: "is_i64 x \<Longrightarrow> wrap64 x = x"
  by (simp add: wrap64_def is_i64_def)

lemma is_i64_wrap64 [simp, go_arith]: "is_i64 (wrap64 x)"
  by (simp add: wrap64_def is_i64_def)

lemma wrap64_cong: "\<exists>k. wrap64 x = x - k * 18446744073709551616"
  by (rule exI [of _ "(x + 9223372036854775808) div 18446744073709551616"])
    (simp add: wrap64_def minus_div_mult_eq_mod [symmetric] algebra_simps)

lemma wrap64_eq_iff: "wrap64 x = x \<longleftrightarrow> is_i64 x"
  by (metis is_i64_wrap64 wrap64_id)

lemma wrap64_eq_sint: "wrap64 x = sint (word_of_int x :: 64 word)"
  by (simp add: wrap64_def sint_sbintrunc' signed_take_bit_eq_take_bit_shift take_bit_eq_mod)

definition go_quot :: "int \<Rightarrow> int \<Rightarrow> int" where
  "go_quot a b = wrap64 (a sdiv b)"

definition go_rem :: "int \<Rightarrow> int \<Rightarrow> int" where
  "go_rem a b = a smod b"

lemma is_i64_0 [simp, go_arith]: "is_i64 0"
  by (simp add: is_i64_def)

lemma is_i64_mono: "is_i64 b \<Longrightarrow> 0 \<le> a \<Longrightarrow> a \<le> b \<Longrightarrow> is_i64 a"
  by (simp add: is_i64_def)

lemma go_quot_nonneg [go_arith]:
  assumes "0 \<le> a" "0 < b" "is_i64 a"
  shows "go_quot a b = a div b"
proof -
  have "0 \<le> a div b"
    using assms by (simp add: pos_imp_zdiv_nonneg_iff)
  moreover have "a div b \<le> a"
    using assms zdiv_mono2 [of a 1 b] by simp
  ultimately show ?thesis
    using assms by (auto simp: go_quot_def signed_divide_int_def is_i64_def sgn_if)
qed

lemma go_rem_nonneg [go_arith]:
  "0 \<le> a \<Longrightarrow> 0 < b \<Longrightarrow> go_rem a b = a mod b"
  by (auto simp: go_rem_def signed_modulo_int_def signed_divide_int_def sgn_if
      minus_mult_div_eq_mod mult.commute)

text \<open>Truncating division stays within one divisor of the dividend.\<close>

lemma sdiv_remainder:
  fixes a b :: int
  shows "a - b * (a sdiv b) = sgn a * (\<bar>a\<bar> mod \<bar>b\<bar>)"
proof -
  have "b * (a sdiv b) = sgn a * (\<bar>b\<bar> * (\<bar>a\<bar> div \<bar>b\<bar>))"
    by (simp add: signed_divide_int_def sgn_if abs_if)
  then have "a - b * (a sdiv b) = sgn a * \<bar>a\<bar> - sgn a * (\<bar>b\<bar> * (\<bar>a\<bar> div \<bar>b\<bar>))"
    by (simp add: sgn_mult_abs)
  also have "\<dots> = sgn a * (\<bar>a\<bar> - \<bar>b\<bar> * (\<bar>a\<bar> div \<bar>b\<bar>))"
    by (simp only: right_diff_distrib)
  finally show ?thesis
    by (simp only: minus_mult_div_eq_mod)
qed

lemma sdiv_close:
  fixes a b :: int
  assumes "b \<noteq> 0"
  shows "\<bar>a - b * (a sdiv b)\<bar> < \<bar>b\<bar>"
proof -
  have "\<bar>sgn a * (\<bar>a\<bar> mod \<bar>b\<bar>)\<bar> \<le> \<bar>a\<bar> mod \<bar>b\<bar>"
    using assms by (simp add: sgn_if)
  also have "\<dots> < \<bar>b\<bar>"
    using assms by simp
  finally show ?thesis
    by (simp only: sdiv_remainder)
qed

lemma sdiv_mult_exact:
  fixes a b :: int
  assumes "a \<noteq> 0"
  shows "(a * b) sdiv a = b"
proof -
  have "a * ((a * b) sdiv a) = a * b"
    using sdiv_remainder [of "a * b" a] assms by (simp add: abs_mult)
  with assms show ?thesis by simp
qed

lemma abs_sdiv_le:
  fixes a b :: int
  assumes "0 < c" "c \<le> \<bar>b\<bar>"
  shows "\<bar>a sdiv b\<bar> \<le> \<bar>a\<bar> div c"
proof -
  have "\<bar>a sdiv b\<bar> \<le> \<bar>a\<bar> div \<bar>b\<bar>"
    using assms by (auto simp: signed_divide_int_def abs_mult sgn_if pos_imp_zdiv_nonneg_iff)
  also have "\<dots> \<le> \<bar>a\<bar> div c"
    using assms by (intro zdiv_mono2) simp_all
  finally show ?thesis .
qed

section \<open>Results: a value or an error\<close>

fun rbind :: "'e + 'a \<Rightarrow> ('a \<Rightarrow> 'e + 'b) \<Rightarrow> 'e + 'b" where
  "rbind (Inl e) f = Inl e"
| "rbind (Inr x) f = f x"

lemma rbind_eq_Inr [res_simps]: "rbind r f = Inr y \<longleftrightarrow> (\<exists>x. r = Inr x \<and> f x = Inr y)"
  by (cases r) auto

lemma rbind_eq_Inl [res_simps]:
  "rbind r f = Inl e \<longleftrightarrow> r = Inl e \<or> (\<exists>x. r = Inr x \<and> f x = Inl e)"
  by (cases r) auto

lemma rbind_assoc: "rbind (rbind r f) g = rbind r (\<lambda>x. rbind (f x) g)"
  by (cases r) auto

definition isOK :: "'e + 'a \<Rightarrow> bool" where
  "isOK r = (case r of Inl _ \<Rightarrow> False | Inr _ \<Rightarrow> True)"

lemma isOK_simps [simp]: "\<not> isOK (Inl e)" "isOK (Inr x)"
  by (simp_all add: isOK_def)

lemma isOK_iff: "isOK r \<longleftrightarrow> (\<exists>x. r = Inr x)"
  by (cases r) (auto simp: isOK_def)

lemma if_else_Inr [res_simps]: "(if c then Inl e else r) = Inr y \<longleftrightarrow> \<not> c \<and> r = Inr y"
  by simp

section \<open>Sums computed in 64 bits\<close>

lemma wrap64_mod_simps [simp]:
  "wrap64 (wrap64 a + b) = wrap64 (a + b)" "wrap64 (a + wrap64 b) = wrap64 (a + b)"
  "wrap64 (wrap64 a - b) = wrap64 (a - b)" "wrap64 (a - wrap64 b) = wrap64 (a - b)"
proof -
  obtain k where k: "wrap64 a = a - k * 18446744073709551616" using wrap64_cong by blast
  obtain l where l: "wrap64 b = b - l * 18446744073709551616" using wrap64_cong by blast
  have shift: "wrap64 (x + j * 18446744073709551616) = wrap64 x" for x j
  proof -
    have "x + j * 18446744073709551616 + 9223372036854775808 =
        (x + 9223372036854775808) + j * 18446744073709551616" by simp
    then show ?thesis by (simp only: wrap64_def mod_mult_self1)
  qed
  show "wrap64 (wrap64 a + b) = wrap64 (a + b)"
    using shift [of "a + b" "- k"] by (simp add: k algebra_simps)
  show "wrap64 (a + wrap64 b) = wrap64 (a + b)"
    using shift [of "a + b" "- l"] by (simp add: l algebra_simps)
  show "wrap64 (wrap64 a - b) = wrap64 (a - b)"
    using shift [of "a - b" "- k"] by (simp add: k algebra_simps)
  show "wrap64 (a - wrap64 b) = wrap64 (a - b)"
    using shift [of "a - b" l] by (simp add: l algebra_simps)
qed

definition go_sum :: "int list \<Rightarrow> int" where
  "go_sum xs = foldl (\<lambda>a x. wrap64 (a + x)) 0 xs"

lemma go_sum_foldl: "foldl (\<lambda>a x. wrap64 (a + x)) (wrap64 a) xs = wrap64 (a + sum_list xs)"
  by (induction xs arbitrary: a) (simp_all add: add.assoc)

lemma go_sum_eq: "go_sum xs = wrap64 (sum_list xs)"
  using go_sum_foldl [of 0 xs] by (simp add: go_sum_def)

section \<open>Lists\<close>

lemma sum_list_filter_append:
  "sum_list (map f (filter P (xs @ [x]))) =
     sum_list (map f (filter P xs)) + (if P x then f x else (0::int))"
  by simp

lemma sum_list_partition:
  fixes f :: "'a \<Rightarrow> int"
  assumes "finite A" "\<forall>x \<in> set xs. g x \<in> A"
  shows "(\<Sum>c \<in> A. sum_list (map f (filter (\<lambda>x. g x = c) xs))) = sum_list (map f xs)"
  using assms(2)
proof (induction xs)
  case (Cons x xs)
  have "(\<Sum>c \<in> A. sum_list (map f (filter (\<lambda>y. g y = c) (x # xs)))) =
      (\<Sum>c \<in> A. (if g x = c then f x else 0) + sum_list (map f (filter (\<lambda>y. g y = c) xs)))"
    by (intro sum.cong) simp_all
  also have "\<dots> = f x + sum_list (map f xs)"
    using Cons assms(1) by (simp add: sum.distrib)
  finally show ?case by simp
qed simp

lemma find_append_Some: "List.find P xs = Some x \<Longrightarrow> List.find P (xs @ ys) = Some x"
  by (induction xs) auto

lemma find_append_None: "List.find P xs = None \<Longrightarrow> List.find P (xs @ ys) = List.find P ys"
  by (induction xs) (auto split: if_splits)

lemma find_None_filter: "List.find P xs = None \<longleftrightarrow> filter P xs = []"
  by (auto simp: find_None_iff filter_empty_conv)

end
