(* ===== verification/Go_Strings.thy ===== *)
theory Go_Strings
  imports Go_Base
begin

text \<open>
  The parts of Go's \<open>fmt\<close> and \<open>strings\<close> packages the modelled code calls. A Go string is its
  bytes, a \<open>string\<close> of HOL. \<open>%d\<close> and the zero-padded form are \<open>show_int\<close> and
  \<open>show_int_pad\<close>; \<open>strings.Split\<close> on a one-byte separator is \<open>split_on\<close>;
  \<open>strings.TrimSpace\<close> is \<open>trim_space\<close>, over the UTF-8 encodings of the characters
  \<open>unicode.IsSpace\<close> accepts. The lemmas give what the components need of them: printed
  numbers consist of digits, read back to the number printed, and are left alone by
  trimming and splitting.
\<close>

section \<open>Lower case\<close>

text \<open>\<open>strings.ToLower\<close> on ASCII; the callers compare the result with ASCII texts.\<close>

definition to_lower :: "string \<Rightarrow> string" where
  "to_lower = map (\<lambda>c. let n = of_char c :: nat in if 65 \<le> n \<and> n \<le> 90 then char_of (n + 32) else c)"

section \<open>Printing integers\<close>

definition digit_char :: "nat \<Rightarrow> char" where
  "digit_char d = char_of (48 + d)"

definition is_digit :: "char \<Rightarrow> bool" where
  "is_digit c \<longleftrightarrow> 48 \<le> (of_char c :: nat) \<and> (of_char c :: nat) \<le> 57"

definition digit_val :: "char \<Rightarrow> int" where
  "digit_val c = of_char c - 48"

fun show_nat :: "nat \<Rightarrow> string" where
  "show_nat n = (if n < 10 then [digit_char n] else show_nat (n div 10) @ [digit_char (n mod 10)])"

declare show_nat.simps [simp del]

definition show_int :: "int \<Rightarrow> string" where
  "show_int z = (if z < 0 then CHR ''-'' # show_nat (nat (- z)) else show_nat (nat z))"

definition show_int_pad :: "nat \<Rightarrow> int \<Rightarrow> string" where
  "show_int_pad w z =
     (if z < 0
      then CHR ''-'' # replicate (w - 1 - length (show_nat (nat (- z)))) CHR ''0'' @ show_nat (nat (- z))
      else replicate (w - length (show_nat (nat z))) CHR ''0'' @ show_nat (nat z))"

definition dec_val :: "string \<Rightarrow> int" where
  "dec_val s = foldl (\<lambda>a c. 10 * a + digit_val c) 0 s"

lemma of_char_digit_char: "d < 10 \<Longrightarrow> of_char (digit_char d) = (48 + d :: nat)"
  by (simp add: digit_char_def)

lemma is_digit_digit_char [simp]: "d < 10 \<Longrightarrow> is_digit (digit_char d)"
  by (simp add: is_digit_def of_char_digit_char)

lemma digit_val_digit_char [simp]: "d < 10 \<Longrightarrow> digit_val (digit_char d) = int d"
proof -
  assume d: "d < 10"
  have "(of_char (digit_char d) :: int) = int (of_char (digit_char d))"
    by (simp only: of_nat_of_char)
  with d show ?thesis by (simp add: digit_val_def of_char_digit_char)
qed

lemma digit_val_bounds: "is_digit c \<Longrightarrow> 0 \<le> digit_val c \<and> digit_val c \<le> 9"
proof -
  assume "is_digit c"
  moreover have "(of_char c :: int) = int (of_char c)"
    by (simp only: of_nat_of_char)
  ultimately show ?thesis by (simp add: digit_val_def is_digit_def)
qed

lemma is_digit_0 [simp]: "is_digit CHR ''0''" and digit_val_0 [simp]: "digit_val CHR ''0'' = 0"
  by (simp_all add: is_digit_def digit_val_def)

lemma not_digit_punct [simp]:
  "\<not> is_digit CHR ''-''" "\<not> is_digit CHR ''.''" "\<not> is_digit CHR ''+''" "\<not> is_digit CHR '':''"
  by (simp_all add: is_digit_def)

lemma show_nat_nonempty [simp]: "show_nat n \<noteq> []"
  by (subst show_nat.simps) simp

lemma list_all_show_nat [simp]: "list_all is_digit (show_nat n)"
proof (induction n rule: show_nat.induct)
  case (1 n)
  then show ?case by (subst show_nat.simps) simp
qed

lemma dec_val_append: "dec_val (s @ [c]) = 10 * dec_val s + digit_val c"
  by (simp add: dec_val_def)

lemma dec_val_show_nat [simp]: "dec_val (show_nat n) = int n"
proof (induction n rule: show_nat.induct)
  case (1 n)
  show ?case
  proof (cases "n < 10")
    case True
    then show ?thesis by (subst show_nat.simps) (simp add: dec_val_def)
  next
    case False
    with "1.IH" have "dec_val (show_nat n) = 10 * int (n div 10) + int (n mod 10)"
      by (subst show_nat.simps) (simp add: dec_val_append)
    also have "\<dots> = int (10 * (n div 10) + n mod 10)"
      by (simp only: of_nat_add of_nat_mult of_nat_numeral)
    finally show ?thesis by (simp only: mult_div_mod_eq)
  qed
qed

lemma show_nat_inject [simp]: "show_nat m = show_nat n \<longleftrightarrow> m = n"
  by (metis dec_val_show_nat of_nat_eq_iff)

lemma show_int_inject [simp]: "show_int a = show_int b \<longleftrightarrow> a = b"
proof
  assume eq: "show_int a = show_int b"
  have head: "hd (show_nat n) \<noteq> CHR ''-''" for n
    using list_all_show_nat [of n] not_digit_punct(1) show_nat_nonempty [of n]
    by (metis list.collapse list.pred_inject(2))
  have "a < 0 \<longleftrightarrow> b < 0"
    using eq head by (auto simp: show_int_def split: if_splits) (metis list.sel(1))+
  with eq show "a = b" by (auto simp: show_int_def split: if_splits)
qed simp

text \<open>Leading zeros do not change the value; the padded form has exactly the asked width.\<close>

lemma dec_val_zeros [simp]: "dec_val (replicate k CHR ''0'' @ s) = dec_val s"
  by (induction k) (auto simp: dec_val_def)

lemma dec_val_pad [simp]: "0 \<le> z \<Longrightarrow> dec_val (show_int_pad w z) = z"
  by (simp add: show_int_pad_def)

lemma list_all_pad [simp]: "0 \<le> z \<Longrightarrow> list_all is_digit (show_int_pad w z)"
  by (auto simp: show_int_pad_def list_all_iff)
    (use list_all_show_nat in \<open>auto simp: list_all_iff\<close>)

lemma length_show_nat: "n < 10 ^ k \<Longrightarrow> 0 < k \<Longrightarrow> length (show_nat n) \<le> k"
proof (induction n arbitrary: k rule: show_nat.induct)
  case (1 n)
  show ?case
  proof (cases "n < 10")
    case True
    with "1.prems" show ?thesis by (subst show_nat.simps) simp
  next
    case False
    then have "k \<noteq> 1" using "1.prems" by auto
    then obtain j where k: "k = Suc j" "0 < j"
      using "1.prems"(2) by (cases k) auto
    with "1.prems" have "n div 10 < 10 ^ j" by (simp add: less_mult_imp_div_less mult.commute)
    with "1.IH" False k have "length (show_nat (n div 10)) \<le> j" by blast
    with False k show ?thesis by (subst show_nat.simps) simp
  qed
qed

lemma length_pad [simp]:
  assumes "0 \<le> z" "z < 10 ^ w" "0 < w"
  shows "length (show_int_pad w z) = w"
proof -
  have "nat z < 10 ^ w"
    using assms by (simp add: nat_less_iff)
  then have "length (show_nat (nat z)) \<le> w"
    using assms by (intro length_show_nat) simp_all
  then show ?thesis
    using assms by (simp add: show_int_pad_def)
qed

section \<open>Splitting\<close>

fun split_on :: "char \<Rightarrow> string \<Rightarrow> string list" where
  "split_on c [] = [[]]"
| "split_on c (x # xs) =
     (if x = c then [] # split_on c xs
      else (case split_on c xs of [] \<Rightarrow> [[x]] | w # ws \<Rightarrow> (x # w) # ws))"

lemma split_on_none: "c \<notin> set s \<Longrightarrow> split_on c s = [s]"
  by (induction s) auto

lemma split_on_append: "c \<notin> set s \<Longrightarrow> split_on c (s @ c # t) = s # split_on c t"
  by (induction s) auto

lemma digits_no: "list_all is_digit s \<Longrightarrow> \<not> is_digit c \<Longrightarrow> c \<notin> set s"
  by (auto simp: list_all_iff)

section \<open>Trimming\<close>

text \<open>
  The UTF-8 encodings of the white-space characters: tab, newline, vertical tab, form feed,
  carriage return, space, U+0085, U+00A0, U+1680, U+2000 to U+200A, U+2028, U+2029, U+202F,
  U+205F and U+3000.
\<close>

definition space_seqs :: "string list" where
  "space_seqs =
     map (\<lambda>b. [char_of (b::nat)]) [9, 10, 11, 12, 13, 32] @
     map (map (\<lambda>b. char_of (b::nat))) ([[194, 133], [194, 160], [225, 154, 128]] @
        map (\<lambda>b. [226, 128, b]) ([128 ..< 139] @ [168, 169, 175]) @
        [[226, 129, 159], [227, 128, 128]])"

function trim_with :: "string list \<Rightarrow> string \<Rightarrow> string" where
  "trim_with qs s =
     (case List.find (\<lambda>q. q \<noteq> [] \<and> take (length q) s = q) qs of
        None \<Rightarrow> s
      | Some q \<Rightarrow> trim_with qs (drop (length q) s))"
  by pat_completeness auto
termination
proof (relation "measure (\<lambda>(qs, s). length s)", simp)
  fix qs :: "string list" and s q
  assume "List.find (\<lambda>q. q \<noteq> [] \<and> take (length q) s = q) qs = Some q"
  then have "q \<noteq> []" "take (length q) s = q"
    by (auto simp: find_Some_iff)
  then show "((qs, drop (length q) s), qs, s) \<in> measure (\<lambda>(qs, s). length s)"
    by (cases s) (auto simp: diff_less)
qed

declare trim_with.simps [simp del]

definition trim_space :: "string \<Rightarrow> string" where
  "trim_space s = rev (trim_with (map rev space_seqs) (rev (trim_with space_seqs s)))"

lemma trim_with_id:
  assumes "\<forall>q \<in> set qs. q = [] \<or> hd q \<notin> set s"
  shows "trim_with qs s = s"
proof -
  have "\<not> (q \<noteq> [] \<and> take (length q) s = q)" if "q \<in> set qs" for q
  proof
    assume q: "q \<noteq> [] \<and> take (length q) s = q"
    then have "hd q \<in> set q" by simp
    also have "set q \<subseteq> set s" using q by (metis set_take_subset)
    finally show False using assms that q by blast
  qed
  then have "List.find (\<lambda>q. q \<noteq> [] \<and> take (length q) s = q) qs = None"
    by (auto simp: find_None_iff)
  then show ?thesis by (subst trim_with.simps) simp
qed

lemma trim_space_id:
  assumes "list_all (\<lambda>c. is_digit c \<or> c = CHR ''-'' \<or> c = CHR ''.'') s"
  shows "trim_space s = s"
proof -
  have fwd: "\<forall>q \<in> set space_seqs. \<not> is_digit (hd q) \<and> hd q \<noteq> CHR ''-'' \<and> hd q \<noteq> CHR ''.''"
    by (simp add: space_seqs_def upt_rec is_digit_def char_of_eq_iff)
  have bwd: "\<forall>q \<in> set (map rev space_seqs).
      \<not> is_digit (hd q) \<and> hd q \<noteq> CHR ''-'' \<and> hd q \<noteq> CHR ''.''"
    by (simp add: space_seqs_def upt_rec is_digit_def char_of_eq_iff)
  have "trim_with space_seqs s = s"
    by (rule trim_with_id) (use fwd assms in \<open>auto simp: list_all_iff\<close>)
  moreover have "trim_with (map rev space_seqs) (rev s) = rev s"
    by (rule trim_with_id) (use bwd assms in \<open>auto simp: list_all_iff\<close>)
  ultimately show ?thesis by (simp add: trim_space_def)
qed

end
