(* ===== verification/Wallet_Db.thy ===== *)
theory Wallet_Db
  imports Go_Strings
begin

text \<open>
  The tables behind \<open>packages/wallet\<close> and the SQL statements its functions run. The data types
  are those of \<open>packages/wallet/types.go\<close>; the checks of the statements are the constraints and
  triggers of \<open>packages/db/migrations\<close> (0004, 0029, 0115, 0116, 0118, 0119). A statement that
  violates a constraint is the error \<open>DbError\<close>, after which the caller rolls its transaction
  back, so an error carries no state.

  Conventions: identifiers are strings in the canonical text form of a UUID (so that comparing
  them as strings is comparing them as \<open>UUID\<close> columns); \<open>NOW()\<close> is the field \<open>db_now\<close>, constant
  within a transaction; a row identifier drawn by \<open>uuid.New()\<close> or by the column default is an
  argument of the operation that draws it, and the primary key rejects a collision; row locks
  (\<open>FOR UPDATE\<close>) serialise transactions, so an operation is one function on the tables. The
  event and actor columns of a reversal are kept on the wallet row only: the custody rows of
  the same transaction carry the same two values under the same foreign keys.
\<close>

section \<open>Types (types.go)\<close>

datatype WalletStatus = Active | Frozen | Closed

datatype LedgerType =
    Deposit | AdminFundedDeposit | Withdrawal | ContestEntry | ContestRefund | PrizeCredit
  | Adjustment | AffiliateCommission | WithdrawFee | WithdrawalRefund | WithdrawFeeRefund

datatype ReasonCode =
    RC_ContestEntry | RC_ContestEntryFree | RC_ContestRefundQuorum | RC_ContestRefundAdmin
  | RC_ContestRefundLeave | RC_ContestPrize | RC_WalletTopup | RC_WalletWithdraw

datatype LedgerRefType = PaymentIntentRef | PayoutRef | ContestRef | AdminActionRef | CommissionRef

record Wallet =
  w_UserID :: string
  w_BalanceCents :: int
  w_Currency :: string
  w_Status :: WalletStatus
  w_CreatedAt :: int
  w_UpdatedAt :: int

text \<open>A ledger row; the last three columns are the reversal columns of migration 0119.\<close>

record LedgerEntry =
  le_ID :: string
  le_UserID :: string
  le_Type :: LedgerType
  le_AmountCents :: int
  le_BalanceAfterCents :: int
  le_RefType :: "LedgerRefType option"
  le_RefID :: "string option"
  le_Description :: "string option"
  le_ReasonCode :: "ReasonCode option"
  le_IdempotencyKey :: "string option"
  le_CreatedAt :: int
  le_OriginalID :: "string option"
  le_EventID :: "string option"
  le_ActorID :: "string option"

datatype wallet_error =
    ErrMsg string
  | InsufficientBalanceError int int
  | WalletFrozenError string
  | WalletNotFoundError string
  | DuplicatePrizeCreditError string LedgerEntry
  | DuplicateCreditError string LedgerEntry
  | DbError string

datatype TreasuryKind =
  ExternalDeposit | ContestFeeAllocation | ContestPoolAllocation | TreasuryReversal

record TreasuryEntry =
  te_ID :: string
  te_Kind :: TreasuryKind
  te_AmountCents :: int
  te_BalanceAfterCents :: int
  te_PaymentIntentID :: "string option"
  te_BeneficiaryID :: "string option"
  te_ContestID :: "string option"
  te_ParticipantID :: "string option"
  te_AdmissionID :: "string option"
  te_FeeKind :: "string option"
  te_OriginalID :: "string option"

record TreasuryAccount =
  ta_BalanceCents :: int
  ta_ReconciliationStatus :: string

record ContestFeeEntry =
  fe_ID :: string
  fe_Kind :: string
  fe_AmountCents :: int
  fe_BalanceAfterCents :: int
  fe_ContestID :: string
  fe_ParticipantUserID :: string
  fe_AdmissionID :: string
  fe_PolicyVersion :: string
  fe_PlatformFeeBps :: int
  fe_OriginalEntryID :: "string option"
  fe_CreatedAt :: int

record ContestPrizePoolEntry =
  pe_ID :: string
  pe_ContestID :: string
  pe_PoolAccountID :: string
  pe_AmountCents :: int
  pe_Direction :: string
  pe_Reason :: string
  pe_ReferenceType :: string
  pe_ReferenceID :: string
  pe_ParticipantUserID :: string
  pe_BalanceAfterCents :: int
  pe_IdempotencyKey :: string
  pe_OriginalID :: "string option"
  pe_CreatedAt :: int

record PoolAccount =
  pa_ID :: string
  pa_BalanceCents :: int
  pa_Status :: string
  pa_CreatedAt :: int
  pa_UpdatedAt :: int

text \<open>The columns of \<open>contests\<close> that the financial operations read or write.\<close>

record ContestRow =
  cn_FundsPolicyVersion :: string
  cn_PrizePoolNetCents :: int
  cn_CommissionAmount :: int

record db =
  db_now :: int
  db_users :: "string set"
  db_wallets :: "string \<rightharpoonup> Wallet"
  db_ledger :: "LedgerEntry list"
  db_treasury :: "TreasuryAccount option"
  db_treasury_ledger :: "TreasuryEntry list"
  db_fee_account :: "int option"
  db_fee_ledger :: "ContestFeeEntry list"
  db_contests :: "string \<rightharpoonup> ContestRow"
  db_pools :: "string \<rightharpoonup> PoolAccount"
  db_pool_ledger :: "ContestPrizePoolEntry list"
  db_events :: "string set"

type_synonym 'a result = "wallet_error + 'a"

section \<open>Statements on wallets and wallet_ledger\<close>

text \<open>\<open>UPDATE wallets SET balance_cents = $1, updated_at = NOW() WHERE user_id = $2\<close>\<close>

definition update_wallet_balance :: "string \<Rightarrow> int \<Rightarrow> db \<Rightarrow> db result" where
  "update_wallet_balance userID b d =
     (case db_wallets d userID of
        None \<Rightarrow> Inr d
      | Some w \<Rightarrow>
          if b < 0 then Inl (DbError ''chk_balance_non_negative'')
          else Inr (d\<lparr>db_wallets := (db_wallets d)(userID \<mapsto>
                      w\<lparr>w_BalanceCents := b, w_UpdatedAt := db_now d\<rparr>)\<rparr>))"

definition ledger_by_key :: "string \<Rightarrow> db \<Rightarrow> LedgerEntry option" where
  "ledger_by_key k d = List.find (\<lambda>e. le_IdempotencyKey e = Some k) (db_ledger d)"

definition key_taken :: "string option \<Rightarrow> db \<Rightarrow> bool" where
  "key_taken k d = (case k of None \<Rightarrow> False | Some k \<Rightarrow> ledger_by_key k d \<noteq> None)"

text \<open>\<open>INSERT INTO wallet_ledger\<close> with the constraints of the table.\<close>

definition insert_ledger :: "LedgerEntry \<Rightarrow> db \<Rightarrow> db result" where
  "insert_ledger e d =
     (if le_AmountCents e = 0 then Inl (DbError ''chk_amount_non_zero'')
      else if le_BalanceAfterCents e < 0 then Inl (DbError ''chk_balance_after_non_negative'')
      else if le_UserID e \<notin> db_users d then Inl (DbError ''wallet_ledger_user_id_fkey'')
      else if \<exists>x \<in> set (db_ledger d). le_ID x = le_ID e then Inl (DbError ''wallet_ledger_pkey'')
      else if (case le_IdempotencyKey e of None \<Rightarrow> False | Some k \<Rightarrow> length k > 255)
        then Inl (DbError ''value too long for type character varying(255)'')
      else if key_taken (le_IdempotencyKey e) d then Inl (DbError ''idx_wallet_ledger_idempotency_key'')
      else if le_OriginalID e \<noteq> None \<and> (\<exists>x \<in> set (db_ledger d). le_OriginalID x = le_OriginalID e)
        then Inl (DbError ''uq_wallet_reversal_original'')
      else if (case le_OriginalID e of None \<Rightarrow> False | Some i \<Rightarrow> \<forall>x \<in> set (db_ledger d). le_ID x \<noteq> i)
        then Inl (DbError ''wallet_ledger_original_transaction_id_fkey'')
      else if (case le_EventID e of None \<Rightarrow> False | Some i \<Rightarrow> i \<notin> db_events d)
        then Inl (DbError ''wallet_ledger_lifecycle_event_id_fkey'')
      else if (case le_ActorID e of None \<Rightarrow> False | Some i \<Rightarrow> i \<notin> db_users d)
        then Inl (DbError ''wallet_ledger_reversal_actor_id_fkey'')
      else Inr (d\<lparr>db_ledger := db_ledger d @ [e]\<rparr>))"

text \<open>\<open>INSERT INTO wallets (user_id) VALUES ($1) ON CONFLICT (user_id) DO NOTHING\<close>\<close>

definition insert_wallet :: "string \<Rightarrow> db \<Rightarrow> db result" where
  "insert_wallet userID d =
     (case db_wallets d userID of
        Some w \<Rightarrow> Inr d
      | None \<Rightarrow>
          if userID \<notin> db_users d then Inl (DbError ''wallets_user_id_fkey'')
          else Inr (d\<lparr>db_wallets := (db_wallets d)(userID \<mapsto>
             \<lparr>w_UserID = userID, w_BalanceCents = 0, w_Currency = ''USD'', w_Status = Active,
              w_CreatedAt = db_now d, w_UpdatedAt = db_now d\<rparr>)\<rparr>))"

definition update_wallet_status :: "WalletStatus \<Rightarrow> string \<Rightarrow> db \<Rightarrow> db" where
  "update_wallet_status st userID d =
     (case db_wallets d userID of
        None \<Rightarrow> d
      | Some w \<Rightarrow> d\<lparr>db_wallets := (db_wallets d)(userID \<mapsto>
                     w\<lparr>w_Status := st, w_UpdatedAt := db_now d\<rparr>)\<rparr>)"

section \<open>Statements on the custody tables\<close>

definition update_treasury_balance :: "int \<Rightarrow> db \<Rightarrow> db result" where
  "update_treasury_balance b d =
     (case db_treasury d of
        None \<Rightarrow> Inr d
      | Some t \<Rightarrow> if b < 0 then Inl (DbError ''chk_treasury_balance_non_negative'')
                  else Inr (d\<lparr>db_treasury := Some (t\<lparr>ta_BalanceCents := b\<rparr>)\<rparr>))"

definition update_fee_balance :: "int \<Rightarrow> db \<Rightarrow> db result" where
  "update_fee_balance b d =
     (case db_fee_account d of
        None \<Rightarrow> Inr d
      | Some _ \<Rightarrow> if b < 0 then Inl (DbError ''chk_contest_fee_balance_non_negative'')
                  else Inr (d\<lparr>db_fee_account := Some b\<rparr>))"

text \<open>The shape check, the unique indexes and the reversal trigger of \<open>treasury_ledger\<close>.\<close>

definition treasury_shape :: "TreasuryEntry \<Rightarrow> bool" where
  "treasury_shape e =
     (case te_Kind e of
        ExternalDeposit \<Rightarrow> te_AmountCents e > 0 \<and> te_PaymentIntentID e \<noteq> None
          \<and> te_BeneficiaryID e \<noteq> None \<and> te_ContestID e = None \<and> te_ParticipantID e = None
          \<and> te_AdmissionID e = None \<and> te_FeeKind e = None \<and> te_OriginalID e = None
      | ContestFeeAllocation \<Rightarrow> te_AmountCents e < 0 \<and> te_PaymentIntentID e = None
          \<and> te_BeneficiaryID e = None \<and> te_ContestID e \<noteq> None \<and> te_ParticipantID e \<noteq> None
          \<and> te_AdmissionID e \<noteq> None \<and> te_OriginalID e = None
          \<and> (te_FeeKind e = Some ''contest_base_fee'' \<or> te_FeeKind e = Some ''contest_late_surcharge'')
      | ContestPoolAllocation \<Rightarrow> te_AmountCents e < 0 \<and> te_PaymentIntentID e = None
          \<and> te_BeneficiaryID e = None \<and> te_ContestID e \<noteq> None \<and> te_ParticipantID e \<noteq> None
          \<and> te_AdmissionID e \<noteq> None \<and> te_OriginalID e = None \<and> te_FeeKind e = None
      | TreasuryReversal \<Rightarrow> te_AmountCents e > 0 \<and> te_PaymentIntentID e = None
          \<and> te_BeneficiaryID e = None \<and> te_ContestID e \<noteq> None \<and> te_ParticipantID e \<noteq> None
          \<and> te_AdmissionID e \<noteq> None \<and> te_OriginalID e \<noteq> None)"

definition treasury_conflict :: "TreasuryEntry \<Rightarrow> TreasuryEntry \<Rightarrow> bool" where
  "treasury_conflict e x \<longleftrightarrow>
     te_ID x = te_ID e
     \<or> (te_PaymentIntentID e \<noteq> None \<and> te_PaymentIntentID x = te_PaymentIntentID e)
     \<or> (te_Kind e = ContestFeeAllocation \<and> te_Kind x = ContestFeeAllocation
        \<and> te_AdmissionID x = te_AdmissionID e \<and> te_FeeKind x = te_FeeKind e)
     \<or> (te_Kind e = ContestPoolAllocation \<and> te_Kind x = ContestPoolAllocation
        \<and> te_AdmissionID x = te_AdmissionID e)
     \<or> (te_OriginalID e \<noteq> None \<and> te_OriginalID x = te_OriginalID e)"

definition treasury_reverses :: "TreasuryEntry \<Rightarrow> TreasuryEntry \<Rightarrow> bool" where
  "treasury_reverses e x \<longleftrightarrow>
     te_OriginalID e = Some (te_ID x)
     \<and> (te_Kind x = ContestFeeAllocation \<or> te_Kind x = ContestPoolAllocation)
     \<and> te_AmountCents e = - te_AmountCents x \<and> te_ContestID e = te_ContestID x
     \<and> te_ParticipantID e = te_ParticipantID x \<and> te_AdmissionID e = te_AdmissionID x
     \<and> te_FeeKind e = te_FeeKind x"

definition insert_treasury :: "TreasuryEntry \<Rightarrow> db \<Rightarrow> db result" where
  "insert_treasury e d =
     (if db_treasury d = None then Inl (DbError ''treasury_ledger_treasury_purpose_fkey'')
      else if \<not> treasury_shape e then Inl (DbError ''chk_treasury_entry_shape'')
      else if te_BalanceAfterCents e < 0 then Inl (DbError ''chk_treasury_ledger_balance_non_negative'')
      else if (case te_ContestID e of None \<Rightarrow> False | Some c \<Rightarrow> db_contests d c = None)
        then Inl (DbError ''treasury_ledger_contest_id_fkey'')
      else if (case te_ParticipantID e of None \<Rightarrow> False | Some u \<Rightarrow> u \<notin> db_users d)
        then Inl (DbError ''treasury_ledger_participant_user_id_fkey'')
      else if \<exists>x \<in> set (db_treasury_ledger d). treasury_conflict e x then Inl (DbError ''treasury_ledger unique index'')
      else if te_Kind e = TreasuryReversal \<and> \<not> (\<exists>x \<in> set (db_treasury_ledger d). treasury_reverses e x)
        then Inl (DbError ''Treasury reversal must exactly match its original posting'')
      else Inr (d\<lparr>db_treasury_ledger := db_treasury_ledger d @ [e]\<rparr>))"

definition is_fee_inflow :: "string \<Rightarrow> bool" where
  "is_fee_inflow k \<longleftrightarrow> k = ''contest_base_fee'' \<or> k = ''contest_late_surcharge''"

definition fee_conflict :: "ContestFeeEntry \<Rightarrow> ContestFeeEntry \<Rightarrow> bool" where
  "fee_conflict e x \<longleftrightarrow>
     fe_ID x = fe_ID e
     \<or> (fe_OriginalEntryID e \<noteq> None \<and> fe_OriginalEntryID x = fe_OriginalEntryID e)
     \<or> (is_fee_inflow (fe_Kind e) \<and> fe_Kind x = fe_Kind e \<and> fe_AdmissionID x = fe_AdmissionID e)"

definition fee_reverses :: "ContestFeeEntry \<Rightarrow> ContestFeeEntry \<Rightarrow> bool" where
  "fee_reverses e x \<longleftrightarrow>
     fe_OriginalEntryID e = Some (fe_ID x) \<and> is_fee_inflow (fe_Kind x)
     \<and> fe_AmountCents e = - fe_AmountCents x \<and> fe_ContestID e = fe_ContestID x
     \<and> fe_ParticipantUserID e = fe_ParticipantUserID x \<and> fe_AdmissionID e = fe_AdmissionID x
     \<and> fe_PolicyVersion e = fe_PolicyVersion x \<and> fe_PlatformFeeBps e = fe_PlatformFeeBps x"

definition fee_shape :: "ContestFeeEntry \<Rightarrow> bool" where
  "fee_shape e \<longleftrightarrow>
     ((is_fee_inflow (fe_Kind e) \<and> fe_AmountCents e > 0 \<and> fe_OriginalEntryID e = None)
      \<or> (fe_Kind e = ''contest_fee_refund_reversal'' \<and> fe_AmountCents e < 0 \<and> fe_OriginalEntryID e \<noteq> None))
     \<and> fe_BalanceAfterCents e \<ge> 0 \<and> fe_PolicyVersion e = ''2026-09-06.1''
     \<and> 1 \<le> fe_PlatformFeeBps e \<and> fe_PlatformFeeBps e \<le> 10000"

definition insert_fee :: "ContestFeeEntry \<Rightarrow> db \<Rightarrow> db result" where
  "insert_fee e d =
     (if db_fee_account d = None then Inl (DbError ''contest_fee_ledger_fee_wallet_purpose_fkey'')
      else if \<not> fee_shape e then Inl (DbError ''chk_contest_fee_entry'')
      else if db_contests d (fe_ContestID e) = None then Inl (DbError ''contest_fee_ledger_contest_id_fkey'')
      else if fe_ParticipantUserID e \<notin> db_users d
        then Inl (DbError ''contest_fee_ledger_participant_user_id_fkey'')
      else if \<exists>x \<in> set (db_fee_ledger d). fee_conflict e x then Inl (DbError ''contest_fee_ledger unique index'')
      else if fe_Kind e = ''contest_fee_refund_reversal'' \<and> \<not> (\<exists>x \<in> set (db_fee_ledger d). fee_reverses e x)
        then Inl (DbError ''contest fee reversal must exactly match its original posting'')
      else Inr (d\<lparr>db_fee_ledger := db_fee_ledger d @ [e]\<rparr>))"

definition pool_conflict :: "ContestPrizePoolEntry \<Rightarrow> ContestPrizePoolEntry \<Rightarrow> bool" where
  "pool_conflict e x \<longleftrightarrow>
     pe_ID x = pe_ID e \<or> pe_IdempotencyKey x = pe_IdempotencyKey e
     \<or> (pe_ContestID x = pe_ContestID e \<and> pe_ReferenceID x = pe_ReferenceID e)
     \<or> (pe_OriginalID e \<noteq> None \<and> pe_OriginalID x = pe_OriginalID e)"

definition pool_reverses :: "ContestPrizePoolEntry \<Rightarrow> ContestPrizePoolEntry \<Rightarrow> bool" where
  "pool_reverses e x \<longleftrightarrow>
     pe_OriginalID e = Some (pe_ID x) \<and> pe_Direction x = ''credit''
     \<and> pe_AmountCents e = - pe_AmountCents x \<and> pe_ContestID e = pe_ContestID x
     \<and> pe_PoolAccountID e = pe_PoolAccountID x \<and> pe_ParticipantUserID e = pe_ParticipantUserID x"

definition pool_shape :: "ContestPrizePoolEntry \<Rightarrow> bool" where
  "pool_shape e \<longleftrightarrow>
     ((pe_Direction e = ''credit'' \<and> pe_AmountCents e > 0 \<and> pe_Reason e = ''contest_admission''
       \<and> pe_ReferenceType e = ''contest_admission'' \<and> pe_OriginalID e = None)
      \<or> (pe_Direction e = ''debit'' \<and> pe_AmountCents e < 0 \<and> pe_Reason e = ''participant_refund''
         \<and> pe_ReferenceType e = ''lifecycle_event'' \<and> pe_OriginalID e \<noteq> None))
     \<and> pe_BalanceAfterCents e \<ge> 0"

definition insert_pool :: "ContestPrizePoolEntry \<Rightarrow> db \<Rightarrow> db result" where
  "insert_pool e d =
     (case db_pools d (pe_ContestID e) of
        None \<Rightarrow> Inl (DbError ''Prize Pool ledger contest/account ownership mismatch'')
      | Some a \<Rightarrow>
          if pa_ID a \<noteq> pe_PoolAccountID e
            then Inl (DbError ''Prize Pool ledger contest/account ownership mismatch'')
          else if \<not> pool_shape e then Inl (DbError ''chk_pool_entry_shape'')
          else if pe_ParticipantUserID e \<notin> db_users d
            then Inl (DbError ''contest_prize_pool_ledger_participant_user_id_fkey'')
          else if \<exists>x \<in> set (db_pool_ledger d). pool_conflict e x
            then Inl (DbError ''contest_prize_pool_ledger unique index'')
          else if pe_OriginalID e \<noteq> None \<and> \<not> (\<exists>x \<in> set (db_pool_ledger d). pool_reverses e x)
            then Inl (DbError ''Prize Pool reversal must exactly match its original posting'')
          else Inr (d\<lparr>db_pool_ledger := db_pool_ledger d @ [e]\<rparr>))"

text \<open>
  \<open>UPDATE contest_prize_pool_accounts SET balance_cents=$1, updated_at=NOW() WHERE id=$2\<close> under
  the trigger of migration 0118: the new balance must be the sum of the ledger, and an update
  that leaves the balance as it is must leave the time stamp as it is.
\<close>

definition pool_ledger_sum :: "string \<Rightarrow> db \<Rightarrow> int" where
  "pool_ledger_sum accountID d =
     sum_list (map pe_AmountCents (filter (\<lambda>e. pe_PoolAccountID e = accountID) (db_pool_ledger d)))"

definition update_pool_balance :: "string \<Rightarrow> int \<Rightarrow> db \<Rightarrow> db result" where
  "update_pool_balance contestID b d =
     (case db_pools d contestID of
        None \<Rightarrow> Inr d
      | Some a \<Rightarrow>
          if b < 0 then Inl (DbError ''contest_prize_pool_accounts_balance_cents_check'')
          else if b \<noteq> pa_BalanceCents a \<and> b \<noteq> pool_ledger_sum (pa_ID a) d
            then Inl (DbError ''direct contest Prize Pool balance update forbidden'')
          else if b = pa_BalanceCents a \<and> db_now d \<noteq> pa_UpdatedAt a
            then Inl (DbError ''contest Prize Pool account update requires a ledger movement'')
          else Inr (d\<lparr>db_pools := (db_pools d)(contestID \<mapsto>
                      a\<lparr>pa_BalanceCents := b, pa_UpdatedAt := db_now d\<rparr>)\<rparr>))"

section \<open>Accounts with a ledger\<close>

text \<open>
  The contract that the wallets, the treasury, the fee wallet and the prize pools share: a
  posting appends a batch of amounts to the movements of one account, moves its balance by
  their sum without making it negative, and touches no other account. The invariant
  \<open>balanced\<close> and its preservation are proved once, from the contract.
\<close>

locale account_ledger =
  fixes balance :: "'s \<Rightarrow> 'k \<Rightarrow> int option"
    and movements :: "'s \<Rightarrow> 'k \<Rightarrow> int list"
    and posts :: "'s \<Rightarrow> 'k \<Rightarrow> int list \<Rightarrow> 's \<Rightarrow> bool"
  assumes posts_balance: "posts s k as s' \<Longrightarrow>
      \<exists>b. balance s k = Some b \<and> balance s' k = Some (b + sum_list as) \<and> 0 \<le> b + sum_list as"
    and posts_movements: "posts s k as s' \<Longrightarrow> movements s' k = movements s k @ as"
    and posts_other: "posts s k as s' \<Longrightarrow> j \<noteq> k \<Longrightarrow> balance s' j = balance s j \<and> movements s' j = movements s j"
begin

definition balanced :: "'s \<Rightarrow> bool" where
  "balanced s \<longleftrightarrow> (\<forall>k b. balance s k = Some b \<longrightarrow> b = sum_list (movements s k) \<and> 0 \<le> b)"

lemma balancedD: "balanced s \<Longrightarrow> balance s k = Some b \<Longrightarrow> b = sum_list (movements s k) \<and> 0 \<le> b"
  by (simp add: balanced_def)

lemma posts_balanced:
  assumes "balanced s" "posts s k as s'"
  shows "balanced s'"
  unfolding balanced_def
proof (intro allI impI)
  fix j b assume b: "balance s' j = Some b"
  show "b = sum_list (movements s' j) \<and> 0 \<le> b"
  proof (cases "j = k")
    case True
    with b posts_balance [OF assms(2)] posts_movements [OF assms(2)] balancedD [OF assms(1)]
    show ?thesis by auto
  next
    case False
    with b posts_other [OF assms(2)] balancedD [OF assms(1)] show ?thesis by metis
  qed
qed

lemma frame_balanced:
  "balanced s \<Longrightarrow> balance s' = balance s \<Longrightarrow> movements s' = movements s \<Longrightarrow> balanced s'"
  by (simp add: balanced_def)

end

section \<open>The wallet ledger\<close>

definition wallet_balance :: "db \<Rightarrow> string \<Rightarrow> int option" where
  "wallet_balance d u = map_option w_BalanceCents (db_wallets d u)"

definition user_entries :: "db \<Rightarrow> string \<Rightarrow> LedgerEntry list" where
  "user_entries d u = filter (\<lambda>e. le_UserID e = u) (db_ledger d)"

definition wallet_movements :: "db \<Rightarrow> string \<Rightarrow> int list" where
  "wallet_movements d u = map le_AmountCents (user_entries d u)"

text \<open>
  The effect that every successful money operation on a user wallet has: the balance of one
  wallet and one new ledger row that records the movement and the balance after it.
\<close>

definition entry_posted :: "LedgerEntry \<Rightarrow> db \<Rightarrow> db \<Rightarrow> bool" where
  "entry_posted e d d' \<longleftrightarrow>
     (\<exists>w. db_wallets d (le_UserID e) = Some w
        \<and> le_BalanceAfterCents e = w_BalanceCents w + le_AmountCents e
        \<and> 0 \<le> le_BalanceAfterCents e \<and> le_BalanceAfterCents e \<le> max_i64 \<and> le_AmountCents e \<noteq> 0
        \<and> (\<forall>x \<in> set (db_ledger d). le_ID x \<noteq> le_ID e)
        \<and> (\<forall>k. le_IdempotencyKey e = Some k \<longrightarrow> (\<forall>x \<in> set (db_ledger d). le_IdempotencyKey x \<noteq> Some k))
        \<and> d' = d\<lparr>db_wallets := (db_wallets d)(le_UserID e \<mapsto>
                    w\<lparr>w_BalanceCents := le_BalanceAfterCents e, w_UpdatedAt := db_now d\<rparr>),
                 db_ledger := db_ledger d @ [e]\<rparr>)"

definition wallet_posts :: "db \<Rightarrow> string \<Rightarrow> int list \<Rightarrow> db \<Rightarrow> bool" where
  "wallet_posts d u as d' \<longleftrightarrow> (\<exists>e. le_UserID e = u \<and> as = [le_AmountCents e] \<and> entry_posted e d d')"

interpretation wallets: account_ledger wallet_balance wallet_movements wallet_posts
proof unfold_locales
  fix d d' :: db and u v :: string and as :: "int list"
  assume "wallet_posts d u as d'"
  then obtain e where e: "le_UserID e = u" "as = [le_AmountCents e]" "entry_posted e d d'"
    by (auto simp: wallet_posts_def)
  then show "\<exists>b. wallet_balance d u = Some b \<and> wallet_balance d' u = Some (b + sum_list as) \<and> 0 \<le> b + sum_list as"
    by (auto simp: entry_posted_def wallet_balance_def)
  from e show "wallet_movements d' u = wallet_movements d u @ as"
    by (auto simp: entry_posted_def wallet_movements_def user_entries_def)
  assume "v \<noteq> u"
  with e show "wallet_balance d' v = wallet_balance d v \<and> wallet_movements d' v = wallet_movements d v"
    by (auto simp: entry_posted_def wallet_balance_def wallet_movements_def user_entries_def)
qed

text \<open>The custody tables are the same.\<close>

definition same_custody :: "db \<Rightarrow> db \<Rightarrow> bool" where
  "same_custody d d' \<longleftrightarrow> db_treasury d' = db_treasury d \<and> db_treasury_ledger d' = db_treasury_ledger d
     \<and> db_fee_account d' = db_fee_account d \<and> db_fee_ledger d' = db_fee_ledger d
     \<and> db_pools d' = db_pools d \<and> db_pool_ledger d' = db_pool_ledger d"

lemma same_custody_refl [simp]: "same_custody d d"
  by (simp add: same_custody_def)

lemma entry_posted_custody: "entry_posted e d d' \<Longrightarrow> same_custody d d'"
  by (auto simp: entry_posted_def same_custody_def)

section \<open>Sample tables\<close>

text \<open>
  The tables right after the migrations, and the tables after one user has deposited 100.00
  into them, for evaluating operations on concrete data.
\<close>

definition empty_db :: db where
  "empty_db = \<lparr>db_now = 0, db_users = {}, db_wallets = Map.empty, db_ledger = [],
     db_treasury = Some \<lparr>ta_BalanceCents = 0, ta_ReconciliationStatus = ''forward_only_unreconciled''\<rparr>,
     db_treasury_ledger = [], db_fee_account = Some 0, db_fee_ledger = [], db_contests = Map.empty,
     db_pools = Map.empty, db_pool_ledger = [], db_events = {}\<rparr>"

definition sample_db :: db where
  "sample_db = \<lparr>db_now = 9, db_users = {''u1'', ''adm''},
     db_wallets = [''u1'' \<mapsto> \<lparr>w_UserID = ''u1'', w_BalanceCents = 10000, w_Currency = ''USD'',
       w_Status = Active, w_CreatedAt = 1, w_UpdatedAt = 2\<rparr>],
     db_ledger = [\<lparr>le_ID = ''e1'', le_UserID = ''u1'', le_Type = Deposit, le_AmountCents = 10000,
       le_BalanceAfterCents = 10000, le_RefType = Some PaymentIntentRef, le_RefID = Some ''p1'',
       le_Description = None, le_ReasonCode = None, le_IdempotencyKey = Some ''deposit:p1'',
       le_CreatedAt = 2, le_OriginalID = None, le_EventID = None, le_ActorID = None\<rparr>],
     db_treasury = Some \<lparr>ta_BalanceCents = 10000, ta_ReconciliationStatus = ''forward_only_unreconciled''\<rparr>,
     db_treasury_ledger = [\<lparr>te_ID = ''t1'', te_Kind = ExternalDeposit, te_AmountCents = 10000,
       te_BalanceAfterCents = 10000, te_PaymentIntentID = Some ''p1'', te_BeneficiaryID = Some ''u1'',
       te_ContestID = None, te_ParticipantID = None, te_AdmissionID = None, te_FeeKind = None,
       te_OriginalID = None\<rparr>],
     db_fee_account = Some 0, db_fee_ledger = [], db_contests = [''c1'' \<mapsto>
       \<lparr>cn_FundsPolicyVersion = ''contest_funds_v1'', cn_PrizePoolNetCents = 0, cn_CommissionAmount = 0\<rparr>],
     db_pools = [''c1'' \<mapsto> \<lparr>pa_ID = ''a1'', pa_BalanceCents = 0, pa_Status = ''active'',
       pa_CreatedAt = 1, pa_UpdatedAt = 1\<rparr>],
     db_pool_ledger = [], db_events = {''ev1''}\<rparr>"

end
