(* ===== verification/Wallet.thy ===== *)
theory Wallet
  imports Wallet_Db
begin

text \<open>
  \<open>packages/wallet/wallet.go\<close>, user wallets: reading and creating wallets, debits, credits,
  idempotent credits, contest entry fees, refunds, prizes, affiliate commissions, ledger
  queries, freezing. An operation takes the tables and returns the new tables and the ledger
  entry, or the error. The lemmas show that each successful operation posts exactly one ledger
  entry (\<open>entry_posted\<close>) or leaves the tables alone, so that every reachable state keeps the
  invariant \<open>wallet_inv\<close>: each balance is the sum of its ledger and non-negative, each row
  carries the running balance, and idempotency keys are unique.
\<close>

section \<open>Wallets\<close>

definition getWallet :: "string \<Rightarrow> db \<Rightarrow> Wallet result" where
  "getWallet userID d =
     (case db_wallets d userID of None \<Rightarrow> Inl (WalletNotFoundError userID) | Some w \<Rightarrow> Inr w)"

definition GetBalance :: "string \<Rightarrow> db \<Rightarrow> int result" where
  "GetBalance userID d = rbind (getWallet userID d) (\<lambda>w. Inr (w_BalanceCents w))"

definition GetBalanceTx :: "string \<Rightarrow> db \<Rightarrow> int result" where
  "GetBalanceTx userID d =
     (case db_wallets d userID of
        None \<Rightarrow> Inl (WalletNotFoundError userID)
      | Some w \<Rightarrow> if w_Status w = Frozen then Inl (WalletFrozenError userID)
                  else Inr (w_BalanceCents w))"

definition CreateWallet :: "string \<Rightarrow> db \<Rightarrow> (db \<times> Wallet) result" where
  "CreateWallet userID d =
     rbind (insert_wallet userID d) (\<lambda>d.
       case db_wallets d userID of
         None \<Rightarrow> Inl (DbError ''failed to fetch wallet'')
       | Some w \<Rightarrow> Inr (d, w))"

definition HasSufficientBalance :: "string \<Rightarrow> int \<Rightarrow> db \<Rightarrow> bool result" where
  "HasSufficientBalance userID requiredCents d =
     rbind (getWallet userID d) (\<lambda>w.
       if w_Status w = Frozen then Inl (WalletFrozenError userID)
       else Inr (w_BalanceCents w \<ge> requiredCents))"

definition FreezeWallet :: "string \<Rightarrow> db \<Rightarrow> db" where
  "FreezeWallet userID d = update_wallet_status Frozen userID d"

definition UnfreezeWallet :: "string \<Rightarrow> db \<Rightarrow> db" where
  "UnfreezeWallet userID d = update_wallet_status Active userID d"

section \<open>Ledger entries\<close>

text \<open>Go's zero \<open>time.Time\<close>, in microseconds since the Unix epoch.\<close>

definition zero_time :: int where "zero_time = - 62135596800000000"

definition createLedgerEntryWithIdempotency ::
    "string \<Rightarrow> string \<Rightarrow> int \<Rightarrow> int \<Rightarrow> LedgerType \<Rightarrow> LedgerRefType option \<Rightarrow> string option
     \<Rightarrow> string option \<Rightarrow> ReasonCode option \<Rightarrow> string option \<Rightarrow> db \<Rightarrow> (db \<times> LedgerEntry) result" where
  "createLedgerEntryWithIdempotency entryID userID amountCents balanceAfterCents ledgerType
      refType refID description reasonCode idempotencyKey d =
     (let e = \<lparr>le_ID = entryID, le_UserID = userID, le_Type = ledgerType,
               le_AmountCents = amountCents, le_BalanceAfterCents = balanceAfterCents,
               le_RefType = refType, le_RefID = refID, le_Description = description,
               le_ReasonCode = reasonCode, le_IdempotencyKey = idempotencyKey,
               le_CreatedAt = db_now d, le_OriginalID = None, le_EventID = None, le_ActorID = None\<rparr>
      in rbind (insert_ledger e d) (\<lambda>d. Inr (d, e\<lparr>le_CreatedAt := zero_time\<rparr>)))"

definition createLedgerEntry ::
    "string \<Rightarrow> string \<Rightarrow> int \<Rightarrow> int \<Rightarrow> LedgerType \<Rightarrow> LedgerRefType option \<Rightarrow> string option
     \<Rightarrow> string option \<Rightarrow> ReasonCode option \<Rightarrow> db \<Rightarrow> (db \<times> LedgerEntry) result" where
  "createLedgerEntry entryID userID amountCents balanceAfterCents ledgerType refType refID
      description reasonCode d =
     createLedgerEntryWithIdempotency entryID userID amountCents balanceAfterCents ledgerType
       refType refID description reasonCode None d"

section \<open>Debits and credits\<close>

definition DebitWithReason ::
    "string \<Rightarrow> string \<Rightarrow> int \<Rightarrow> LedgerType \<Rightarrow> LedgerRefType option \<Rightarrow> string option
     \<Rightarrow> string option \<Rightarrow> ReasonCode option \<Rightarrow> db \<Rightarrow> (db \<times> LedgerEntry) result" where
  "DebitWithReason entryID userID amountCents ledgerType refType refID description reasonCode d =
     (if amountCents \<le> 0 then Inl (ErrMsg ''debit amount must be positive'')
      else rbind (GetBalanceTx userID d) (\<lambda>balance.
        if balance < amountCents then Inl (InsufficientBalanceError amountCents balance)
        else let newBalance = wrap64 (balance - amountCents) in
          rbind (update_wallet_balance userID newBalance d) (\<lambda>d.
            createLedgerEntry entryID userID (wrap64 (- amountCents)) newBalance ledgerType
              refType refID description reasonCode d)))"

definition Debit ::
    "string \<Rightarrow> string \<Rightarrow> int \<Rightarrow> LedgerType \<Rightarrow> LedgerRefType option \<Rightarrow> string option
     \<Rightarrow> string option \<Rightarrow> db \<Rightarrow> (db \<times> LedgerEntry) result" where
  "Debit entryID userID amountCents ledgerType refType refID description d =
     DebitWithReason entryID userID amountCents ledgerType refType refID description None d"

text \<open>The balance a credit starts from: a frozen wallet still takes prizes and refunds.\<close>

definition creditBalance :: "bool \<Rightarrow> string \<Rightarrow> db \<Rightarrow> int result" where
  "creditBalance frozenAllowed userID d =
     (case GetBalanceTx userID d of
        Inr b \<Rightarrow> Inr b
      | Inl (WalletFrozenError u) \<Rightarrow>
          if frozenAllowed then
            (case db_wallets d userID of
               None \<Rightarrow> Inl (DbError ''failed to get balance'')
             | Some w \<Rightarrow> Inr (w_BalanceCents w))
          else Inl (WalletFrozenError u)
      | Inl e \<Rightarrow> Inl e)"

definition CreditWithReason ::
    "string \<Rightarrow> string \<Rightarrow> int \<Rightarrow> LedgerType \<Rightarrow> LedgerRefType option \<Rightarrow> string option
     \<Rightarrow> string option \<Rightarrow> ReasonCode option \<Rightarrow> db \<Rightarrow> (db \<times> LedgerEntry) result" where
  "CreditWithReason entryID userID amountCents ledgerType refType refID description reasonCode d =
     (if amountCents \<le> 0 then Inl (ErrMsg ''credit amount must be positive'')
      else rbind (creditBalance (ledgerType = PrizeCredit \<or> ledgerType = ContestRefund) userID d) (\<lambda>balance.
        let newBalance = wrap64 (balance + amountCents) in
          rbind (update_wallet_balance userID newBalance d) (\<lambda>d.
            createLedgerEntry entryID userID amountCents newBalance ledgerType
              refType refID description reasonCode d)))"

definition Credit ::
    "string \<Rightarrow> string \<Rightarrow> int \<Rightarrow> LedgerType \<Rightarrow> LedgerRefType option \<Rightarrow> string option
     \<Rightarrow> string option \<Rightarrow> db \<Rightarrow> (db \<times> LedgerEntry) result" where
  "Credit entryID userID amountCents ledgerType refType refID description d =
     CreditWithReason entryID userID amountCents ledgerType refType refID description None d"

definition CreditIdempotentWithReason ::
    "string \<Rightarrow> string \<Rightarrow> int \<Rightarrow> LedgerType \<Rightarrow> LedgerRefType option \<Rightarrow> string option
     \<Rightarrow> string option \<Rightarrow> ReasonCode option \<Rightarrow> string \<Rightarrow> db \<Rightarrow> (db \<times> LedgerEntry) result" where
  "CreditIdempotentWithReason entryID userID amountCents ledgerType refType refID description
      reasonCode idempotencyKey d =
     (if amountCents \<le> 0 then Inl (ErrMsg ''credit amount must be positive'')
      else case ledger_by_key idempotencyKey d of
        Some existingEntry \<Rightarrow> Inl (DuplicateCreditError idempotencyKey existingEntry)
      | None \<Rightarrow>
          rbind (creditBalance (ledgerType = PrizeCredit \<or> ledgerType = ContestRefund) userID d) (\<lambda>balance.
            let newBalance = wrap64 (balance + amountCents) in
              rbind (update_wallet_balance userID newBalance d) (\<lambda>d.
                createLedgerEntryWithIdempotency entryID userID amountCents newBalance ledgerType
                  refType refID description reasonCode (Some idempotencyKey) d)))"

definition CreditIdempotent ::
    "string \<Rightarrow> string \<Rightarrow> int \<Rightarrow> LedgerType \<Rightarrow> LedgerRefType option \<Rightarrow> string option
     \<Rightarrow> string option \<Rightarrow> string \<Rightarrow> db \<Rightarrow> (db \<times> LedgerEntry) result" where
  "CreditIdempotent entryID userID amountCents ledgerType refType refID description idempotencyKey d =
     CreditIdempotentWithReason entryID userID amountCents ledgerType refType refID description
       None idempotencyKey d"

section \<open>Contest entries, refunds and prizes\<close>

definition entryFeeDescription :: "string \<Rightarrow> string \<Rightarrow> string" where
  "entryFeeDescription contestName contestID =
     (if contestName \<noteq> '''' then ''Entry fee for contest '' @ contestName @ '' (ID: '' @ contestID @ '')''
      else ''Entry fee for contest '' @ contestID)"

definition contestEntryKey :: "string \<Rightarrow> string \<Rightarrow> string" where
  "contestEntryKey contestID userID = ''contest_entry:'' @ contestID @ '':'' @ userID"

definition some_entry :: "(db \<times> LedgerEntry) result \<Rightarrow> (db \<times> LedgerEntry option) result" where
  "some_entry r = rbind r (\<lambda>(d, e). Inr (d, Some e))"

definition DeductContestEntryFeeWithName ::
    "string \<Rightarrow> string \<Rightarrow> string \<Rightarrow> string \<Rightarrow> int \<Rightarrow> db \<Rightarrow> (db \<times> LedgerEntry option) result" where
  "DeductContestEntryFeeWithName entryID userID contestID contestName entryFeeCents d =
     (if entryFeeCents \<le> 0 then Inr (d, None)
      else let idempotencyKey = contestEntryKey contestID userID in
        case ledger_by_key idempotencyKey d of
          Some existing \<Rightarrow> Inr (d, Some existing)
        | None \<Rightarrow>
            rbind (GetBalanceTx userID d) (\<lambda>balance.
              if balance < entryFeeCents then Inl (InsufficientBalanceError entryFeeCents balance)
              else let newBalance = wrap64 (balance - entryFeeCents) in
                rbind (update_wallet_balance userID newBalance d) (\<lambda>d.
                  some_entry (createLedgerEntryWithIdempotency entryID userID (wrap64 (- entryFeeCents))
                    newBalance ContestEntry (Some ContestRef) (Some contestID)
                    (Some (entryFeeDescription contestName contestID)) (Some RC_ContestEntry)
                    (Some idempotencyKey) d))))"

definition DeductContestEntryFee ::
    "string \<Rightarrow> string \<Rightarrow> string \<Rightarrow> int \<Rightarrow> db \<Rightarrow> (db \<times> LedgerEntry option) result" where
  "DeductContestEntryFee entryID userID contestID entryFeeCents d =
     DeductContestEntryFeeWithName entryID userID contestID '''' entryFeeCents d"

definition RecordFreeContestEntry :: "string \<Rightarrow> string \<Rightarrow> string \<Rightarrow> db \<Rightarrow> (db \<times> LedgerEntry option) result" where
  "RecordFreeContestEntry userID contestID contestName d = Inr (d, None)"

definition refundDescription :: "ReasonCode \<Rightarrow> string \<Rightarrow> string \<Rightarrow> string" where
  "refundDescription reasonCode contestName contestID =
     (let label = (if contestName \<noteq> '''' then contestName else contestID) in
      case reasonCode of
        RC_ContestRefundAdmin \<Rightarrow> ''Refund: Contest '' @ label @ '' cancelled by admin''
      | RC_ContestRefundLeave \<Rightarrow> ''Refund: Left contest '' @ label
      | _ \<Rightarrow> ''Refund: Contest '' @ label @ '' cancelled (minimum participants not reached)'')"

definition RefundContestEntryFeeWithReason ::
    "string \<Rightarrow> string \<Rightarrow> string \<Rightarrow> string \<Rightarrow> int \<Rightarrow> ReasonCode \<Rightarrow> db \<Rightarrow> (db \<times> LedgerEntry option) result" where
  "RefundContestEntryFeeWithReason entryID userID contestID contestName entryFeeCents reasonCode d =
     (if entryFeeCents \<le> 0 then Inr (d, None)
      else some_entry (CreditWithReason entryID userID entryFeeCents ContestRefund (Some ContestRef)
             (Some contestID) (Some (refundDescription reasonCode contestName contestID))
             (Some reasonCode) d))"

definition RefundContestEntryFee ::
    "string \<Rightarrow> string \<Rightarrow> string \<Rightarrow> int \<Rightarrow> db \<Rightarrow> (db \<times> LedgerEntry option) result" where
  "RefundContestEntryFee entryID userID contestID entryFeeCents d =
     RefundContestEntryFeeWithReason entryID userID contestID '''' entryFeeCents RC_ContestRefundQuorum d"

definition GenerateRefundIdempotencyKey :: "string \<Rightarrow> string \<Rightarrow> string" where
  "GenerateRefundIdempotencyKey contestID userID = ''refund:'' @ contestID @ '':'' @ userID"

definition RefundContestEntryFeeIdempotent ::
    "string \<Rightarrow> string \<Rightarrow> string \<Rightarrow> string \<Rightarrow> int \<Rightarrow> ReasonCode \<Rightarrow> db \<Rightarrow> (db \<times> LedgerEntry option) result" where
  "RefundContestEntryFeeIdempotent entryID userID contestID contestName entryFeeCents reasonCode d =
     (if entryFeeCents \<le> 0 then Inr (d, None)
      else some_entry (CreditIdempotentWithReason entryID userID entryFeeCents ContestRefund
             (Some ContestRef) (Some contestID) (Some (refundDescription reasonCode contestName contestID))
             (Some reasonCode) (GenerateRefundIdempotencyKey contestID userID) d))"

definition CreditPrize :: "string \<Rightarrow> string \<Rightarrow> string \<Rightarrow> int \<Rightarrow> db \<Rightarrow> (db \<times> LedgerEntry option) result" where
  "CreditPrize entryID userID contestID prizeCents d =
     (if prizeCents \<le> 0 then Inr (d, None)
      else some_entry (CreditWithReason entryID userID prizeCents PrizeCredit (Some ContestRef)
             (Some contestID) (Some (''Prize for contest '' @ contestID)) (Some RC_ContestPrize) d))"

definition GeneratePrizeIdempotencyKey :: "string \<Rightarrow> string \<Rightarrow> int \<Rightarrow> string" where
  "GeneratePrizeIdempotencyKey contestID userID rank =
     ''finalization:'' @ contestID @ '':'' @ userID @ '':'' @ show_int rank"

definition CheckPrizeCreditExists :: "string \<Rightarrow> db \<Rightarrow> bool" where
  "CheckPrizeCreditExists idempotencyKey d = (ledger_by_key idempotencyKey d \<noteq> None)"

definition CreditPrizeIdempotent ::
    "string \<Rightarrow> string \<Rightarrow> string \<Rightarrow> int \<Rightarrow> int \<Rightarrow> db \<Rightarrow> (db \<times> LedgerEntry option) result" where
  "CreditPrizeIdempotent entryID userID contestID rank prizeCents d =
     (if prizeCents \<le> 0 then Inr (d, None)
      else let idempotencyKey = GeneratePrizeIdempotencyKey contestID userID rank in
        case ledger_by_key idempotencyKey d of
          Some existingEntry \<Rightarrow> Inl (DuplicatePrizeCreditError idempotencyKey existingEntry)
        | None \<Rightarrow>
            rbind (creditBalance True userID d) (\<lambda>balance.
              let newBalance = wrap64 (balance + prizeCents) in
                rbind (update_wallet_balance userID newBalance d) (\<lambda>d.
                  some_entry (createLedgerEntryWithIdempotency entryID userID prizeCents newBalance
                    PrizeCredit (Some ContestRef) (Some contestID)
                    (Some (''Prize for contest '' @ contestID @ '' (rank '' @ show_int rank @ '')''))
                    (Some RC_ContestPrize) (Some idempotencyKey) d))))"

definition CreditAffiliateCommission ::
    "string \<Rightarrow> string \<Rightarrow> string \<Rightarrow> int \<Rightarrow> db \<Rightarrow> (db \<times> LedgerEntry option) result" where
  "CreditAffiliateCommission entryID userID commissionID commissionCents d =
     (if commissionCents \<le> 0 then Inr (d, None)
      else some_entry (Credit entryID userID commissionCents AffiliateCommission (Some CommissionRef)
             (Some commissionID) (Some (''Affiliate commission '' @ commissionID)) d))"

section \<open>Ledger queries\<close>

text \<open>
  \<open>ORDER BY created_at DESC LIMIT l OFFSET o\<close>; SQL leaves the order of equal time stamps open,
  the model takes the order of insertion.
\<close>

definition page :: "('a \<Rightarrow> int) \<Rightarrow> int \<Rightarrow> int \<Rightarrow> 'a list \<Rightarrow> 'a list result" where
  "page created limit offset rows =
     (if offset < 0 then Inl (DbError ''OFFSET must not be negative'')
      else Inr (take (nat limit) (drop (nat offset) (sort_key (\<lambda>e. - created e) rows))))"

definition clampLimit :: "int \<Rightarrow> int" where
  "clampLimit limit = (let limit = (if limit \<le> 0 then 50 else limit) in if limit > 100 then 100 else limit)"

definition GetLedgerEntries :: "string \<Rightarrow> int \<Rightarrow> int \<Rightarrow> db \<Rightarrow> LedgerEntry list result" where
  "GetLedgerEntries userID limit offset d =
     page le_CreatedAt (clampLimit limit) offset (filter (\<lambda>e. le_UserID e = userID) (db_ledger d))"

definition GetLedgerEntriesByType ::
    "string \<Rightarrow> LedgerType option \<Rightarrow> int \<Rightarrow> int \<Rightarrow> db \<Rightarrow> LedgerEntry list result" where
  "GetLedgerEntriesByType userID ledgerType limit offset d =
     (case ledgerType of
        Some t \<Rightarrow> page le_CreatedAt (clampLimit limit) offset
                    (filter (\<lambda>e. le_UserID e = userID \<and> le_Type e = t) (db_ledger d))
      | None \<Rightarrow> page le_CreatedAt (clampLimit limit) offset (filter (\<lambda>e. le_UserID e = userID) (db_ledger d)))"

definition CountLedgerEntriesByType :: "string \<Rightarrow> LedgerType option \<Rightarrow> db \<Rightarrow> int" where
  "CountLedgerEntriesByType userID ledgerType d =
     (case ledgerType of
        Some t \<Rightarrow> int (length (filter (\<lambda>e. le_UserID e = userID \<and> le_Type e = t) (db_ledger d)))
      | None \<Rightarrow> int (length (filter (\<lambda>e. le_UserID e = userID) (db_ledger d))))"

definition CountLedgerEntries :: "string \<Rightarrow> db \<Rightarrow> int" where
  "CountLedgerEntries userID d = int (length (filter (\<lambda>e. le_UserID e = userID) (db_ledger d)))"

section \<open>The invariant\<close>

text \<open>Replaying the ledger: every row carries the running balance of its user.\<close>

fun running_ok :: "(string \<Rightarrow> int) \<Rightarrow> LedgerEntry list \<Rightarrow> bool" where
  "running_ok bal [] = True"
| "running_ok bal (e # es) =
     (le_BalanceAfterCents e = bal (le_UserID e) + le_AmountCents e
      \<and> running_ok (bal(le_UserID e := le_BalanceAfterCents e)) es)"

definition ledger_keys :: "LedgerEntry list \<Rightarrow> string list" where
  "ledger_keys es = List.map_filter le_IdempotencyKey es"

definition wallet_inv :: "db \<Rightarrow> bool" where
  "wallet_inv d \<longleftrightarrow>
     (\<forall>u w. db_wallets d u = Some w \<longrightarrow>
        w_BalanceCents w = sum_list (map le_AmountCents (filter (\<lambda>e. le_UserID e = u) (db_ledger d)))
        \<and> 0 \<le> w_BalanceCents w \<and> w_BalanceCents w \<le> max_i64)
     \<and> (\<forall>e \<in> set (db_ledger d). db_wallets d (le_UserID e) \<noteq> None \<and> le_AmountCents e \<noteq> 0)
     \<and> running_ok (\<lambda>_. 0) (db_ledger d)
     \<and> distinct (map le_ID (db_ledger d))
     \<and> distinct (ledger_keys (db_ledger d))"

lemma wallet_invD:
  assumes "wallet_inv d" "db_wallets d u = Some w"
  shows "w_BalanceCents w = sum_list (map le_AmountCents (filter (\<lambda>e. le_UserID e = u) (db_ledger d)))"
    and "0 \<le> w_BalanceCents w" "w_BalanceCents w \<le> max_i64"
  using assms unfolding wallet_inv_def by blast+

lemma wallet_inv_balanced: "wallet_inv d \<Longrightarrow> wallets.balanced d"
  by (auto simp: wallet_inv_def wallets.balanced_def wallet_balance_def wallet_movements_def user_entries_def)

lemma running_ok_append:
  "running_ok bal (es @ [e]) \<longleftrightarrow> running_ok bal es \<and>
     le_BalanceAfterCents e =
       bal (le_UserID e) + sum_list (map le_AmountCents (filter (\<lambda>x. le_UserID x = le_UserID e) es)) + le_AmountCents e"
  by (induction es arbitrary: bal) auto

lemma ledger_keys_append: "ledger_keys (es @ [e]) = ledger_keys es @ (case le_IdempotencyKey e of None \<Rightarrow> [] | Some k \<Rightarrow> [k])"
  by (simp add: ledger_keys_def List.map_filter_def split: option.split)

lemma set_ledger_keys: "k \<in> set (ledger_keys es) \<longleftrightarrow> (\<exists>e \<in> set es. le_IdempotencyKey e = Some k)"
  by (force simp: ledger_keys_def List.map_filter_def)

lemma entry_posted_inv:
  assumes "wallet_inv d" "entry_posted e d d'"
  shows "wallet_inv d'"
proof -
  obtain w where w: "db_wallets d (le_UserID e) = Some w"
    "le_BalanceAfterCents e = w_BalanceCents w + le_AmountCents e"
    "0 \<le> le_BalanceAfterCents e" "le_BalanceAfterCents e \<le> max_i64" "le_AmountCents e \<noteq> 0"
    "\<forall>x \<in> set (db_ledger d). le_ID x \<noteq> le_ID e"
    "\<forall>k. le_IdempotencyKey e = Some k \<longrightarrow> (\<forall>x \<in> set (db_ledger d). le_IdempotencyKey x \<noteq> Some k)"
    and d': "d' = d\<lparr>db_wallets := (db_wallets d)(le_UserID e \<mapsto>
                    w\<lparr>w_BalanceCents := le_BalanceAfterCents e, w_UpdatedAt := db_now d\<rparr>),
                 db_ledger := db_ledger d @ [e]\<rparr>"
    using assms(2) unfolding entry_posted_def by blast
  have bal: "w_BalanceCents w = sum_list (map le_AmountCents (filter (\<lambda>x. le_UserID x = le_UserID e) (db_ledger d)))"
    using assms(1) w(1) by (simp add: wallet_inv_def)
  have keys: "distinct (ledger_keys (db_ledger d @ [e]))"
    using assms(1) w(7) by (auto simp: wallet_inv_def ledger_keys_append set_ledger_keys split: option.split)
  have ids: "distinct (map le_ID (db_ledger d @ [e]))"
    using assms(1) w(6) by (auto simp: wallet_inv_def)
  have run: "running_ok (\<lambda>_. 0) (db_ledger d @ [e])"
    using assms(1) w(2) bal by (simp add: wallet_inv_def running_ok_append)
  have bals: "w_BalanceCents w' = sum_list (map le_AmountCents (filter (\<lambda>e. le_UserID e = u) (db_ledger d')))
        \<and> 0 \<le> w_BalanceCents w' \<and> w_BalanceCents w' \<le> max_i64" if "db_wallets d' u = Some w'" for u w'
  proof (cases "u = le_UserID e")
    case True
    with that w bal show ?thesis by (auto simp: d')
  next
    case False
    with that have "db_wallets d u = Some w'" by (simp add: d')
    from wallet_invD [OF assms(1) this] False show ?thesis by (simp add: d')
  qed
  have rows: "\<forall>x \<in> set (db_ledger d'). db_wallets d' (le_UserID x) \<noteq> None \<and> le_AmountCents x \<noteq> 0"
    using assms(1) w(5) by (auto simp: d' wallet_inv_def)
  have "db_ledger d' = db_ledger d @ [e]" by (simp add: d')
  with bals rows keys ids run show ?thesis
    unfolding wallet_inv_def by metis
qed

section \<open>Every operation posts one entry or nothing\<close>

lemma balance_no_wrap:
  assumes "0 \<le> b" "b \<le> max_i64" "is_i64 a" "0 \<le> wrap64 (b + a)"
  shows "wrap64 (b + a) = b + a" "b + a \<le> max_i64"
proof -
  have "is_i64 (b + a)"
  proof (rule ccontr)
    assume "\<not> is_i64 (b + a)"
    then have gt: "b + a > max_i64" using assms by (auto simp: is_i64_def)
    then have "(b + a + 9223372036854775808) mod 18446744073709551616 = b + a - 9223372036854775808"
      using assms by (subst mod_pos_geq) (simp_all add: is_i64_def)
    with gt assms show False by (simp add: wrap64_def is_i64_def)
  qed
  then show "wrap64 (b + a) = b + a" "b + a \<le> max_i64" by (simp_all add: is_i64_def)
qed

lemma insert_ledgerD:
  assumes "insert_ledger e d = Inr d'"
  shows "le_AmountCents e \<noteq> 0" "0 \<le> le_BalanceAfterCents e" "d' = d\<lparr>db_ledger := db_ledger d @ [e]\<rparr>"
    "\<forall>x \<in> set (db_ledger d). le_ID x \<noteq> le_ID e"
    "\<forall>k. le_IdempotencyKey e = Some k \<longrightarrow> (\<forall>x \<in> set (db_ledger d). le_IdempotencyKey x \<noteq> Some k)"
    "\<forall>i. le_OriginalID e = Some i \<longrightarrow> (\<forall>x \<in> set (db_ledger d). le_OriginalID x \<noteq> Some i)"
  using assms
  by (auto simp: insert_ledger_def key_taken_def ledger_by_key_def find_None_iff split: if_splits option.splits)

lemma insert_ledger_posted:
  assumes "db_wallets d u = Some w" "0 \<le> w_BalanceCents w" "w_BalanceCents w \<le> max_i64"
    and "is_i64 a" "b = wrap64 (w_BalanceCents w + a)"
    and upd: "update_wallet_balance u b d = Inr d1" and ins: "insert_ledger e d1 = Inr d'"
    and e: "le_UserID e = u" "le_AmountCents e = a" "le_BalanceAfterCents e = b"
  shows "entry_posted e d d'"
proof -
  have d1: "d1 = d\<lparr>db_wallets := (db_wallets d)(u \<mapsto> w\<lparr>w_BalanceCents := b, w_UpdatedAt := db_now d\<rparr>)\<rparr>" "0 \<le> b"
    using upd assms(1) by (auto simp: update_wallet_balance_def split: if_splits)
  note i = insert_ledgerD [OF ins]
  have "b = w_BalanceCents w + a" "b \<le> max_i64"
    using balance_no_wrap [OF assms(2-4)] assms(5) d1(2) by simp_all
  with i assms(1) e d1 show ?thesis
    by (auto simp: entry_posted_def)
qed

lemma createLedgerEntry_posted:
  assumes "wallet_inv d" "db_wallets d u = Some w" "is_i64 a" "b = wrap64 (w_BalanceCents w + a)"
    and "rbind (update_wallet_balance u b d) (createLedgerEntryWithIdempotency i u a b t rt ri de rc k) = Inr (d', x)"
  shows "\<exists>e. entry_posted e d d' \<and> x = e\<lparr>le_CreatedAt := zero_time\<rparr> \<and> le_UserID e = u \<and> le_AmountCents e = a
    \<and> le_Type e = t \<and> le_IdempotencyKey e = k \<and> le_ID e = i \<and> le_RefType e = rt \<and> le_RefID e = ri"
proof -
  have b: "0 \<le> w_BalanceCents w" "w_BalanceCents w \<le> max_i64" using wallet_invD [OF assms(1,2)] by simp_all
  obtain d1 where d1: "update_wallet_balance u b d = Inr d1"
    "createLedgerEntryWithIdempotency i u a b t rt ri de rc k d1 = Inr (d', x)"
    using assms(5) by (auto simp: res_simps)
  let ?e = "\<lparr>le_ID = i, le_UserID = u, le_Type = t, le_AmountCents = a, le_BalanceAfterCents = b,
     le_RefType = rt, le_RefID = ri, le_Description = de, le_ReasonCode = rc, le_IdempotencyKey = k,
     le_CreatedAt = db_now d1, le_OriginalID = None, le_EventID = None, le_ActorID = None\<rparr>"
  have "insert_ledger ?e d1 = Inr d'" "x = ?e\<lparr>le_CreatedAt := zero_time\<rparr>"
    using d1(2) by (auto simp: createLedgerEntryWithIdempotency_def Let_def res_simps)
  with insert_ledger_posted [OF assms(2) b assms(3,4) d1(1), of ?e d'] show ?thesis
    by (intro exI [of _ ?e]) simp
qed

lemma GetBalanceTx_Inr:
  "GetBalanceTx u d = Inr b \<longleftrightarrow> (\<exists>w. db_wallets d u = Some w \<and> w_Status w \<noteq> Frozen \<and> b = w_BalanceCents w)"
  by (auto simp: GetBalanceTx_def split: option.splits)

lemma creditBalance_Inr:
  "creditBalance fa u d = Inr b \<longleftrightarrow>
     (\<exists>w. db_wallets d u = Some w \<and> (w_Status w = Frozen \<longrightarrow> fa) \<and> b = w_BalanceCents w)"
  by (auto simp: creditBalance_def GetBalanceTx_def split: option.splits sum.splits wallet_error.splits if_splits)

lemma some_entry_Inr [simp]: "some_entry r = Inr (d, x) \<longleftrightarrow> (\<exists>e. r = Inr (d, e) \<and> x = Some e)"
  by (cases r) (auto simp: some_entry_def)

text \<open>
  \<open>posted u a k d d'\<close>: one row for user \<open>u\<close>, amount \<open>a\<close> and idempotency key \<open>k\<close> was posted; a
  row on a frozen wallet is a credit.
\<close>

definition posted :: "string \<Rightarrow> int \<Rightarrow> string option \<Rightarrow> LedgerEntry \<Rightarrow> db \<Rightarrow> db \<Rightarrow> bool" where
  "posted u a k x d d' \<longleftrightarrow>
     (\<exists>e. entry_posted e d d' \<and> x = e\<lparr>le_CreatedAt := zero_time\<rparr> \<and> le_UserID e = u \<and> le_AmountCents e = a
        \<and> le_IdempotencyKey e = k)
     \<and> (a < 0 \<longrightarrow> (\<exists>w. db_wallets d u = Some w \<and> w_Status w \<noteq> Frozen))"

lemma createLedgerEntry_eq: "createLedgerEntry i u a b t rt ri de rc = createLedgerEntryWithIdempotency i u a b t rt ri de rc None"
  by (rule ext) (simp add: createLedgerEntry_def)

lemma movement_posted:
  assumes "wallet_inv d" "db_wallets d u = Some w" "is_i64 a" "a < 0 \<longrightarrow> w_Status w \<noteq> Frozen"
    and "rbind (update_wallet_balance u (wrap64 (w_BalanceCents w + a)) d)
      (createLedgerEntryWithIdempotency i u a (wrap64 (w_BalanceCents w + a)) t rt ri de rc k) = Inr (d', x)"
  shows "posted u a k x d d'"
  using createLedgerEntry_posted [OF assms(1-3) refl assms(5)] assms(2,4) by (auto simp: posted_def)

lemma DebitWithReason_posted:
  assumes "wallet_inv d" "is_i64 a" "DebitWithReason i u a t rt ri de rc d = Inr (d', x)"
  shows "posted u (- a) None x d d'" "0 < a"
proof -
  obtain w where w: "db_wallets d u = Some w" "w_Status w \<noteq> Frozen" "0 < a" "a \<le> w_BalanceCents w"
    "rbind (update_wallet_balance u (wrap64 (w_BalanceCents w - a)) d)
       (createLedgerEntryWithIdempotency i u (wrap64 (- a)) (wrap64 (w_BalanceCents w - a)) t rt ri de rc None) = Inr (d', x)"
    using assms(3)
    by (auto simp: DebitWithReason_def res_simps GetBalanceTx_Inr Let_def createLedgerEntry_eq split: if_splits)
  have m: "is_i64 (- a)" using assms(2) w(3) by (auto simp: is_i64_def)
  from movement_posted [OF assms(1) w(1) m, of i t rt ri de rc None d' x] w(2,5) m
  show "posted u (- a) None x d d'" by simp
  show "0 < a" by (fact w(3))
qed

lemma credit_posted:
  assumes "wallet_inv d" "is_i64 a" "0 < a" "creditBalance fa u d = Inr b"
    and "rbind (update_wallet_balance u (wrap64 (b + a)) d)
       (createLedgerEntryWithIdempotency i u a (wrap64 (b + a)) t rt ri de rc k) = Inr (d', x)"
  shows "posted u a k x d d'"
proof -
  obtain w where w: "db_wallets d u = Some w" "b = w_BalanceCents w" using assms(4) by (auto simp: creditBalance_Inr)
  from movement_posted [OF assms(1) w(1) assms(2), of i t rt ri de rc k d' x] assms(3,5) w(2) show ?thesis by simp
qed

lemma CreditWithReason_posted:
  assumes "wallet_inv d" "is_i64 a" "CreditWithReason i u a t rt ri de rc d = Inr (d', x)"
  shows "posted u a None x d d'"
  using assms
  by (auto simp: CreditWithReason_def res_simps Let_def createLedgerEntry_eq split: if_splits intro: credit_posted)

lemma CreditIdempotentWithReason_posted:
  assumes "wallet_inv d" "is_i64 a" "CreditIdempotentWithReason i u a t rt ri de rc k d = Inr (d', x)"
  shows "posted u a (Some k) x d d'"
  using assms
  by (auto simp: CreditIdempotentWithReason_def res_simps Let_def split: if_splits option.splits intro: credit_posted)

lemma CreditIdempotentWithReason_row:
  assumes "wallet_inv d" "is_i64 a" "CreditIdempotentWithReason i u a t rt ri de rc k d = Inr (d', x)"
  shows "\<exists>e. entry_posted e d d' \<and> le_UserID e = u \<and> le_AmountCents e = a \<and> le_Type e = t
    \<and> le_IdempotencyKey e = Some k \<and> le_RefType e = rt \<and> le_RefID e = ri"
proof -
  obtain w where w: "db_wallets d u = Some w"
    "rbind (update_wallet_balance u (wrap64 (w_BalanceCents w + a)) d)
       (createLedgerEntryWithIdempotency i u a (wrap64 (w_BalanceCents w + a)) t rt ri de rc (Some k)) = Inr (d', x)"
    using assms(3) by (auto simp: CreditIdempotentWithReason_def creditBalance_Inr res_simps Let_def
        split: if_splits option.splits)
  from createLedgerEntry_posted [OF assms(1) w(1) assms(2) refl w(2)] show ?thesis by blast
qed

text \<open>The effect of the operations that may also do nothing.\<close>

definition posted_or_none :: "string \<Rightarrow> int \<Rightarrow> string option \<Rightarrow> db \<Rightarrow> db \<Rightarrow> bool" where
  "posted_or_none u a k d d' \<longleftrightarrow> d' = d \<or> (\<exists>x. posted u a k x d d')"

lemma DeductContestEntryFeeWithName_new:
  assumes "wallet_inv d" "is_i64 a" "DeductContestEntryFeeWithName i u c n a d = Inr (d', x)"
    and "0 < a" "ledger_by_key (contestEntryKey c u) d = None"
  shows "\<exists>e. x = Some e \<and> posted u (- a) (Some (contestEntryKey c u)) e d d'"
proof -
  obtain w e where w: "db_wallets d u = Some w" "w_Status w \<noteq> Frozen" "a \<le> w_BalanceCents w" "x = Some e"
    "rbind (update_wallet_balance u (wrap64 (w_BalanceCents w - a)) d)
       (createLedgerEntryWithIdempotency i u (wrap64 (- a)) (wrap64 (w_BalanceCents w - a)) ContestEntry
         (Some ContestRef) (Some c) (Some (entryFeeDescription n c)) (Some RC_ContestEntry)
         (Some (contestEntryKey c u))) = Inr (d', e)"
    using assms(3-5)
    by (auto simp: DeductContestEntryFeeWithName_def res_simps GetBalanceTx_Inr Let_def split: if_splits)
  have m: "is_i64 (- a)" using assms(2,4) by (auto simp: is_i64_def)
  have "posted u (- a) (Some (contestEntryKey c u)) e d d'"
    using movement_posted [OF assms(1) w(1) m] w(2,5) m by simp
  with w(4) show ?thesis by simp
qed

lemma DeductContestEntryFeeWithName_posted:
  assumes "wallet_inv d" "is_i64 a" "DeductContestEntryFeeWithName i u c n a d = Inr (d', x)"
  shows "posted_or_none u (- a) (Some (contestEntryKey c u)) d d'"
proof (cases "0 < a \<and> ledger_by_key (contestEntryKey c u) d = None")
  case True
  then show ?thesis using DeductContestEntryFeeWithName_new [OF assms] by (auto simp: posted_or_none_def)
next
  case False
  with assms(3) show ?thesis
    by (auto simp: DeductContestEntryFeeWithName_def posted_or_none_def Let_def split: if_splits option.splits)
qed

lemma RefundContestEntryFeeWithReason_posted:
  assumes "wallet_inv d" "is_i64 a" "RefundContestEntryFeeWithReason i u c n a rc d = Inr (d', x)"
  shows "posted_or_none u a None d d'"
  using assms CreditWithReason_posted
  by (fastforce simp: RefundContestEntryFeeWithReason_def posted_or_none_def split: if_splits)

lemma RefundContestEntryFeeIdempotent_posted:
  assumes "wallet_inv d" "is_i64 a" "RefundContestEntryFeeIdempotent i u c n a rc d = Inr (d', x)"
  shows "posted_or_none u a (Some (GenerateRefundIdempotencyKey c u)) d d'"
  using assms CreditIdempotentWithReason_posted
  by (fastforce simp: RefundContestEntryFeeIdempotent_def posted_or_none_def split: if_splits)

lemma CreditPrize_posted:
  assumes "wallet_inv d" "is_i64 a" "CreditPrize i u c a d = Inr (d', x)"
  shows "posted_or_none u a None d d'"
  using assms CreditWithReason_posted by (fastforce simp: CreditPrize_def posted_or_none_def split: if_splits)

lemma CreditPrizeIdempotent_new:
  assumes "wallet_inv d" "is_i64 a" "CreditPrizeIdempotent i u c r a d = Inr (d', x)" "0 < a"
  shows "\<exists>e. x = Some e \<and> posted u a (Some (GeneratePrizeIdempotencyKey c u r)) e d d'"
proof -
  obtain b e where "creditBalance True u d = Inr b" "x = Some e"
    "rbind (update_wallet_balance u (wrap64 (b + a)) d)
       (createLedgerEntryWithIdempotency i u a (wrap64 (b + a)) PrizeCredit (Some ContestRef) (Some c)
         (Some (''Prize for contest '' @ c @ '' (rank '' @ show_int r @ '')'')) (Some RC_ContestPrize)
         (Some (GeneratePrizeIdempotencyKey c u r))) = Inr (d', e)"
    using assms(3,4) by (auto simp: CreditPrizeIdempotent_def res_simps Let_def split: option.splits)
  with assms(1,2,4) credit_posted show ?thesis by fastforce
qed

lemma CreditPrizeIdempotent_posted:
  assumes "wallet_inv d" "is_i64 a" "CreditPrizeIdempotent i u c r a d = Inr (d', x)"
  shows "posted_or_none u a (Some (GeneratePrizeIdempotencyKey c u r)) d d'"
proof (cases "0 < a")
  case True
  then show ?thesis using CreditPrizeIdempotent_new [OF assms] by (auto simp: posted_or_none_def)
next
  case False
  with assms(3) show ?thesis by (simp add: CreditPrizeIdempotent_def posted_or_none_def)
qed

lemma CreditAffiliateCommission_posted:
  assumes "wallet_inv d" "is_i64 a" "CreditAffiliateCommission i u c a d = Inr (d', x)"
  shows "posted_or_none u a None d d'"
  using assms CreditWithReason_posted
  by (fastforce simp: CreditAffiliateCommission_def Credit_def posted_or_none_def split: if_splits)

section \<open>Reachable states\<close>

text \<open>
  One committed call of the service, or a change around it: time passes, a user registers. An
  amount is any \<open>int64\<close>; identifiers, types, references and descriptions are arbitrary.
\<close>

inductive wallet_step :: "db \<Rightarrow> db \<Rightarrow> bool" where
  ws_time: "wallet_step d (d\<lparr>db_now := t\<rparr>)"
| ws_user: "wallet_step d (d\<lparr>db_users := insert u (db_users d)\<rparr>)"
| ws_create: "CreateWallet u d = Inr (d', w) \<Longrightarrow> wallet_step d d'"
| ws_freeze: "wallet_step d (FreezeWallet u d)"
| ws_unfreeze: "wallet_step d (UnfreezeWallet u d)"
| ws_debit: "is_i64 a \<Longrightarrow> DebitWithReason i u a t rt ri de rc d = Inr (d', e) \<Longrightarrow> wallet_step d d'"
| ws_credit: "is_i64 a \<Longrightarrow> CreditWithReason i u a t rt ri de rc d = Inr (d', e) \<Longrightarrow> wallet_step d d'"
| ws_credit_idempotent:
    "is_i64 a \<Longrightarrow> CreditIdempotentWithReason i u a t rt ri de rc k d = Inr (d', e) \<Longrightarrow> wallet_step d d'"
| ws_deduct: "is_i64 a \<Longrightarrow> DeductContestEntryFeeWithName i u c n a d = Inr (d', x) \<Longrightarrow> wallet_step d d'"
| ws_refund: "is_i64 a \<Longrightarrow> RefundContestEntryFeeWithReason i u c n a rc d = Inr (d', x) \<Longrightarrow> wallet_step d d'"
| ws_refund_idempotent:
    "is_i64 a \<Longrightarrow> RefundContestEntryFeeIdempotent i u c n a rc d = Inr (d', x) \<Longrightarrow> wallet_step d d'"
| ws_prize: "is_i64 a \<Longrightarrow> CreditPrize i u c a d = Inr (d', x) \<Longrightarrow> wallet_step d d'"
| ws_prize_idempotent: "is_i64 a \<Longrightarrow> CreditPrizeIdempotent i u c r a d = Inr (d', x) \<Longrightarrow> wallet_step d d'"
| ws_commission: "is_i64 a \<Longrightarrow> CreditAffiliateCommission i u c a d = Inr (d', x) \<Longrightarrow> wallet_step d d'"

inductive wallet_steps :: "db \<Rightarrow> db \<Rightarrow> bool" where
  wss_refl: "wallet_steps d d"
| wss_step: "wallet_steps d d' \<Longrightarrow> wallet_step d' d'' \<Longrightarrow> wallet_steps d d''"

text \<open>What a step can do: post one entry, or keep every balance and the ledger.\<close>

definition quiet :: "db \<Rightarrow> db \<Rightarrow> bool" where
  "quiet d d' \<longleftrightarrow> same_custody d d' \<and> db_ledger d' = db_ledger d
     \<and> (\<forall>u w. db_wallets d u = Some w \<longrightarrow> (\<exists>w'. db_wallets d' u = Some w' \<and> w_BalanceCents w' = w_BalanceCents w))
     \<and> (\<forall>u w'. db_wallets d u = None \<longrightarrow> db_wallets d' u = Some w' \<longrightarrow> w_BalanceCents w' = 0)"

lemma quiet_refl [simp]: "quiet d d"
  by (simp add: quiet_def)

lemma posted_or_noneE:
  assumes "posted_or_none u a k d d'"
  obtains "quiet d d'" | x where "posted u a k x d d'"
  using assms by (auto simp: posted_or_none_def)

lemma quiet_status: "quiet d (update_wallet_status st u d)"
  by (auto simp: quiet_def same_custody_def update_wallet_status_def split: option.split)

lemma quiet_create: "CreateWallet u d = Inr (d', w) \<Longrightarrow> quiet d d'"
  by (auto simp: quiet_def same_custody_def CreateWallet_def insert_wallet_def res_simps split: option.splits if_splits)

lemma wallet_step_cases:
  assumes "wallet_step d d'" "wallet_inv d"
  shows "quiet d d' \<or> (\<exists>v a k x. posted v a k x d d')"
  using assms
proof (cases rule: wallet_step.cases)
  case ws_time then show ?thesis by (simp add: quiet_def same_custody_def)
next
  case ws_user then show ?thesis by (simp add: quiet_def same_custody_def)
next
  case ws_create then show ?thesis by (blast intro: quiet_create)
next
  case ws_freeze then show ?thesis by (simp add: FreezeWallet_def quiet_status)
next
  case ws_unfreeze then show ?thesis by (simp add: UnfreezeWallet_def quiet_status)
next
  case ws_debit then show ?thesis using assms(2) by (blast dest: DebitWithReason_posted(1))
next
  case ws_credit then show ?thesis using assms(2) by (blast dest: CreditWithReason_posted)
next
  case ws_credit_idempotent then show ?thesis using assms(2) by (blast dest: CreditIdempotentWithReason_posted)
next
  case ws_deduct then show ?thesis using assms(2) by (metis DeductContestEntryFeeWithName_posted posted_or_noneE)
next
  case ws_refund then show ?thesis using assms(2) by (metis RefundContestEntryFeeWithReason_posted posted_or_noneE)
next
  case ws_refund_idempotent then show ?thesis using assms(2) by (metis RefundContestEntryFeeIdempotent_posted posted_or_noneE)
next
  case ws_prize then show ?thesis using assms(2) by (metis CreditPrize_posted posted_or_noneE)
next
  case ws_prize_idempotent then show ?thesis using assms(2) by (metis CreditPrizeIdempotent_posted posted_or_noneE)
next
  case ws_commission then show ?thesis using assms(2) by (metis CreditAffiliateCommission_posted posted_or_noneE)
qed

lemma quiet_inv:
  assumes "wallet_inv d" "quiet d d'"
  shows "wallet_inv d'"
proof -
  have l: "db_ledger d' = db_ledger d" using assms(2) by (simp add: quiet_def)
  have "w_BalanceCents w' = sum_list (map le_AmountCents (filter (\<lambda>e. le_UserID e = u) (db_ledger d')))
      \<and> 0 \<le> w_BalanceCents w' \<and> w_BalanceCents w' \<le> max_i64" if w': "db_wallets d' u = Some w'" for u w'
  proof (cases "db_wallets d u")
    case None
    then have "filter (\<lambda>e. le_UserID e = u) (db_ledger d) = []"
      using assms(1) by (auto simp: wallet_inv_def filter_empty_conv)
    with None w' assms(2) l show ?thesis by (simp add: quiet_def)
  next
    case (Some w)
    with w' assms(2) have "w_BalanceCents w' = w_BalanceCents w" unfolding quiet_def by force
    with wallet_invD [OF assms(1) Some] l show ?thesis by simp
  qed
  moreover have "\<forall>e \<in> set (db_ledger d'). db_wallets d' (le_UserID e) \<noteq> None \<and> le_AmountCents e \<noteq> 0"
    using assms l by (auto simp: wallet_inv_def quiet_def) metis
  ultimately show ?thesis using assms(1) unfolding wallet_inv_def l by blast
qed

lemma wallet_step_posts:
  "wallet_step d d' \<Longrightarrow> wallet_inv d \<Longrightarrow> quiet d d' \<or> (\<exists>e. entry_posted e d d')"
  using wallet_step_cases unfolding posted_def by blast

lemma wallet_step_inv: "wallet_step d d' \<Longrightarrow> wallet_inv d \<Longrightarrow> wallet_inv d'"
  using wallet_step_posts entry_posted_inv quiet_inv by blast

lemma wallet_steps_inv: "wallet_steps d d' \<Longrightarrow> wallet_inv d \<Longrightarrow> wallet_inv d'"
  by (induction rule: wallet_steps.induct) (auto intro: wallet_step_inv)

text \<open>The ledger is append-only.\<close>

lemma wallet_step_appends: "wallet_step d d' \<Longrightarrow> wallet_inv d \<Longrightarrow> \<exists>es. db_ledger d' = db_ledger d @ es"
  using wallet_step_posts by (fastforce simp: quiet_def entry_posted_def)

lemma wallet_steps_appends: "wallet_steps d d' \<Longrightarrow> wallet_inv d \<Longrightarrow> \<exists>es. db_ledger d' = db_ledger d @ es"
  by (induction rule: wallet_steps.induct)
    (auto dest!: wallet_step_appends [OF _ wallet_steps_inv])


lemma ledger_by_key_persists:
  assumes "wallet_steps d d'" "wallet_inv d" "ledger_by_key k d = Some e"
  shows "ledger_by_key k d' = Some e"
  using wallet_steps_appends [OF assms(1,2)] assms(3) by (auto simp: ledger_by_key_def find_append_Some)

lemma posted_key:
  assumes "posted u a (Some k) x d d'"
  shows "\<exists>e. ledger_by_key k d' = Some e \<and> x = e\<lparr>le_CreatedAt := zero_time\<rparr> \<and> le_AmountCents e = a \<and> le_UserID e = u"
proof -
  obtain e where e: "entry_posted e d d'" "x = e\<lparr>le_CreatedAt := zero_time\<rparr>" "le_UserID e = u"
    "le_AmountCents e = a" "le_IdempotencyKey e = Some k"
    using assms by (auto simp: posted_def)
  then have "List.find (\<lambda>e. le_IdempotencyKey e = Some k) (db_ledger d) = None"
    by (auto simp: entry_posted_def find_None_iff)
  moreover have "db_ledger d' = db_ledger d @ [e]" using e(1) by (auto simp: entry_posted_def)
  ultimately have "ledger_by_key k d' = Some e" using e(5) by (simp add: ledger_by_key_def find_append_None)
  with e show ?thesis by blast
qed

section \<open>Idempotency keys\<close>

lemma takeWhile_colon:
  "CHR '':'' \<notin> set a \<Longrightarrow> takeWhile (\<lambda>x. x \<noteq> CHR '':'') (a @ CHR '':'' # b) = a"
  by (induction a) auto

lemma colon_split:
  assumes "CHR '':'' \<notin> set a" "CHR '':'' \<notin> set c" "a @ CHR '':'' # b = c @ CHR '':'' # d"
  shows "a = c \<and> b = d"
  using takeWhile_colon [OF assms(1), of b] takeWhile_colon [OF assms(2), of d] assms(3) by simp

lemma prize_key_inject:
  assumes "CHR '':'' \<notin> set c" "CHR '':'' \<notin> set c'" "CHR '':'' \<notin> set u" "CHR '':'' \<notin> set u'"
    and "GeneratePrizeIdempotencyKey c u r = GeneratePrizeIdempotencyKey c' u' r'"
  shows "c = c' \<and> u = u' \<and> r = r'"
proof -
  have "c @ CHR '':'' # (u @ CHR '':'' # show_int r) = c' @ CHR '':'' # (u' @ CHR '':'' # show_int r')"
    using assms(5) by (simp add: GeneratePrizeIdempotencyKey_def)
  from colon_split [OF assms(1,2) this]
  have c: "c = c'" and u: "u @ CHR '':'' # show_int r = u' @ CHR '':'' # show_int r'" by simp_all
  from colon_split [OF assms(3,4) u] c show ?thesis by simp
qed

lemma sample_inv: "wallet_inv sample_db"
  by (simp add: wallet_inv_def sample_db_def ledger_keys_def List.map_filter_def)

lemmas wallet_eval = sample_db_def update_wallet_balance_def createLedgerEntryWithIdempotency_def
  insert_ledger_def key_taken_def ledger_by_key_def GetBalanceTx_def creditBalance_def some_entry_def
  Let_def is_i64_def wrap64_def

section \<open>Properties\<close>

text \<open>
  (C3) Ledger integrity: from empty tables, after any sequence of committed wallet operations
  with arbitrary arguments, every wallet balance is the sum of its ledger rows, lies in
  \<open>[0, 2^63)\<close> (a sum that would wrap is rejected, never stored), every row shows the running
  balance of its user, no row is zero, and row identifiers and idempotency keys are unique.
\<close>
theorem wallet_ledger_integrity:
  assumes "db_wallets d0 = Map.empty" "db_ledger d0 = []" "wallet_steps d0 d"
  shows "wallet_inv d"
proof -
  have "wallet_inv d0" using assms(1,2) by (simp add: wallet_inv_def ledger_keys_def List.map_filter_def)
  with assms(3) show ?thesis by (rule wallet_steps_inv)
qed

theorem wallet_ledger_integrity_witness:
  "wallet_inv (empty_db\<lparr>db_users := {''u1''}, db_wallets := [''u1'' \<mapsto> \<lparr>w_UserID = ''u1'',
     w_BalanceCents = 0, w_Currency = ''USD'', w_Status = Active, w_CreatedAt = 0, w_UpdatedAt = 0\<rparr>]\<rparr>)"
    (is "wallet_inv ?d2")
proof (rule wallet_ledger_integrity [of empty_db])
  let ?d1 = "empty_db\<lparr>db_users := insert ''u1'' (db_users empty_db)\<rparr>"
  have "CreateWallet ''u1'' ?d1 = Inr (?d2, the (db_wallets ?d2 ''u1''))"
    by (simp add: CreateWallet_def insert_wallet_def empty_db_def)
  then show "wallet_steps empty_db ?d2"
    by (intro wss_step [OF wss_step [OF wss_refl ws_user] ws_create])
qed (simp_all add: empty_db_def)

text \<open>
  (C27) A prize is credited exactly once: after a prize credit for a contest, user and rank has
  been committed, and whatever wallet operations happen in between, a repeated credit for the
  same contest, user and rank, with any positive amount, is answered with the entry of the
  first one and has no effect on the tables.
\<close>
theorem prize_credited_once:
  assumes "wallet_inv d" "is_i64 a" "CreditPrizeIdempotent i u c r a d = Inr (d1, Some x)"
    and "wallet_steps d1 d2" "0 < a'"
  shows "\<exists>e. CreditPrizeIdempotent i' u c r a' d2 =
      Inl (DuplicatePrizeCreditError (GeneratePrizeIdempotencyKey c u r) e)
    \<and> e \<in> set (db_ledger d1) \<and> le_UserID e = u \<and> le_AmountCents e = a
    \<and> CheckPrizeCreditExists (GeneratePrizeIdempotencyKey c u r) d2"
proof -
  let ?k = "GeneratePrizeIdempotencyKey c u r"
  have "0 < a" using assms(3) by (auto simp: CreditPrizeIdempotent_def split: if_splits)
  then have x: "posted u a (Some ?k) x d d1" using CreditPrizeIdempotent_new [OF assms(1-3)] by simp
  from posted_key [OF this] obtain e where e: "ledger_by_key ?k d1 = Some e" "le_AmountCents e = a" "le_UserID e = u"
    by blast
  have inv: "wallet_inv d1" using x assms(1) by (auto simp: posted_def intro: entry_posted_inv)
  have "ledger_by_key ?k d2 = Some e" by (rule ledger_by_key_persists [OF assms(4) inv e(1)])
  moreover have "e \<in> set (db_ledger d1)" using e(1) by (auto simp: ledger_by_key_def find_Some_iff)
  ultimately show ?thesis using e assms(5) by (auto simp: CreditPrizeIdempotent_def CheckPrizeCreditExists_def Let_def)
qed

theorem prize_credited_once_witness:
  "\<exists>d1 e. CreditPrizeIdempotent ''e3'' ''u1'' ''c1'' 1 700 (FreezeWallet ''u1'' d1) =
      Inl (DuplicatePrizeCreditError (GeneratePrizeIdempotencyKey ''c1'' ''u1'' 1) e)
    \<and> e \<in> set (db_ledger d1) \<and> le_UserID e = ''u1'' \<and> le_AmountCents e = 500
    \<and> CheckPrizeCreditExists (GeneratePrizeIdempotencyKey ''c1'' ''u1'' 1) (FreezeWallet ''u1'' d1)"
proof -
  have "\<exists>d1 x. CreditPrizeIdempotent ''e2'' ''u1'' ''c1'' 1 500 sample_db = Inr (d1, Some x)"
    by (simp add: CreditPrizeIdempotent_def wallet_eval GeneratePrizeIdempotencyKey_def show_int_def show_nat.simps digit_char_def)
  then obtain d1 x where ok: "CreditPrizeIdempotent ''e2'' ''u1'' ''c1'' 1 500 sample_db = Inr (d1, Some x)" by blast
  have "wallet_steps d1 (FreezeWallet ''u1'' d1)" by (rule wss_step [OF wss_refl ws_freeze])
  from prize_credited_once [OF sample_inv _ ok this, of 700 "''e3''"] show ?thesis by (auto simp: is_i64_def)
qed

text \<open>
  A contest entry is charged at most once: after the entry fee of a user for a contest has
  been debited, and whatever wallet operations happen in between, a repeated deduction returns
  the original debit and leaves the tables unchanged.
\<close>
theorem contest_entry_charged_once:
  assumes "wallet_inv d" "is_i64 a" "0 < a" "DeductContestEntryFeeWithName i u c n a d = Inr (d1, x)"
    and "ledger_by_key (contestEntryKey c u) d = None" "wallet_steps d1 d2" "0 < a'"
  shows "\<exists>e. DeductContestEntryFeeWithName i' u c n' a' d2 = Inr (d2, Some e)
    \<and> le_AmountCents e = - a \<and> le_UserID e = u
    \<and> wallet_balance d1 u = map_option (\<lambda>b. b - a) (wallet_balance d u)"
proof -
  let ?k = "contestEntryKey c u"
  obtain y where y: "posted u (- a) (Some ?k) y d d1"
    using DeductContestEntryFeeWithName_new [OF assms(1,2,4,3,5)] by blast
  from posted_key [OF this] obtain e where e: "ledger_by_key ?k d1 = Some e" "le_AmountCents e = - a" "le_UserID e = u"
    by blast
  have "wallet_posts d u [- a] d1" using y by (auto simp: posted_def wallet_posts_def)
  from wallets.posts_balance [OF this]
  have "wallet_balance d1 u = map_option (\<lambda>b. b - a) (wallet_balance d u)" by auto
  moreover have "wallet_inv d1" using y assms(1) by (auto simp: posted_def intro: entry_posted_inv)
  with assms(6) e(1) have "ledger_by_key ?k d2 = Some e" by (auto intro: ledger_by_key_persists)
  ultimately show ?thesis using e assms(7) by (auto simp: DeductContestEntryFeeWithName_def Let_def)
qed

theorem contest_entry_charged_once_witness:
  "\<exists>d1 e. DeductContestEntryFeeWithName ''e3'' ''u1'' ''c1'' ''Cup'' 2500 (d1\<lparr>db_now := 77\<rparr>) =
      Inr (d1\<lparr>db_now := 77\<rparr>, Some e)
    \<and> le_AmountCents e = - 2500 \<and> le_UserID e = ''u1''
    \<and> wallet_balance d1 ''u1'' = map_option (\<lambda>b. b - 2500) (wallet_balance sample_db ''u1'')"
proof -
  have new: "ledger_by_key (contestEntryKey ''c1'' ''u1'') sample_db = None"
    by (simp add: wallet_eval contestEntryKey_def)
  have "\<exists>d1 x. DeductContestEntryFeeWithName ''e2'' ''u1'' ''c1'' ''Cup'' 2500 sample_db = Inr (d1, x)"
    by (simp add: DeductContestEntryFeeWithName_def wallet_eval contestEntryKey_def)
  then obtain d1 x where ok: "DeductContestEntryFeeWithName ''e2'' ''u1'' ''c1'' ''Cup'' 2500 sample_db = Inr (d1, x)" by blast
  have "wallet_steps d1 (d1\<lparr>db_now := 77\<rparr>)" by (rule wss_step [OF wss_refl ws_time])
  from contest_entry_charged_once [OF sample_inv _ _ ok new this, of 2500 "''e3''" "''Cup''"]
  show ?thesis by (auto simp: is_i64_def)
qed

text \<open>
  Functional behaviour of a debit on every branch: a non-positive amount, a missing wallet,
  a frozen wallet and an insufficient balance are refused with their own errors; otherwise, for
  a registered user and a fresh entry identifier, the debit succeeds, takes exactly the amount,
  appends exactly one row with the balance after it, and touches no other wallet.
\<close>
theorem DebitWithReason_outcome:
  assumes "wallet_inv d" "is_i64 a" "u \<in> db_users d" "\<forall>x \<in> set (db_ledger d). le_ID x \<noteq> i"
  shows "case db_wallets d u of
      None \<Rightarrow> DebitWithReason i u a t rt ri de rc d =
        Inl (if a \<le> 0 then ErrMsg ''debit amount must be positive'' else WalletNotFoundError u)
    | Some w \<Rightarrow>
        if a \<le> 0 then DebitWithReason i u a t rt ri de rc d = Inl (ErrMsg ''debit amount must be positive'')
        else if w_Status w = Frozen then DebitWithReason i u a t rt ri de rc d = Inl (WalletFrozenError u)
        else if w_BalanceCents w < a
          then DebitWithReason i u a t rt ri de rc d = Inl (InsufficientBalanceError a (w_BalanceCents w))
        else \<exists>d' e. DebitWithReason i u a t rt ri de rc d = Inr (d', e)
          \<and> wallet_balance d' = (wallet_balance d)(u \<mapsto> w_BalanceCents w - a)
          \<and> (\<exists>r. db_ledger d' = db_ledger d @ [r] \<and> le_UserID r = u \<and> le_AmountCents r = - a
                \<and> le_BalanceAfterCents r = w_BalanceCents w - a)"
proof (cases "db_wallets d u")
  case None
  then show ?thesis by (simp add: DebitWithReason_def GetBalanceTx_def)
next
  case (Some w)
  show ?thesis
  proof (cases "a \<le> 0 \<or> w_Status w = Frozen \<or> w_BalanceCents w < a")
    case True
    with Some show ?thesis by (auto simp: DebitWithReason_def GetBalanceTx_def)
  next
    case False
    note b = wallet_invD [OF assms(1) Some]
    have i64: "is_i64 (- a)" "is_i64 (w_BalanceCents w - a)" using False b assms(2) by (auto simp: is_i64_def)
    have "\<exists>d' e. DebitWithReason i u a t rt ri de rc d = Inr (d', e)"
      using False Some assms(3,4) i64
      by (simp add: DebitWithReason_def GetBalanceTx_def Let_def update_wallet_balance_def createLedgerEntry_eq
          createLedgerEntryWithIdempotency_def insert_ledger_def key_taken_def)
    then obtain d' e where ok: "DebitWithReason i u a t rt ri de rc d = Inr (d', e)" by blast
    from DebitWithReason_posted [OF assms(1,2) ok] obtain r where
      "entry_posted r d d'" "le_UserID r = u" "le_AmountCents r = - a" by (auto simp: posted_def)
    with ok Some False show ?thesis
      by (auto simp: entry_posted_def wallet_balance_def fun_eq_iff)
  qed
qed

theorem DebitWithReason_outcome_witness:
  "\<exists>d' e. DebitWithReason ''e2'' ''u1'' 4000 Withdrawal None None None None sample_db = Inr (d', e)
    \<and> wallet_balance d' = (wallet_balance sample_db)(''u1'' \<mapsto> 6000)"
  using DebitWithReason_outcome [OF sample_inv, of 4000 "''u1''" "''e2''" Withdrawal None None None None]
  by (auto simp: sample_db_def is_i64_def)

text \<open>
  Functional behaviour of a credit, overflow included: on an existing wallet that may be
  credited (not frozen, or a prize or a refund), a positive amount is added exactly when the
  sum fits an \<open>int64\<close>; a sum that would wrap around is rejected by the database and nothing is
  stored. Other credits to a frozen wallet are refused.
\<close>
theorem CreditWithReason_outcome:
  assumes "wallet_inv d" "is_i64 a" "0 < a" "u \<in> db_users d" "\<forall>x \<in> set (db_ledger d). le_ID x \<noteq> i"
    and "db_wallets d u = Some w"
  shows "if w_Status w = Frozen \<and> t \<noteq> PrizeCredit \<and> t \<noteq> ContestRefund
      then CreditWithReason i u a t rt ri de rc d = Inl (WalletFrozenError u)
      else if w_BalanceCents w + a > max_i64
        then CreditWithReason i u a t rt ri de rc d = Inl (DbError ''chk_balance_non_negative'')
      else \<exists>d' e. CreditWithReason i u a t rt ri de rc d = Inr (d', e)
        \<and> wallet_balance d' = (wallet_balance d)(u \<mapsto> w_BalanceCents w + a)"
proof (cases "w_Status w = Frozen \<and> t \<noteq> PrizeCredit \<and> t \<noteq> ContestRefund")
  case True
  with assms show ?thesis by (auto simp: CreditWithReason_def creditBalance_def GetBalanceTx_def)
next
  case allowed: False
  then have cb: "creditBalance (t = PrizeCredit \<or> t = ContestRefund) u d = Inr (w_BalanceCents w)"
    using assms(6) by (auto simp: creditBalance_Inr)
  note b = wallet_invD [OF assms(1,6)]
  show ?thesis
  proof (cases "w_BalanceCents w + a > max_i64")
    case True
    then have "wrap64 (w_BalanceCents w + a) < 0"
      using balance_no_wrap [OF b(2,3) assms(2)] by force
    with cb assms(3,6) have "CreditWithReason i u a t rt ri de rc d = Inl (DbError ''chk_balance_non_negative'')"
      by (simp add: CreditWithReason_def Let_def update_wallet_balance_def)
    with allowed True show ?thesis by presburger
  next
    case False
    then have i64: "is_i64 (w_BalanceCents w + a)" using b assms(3) by (auto simp: is_i64_def)
    have "\<exists>d' e. CreditWithReason i u a t rt ri de rc d = Inr (d', e)"
      using cb assms(3-6) i64 b
      by (simp add: CreditWithReason_def Let_def update_wallet_balance_def createLedgerEntry_eq
          createLedgerEntryWithIdempotency_def insert_ledger_def key_taken_def)
    then obtain d' e where ok: "CreditWithReason i u a t rt ri de rc d = Inr (d', e)" by blast
    from CreditWithReason_posted [OF assms(1,2) ok] obtain r where
      "entry_posted r d d'" "le_UserID r = u" "le_AmountCents r = a" by (auto simp: posted_def)
    then have "wallet_balance d' = (wallet_balance d)(u \<mapsto> w_BalanceCents w + a)"
      using assms(6) by (auto simp: entry_posted_def wallet_balance_def fun_eq_iff)
    with ok allowed False show ?thesis by auto
  qed
qed

theorem CreditWithReason_outcome_witness:
  "CreditWithReason ''e2'' ''u1'' max_i64 Adjustment None None None None sample_db =
     Inl (DbError ''chk_balance_non_negative'')
   \<and> (\<exists>d' e. CreditWithReason ''e2'' ''u1'' 50 Adjustment None None None None sample_db = Inr (d', e)
        \<and> wallet_balance d' = (wallet_balance sample_db)(''u1'' \<mapsto> 10050))"
  using CreditWithReason_outcome [OF sample_inv, of max_i64 "''u1''" "''e2''" _ Adjustment None None None None]
    CreditWithReason_outcome [OF sample_inv, of 50 "''u1''" "''e2''" _ Adjustment None None None None]
  by (auto simp: sample_db_def is_i64_def)

text \<open>
  A frozen wallet never loses money: as long as it stays frozen, no step of the wallet
  service lowers its balance (prizes and refunds may raise it).
\<close>
theorem frozen_wallet_keeps_funds:
  assumes "wallet_inv d" "wallet_step d d'" "db_wallets d u = Some w" "w_Status w = Frozen"
  shows "\<exists>w'. db_wallets d' u = Some w' \<and> w_BalanceCents w \<le> w_BalanceCents w'"
proof -
  consider "quiet d d'" | v a k x where "posted v a k x d d'"
    using wallet_step_cases [OF assms(2,1)] by blast
  then show ?thesis
  proof cases
    case 1
    with assms(3) show ?thesis by (fastforce simp: quiet_def)
  next
    case 2
    then obtain e where e: "entry_posted e d d'" "le_UserID e = v" "le_AmountCents e = a"
      and neg: "a < 0 \<longrightarrow> (\<exists>w. db_wallets d v = Some w \<and> w_Status w \<noteq> Frozen)"
      by (auto simp: posted_def)
    then show ?thesis using assms(3,4) by (cases "v = u") (auto simp: entry_posted_def)
  qed
qed

theorem frozen_wallet_keeps_funds_witness:
  "\<exists>w'. db_wallets (UnfreezeWallet ''u1'' (FreezeWallet ''u1'' sample_db)) ''u1'' = Some w' \<and> 10000 \<le> w_BalanceCents w'"
proof -
  let ?d = "FreezeWallet ''u1'' sample_db"
  have "wallet_inv ?d" by (rule wallet_step_inv [OF ws_freeze sample_inv])
  moreover have "\<exists>w. db_wallets ?d ''u1'' = Some w \<and> w_Status w = Frozen \<and> w_BalanceCents w = 10000"
    by (simp add: FreezeWallet_def update_wallet_status_def sample_db_def)
  ultimately show ?thesis using frozen_wallet_keeps_funds [OF _ ws_unfreeze] by metis
qed

end
