(* ===== verification/Go_Float.thy ===== *)
theory Go_Float
  imports Complex_Main Go_Base
begin

text \<open>
  Go's \<open>float64\<close> on amd64: IEEE 754 binary64 with round-to-nearest, ties to even. A finite
  float is the rational number it denotes; every arithmetic operation is the exact rational
  operation followed by \<open>f64_round\<close>, rounding to 53 significant bits. The exponent range is
  not limited: the values the modelled code forms (amounts below \<open>2^63\<close>, shares and
  percentages above \<open>2^-100\<close>) are far inside the normal range. \<open>math.Floor\<close> is exact;
  the conversion to \<open>int64\<close> truncates, and gives the least integer out of range, as amd64
  does. \<open>go_pow\<close> is the square-and-multiply loop of \<open>math.Pow\<close> for an integral exponent.
  The lemmas bound the relative rounding error by \<open>2^-53\<close>.
\<close>

type_synonym f64 = rat

definition round_even :: "rat \<Rightarrow> int" where
  "round_even r =
     (let f = \<lfloor>r\<rfloor>; d = r - of_int f in
      if d < 1/2 then f else if d > 1/2 then f + 1 else if even f then f else f + 1)"

text \<open>\<open>ilog2 n\<close> is the position of the highest set bit of \<open>n > 0\<close>.\<close>

function ilog2 :: "int \<Rightarrow> int" where
  "ilog2 n = (if n \<le> 1 then 0 else 1 + ilog2 (n div 2))"
  by pat_completeness auto
termination
  by (relation "measure nat") auto

declare ilog2.simps [simp del]

definition f64_exp :: "rat \<Rightarrow> int" where
  "f64_exp x =
     (let (p, q) = quotient_of x;
          k = ilog2 p - ilog2 q
      in if 2 powi k \<le> x then k else k - 1)"

definition f64_pos :: "rat \<Rightarrow> rat" where
  "f64_pos x = (let u = 2 powi (f64_exp x - 52) in of_int (round_even (x / u)) * u)"

definition f64_round :: "rat \<Rightarrow> f64" where
  "f64_round x = (if x = 0 then 0 else if x < 0 then - f64_pos (- x) else f64_pos x)"

definition f64_of_int :: "int \<Rightarrow> f64" where "f64_of_int n = f64_round (of_int n)"
definition f64_add :: "f64 \<Rightarrow> f64 \<Rightarrow> f64" where "f64_add a b = f64_round (a + b)"
definition f64_sub :: "f64 \<Rightarrow> f64 \<Rightarrow> f64" where "f64_sub a b = f64_round (a - b)"
definition f64_mul :: "f64 \<Rightarrow> f64 \<Rightarrow> f64" where "f64_mul a b = f64_round (a * b)"
definition f64_div :: "f64 \<Rightarrow> f64 \<Rightarrow> f64" where "f64_div a b = f64_round (a / b)"

definition f64_trunc :: "f64 \<Rightarrow> int" where
  "f64_trunc x = (if x < 0 then - \<lfloor>- x\<rfloor> else \<lfloor>x\<rfloor>)"

definition f64_to_int :: "f64 \<Rightarrow> int" where
  "f64_to_int x = (if is_i64 (f64_trunc x) then f64_trunc x else min_i64)"

definition f64_floor :: "f64 \<Rightarrow> f64" where
  "f64_floor x = of_int \<lfloor>x\<rfloor>"

text \<open>\<open>math.Pow(x, i)\<close> for \<open>0 < x\<close> and an integer \<open>i \<ge> 0\<close>: \<open>Frexp\<close>, then the bits of \<open>i\<close>.\<close>

fun go_pow_loop :: "nat \<Rightarrow> f64 \<Rightarrow> int \<Rightarrow> f64 \<Rightarrow> int \<Rightarrow> f64 \<times> int" where
  "go_pow_loop i x1 xe a1 ae =
     (if i = 0 then (a1, ae)
      else if xe < - 4096 \<or> 4096 < xe then (a1, ae + xe)
      else
        let (a1', ae') = (if odd i then (f64_mul a1 x1, ae + xe) else (a1, ae));
            x2 = f64_mul x1 x1; xe2 = 2 * xe;
            (x3, xe3) = (if x2 < 1/2 then (f64_add x2 x2, xe2 - 1) else (x2, xe2))
        in go_pow_loop (i div 2) x3 xe3 a1' ae')"

declare go_pow_loop.simps [simp del]

definition go_pow :: "f64 \<Rightarrow> nat \<Rightarrow> f64" where
  "go_pow x i =
     (if i = 0 \<or> x = 1 then 1 else if i = 1 then x
      else let e = f64_exp x + 1; (a1, ae) = go_pow_loop i (x / 2 powi e) e 1 0
           in f64_round (a1 * 2 powi ae))"

section \<open>Rounding error\<close>

lemma ilog2_nonneg: "0 \<le> ilog2 n"
proof (induction n rule: ilog2.induct)
  case (1 n)
  then show ?case by (subst ilog2.simps) auto
qed

lemma ilog2_bounds: "1 \<le> n \<Longrightarrow> 2 ^ nat (ilog2 n) \<le> n \<and> n < 2 * 2 ^ nat (ilog2 n)"
proof (induction n rule: ilog2.induct)
  case (1 n)
  show ?case
  proof (cases "n \<le> 1")
    case True
    with "1.prems" show ?thesis by (subst (1 2) ilog2.simps) simp
  next
    case False
    define p where "p = (2::int) ^ nat (ilog2 (n div 2))"
    have "p \<le> n div 2 \<and> n div 2 < 2 * p" using "1.IH" False by (simp add: p_def)
    then have "2 * p \<le> n \<and> n < 4 * p" by arith
    moreover have "nat (ilog2 n) = Suc (nat (ilog2 (n div 2)))"
      using False ilog2_nonneg [of "n div 2"] by (subst ilog2.simps) (simp add: nat_add_distrib)
    ultimately show ?thesis by (simp add: p_def)
  qed
qed

lemma ilog2_rat_bounds:
  assumes "1 \<le> n"
  shows "2 powi (ilog2 n) \<le> (of_int n :: rat)" "(of_int n :: rat) \<le> 2 * 2 powi (ilog2 n)"
proof -
  have "(of_int (2 ^ nat (ilog2 n)) :: rat) \<le> of_int n" "(of_int n :: rat) \<le> of_int (2 * 2 ^ nat (ilog2 n))"
    using ilog2_bounds [OF assms] by (simp_all only: of_int_le_iff less_imp_le)
  then show "2 powi (ilog2 n) \<le> (of_int n :: rat)" "(of_int n :: rat) \<le> 2 * 2 powi (ilog2 n)"
    using ilog2_nonneg [of n] by (simp_all add: power_int_def)
qed

lemma f64_exp_le:
  assumes "0 < x"
  shows "2 powi (f64_exp x) \<le> x"
proof -
  obtain p q where pq: "quotient_of x = (p, q)" by (cases "quotient_of x")
  then have q: "1 \<le> q" and x: "x = of_int p / of_int q"
    using quotient_of_denom_pos [OF pq] by (simp_all add: quotient_of_div)
  with assms have p: "1 \<le> p" by (simp add: zero_less_divide_iff)
  have "2 powi (ilog2 p - ilog2 q - 1) = 2 powi (ilog2 p) / (2 * 2 powi (ilog2 q) :: rat)"
    by (simp add: power_int_diff)
  also have "\<dots> \<le> of_int p / of_int q"
    using ilog2_rat_bounds [OF p] ilog2_rat_bounds [OF q] p q by (intro frac_le) simp_all
  finally have "2 powi (ilog2 p - ilog2 q - 1) \<le> x" by (simp add: x)
  then show ?thesis by (simp add: f64_exp_def pq Let_def)
qed

lemma round_even_error: "\<bar>of_int (round_even r) - r\<bar> \<le> 1/2"
  using floor_correct [of r] by (auto simp: round_even_def Let_def abs_le_iff)

lemma round_even_nonneg: "0 \<le> r \<Longrightarrow> 0 \<le> round_even r"
  by (auto simp: round_even_def Let_def)

lemma f64_pos_error:
  assumes "0 < x"
  shows "\<bar>f64_pos x - x\<bar> \<le> x / 2 ^ 53"
proof -
  define u :: rat where "u = 2 powi (f64_exp x - 52)"
  have u: "0 < u" by (simp add: u_def)
  have "f64_pos x - x = (of_int (round_even (x / u)) - x / u) * u"
    using u by (simp add: f64_pos_def Let_def u_def [symmetric] left_diff_distrib)
  then have "\<bar>f64_pos x - x\<bar> \<le> 1/2 * u"
    using u round_even_error [of "x / u"] by (simp add: abs_mult mult_right_mono)
  also have "1/2 * u = 2 powi (f64_exp x) / 2 ^ 53"
    by (simp add: u_def power_int_diff)
  also have "\<dots> \<le> x / 2 ^ 53"
    using f64_exp_le [OF assms] by (simp add: divide_right_mono)
  finally show ?thesis .
qed

lemma f64_round_nonneg [simp]: "0 \<le> x \<Longrightarrow> 0 \<le> f64_round x"
  by (auto simp: f64_round_def f64_pos_def Let_def intro!: mult_nonneg_nonneg round_even_nonneg)

lemma f64_round_error:
  assumes "0 \<le> x"
  shows "\<bar>f64_round x - x\<bar> \<le> x / 2 ^ 53"
  using assms f64_pos_error [of x] by (cases "x = 0") (simp_all add: f64_round_def)

lemma f64_round_le: "0 \<le> x \<Longrightarrow> f64_round x \<le> x * (1 + 1 / 2 ^ 53)"
  using f64_round_error [of x] abs_ge_self [of "f64_round x - x"] by (simp add: algebra_simps)

text \<open>Integers below \<open>2 ^ 53\<close> are exact.\<close>

lemma round_even_int: "round_even (of_int n) = n"
  by (simp add: round_even_def)

lemma f64_pos_int:
  assumes "0 < n" and "n < 2 ^ 53"
  shows "f64_pos (of_int n) = of_int n"
proof -
  have "2 powi (f64_exp (of_int n)) \<le> (of_int n :: rat)" by (rule f64_exp_le) (use assms in simp)
  also have "\<dots> < of_int (2 ^ 53)" by (simp only: of_int_less_iff assms(2))
  finally have "(2::rat) powi (f64_exp (of_int n)) < 2 powi 53" by (simp add: power_int_def)
  then have "f64_exp (of_int n) < 53"
    using power_int_increasing [of 53 "f64_exp (of_int n)" "2 :: rat"] by (meson leD not_le_imp_less one_le_numeral)
  then obtain j :: nat where j: "f64_exp (of_int n) - 52 = - int j" by (intro that [of "nat (52 - f64_exp (of_int n))"]) simp
  have u: "(2::rat) powi (f64_exp (of_int n) - 52) = 1 / 2 ^ j"
    unfolding j power_int_minus power_int_of_nat inverse_eq_divide ..
  have "round_even (of_int n / (1 / 2 ^ j)) = n * 2 ^ j"
    using round_even_int [of "n * 2 ^ j"] by simp
  then show ?thesis by (simp add: f64_pos_def u Let_def)
qed

lemma f64_of_int_eq:
  assumes "\<bar>n\<bar> < 2 ^ 53"
  shows "f64_of_int n = of_int n"
proof (cases "n < 0")
  case True
  then show ?thesis using f64_pos_int [of "- n"] assms by (simp add: f64_of_int_def f64_round_def)
next
  case False
  then show ?thesis using f64_pos_int [of n] assms by (cases "n = 0") (simp_all add: f64_of_int_def f64_round_def)
qed

lemma f64_of_int_exact:
  assumes "\<bar>n\<bar> < 2 ^ 53"
  shows "f64_to_int (f64_of_int n) = n"
proof -
  have "f64_trunc (f64_of_int n) = n" using f64_of_int_eq [OF assms] by (simp add: f64_trunc_def)
  then show ?thesis using assms by (auto simp: f64_to_int_def is_i64_def)
qed

end
