(* ===== verification/Prize_Distribution.thy ===== *)
theory Prize_Distribution
  imports Go_Float
begin

text \<open>
  \<open>packages/scoring/distribution\<close>: the prize policy \<open>tralent_v1\<close> (\<open>tralent_v1.go\<close>) and the
  entry points that call it (\<open>distribution.go\<close>). Percentages and weights are \<open>float64\<close>
  values of \<open>Go_Float\<close>; cents are 64-bit integers. The lemmas show that the shares always add
  up to the pool, cent for cent, and that their ranks are exactly \<open>1..n\<close>.
\<close>

record PrizeShare =
  ps_Rank :: int
  ps_AmountCents :: int
  ps_Percentage :: f64

definition TralentV1DecayFactor :: f64 where "TralentV1DecayFactor = f64_round (4/5)"
definition TralentV1WinnerRatio :: f64 where "TralentV1WinnerRatio = f64_round (3/10)"

definition tralentV1RankBands :: "(int \<times> int) list" where
  "tralentV1RankBands =
    [(1, 1), (2, 2), (3, 3), (4, 4), (5, 5), (6, 6), (7, 7), (8, 8), (9, 9), (10, 10),
     (11, 15), (16, 20), (21, 25), (26, 30), (31, 35), (36, 40), (41, 50), (51, 60),
     (61, 75), (76, 100), (101, 125), (126, 150), (151, 175), (176, 200), (201, 225),
     (226, 250), (251, 275), (276, 300), (301, 375), (376, 450), (451, 525), (526, 600),
     (601, 750), (751, 900), (901, 1050), (1051, 1200), (1201, 1500), (1501, 1800),
     (1801, 2100), (2101, 2400), (2401, 3000)]"

definition tralentV1SnapToBandUpper :: "int \<Rightarrow> int" where
  "tralentV1SnapToBandUpper raw =
     (case List.find (\<lambda>(lo, hi). raw \<ge> lo \<and> raw \<le> hi) tralentV1RankBands of
        Some (lo, hi) \<Rightarrow> hi
      | None \<Rightarrow> raw)"

definition TralentV1PlannedWinners :: "int \<Rightarrow> int" where
  "TralentV1PlannedWinners participants =
     (if participants < 2 then 0
      else if participants \<le> 3 then 1
      else if participants \<le> 6 then 2
      else if participants \<le> 11 then 3
      else let raw = f64_to_int (f64_floor (f64_add (f64_mul (f64_of_int participants) TralentV1WinnerRatio) (1/2)));
               raw = (if raw < 1 then 1 else raw)
           in tralentV1SnapToBandUpper raw)"

definition TralentV1SmallContestPercents :: "int \<Rightarrow> f64 list option" where
  "TralentV1SmallContestPercents participants =
     (if participants \<ge> 2 \<and> participants \<le> 3 then Some [100]
      else if participants = 4 then Some [80, 20]
      else if participants = 5 then Some [75, 25]
      else if participants = 6 then Some [70, 30]
      else if participants = 7 then Some [65, 25, 10]
      else if participants = 8 then Some [60, 25, 15]
      else if participants = 9 then Some [55, 30, 15]
      else if participants = 10 \<or> participants = 11 then Some [50, 30, 20]
      else None)"

fun activeBands :: "int \<Rightarrow> (int \<times> int) list \<Rightarrow> (int \<times> int) list" where
  "activeBands plannedWinners [] = []"
| "activeBands plannedWinners ((b0, b1) # bs) =
     (if b1 \<le> 10 then activeBands plannedWinners bs
      else if b0 > plannedWinners then []
      else let lo = (if b0 < 11 then 11 else b0);
               hi = (if b1 > plannedWinners then plannedWinners else b1)
           in if lo \<le> hi then (lo, hi) # activeBands plannedWinners bs
              else activeBands plannedWinners bs)"

definition TralentV1ActiveBuckets :: "int \<Rightarrow> (int \<times> int) list" where
  "TralentV1ActiveBuckets plannedWinners =
     (if plannedWinners \<le> 0 then []
      else let out = map (\<lambda>rank. (rank, rank)) [1..min plannedWinners 10]
           in if plannedWinners \<le> 10 then out
              else out @ activeBands plannedWinners tralentV1RankBands)"

definition half_up_cents :: "int \<Rightarrow> f64 \<Rightarrow> int" where
  "half_up_cents prizePoolCents pct =
     f64_to_int (f64_floor (f64_add (f64_div (f64_mul (f64_of_int prizePoolCents) pct) 100) (1/2)))"

text \<open>The fixture shares of a small contest, renormalised to the first \<open>n\<close> ranks.\<close>

definition smallShares :: "int \<Rightarrow> f64 list \<Rightarrow> PrizeShare list" where
  "smallShares prizePoolCents pcts =
     (let sumPct = foldl f64_add 0 pcts
      in map (\<lambda>(i, p). let norm = f64_mul (f64_div p sumPct) 100
                        in \<lparr>ps_Rank = int i + 1, ps_AmountCents = half_up_cents prizePoolCents norm,
                            ps_Percentage = norm\<rparr>)
             (enumerate 0 pcts))"

text \<open>The geometric buckets, expanded to one allocation per rank.\<close>

definition bucketRanks :: "(int \<times> int) list \<Rightarrow> (int \<times> f64) list" where
  "bucketRanks buckets =
     (let weights = map (\<lambda>i. go_pow TralentV1DecayFactor i) [0..<length buckets];
          wSum = foldl f64_add 0 weights
      in concat (map (\<lambda>((lo, hi), w).
            let bucketPct = f64_mul (f64_div w wSum) 100;
                each = f64_div bucketPct (f64_of_int (hi - lo + 1))
            in map (\<lambda>r. (r, each)) [lo..hi]) (zip buckets weights)))"

definition bucketShares :: "int \<Rightarrow> (int \<times> f64) list \<Rightarrow> PrizeShare list" where
  "bucketShares prizePoolCents ranks =
     map (\<lambda>(rank, pct). \<lparr>ps_Rank = rank, ps_AmountCents = half_up_cents prizePoolCents pct,
                          ps_Percentage = pct\<rparr>) ranks"

definition addCents :: "int \<Rightarrow> PrizeShare \<Rightarrow> PrizeShare" where
  "addCents rem s = s\<lparr>ps_AmountCents := wrap64 (ps_AmountCents s + rem)\<rparr>"

fun addToFirst :: "(PrizeShare \<Rightarrow> bool) \<Rightarrow> int \<Rightarrow> PrizeShare list \<Rightarrow> PrizeShare list" where
  "addToFirst P rem [] = []"
| "addToFirst P rem (s # ss) = (if P s then addCents rem s # ss else s # addToFirst P rem ss)"

definition addResidual :: "(PrizeShare \<Rightarrow> bool) \<Rightarrow> int \<Rightarrow> PrizeShare list \<Rightarrow> PrizeShare list" where
  "addResidual P prizePoolCents shares =
     (let allocated = go_sum (map ps_AmountCents shares);
          rem = wrap64 (prizePoolCents - allocated)
      in if rem \<noteq> 0 \<and> shares \<noteq> [] then addToFirst P rem shares else shares)"

definition TralentV1CalculatePrizeDistribution :: "int \<Rightarrow> int \<Rightarrow> int \<Rightarrow> PrizeShare list" where
  "TralentV1CalculatePrizeDistribution prizePoolCents participants eligibleCount =
     (if prizePoolCents \<le> 0 \<or> participants < 2 then []
      else let planned = TralentV1PlannedWinners participants in
        if planned \<le> 0 then []
        else let actual = (if eligibleCount > 0 \<and> eligibleCount < planned then eligibleCount else planned) in
          if actual \<le> 0 then []
          else case TralentV1SmallContestPercents participants of
            Some pcts \<Rightarrow>
              (let n = (if actual > int (length pcts) then int (length pcts) else actual)
               in addResidual (\<lambda>_. True) prizePoolCents (smallShares prizePoolCents (take (nat n) pcts)))
          | None \<Rightarrow>
              (let buckets = TralentV1ActiveBuckets actual
               in if buckets = [] then []
                  else addResidual (\<lambda>s. ps_Rank s \<le> 10) prizePoolCents
                         (bucketShares prizePoolCents (bucketRanks buckets))))"

definition GetWinnersCount :: "int \<Rightarrow> f64 \<Rightarrow> int" where
  "GetWinnersCount participants winnerPercent = TralentV1PlannedWinners participants"

definition CalculateForContest :: "int \<Rightarrow> int \<Rightarrow> PrizeShare list" where
  "CalculateForContest prizePoolCents participants =
     TralentV1CalculatePrizeDistribution prizePoolCents participants 0"

definition GetWinnersCountPowerLaw :: "int \<Rightarrow> f64 \<Rightarrow> int" where
  "GetWinnersCountPowerLaw participants winnerPercent =
     (if participants \<le> 0 then 0
      else let wp = (if winnerPercent \<le> 0 then f64_round (3/10) else winnerPercent);
               wp = (if wp > 1 then 1 else wp);
               w = f64_to_int (of_int \<lceil>f64_mul (f64_of_int participants) wp\<rceil>)
           in if w < 1 then 1 else if w > participants then participants else w)"

definition CalculatePrizePoolBps :: "int \<Rightarrow> int \<Rightarrow> int \<Rightarrow> int" where
  "CalculatePrizePoolBps participants entryFeeCents platformFeeBps =
     (if participants \<le> 0 \<or> entryFeeCents \<le> 0 then 0
      else if platformFeeBps \<le> 0 then wrap64 (participants * entryFeeCents)
      else if platformFeeBps \<ge> 10000 then 0
      else let gross = wrap64 (participants * entryFeeCents)
           in go_quot (wrap64 (gross * (10000 - platformFeeBps))) 10000)"

section \<open>The shares add up to the pool\<close>

lemma sum_addToFirst:
  "\<exists>s \<in> set ss. P s \<Longrightarrow>
   wrap64 (sum_list (map ps_AmountCents (addToFirst P rem ss))) =
   wrap64 (sum_list (map ps_AmountCents ss) + rem)"
proof (induction ss)
  case Nil
  then show ?case by simp
next
  case (Cons s ss)
  show ?case
  proof (cases "P s")
    case True
    then show ?thesis by (simp add: addCents_def algebra_simps)
  next
    case False
    with Cons have "wrap64 (sum_list (map ps_AmountCents (addToFirst P rem ss))) =
        wrap64 (sum_list (map ps_AmountCents ss) + rem)" by auto
    then have "wrap64 (ps_AmountCents s + wrap64 (sum_list (map ps_AmountCents (addToFirst P rem ss)))) =
        wrap64 (ps_AmountCents s + wrap64 (sum_list (map ps_AmountCents ss) + rem))" by simp
    with False show ?thesis by (simp add: add.assoc)
  qed
qed

lemma addResidual_sum:
  assumes "\<exists>s \<in> set ss. P s" "is_i64 pool"
  shows "go_sum (map ps_AmountCents (addResidual P pool ss)) = pool"
proof -
  let ?t = "sum_list (map ps_AmountCents ss)"
  have ne: "ss \<noteq> []" using assms(1) by auto
  show ?thesis
  proof (cases "wrap64 (pool - wrap64 ?t) = 0")
    case True
    have "wrap64 ?t = wrap64 (?t + wrap64 (pool - ?t))" using True by simp
    also have "\<dots> = pool" using assms(2) by simp
    finally show ?thesis using True by (simp add: addResidual_def go_sum_eq Let_def)
  next
    case False
    then show ?thesis
      using assms ne sum_addToFirst [OF assms(1), of "wrap64 (pool - ?t)"]
      by (simp add: addResidual_def go_sum_eq Let_def)
  qed
qed

lemma map_rank_addToFirst [simp]: "map ps_Rank (addToFirst P rem ss) = map ps_Rank ss"
  by (induction ss) (simp_all add: addCents_def)

lemma map_rank_addResidual [simp]: "map ps_Rank (addResidual P pool ss) = map ps_Rank ss"
  by (simp add: addResidual_def Let_def)

section \<open>The ranks are 1..n\<close>

lemma map_rank_smallShares: "map ps_Rank (smallShares pool pcts) = [1..int (length pcts)]"
  by (rule nth_equalityI) (simp_all add: smallShares_def Let_def case_prod_beta nth_enumerate_eq)

lemma map_rank_bucketShares: "map ps_Rank (bucketShares pool ranks) = map fst ranks"
  by (simp add: bucketShares_def case_prod_beta comp_def)

definition expand :: "(int \<times> int) list \<Rightarrow> int list" where
  "expand buckets = concat (map (\<lambda>(lo, hi). [lo..hi]) buckets)"

lemma map_fst_bucketRanks: "map fst (bucketRanks buckets) = expand buckets"
proof -
  have "map fst (concat (map (\<lambda>((lo, hi), w :: f64). map (\<lambda>r. (r, f lo hi w)) [lo..hi]) (zip bs ws))) = expand bs"
    if "length ws = length bs" for bs :: "(int \<times> int) list" and ws and f :: "int \<Rightarrow> int \<Rightarrow> f64 \<Rightarrow> f64"
    using that
    by (induction bs arbitrary: ws) (auto simp: expand_def comp_def length_Suc_conv Suc_length_conv)
  from this [of "map (\<lambda>i. go_pow TralentV1DecayFactor i) [0..<length buckets]" buckets]
  show ?thesis by (simp add: bucketRanks_def Let_def)
qed

text \<open>Bands that follow each other without gaps.\<close>

fun contig :: "int \<Rightarrow> (int \<times> int) list \<Rightarrow> bool" where
  "contig lo [] = True"
| "contig lo ((a, b) # bs) = (a = lo \<and> a \<le> b \<and> contig (b + 1) bs)"

fun band_end :: "int \<Rightarrow> (int \<times> int) list \<Rightarrow> int" where
  "band_end lo [] = lo - 1"
| "band_end lo ((a, b) # bs) = band_end (b + 1) bs"

lemma band_end_ge: "contig lo bs \<Longrightarrow> lo - 1 \<le> band_end lo bs"
  by (induction bs arbitrary: lo) fastforce+

lemma expand_activeBands:
  "contig lo bs \<Longrightarrow> 11 \<le> lo \<Longrightarrow> expand (activeBands p bs) = [lo..min p (band_end lo bs)]"
proof (induction bs arbitrary: lo)
  case Nil
  then show ?case by (simp add: expand_def)
next
  case (Cons ab bs)
  obtain a b where ab: "ab = (a, b)" by (cases ab)
  with Cons.prems have h: "a = lo" "a \<le> b" "contig (b + 1) bs" "11 \<le> b + 1" by auto
  have IH: "expand (activeBands p bs) = [b + 1..min p (band_end (b + 1) bs)]"
    using Cons.IH h by blast
  have be: "b \<le> band_end (b + 1) bs" using band_end_ge [OF h(3)] by simp
  show ?case
  proof (cases "lo \<le> p")
    case True
    have "expand (activeBands p (ab # bs)) = [lo..min b p] @ [b + 1..min p (band_end (b + 1) bs)]"
      using True h Cons.prems(2) IH by (auto simp: ab expand_def Let_def min_def)
    also have "\<dots> = [lo..min p (band_end (b + 1) bs)]"
      using True h be by (auto simp: min_def upto_split1 [symmetric] intro!: upto_split2 [symmetric])
    finally show ?thesis by (simp add: ab)
  next
    case False
    then show ?thesis using h Cons.prems(2) by (simp add: ab expand_def)
  qed
qed

lemma expand_append: "expand (xs @ ys) = expand xs @ expand ys"
  by (simp add: expand_def)

lemma expand_singles: "expand (map (\<lambda>r. (r, r)) rs) = rs"
  by (induction rs) (simp_all add: expand_def)

lemma expand_ActiveBuckets:
  assumes "1 \<le> p"
  shows "expand (TralentV1ActiveBuckets p) = [1..min p 3000]"
proof (cases "p \<le> 10")
  case True
  then show ?thesis using assms by (simp add: TralentV1ActiveBuckets_def expand_singles min_def)
next
  case False
  have "expand (activeBands p tralentV1RankBands) = [11..min p 3000]"
    using expand_activeBands [of 11 "drop 10 tralentV1RankBands" p]
    by (simp add: tralentV1RankBands_def)
  moreover have "[1..10] @ [11..min p 3000] = [1..min p 3000]"
    using upto_split2 [of 1 10 "min p 3000"] False by simp
  moreover have "TralentV1ActiveBuckets p = map (\<lambda>r. (r, r)) [1..10] @ activeBands p tralentV1RankBands"
    using False by (simp add: TralentV1ActiveBuckets_def)
  ultimately show ?thesis
    by (simp only: expand_append expand_singles)
qed

section \<open>The whole allocation\<close>

lemma snap_ge: "raw \<le> tralentV1SnapToBandUpper raw"
proof (cases "List.find (\<lambda>(lo, hi). raw \<ge> lo \<and> raw \<le> hi) tralentV1RankBands")
  case None
  then show ?thesis by (simp add: tralentV1SnapToBandUpper_def)
next
  case (Some b)
  then have "fst b \<le> raw \<and> raw \<le> snd b" by (auto simp: find_Some_iff case_prod_beta)
  with Some show ?thesis by (simp add: tralentV1SnapToBandUpper_def case_prod_beta)
qed

lemma planned_pos: "2 \<le> n \<Longrightarrow> 1 \<le> TralentV1PlannedWinners n"
  by (auto simp: TralentV1PlannedWinners_def Let_def intro: order_trans [OF _ snap_ge])

lemma small_percents_length:
  "TralentV1SmallContestPercents n = Some pcts \<Longrightarrow> int (length pcts) = TralentV1PlannedWinners n"
  by (auto simp: TralentV1SmallContestPercents_def TralentV1PlannedWinners_def split: if_splits)

lemma small_planned_le: "TralentV1SmallContestPercents n = Some pcts \<Longrightarrow> TralentV1PlannedWinners n \<le> 3"
  by (auto simp: TralentV1SmallContestPercents_def TralentV1PlannedWinners_def split: if_splits)

definition actualWinners :: "int \<Rightarrow> int \<Rightarrow> int" where
  "actualWinners n e =
     (if e > 0 \<and> e < TralentV1PlannedWinners n then e else TralentV1PlannedWinners n)"

lemma actualWinners_bounds:
  "2 \<le> n \<Longrightarrow> 1 \<le> actualWinners n e \<and> actualWinners n e \<le> TralentV1PlannedWinners n"
  using planned_pos [of n] by (simp add: actualWinners_def)

lemma distribution_shape:
  assumes "0 < pool" "2 \<le> n"
  shows "\<exists>P ss. TralentV1CalculatePrizeDistribution pool n e = addResidual P pool ss
     \<and> map ps_Rank ss = [1..min (actualWinners n e) 3000] \<and> (\<exists>s \<in> set ss. P s)"
proof -
  let ?k = "actualWinners n e"
  have k: "1 \<le> ?k" "?k \<le> TralentV1PlannedWinners n" "\<not> TralentV1PlannedWinners n \<le> 0"
    using actualWinners_bounds [OF assms(2)] planned_pos [OF assms(2)] by simp_all
  have ex: "\<exists>s \<in> set ss. ps_Rank s \<le> 10" if "map ps_Rank ss = [1..min ?k 3000]" for ss
  proof -
    have "1 \<in> set (map ps_Rank ss)" using k by (simp add: that)
    then show ?thesis by force
  qed
  show ?thesis
  proof (cases "TralentV1SmallContestPercents n")
    case (Some pcts)
    have le: "?k \<le> int (length pcts)" "?k \<le> 3"
      using k small_percents_length [OF Some] small_planned_le [OF Some] by simp_all
    let ?ss = "smallShares pool (take (nat ?k) pcts)"
    have r: "map ps_Rank ?ss = [1..min ?k 3000]"
      using k le by (simp add: map_rank_smallShares min_absorb1 nat_le_iff)
    have "TralentV1CalculatePrizeDistribution pool n e = addResidual (\<lambda>_. True) pool ?ss"
      using assms k le Some
      by (simp add: TralentV1CalculatePrizeDistribution_def actualWinners_def [symmetric])
    with r ex [OF r] show ?thesis by blast
  next
    case None
    let ?ss = "bucketShares pool (bucketRanks (TralentV1ActiveBuckets ?k))"
    have r: "map ps_Rank ?ss = [1..min ?k 3000]"
      using k by (simp add: map_rank_bucketShares map_fst_bucketRanks expand_ActiveBuckets)
    have "TralentV1ActiveBuckets ?k \<noteq> []"
      using expand_ActiveBuckets [OF k(1)] k by (auto simp: expand_def)
    then have "TralentV1CalculatePrizeDistribution pool n e = addResidual (\<lambda>s. ps_Rank s \<le> 10) pool ?ss"
      using assms k None
      by (simp add: TralentV1CalculatePrizeDistribution_def actualWinners_def [symmetric])
    with r ex [OF r] show ?thesis by blast
  qed
qed

lemma distribution_ranks:
  assumes "0 < pool" "2 \<le> n"
  shows "map ps_Rank (TralentV1CalculatePrizeDistribution pool n e) = [1..min (actualWinners n e) 3000]"
proof -
  obtain P ss where "TralentV1CalculatePrizeDistribution pool n e = addResidual P pool ss"
    "map ps_Rank ss = [1..min (actualWinners n e) 3000]"
    using distribution_shape [OF assms] by blast
  then show ?thesis by simp
qed

lemma distribution_sum:
  assumes "0 < pool" "2 \<le> n" "is_i64 pool"
  shows "go_sum (map ps_AmountCents (TralentV1CalculatePrizeDistribution pool n e)) = pool"
proof -
  obtain P ss where "TralentV1CalculatePrizeDistribution pool n e = addResidual P pool ss"
    "\<exists>s \<in> set ss. P s"
    using distribution_shape [OF assms(1,2)] by blast
  with assms(3) show ?thesis by (simp add: addResidual_sum)
qed

lemma distribution_empty:
  "pool \<le> 0 \<or> n < 2 \<Longrightarrow> TralentV1CalculatePrizeDistribution pool n e = []"
  by (simp add: TralentV1CalculatePrizeDistribution_def)

section \<open>Properties\<close>

text \<open>
  (C19) Prize conservation of \<open>tralent_v1\<close>: for a positive pool and at least two participants
  the shares, summed as the program sums them (in 64-bit integers), equal the pool whatever
  the floating-point percentages round to; the ranks of the shares are \<open>1, 2, ..., k\<close> with no
  gap and no duplicate, where \<open>k\<close> is the planned winner count, cut to the eligible count and
  to the last band (3000).
\<close>
theorem tralent_v1_conserves_pool:
  assumes "0 < pool" "is_i64 pool" "2 \<le> n"
  shows "go_sum (map ps_AmountCents (TralentV1CalculatePrizeDistribution pool n e)) = pool
    \<and> map ps_Rank (TralentV1CalculatePrizeDistribution pool n e) =
        [1..min (if e > 0 \<and> e < GetWinnersCount n w then e else GetWinnersCount n w) 3000]"
  using assms distribution_sum [of pool n e] distribution_ranks [of pool n e]
  by (simp add: actualWinners_def GetWinnersCount_def)

theorem tralent_v1_conserves_pool_witness:
  "go_sum (map ps_AmountCents (TralentV1CalculatePrizeDistribution 12345 12 3)) = 12345
   \<and> map ps_Rank (TralentV1CalculatePrizeDistribution 12345 12 3) =
       [1..min (if (3::int) > 0 \<and> 3 < GetWinnersCount 12 0 then 3 else GetWinnersCount 12 0) 3000]"
  by (rule tralent_v1_conserves_pool) (simp_all add: is_i64_def)

text \<open>
  Above the last band the planned winner count and the paid ranks part: 12000
  participants plan 3600 winners (the count shown in previews), but 3000 ranks are paid.
\<close>
theorem tralent_v1_beyond_last_band:
  "GetWinnersCount 12000 0 = 3600 \<and> length (CalculateForContest 1000000 12000) = 3000"
proof -
  have w: "TralentV1PlannedWinners 12000 = 3600" by code_simp
  then have "actualWinners 12000 0 = 3600" by (simp add: actualWinners_def)
  then have "map ps_Rank (TralentV1CalculatePrizeDistribution 1000000 12000 0) = [1..min 3600 3000]"
    using distribution_ranks [of 1000000 12000 0] by (simp only: zero_less_numeral numeral_le_iff semiring_norm simp_thms)
  then have "length (map ps_Rank (TralentV1CalculatePrizeDistribution 1000000 12000 0)) =
      nat (min 3600 3000 - 1 + 1)"
    by (simp only: length_upto)
  then show ?thesis by (simp add: CalculateForContest_def GetWinnersCount_def w)
qed

end
