(* ===== verification/Economics.thy ===== *)
theory Economics
  imports Prize_Distribution
begin

text \<open>
  \<open>packages/scoring/economics\<close>: contest fees, prize pools, join charges, the late-join
  window and payout allocation (\<open>economics.go\<close>), and the join policy (\<open>join_policy.go\<close>).
  Amounts are 64-bit cents, times are nanoseconds. The lemmas show that the fee and the net
  pool split the gross pool exactly, that the per-entry prize contributions always cover the
  net pool, that a join charge is the sum of its parts, that late joining is confined to its
  window, and that an allocation never pays more than the pool.
\<close>

section \<open>Fees and pools\<close>

definition DefaultPlatformFeeBps :: int where [simp]: "DefaultPlatformFeeBps = 2000"
definition LateJoinSurchargeBps :: int where [simp]: "LateJoinSurchargeBps = 1000"
definition MaxLateJoinWindow :: int where [simp]: "MaxLateJoinWindow = 1800000000000"

record PoolResult =
  pr_Participants :: int
  pr_EntryFeeCents :: int
  pr_PlatformFeeBps :: int
  pr_GrossCents :: int
  pr_FeeCents :: int
  pr_NetCents :: int

definition ResolvePlatformFeeBps :: "int \<Rightarrow> f64 \<Rightarrow> int" where
  "ResolvePlatformFeeBps platformFeeBps commissionRatePercent =
     (if platformFeeBps > 0 \<and> platformFeeBps \<le> 10000 then platformFeeBps else DefaultPlatformFeeBps)"

definition PlatformFeeBpsForPaidWrite :: "bool \<Rightarrow> int \<Rightarrow> int \<Rightarrow> int" where
  "PlatformFeeBpsForPaidWrite isFree entryFeeCents platformFeeBps =
     (if isFree \<or> entryFeeCents \<le> 0 then 0 else ResolvePlatformFeeBps platformFeeBps 0)"

definition clampBps :: "int \<Rightarrow> int" where
  "clampBps b = (let b = (if b < 0 then 0 else b) in if b > 10000 then 10000 else b)"

definition NetFromGross :: "int \<Rightarrow> int \<Rightarrow> int \<times> int" where
  "NetFromGross grossCents platformFeeBps =
     (let grossCents = (if grossCents < 0 then 0 else grossCents);
          platformFeeBps = clampBps platformFeeBps
      in if platformFeeBps = 0 then (grossCents, 0)
         else if platformFeeBps \<ge> 10000 then (0, grossCents)
         else let netCents = go_quot (wrap64 (grossCents * (10000 - platformFeeBps))) 10000;
                  feeCents = wrap64 (grossCents - netCents)
              in (netCents, feeCents))"

definition CalculatePool :: "int \<Rightarrow> int \<Rightarrow> int \<Rightarrow> PoolResult" where
  "CalculatePool participants entryFeeCents platformFeeBps =
     (let participants = (if participants < 0 then 0 else participants);
          entryFeeCents = (if entryFeeCents < 0 then 0 else entryFeeCents);
          platformFeeBps = clampBps platformFeeBps;
          gross = wrap64 (participants * entryFeeCents);
          (net, fee) = NetFromGross gross platformFeeBps
      in \<lparr>pr_Participants = participants, pr_EntryFeeCents = entryFeeCents,
          pr_PlatformFeeBps = platformFeeBps, pr_GrossCents = gross,
          pr_FeeCents = fee, pr_NetCents = net\<rparr>)"

definition SplitEntryFee :: "int \<Rightarrow> int \<Rightarrow> int \<times> int" where
  "SplitEntryFee entryFeeCents platformFeeBps =
     (if entryFeeCents \<le> 0 then (0, 0)
      else let platformFeeBps = clampBps platformFeeBps;
               platformCents = go_quot (wrap64 (entryFeeCents * platformFeeBps)) 10000;
               prizeContributionCents = wrap64 (entryFeeCents - platformCents)
           in (platformCents, prizeContributionCents))"

definition LateJoinSurchargeCents :: "int \<Rightarrow> int" where
  "LateJoinSurchargeCents entryFeeCents =
     (if entryFeeCents \<le> 0 then 0
      else go_quot (wrap64 (entryFeeCents * LateJoinSurchargeBps)) 10000)"

record JoinCharge =
  jc_BaseEntryCents :: int
  jc_SurchargeCents :: int
  jc_TotalCents :: int
  jc_IsLate :: bool
  jc_PlatformCents :: int
  jc_PrizeCents :: int

definition ComputeJoinCharge :: "int \<Rightarrow> int \<Rightarrow> bool \<Rightarrow> JoinCharge" where
  "ComputeJoinCharge entryFeeCents platformFeeBps isLate =
     (let (platform, prize) = SplitEntryFee entryFeeCents platformFeeBps;
          surcharge = (if isLate then LateJoinSurchargeCents entryFeeCents else 0)
      in \<lparr>jc_BaseEntryCents = entryFeeCents, jc_SurchargeCents = surcharge,
          jc_TotalCents = wrap64 (entryFeeCents + surcharge), jc_IsLate = isLate,
          jc_PlatformCents = platform, jc_PrizeCents = prize\<rparr>)"

section \<open>Late join (economics.go, join_policy.go)\<close>

definition time_Sub :: "int \<Rightarrow> int \<Rightarrow> int" where
  "time_Sub t u = (let d = t - u in if d > max_i64 then max_i64 else if d < min_i64 then min_i64 else d)"

definition LateJoinCutoff :: "int \<Rightarrow> int \<Rightarrow> int" where
  "LateJoinCutoff startsAt endsAt =
     (if \<not> startsAt < endsAt then startsAt
      else let dur = time_Sub endsAt startsAt;
               window = f64_to_int (f64_mul (f64_of_int dur) (f64_round (1/10)));
               window = (if window > MaxLateJoinWindow then MaxLateJoinWindow else window);
               window = (if window < 0 then 0 else window)
           in startsAt + window)"

definition JoinAllowed :: "string \<Rightarrow> bool \<Rightarrow> bool \<Rightarrow> int \<Rightarrow> int \<Rightarrow> int \<Rightarrow> bool \<times> bool \<times> string" where
  "JoinAllowed status isFree lateJoinEnabled startsAt endsAt now =
     (if status = ''registration_open'' then (True, False, '''')
      else if status = ''scheduled'' then (False, False, ''contest_not_open'')
      else if status = ''running'' then
        (if isFree then (False, False, ''free_contest_no_late_join'')
         else if \<not> lateJoinEnabled then (False, False, ''late_join_disabled'')
         else let cutoff = LateJoinCutoff startsAt endsAt
              in if \<not> now < cutoff then (False, False, ''late_join_cutoff_passed'')
                 else (True, True, ''''))
      else (False, False, ''contest_not_open''))"

section \<open>Payouts\<close>

record Payout =
  po_UserID :: string
  po_Rank :: int
  po_AmountCents :: int

record RankedUser =
  ru_UserID :: string
  ru_Rank :: int
  ru_Score :: f64

datatype economics_error =
    PayoutExceedsPool int int
  | NegativePayoutTotal int
  | NegativePrizePool int
  | NegativePayout string int
  | EmptyUserID int

fun allocLoop :: "(int \<rightharpoonup> int) \<Rightarrow> RankedUser list \<Rightarrow> Payout list \<times> int \<Rightarrow> Payout list \<times> int" where
  "allocLoop rankAmount [] (out, tot) = (out, tot)"
| "allocLoop rankAmount (u # us) (out, tot) =
     (if ru_Rank u \<le> 0 then allocLoop rankAmount us (out, tot)
      else case rankAmount (ru_Rank u) of
             None \<Rightarrow> allocLoop rankAmount us (out, tot)
           | Some amt \<Rightarrow>
               if amt \<le> 0 then allocLoop rankAmount us (out, tot)
               else allocLoop rankAmount us
                      (out @ [\<lparr>po_UserID = ru_UserID u, po_Rank = ru_Rank u, po_AmountCents = amt\<rparr>],
                       wrap64 (tot + amt)))"

definition rankAmounts :: "PrizeShare list \<Rightarrow> int \<rightharpoonup> int" where
  "rankAmounts shares = foldl (\<lambda>m s. m(ps_Rank s \<mapsto> ps_AmountCents s)) Map.empty shares"

definition AllocatePayouts :: "RankedUser list \<Rightarrow> int \<Rightarrow> economics_error + Payout list" where
  "AllocatePayouts ranked prizePoolNet =
     (if ranked = [] \<or> prizePoolNet \<le> 0 then Inr []
      else let shares = CalculateForContest prizePoolNet (int (length ranked)) in
        if shares = [] then Inr []
        else let (out, tot) = allocLoop (rankAmounts shares) ranked ([], 0)
             in if tot > prizePoolNet then Inl (PayoutExceedsPool tot prizePoolNet) else Inr out)"

definition SumPayouts :: "Payout list \<Rightarrow> int" where
  "SumPayouts payouts = go_sum (map po_AmountCents payouts)"

definition AssertConservation :: "Payout list \<Rightarrow> int \<Rightarrow> economics_error option" where
  "AssertConservation payouts prizePoolNet =
     (let sum = SumPayouts payouts in
      if sum < 0 then Some (NegativePayoutTotal sum)
      else if prizePoolNet < 0 then Some (NegativePrizePool prizePoolNet)
      else case List.find (\<lambda>p. po_AmountCents p < 0 \<or> po_UserID p = '''') payouts of
             None \<Rightarrow> None
           | Some p \<Rightarrow> Some (if po_AmountCents p < 0 then NegativePayout (po_UserID p) (po_Rank p)
                              else EmptyUserID (po_Rank p)))"

section \<open>Fee arithmetic without overflow\<close>

lemma clampBps_bounds: "0 \<le> clampBps b" "clampBps b \<le> 10000"
  by (simp_all add: clampBps_def)

lemma clampBps_id [simp]: "0 \<le> b \<Longrightarrow> b \<le> 10000 \<Longrightarrow> clampBps b = b"
  by (simp add: clampBps_def)

lemma i64_scaled:
  assumes "0 \<le> g" "g * 10000 \<le> max_i64" "0 \<le> c" "c \<le> 10000"
  shows "is_i64 (g * c)" "0 \<le> g * c" "is_i64 g" "g * c \<le> g * 10000"
proof -
  show le: "g * c \<le> g * 10000" using assms by (intro mult_left_mono) simp_all
  show "0 \<le> g * c" using assms by simp
  with le assms show "is_i64 (g * c)" by (simp add: is_i64_def)
  show "is_i64 g" using assms by (simp add: is_i64_def)
qed

lemma NetFromGross_exact:
  assumes "0 \<le> g" "g * 10000 \<le> max_i64"
  shows "NetFromGross g b = (g * (10000 - clampBps b) div 10000, g - g * (10000 - clampBps b) div 10000)"
proof -
  let ?c = "10000 - clampBps b"
  have c: "0 \<le> ?c" "?c \<le> 10000" using clampBps_bounds [of b] by simp_all
  note s = i64_scaled [OF assms c]
  have q: "go_quot (g * ?c) 10000 = g * ?c div 10000" using s by (simp add: go_quot_nonneg)
  have "0 \<le> g * ?c div 10000" "g * ?c div 10000 \<le> g"
    using s assms zdiv_mono1 [OF s(4), of 10000] by simp_all
  then have "is_i64 (g - g * ?c div 10000)" using s(3) assms(1) by (simp add: is_i64_def)
  with q s show ?thesis
    using assms c clampBps_bounds [of b] by (auto simp: NetFromGross_def Let_def)
qed

lemma SplitEntryFee_exact:
  assumes "0 \<le> f" "f * 10000 \<le> max_i64"
  shows "SplitEntryFee f b = (f * clampBps b div 10000, f - f * clampBps b div 10000)"
proof (cases "f = 0")
  case True
  then show ?thesis by (simp add: SplitEntryFee_def)
next
  case False
  note s = i64_scaled [OF assms clampBps_bounds [of b]]
  have q: "go_quot (f * clampBps b) 10000 = f * clampBps b div 10000" using s by (simp add: go_quot_nonneg)
  have "0 \<le> f * clampBps b div 10000" "f * clampBps b div 10000 \<le> f"
    using s assms zdiv_mono1 [OF s(4), of 10000] by simp_all
  then have "is_i64 (f - f * clampBps b div 10000)" using s(3) assms(1) by (simp add: is_i64_def)
  with q s False assms show ?thesis by (simp add: SplitEntryFee_def Let_def)
qed

lemma CalculatePool_exact:
  assumes "0 \<le> n" "0 \<le> f" "n * f * 10000 \<le> max_i64"
  shows "pr_GrossCents (CalculatePool n f b) = n * f"
    and "pr_NetCents (CalculatePool n f b) = n * f * (10000 - clampBps b) div 10000"
    and "pr_FeeCents (CalculatePool n f b) = n * f - n * f * (10000 - clampBps b) div 10000"
proof -
  have g: "0 \<le> n * f" using assms by simp
  note s = i64_scaled [OF g assms(3), of 1]
  have cc: "clampBps (clampBps b) = clampBps b" using clampBps_bounds [of b] by simp
  show "pr_GrossCents (CalculatePool n f b) = n * f"
    "pr_NetCents (CalculatePool n f b) = n * f * (10000 - clampBps b) div 10000"
    "pr_FeeCents (CalculatePool n f b) = n * f - n * f * (10000 - clampBps b) div 10000"
    using assms s NetFromGross_exact [OF g assms(3), of "clampBps b"]
    by (simp_all add: CalculatePool_def Let_def cc split: prod.splits)
qed

text \<open>Rounding down per entry against rounding down once: at most one cent per entry.\<close>

lemma floor_split:
  fixes f b n :: int
  assumes "0 \<le> b" "b \<le> 10000" "0 \<le> n"
  shows "n * f * (10000 - b) div 10000 \<le> n * (f - f * b div 10000)"
    and "n * (f - f * b div 10000) \<le> n * f * (10000 - b) div 10000 + n"
proof -
  define q r where "q = f * b div 10000" and "r = f * b mod 10000"
  have fb: "f * b = 10000 * q + r" and r: "0 \<le> r" "r < 10000" by (simp_all add: q_def r_def)
  define a x where "a = n * (f - q)" and "x = n * f * (10000 - b)"
  have "n * f * (10000 - b) = n * (f * 10000 - f * b)" by (simp add: algebra_simps)
  also have "\<dots> = 10000 * (n * (f - q)) - n * r" by (simp only: fb) (simp add: algebra_simps)
  finally have x: "x = 10000 * a - n * r" by (simp add: a_def x_def)
  moreover have "0 \<le> n * r" "n * r \<le> n * 10000" using assms r by (simp_all add: mult_left_mono)
  ultimately have "x \<le> 10000 * a" "10000 * (a - n) \<le> x" by simp_all
  from zdiv_mono1 [OF this(1), of 10000] zdiv_mono1 [OF this(2), of 10000]
  have "x div 10000 \<le> a" "a - n \<le> x div 10000" by simp_all
  then show "n * f * (10000 - b) div 10000 \<le> n * (f - f * b div 10000)"
    "n * (f - f * b div 10000) \<le> n * f * (10000 - b) div 10000 + n"
    by (simp_all add: q_def [symmetric] a_def x_def)
qed

section \<open>The late-join window\<close>

lemma f64_tenth_le:
  fixes d :: int
  assumes "0 \<le> d"
  shows "0 \<le> f64_mul (f64_of_int d) (f64_round (1/10))"
    and "f64_mul (f64_of_int d) (f64_round (1/10)) \<le> of_int d"
proof -
  define e :: rat where "e = 1 + 1 / 2 ^ 53"
  define x where "x = f64_of_int d"
  define t where "t = f64_round (1/10)"
  have x: "0 \<le> x" "x \<le> of_int d * e" using assms f64_round_le [of "of_int d"] by (simp_all add: x_def f64_of_int_def e_def)
  have t: "0 \<le> t" "t \<le> 1/10 * e" using f64_round_le [of "1/10"] by (simp_all add: t_def e_def)
  have xt: "0 \<le> x * t" using x t by simp
  then show "0 \<le> f64_mul (f64_of_int d) (f64_round (1/10))" by (simp add: f64_mul_def x_def [symmetric] t_def [symmetric])
  have "f64_round (x * t) \<le> x * t * e" using f64_round_le [OF xt] by (simp add: e_def)
  also have "\<dots> \<le> (of_int d * e) * (1/10 * e) * e"
    using x t assms by (intro mult_mono mult_nonneg_nonneg) (simp_all add: e_def)
  also have "\<dots> = of_int d * (e * e * e / 10)" by simp
  also have "\<dots> \<le> of_int d * 1" using assms by (intro mult_left_mono) (simp_all add: e_def)
  finally show "f64_mul (f64_of_int d) (f64_round (1/10)) \<le> of_int d"
    by (simp add: f64_mul_def x_def [symmetric] t_def [symmetric])
qed

lemma f64_to_int_between:
  assumes "0 \<le> x" "x \<le> of_int d" "is_i64 d"
  shows "0 \<le> f64_to_int x" "f64_to_int x \<le> d"
proof -
  have "0 \<le> \<lfloor>x\<rfloor>" "\<lfloor>x\<rfloor> \<le> d" using assms floor_mono [OF assms(2)] by simp_all
  moreover from this assms have "is_i64 \<lfloor>x\<rfloor>" by (auto intro: is_i64_mono)
  ultimately show "0 \<le> f64_to_int x" "f64_to_int x \<le> d"
    using assms by (simp_all add: f64_to_int_def f64_trunc_def)
qed

lemma LateJoinCutoff_bounds:
  assumes "s \<le> e"
  shows "s \<le> LateJoinCutoff s e" "LateJoinCutoff s e \<le> e"
    and "LateJoinCutoff s e \<le> s + MaxLateJoinWindow"
proof -
  have "0 \<le> time_Sub e s" "is_i64 (time_Sub e s)" "time_Sub e s \<le> e - s"
    using assms by (simp_all add: time_Sub_def Let_def is_i64_def)
  then have w: "0 \<le> f64_to_int (f64_mul (f64_of_int (time_Sub e s)) (f64_round (1/10)))"
    "f64_to_int (f64_mul (f64_of_int (time_Sub e s)) (f64_round (1/10))) \<le> e - s"
    using f64_to_int_between [OF f64_tenth_le [of "time_Sub e s"]] by simp_all
  show "s \<le> LateJoinCutoff s e" "LateJoinCutoff s e \<le> e" "LateJoinCutoff s e \<le> s + MaxLateJoinWindow"
    using w assms by (simp_all add: LateJoinCutoff_def Let_def)
qed

section \<open>Allocation\<close>

definition paid :: "(int \<rightharpoonup> int) \<Rightarrow> RankedUser \<Rightarrow> bool" where
  "paid m u \<longleftrightarrow> ru_Rank u > 0 \<and> (\<exists>a. m (ru_Rank u) = Some a \<and> a > 0)"

definition payout_of :: "(int \<rightharpoonup> int) \<Rightarrow> RankedUser \<Rightarrow> Payout" where
  "payout_of m u = \<lparr>po_UserID = ru_UserID u, po_Rank = ru_Rank u, po_AmountCents = the (m (ru_Rank u))\<rparr>"

lemma allocLoop_eq:
  "allocLoop m us (out, wrap64 t) =
     (out @ map (payout_of m) (filter (paid m) us),
      wrap64 (t + sum_list (map (\<lambda>u. the (m (ru_Rank u))) (filter (paid m) us))))"
  by (induction us arbitrary: out t)
    (auto simp: paid_def payout_of_def add.assoc split: option.splits)

lemma allocLoop_start:
  "allocLoop m us ([], 0) =
     (map (payout_of m) (filter (paid m) us), SumPayouts (map (payout_of m) (filter (paid m) us)))"
  using allocLoop_eq [of m us "[]" 0] by (simp add: SumPayouts_def go_sum_eq payout_of_def comp_def)

lemma rankAmounts_foldl:
  "foldl (\<lambda>m s. m(ps_Rank s \<mapsto> ps_AmountCents s)) m ss =
     m ++ map_of (rev (map (\<lambda>s. (ps_Rank s, ps_AmountCents s)) ss))"
  by (induction ss arbitrary: m) (auto simp: fun_eq_iff map_add_def split: option.splits)

lemma rankAmounts_map_of:
  assumes "distinct (map ps_Rank ss)"
  shows "rankAmounts ss = map_of (map (\<lambda>s. (ps_Rank s, ps_AmountCents s)) ss)"
proof -
  let ?l = "map (\<lambda>s. (ps_Rank s, ps_AmountCents s)) ss"
  have "map_of (rev ?l) = map_of ?l"
    using assms map_of_inject_set [of "rev ?l" ?l] by (simp add: comp_def rev_map [symmetric])
  then show ?thesis by (simp add: rankAmounts_def rankAmounts_foldl)
qed

lemma sum_over_ranks:
  assumes "distinct (map ru_Rank us)" "distinct (map ps_Rank ss)"
    and "set (map ps_Rank ss) \<subseteq> set (map ru_Rank us)"
    and pos: "\<forall>s \<in> set ss. ps_Rank s > 0 \<and> ps_AmountCents s > 0"
  shows "sum_list (map (\<lambda>u. the (rankAmounts ss (ru_Rank u))) (filter (paid (rankAmounts ss)) us)) =
    sum_list (map ps_AmountCents ss)"
proof -
  let ?m = "rankAmounts ss"
  have some: "?m (ps_Rank s) = Some (ps_AmountCents s)" if "s \<in> set ss" for s
    using that assms(2) by (auto simp: rankAmounts_map_of comp_def intro!: map_of_is_SomeI)
  have dom: "\<exists>s \<in> set ss. ps_Rank s = r" if "?m r = Some a" for r a
    using that assms(2) by (auto simp: rankAmounts_map_of dest!: map_of_SomeD)
  have rs: "set (map ru_Rank (filter (paid ?m) us)) = set (map ps_Rank ss)" (is "?A = ?B")
  proof
    show "?A \<subseteq> ?B" by (force simp: paid_def dest!: dom)
    show "?B \<subseteq> ?A"
    proof
      fix r assume "r \<in> ?B"
      then obtain s where s: "s \<in> set ss" "r = ps_Rank s" by auto
      with assms(3) obtain u where "u \<in> set us" "ru_Rank u = r" by auto
      moreover have "?m r = Some (ps_AmountCents s)" "0 < r" "0 < ps_AmountCents s" using s some pos by auto
      ultimately show "r \<in> ?A" by (force simp: paid_def)
    qed
  qed
  have "sum_list (map (\<lambda>u. the (?m (ru_Rank u))) (filter (paid ?m) us)) =
      sum_list (map (\<lambda>r. the (?m r)) (map ru_Rank (filter (paid ?m) us)))" by (simp add: comp_def)
  also have "\<dots> = (\<Sum>r \<in> ?A. the (?m r))"
    using assms(1) by (intro sum_list_distinct_conv_sum_set) (simp add: distinct_map_filter)
  also have "\<dots> = sum_list (map (\<lambda>r. the (?m r)) (map ps_Rank ss))"
    using assms(2) by (simp only: rs sum_list_distinct_conv_sum_set)
  also have "\<dots> = sum_list (map ps_AmountCents ss)"
    by (simp add: comp_def some cong: map_cong)
  finally show ?thesis .
qed

lemma ComputeJoinCharge_parts:
  assumes "0 \<le> f" "f * 10000 \<le> max_i64"
  shows "let c = ComputeJoinCharge f b late in
    jc_TotalCents c = jc_PlatformCents c + jc_PrizeCents c + jc_SurchargeCents c
    \<and> jc_PlatformCents c + jc_PrizeCents c = f \<and> 0 \<le> jc_PlatformCents c \<and> 0 \<le> jc_PrizeCents c
    \<and> jc_SurchargeCents c = (if late then f div 10 else 0)"
proof -
  note s = i64_scaled [OF assms clampBps_bounds [of b]]
  note t = i64_scaled [OF assms, of 1000]
  have "f * 1000 div 10000 = f div 10" using div_mult_mult2 [of 1000 f 10] by simp
  then have sur: "LateJoinSurchargeCents f = f div 10"
    using t assms by (auto simp: LateJoinSurchargeCents_def go_quot_nonneg)
  have "f * clampBps b div 10000 \<le> f" "0 \<le> f * clampBps b div 10000"
    using s zdiv_mono1 [OF s(4), of 10000] by simp_all
  moreover have "0 \<le> f div 10" "f div 10 \<le> f" using assms by simp_all
  moreover from this assms have "is_i64 (f + f div 10)" unfolding is_i64_def by linarith
  ultimately show ?thesis
    using assms s by (simp add: ComputeJoinCharge_def SplitEntryFee_exact sur Let_def)
qed

section \<open>Properties\<close>

text \<open>
  The pool accounting is exact: as long as \<open>gross * 10000\<close> fits an \<open>int64\<close>, the platform
  fee and the net pool are non-negative, add up to participants times entry fee, and the fee
  is the exact basis-point share rounded up to the next cent.
\<close>
theorem CalculatePool_fee_and_net:
  assumes "0 \<le> n" "0 \<le> f" "n * f * 10000 \<le> max_i64" "0 \<le> b" "b \<le> 10000"
  shows "pr_GrossCents (CalculatePool n f b) = n * f
    \<and> pr_FeeCents (CalculatePool n f b) + pr_NetCents (CalculatePool n f b) = n * f
    \<and> 0 \<le> pr_NetCents (CalculatePool n f b) \<and> 0 \<le> pr_FeeCents (CalculatePool n f b)
    \<and> n * f * b \<le> 10000 * pr_FeeCents (CalculatePool n f b)
    \<and> 10000 * pr_FeeCents (CalculatePool n f b) < n * f * b + 10000"
proof -
  define g x where "g = n * f" and "x = g * (10000 - b)"
  have g0: "0 \<le> g" using assms by (simp add: g_def)
  have g: "0 \<le> x" "x \<le> g * 10000" "x = g * 10000 - g * b"
    using assms g0 mult_left_mono [of b 10000 g] by (simp_all add: x_def right_diff_distrib)
  have "0 \<le> x div 10000" "10000 * (x div 10000) \<le> x" "x < 10000 * (x div 10000) + 10000"
    using g by (simp_all add: pos_imp_zdiv_nonneg_iff)
  moreover have "pr_GrossCents (CalculatePool n f b) = g" "pr_NetCents (CalculatePool n f b) = x div 10000"
    "pr_FeeCents (CalculatePool n f b) = g - x div 10000"
    using CalculatePool_exact [OF assms(1-3), of b] assms(4,5) by (simp_all add: g_def x_def)
  moreover from calculation g have "x div 10000 \<le> g" "g * b = g * 10000 - x" by linarith+
  ultimately show ?thesis unfolding g_def [symmetric] by simp
qed

theorem CalculatePool_fee_and_net_witness:
  "pr_GrossCents (CalculatePool 7 1001 2000) = 7 * 1001
    \<and> pr_FeeCents (CalculatePool 7 1001 2000) + pr_NetCents (CalculatePool 7 1001 2000) = 7 * 1001
    \<and> 0 \<le> pr_NetCents (CalculatePool 7 1001 2000) \<and> 0 \<le> pr_FeeCents (CalculatePool 7 1001 2000)
    \<and> 7 * 1001 * 2000 \<le> 10000 * pr_FeeCents (CalculatePool 7 1001 2000)
    \<and> 10000 * pr_FeeCents (CalculatePool 7 1001 2000) < 7 * 1001 * 2000 + 10000"
  by (rule CalculatePool_fee_and_net) simp_all

text \<open>
  Custody covers the promised pool: the prize contributions that \<open>SplitEntryFee\<close> takes
  from \<open>n\<close> joins (rounded per entry) are never below the net pool that \<open>CalculatePool\<close>
  promises for them (rounded once), and exceed it by at most one cent per entry.
\<close>
theorem prize_contributions_cover_pool:
  assumes "0 \<le> n" "0 \<le> f" "f * 10000 \<le> max_i64" "n * f * 10000 \<le> max_i64"
  shows "pr_NetCents (CalculatePool n f b) \<le> n * snd (SplitEntryFee f b)
    \<and> n * snd (SplitEntryFee f b) \<le> pr_NetCents (CalculatePool n f b) + n"
  using assms floor_split [OF clampBps_bounds [of b], of n f]
  by (simp add: CalculatePool_exact SplitEntryFee_exact)

theorem prize_contributions_cover_pool_witness:
  "pr_NetCents (CalculatePool 7 1001 2000) \<le> 7 * snd (SplitEntryFee 1001 2000)
    \<and> 7 * snd (SplitEntryFee 1001 2000) \<le> pr_NetCents (CalculatePool 7 1001 2000) + 7"
  by (rule prize_contributions_cover_pool) simp_all

text \<open>
  A join charge is the sum of its parts: what the wallet is debited is the base platform
  fee, plus the prize contribution, plus the late surcharge; all parts are non-negative and
  the surcharge is a tenth of the entry fee rounded down, and zero for an on-time join.
\<close>
theorem ComputeJoinCharge_sums:
  assumes "0 \<le> f" "f * 10000 \<le> max_i64"
  shows "let c = ComputeJoinCharge f b late in
    jc_TotalCents c = jc_PlatformCents c + jc_PrizeCents c + jc_SurchargeCents c
    \<and> jc_PlatformCents c + jc_PrizeCents c = f \<and> 0 \<le> jc_PlatformCents c \<and> 0 \<le> jc_PrizeCents c
    \<and> jc_SurchargeCents c = (if late then f div 10 else 0)"
  by (rule ComputeJoinCharge_parts [OF assms])

theorem ComputeJoinCharge_sums_witness:
  "let c = ComputeJoinCharge 1999 2000 True in
    jc_TotalCents c = jc_PlatformCents c + jc_PrizeCents c + jc_SurchargeCents c
    \<and> jc_PlatformCents c + jc_PrizeCents c = 1999 \<and> 0 \<le> jc_PlatformCents c \<and> 0 \<le> jc_PrizeCents c
    \<and> jc_SurchargeCents c = (if True then 1999 div 10 else 0)"
  by (rule ComputeJoinCharge_sums) simp_all

text \<open>
  Late joining is confined to its window: a join is accepted as late only in a running,
  paid contest with late joining enabled, strictly before a cutoff that lies within thirty
  minutes of the start and not after the end, whatever the floating-point tenth rounds to.
\<close>
theorem late_join_window:
  assumes "startsAt \<le> endsAt"
    and "JoinAllowed status isFree enabled startsAt endsAt now = (True, True, reason)"
  shows "status = ''running'' \<and> \<not> isFree \<and> enabled \<and> now < endsAt
    \<and> now < startsAt + MaxLateJoinWindow \<and> reason = ''''"
  using assms(2) LateJoinCutoff_bounds [OF assms(1)]
  by (auto simp: JoinAllowed_def Let_def split: if_splits)

theorem late_join_window_witness:
  "''running'' = ''running'' \<and> \<not> False \<and> True \<and> (60000000000::int) < 3600000000000
    \<and> 60000000000 < 0 + MaxLateJoinWindow \<and> ([]::string) = ''''"
proof (rule late_join_window [of 0 3600000000000])
  show "JoinAllowed ''running'' False True 0 3600000000000 60000000000 = (True, True, '''')"
    by code_simp
qed simp

text \<open>
  Payout allocation is conservative and complete: when no two ranked users share a rank,
  every paid rank has a user, and all shares are positive, allocation succeeds, the payouts
  sum to exactly the pool, and each is positive and goes to a ranked user.
\<close>
theorem AllocatePayouts_conserves:
  assumes "0 < pool" "is_i64 pool" "2 \<le> length us" "distinct (map ru_Rank us)"
    and "set (map ps_Rank (CalculateForContest pool (int (length us)))) \<subseteq> set (map ru_Rank us)"
    and "\<forall>s \<in> set (CalculateForContest pool (int (length us))). ps_AmountCents s > 0"
  shows "\<exists>out. AllocatePayouts us pool = Inr out \<and> SumPayouts out = pool
    \<and> (\<forall>p \<in> set out. po_AmountCents p > 0 \<and> (\<exists>u \<in> set us. ru_UserID u = po_UserID p \<and> ru_Rank u = po_Rank p))"
proof -
  let ?ss = "CalculateForContest pool (int (length us))"
  let ?m = "rankAmounts ?ss"
  let ?out = "map (payout_of ?m) (filter (paid ?m) us)"
  have n: "2 \<le> int (length us)" using assms(3) by simp
  have r: "map ps_Rank ?ss = [1..min (actualWinners (int (length us)) 0) 3000]"
    using distribution_ranks [OF assms(1) n] by (simp add: CalculateForContest_def)
  have pos: "\<forall>s \<in> set ?ss. ps_Rank s > 0 \<and> ps_AmountCents s > 0"
  proof
    fix s assume s: "s \<in> set ?ss"
    then have "ps_Rank s \<in> set (map ps_Rank ?ss)" by simp
    then have "ps_Rank s > 0" by (simp only: r) simp
    with s assms(6) show "ps_Rank s > 0 \<and> ps_AmountCents s > 0" by blast
  qed
  have "SumPayouts ?out = go_sum (map ps_AmountCents ?ss)"
    using sum_over_ranks [OF assms(4) _ assms(5) pos]
    by (simp add: SumPayouts_def go_sum_eq payout_of_def comp_def r)
  also have "\<dots> = pool" using distribution_sum [OF assms(1) n assms(2)] by (simp add: CalculateForContest_def)
  finally have sum: "SumPayouts ?out = pool" .
  have "?ss \<noteq> []" using r actualWinners_bounds [OF n, of 0] by auto
  with assms sum have "AllocatePayouts us pool = Inr ?out"
    by (auto simp: AllocatePayouts_def allocLoop_start Let_def)
  with sum show ?thesis by (auto simp: paid_def payout_of_def)
qed

theorem AllocatePayouts_conserves_witness:
  "\<exists>out. AllocatePayouts [\<lparr>ru_UserID = ''a'', ru_Rank = 2, ru_Score = 0\<rparr>, \<lparr>ru_UserID = ''b'', ru_Rank = 1, ru_Score = 5\<rparr>] 1999
       = Inr out \<and> SumPayouts out = 1999
    \<and> (\<forall>p \<in> set out. po_AmountCents p > 0 \<and>
         (\<exists>u \<in> set [\<lparr>ru_UserID = ''a'', ru_Rank = 2, ru_Score = 0\<rparr>, \<lparr>ru_UserID = ''b'', ru_Rank = 1, ru_Score = 5\<rparr>].
            ru_UserID u = po_UserID p \<and> ru_Rank u = po_Rank p))"
proof (rule AllocatePayouts_conserves)
  let ?us = "[\<lparr>ru_UserID = ''a'', ru_Rank = 2, ru_Score = 0\<rparr>, \<lparr>ru_UserID = ''b'', ru_Rank = 1, ru_Score = 5\<rparr>]"
  have w: "TralentV1PlannedWinners 2 = 1" "TralentV1SmallContestPercents 2 = Some [100]" by code_simp+
  have f: "f64_add 0 100 = 100" "f64_div 100 100 = 1" "f64_mul 1 100 = 100" "half_up_cents 1999 100 = 1999"
    by code_simp+
  have s: "CalculateForContest 1999 2 = [\<lparr>ps_Rank = 1, ps_AmountCents = 1999, ps_Percentage = 100\<rparr>]"
    by (simp add: CalculateForContest_def TralentV1CalculatePrizeDistribution_def w smallShares_def f
        enumerate_eq_zip addResidual_def go_sum_eq is_i64_def)
  show "set (map ps_Rank (CalculateForContest 1999 (int (length ?us)))) \<subseteq> set (map ru_Rank ?us)"
    "\<forall>x \<in> set (CalculateForContest 1999 (int (length ?us))). ps_AmountCents x > 0"
    by (simp_all add: s)
qed (simp_all add: is_i64_def)

end
