(* ===== verification/Custody.thy ===== *)
theory Custody
  imports Wallet Economics "HOL-Library.List_Lexorder" "HOL-Library.Char_ord" "HOL-Library.Product_Lexorder"
begin

text \<open>
  \<open>packages/wallet/wallet.go\<close>, custody: the Super Admin Treasury, the Contest Fee Wallet and the
  contest prize pools. \<open>PostConfirmedDeposit\<close> takes money in, \<open>PostContestFee\<close> and
  \<open>PostContestPrizeContribution\<close> move it from the treasury to the fee wallet and to a pool,
  \<open>ReverseContestAdmission\<close> undoes one admission. The argument \<open>uuidParse\<close> stands for
  \<open>uuid.Parse\<close> of \<open>github.com/google/uuid\<close>. \<open>chargeJoin\<close> composes the operations as the join
  handler of the user BFF does. This theory holds the definitions; \<open>Custody_Invariant\<close> shows that
  each account is the sum of its ledger in every reachable state, \<open>Custody_Properties\<close> states
  conservation, exactly-once posting, and the exactness of reversals.
\<close>

section \<open>Constants (types.go)\<close>

definition TreasuryReconciliationForwardOnly :: string where
  "TreasuryReconciliationForwardOnly = ''forward_only_unreconciled''"
definition ContestFundsPolicyVersion :: string where "ContestFundsPolicyVersion = ''2026-09-06.1''"
definition ContestPrizePoolPolicyV1 :: string where "ContestPrizePoolPolicyV1 = ''contest_funds_v1''"
definition ContestFeeKindBase :: string where "ContestFeeKindBase = ''contest_base_fee''"
definition ContestFeeKindLateSurcharge :: string where
  "ContestFeeKindLateSurcharge = ''contest_late_surcharge''"

lemmas custody_consts = TreasuryReconciliationForwardOnly_def ContestFundsPolicyVersion_def
  ContestPrizePoolPolicyV1_def ContestFeeKindBase_def ContestFeeKindLateSurcharge_def

section \<open>Deposits\<close>

definition LockTreasuryForFinancialOperation :: "db \<Rightarrow> int result" where
  "LockTreasuryForFinancialOperation d =
     (case db_treasury d of
        None \<Rightarrow> Inl (DbError ''failed to lock Super Admin Treasury'')
      | Some t \<Rightarrow>
          if ta_ReconciliationStatus t \<noteq> TreasuryReconciliationForwardOnly
            then Inl (ErrMsg ''unexpected Super Admin Treasury reconciliation status'')
          else Inr (ta_BalanceCents t))"

definition depositKey :: "string \<Rightarrow> string" where
  "depositKey paymentIntentID = ''deposit:'' @ paymentIntentID"

definition depositEntitlementExists :: "string \<Rightarrow> int \<Rightarrow> string \<Rightarrow> db \<Rightarrow> bool" where
  "depositEntitlementExists userID amountCents paymentIntentID d =
     (\<exists>e \<in> set (db_ledger d). le_IdempotencyKey e = Some (depositKey paymentIntentID)
        \<and> le_UserID e = userID \<and> le_Type e = Deposit \<and> le_AmountCents e = amountCents
        \<and> le_RefType e = Some PaymentIntentRef \<and> le_RefID e = Some paymentIntentID)"

definition depositTreasuryEntry :: "string \<Rightarrow> string \<Rightarrow> int \<Rightarrow> int \<Rightarrow> string \<Rightarrow> TreasuryEntry" where
  "depositTreasuryEntry treasuryID userID amountCents newTreasuryBalance paymentIntentID =
     \<lparr>te_ID = treasuryID, te_Kind = ExternalDeposit, te_AmountCents = amountCents,
      te_BalanceAfterCents = newTreasuryBalance, te_PaymentIntentID = Some paymentIntentID,
      te_BeneficiaryID = Some userID, te_ContestID = None, te_ParticipantID = None,
      te_AdmissionID = None, te_FeeKind = None, te_OriginalID = None\<rparr>"

definition postEntitlement :: "string \<Rightarrow> string \<Rightarrow> int \<Rightarrow> string \<Rightarrow> db \<Rightarrow> (db \<times> bool) result" where
  "postEntitlement entryID userID amountCents paymentIntentID d =
     (case CreditIdempotent entryID userID amountCents Deposit (Some PaymentIntentRef)
         (Some paymentIntentID) None (depositKey paymentIntentID) d of
        Inl (DuplicateCreditError k e) \<Rightarrow>
          Inl (ErrMsg ''user entitlement exists without matching Treasury custody posting'')
      | Inl e \<Rightarrow> Inl e
      | Inr (d, e) \<Rightarrow> Inr (d, False))"

definition PostConfirmedDeposit :: "string \<Rightarrow> string \<Rightarrow> string \<Rightarrow> int \<Rightarrow> string \<Rightarrow> db \<Rightarrow> (db \<times> bool) result" where
  "PostConfirmedDeposit treasuryID entryID userID amountCents paymentIntentID d =
     (if amountCents \<le> 0 then Inl (ErrMsg ''confirmed deposit amount must be positive'')
      else if userID = '''' then Inl (ErrMsg ''confirmed deposit user ID is required'')
      else if paymentIntentID = '''' then Inl (ErrMsg ''confirmed deposit payment intent ID is required'')
      else rbind (LockTreasuryForFinancialOperation d) (\<lambda>treasuryBalance.
        case List.find (\<lambda>e. te_PaymentIntentID e = Some paymentIntentID) (db_treasury_ledger d) of
          Some e \<Rightarrow>
            if te_BeneficiaryID e \<noteq> Some userID \<or> te_AmountCents e \<noteq> amountCents
              then Inl (ErrMsg ''confirmed deposit replay does not match original custody posting'')
            else if \<not> depositEntitlementExists userID amountCents paymentIntentID d
              then Inl (ErrMsg ''custody posting exists without matching user entitlement'')
            else Inr (d, True)
        | None \<Rightarrow>
            let newTreasuryBalance = wrap64 (treasuryBalance + amountCents) in
            if newTreasuryBalance < treasuryBalance then Inl (ErrMsg ''Super Admin Treasury balance overflow'')
            else rbind (update_treasury_balance newTreasuryBalance d) (\<lambda>d.
              rbind (insert_treasury
                  (depositTreasuryEntry treasuryID userID amountCents newTreasuryBalance paymentIntentID) d) (\<lambda>d.
                postEntitlement entryID userID amountCents paymentIntentID d))))"
section \<open>Contest fees\<close>

definition admissionID :: "string \<Rightarrow> string \<Rightarrow> string" where
  "admissionID contestID participantUserID = contestID @ '':'' @ participantUserID"

definition feeTreasuryEntry :: "string \<Rightarrow> string \<Rightarrow> string \<Rightarrow> string \<Rightarrow> int \<Rightarrow> int \<Rightarrow> TreasuryEntry" where
  "feeTreasuryEntry treasuryID contestID participantUserID kind amountCents balanceAfter =
     \<lparr>te_ID = treasuryID, te_Kind = ContestFeeAllocation, te_AmountCents = - amountCents,
      te_BalanceAfterCents = balanceAfter, te_PaymentIntentID = None, te_BeneficiaryID = None,
      te_ContestID = Some contestID, te_ParticipantID = Some participantUserID,
      te_AdmissionID = Some (admissionID contestID participantUserID), te_FeeKind = Some kind,
      te_OriginalID = None\<rparr>"

definition feeEntry :: "string \<Rightarrow> string \<Rightarrow> string \<Rightarrow> string \<Rightarrow> int \<Rightarrow> int \<Rightarrow> int \<Rightarrow> int \<Rightarrow> ContestFeeEntry" where
  "feeEntry feeID contestID participantUserID kind amountCents balanceAfter platformFeeBps now =
     \<lparr>fe_ID = feeID, fe_Kind = kind, fe_AmountCents = amountCents, fe_BalanceAfterCents = balanceAfter,
      fe_ContestID = contestID, fe_ParticipantUserID = participantUserID,
      fe_AdmissionID = admissionID contestID participantUserID,
      fe_PolicyVersion = ContestFundsPolicyVersion, fe_PlatformFeeBps = platformFeeBps,
      fe_OriginalEntryID = None, fe_CreatedAt = now\<rparr>"

definition feeRow :: "string \<Rightarrow> string \<Rightarrow> db \<Rightarrow> ContestFeeEntry option" where
  "feeRow admission kind d =
     List.find (\<lambda>f. fe_AdmissionID f = admission \<and> fe_Kind f = kind) (db_fee_ledger d)"

definition feeTreasuryRow :: "string \<Rightarrow> string \<Rightarrow> db \<Rightarrow> TreasuryEntry option" where
  "feeTreasuryRow admission kind d =
     List.find (\<lambda>t. te_Kind t = ContestFeeAllocation \<and> te_AdmissionID t = Some admission
        \<and> te_FeeKind t = Some kind) (db_treasury_ledger d)"

definition PostContestFee ::
    "(string \<Rightarrow> bool) \<Rightarrow> string \<Rightarrow> string \<Rightarrow> string \<Rightarrow> string \<Rightarrow> string \<Rightarrow> int \<Rightarrow> int \<Rightarrow> db \<Rightarrow> (db \<times> bool) result" where
  "PostContestFee uuidParse treasuryID feeID contestID participantUserID kind amountCents platformFeeBps d =
     (if kind \<noteq> ContestFeeKindBase \<and> kind \<noteq> ContestFeeKindLateSurcharge
        then Inl (ErrMsg ''unsupported contest fee kind'')
      else if amountCents \<le> 0 then Inl (ErrMsg ''contest fee amount must be positive'')
      else if platformFeeBps \<le> 0 \<or> platformFeeBps > 10000
        then Inl (ErrMsg ''contest fee basis points out of range'')
      else if \<not> uuidParse contestID then Inl (ErrMsg ''invalid contest ID'')
      else if \<not> uuidParse participantUserID then Inl (ErrMsg ''invalid participant user ID'')
      else let admission = admissionID contestID participantUserID in
        rbind (LockTreasuryForFinancialOperation d) (\<lambda>treasuryBalance.
          case db_fee_account d of
            None \<Rightarrow> Inl (DbError ''failed to lock Contest Fee Wallet'')
          | Some balance \<Rightarrow>
              (case (feeRow admission kind d, feeTreasuryRow admission kind d) of
                 (Some f, Some t) \<Rightarrow>
                   if fe_AmountCents f \<noteq> amountCents \<or> fe_ContestID f \<noteq> contestID
                      \<or> fe_ParticipantUserID f \<noteq> participantUserID
                      \<or> fe_PolicyVersion f \<noteq> ContestFundsPolicyVersion
                      \<or> fe_PlatformFeeBps f \<noteq> platformFeeBps \<or> te_AmountCents t \<noteq> - amountCents
                      \<or> te_ContestID t \<noteq> Some contestID \<or> te_ParticipantID t \<noteq> Some participantUserID
                     then Inl (ErrMsg ''contest fee idempotency conflict'')
                   else Inr (d, True)
               | (Some f, None) \<Rightarrow> Inl (ErrMsg ''contest fee posting has no matching financial counterpart'')
               | (None, Some t) \<Rightarrow> Inl (ErrMsg ''contest fee posting has no matching financial counterpart'')
               | (None, None) \<Rightarrow>
                   if treasuryBalance < amountCents
                     then Inl (InsufficientBalanceError amountCents treasuryBalance)
                   else let newBalance = wrap64 (balance + amountCents) in
                     if newBalance < balance then Inl (ErrMsg ''Contest Fee Wallet balance overflow'')
                     else rbind (update_treasury_balance (treasuryBalance - amountCents) d) (\<lambda>d.
                       rbind (update_fee_balance newBalance d) (\<lambda>d.
                         rbind (insert_treasury (feeTreasuryEntry treasuryID contestID participantUserID
                             kind amountCents (treasuryBalance - amountCents)) d) (\<lambda>d.
                           rbind (insert_fee (feeEntry feeID contestID participantUserID kind amountCents
                               newBalance platformFeeBps (db_now d)) d) (\<lambda>d. Inr (d, False))))))))"

section \<open>Prize pools\<close>

definition poolKey :: "string \<Rightarrow> string" where
  "poolKey admission = ''contest_pool:'' @ admission @ '':v1''"

definition poolTreasuryEntry :: "string \<Rightarrow> string \<Rightarrow> string \<Rightarrow> int \<Rightarrow> int \<Rightarrow> TreasuryEntry" where
  "poolTreasuryEntry treasuryID contestID participantUserID amountCents balanceAfter =
     \<lparr>te_ID = treasuryID, te_Kind = ContestPoolAllocation, te_AmountCents = - amountCents,
      te_BalanceAfterCents = balanceAfter, te_PaymentIntentID = None, te_BeneficiaryID = None,
      te_ContestID = Some contestID, te_ParticipantID = Some participantUserID,
      te_AdmissionID = Some (admissionID contestID participantUserID), te_FeeKind = None,
      te_OriginalID = None\<rparr>"

definition poolEntry ::
    "string \<Rightarrow> string \<Rightarrow> string \<Rightarrow> string \<Rightarrow> int \<Rightarrow> int \<Rightarrow> int \<Rightarrow> ContestPrizePoolEntry" where
  "poolEntry poolEntryID contestID accountID participantUserID amountCents balanceAfter now =
     \<lparr>pe_ID = poolEntryID, pe_ContestID = contestID, pe_PoolAccountID = accountID,
      pe_AmountCents = amountCents, pe_Direction = ''credit'', pe_Reason = ''contest_admission'',
      pe_ReferenceType = ''contest_admission'', pe_ReferenceID = admissionID contestID participantUserID,
      pe_ParticipantUserID = participantUserID, pe_BalanceAfterCents = balanceAfter,
      pe_IdempotencyKey = poolKey (admissionID contestID participantUserID), pe_OriginalID = None,
      pe_CreatedAt = now\<rparr>"

definition PostContestPrizeContribution ::
    "(string \<Rightarrow> bool) \<Rightarrow> string \<Rightarrow> string \<Rightarrow> string \<Rightarrow> string \<Rightarrow> int \<Rightarrow> db \<Rightarrow> (db \<times> bool) result" where
  "PostContestPrizeContribution uuidParse treasuryID poolEntryID contestID participantUserID amountCents d =
     (if amountCents \<le> 0 then Inl (ErrMsg ''contest Prize Pool contribution must be positive'')
      else if \<not> uuidParse contestID then Inl (ErrMsg ''invalid contest ID'')
      else if \<not> uuidParse participantUserID then Inl (ErrMsg ''invalid participant user ID'')
      else let admission = admissionID contestID participantUserID; key = poolKey admission in
        rbind (LockTreasuryForFinancialOperation d) (\<lambda>treasuryBalance.
          case (db_contests d contestID, db_pools d contestID) of
            (Some c, Some a) \<Rightarrow>
              if cn_FundsPolicyVersion c \<noteq> ContestPrizePoolPolicyV1 then Inl (ErrMsg ''contest is not on contest_funds_v1'')
              else
               (case (List.find (\<lambda>p. pe_IdempotencyKey p = key) (db_pool_ledger d),
                      List.find (\<lambda>t. te_Kind t = ContestPoolAllocation \<and> te_AdmissionID t = Some admission)
                        (db_treasury_ledger d)) of
                  (Some p, Some t) \<Rightarrow>
                    if pe_AmountCents p \<noteq> amountCents \<or> pe_ContestID p \<noteq> contestID
                       \<or> pe_PoolAccountID p \<noteq> pa_ID a \<or> pe_ParticipantUserID p \<noteq> participantUserID
                       \<or> pe_ReferenceID p \<noteq> admission \<or> te_AmountCents t \<noteq> - amountCents
                       \<or> te_ContestID t \<noteq> Some contestID \<or> te_ParticipantID t \<noteq> Some participantUserID
                      then Inl (ErrMsg ''contest Prize Pool idempotency conflict'')
                    else Inr (d, True)
                | (Some p, None) \<Rightarrow> Inl (ErrMsg ''contest Prize Pool posting has no matching financial counterpart'')
                | (None, Some t) \<Rightarrow> Inl (ErrMsg ''contest Prize Pool posting has no matching financial counterpart'')
                | (None, None) \<Rightarrow>
                    if treasuryBalance < amountCents
                      then Inl (InsufficientBalanceError amountCents treasuryBalance)
                    else if amountCents > max_i64 - pa_BalanceCents a
                      then Inl (ErrMsg ''contest Prize Pool balance overflow'')
                    else let newPoolBalance = pa_BalanceCents a + amountCents in
                      rbind (update_treasury_balance (treasuryBalance - amountCents) d) (\<lambda>d.
                        rbind (insert_treasury (poolTreasuryEntry treasuryID contestID participantUserID
                            amountCents (treasuryBalance - amountCents)) d) (\<lambda>d.
                          rbind (insert_pool (poolEntry poolEntryID contestID (pa_ID a) participantUserID
                              amountCents newPoolBalance (db_now d)) d) (\<lambda>d.
                            rbind (update_pool_balance contestID newPoolBalance d) (\<lambda>d. Inr (d, False))))))
          | _ \<Rightarrow> Inl (DbError ''failed to lock contest Prize Pool'')))"

section \<open>Reversal of an admission\<close>

record ContestReversal =
  cr_WalletOriginalID :: string
  cr_WalletReversalID :: string
  cr_WalletCents :: int
  cr_FeeCents :: int
  cr_PrizePoolCents :: int
  cr_TreasuryCents :: int

definition no_reversal :: ContestReversal where
  "no_reversal = \<lparr>cr_WalletOriginalID = '''', cr_WalletReversalID = '''', cr_WalletCents = 0,
     cr_FeeCents = 0, cr_PrizePoolCents = 0, cr_TreasuryCents = 0\<rparr>"

text \<open>\<open>ORDER BY created_at DESC, id DESC LIMIT 1\<close> among the user's entries for the contest.\<close>

definition originalEntry :: "string \<Rightarrow> string \<Rightarrow> db \<Rightarrow> LedgerEntry option" where
  "originalEntry contestID userID d =
     (case rev (sort_key (\<lambda>e. (le_CreatedAt e, le_ID e))
        (filter (\<lambda>e. le_UserID e = userID \<and> le_Type e = ContestEntry \<and> le_RefType e = Some ContestRef
            \<and> le_RefID e = Some contestID) (db_ledger d))) of
        [] \<Rightarrow> None
      | e # _ \<Rightarrow> Some e)"

definition reversalKey :: "string \<Rightarrow> string \<Rightarrow> string" where
  "reversalKey contestID userID = ''contest_admission_reversal:'' @ admissionID contestID userID"

definition walletReversalEntry ::
    "string \<Rightarrow> string \<Rightarrow> string \<Rightarrow> string \<Rightarrow> string \<Rightarrow> string \<Rightarrow> int \<Rightarrow> int \<Rightarrow> string \<Rightarrow> int \<Rightarrow> LedgerEntry" where
  "walletReversalEntry reversalID contestID userID actorID eventID reason refund balanceAfter originalID now =
     \<lparr>le_ID = reversalID, le_UserID = userID, le_Type = ContestRefund, le_AmountCents = refund,
      le_BalanceAfterCents = balanceAfter, le_RefType = Some ContestRef, le_RefID = Some contestID,
      le_Description = Some (''Reversal: '' @ reason), le_ReasonCode = Some RC_ContestRefundAdmin,
      le_IdempotencyKey = Some (reversalKey contestID userID),
      le_CreatedAt = now, le_OriginalID = Some originalID, le_EventID = Some eventID,
      le_ActorID = Some actorID\<rparr>"

text \<open>The join of the fee rows of an admission with their treasury rows, ordered by kind.\<close>

definition feeOriginals :: "string \<Rightarrow> db \<Rightarrow> (ContestFeeEntry \<times> TreasuryEntry) list" where
  "feeOriginals admission d =
     concat (map (\<lambda>kind. [(f, t). f \<leftarrow> db_fee_ledger d, fe_AdmissionID f = admission \<and> fe_Kind f = kind,
                                   t \<leftarrow> db_treasury_ledger d, te_Kind t = ContestFeeAllocation
                                      \<and> te_AdmissionID t = Some admission \<and> te_FeeKind t = Some kind])
       [''contest_base_fee'', ''contest_late_surcharge''])"

record reversal_state =
  rs_fee :: int
  rs_treasury :: int
  rs_feeCents :: int
  rs_db :: db

definition feeReversalEntry :: "string \<Rightarrow> string \<Rightarrow> string \<Rightarrow> ContestFeeEntry \<Rightarrow> int \<Rightarrow> int \<Rightarrow> ContestFeeEntry" where
  "feeReversalEntry feeID contestID userID f balanceAfter now =
     \<lparr>fe_ID = feeID, fe_Kind = ''contest_fee_refund_reversal'', fe_AmountCents = - fe_AmountCents f,
      fe_BalanceAfterCents = balanceAfter, fe_ContestID = contestID, fe_ParticipantUserID = userID,
      fe_AdmissionID = admissionID contestID userID, fe_PolicyVersion = fe_PolicyVersion f,
      fe_PlatformFeeBps = fe_PlatformFeeBps f, fe_OriginalEntryID = Some (fe_ID f), fe_CreatedAt = now\<rparr>"

definition treasuryReversalEntry ::
    "string \<Rightarrow> string \<Rightarrow> string \<Rightarrow> int \<Rightarrow> int \<Rightarrow> string option \<Rightarrow> string \<Rightarrow> TreasuryEntry" where
  "treasuryReversalEntry treasuryID contestID userID amount balanceAfter feeKind originalID =
     \<lparr>te_ID = treasuryID, te_Kind = TreasuryReversal, te_AmountCents = amount,
      te_BalanceAfterCents = balanceAfter, te_PaymentIntentID = None, te_BeneficiaryID = None,
      te_ContestID = Some contestID, te_ParticipantID = Some userID,
      te_AdmissionID = Some (admissionID contestID userID), te_FeeKind = feeKind,
      te_OriginalID = Some originalID\<rparr>"

fun reverseFees :: "(nat \<Rightarrow> string) \<Rightarrow> string \<Rightarrow> string \<Rightarrow> (ContestFeeEntry \<times> TreasuryEntry) list
    \<Rightarrow> reversal_state \<Rightarrow> reversal_state result" where
  "reverseFees newID contestID userID [] s = Inr s"
| "reverseFees newID contestID userID ((f, t) # fs) s =
     (if rs_fee s < fe_AmountCents f then Inl (ErrMsg ''Contest Fee Wallet reversal would be negative'')
      else let feeBalance = rs_fee s - fe_AmountCents f;
               treasuryBalance = wrap64 (rs_treasury s + fe_AmountCents f);
               d = rs_db s
           in rbind (insert_fee (feeReversalEntry (newID (2 * length fs + 1)) contestID userID f feeBalance (db_now d)) d) (\<lambda>d.
                rbind (insert_treasury (treasuryReversalEntry (newID (2 * length fs + 2)) contestID userID
                    (fe_AmountCents f) treasuryBalance (Some (fe_Kind f)) (te_ID t)) d) (\<lambda>d.
                  reverseFees newID contestID userID fs
                    \<lparr>rs_fee = feeBalance, rs_treasury = treasuryBalance,
                     rs_feeCents = wrap64 (rs_feeCents s + fe_AmountCents f), rs_db = d\<rparr>)))"

definition poolReversalEntry ::
    "string \<Rightarrow> string \<Rightarrow> string \<Rightarrow> string \<Rightarrow> string \<Rightarrow> int \<Rightarrow> int \<Rightarrow> string \<Rightarrow> int \<Rightarrow> ContestPrizePoolEntry" where
  "poolReversalEntry poolEntryID contestID poolID userID eventID poolAmount balanceAfter originalID now =
     \<lparr>pe_ID = poolEntryID, pe_ContestID = contestID, pe_PoolAccountID = poolID,
      pe_AmountCents = - poolAmount, pe_Direction = ''debit'', pe_Reason = ''participant_refund'',
      pe_ReferenceType = ''lifecycle_event'', pe_ReferenceID = eventID, pe_ParticipantUserID = userID,
      pe_BalanceAfterCents = balanceAfter,
      pe_IdempotencyKey = ''contest_pool_reversal:'' @ admissionID contestID userID,
      pe_OriginalID = Some originalID, pe_CreatedAt = now\<rparr>"

definition poolOriginals :: "string \<Rightarrow> string \<Rightarrow> db \<Rightarrow> (ContestPrizePoolEntry \<times> TreasuryEntry) list" where
  "poolOriginals contestID userID d =
     [(p, t). p \<leftarrow> db_pool_ledger d, pe_ContestID p = contestID \<and> pe_ParticipantUserID p = userID
                 \<and> pe_Direction p = ''credit'',
              t \<leftarrow> db_treasury_ledger d, te_Kind t = ContestPoolAllocation
                 \<and> te_AdmissionID t = Some (pe_ReferenceID p)]"

text \<open>The pool part: the new pool balance, treasury balance, refunded pool cents and tables.\<close>

definition reversePool :: "string \<Rightarrow> string \<Rightarrow> string \<Rightarrow> string \<Rightarrow> string \<Rightarrow> string \<Rightarrow> int \<Rightarrow> int \<Rightarrow> db
    \<Rightarrow> (int \<times> int \<times> int \<times> db) result" where
  "reversePool treasuryID poolEntryID contestID userID eventID poolID poolBalance treasuryBalance d =
     (case poolOriginals contestID userID d of
        [] \<Rightarrow> Inr (poolBalance, treasuryBalance, 0, d)
      | (p, t) # _ \<Rightarrow>
          if poolBalance < pe_AmountCents p then Inl (ErrMsg ''Prize Pool reversal would be negative'')
          else let poolBalance' = poolBalance - pe_AmountCents p;
                   treasuryBalance' = wrap64 (treasuryBalance + pe_AmountCents p)
               in rbind (insert_pool (poolReversalEntry poolEntryID contestID poolID userID eventID
                      (pe_AmountCents p) poolBalance' (pe_ID p) (db_now d)) d) (\<lambda>d.
                    rbind (insert_treasury (treasuryReversalEntry treasuryID contestID userID (pe_AmountCents p)
                        treasuryBalance' None (te_ID t)) d) (\<lambda>d.
                      Inr (poolBalance', treasuryBalance', pe_AmountCents p, d))))"

definition ReverseContestAdmission ::
    "(string \<Rightarrow> bool) \<Rightarrow> string \<Rightarrow> (nat \<Rightarrow> string) \<Rightarrow> string \<Rightarrow> string \<Rightarrow> string \<Rightarrow> string \<Rightarrow> string \<Rightarrow> db
     \<Rightarrow> (db \<times> ContestReversal) result" where
  "ReverseContestAdmission uuidParse reversalID newID contestID participantUserID actorID eventID reason d =
     (if \<not> (uuidParse contestID \<and> uuidParse participantUserID \<and> uuidParse actorID \<and> uuidParse eventID)
        then Inl (ErrMsg ''invalid ID'')
      else case originalEntry contestID participantUserID d of
        None \<Rightarrow> Inr (d, no_reversal)
      | Some original \<Rightarrow>
          if le_AmountCents original \<ge> 0 then Inl (ErrMsg ''original contest entry has invalid sign'')
          else rbind (LockTreasuryForFinancialOperation d) (\<lambda>treasuryBalance.
            case (db_wallets d participantUserID, db_fee_account d, db_pools d contestID) of
              (Some w, Some feeBalance, Some a) \<Rightarrow>
                let refund = wrap64 (- le_AmountCents original);
                    newWalletBalance = wrap64 (w_BalanceCents w + refund) in
                if newWalletBalance < w_BalanceCents w then Inl (ErrMsg ''wallet balance overflow'')
                else rbind (update_wallet_balance participantUserID newWalletBalance d) (\<lambda>d.
                  rbind (insert_ledger (walletReversalEntry reversalID contestID participantUserID actorID
                      eventID reason refund newWalletBalance (le_ID original) (db_now d)) d) (\<lambda>d.
                    rbind (reverseFees newID contestID participantUserID
                        (feeOriginals (admissionID contestID participantUserID) d)
                        \<lparr>rs_fee = feeBalance, rs_treasury = treasuryBalance, rs_feeCents = 0, rs_db = d\<rparr>) (\<lambda>s.
                      rbind (reversePool (newID 0) (newID 0) contestID participantUserID eventID (pa_ID a)
                          (pa_BalanceCents a) (rs_treasury s) (rs_db s)) (\<lambda>(poolBalance, treasuryBalance, poolCents, d).
                        if wrap64 (rs_feeCents s + poolCents) \<noteq> refund
                          then Inl (ErrMsg ''contest admission does not reconcile to canonical allocations'')
                        else rbind (update_fee_balance (rs_fee s) d) (\<lambda>d.
                          rbind (update_pool_balance contestID poolBalance d) (\<lambda>d.
                            rbind (update_treasury_balance treasuryBalance d) (\<lambda>d.
                              Inr (d, \<lparr>cr_WalletOriginalID = le_ID original, cr_WalletReversalID = reversalID,
                                cr_WalletCents = refund, cr_FeeCents = rs_feeCents s,
                                cr_PrizePoolCents = poolCents,
                                cr_TreasuryCents = wrap64 (rs_feeCents s + poolCents)\<rparr>))))))))
            | _ \<Rightarrow> Inl (DbError ''lock accounts'')))"

section \<open>Views\<close>

definition byCreated :: "('a \<Rightarrow> int) \<Rightarrow> ('a \<Rightarrow> string) \<Rightarrow> 'a list \<Rightarrow> 'a list" where
  "byCreated created ident rows = rev (sort_key (\<lambda>e. (created e, ident e)) rows)"

definition GetContestPrizePool ::
    "(string \<Rightarrow> bool) \<Rightarrow> string \<Rightarrow> int \<Rightarrow> int \<Rightarrow> db \<Rightarrow> (PoolAccount \<times> ContestPrizePoolEntry list) result" where
  "GetContestPrizePool uuidParse contestID limit offset d =
     (if \<not> uuidParse contestID \<or> limit < 1 \<or> limit > 100 \<or> offset < 0
        then Inl (ErrMsg ''invalid contest Prize Pool request'')
      else case db_pools d contestID of
        None \<Rightarrow> Inl (DbError ''failed to read contest Prize Pool'')
      | Some a \<Rightarrow> Inr (a, take (nat limit) (drop (nat offset) (byCreated pe_CreatedAt pe_ID
                   (filter (\<lambda>e. pe_ContestID e = contestID) (db_pool_ledger d))))))"

record ContestFeeWalletView =
  fv_BalanceCents :: int
  fv_BaseFeeTotalCents :: int
  fv_SurchargeTotalCents :: int
  fv_ReversalTotalCents :: int
  fv_TotalEntries :: int
  fv_Entries :: "ContestFeeEntry list"

definition feeTotal :: "string \<Rightarrow> db \<Rightarrow> int" where
  "feeTotal kind d = sum_list (map fe_AmountCents (filter (\<lambda>f. fe_Kind f = kind) (db_fee_ledger d)))"

definition GetContestFeeWallet :: "int \<Rightarrow> int \<Rightarrow> db \<Rightarrow> ContestFeeWalletView result" where
  "GetContestFeeWallet limit offset d =
     (if limit < 1 \<or> limit > 100 \<or> offset < 0 then Inl (ErrMsg ''invalid contest fee wallet pagination'')
      else case db_fee_account d of
        None \<Rightarrow> Inl (DbError ''failed to read Contest Fee Wallet'')
      | Some b \<Rightarrow> Inr \<lparr>fv_BalanceCents = b, fv_BaseFeeTotalCents = feeTotal ''contest_base_fee'' d,
          fv_SurchargeTotalCents = feeTotal ''contest_late_surcharge'' d,
          fv_ReversalTotalCents = feeTotal ''contest_fee_refund_reversal'' d,
          fv_TotalEntries = int (length (db_fee_ledger d)),
          fv_Entries = take (nat limit) (drop (nat offset) (byCreated fe_CreatedAt fe_ID (db_fee_ledger d)))\<rparr>)"

section \<open>Paid admission (apps/user-bff/server/contest_handlers.go)\<close>

text \<open>
  The financial part of the join handler, inside its transaction: the debit of the total
  charge, the counters of the contest row, and the custody postings. Identifiers drawn on the
  way are \<open>newID 0 .. newID 6\<close>.
\<close>

definition bump_contest :: "string \<Rightarrow> int \<Rightarrow> int \<Rightarrow> db \<Rightarrow> db" where
  "bump_contest contestID prize commission d =
     (case db_contests d contestID of
        None \<Rightarrow> d
      | Some c \<Rightarrow> d\<lparr>db_contests := (db_contests d)(contestID \<mapsto>
                     c\<lparr>cn_PrizePoolNetCents := cn_PrizePoolNetCents c + prize,
                       cn_CommissionAmount := cn_CommissionAmount c + commission\<rparr>)\<rparr>)"

definition chargeJoin ::
    "(string \<Rightarrow> bool) \<Rightarrow> (nat \<Rightarrow> string) \<Rightarrow> string \<Rightarrow> string \<Rightarrow> string \<Rightarrow> int \<Rightarrow> int \<Rightarrow> bool \<Rightarrow> db \<Rightarrow> db result" where
  "chargeJoin uuidParse newID contestID userID contestName entryFeeCents feeBps isLateJoin d =
     (let charge = ComputeJoinCharge entryFeeCents feeBps isLateJoin;
          fundsPolicy = map_option cn_FundsPolicyVersion (db_contests d contestID) in
      rbind (if jc_TotalCents charge > 0
             then rbind (LockTreasuryForFinancialOperation d) (\<lambda>_.
                    rbind (DeductContestEntryFeeWithName (newID 0) userID contestID contestName
                      (jc_TotalCents charge) d) (\<lambda>(d, _). Inr d))
             else Inr d) (\<lambda>d.
        let d = (if jc_PrizeCents charge > 0 \<or> jc_PlatformCents charge > 0
                 then bump_contest contestID (jc_PrizeCents charge)
                        (jc_PlatformCents charge + jc_SurchargeCents charge) d
                 else d) in
        rbind (if jc_PlatformCents charge > 0
               then rbind (PostContestFee uuidParse (newID 1) (newID 2) contestID userID ContestFeeKindBase
                      (jc_PlatformCents charge) feeBps d) (\<lambda>(d, _). Inr d)
               else Inr d) (\<lambda>d.
          rbind (if jc_SurchargeCents charge > 0
                 then rbind (PostContestFee uuidParse (newID 3) (newID 4) contestID userID
                        ContestFeeKindLateSurcharge (jc_SurchargeCents charge) feeBps d) (\<lambda>(d, _). Inr d)
                 else Inr d) (\<lambda>d.
            if fundsPolicy = Some ContestPrizePoolPolicyV1 \<and> jc_PrizeCents charge > 0
              then rbind (PostContestPrizeContribution uuidParse (newID 5) (newID 6) contestID userID
                     (jc_PrizeCents charge) d) (\<lambda>(d, _). Inr d)
            else Inr d))))"

end
