(* ===== verification/Contest_Db.thy ===== *)
theory Contest_Db
  imports Custody
begin

text \<open>
  The contest tables: rows of \<open>contests\<close>, \<open>contest_participants\<close>, \<open>contest_status_history\<close>,
  \<open>contest_snapshots\<close> and \<open>economic_adjustment_events\<close>, beside the financial tables of
  \<open>Wallet_Db\<close> (field \<open>cd_funds\<close>, which also holds the money columns of \<open>contests\<close>). Columns are
  microseconds since the epoch, as PostgreSQL stores them; Go times are nanoseconds. What the
  driver and the server make of a bound Go time or of a \<open>Duration\<close> written as text is the record
  \<open>driver\<close>, a parameter: neither is code of the repository.
\<close>

section \<open>Contest status (statemachine.go)\<close>

text \<open>\<open>ContestStatus\<close> is a string type in Go; the last constructor stands for every other string.\<close>

datatype ContestStatus =
    StatusDraft | StatusScheduled | StatusRegistrationOpen | StatusRegistrationClosed | StatusRunning
  | StatusPaused | StatusSettling | StatusCompleted | StatusCancelled | OtherStatus string

fun status_String :: "ContestStatus \<Rightarrow> string" where
  "status_String StatusDraft = ''draft''"
| "status_String StatusScheduled = ''scheduled''"
| "status_String StatusRegistrationOpen = ''registration_open''"
| "status_String StatusRegistrationClosed = ''registration_closed''"
| "status_String StatusRunning = ''running''"
| "status_String StatusPaused = ''paused''"
| "status_String StatusSettling = ''settling''"
| "status_String StatusCompleted = ''completed''"
| "status_String StatusCancelled = ''cancelled''"
| "status_String (OtherStatus s) = s"

fun IsValid :: "ContestStatus \<Rightarrow> bool" where
  "IsValid (OtherStatus _) = False"
| "IsValid _ = True"

definition IsFinal :: "ContestStatus \<Rightarrow> bool" where
  "IsFinal s \<longleftrightarrow> s = StatusCompleted \<or> s = StatusCancelled"

definition IsActive :: "ContestStatus \<Rightarrow> bool" where
  "IsActive s \<longleftrightarrow> s = StatusRunning"

definition AllowsRegistration :: "ContestStatus \<Rightarrow> bool" where
  "AllowsRegistration s \<longleftrightarrow> s = StatusRegistrationOpen"

definition AllowsTrading :: "ContestStatus \<Rightarrow> bool" where
  "AllowsTrading s \<longleftrightarrow> s = StatusRunning"

section \<open>Rows\<close>

record Contest =
  ct_ID :: string
  ct_Name :: string
  ct_Status :: ContestStatus
  ct_StartsAt :: int
  ct_EndsAt :: int
  ct_RegistrationDeadline :: "int option"
  ct_MinParticipants :: int
  ct_MaxParticipants :: "int option"
  ct_CurrentParticipants :: int
  ct_AutoStart :: bool
  ct_PublishedAt :: "int option"
  ct_StartedAt :: "int option"
  ct_EndedAt :: "int option"
  ct_SettledAt :: "int option"
  ct_CancelledAt :: "int option"
  ct_CancellationReason :: "string option"
  ct_QtyTotal :: int
  ct_EntryFeeCents :: int
  ct_IsFree :: bool
  ct_PausedAt :: "int option"
  ct_TotalPausedDuration :: int
  ct_CommissionRate :: f64
  ct_RegistrationOpensAt :: "int option"
  ct_LifecyclePolicyVersion :: string

text \<open>The columns of \<open>contests\<close> that the \<open>Contest\<close> struct does not carry.\<close>

record ContestCols = Contest +
  cc_PlatformFeeBps :: int
  cc_LockedEntryFeeCents :: "int option"
  cc_LockedPlatformFeeBps :: "int option"
  cc_EconomicsLockedAt :: "int option"
  cc_LateJoinEnabled :: bool
  cc_ConfirmedAt :: "int option"
  cc_Rules :: string

record Participant =
  pt_ContestID :: string
  pt_UserID :: string
  pt_JoinedAt :: int
  pt_QtyTotal :: int
  pt_QtyAvailable :: int
  pt_IsSystem :: bool
  pt_LifecycleStatus :: string
  pt_HasStartedTrading :: bool
  pt_FinalRank :: "int option"
  pt_FinalPrizeCents :: "int option"

text \<open>Values of the metadata map of a transition; a formatted time is kept as its instant.\<close>

datatype metadata_value = MetaInt int | MetaTime int | MetaBool bool | MetaText string

record StatusHistoryEntry =
  sh_ContestID :: string
  sh_FromStatus :: "ContestStatus option"
  sh_ToStatus :: ContestStatus
  sh_ChangedBy :: "string option"
  sh_Reason :: "string option"
  sh_Metadata :: "(string \<rightharpoonup> metadata_value) option"
  sh_CreatedAt :: int

section \<open>Snapshots (contest_snapshots.go)\<close>

datatype SnapshotType = SnapshotConfirmed | SnapshotEconomicsCutoff | SnapshotStarted | SnapshotFinished

text \<open>Rows of \<open>contest_settlements\<close>, \<open>final_rankings\<close> and \<open>prize_distributions\<close>; an error message is kept as the error.\<close>

record Price =
  px_Bid :: f64
  px_Ask :: f64
  px_Last :: f64

record Settlement =
  st_ContestID :: string
  st_Status :: string
  st_StartedAt :: "int option"
  st_PositionsClosedAt :: "int option"
  st_RankingsCalculatedAt :: "int option"
  st_PrizesDistributedAt :: "int option"
  st_CompletedAt :: "int option"
  st_TotalParticipants :: int
  st_TotalPositionsClosed :: int
  st_TotalOrdersCancelled :: int
  st_TotalWinners :: int
  st_PrizePoolGrossCents :: int
  st_PrizePoolNetCents :: int
  st_TotalDistributedCents :: int
  st_PlatformFeeCents :: int
  st_AttemptCount :: int
  st_LastError :: "string option"
  st_FailedAt :: "int option"
  st_SnapshotPrices :: "string \<rightharpoonup> Price"
  st_SnapshotTakenAt :: "int option"
  st_UpdatedAt :: int

record RankingRow =
  rk_ContestID :: string
  rk_SettlementID :: string
  rk_UserID :: string
  rk_Rank :: int
  rk_TiedWithCount :: int
  rk_FinalScore :: rat
  rk_RealizedScore :: rat
  rk_TotalTrades :: int
  rk_WinningTrades :: int
  rk_WinRate :: rat
  rk_TraggePointContribution :: rat

record PrizeRow =
  pz_ContestID :: string
  pz_SettlementID :: string
  pz_UserID :: string
  pz_Rank :: int
  pz_FinalScore :: rat
  pz_AmountCents :: int
  pz_Percentage :: rat
  pz_Status :: string
  pz_Credited :: bool
  pz_LedgerEntryID :: "string option"
  pz_Error :: "wallet_error option"

datatype SnapshotDetails =
    ConfirmedDetails string
  | CutoffDetails
  | StartedDetails
  | FinishedDetails string "(string \<times> int \<times> rat \<times> int) list" "(string \<times> int \<times> int \<times> string) list"

record Snapshot =
  sn_ID :: string
  sn_ContestID :: string
  sn_Type :: SnapshotType
  sn_EventAt :: int
  sn_CreatedAt :: int
  sn_PolicyVersion :: string
  sn_MinimumParticipants :: "int option"
  sn_ParticipantCount :: int
  sn_StartsAt :: int
  sn_EndsAt :: int
  sn_EntryFeeCents :: int
  sn_PlatformFeeBps :: int
  sn_LateJoinEnabled :: bool
  sn_GrossBaseEntryCents :: "int option"
  sn_PlatformFeeCents :: "int option"
  sn_LateSurchargeCents :: "int option"
  sn_PrizePoolCents :: "int option"
  sn_PlannedWinnerCount :: "int option"
  sn_SettlementID :: "string option"
  sn_Details :: SnapshotDetails
  sn_JoinedParticipantCount :: "int option"
  sn_EconomicParticipantCount :: "int option"
  sn_LeaderboardEligibleCount :: "int option"
  sn_WinnerCapacityShortfall :: "bool option"

datatype snapshot_error =
    ErrSnapshotNotReady
  | ErrSnapshotConflict string string
  | ErrSnapshotIntegrity string
  | ErrAdmissionEvidence string
  | ErrNoRows
  | SnapshotDbError string

record EconomicEvent =
  ee_ContestID :: string
  ee_EventType :: string
  ee_NewState :: string
  ee_Reason :: string

text \<open>A referral with the rate of its active code (the join of \<open>referrals\<close> and \<open>referral_codes\<close>), and a commission.\<close>

record Referral =
  rf_ID :: string
  rf_ReferrerID :: string
  rf_ReferredID :: string
  rf_Status :: string
  rf_CommissionRateBps :: int
  rf_CodeActive :: bool

record Commission =
  cm_ReferrerID :: string
  cm_ReferredID :: string
  cm_SourceType :: string
  cm_SourceID :: string
  cm_GrossAmountCents :: int
  cm_CommissionRateBps :: int
  cm_CommissionCents :: int
  cm_Status :: string

section \<open>The tables\<close>

record cdb =
  cd_funds :: db
  cd_contests :: "string \<rightharpoonup> ContestCols"
  cd_participants :: "Participant list"
  cd_history :: "StatusHistoryEntry list"
  cd_snapshots :: "Snapshot list"
  cd_econ_events :: "EconomicEvent list"
  cd_settlements :: "(string \<times> Settlement) list"
  cd_rankings :: "RankingRow list"
  cd_prizes :: "PrizeRow list"
  cd_system_users :: "string set"
  cd_referrals :: "Referral list"
  cd_commissions :: "Commission list"

abbreviation cd_now :: "cdb \<Rightarrow> int" where
  "cd_now d \<equiv> db_now (cd_funds d)"

record driver =
  pg_time :: "int \<Rightarrow> int"
  pg_interval :: "int \<Rightarrow> int option"
  pg_interval_text :: "int \<Rightarrow> string"

text \<open>
  Real users of a contest, and the row that a statement with \<open>WHERE id = $n\<close> updates.
\<close>

definition realParticipants :: "string \<Rightarrow> cdb \<Rightarrow> Participant list" where
  "realParticipants contestID d =
     filter (\<lambda>p. pt_ContestID p = contestID \<and> \<not> pt_IsSystem p) (cd_participants d)"

definition update_contest :: "string \<Rightarrow> (ContestCols \<Rightarrow> ContestCols) \<Rightarrow> cdb \<Rightarrow> cdb" where
  "update_contest contestID f d =
     (case cd_contests d contestID of
        None \<Rightarrow> d
      | Some c \<Rightarrow> d\<lparr>cd_contests := (cd_contests d)(contestID \<mapsto> f c)\<rparr>)"

lemma update_contest_simps [simp]:
  "cd_funds (update_contest c f d) = cd_funds d"
  "cd_participants (update_contest c f d) = cd_participants d"
  "cd_history (update_contest c f d) = cd_history d"
  "cd_snapshots (update_contest c f d) = cd_snapshots d"
  "cd_econ_events (update_contest c f d) = cd_econ_events d"
  "cd_contests (update_contest c f d) = (\<lambda>x. if x = c then map_option f (cd_contests d c) else cd_contests d x)"
  by (auto simp: update_contest_def fun_eq_iff split: option.split)

end
