(* ===== verification/Contest_Snapshots.thy ===== *)
theory Contest_Snapshots
  imports Contest_Db
begin

text \<open>
  The immutable lifecycle snapshots of a contest (\<open>packages/db/contest_snapshots.go\<close>):
  confirmation, start, economics cutoff and finish. The cutoff derives the economics of the
  contest from the wallet, fee and prize pool ledgers and refuses to freeze numbers that the
  ledgers do not prove. The checks of \<open>insert_snapshot\<close> are the constraints of migrations 0117
  and 0122. A snapshot identifier drawn by the column default is an argument.
\<close>

section \<open>Constants and rows\<close>

definition ContestSnapshotPolicyV1 :: string where "ContestSnapshotPolicyV1 = ''contest_snapshot_v1''"
definition ContestFundsPolicyV1 :: string where "ContestFundsPolicyV1 = ''2026-09-06.1''"

type_synonym 'a snapshot_result = "snapshot_error + 'a"

definition SnapshotByType :: "string \<Rightarrow> SnapshotType \<Rightarrow> cdb \<Rightarrow> Snapshot snapshot_result" where
  "SnapshotByType contestID typ d =
     (case List.find (\<lambda>s. sn_ContestID s = contestID \<and> sn_Type s = typ) (cd_snapshots d) of
        None \<Rightarrow> Inl ErrNoRows
      | Some s \<Rightarrow> Inr s)"

definition ListSnapshots :: "string \<Rightarrow> cdb \<Rightarrow> Snapshot list" where
  "ListSnapshots contestID d =
     sort_key (\<lambda>s. (sn_EventAt s, sn_CreatedAt s, sn_ID s)) (filter (\<lambda>s. sn_ContestID s = contestID) (cd_snapshots d))"

definition LatestSnapshot :: "string \<Rightarrow> cdb \<Rightarrow> Snapshot snapshot_result" where
  "LatestSnapshot contestID d =
     (case ListSnapshots contestID d of [] \<Rightarrow> Inl ErrNoRows | s # ss \<Rightarrow> Inr (last (s # ss)))"

text \<open>
  \<open>INSERT INTO contest_snapshots ... ON CONFLICT (contest_id, snapshot_type) DO NOTHING RETURNING\<close>:
  a violated check is an error, a conflict inserts nothing.
\<close>

definition snapshot_shape :: "Snapshot \<Rightarrow> cdb \<Rightarrow> bool" where
  "snapshot_shape s d \<longleftrightarrow>
     0 \<le> sn_ParticipantCount s \<and> 0 \<le> sn_EntryFeeCents s
     \<and> 0 \<le> sn_PlatformFeeBps s \<and> sn_PlatformFeeBps s \<le> 10000 \<and> sn_StartsAt s < sn_EndsAt s
     \<and> pred_option (\<lambda>x. 0 \<le> x) (sn_GrossBaseEntryCents s) \<and> pred_option (\<lambda>x. 0 \<le> x) (sn_PlatformFeeCents s)
     \<and> pred_option (\<lambda>x. 0 \<le> x) (sn_LateSurchargeCents s) \<and> pred_option (\<lambda>x. 0 \<le> x) (sn_PrizePoolCents s)
     \<and> pred_option (\<lambda>x. 0 \<le> x) (sn_PlannedWinnerCount s)
     \<and> (sn_Type s = SnapshotConfirmed \<longrightarrow> sn_MinimumParticipants s \<noteq> None)
     \<and> (sn_Type s = SnapshotEconomicsCutoff \<longrightarrow>
          sn_GrossBaseEntryCents s \<noteq> None \<and> sn_PlatformFeeCents s \<noteq> None \<and> sn_LateSurchargeCents s \<noteq> None
          \<and> sn_PrizePoolCents s \<noteq> None \<and> sn_PlannedWinnerCount s \<noteq> None)
     \<and> (sn_Type s = SnapshotEconomicsCutoff \<longrightarrow>
          (case (sn_JoinedParticipantCount s, sn_EconomicParticipantCount s, sn_LeaderboardEligibleCount s,
                 sn_WinnerCapacityShortfall s, sn_PlannedWinnerCount s) of
             (Some j, Some e, Some l, Some w, Some p) \<Rightarrow> e \<le> j \<and> l \<le> j \<and> (w \<longleftrightarrow> l < p)
           | _ \<Rightarrow> False))
     \<and> (sn_Type s = SnapshotFinished \<longrightarrow> sn_SettlementID s \<noteq> None)
     \<and> (case sn_SettlementID s of None \<Rightarrow> True
          | Some i \<Rightarrow> map_option st_ContestID (map_of (cd_settlements d) i) = Some (sn_ContestID s))"

definition insert_snapshot :: "Snapshot \<Rightarrow> cdb \<Rightarrow> (cdb \<times> Snapshot option) snapshot_result" where
  "insert_snapshot s d =
     (if \<not> snapshot_shape s d then Inl (SnapshotDbError ''contest_snapshots check constraint'')
      else if \<exists>x \<in> set (cd_snapshots d). sn_ContestID x = sn_ContestID s \<and> sn_Type x = sn_Type s
        then Inr (d, None)
      else if \<exists>x \<in> set (cd_snapshots d). sn_ID x = sn_ID s
        then Inl (SnapshotDbError ''contest_snapshots_pkey'')
      else Inr (d\<lparr>cd_snapshots := cd_snapshots d @ [s]\<rparr>, Some s))"

text \<open>\<open>SELECT ... FROM inserted UNION ALL SELECT ... FROM contest_snapshots ... LIMIT 1\<close>\<close>

definition insertedOrExisting ::
    "string \<Rightarrow> SnapshotType \<Rightarrow> cdb \<Rightarrow> cdb \<times> Snapshot option \<Rightarrow> (cdb \<times> Snapshot) snapshot_result" where
  "insertedOrExisting contestID typ old r =
     (case r of
        (d, Some s) \<Rightarrow> Inr (d, s)
      | (d, None) \<Rightarrow>
          (case SnapshotByType contestID typ old of
             Inl _ \<Rightarrow> Inl ErrSnapshotNotReady
           | Inr s \<Rightarrow> Inr (d, s)))"

definition entryFee :: "ContestCols \<Rightarrow> int" where
  "entryFee c = (case cc_LockedEntryFeeCents c of None \<Rightarrow> ct_EntryFeeCents c | Some f \<Rightarrow> f)"

definition feeBps :: "ContestCols \<Rightarrow> int" where
  "feeBps c = (case cc_LockedPlatformFeeBps c of None \<Rightarrow> cc_PlatformFeeBps c | Some b \<Rightarrow> b)"

text \<open>A row with the columns every stage writes; the others are \<open>NULL\<close>.\<close>

definition baseSnapshot ::
    "string \<Rightarrow> SnapshotType \<Rightarrow> int \<Rightarrow> SnapshotDetails \<Rightarrow> ContestCols \<Rightarrow> cdb \<Rightarrow> Snapshot" where
  "baseSnapshot snID typ eventAt details c d =
     \<lparr>sn_ID = snID, sn_ContestID = ct_ID c, sn_Type = typ, sn_EventAt = eventAt, sn_CreatedAt = cd_now d,
      sn_PolicyVersion = ContestFundsPolicyV1, sn_MinimumParticipants = None,
      sn_ParticipantCount = int (length (realParticipants (ct_ID c) d)),
      sn_StartsAt = ct_StartsAt c, sn_EndsAt = ct_EndsAt c, sn_EntryFeeCents = entryFee c,
      sn_PlatformFeeBps = feeBps c, sn_LateJoinEnabled = cc_LateJoinEnabled c,
      sn_GrossBaseEntryCents = None, sn_PlatformFeeCents = None, sn_LateSurchargeCents = None,
      sn_PrizePoolCents = None, sn_PlannedWinnerCount = None, sn_SettlementID = None,
      sn_Details = details, sn_JoinedParticipantCount = None, sn_EconomicParticipantCount = None,
      sn_LeaderboardEligibleCount = None, sn_WinnerCapacityShortfall = None\<rparr>"

section \<open>Confirmation, start and finish\<close>

definition requiredParticipants :: "ContestCols \<Rightarrow> int" where
  "requiredParticipants c = (if ct_IsFree c then 1 else max (ct_MinParticipants c) 2)"

definition EnsureContestConfirmed :: "string \<Rightarrow> string \<Rightarrow> cdb \<Rightarrow> (cdb \<times> Snapshot) snapshot_result" where
  "EnsureContestConfirmed snID contestID d =
     (case (cd_contests d contestID, db_contests (cd_funds d) contestID) of
        (Some c, Some money) \<Rightarrow>
          if cn_FundsPolicyVersion money = ''contest_funds_v1'' \<and> db_pools (cd_funds d) contestID = None
            then Inl (ErrSnapshotIntegrity contestID)
          else if ct_LifecyclePolicyVersion c = ContestSnapshotPolicyV1 \<and> cc_ConfirmedAt c = None
                  \<and> int (length (realParticipants contestID d)) \<ge> requiredParticipants c
            then rbind (insert_snapshot
                   (baseSnapshot snID SnapshotConfirmed (cd_now d) (ConfirmedDetails (cc_Rules c)) c d
                     \<lparr>sn_MinimumParticipants := Some (requiredParticipants c)\<rparr>)
                   (update_contest contestID (\<lambda>c. c\<lparr>cc_ConfirmedAt := Some (cd_now d)\<rparr>) d))
                 (insertedOrExisting contestID SnapshotConfirmed d)
          else insertedOrExisting contestID SnapshotConfirmed d (d, None)
      | _ \<Rightarrow> Inl ErrNoRows)"

definition EnsureContestStarted :: "string \<Rightarrow> string \<Rightarrow> cdb \<Rightarrow> (cdb \<times> Snapshot) snapshot_result" where
  "EnsureContestStarted snID contestID d =
     (case cd_contests d contestID of
        Some c \<Rightarrow>
          if ct_LifecyclePolicyVersion c = ContestSnapshotPolicyV1
            then (case ct_StartedAt c of
                    None \<Rightarrow> Inl (SnapshotDbError ''contest_snapshots.event_at is null'')
                  | Some t \<Rightarrow> rbind (insert_snapshot (baseSnapshot snID SnapshotStarted t StartedDetails c d) d)
                               (insertedOrExisting contestID SnapshotStarted d))
          else insertedOrExisting contestID SnapshotStarted d (d, None)
      | None \<Rightarrow> insertedOrExisting contestID SnapshotStarted d (d, None))"

definition finishedDetails :: "string \<Rightarrow> string \<Rightarrow> cdb \<Rightarrow> SnapshotDetails" where
  "finishedDetails contestID settlementID d =
     FinishedDetails (case map_of (cd_settlements d) settlementID of None \<Rightarrow> '''' | Some st \<Rightarrow> st_Status st)
       (map (\<lambda>r. (rk_UserID r, rk_Rank r, rk_FinalScore r, rk_TotalTrades r))
         (sort_key (\<lambda>r. (rk_Rank r, rk_UserID r))
           (filter (\<lambda>r. rk_ContestID r = contestID \<and> rk_SettlementID r = settlementID) (cd_rankings d))))
       (map (\<lambda>r. (pz_UserID r, pz_Rank r, pz_AmountCents r, pz_Status r))
         (sort_key (\<lambda>r. (pz_Rank r, pz_UserID r))
           (filter (\<lambda>r. pz_ContestID r = contestID \<and> pz_SettlementID r = settlementID) (cd_prizes d))))"

definition EnsureContestFinished :: "string \<Rightarrow> string \<Rightarrow> string \<Rightarrow> cdb \<Rightarrow> (cdb \<times> Snapshot) snapshot_result" where
  "EnsureContestFinished snID contestID settlementID d =
     rbind
       (case cd_contests d contestID of
          Some c \<Rightarrow>
            if map_option (\<lambda>st. (st_ContestID st, st_Status st)) (map_of (cd_settlements d) settlementID) = Some (contestID, ''completed'')
               \<and> ct_LifecyclePolicyVersion c = ContestSnapshotPolicyV1
              then (case ct_SettledAt c of
                      None \<Rightarrow> Inl (SnapshotDbError ''contest_snapshots.event_at is null'')
                    | Some t \<Rightarrow> rbind (insert_snapshot
                          (baseSnapshot snID SnapshotFinished t (finishedDetails contestID settlementID d) c d
                            \<lparr>sn_SettlementID := Some settlementID\<rparr>) d)
                        (insertedOrExisting contestID SnapshotFinished d))
            else insertedOrExisting contestID SnapshotFinished d (d, None)
        | None \<Rightarrow> insertedOrExisting contestID SnapshotFinished d (d, None))
       (\<lambda>(d, s). case sn_SettlementID s of
            Some i \<Rightarrow> if i = settlementID then Inr (d, s) else Inl (ErrSnapshotConflict i settlementID)
          | None \<Rightarrow> if settlementID = '''' then Inr (d, s) else Inl (ErrSnapshotConflict '''' settlementID))"

section \<open>Economics cutoff\<close>

record cutoffParticipant =
  cp_userID :: string
  cp_joinedAt :: int
  cp_economic :: bool
  cp_leaderboardEligible :: bool

definition cutoffPopulation :: "cutoffParticipant list \<Rightarrow> int \<times> int" where
  "cutoffPopulation ps =
     (int (length (filter cp_economic ps)), int (length (filter cp_leaderboardEligible ps)))"

text \<open>An admission that was debited and not reversed; for a free contest, a live participant row.\<close>

definition economicAdmission :: "int \<Rightarrow> string \<Rightarrow> Participant \<Rightarrow> cdb \<Rightarrow> bool" where
  "economicAdmission fee contestID p d =
     (if fee = 0 then pt_LifecycleStatus p \<noteq> ''REFUNDED'' \<and> pt_LifecycleStatus p \<noteq> ''CANCELLED''
      else \<exists>e \<in> set (db_ledger (cd_funds d)).
             le_IdempotencyKey e = Some (contestEntryKey contestID (pt_UserID p)) \<and> le_Type e = ContestEntry
             \<and> le_AmountCents e < 0 \<and> (\<forall>r \<in> set (db_ledger (cd_funds d)). le_OriginalID r \<noteq> Some (le_ID e)))"

definition cutoffParticipants :: "int \<Rightarrow> string \<Rightarrow> cdb \<Rightarrow> cutoffParticipant list" where
  "cutoffParticipants fee contestID d =
     map (\<lambda>p. \<lparr>cp_userID = pt_UserID p, cp_joinedAt = pt_JoinedAt p,
                 cp_economic = economicAdmission fee contestID p d,
                 cp_leaderboardEligible = (pt_LifecycleStatus p = ''ACTIVE'' \<and> pt_HasStartedTrading p)\<rparr>)
       (sort_key pt_UserID (realParticipants contestID d))"

text \<open>The context of a fee row that belongs to this admission.\<close>

definition feeContext :: "string \<Rightarrow> string \<Rightarrow> int \<Rightarrow> ContestFeeEntry \<Rightarrow> bool" where
  "feeContext contestID userID bps f \<longleftrightarrow>
     fe_AdmissionID f = admissionID contestID userID \<and> fe_ContestID f = contestID
     \<and> fe_ParticipantUserID f = userID \<and> fe_PolicyVersion f = ContestFundsPolicyV1
     \<and> fe_PlatformFeeBps f = bps \<and> fe_OriginalEntryID f = None"

text \<open>The loop over the fee rows: the numbers of matching base fee and surcharge rows.\<close>

fun countFees :: "string \<Rightarrow> string \<Rightarrow> int \<Rightarrow> int \<Rightarrow> int \<Rightarrow> ContestFeeEntry list \<Rightarrow> nat \<times> nat \<Rightarrow> (nat \<times> nat) snapshot_result" where
  "countFees contestID userID bps base surcharge [] acc = Inr acc"
| "countFees contestID userID bps base surcharge (f # fs) (b, s) =
     (if fe_Kind f = ''contest_base_fee'' then
        if feeContext contestID userID bps f \<and> fe_AmountCents f = base \<and> base > 0
          then countFees contestID userID bps base surcharge fs (b + 1, s)
        else Inl (ErrAdmissionEvidence ''base fee'')
      else if fe_Kind f = ''contest_late_surcharge'' then
        if feeContext contestID userID bps f \<and> fe_AmountCents f = surcharge \<and> surcharge > 0
          then countFees contestID userID bps base surcharge fs (b, s + 1)
        else Inl (ErrAdmissionEvidence ''surcharge'')
      else Inl (ErrAdmissionEvidence ''reversal or unknown fee''))"

definition walletEvidence :: "string \<Rightarrow> string \<Rightarrow> int \<Rightarrow> db \<Rightarrow> bool" where
  "walletEvidence contestID userID amount d =
     (case filter (\<lambda>e. le_IdempotencyKey e = Some (contestEntryKey contestID userID)) (db_ledger d) of
        [e] \<Rightarrow> le_AmountCents e = wrap64 (- amount) \<and> le_UserID e = userID \<and> le_Type e = ContestEntry
               \<and> le_RefType e = Some ContestRef \<and> le_RefID e = Some contestID
               \<and> le_ReasonCode e = Some RC_ContestEntry
      | _ \<Rightarrow> False)"

definition validateAdmissionEvidence ::
    "string \<Rightarrow> ContestCols \<Rightarrow> int \<Rightarrow> cutoffParticipant \<Rightarrow> cdb \<Rightarrow> (int \<times> int) snapshot_result" where
  "validateAdmissionEvidence contestID c startedAt p d =
     (let fee = entryFee c;
          expectedBaseFee = fst (SplitEntryFee fee (feeBps c));
          isLate = (\<not> cp_joinedAt p < startedAt);
          expectedSurcharge = (if isLate then LateJoinSurchargeCents fee else 0) in
      if isLate \<and> (\<not> cc_LateJoinEnabled c
           \<or> \<not> 1000 * cp_joinedAt p < LateJoinCutoff (1000 * ct_StartsAt c) (1000 * ct_EndsAt c))
        then Inl (ErrAdmissionEvidence ''impossible late admission'')
      else if fee > 0 \<and> \<not> walletEvidence contestID (cp_userID p) (wrap64 (fee + expectedSurcharge)) (cd_funds d)
        then Inl (ErrAdmissionEvidence ''wallet admission'')
      else rbind (countFees contestID (cp_userID p) (feeBps c) expectedBaseFee expectedSurcharge
             (filter (\<lambda>f. fe_AdmissionID f = admissionID contestID (cp_userID p)
                         \<or> fe_ContestID f = contestID \<and> fe_ParticipantUserID f = cp_userID p)
               (db_fee_ledger (cd_funds d))) (0, 0)) (\<lambda>(b, s).
        if (expectedBaseFee > 0 \<and> b \<noteq> 1) \<or> (expectedBaseFee = 0 \<and> b \<noteq> 0)
           \<or> (expectedSurcharge > 0 \<and> s \<noteq> 1) \<or> (expectedSurcharge = 0 \<and> s \<noteq> 0)
          then Inl (ErrAdmissionEvidence ''fee row cardinality'')
        else Inr (expectedBaseFee, expectedSurcharge)))"

text \<open>The loop over the participants, with its overflow check.\<close>

fun sumEvidence ::
    "string \<Rightarrow> ContestCols \<Rightarrow> int \<Rightarrow> cdb \<Rightarrow> cutoffParticipant list \<Rightarrow> int \<times> int \<Rightarrow> (int \<times> int) snapshot_result" where
  "sumEvidence contestID c startedAt d [] acc = Inr acc"
| "sumEvidence contestID c startedAt d (p # ps) (baseFee, surcharge) =
     (if \<not> cp_economic p then sumEvidence contestID c startedAt d ps (baseFee, surcharge)
      else rbind (validateAdmissionEvidence contestID c startedAt p d) (\<lambda>(b, s).
        if b > wrap64 (max_i64 - baseFee) \<or> s > wrap64 (max_i64 - surcharge)
          then Inl (ErrAdmissionEvidence ''cutoff total overflow'')
        else sumEvidence contestID c startedAt d ps (wrap64 (baseFee + b), wrap64 (surcharge + s))))"

definition validatePrizePoolReconciliation :: "int \<Rightarrow> int \<Rightarrow> int \<Rightarrow> int \<Rightarrow> int \<Rightarrow> unit snapshot_result" where
  "validatePrizePoolReconciliation custodyBalance ledgerBalance entryCount expectedPool expectedAdmissions =
     (if custodyBalance \<noteq> expectedPool \<or> ledgerBalance \<noteq> expectedPool \<or> entryCount \<noteq> expectedAdmissions
        then Inl (ErrSnapshotIntegrity ''Prize Pool reconciliation'')
      else Inr ())"

text \<open>Balance, ledger sum and unreversed credits of the contest's pool account.\<close>

definition poolCredits :: "string \<Rightarrow> db \<Rightarrow> ContestPrizePoolEntry list" where
  "poolCredits poolID d =
     filter (\<lambda>e. pe_PoolAccountID e = poolID \<and> pe_Direction e = ''credit''
                \<and> (\<forall>r \<in> set (db_pool_ledger d). pe_OriginalID r \<noteq> Some (pe_ID e))) (db_pool_ledger d)"

definition reconcilePool :: "string \<Rightarrow> int \<Rightarrow> int \<Rightarrow> cdb \<Rightarrow> unit snapshot_result" where
  "reconcilePool contestID pool economicCount d =
     (if map_option cn_FundsPolicyVersion (db_contests (cd_funds d) contestID) = Some ''contest_funds_v1''
        then (case db_pools (cd_funds d) contestID of
                None \<Rightarrow> Inl (ErrSnapshotIntegrity ''missing Prize Pool custody'')
              | Some a \<Rightarrow> validatePrizePoolReconciliation (pa_BalanceCents a)
                  (sum_list (map pe_AmountCents
                    (filter (\<lambda>e. pe_PoolAccountID e = pa_ID a) (db_pool_ledger (cd_funds d)))))
                  (int (length (poolCredits (pa_ID a) (cd_funds d)))) pool economicCount)
      else Inr ())"

definition appendEconEvent :: "string \<Rightarrow> cdb \<Rightarrow> cdb" where
  "appendEconEvent contestID d =
     (if \<exists>e \<in> set (cd_econ_events d). ee_ContestID e = contestID \<and> ee_EventType e = ''ECONOMIC_SNAPSHOT_CREATED''
        then d
      else d\<lparr>cd_econ_events := cd_econ_events d @
             [\<lparr>ee_ContestID = contestID, ee_EventType = ''ECONOMIC_SNAPSHOT_CREATED'',
               ee_NewState = ''SNAPSHOT'', ee_Reason = ''ECONOMICS_CUTOFF''\<rparr>]\<rparr>)"

text \<open>The totals of the cutoff: gross, base fees, surcharges and pool.\<close>

definition cutoffTotals ::
    "string \<Rightarrow> ContestCols \<Rightarrow> int \<Rightarrow> cdb \<Rightarrow> cutoffParticipant list \<Rightarrow> (int \<times> int \<times> int \<times> int) snapshot_result" where
  "cutoffTotals contestID c startedAt d participants =
     rbind (sumEvidence contestID c startedAt d participants (0, 0)) (\<lambda>(baseFee, surcharge).
       let economicCount = fst (cutoffPopulation participants) in
       if entryFee c < 0 \<or> (economicCount > 0 \<and> entryFee c > go_quot max_i64 economicCount)
         then Inl (ErrAdmissionEvidence ''gross entry overflow'')
       else
         let gross = wrap64 (economicCount * entryFee c);
             pool = wrap64 (gross - baseFee) in
         if gross < 0 \<or> baseFee < 0 \<or> surcharge < 0 \<or> pool < 0 \<or> gross \<noteq> wrap64 (baseFee + pool)
           then Inl (ErrAdmissionEvidence ''impossible cutoff reconciliation'')
         else Inr (gross, baseFee, surcharge, pool))"

definition cutoffSnapshot ::
    "string \<Rightarrow> int \<Rightarrow> ContestCols \<Rightarrow> cdb \<Rightarrow> cutoffParticipant list \<Rightarrow> int \<times> int \<times> int \<times> int \<Rightarrow> Snapshot" where
  "cutoffSnapshot snID cutoffAt c d participants totals =
     (let (gross, baseFee, surcharge, pool) = totals;
          (economicCount, leaderboardCount) = cutoffPopulation participants;
          plannedWinners = TralentV1PlannedWinners economicCount in
      baseSnapshot snID SnapshotEconomicsCutoff cutoffAt CutoffDetails c d
        \<lparr>sn_ParticipantCount := int (length participants),
         sn_GrossBaseEntryCents := Some gross, sn_PlatformFeeCents := Some baseFee,
         sn_LateSurchargeCents := Some surcharge, sn_PrizePoolCents := Some pool,
         sn_PlannedWinnerCount := Some plannedWinners,
         sn_JoinedParticipantCount := Some (int (length participants)),
         sn_EconomicParticipantCount := Some economicCount,
         sn_LeaderboardEligibleCount := Some leaderboardCount,
         sn_WinnerCapacityShortfall := Some (leaderboardCount < plannedWinners)\<rparr>)"

definition EnsureEconomicsCutoff :: "driver \<Rightarrow> string \<Rightarrow> string \<Rightarrow> cdb \<Rightarrow> (cdb \<times> Snapshot) snapshot_result" where
  "EnsureEconomicsCutoff drv snID contestID d =
     (case cd_contests d contestID of
        None \<Rightarrow> Inl ErrNoRows
      | Some c \<Rightarrow>
          if ct_LifecyclePolicyVersion c \<noteq> ContestSnapshotPolicyV1 then Inl ErrSnapshotNotReady
          else (case SnapshotByType contestID SnapshotEconomicsCutoff d of
                  Inr existing \<Rightarrow> Inr (d, existing)
                | Inl _ \<Rightarrow>
            (case SnapshotByType contestID SnapshotStarted d of
               Inl _ \<Rightarrow> Inl (ErrSnapshotIntegrity ''missing contest_started'')
             | Inr started \<Rightarrow>
                 let cutoffAt = pg_time drv (LateJoinCutoff (1000 * ct_StartsAt c) (1000 * ct_EndsAt c)) in
                 if \<not> cd_now d \<ge> cutoffAt then Inl ErrSnapshotNotReady
                 else
                   let participants = cutoffParticipants (entryFee c) contestID d in
                   rbind (cutoffTotals contestID c (sn_EventAt started) d participants) (\<lambda>totals.
                   rbind (reconcilePool contestID (snd (snd (snd totals))) (fst (cutoffPopulation participants)) d) (\<lambda>_.
                   rbind (insert_snapshot (cutoffSnapshot snID cutoffAt c d participants totals) d) (\<lambda>(d', r).
                     insertedOrExisting contestID SnapshotEconomicsCutoff d
                       (if r = None then d' else appendEconEvent contestID d', r)))))))"

end
