(* ===== verification/Contest_Join.thy ===== *)
theory Contest_Join
  imports Contest_Snapshots
begin

text \<open>
  Joining a contest: \<open>handleJoinContest\<close> of \<open>apps/user-bff/server/contest_handlers.go\<close> with the
  affiliate commission of \<open>helpers.go\<close>. The handler checks the contest before its transaction,
  locks the row and checks again, freezes the economics on the first join, inserts the
  participant, charges it (\<open>Custody.chargeJoin\<close>), records the commission and establishes the
  confirmation snapshot. Answers are values of \<open>join_response\<close>; the notifications and feeds
  after the commit are not part of the tables. The fallback query for databases without the
  column \<open>late_join_enabled\<close> does not apply to the schema of the migrations.
\<close>

datatype join_response =
    Joined JoinCharge
  | AlreadyJoined int int
  | Rejected nat string

section \<open>Affiliate commission (helpers.go)\<close>

definition processAffiliateCommission :: "string \<Rightarrow> string \<Rightarrow> int \<Rightarrow> cdb \<Rightarrow> cdb" where
  "processAffiliateCommission userID contestID entryFeeCents d =
     (case List.find (\<lambda>r. rf_ReferredID r = userID \<and> rf_CodeActive r) (cd_referrals d) of
        None \<Rightarrow> d
      | Some ref \<Rightarrow>
          let commissionCents = go_quot (wrap64 (entryFeeCents * rf_CommissionRateBps ref)) 10000 in
          if commissionCents \<le> 0 then d
          else if \<exists>c \<in> set (cd_commissions d). cm_ReferredID c = userID \<and> cm_SourceType c = ''contest_entry''
                    \<and> cm_SourceID c = contestID
            then d
          else
            let d = d\<lparr>cd_commissions := cd_commissions d @
                  [\<lparr>cm_ReferrerID = rf_ReferrerID ref, cm_ReferredID = userID, cm_SourceType = ''contest_entry'',
                    cm_SourceID = contestID, cm_GrossAmountCents = entryFeeCents,
                    cm_CommissionRateBps = rf_CommissionRateBps ref, cm_CommissionCents = commissionCents,
                    cm_Status = ''pending''\<rparr>]\<rparr> in
            if rf_Status ref = ''pending''
              then d\<lparr>cd_referrals := map (\<lambda>r. if rf_ID r = rf_ID ref \<and> rf_Status r = ''pending''
                                               then r\<lparr>rf_Status := ''qualified''\<rparr> else r) (cd_referrals d)\<rparr>
            else d)"

section \<open>The handler\<close>

definition existingParticipant :: "string \<Rightarrow> string \<Rightarrow> cdb \<Rightarrow> Participant option" where
  "existingParticipant contestID userID d =
     List.find (\<lambda>p. pt_ContestID p = contestID \<and> pt_UserID p = userID) (cd_participants d)"

text \<open>
  The statement that freezes the economics, with the trigger \<open>contests_enforce_platform_fee_bps\<close>
  that runs on it.
\<close>

definition enforceFeeBps :: "ContestCols \<Rightarrow> ContestCols" where
  "enforceFeeBps c =
     (if ct_IsFree c then c\<lparr>cc_PlatformFeeBps := 0\<rparr>
      else if ct_EntryFeeCents c > 0 \<and> (cc_PlatformFeeBps c \<le> 0 \<or> cc_PlatformFeeBps c > 10000)
        then c\<lparr>cc_PlatformFeeBps := 2000\<rparr>
      else c)"

definition freezeEconomics :: "int \<Rightarrow> int \<Rightarrow> int \<Rightarrow> ContestCols \<Rightarrow> ContestCols" where
  "freezeEconomics bps entryFeeCents now c =
     (if cc_EconomicsLockedAt c = None \<or> cc_PlatformFeeBps c = 0
        then enforceFeeBps (c\<lparr>cc_PlatformFeeBps := bps,
               cc_LockedEntryFeeCents := Some (case cc_LockedEntryFeeCents c of None \<Rightarrow> entryFeeCents | Some f \<Rightarrow> f),
               cc_LockedPlatformFeeBps := Some (case cc_LockedPlatformFeeBps c of None \<Rightarrow> bps | Some b \<Rightarrow> b),
               cc_EconomicsLockedAt := Some (case cc_EconomicsLockedAt c of None \<Rightarrow> now | Some t \<Rightarrow> t)\<rparr>)
      else c)"

text \<open>
  \<open>INSERT INTO contest_participants\<close> with its trigger on the participant counter. The primary
  key was checked under the lock of the contest row.
\<close>

definition insert_participant :: "string \<Rightarrow> string \<Rightarrow> int \<Rightarrow> cdb \<Rightarrow> cdb option" where
  "insert_participant contestID userID qty d =
     (if userID \<notin> db_users (cd_funds d) \<or> qty < 0 \<or> existingParticipant contestID userID d \<noteq> None then None
      else Some (update_contest contestID (\<lambda>c. c\<lparr>ct_CurrentParticipants := ct_CurrentParticipants c + 1\<rparr>)
             (d\<lparr>cd_participants := cd_participants d @
                 [\<lparr>pt_ContestID = contestID, pt_UserID = userID, pt_JoinedAt = cd_now d, pt_QtyTotal = qty,
                   pt_QtyAvailable = qty, pt_IsSystem = False, pt_LifecycleStatus = ''ACTIVE'',
                   pt_HasStartedTrading = False, pt_FinalRank = None, pt_FinalPrizeCents = None\<rparr>]\<rparr>)))"

definition contestJoinAllowed :: "ContestCols \<Rightarrow> int \<Rightarrow> bool \<times> bool \<times> string" where
  "contestJoinAllowed c now =
     JoinAllowed (status_String (ct_Status c)) (ct_IsFree c \<or> ct_EntryFeeCents c \<le> 0) (cc_LateJoinEnabled c)
       (1000 * ct_StartsAt c) (1000 * ct_EndsAt c) now"

definition chargeError :: "wallet_error \<Rightarrow> join_response" where
  "chargeError e =
     (case e of
        InsufficientBalanceError _ _ \<Rightarrow> Rejected 402 ''insufficient balance''
      | WalletFrozenError _ \<Rightarrow> Rejected 403 ''wallet frozen''
      | WalletNotFoundError _ \<Rightarrow> Rejected 400 ''wallet not found''
      | _ \<Rightarrow> Rejected 500 ''internal error'')"

text \<open>The answer to a failed charge: errors of the debit have their own codes, all others are internal.\<close>

definition chargeFailure :: "(nat \<Rightarrow> string) \<Rightarrow> string \<Rightarrow> string \<Rightarrow> string \<Rightarrow> JoinCharge \<Rightarrow> db \<Rightarrow> join_response" where
  "chargeFailure newID contestID userID contestName charge d =
     (if jc_TotalCents charge > 0 \<and> isOK (LockTreasuryForFinancialOperation d)
        then (case DeductContestEntryFeeWithName (newID 0) userID contestID contestName (jc_TotalCents charge) d of
                Inl e \<Rightarrow> chargeError e
              | Inr _ \<Rightarrow> Rejected 500 ''internal error'')
      else Rejected 500 ''internal error'')"

text \<open>The transaction; \<open>Inl\<close> is an answer after a rollback.\<close>

definition joinTx ::
    "(string \<Rightarrow> bool) \<Rightarrow> (nat \<Rightarrow> string) \<Rightarrow> string \<Rightarrow> int \<Rightarrow> string \<Rightarrow> string \<Rightarrow> cdb \<Rightarrow> join_response + cdb \<times> join_response" where
  "joinTx uuidParse newID snID nowTx contestID userID d =
     (case cd_contests d contestID of
        None \<Rightarrow> Inl (Rejected 500 ''internal error'')
      | Some c \<Rightarrow>
          (case contestJoinAllowed c nowTx of
             (False, _, reason) \<Rightarrow> Inl (Rejected 400 reason)
           | (True, isLateJoin, _) \<Rightarrow>
               let bps = ResolvePlatformFeeBps (cc_PlatformFeeBps c) (ct_CommissionRate c);
                   fee = ct_EntryFeeCents c;
                   charge = ComputeJoinCharge fee bps isLateJoin;
                   d0 = update_contest contestID (freezeEconomics bps fee (cd_now d)) d in
               (case existingParticipant contestID userID d0 of
                  Some p \<Rightarrow> Inl (AlreadyJoined (pt_JoinedAt p) (pt_QtyAvailable p))
                | None \<Rightarrow>
                    (case insert_participant contestID userID (ct_QtyTotal c) d0 of
                       None \<Rightarrow> Inl (Rejected 500 ''internal error'')
                     | Some d1 \<Rightarrow>
                         (case chargeJoin uuidParse newID contestID userID (ct_Name c) fee bps isLateJoin (cd_funds d1) of
                            Inl _ \<Rightarrow> Inl (chargeFailure newID contestID userID (ct_Name c) charge (cd_funds d1))
                          | Inr funds \<Rightarrow>
                              let d2 = d1\<lparr>cd_funds := funds\<rparr>;
                                  d3 = (if fee > 0 then processAffiliateCommission userID contestID fee d2 else d2) in
                              (case EnsureContestConfirmed snID contestID d3 of
                                 Inr (d4, _) \<Rightarrow> Inr (d4, Joined charge)
                               | Inl ErrSnapshotNotReady \<Rightarrow> Inr (d3, Joined charge)
                               | Inl _ \<Rightarrow> Inl (Rejected 500 ''internal error'')))))))"

text \<open>
  The whole handler. The checks before the transaction read without a lock; \<open>pre\<close> is the state
  they saw, \<open>d\<close> the state when the row lock was granted.
\<close>

definition handleJoinContest ::
    "(string \<Rightarrow> bool) \<Rightarrow> (nat \<Rightarrow> string) \<Rightarrow> string \<Rightarrow> int \<Rightarrow> int \<Rightarrow> string \<Rightarrow> string \<Rightarrow> cdb \<Rightarrow> cdb \<Rightarrow> cdb \<times> join_response" where
  "handleJoinContest uuidParse newID snID now nowTx contestID userID pre d =
     (if contestID = '''' then (d, Rejected 400 ''contest id required'')
      else case cd_contests pre contestID of
        None \<Rightarrow> (d, Rejected 404 ''contest not found'')
      | Some c \<Rightarrow>
          (case contestJoinAllowed c now of
             (False, _, reason) \<Rightarrow> (d, Rejected 400 reason)
           | (True, _, _) \<Rightarrow>
               if ct_EntryFeeCents c > 0 \<and> userID \<notin> db_users (cd_funds pre) then (d, Rejected 500 ''internal error'')
               else if ct_EntryFeeCents c > 0 \<and> userID \<in> cd_system_users pre
                 then (d, Rejected 403 ''system account cannot join paid contest'')
               else (case existingParticipant contestID userID pre of
                       Some p \<Rightarrow> (d, AlreadyJoined (pt_JoinedAt p) (pt_QtyAvailable p))
                     | None \<Rightarrow>
                         (case joinTx uuidParse newID snID nowTx contestID userID d of
                            Inl resp \<Rightarrow> (d, resp)
                          | Inr (d', resp) \<Rightarrow> (d', resp)))))"

definition handleLeaveContest :: "string \<Rightarrow> cdb \<Rightarrow> cdb \<times> join_response" where
  "handleLeaveContest contestID d =
     (if contestID = '''' then (d, Rejected 400 ''contest id required'')
      else (d, Rejected 403 ''PARTICIPANT_COMMITMENT_IMMUTABLE''))"

end
