(* ===== verification/Contest_Machine.thy ===== *)
theory Contest_Machine
  imports Contest_Snapshots
begin

text \<open>
  The contest state machine (\<open>packages/domain/statemachine/statemachine.go\<close>): the table of valid
  transitions, the locked transition with its per-status update and its history row, the
  wrappers, and the query for automatic transitions. After the commit the machine publishes
  an event and calls the side effect handler registered for the new status; both are best
  effort. The producer and the handlers are configuration, so they are arguments.
\<close>

section \<open>Transitions\<close>

fun validTransitions :: "ContestStatus \<Rightarrow> ContestStatus list option" where
  "validTransitions StatusDraft = Some [StatusScheduled, StatusCancelled]"
| "validTransitions StatusScheduled = Some [StatusRegistrationOpen, StatusRegistrationClosed, StatusCancelled]"
| "validTransitions StatusRegistrationOpen = Some [StatusRegistrationClosed, StatusCancelled]"
| "validTransitions StatusRegistrationClosed = Some [StatusRunning, StatusCancelled]"
| "validTransitions StatusRunning = Some [StatusSettling, StatusPaused]"
| "validTransitions StatusPaused = Some [StatusRunning, StatusSettling]"
| "validTransitions StatusSettling = Some [StatusCompleted]"
| "validTransitions StatusCompleted = Some []"
| "validTransitions StatusCancelled = Some []"
| "validTransitions (OtherStatus _) = None"

definition CanTransition :: "ContestStatus \<Rightarrow> ContestStatus \<Rightarrow> bool" where
  "CanTransition frm to = (case validTransitions frm of None \<Rightarrow> False | Some allowed \<Rightarrow> to \<in> set allowed)"

definition GetAllowedTransitions :: "ContestStatus \<Rightarrow> ContestStatus list option" where
  "GetAllowedTransitions frm = validTransitions frm"

datatype contest_error =
    ErrContestNotFound
  | TransitionError string ContestStatus ContestStatus string
  | ContestErrMsg string
  | SnapshotFailure snapshot_error
  | ContestDbError string
  | ErrRegistrationClosed

type_synonym 'a contest_result = "contest_error + 'a"

record TransitionRequest =
  tq_ContestID :: string
  tq_ToStatus :: ContestStatus
  tq_Reason :: string
  tq_ActorID :: "string option"
  tq_Metadata :: "(string \<rightharpoonup> metadata_value) option"

record TransitionResult =
  tr_Contest :: Contest
  tr_FromStatus :: ContestStatus
  tr_ToStatus :: ContestStatus
  tr_Timestamp :: int

definition GetCurrentStatus :: "string \<Rightarrow> cdb \<Rightarrow> ContestStatus contest_result" where
  "GetCurrentStatus contestID d =
     (case cd_contests d contestID of None \<Rightarrow> Inl ErrContestNotFound | Some c \<Rightarrow> Inr (ct_Status c))"

section \<open>Intervals as text\<close>

definition strip_prefix :: "string \<Rightarrow> string \<Rightarrow> string option" where
  "strip_prefix p s = (if take (length p) s = p then Some (drop (length p) s) else None)"

text \<open>\<open>strings.Index\<close>: the text before and from the first occurrence.\<close>

fun split_at_sub :: "string \<Rightarrow> string \<Rightarrow> (string \<times> string) option" where
  "split_at_sub p [] = (if p = [] then Some ([], []) else None)"
| "split_at_sub p (x # xs) =
     (if take (length p) (x # xs) = p then Some ([], x # xs)
      else map_option (\<lambda>(a, b). (x # a, b)) (split_at_sub p xs))"

definition contains_sub :: "string \<Rightarrow> string \<Rightarrow> bool" where
  "contains_sub s p \<longleftrightarrow> split_at_sub p s \<noteq> None"

text \<open>\<open>strconv.Atoi\<close>: an optional sign and digits, in the range of \<open>int\<close>.\<close>

definition digits_val :: "string \<Rightarrow> int option" where
  "digits_val s = (if s \<noteq> [] \<and> list_all is_digit s then Some (dec_val s) else None)"

definition Atoi :: "string \<Rightarrow> int option" where
  "Atoi s =
     (let v = (case s of
                 [] \<Rightarrow> None
               | x # xs \<Rightarrow> if x = CHR ''-'' then map_option uminus (digits_val xs)
                           else if x = CHR ''+'' then digits_val xs else digits_val s)
      in case v of None \<Rightarrow> None | Some n \<Rightarrow> if is_i64 n then Some n else None)"

text \<open>\<open>strings.SplitN(s, ":", 3)\<close>\<close>

definition splitColon3 :: "string \<Rightarrow> string list" where
  "splitColon3 s =
     (case split_on (CHR '':'') s of
        a # b # c # rest \<Rightarrow> [a, b, c @ concat (map (\<lambda>x. CHR '':'' # x) rest)]
      | ps \<Rightarrow> ps)"

text \<open>
  \<open>strconv.ParseFloat\<close> on a plain decimal, correctly rounded. Other forms (exponents, hex,
  underscores, \<open>inf\<close>) do not occur in an interval and are taken as unparsable here.
\<close>

definition parseDecimal :: "string \<Rightarrow> f64 option" where
  "parseDecimal s =
     (case split_on (CHR ''.'') s of
        [a] \<Rightarrow> map_option f64_of_int (digits_val a)
      | [a, b] \<Rightarrow>
          if list_all is_digit a \<and> list_all is_digit b \<and> a @ b \<noteq> []
            then Some (f64_round (of_int (dec_val (a @ b)) / 10 ^ length b)) else None
      | _ \<Rightarrow> None)"

definition parseHMSWithFraction :: "string \<Rightarrow> int option" where
  "parseHMSWithFraction s =
     (case splitColon3 s of
        [h, m, sec] \<Rightarrow>
          (case (Atoi h, Atoi m, parseDecimal sec) of
             (Some hours, Some mins, Some secs) \<Rightarrow>
               Some (wrap64 (wrap64 (wrap64 (hours * 3600000000000) + wrap64 (mins * 60000000000))
                     + f64_to_int (f64_mul secs (f64_of_int 1000000000))))
           | _ \<Rightarrow> None)
      | _ \<Rightarrow> None)"

text \<open>\<open>fmt.Sscanf(s, "%d", &n)\<close> reads the leading integer.\<close>

definition scanInt :: "string \<Rightarrow> int option" where
  "scanInt s =
     (case dropWhile (\<lambda>c. c = CHR '' '') s of
        [] \<Rightarrow> None
      | x # xs \<Rightarrow>
          if x = CHR ''-'' \<or> x = CHR ''+'' then Atoi (x # takeWhile is_digit xs)
          else Atoi (takeWhile is_digit (x # xs)))"

definition intervalRest :: "int \<Rightarrow> string \<Rightarrow> int option" where
  "intervalRest acc s =
     (if s = '''' then Some acc
      else (case parseHMSWithFraction s of
              Some d \<Rightarrow> Some (wrap64 (acc + d))
            | None \<Rightarrow>
                if contains_sub s ''second''
                  then (case scanInt s of
                          Some n \<Rightarrow> Some (wrap64 (acc + wrap64 (n * 1000000000)))
                        | None \<Rightarrow> Some acc)
                else if acc = 0 then None else Some acc))"

definition parsePostgresInterval :: "string \<Rightarrow> int" where
  "parsePostgresInterval s0 =
     (let s1 = trim_space s0 in
      if s1 = '''' \<or> s1 = ''0 seconds'' \<or> s1 = ''00:00:00'' then 0
      else
        let (negative, s2) = (case strip_prefix ''-'' s1 of Some r \<Rightarrow> (True, r) | None \<Rightarrow> (False, s1));
            (acc, s3) = (case split_at_sub '' day'' s2 of
               None \<Rightarrow> (0, s2)
             | Some (dayStr, after) \<Rightarrow>
                 ((case Atoi (trim_space dayStr) of
                     Some days \<Rightarrow> wrap64 (wrap64 (days * 24) * 3600000000000)
                   | None \<Rightarrow> 0),
                  (case split_at_sub '' '' (drop 1 after) of
                     Some (_, rest) \<Rightarrow> trim_space (drop 1 rest)
                   | None \<Rightarrow> ''''))) in
        (case intervalRest acc s3 of
           None \<Rightarrow> 0
         | Some t \<Rightarrow> if negative then wrap64 (- t) else t))"

section \<open>Reading a contest\<close>

text \<open>
  \<open>GetContest\<close> fills every field of the struct; times become Go times (nanoseconds) and the
  accumulated pause goes through its text form.
\<close>

definition GetContest :: "driver \<Rightarrow> string \<Rightarrow> cdb \<Rightarrow> Contest contest_result" where
  "GetContest drv contestID d =
     (case cd_contests d contestID of
        None \<Rightarrow> Inl ErrContestNotFound
      | Some c \<Rightarrow> Inr \<lparr>ct_ID = ct_ID c, ct_Name = ct_Name c, ct_Status = ct_Status c,
          ct_StartsAt = 1000 * ct_StartsAt c, ct_EndsAt = 1000 * ct_EndsAt c,
          ct_RegistrationDeadline = map_option ((*) 1000) (ct_RegistrationDeadline c),
          ct_MinParticipants = ct_MinParticipants c, ct_MaxParticipants = ct_MaxParticipants c,
          ct_CurrentParticipants = ct_CurrentParticipants c, ct_AutoStart = ct_AutoStart c,
          ct_PublishedAt = map_option ((*) 1000) (ct_PublishedAt c),
          ct_StartedAt = map_option ((*) 1000) (ct_StartedAt c),
          ct_EndedAt = map_option ((*) 1000) (ct_EndedAt c),
          ct_SettledAt = map_option ((*) 1000) (ct_SettledAt c),
          ct_CancelledAt = map_option ((*) 1000) (ct_CancelledAt c),
          ct_CancellationReason = ct_CancellationReason c, ct_QtyTotal = ct_QtyTotal c,
          ct_EntryFeeCents = ct_EntryFeeCents c, ct_IsFree = ct_IsFree c,
          ct_PausedAt = map_option ((*) 1000) (ct_PausedAt c),
          ct_TotalPausedDuration = parsePostgresInterval (pg_interval_text drv (ct_TotalPausedDuration c)),
          ct_CommissionRate = ct_CommissionRate c,
          ct_RegistrationOpensAt = map_option ((*) 1000) (ct_RegistrationOpensAt c),
          ct_LifecyclePolicyVersion = ct_LifecyclePolicyVersion c\<rparr>)"

text \<open>
  \<open>Transition\<close> scans the same columns but assigns only the pause fields and the opening time of
  the nullable ones; the others keep Go's zero value.
\<close>

definition lockedContest :: "driver \<Rightarrow> ContestCols \<Rightarrow> Contest" where
  "lockedContest drv c =
     \<lparr>ct_ID = ct_ID c, ct_Name = ct_Name c, ct_Status = ct_Status c,
      ct_StartsAt = 1000 * ct_StartsAt c, ct_EndsAt = 1000 * ct_EndsAt c,
      ct_RegistrationDeadline = None, ct_MinParticipants = ct_MinParticipants c, ct_MaxParticipants = None,
      ct_CurrentParticipants = ct_CurrentParticipants c, ct_AutoStart = ct_AutoStart c,
      ct_PublishedAt = None, ct_StartedAt = None, ct_EndedAt = None, ct_SettledAt = None,
      ct_CancelledAt = None, ct_CancellationReason = None, ct_QtyTotal = ct_QtyTotal c,
      ct_EntryFeeCents = ct_EntryFeeCents c, ct_IsFree = ct_IsFree c,
      ct_PausedAt = map_option ((*) 1000) (ct_PausedAt c),
      ct_TotalPausedDuration = parsePostgresInterval (pg_interval_text drv (ct_TotalPausedDuration c)),
      ct_CommissionRate = ct_CommissionRate c,
      ct_RegistrationOpensAt = map_option ((*) 1000) (ct_RegistrationOpensAt c),
      ct_LifecyclePolicyVersion = ct_LifecyclePolicyVersion c\<rparr>"

section \<open>The transition\<close>

definition minRequired :: "Contest \<Rightarrow> int" where
  "minRequired c = (if ct_IsFree c then 1 else if ct_MinParticipants c < 2 then 2 else ct_MinParticipants c)"

definition validateTransition :: "Contest \<Rightarrow> ContestStatus \<Rightarrow> cdb \<Rightarrow> unit contest_result" where
  "validateTransition c to d =
     (if to = StatusRunning \<and> int (length (realParticipants (ct_ID c) d)) < minRequired c
        then Inl (TransitionError (ct_ID c) (ct_Status c) to ''minimum participants not met'')
      else if to = StatusCompleted \<and> ct_Status c \<noteq> StatusSettling
        then Inl (TransitionError (ct_ID c) (ct_Status c) to ''contest must be in settling state before completion'')
      else Inr ())"

text \<open>
  The update of the switch on the target status: the statement on the row, the metadata of the
  history row and the struct that the result carries. \<open>now\<close> is Go's clock; the time stamps
  that SQL writes itself (\<open>CURRENT_TIMESTAMP\<close>) are the transaction's. \<open>time.Sub\<close> saturates.
\<close>

definition pauseDuration :: "int \<Rightarrow> Contest \<Rightarrow> int" where
  "pauseDuration now c = (case ct_PausedAt c of None \<Rightarrow> 0 | Some p \<Rightarrow> time_Sub now p)"

text \<open>\<open>int64(d.Seconds())\<close>: seconds and the fraction are added as doubles, then truncated.\<close>

definition durationSeconds :: "int \<Rightarrow> int" where
  "durationSeconds dur =
     f64_to_int (f64_add (f64_of_int (go_quot dur 1000000000))
       (f64_div (f64_of_int (go_rem dur 1000000000)) (f64_of_int 1000000000)))"

definition withMeta :: "(string \<rightharpoonup> metadata_value) option \<Rightarrow> (string \<times> metadata_value) list \<Rightarrow> (string \<rightharpoonup> metadata_value) option" where
  "withMeta m kvs = Some ((case m of None \<Rightarrow> Map.empty | Some f \<Rightarrow> f) ++ map_of kvs)"

definition resumeUpdate ::
    "driver \<Rightarrow> int \<Rightarrow> TransitionRequest \<Rightarrow> Contest \<Rightarrow>
       ((ContestCols \<Rightarrow> ContestCols) \<times> (string \<rightharpoonup> metadata_value) option \<times> Contest) contest_result" where
  "resumeUpdate drv now req c =
     (let dur = pauseDuration now c; newEndsAt = ct_EndsAt c + dur in
      case pg_interval drv dur of
        None \<Rightarrow> Inl (ContestDbError ''invalid input syntax for type interval'')
      | Some us \<Rightarrow>
          if \<not> ct_StartsAt c < 1000 * pg_time drv newEndsAt then Inl (ContestDbError ''chk_contest_dates'')
          else Inr (\<lambda>r. r\<lparr>ct_Status := tq_ToStatus req, ct_EndsAt := pg_time drv newEndsAt,
                     ct_TotalPausedDuration := ct_TotalPausedDuration r + us, ct_PausedAt := None\<rparr>,
                withMeta (tq_Metadata req)
                  [(''pause_duration_seconds'', MetaInt (durationSeconds dur)),
                   (''new_ends_at'', MetaTime newEndsAt), (''previous_ends_at'', MetaTime (ct_EndsAt c))],
                c\<lparr>ct_EndsAt := newEndsAt, ct_TotalPausedDuration := wrap64 (ct_TotalPausedDuration c + dur),
                  ct_PausedAt := None\<rparr>))"

definition endPausedUpdate ::
    "driver \<Rightarrow> int \<Rightarrow> TransitionRequest \<Rightarrow> Contest \<Rightarrow>
       ((ContestCols \<Rightarrow> ContestCols) \<times> (string \<rightharpoonup> metadata_value) option \<times> Contest) contest_result" where
  "endPausedUpdate drv now req c =
     (let dur = pauseDuration now c in
      case pg_interval drv dur of
        None \<Rightarrow> Inl (ContestDbError ''invalid input syntax for type interval'')
      | Some us \<Rightarrow>
          Inr (\<lambda>r. r\<lparr>ct_Status := tq_ToStatus req, ct_EndedAt := Some (pg_time drv now),
                  ct_TotalPausedDuration := ct_TotalPausedDuration r + us, ct_PausedAt := None\<rparr>,
               withMeta (tq_Metadata req)
                 [(''final_pause_duration_seconds'', MetaInt (durationSeconds dur)),
                  (''contest_ended_while_paused'', MetaBool True)],
               c\<lparr>ct_TotalPausedDuration := wrap64 (ct_TotalPausedDuration c + dur), ct_PausedAt := None\<rparr>))"

definition transitionUpdate ::
    "driver \<Rightarrow> int \<Rightarrow> TransitionRequest \<Rightarrow> Contest \<Rightarrow> cdb \<Rightarrow>
       ((ContestCols \<Rightarrow> ContestCols) \<times> (string \<rightharpoonup> metadata_value) option \<times> Contest) contest_result" where
  "transitionUpdate drv now req c d =
     (let m = tq_Metadata req; t = Some (pg_time drv now) in
      case tq_ToStatus req of
        StatusScheduled \<Rightarrow> Inr (\<lambda>r. r\<lparr>ct_Status := StatusScheduled, ct_PublishedAt := t\<rparr>, m, c)
      | StatusRegistrationClosed \<Rightarrow> Inr (\<lambda>r. r\<lparr>ct_Status := StatusRegistrationClosed\<rparr>, m, c)
      | StatusRunning \<Rightarrow>
          if ct_Status c = StatusPaused \<and> ct_PausedAt c \<noteq> None then resumeUpdate drv now req c
          else Inr (\<lambda>r. r\<lparr>ct_Status := StatusRunning, ct_StartedAt := Some (cd_now d)\<rparr>, m, c)
      | StatusSettling \<Rightarrow>
          if ct_Status c = StatusPaused \<and> ct_PausedAt c \<noteq> None then endPausedUpdate drv now req c
          else Inr (\<lambda>r. r\<lparr>ct_Status := StatusSettling, ct_EndedAt := t\<rparr>, m, c)
      | StatusCompleted \<Rightarrow> Inr (\<lambda>r. r\<lparr>ct_Status := StatusCompleted, ct_SettledAt := t\<rparr>, m, c)
      | StatusCancelled \<Rightarrow>
          Inr (\<lambda>r. r\<lparr>ct_Status := StatusCancelled, ct_CancelledAt := t,
                  ct_CancellationReason := Some (tq_Reason req)\<rparr>, m, c)
      | StatusPaused \<Rightarrow>
          Inr (\<lambda>r. r\<lparr>ct_Status := StatusPaused, ct_PausedAt := t\<rparr>, m, c\<lparr>ct_PausedAt := Some now\<rparr>)
      | s \<Rightarrow> Inr (\<lambda>r. r\<lparr>ct_Status := s\<rparr>, m, c))"

text \<open>The snapshots of a modern contest that starts.\<close>

definition snap :: "'a snapshot_result \<Rightarrow> 'a contest_result" where
  "snap r = (case r of Inl e \<Rightarrow> Inl (SnapshotFailure e) | Inr x \<Rightarrow> Inr x)"

definition startSnapshots :: "driver \<Rightarrow> (nat \<Rightarrow> string) \<Rightarrow> string \<Rightarrow> cdb \<Rightarrow> cdb contest_result" where
  "startSnapshots drv newID contestID d =
     rbind (snap (SnapshotByType contestID SnapshotConfirmed d)) (\<lambda>_.
     rbind (snap (EnsureContestStarted (newID 0) contestID d)) (\<lambda>(d, _).
       case EnsureEconomicsCutoff drv (newID 1) contestID d of
         Inr (d', _) \<Rightarrow> Inr d'
       | Inl ErrSnapshotNotReady \<Rightarrow> Inr d
       | Inl e \<Rightarrow> Inl (SnapshotFailure e)))"

definition insert_history :: "StatusHistoryEntry \<Rightarrow> cdb \<Rightarrow> cdb contest_result" where
  "insert_history h d =
     (if (case sh_ChangedBy h of None \<Rightarrow> False | Some u \<Rightarrow> u \<notin> db_users (cd_funds d))
        then Inl (ContestDbError ''contest_status_history_changed_by_fkey'')
      else Inr (d\<lparr>cd_history := cd_history d @ [h]\<rparr>))"

definition startsModern :: "TransitionRequest \<Rightarrow> Contest \<Rightarrow> bool" where
  "startsModern req c \<longleftrightarrow> tq_ToStatus req = StatusRunning \<and> ct_Status c \<noteq> StatusPaused
     \<and> ct_LifecyclePolicyVersion c = ContestSnapshotPolicyV1"

text \<open>The transaction of \<open>Transition\<close>, up to its commit.\<close>

definition transitionTx ::
    "driver \<Rightarrow> (nat \<Rightarrow> string) \<Rightarrow> int \<Rightarrow> TransitionRequest \<Rightarrow> cdb \<Rightarrow> (cdb \<times> TransitionResult) contest_result" where
  "transitionTx drv newID now req d =
     (if tq_ContestID req = '''' then Inl (ContestErrMsg ''contest ID is required'')
      else if \<not> IsValid (tq_ToStatus req) then Inl (ContestErrMsg ''invalid target status'')
      else case cd_contests d (tq_ContestID req) of
        None \<Rightarrow> Inl ErrContestNotFound
      | Some row \<Rightarrow>
          let contest = lockedContest drv row; frm = ct_Status row in
          if \<not> CanTransition frm (tq_ToStatus req)
            then Inl (TransitionError (tq_ContestID req) frm (tq_ToStatus req) ''transition is not allowed'')
          else
            rbind (validateTransition contest (tq_ToStatus req) d) (\<lambda>_.
            rbind (transitionUpdate drv now req contest d) (\<lambda>(upd, meta, contest').
            let d1 = update_contest (tq_ContestID req) upd d in
            rbind (if startsModern req contest
                   then startSnapshots drv newID (tq_ContestID req) d1 else Inr d1) (\<lambda>d2.
            rbind (insert_history \<lparr>sh_ContestID = tq_ContestID req, sh_FromStatus = Some frm,
                     sh_ToStatus = tq_ToStatus req, sh_ChangedBy = tq_ActorID req,
                     sh_Reason = Some (tq_Reason req), sh_Metadata = meta, sh_CreatedAt = cd_now d2\<rparr> d2) (\<lambda>d3.
              Inr (d3, \<lparr>tr_Contest = contest'\<lparr>ct_Status := tq_ToStatus req\<rparr>, tr_FromStatus = frm,
                        tr_ToStatus = tq_ToStatus req, tr_Timestamp = now\<rparr>))))))"

section \<open>Events and side effects\<close>

datatype ContestPhase = ContestPhaseUpcoming | ContestPhaseLive | ContestPhaseFrozen | ContestPhaseEnded

fun phaseOf :: "ContestStatus \<Rightarrow> ContestPhase" where
  "phaseOf StatusRunning = ContestPhaseLive"
| "phaseOf StatusPaused = ContestPhaseFrozen"
| "phaseOf StatusSettling = ContestPhaseFrozen"
| "phaseOf StatusCompleted = ContestPhaseEnded"
| "phaseOf StatusCancelled = ContestPhaseEnded"
| "phaseOf _ = ContestPhaseUpcoming"

record ContestStateEvent =
  ev_ContestID :: string
  ev_Phase :: ContestPhase
  ev_Status :: string
  ev_Ts :: int

text \<open>
  The configuration: a producer that accepts or rejects a message (\<open>None\<close> is the nil producer)
  and the handlers, functions on the tables whose errors are only logged.
\<close>

record smConfig =
  KafkaProducer :: "(ContestStateEvent \<Rightarrow> bool) option"
  SideEffectHandlers :: "ContestStatus \<Rightarrow> (TransitionResult \<Rightarrow> cdb \<Rightarrow> cdb) option"

definition publishContestStateEvent :: "smConfig \<Rightarrow> TransitionResult \<Rightarrow> ContestStateEvent list" where
  "publishContestStateEvent cfg r =
     (let e = \<lparr>ev_ContestID = ct_ID (tr_Contest r), ev_Phase = phaseOf (tr_ToStatus r),
               ev_Status = status_String (tr_ToStatus r), ev_Ts = tr_Timestamp r div 1000000\<rparr>
      in case KafkaProducer cfg of None \<Rightarrow> [] | Some send \<Rightarrow> if send e then [e] else [])"

definition runHandler :: "smConfig \<Rightarrow> TransitionResult \<Rightarrow> cdb \<Rightarrow> cdb" where
  "runHandler cfg r d = (case SideEffectHandlers cfg (tr_ToStatus r) of None \<Rightarrow> d | Some h \<Rightarrow> h r d)"

definition Transition ::
    "smConfig \<Rightarrow> driver \<Rightarrow> (nat \<Rightarrow> string) \<Rightarrow> int \<Rightarrow> TransitionRequest \<Rightarrow> cdb \<Rightarrow>
       (cdb \<times> TransitionResult \<times> ContestStateEvent list) contest_result" where
  "Transition cfg drv newID now req d =
     rbind (transitionTx drv newID now req d) (\<lambda>(d', r).
       Inr (runHandler cfg r d', r, publishContestStateEvent cfg r))"

section \<open>Wrappers\<close>

definition orDefault :: "string \<Rightarrow> string \<Rightarrow> string" where
  "orDefault reason def = (if reason = '''' then def else reason)"

definition request :: "string \<Rightarrow> ContestStatus \<Rightarrow> string option \<Rightarrow> string \<Rightarrow> TransitionRequest" where
  "request contestID to actorID reason =
     \<lparr>tq_ContestID = contestID, tq_ToStatus = to, tq_Reason = reason, tq_ActorID = actorID, tq_Metadata = None\<rparr>"

definition Publish where
  "Publish cfg drv newID now contestID actorID =
     Transition cfg drv newID now (request contestID StatusScheduled actorID ''Contest published by admin'')"

definition CloseRegistration where
  "CloseRegistration cfg drv newID now contestID actorID reason =
     Transition cfg drv newID now
       (request contestID StatusRegistrationClosed actorID (orDefault reason ''Registration closed''))"

definition Start where
  "Start cfg drv newID now contestID actorID =
     Transition cfg drv newID now (request contestID StatusRunning actorID ''Contest started'')"

definition Pause where
  "Pause cfg drv newID now contestID actorID reason =
     Transition cfg drv newID now
       (request contestID StatusPaused actorID (orDefault reason ''Contest paused by admin''))"

definition Resume where
  "Resume cfg drv newID now contestID actorID =
     Transition cfg drv newID now (request contestID StatusRunning actorID ''Contest resumed by admin'')"

definition End_contest where
  "End_contest cfg drv newID now contestID actorID =
     Transition cfg drv newID now (request contestID StatusSettling actorID ''Contest ended'')"

definition Complete where
  "Complete cfg drv newID now contestID =
     Transition cfg drv newID now (request contestID StatusCompleted None ''Settlement completed'')"

definition Cancel where
  "Cancel cfg drv newID now contestID actorID reason =
     Transition cfg drv newID now
       (request contestID StatusCancelled actorID (orDefault reason ''Cancelled by admin''))"

definition GetStatusHistory :: "string \<Rightarrow> cdb \<Rightarrow> StatusHistoryEntry list" where
  "GetStatusHistory contestID d =
     sort_key sh_CreatedAt (filter (\<lambda>h. sh_ContestID h = contestID) (cd_history d))"

section \<open>Candidates for automatic transitions\<close>

record AutoTransitionCandidate =
  ac_ContestID :: string
  ac_CurrentStatus :: ContestStatus
  ac_SuggestedStatus :: ContestStatus
  ac_StartsAt :: "int option"
  ac_EndsAt :: "int option"
  ac_RegistrationDeadline :: "int option"
  ac_CurrentParticipants :: int
  ac_MinParticipants :: int
  ac_IsFree :: bool
  ac_Reason :: string

text \<open>
  The four queries, over the contests in the order \<open>ids\<close> of the scan. Unset times are \<open>None\<close>
  (Go's zero time). The third query counts every participant row, the first only real users.
\<close>

definition due :: "driver \<Rightarrow> int \<Rightarrow> int option \<Rightarrow> bool" where
  "due drv now t = (case t of None \<Rightarrow> False | Some x \<Rightarrow> x \<le> pg_time drv now)"

definition startCandidate :: "driver \<Rightarrow> int \<Rightarrow> cdb \<Rightarrow> string \<Rightarrow> AutoTransitionCandidate option" where
  "startCandidate drv now d i =
     (case cd_contests d i of
        Some c \<Rightarrow>
          if ct_Status c = StatusRegistrationClosed \<and> ct_AutoStart c \<and> due drv now (Some (ct_StartsAt c))
            then Some \<lparr>ac_ContestID = i, ac_CurrentStatus = ct_Status c, ac_SuggestedStatus = StatusRunning,
                       ac_StartsAt = Some (1000 * ct_StartsAt c), ac_EndsAt = None, ac_RegistrationDeadline = None,
                       ac_CurrentParticipants = int (length (realParticipants i d)),
                       ac_MinParticipants = ct_MinParticipants c, ac_IsFree = ct_IsFree c,
                       ac_Reason = ''Auto-start triggered by schedule''\<rparr>
          else None
      | None \<Rightarrow> None)"

definition endCandidate :: "driver \<Rightarrow> int \<Rightarrow> cdb \<Rightarrow> string \<Rightarrow> AutoTransitionCandidate option" where
  "endCandidate drv now d i =
     (case cd_contests d i of
        Some c \<Rightarrow>
          if ct_Status c = StatusRunning \<and> due drv now (Some (ct_EndsAt c))
            then Some \<lparr>ac_ContestID = i, ac_CurrentStatus = ct_Status c, ac_SuggestedStatus = StatusSettling,
                       ac_StartsAt = None, ac_EndsAt = Some (1000 * ct_EndsAt c), ac_RegistrationDeadline = None,
                       ac_CurrentParticipants = ct_CurrentParticipants c,
                       ac_MinParticipants = ct_MinParticipants c, ac_IsFree = False,
                       ac_Reason = ''Auto-end triggered by schedule''\<rparr>
          else None
      | None \<Rightarrow> None)"

definition closeCandidate :: "driver \<Rightarrow> int \<Rightarrow> cdb \<Rightarrow> string \<Rightarrow> AutoTransitionCandidate option" where
  "closeCandidate drv now d i =
     (case cd_contests d i of
        Some c \<Rightarrow>
          if (ct_Status c = StatusScheduled \<or> ct_Status c = StatusRegistrationOpen)
             \<and> due drv now (ct_RegistrationDeadline c)
            then Some \<lparr>ac_ContestID = i, ac_CurrentStatus = ct_Status c, ac_SuggestedStatus = StatusRegistrationClosed,
                       ac_StartsAt = Some (1000 * ct_StartsAt c), ac_EndsAt = None,
                       ac_RegistrationDeadline = map_option ((*) 1000) (ct_RegistrationDeadline c),
                       ac_CurrentParticipants = int (length (filter (\<lambda>p. pt_ContestID p = i) (cd_participants d))),
                       ac_MinParticipants = ct_MinParticipants c, ac_IsFree = ct_IsFree c,
                       ac_Reason = ''Registration deadline passed''\<rparr>
          else None
      | None \<Rightarrow> None)"

definition openCandidate :: "driver \<Rightarrow> int \<Rightarrow> cdb \<Rightarrow> string \<Rightarrow> AutoTransitionCandidate option" where
  "openCandidate drv now d i =
     (case cd_contests d i of
        Some c \<Rightarrow>
          if ct_Status c = StatusScheduled \<and> due drv now (ct_RegistrationOpensAt c)
            then Some \<lparr>ac_ContestID = i, ac_CurrentStatus = ct_Status c, ac_SuggestedStatus = StatusRegistrationOpen,
                       ac_StartsAt = Some (1000 * ct_StartsAt c), ac_EndsAt = None, ac_RegistrationDeadline = None,
                       ac_CurrentParticipants = ct_CurrentParticipants c,
                       ac_MinParticipants = ct_MinParticipants c, ac_IsFree = False,
                       ac_Reason = ''Registration opened by schedule''\<rparr>
          else None
      | None \<Rightarrow> None)"

definition FindContestsForAutoTransition :: "driver \<Rightarrow> int \<Rightarrow> string list \<Rightarrow> cdb \<Rightarrow> AutoTransitionCandidate list" where
  "FindContestsForAutoTransition drv now ids d =
     List.map_filter (startCandidate drv now d) ids @ List.map_filter (endCandidate drv now d) ids
     @ List.map_filter (closeCandidate drv now d) ids @ List.map_filter (openCandidate drv now d) ids"

end
