(* ===== verification/Contest_Lifecycle.thy ===== *)
theory Contest_Lifecycle
  imports Contest_Machine
begin

text \<open>
  The lifecycle of a contest under the state machine: a step relation of committed
  transitions, interleaved with statements that leave the lifecycle columns alone, and the
  invariants of its runs.
\<close>

section \<open>What the snapshot functions leave alone\<close>

definition same_contest_tables :: "cdb \<Rightarrow> cdb \<Rightarrow> bool" where
  "same_contest_tables d d' \<longleftrightarrow> cd_contests d' = cd_contests d \<and> cd_history d' = cd_history d
     \<and> cd_participants d' = cd_participants d \<and> cd_funds d' = cd_funds d"

lemma same_contest_tables_refl [simp]: "same_contest_tables d d"
  by (simp add: same_contest_tables_def)

lemma same_contest_tables_trans: "same_contest_tables a b \<Longrightarrow> same_contest_tables b c \<Longrightarrow> same_contest_tables a c"
  by (simp add: same_contest_tables_def)

lemma appendEconEvent_same [simp]: "same_contest_tables d (appendEconEvent c d)" "cd_snapshots (appendEconEvent c d) = cd_snapshots d"
  by (simp_all add: appendEconEvent_def same_contest_tables_def)

lemma insert_snapshot_Inr:
  assumes "insert_snapshot s d = Inr (d', r)"
  shows "same_contest_tables d d' \<and> (r = None \<and> d' = d \<and> (\<exists>x \<in> set (cd_snapshots d). sn_ContestID x = sn_ContestID s \<and> sn_Type x = sn_Type s)
      \<or> r = Some s \<and> cd_snapshots d' = cd_snapshots d @ [s] \<and> snapshot_shape s d
        \<and> \<not> (\<exists>x \<in> set (cd_snapshots d). sn_ContestID x = sn_ContestID s \<and> sn_Type x = sn_Type s))"
  using assms by (auto simp: insert_snapshot_def same_contest_tables_def split: if_splits)

lemma insertedOrExisting_Inr:
  "insertedOrExisting c t old (d, r) = Inr (d', s) \<longleftrightarrow>
     d' = d \<and> (r = Some s \<or> r = None \<and> SnapshotByType c t old = Inr s)"
  by (cases r; cases "SnapshotByType c t old") (auto simp: insertedOrExisting_def)

lemma EnsureContestStarted_same:
  "EnsureContestStarted i c d = Inr (d', s) \<Longrightarrow> same_contest_tables d d'"
  by (cases "cd_contests d c"; cases "ct_StartedAt (the (cd_contests d c))")
    (auto simp: EnsureContestStarted_def rbind_eq_Inr insertedOrExisting_Inr dest: insert_snapshot_Inr split: if_splits)

abbreviation cutoffAt :: "driver \<Rightarrow> ContestCols \<Rightarrow> int" where
  "cutoffAt drv c \<equiv> pg_time drv (LateJoinCutoff (1000 * ct_StartsAt c) (1000 * ct_EndsAt c))"

lemma EnsureEconomicsCutoff_cases:
  assumes "EnsureEconomicsCutoff drv i c d = Inr (d', s)"
  obtains "d' = d" "SnapshotByType c SnapshotEconomicsCutoff d = Inr s"
  | row started totals ps where
    "cd_contests d c = Some row" "SnapshotByType c SnapshotStarted d = Inr started"
    "ct_LifecyclePolicyVersion row = ContestSnapshotPolicyV1"
    "SnapshotByType c SnapshotEconomicsCutoff d = Inl ErrNoRows" "cutoffAt drv row \<le> cd_now d"
    "ps = cutoffParticipants (entryFee row) c d" "cutoffTotals c row (sn_EventAt started) d ps = Inr totals"
    "reconcilePool c (snd (snd (snd totals))) (fst (cutoffPopulation ps)) d = Inr ()"
    "s = cutoffSnapshot i (cutoffAt drv row) row d ps totals"
    "cd_snapshots d' = cd_snapshots d @ [s]" "same_contest_tables d d'"
proof -
  obtain row where row: "cd_contests d c = Some row"
    using assms by (cases "cd_contests d c") (auto simp: EnsureEconomicsCutoff_def)
  show thesis
  proof (cases "SnapshotByType c SnapshotEconomicsCutoff d")
    case (Inr x)
    with assms row that(1) show thesis by (auto simp: EnsureEconomicsCutoff_def split: if_splits)
  next
    case (Inl e)
    then have e: "e = ErrNoRows" by (auto simp: SnapshotByType_def split: option.splits)
    obtain started where st: "SnapshotByType c SnapshotStarted d = Inr started"
      using assms row Inl by (cases "SnapshotByType c SnapshotStarted d") (auto simp: EnsureEconomicsCutoff_def split: if_splits)
    define ps where "ps = cutoffParticipants (entryFee row) c d"
    from assms row Inl st have lp: "ct_LifecyclePolicyVersion row = ContestSnapshotPolicyV1" and now: "cutoffAt drv row \<le> cd_now d"
      by (auto simp: EnsureEconomicsCutoff_def Let_def split: if_splits)
    with assms row Inl st obtain totals d1 r where
      t: "cutoffTotals c row (sn_EventAt started) d ps = Inr totals"
      and rec: "reconcilePool c (snd (snd (snd totals))) (fst (cutoffPopulation ps)) d = Inr ()"
      and ins: "insert_snapshot (cutoffSnapshot i (cutoffAt drv row) row d ps totals) d = Inr (d1, r)"
      and fin: "insertedOrExisting c SnapshotEconomicsCutoff d (if r = None then d1 else appendEconEvent c d1, r) = Inr (d', s)"
      by (auto simp: EnsureEconomicsCutoff_def Let_def rbind_eq_Inr ps_def [symmetric])
    from fin Inl have r: "r = Some s" "d' = appendEconEvent c d1" by (auto simp: insertedOrExisting_Inr split: if_splits)
    from insert_snapshot_Inr [OF ins] r have s: "s = cutoffSnapshot i (cutoffAt drv row) row d ps totals"
      and d1: "cd_snapshots d1 = cd_snapshots d @ [s]" "same_contest_tables d d1" by auto
    from d1 r have "cd_snapshots d' = cd_snapshots d @ [s]" "same_contest_tables d d'"
      using same_contest_tables_trans by auto
    from that(2) [OF row st lp Inl [unfolded e] now ps_def t rec s this] show thesis .
  qed
qed

lemma EnsureEconomicsCutoff_same:
  "EnsureEconomicsCutoff drv i c d = Inr (d', s) \<Longrightarrow> same_contest_tables d d'"
  by (erule EnsureEconomicsCutoff_cases) simp_all

lemma startSnapshots_Inr:
  assumes "startSnapshots drv ni c d = Inr d'"
  shows "same_contest_tables d d' \<and> (\<exists>x. SnapshotByType c SnapshotConfirmed d = Inr x)"
proof -
  obtain x d1 s where x: "SnapshotByType c SnapshotConfirmed d = Inr x" and d1: "EnsureContestStarted (ni 0) c d = Inr (d1, s)"
    using assms by (cases "SnapshotByType c SnapshotConfirmed d"; cases "EnsureContestStarted (ni 0) c d")
      (auto simp: startSnapshots_def snap_def)
  have "same_contest_tables d1 d'"
  proof (cases "EnsureEconomicsCutoff drv (ni 1) c d1")
    case (Inl e)
    with assms x d1 show ?thesis by (cases e) (auto simp: startSnapshots_def snap_def)
  next
    case (Inr p)
    with assms x d1 show ?thesis
      by (cases p) (auto simp: startSnapshots_def snap_def dest: EnsureEconomicsCutoff_same)
  qed
  with x EnsureContestStarted_same [OF d1] same_contest_tables_trans show ?thesis by blast
qed

section \<open>Effect of a transition\<close>

lemma CanTransition_simps [simp]:
  "CanTransition StatusDraft t \<longleftrightarrow> t = StatusScheduled \<or> t = StatusCancelled"
  "CanTransition StatusScheduled t \<longleftrightarrow> t = StatusRegistrationOpen \<or> t = StatusRegistrationClosed \<or> t = StatusCancelled"
  "CanTransition StatusRegistrationOpen t \<longleftrightarrow> t = StatusRegistrationClosed \<or> t = StatusCancelled"
  "CanTransition StatusRegistrationClosed t \<longleftrightarrow> t = StatusRunning \<or> t = StatusCancelled"
  "CanTransition StatusRunning t \<longleftrightarrow> t = StatusSettling \<or> t = StatusPaused"
  "CanTransition StatusPaused t \<longleftrightarrow> t = StatusRunning \<or> t = StatusSettling"
  "CanTransition StatusSettling t \<longleftrightarrow> t = StatusCompleted"
  "\<not> CanTransition StatusCompleted t" "\<not> CanTransition StatusCancelled t" "\<not> CanTransition (OtherStatus s) t"
  by (auto simp: CanTransition_def)

lemma CanTransitionE:
  assumes "CanTransition s t"
  obtains "s = StatusDraft" "t = StatusScheduled" | "s = StatusDraft" "t = StatusCancelled"
  | "s = StatusScheduled" "t = StatusRegistrationOpen" | "s = StatusScheduled" "t = StatusRegistrationClosed"
  | "s = StatusScheduled" "t = StatusCancelled"
  | "s = StatusRegistrationOpen" "t = StatusRegistrationClosed" | "s = StatusRegistrationOpen" "t = StatusCancelled"
  | "s = StatusRegistrationClosed" "t = StatusRunning" | "s = StatusRegistrationClosed" "t = StatusCancelled"
  | "s = StatusRunning" "t = StatusSettling" | "s = StatusRunning" "t = StatusPaused"
  | "s = StatusPaused" "t = StatusRunning" | "s = StatusPaused" "t = StatusSettling"
  | "s = StatusSettling" "t = StatusCompleted"
  using assms by (cases s) auto

lemma lockedContest_simps [simp]:
  "ct_ID (lockedContest drv r) = ct_ID r" "ct_Status (lockedContest drv r) = ct_Status r"
  "ct_PausedAt (lockedContest drv r) = map_option ((*) 1000) (ct_PausedAt r)"
  "ct_EndsAt (lockedContest drv r) = 1000 * ct_EndsAt r" "ct_StartsAt (lockedContest drv r) = 1000 * ct_StartsAt r"
  "ct_MinParticipants (lockedContest drv r) = ct_MinParticipants r" "ct_IsFree (lockedContest drv r) = ct_IsFree r"
  "ct_LifecyclePolicyVersion (lockedContest drv r) = ct_LifecyclePolicyVersion r"
  "ct_EntryFeeCents (lockedContest drv r) = ct_EntryFeeCents r" "ct_Name (lockedContest drv r) = ct_Name r"
  "ct_CancellationReason (lockedContest drv r) = None"
  by (simp_all add: lockedContest_def)

text \<open>What a committed transition did, stated on the tables.\<close>

lemma transitionTx_cases:
  assumes "transitionTx drv ni now req d = Inr (d', res)"
  obtains row upd meta contest' d1 where
    "cd_contests d (tq_ContestID req) = Some row" "CanTransition (ct_Status row) (tq_ToStatus req)"
    "validateTransition (lockedContest drv row) (tq_ToStatus req) d = Inr ()"
    "transitionUpdate drv now req (lockedContest drv row) d = Inr (upd, meta, contest')"
    "d1 = update_contest (tq_ContestID req) upd d"
    "startsModern req (lockedContest drv row) \<longrightarrow> (\<exists>d2. startSnapshots drv ni (tq_ContestID req) d1 = Inr d2 \<and> cd_snapshots d' = cd_snapshots d2)"
    "cd_contests d' = cd_contests d1" "cd_participants d' = cd_participants d" "cd_funds d' = cd_funds d"
    "cd_history d' = cd_history d @ [\<lparr>sh_ContestID = tq_ContestID req, sh_FromStatus = Some (ct_Status row),
        sh_ToStatus = tq_ToStatus req, sh_ChangedBy = tq_ActorID req, sh_Reason = Some (tq_Reason req),
        sh_Metadata = meta, sh_CreatedAt = cd_now d\<rparr>]"
    "res = \<lparr>tr_Contest = contest'\<lparr>ct_Status := tq_ToStatus req\<rparr>, tr_FromStatus = ct_Status row,
            tr_ToStatus = tq_ToStatus req, tr_Timestamp = now\<rparr>"
proof -
  let ?c = "tq_ContestID req"
  obtain row where row: "cd_contests d ?c = Some row"
    using assms by (cases "cd_contests d ?c") (auto simp: transitionTx_def split: if_splits)
  let ?start = "startsModern req (lockedContest drv row)"
  from assms row obtain upd meta contest' d2 d3 where
    ok: "CanTransition (ct_Status row) (tq_ToStatus req)" "validateTransition (lockedContest drv row) (tq_ToStatus req) d = Inr ()"
      "transitionUpdate drv now req (lockedContest drv row) d = Inr (upd, meta, contest')"
    and d2: "(if ?start then startSnapshots drv ni ?c (update_contest ?c upd d) else Inr (update_contest ?c upd d)) = Inr d2"
    and h: "insert_history \<lparr>sh_ContestID = ?c, sh_FromStatus = Some (ct_Status row),
        sh_ToStatus = tq_ToStatus req, sh_ChangedBy = tq_ActorID req, sh_Reason = Some (tq_Reason req),
        sh_Metadata = meta, sh_CreatedAt = cd_now d2\<rparr> d2 = Inr d3"
    and res: "d' = d3" "res = \<lparr>tr_Contest = contest'\<lparr>ct_Status := tq_ToStatus req\<rparr>, tr_FromStatus = ct_Status row,
            tr_ToStatus = tq_ToStatus req, tr_Timestamp = now\<rparr>"
    by (cases ?start) (auto simp: transitionTx_def rbind_eq_Inr Let_def split: if_splits)
  have same: "same_contest_tables (update_contest ?c upd d) d2"
    using d2 startSnapshots_Inr by (cases ?start) auto
  then have now2: "cd_now d2 = cd_now d" by (simp add: same_contest_tables_def)
  have d3: "d3 = d2\<lparr>cd_history := cd_history d2 @ [\<lparr>sh_ContestID = ?c, sh_FromStatus = Some (ct_Status row),
        sh_ToStatus = tq_ToStatus req, sh_ChangedBy = tq_ActorID req, sh_Reason = Some (tq_Reason req),
        sh_Metadata = meta, sh_CreatedAt = cd_now d\<rparr>]\<rparr>"
    using h by (auto simp: insert_history_def now2 split: if_splits)
  have imp: "?start \<longrightarrow> (\<exists>d2. startSnapshots drv ni ?c (update_contest ?c upd d) = Inr d2 \<and> cd_snapshots d' = cd_snapshots d2)"
    using d2 by (auto simp: res d3)
  show thesis
    by (rule that [OF row ok refl imp _ _ _ _ res(2)])
      (use same in \<open>simp_all add: res d3 same_contest_tables_def\<close>)
qed

section \<open>Well-formed rows and histories\<close>

text \<open>
  The time stamps agree with the status: a contest is paused exactly when its pause time is
  set, started from running on, ended from settling on, settled when completed, cancelled when
  cancelled.
\<close>

definition row_wf :: "'a Contest_scheme \<Rightarrow> bool" where
  "row_wf r \<longleftrightarrow> IsValid (ct_Status r)
     \<and> (ct_PausedAt r \<noteq> None \<longleftrightarrow> ct_Status r = StatusPaused)
     \<and> (ct_StartedAt r \<noteq> None \<longleftrightarrow> ct_Status r \<in> {StatusRunning, StatusPaused, StatusSettling, StatusCompleted})
     \<and> (ct_EndedAt r \<noteq> None \<longleftrightarrow> ct_Status r \<in> {StatusSettling, StatusCompleted})
     \<and> (ct_SettledAt r \<noteq> None \<longleftrightarrow> ct_Status r = StatusCompleted)
     \<and> (ct_CancelledAt r \<noteq> None \<longleftrightarrow> ct_Status r = StatusCancelled)
     \<and> (ct_CancellationReason r \<noteq> None \<longleftrightarrow> ct_Status r = StatusCancelled)
     \<and> (ct_Status r \<notin> {StatusDraft, StatusCancelled} \<longrightarrow> ct_PublishedAt r \<noteq> None)"

lemma transitionUpdate_wf:
  assumes "row_wf r" "CanTransition (ct_Status r) (tq_ToStatus req)"
    and "transitionUpdate drv now req (lockedContest drv r) d = Inr (upd, meta, c')"
  shows "row_wf (upd r) \<and> ct_Status (upd r) = tq_ToStatus req \<and> ct_ID (upd r) = ct_ID r"
proof -
  note defs = transitionUpdate_def resumeUpdate_def endPausedUpdate_def Let_def row_wf_def
  show ?thesis
  proof (cases "ct_Status r = StatusPaused")
    case True
    with assms(1) obtain p where p: "ct_PausedAt r = Some p" by (auto simp: row_wf_def)
    from True assms(2) consider "tq_ToStatus req = StatusRunning" | "tq_ToStatus req = StatusSettling" by auto
    then show ?thesis
      using assms(1,3) True p by cases (auto simp: defs split: if_splits option.splits)
  next
    case False
    show ?thesis
      by (rule CanTransitionE [OF assms(2)]) (use assms(1,3) False in \<open>auto simp: defs\<close>)
  qed
qed

text \<open>The history of a contest as a path of the transition table.\<close>

fun path :: "ContestStatus \<Rightarrow> StatusHistoryEntry list \<Rightarrow> ContestStatus \<Rightarrow> bool" where
  "path s [] t \<longleftrightarrow> s = t"
| "path s (h # hs) t \<longleftrightarrow> sh_FromStatus h = Some s \<and> CanTransition s (sh_ToStatus h) \<and> path (sh_ToStatus h) hs t"

lemma path_append: "path s (hs @ [h]) t \<longleftrightarrow>
    (\<exists>u. path s hs u \<and> sh_FromStatus h = Some u \<and> CanTransition u (sh_ToStatus h) \<and> sh_ToStatus h = t)"
  by (induction hs arbitrary: s) auto

definition contest_history :: "string \<Rightarrow> cdb \<Rightarrow> StatusHistoryEntry list" where
  "contest_history c d = filter (\<lambda>h. sh_ContestID h = c) (cd_history d)"

definition lifecycle_wf :: "string \<Rightarrow> cdb \<Rightarrow> bool" where
  "lifecycle_wf c d \<longleftrightarrow> (\<exists>r. cd_contests d c = Some r \<and> row_wf r \<and> path StatusDraft (contest_history c d) (ct_Status r))"

text \<open>
  Steps: a committed transition of any contest, or any other statement that leaves the status
  columns and the history alone (joins, snapshots, financial operations, the clock).
\<close>

definition same_lifecycle :: "cdb \<Rightarrow> cdb \<Rightarrow> bool" where
  "same_lifecycle d d' \<longleftrightarrow> cd_history d' = cd_history d
     \<and> (\<forall>c. map_option Contest.truncate (cd_contests d' c) = map_option Contest.truncate (cd_contests d c))"

inductive lifecycle_step :: "driver \<Rightarrow> cdb \<Rightarrow> cdb \<Rightarrow> bool" for drv where
  transition: "transitionTx drv ni now req d = Inr (d', r) \<Longrightarrow> lifecycle_step drv d d'"
| other: "same_lifecycle d d' \<Longrightarrow> lifecycle_step drv d d'"

inductive lifecycle_steps :: "driver \<Rightarrow> cdb \<Rightarrow> cdb \<Rightarrow> bool" for drv where
  refl: "lifecycle_steps drv d d"
| step: "lifecycle_steps drv d d1 \<Longrightarrow> lifecycle_step drv d1 d2 \<Longrightarrow> lifecycle_steps drv d d2"

inductive_cases lifecycle_stepE: "lifecycle_step drv d d'"
inductive_simps lifecycle_step_iff: "lifecycle_step drv d d'"



lemma truncate_simps [simp]: "row_wf (Contest.truncate r) = row_wf r" "ct_Status (Contest.truncate r) = ct_Status r"
  by (simp_all add: row_wf_def Contest.truncate_def)

lemma same_lifecycle_wf:
  assumes "same_lifecycle d d'" "lifecycle_wf c d"
  shows "lifecycle_wf c d'"
proof -
  from assms(2) obtain r where r: "cd_contests d c = Some r" "row_wf r" "path StatusDraft (contest_history c d) (ct_Status r)"
    by (auto simp: lifecycle_wf_def)
  from assms(1) have h: "contest_history c d' = contest_history c d"
    and "map_option Contest.truncate (cd_contests d' c) = Some (Contest.truncate r)"
    by (auto simp: same_lifecycle_def contest_history_def r(1))
  then obtain r' where r': "cd_contests d' c = Some r'" "Contest.truncate r' = Contest.truncate r" by auto
  have "row_wf r' = row_wf r" "ct_Status r' = ct_Status r"
    using arg_cong [OF r'(2), of row_wf] arg_cong [OF r'(2), of ct_Status] by simp_all
  with r r'(1) h show ?thesis by (auto simp: lifecycle_wf_def)
qed

lemma transitionTx_wf:
  assumes "transitionTx drv ni now req d = Inr (d', res)" "lifecycle_wf c d"
  shows "lifecycle_wf c d'"
proof -
  from assms(2) obtain r where r: "cd_contests d c = Some r" "row_wf r" "path StatusDraft (contest_history c d) (ct_Status r)"
    by (auto simp: lifecycle_wf_def)
  from assms(1) show ?thesis
  proof (rule transitionTx_cases)
    fix row upd meta contest' d1
    assume row: "cd_contests d (tq_ContestID req) = Some row" "CanTransition (ct_Status row) (tq_ToStatus req)"
      and u: "transitionUpdate drv now req (lockedContest drv row) d = Inr (upd, meta, contest')"
      and d1: "d1 = update_contest (tq_ContestID req) upd d" "cd_contests d' = cd_contests d1"
      and h: "cd_history d' = cd_history d @ [\<lparr>sh_ContestID = tq_ContestID req, sh_FromStatus = Some (ct_Status row),
        sh_ToStatus = tq_ToStatus req, sh_ChangedBy = tq_ActorID req, sh_Reason = Some (tq_Reason req),
        sh_Metadata = meta, sh_CreatedAt = cd_now d\<rparr>]"
    show ?thesis
    proof (cases "c = tq_ContestID req")
      case False
      with r d1 h show ?thesis by (auto simp: lifecycle_wf_def contest_history_def)
    next
      case True
      with r row have "row = r" by simp
      with transitionUpdate_wf [OF _ row(2) u] r(2) have "row_wf (upd r)" "ct_Status (upd r) = tq_ToStatus req" by simp_all
      with True r d1 h row \<open>row = r\<close> show ?thesis
        by (simp add: lifecycle_wf_def contest_history_def path_append)
    qed
  qed
qed

lemma lifecycle_step_wf: "lifecycle_step drv d d' \<Longrightarrow> lifecycle_wf c d \<Longrightarrow> lifecycle_wf c d'"
  by (erule lifecycle_stepE) (auto intro: transitionTx_wf same_lifecycle_wf)

lemma lifecycle_steps_wf: "lifecycle_steps drv d d' \<Longrightarrow> lifecycle_wf c d \<Longrightarrow> lifecycle_wf c d'"
  by (induction rule: lifecycle_steps.induct) (auto intro: lifecycle_step_wf)

section \<open>Length of a run\<close>

text \<open>Transitions left before a final status, when no further pause happens.\<close>

fun remaining :: "ContestStatus \<Rightarrow> nat" where
  "remaining StatusDraft = 6"
| "remaining StatusScheduled = 5"
| "remaining StatusRegistrationOpen = 4"
| "remaining StatusRegistrationClosed = 3"
| "remaining StatusRunning = 2"
| "remaining StatusPaused = 3"
| "remaining StatusSettling = 1"
| "remaining _ = 0"

lemma remaining_step: "CanTransition s t \<Longrightarrow> remaining t < remaining s + (if t = StatusPaused then 2 else 0)"
  by (cases s) auto

lemma path_bound:
  "path s hs t \<Longrightarrow> length hs + remaining t \<le> remaining s + 2 * length (filter (\<lambda>h. sh_ToStatus h = StatusPaused) hs)"
proof (induction hs arbitrary: s)
  case (Cons h hs)
  then have "CanTransition s (sh_ToStatus h)" "path (sh_ToStatus h) hs t" by simp_all
  with Cons.IH [of "sh_ToStatus h"] remaining_step [of s "sh_ToStatus h"] show ?case by (auto split: if_splits)
qed simp

text \<open>A contest as it is created: a draft without time stamps and without history.\<close>

definition fresh_contest :: "string \<Rightarrow> cdb \<Rightarrow> bool" where
  "fresh_contest c d \<longleftrightarrow> (\<exists>r. cd_contests d c = Some r \<and> ct_Status r = StatusDraft \<and> ct_PublishedAt r = None
     \<and> ct_StartedAt r = None \<and> ct_EndedAt r = None \<and> ct_SettledAt r = None \<and> ct_CancelledAt r = None
     \<and> ct_CancellationReason r = None \<and> ct_PausedAt r = None) \<and> contest_history c d = []"

lemma fresh_contest_wf: "fresh_contest c d \<Longrightarrow> lifecycle_wf c d"
  by (auto simp: fresh_contest_def lifecycle_wf_def row_wf_def)

end
