(* ===== verification/Contest_Scheduler.thy ===== *)
theory Contest_Scheduler
  imports Contest_Machine
begin

text \<open>
  What happens around the state machine: the refunds of a cancelled contest
  (\<open>packages/domain/statemachine/effects.go\<close>), registration checks, and the scheduler
  (\<open>apps/contest-scheduler/internal/scheduler/scheduler.go\<close>) that drives automatic transitions.
  Positions, orders, notifications and mails of the handlers live in other tables and topics;
  on the tables modelled here those calls change nothing. Clock readings, drawn identifiers,
  lock outcomes and the order in which goroutines run are arguments.
\<close>

section \<open>Refunds of a cancelled contest (effects.go)\<close>

definition containsQuorumKeyword :: "string \<Rightarrow> bool" where
  "containsQuorumKeyword reason =
     list_ex (contains_sub (to_lower reason))
       [''minimum participants'', ''quorum'', ''not enough participants'', ''min participants'']"

definition isDuplicateCreditError :: "wallet_error \<Rightarrow> bool" where
  "isDuplicateCreditError e =
     (case e of DuplicateCreditError _ _ \<Rightarrow> True | DuplicatePrizeCreditError _ _ \<Rightarrow> True | _ \<Rightarrow> False)"

record refundTally =
  rt_refunded :: nat
  rt_skipped :: nat
  rt_failed :: nat

text \<open>One transaction per user; a failed one is rolled back and counted.\<close>

fun processRefundsWithWalletService ::
    "(string \<Rightarrow> string) \<Rightarrow> Contest \<Rightarrow> ReasonCode \<Rightarrow> string list \<Rightarrow> db \<times> refundTally \<Rightarrow> db \<times> refundTally" where
  "processRefundsWithWalletService newID c reasonCode [] acc = acc"
| "processRefundsWithWalletService newID c reasonCode (u # us) (d, t) =
     processRefundsWithWalletService newID c reasonCode us
       (case RefundContestEntryFeeIdempotent (newID u) u (ct_ID c) (ct_Name c) (ct_EntryFeeCents c) reasonCode d of
          Inr (d', _) \<Rightarrow> (d', t\<lparr>rt_refunded := rt_refunded t + 1\<rparr>)
        | Inl e \<Rightarrow> if isDuplicateCreditError e then (d, t\<lparr>rt_skipped := rt_skipped t + 1\<rparr>)
                   else (d, t\<lparr>rt_failed := rt_failed t + 1\<rparr>))"

definition refundReasonCode :: "Contest \<Rightarrow> ReasonCode" where
  "refundReasonCode c =
     (case ct_CancellationReason c of
        None \<Rightarrow> RC_ContestRefundQuorum
      | Some reason \<Rightarrow> if reason \<noteq> '''' \<and> \<not> containsQuorumKeyword reason then RC_ContestRefundAdmin
                       else RC_ContestRefundQuorum)"

definition processRefunds :: "(string \<Rightarrow> string) \<Rightarrow> Contest \<Rightarrow> cdb \<Rightarrow> cdb \<times> bool" where
  "processRefunds newID c d =
     (let users = map pt_UserID (filter (\<lambda>p. pt_ContestID p = ct_ID c) (cd_participants d)) in
      if users = [] then (d, True)
      else let (funds, t) = processRefundsWithWalletService newID c (refundReasonCode c) users
                 (cd_funds d, \<lparr>rt_refunded = 0, rt_skipped = 0, rt_failed = 0\<rparr>)
           in (d\<lparr>cd_funds := funds\<rparr>, rt_failed t = 0))"

definition OnCancelled :: "(string \<Rightarrow> string) \<Rightarrow> TransitionResult \<Rightarrow> cdb \<Rightarrow> cdb" where
  "OnCancelled newID r d =
     (if ct_EntryFeeCents (tr_Contest r) > 0 then fst (processRefunds newID (tr_Contest r) d) else d)"

definition CheckRegistrationCapacity :: "string \<Rightarrow> cdb \<Rightarrow> bool contest_result" where
  "CheckRegistrationCapacity contestID d =
     (if cd_contests d contestID = None then Inl ErrContestNotFound else Inr False)"

definition ValidateRegistration :: "string \<Rightarrow> string \<Rightarrow> cdb \<Rightarrow> unit contest_result" where
  "ValidateRegistration contestID userID d =
     (case cd_contests d contestID of
        None \<Rightarrow> Inl ErrContestNotFound
      | Some c \<Rightarrow>
          if \<not> AllowsRegistration (ct_Status c) then Inl ErrRegistrationClosed
          else if \<exists>p \<in> set (cd_participants d). pt_ContestID p = contestID \<and> pt_UserID p = userID
            then Inl (ContestErrMsg ''user already registered for this contest'')
          else Inr ())"

section \<open>The scheduler (scheduler.go)\<close>

type_synonym handlers = "ContestStatus \<Rightarrow> (TransitionResult \<Rightarrow> cdb \<Rightarrow> cdb) option"

definition autoStartMin :: "AutoTransitionCandidate \<Rightarrow> int" where
  "autoStartMin c =
     (let m = (if ac_IsFree c then 1 else ac_MinParticipants c);
          m = (if m < 1 then 1 else m)
      in if \<not> ac_IsFree c \<and> m < 2 then 2 else m)"

definition cancelReason :: "int \<Rightarrow> int \<Rightarrow> string" where
  "cancelReason n m =
     ''Auto-cancelled: minimum participants not met ('' @ show_int n @ ''/'' @ show_int m @ '')''"

text \<open>
  One attempt without its chained follow-up: auto-cancel below quorum, otherwise the suggested
  transition and then the registered side effect. The result is the transition, if any.
\<close>

definition executeStep ::
    "smConfig \<Rightarrow> handlers \<Rightarrow> driver \<Rightarrow> (nat \<Rightarrow> string) \<Rightarrow> int \<Rightarrow> AutoTransitionCandidate \<Rightarrow> cdb \<Rightarrow>
       cdb \<times> TransitionResult option contest_result" where
  "executeStep cfg effects drv newID now cand d =
     (if ac_SuggestedStatus cand = StatusRunning \<and> ac_CurrentParticipants cand < autoStartMin cand
        then (case Cancel cfg drv newID now (ac_ContestID cand) None
                    (cancelReason (ac_CurrentParticipants cand) (autoStartMin cand)) d of
                Inl e \<Rightarrow> (d, Inl e)
              | Inr (d', _, _) \<Rightarrow> (d', Inr None))
      else (case Transition cfg drv newID now
                   (request (ac_ContestID cand) (ac_SuggestedStatus cand) None (ac_Reason cand)) d of
              Inl e \<Rightarrow> (d, Inl e)
            | Inr (d', r, _) \<Rightarrow>
                ((case effects (tr_ToStatus r) of None \<Rightarrow> d' | Some h \<Rightarrow> h r d'), Inr (Some r))))"

definition followUp :: "AutoTransitionCandidate \<Rightarrow> AutoTransitionCandidate" where
  "followUp cand = cand\<lparr>ac_CurrentStatus := StatusRegistrationClosed, ac_SuggestedStatus := StatusRunning,
     ac_Reason := ''Auto-start triggered by schedule (chained from registration close)''\<rparr>"

text \<open>
  The attempt with its follow-up. The recursive call of the code has a running target, whose
  result never chains again, so the recursion is unrolled. An error leaves the tables as the
  committed part left them.
\<close>

definition executeTransition ::
    "smConfig \<Rightarrow> handlers \<Rightarrow> driver \<Rightarrow> (nat \<Rightarrow> nat \<Rightarrow> string) \<Rightarrow> (nat \<Rightarrow> int) \<Rightarrow> AutoTransitionCandidate \<Rightarrow> cdb \<Rightarrow>
       cdb \<times> unit contest_result" where
  "executeTransition cfg effects drv newID clock cand d =
     (case executeStep cfg effects drv (newID 0) (clock 0) cand d of
        (d', Inl e) \<Rightarrow> (d', Inl e)
      | (d', Inr None) \<Rightarrow> (d', Inr ())
      | (d', Inr (Some r)) \<Rightarrow>
          if tr_ToStatus r = StatusRegistrationClosed
             \<and> (case ac_StartsAt cand of None \<Rightarrow> False | Some t \<Rightarrow> \<not> t > clock 1)
            then (case executeStep cfg effects drv (newID 1) (clock 2) (followUp cand) d' of
                    (d'', Inl e) \<Rightarrow> (d'', Inl e)
                  | (d'', Inr _) \<Rightarrow> (d'', Inr ()))
          else (d', Inr ()))"

text \<open>The retry loop: \<open>extended k\<close> tells whether the lock was extended before attempt \<open>k\<close>.\<close>

fun retryLoop ::
    "(nat \<Rightarrow> cdb \<Rightarrow> cdb \<times> unit contest_result) \<Rightarrow> (nat \<Rightarrow> bool) \<Rightarrow> nat \<Rightarrow> nat \<Rightarrow> cdb \<Rightarrow> cdb \<times> unit contest_result" where
  "retryLoop attempt extended k 0 d = (d, Inl (ContestErrMsg ''transition failed after retries''))"
| "retryLoop attempt extended k (Suc n) d =
     (if k > 0 \<and> \<not> extended k then (d, Inl (ContestErrMsg ''failed to extend lock''))
      else case attempt k d of
             (d', Inr ()) \<Rightarrow> (d', Inr ())
           | (d', Inl _) \<Rightarrow> retryLoop attempt extended (Suc k) n d')"

definition processCandidate ::
    "nat \<Rightarrow> (nat \<Rightarrow> cdb \<Rightarrow> cdb \<times> unit contest_result) \<Rightarrow> bool \<Rightarrow> (nat \<Rightarrow> bool) \<Rightarrow> cdb \<Rightarrow> cdb \<times> unit contest_result" where
  "processCandidate maxRetries attempt acquired extended d =
     (if \<not> acquired then (d, Inr ()) else retryLoop attempt extended 0 (maxRetries + 1) d)"

text \<open>The due cutoffs, one transaction per contest, in the order of their identifiers.\<close>

definition cutoffDue :: "cdb \<Rightarrow> string \<Rightarrow> bool" where
  "cutoffDue d i =
     (case cd_contests d i of
        None \<Rightarrow> False
      | Some c \<Rightarrow> ct_LifecyclePolicyVersion c = ContestSnapshotPolicyV1
          \<and> (ct_Status c = StatusRunning \<or> ct_Status c = StatusPaused)
          \<and> \<not> (\<exists>s \<in> set (cd_snapshots d). sn_ContestID s = i \<and> sn_Type s = SnapshotEconomicsCutoff))"

fun cutoffLoop :: "driver \<Rightarrow> (string \<Rightarrow> string) \<Rightarrow> string list \<Rightarrow> cdb \<Rightarrow> cdb \<times> unit snapshot_result" where
  "cutoffLoop drv newID [] d = (d, Inr ())"
| "cutoffLoop drv newID (i # is) d =
     (case EnsureEconomicsCutoff drv (newID i) i d of
        Inr (d', _) \<Rightarrow> cutoffLoop drv newID is d'
      | Inl ErrSnapshotNotReady \<Rightarrow> cutoffLoop drv newID is d
      | Inl e \<Rightarrow> (d, Inl e))"

definition ensureDueEconomicsCutoffs :: "driver \<Rightarrow> (string \<Rightarrow> string) \<Rightarrow> string list \<Rightarrow> cdb \<Rightarrow> cdb \<times> unit snapshot_result" where
  "ensureDueEconomicsCutoffs drv newID ids d = cutoffLoop drv newID (sort (filter (cutoffDue d) ids)) d"

section \<open>The package's own loop (effects.go)\<close>

text \<open>\<open>SchedulerLoop.processCandidate\<close> compares with the plain minimum of the candidate.\<close>

definition loopProcessCandidate ::
    "smConfig \<Rightarrow> driver \<Rightarrow> (nat \<Rightarrow> string) \<Rightarrow> int \<Rightarrow> AutoTransitionCandidate \<Rightarrow> cdb \<Rightarrow> cdb" where
  "loopProcessCandidate cfg drv newID now cand d =
     (if ac_SuggestedStatus cand = StatusRunning \<and> ac_CurrentParticipants cand < ac_MinParticipants cand
        then (case Cancel cfg drv newID now (ac_ContestID cand) None
                    (cancelReason (ac_CurrentParticipants cand) (ac_MinParticipants cand)) d of
                Inl _ \<Rightarrow> d
              | Inr (d', _, _) \<Rightarrow> d')
      else (case Transition cfg drv newID now
                   (request (ac_ContestID cand) (ac_SuggestedStatus cand) None (ac_Reason cand)) d of
              Inl _ \<Rightarrow> d
            | Inr (d', _, _) \<Rightarrow> d'))"

end
