(* ===== verification/Custody_Invariant.thy ===== *)
theory Custody_Invariant
  imports Custody "HOL-Library.Sublist"
begin

text \<open>
  The invariant of the financial tables. The treasury, the fee wallet and the prize pools are
  interpretations of \<open>account_ledger\<close>; each custody operation is a \<open>custody_move\<close>, a batch of
  ledger rows that sums to zero apart from external deposits; \<open>funds_step\<close> is one committed
  operation, and every state reachable by \<open>funds_steps\<close> keeps \<open>funds_inv\<close> and only appends rows.
\<close>

section \<open>Effects of the statements\<close>

lemma update_treasury_balanceD:
  "update_treasury_balance b d = Inr d' \<Longrightarrow> db_treasury d = Some t \<Longrightarrow>
     0 \<le> b \<and> d' = d\<lparr>db_treasury := Some (t\<lparr>ta_BalanceCents := b\<rparr>)\<rparr>"
  by (auto simp: update_treasury_balance_def split: if_splits)

lemma update_fee_balanceD:
  "update_fee_balance b d = Inr d' \<Longrightarrow> db_fee_account d = Some b0 \<Longrightarrow>
     0 \<le> b \<and> d' = d\<lparr>db_fee_account := Some b\<rparr>"
  by (auto simp: update_fee_balance_def split: if_splits)

lemma update_pool_balanceD:
  "update_pool_balance c b d = Inr d' \<Longrightarrow> db_pools d c = Some a \<Longrightarrow>
     0 \<le> b \<and> d' = d\<lparr>db_pools := (db_pools d)(c \<mapsto> a\<lparr>pa_BalanceCents := b, pa_UpdatedAt := db_now d\<rparr>)\<rparr>"
  by (auto simp: update_pool_balance_def split: if_splits)

lemma insert_treasuryD:
  "insert_treasury e d = Inr d' \<Longrightarrow>
     d' = d\<lparr>db_treasury_ledger := db_treasury_ledger d @ [e]\<rparr> \<and> treasury_shape e \<and> 0 \<le> te_BalanceAfterCents e
     \<and> (\<forall>x \<in> set (db_treasury_ledger d). \<not> treasury_conflict e x)"
  by (auto simp: insert_treasury_def split: if_splits)

lemma insert_feeD:
  "insert_fee e d = Inr d' \<Longrightarrow> d' = d\<lparr>db_fee_ledger := db_fee_ledger d @ [e]\<rparr> \<and> fee_shape e
     \<and> (\<forall>x \<in> set (db_fee_ledger d). \<not> fee_conflict e x)"
  by (auto simp: insert_fee_def split: if_splits)

lemma insert_poolD:
  "insert_pool e d = Inr d' \<Longrightarrow> d' = d\<lparr>db_pool_ledger := db_pool_ledger d @ [e]\<rparr> \<and> pool_shape e
     \<and> (\<exists>a. db_pools d (pe_ContestID e) = Some a \<and> pa_ID a = pe_PoolAccountID e)"
  by (auto simp: insert_pool_def split: if_splits option.splits)

lemma LockTreasury_Inr:
  "LockTreasuryForFinancialOperation d = Inr b \<longleftrightarrow>
     (\<exists>t. db_treasury d = Some t \<and> ta_ReconciliationStatus t = TreasuryReconciliationForwardOnly \<and> b = ta_BalanceCents t)"
  by (auto simp: LockTreasuryForFinancialOperation_def split: option.splits)

section \<open>The custody accounts\<close>

definition treasury_balance :: "db \<Rightarrow> unit \<Rightarrow> int option" where
  "treasury_balance d _ = map_option ta_BalanceCents (db_treasury d)"

definition treasury_movements :: "db \<Rightarrow> unit \<Rightarrow> int list" where
  "treasury_movements d _ = map te_AmountCents (db_treasury_ledger d)"

definition treasury_posts :: "db \<Rightarrow> unit \<Rightarrow> int list \<Rightarrow> db \<Rightarrow> bool" where
  "treasury_posts d _ as d' \<longleftrightarrow> (\<exists>t es. db_treasury d = Some t \<and> as = map te_AmountCents es
     \<and> 0 \<le> ta_BalanceCents t + sum_list as
     \<and> db_treasury d' = Some (t\<lparr>ta_BalanceCents := ta_BalanceCents t + sum_list as\<rparr>)
     \<and> db_treasury_ledger d' = db_treasury_ledger d @ es)"

interpretation treasury: account_ledger treasury_balance treasury_movements treasury_posts
  by unfold_locales (auto simp: treasury_balance_def treasury_movements_def treasury_posts_def)

definition fee_balance :: "db \<Rightarrow> unit \<Rightarrow> int option" where
  "fee_balance d _ = db_fee_account d"

definition fee_movements :: "db \<Rightarrow> unit \<Rightarrow> int list" where
  "fee_movements d _ = map fe_AmountCents (db_fee_ledger d)"

definition fee_posts :: "db \<Rightarrow> unit \<Rightarrow> int list \<Rightarrow> db \<Rightarrow> bool" where
  "fee_posts d _ as d' \<longleftrightarrow> (\<exists>b es. db_fee_account d = Some b \<and> as = map fe_AmountCents es
     \<and> 0 \<le> b + sum_list as \<and> db_fee_account d' = Some (b + sum_list as)
     \<and> db_fee_ledger d' = db_fee_ledger d @ es)"

interpretation fees: account_ledger fee_balance fee_movements fee_posts
  by unfold_locales (auto simp: fee_balance_def fee_movements_def fee_posts_def)

definition pool_balance :: "db \<Rightarrow> string \<Rightarrow> int option" where
  "pool_balance d c = map_option pa_BalanceCents (db_pools d c)"

definition pool_movements :: "db \<Rightarrow> string \<Rightarrow> int list" where
  "pool_movements d c = map pe_AmountCents (filter (\<lambda>e. pe_ContestID e = c) (db_pool_ledger d))"

definition pool_posts :: "db \<Rightarrow> string \<Rightarrow> int list \<Rightarrow> db \<Rightarrow> bool" where
  "pool_posts d c as d' \<longleftrightarrow> (\<exists>a es t. db_pools d c = Some a \<and> as = map pe_AmountCents es
     \<and> (\<forall>e \<in> set es. pe_ContestID e = c \<and> pe_PoolAccountID e = pa_ID a) \<and> 0 \<le> pa_BalanceCents a + sum_list as
     \<and> db_pools d' = (db_pools d)(c \<mapsto> a\<lparr>pa_BalanceCents := pa_BalanceCents a + sum_list as, pa_UpdatedAt := t\<rparr>)
     \<and> db_pool_ledger d' = db_pool_ledger d @ es)"

interpretation pools: account_ledger pool_balance pool_movements pool_posts
proof unfold_locales
  fix d d' :: db and c j :: string and as :: "int list"
  assume "pool_posts d c as d'"
  then obtain a es t where e: "db_pools d c = Some a" "as = map pe_AmountCents es"
    "\<forall>e \<in> set es. pe_ContestID e = c" "0 \<le> pa_BalanceCents a + sum_list as"
    "db_pools d' = (db_pools d)(c \<mapsto> a\<lparr>pa_BalanceCents := pa_BalanceCents a + sum_list as, pa_UpdatedAt := t\<rparr>)"
    "db_pool_ledger d' = db_pool_ledger d @ es"
    unfolding pool_posts_def by blast
  then show "\<exists>b. pool_balance d c = Some b \<and> pool_balance d' c = Some (b + sum_list as) \<and> 0 \<le> b + sum_list as"
    by (simp add: pool_balance_def)
  from e(3) have "filter (\<lambda>e. pe_ContestID e = c) es = es" by (simp add: filter_id_conv)
  with e show "pool_movements d' c = pool_movements d c @ as" by (simp add: pool_movements_def)
  assume "j \<noteq> c"
  with e(3) have "filter (\<lambda>e. pe_ContestID e = j) es = []" by (auto simp: filter_empty_conv)
  with e \<open>j \<noteq> c\<close> show "pool_balance d' j = pool_balance d j \<and> pool_movements d' j = pool_movements d j"
    by (simp add: pool_balance_def pool_movements_def)
qed

section \<open>The custody invariant\<close>

definition deposits :: "db \<Rightarrow> int" where
  "deposits d = sum_list (map te_AmountCents (filter (\<lambda>t. te_Kind t = ExternalDeposit) (db_treasury_ledger d)))"

definition custody_ledgers_sum :: "db \<Rightarrow> int" where
  "custody_ledgers_sum d = sum_list (map te_AmountCents (db_treasury_ledger d))
     + sum_list (map fe_AmountCents (db_fee_ledger d)) + sum_list (map pe_AmountCents (db_pool_ledger d))"

definition custody_bounds :: "db \<Rightarrow> bool" where
  "custody_bounds d \<longleftrightarrow> (\<forall>t. db_treasury d = Some t \<longrightarrow> ta_BalanceCents t \<le> max_i64)
     \<and> (\<forall>b. db_fee_account d = Some b \<longrightarrow> b \<le> max_i64)
     \<and> (\<forall>c a. db_pools d c = Some a \<longrightarrow> pa_BalanceCents a \<le> max_i64)"

definition pools_ok :: "db \<Rightarrow> bool" where
  "pools_ok d \<longleftrightarrow> finite (dom (db_pools d))
     \<and> (\<forall>e \<in> set (db_pool_ledger d). \<exists>a. db_pools d (pe_ContestID e) = Some a \<and> pa_ID a = pe_PoolAccountID e)"

definition custody_inv :: "db \<Rightarrow> bool" where
  "custody_inv d \<longleftrightarrow> treasury.balanced d \<and> fees.balanced d \<and> pools.balanced d
     \<and> custody_ledgers_sum d = deposits d \<and> custody_bounds d \<and> pools_ok d"

lemma same_custody_inv:
  assumes "same_custody d d'" "custody_inv d"
  shows "custody_inv d'"
proof -
  have "treasury_balance d' = treasury_balance d" "treasury_movements d' = treasury_movements d"
    "fee_balance d' = fee_balance d" "fee_movements d' = fee_movements d"
    "pool_balance d' = pool_balance d" "pool_movements d' = pool_movements d"
    using assms(1) by (simp_all add: same_custody_def fun_eq_iff treasury_balance_def treasury_movements_def
        fee_balance_def fee_movements_def pool_balance_def pool_movements_def)
  with assms show ?thesis
    unfolding custody_inv_def
    by (auto simp: same_custody_def deposits_def custody_ledgers_sum_def custody_bounds_def pools_ok_def
        intro: treasury.frame_balanced fees.frame_balanced pools.frame_balanced)
qed

text \<open>
  A movement of custody: rows \<open>ts\<close>, \<open>fs\<close> and \<open>ps\<close> are appended to the treasury, fee and pool
  ledgers, each account moves by the sum of its rows and stays in range, and apart from
  external deposits the rows sum to zero.
\<close>

definition custody_move :: "TreasuryEntry list \<Rightarrow> ContestFeeEntry list \<Rightarrow> string \<Rightarrow> ContestPrizePoolEntry list \<Rightarrow> db \<Rightarrow> db \<Rightarrow> bool" where
  "custody_move ts fs c ps d d' \<longleftrightarrow>
     treasury_posts d () (map te_AmountCents ts) d' \<and> db_treasury_ledger d' = db_treasury_ledger d @ ts
     \<and> (fs = [] \<and> db_fee_account d' = db_fee_account d \<or> fee_posts d () (map fe_AmountCents fs) d')
     \<and> db_fee_ledger d' = db_fee_ledger d @ fs
     \<and> (ps = [] \<and> db_pools d' = db_pools d \<or> pool_posts d c (map pe_AmountCents ps) d')
     \<and> db_pool_ledger d' = db_pool_ledger d @ ps
     \<and> custody_bounds d' \<and> pools_ok d'
     \<and> sum_list (map te_AmountCents ts) + sum_list (map fe_AmountCents fs) + sum_list (map pe_AmountCents ps)
       = sum_list (map te_AmountCents (filter (\<lambda>t. te_Kind t = ExternalDeposit) ts))"

lemma custody_move_inv:
  assumes "custody_inv d" "custody_move ts fs c ps d d'"
  shows "custody_inv d'"
proof -
  have "treasury.balanced d'"
    using assms treasury.posts_balanced by (auto simp: custody_inv_def custody_move_def)
  moreover have "fees.balanced d'"
  proof (cases "fs = [] \<and> db_fee_account d' = db_fee_account d")
    case True
    then have "fee_balance d' = fee_balance d" "fee_movements d' = fee_movements d"
      using assms(2) by (auto simp: custody_move_def fee_balance_def fee_movements_def)
    then show ?thesis using assms(1) fees.frame_balanced by (auto simp: custody_inv_def)
  next
    case False
    then show ?thesis using assms fees.posts_balanced by (auto simp: custody_inv_def custody_move_def)
  qed
  moreover have "pools.balanced d'"
  proof (cases "ps = [] \<and> db_pools d' = db_pools d")
    case True
    then have "pool_balance d' = pool_balance d" "pool_movements d' = pool_movements d"
      using assms(2) by (auto simp: custody_move_def pool_balance_def pool_movements_def)
    then show ?thesis using assms(1) pools.frame_balanced by (auto simp: custody_inv_def)
  next
    case False
    then show ?thesis using assms pools.posts_balanced by (auto simp: custody_inv_def custody_move_def)
  qed
  moreover have "custody_ledgers_sum d' = deposits d'"
    using assms by (auto simp: custody_inv_def custody_move_def custody_ledgers_sum_def deposits_def)
  ultimately show ?thesis using assms(2) by (simp add: custody_inv_def custody_move_def)
qed

lemma custody_boundsD:
  assumes "custody_inv d"
  shows "db_treasury d = Some t \<Longrightarrow> 0 \<le> ta_BalanceCents t \<and> ta_BalanceCents t \<le> max_i64"
    and "db_fee_account d = Some b \<Longrightarrow> 0 \<le> b \<and> b \<le> max_i64"
    and "db_pools d c = Some a \<Longrightarrow> 0 \<le> pa_BalanceCents a \<and> pa_BalanceCents a \<le> max_i64"
proof -
  have bal: "treasury.balanced d" "fees.balanced d" "pools.balanced d" and bnd: "custody_bounds d"
    using assms by (simp_all add: custody_inv_def)
  show "db_treasury d = Some t \<Longrightarrow> 0 \<le> ta_BalanceCents t \<and> ta_BalanceCents t \<le> max_i64"
    using treasury.balancedD [OF bal(1), of "()" "ta_BalanceCents t"] bnd
    unfolding custody_bounds_def treasury_balance_def by simp
  show "db_fee_account d = Some b \<Longrightarrow> 0 \<le> b \<and> b \<le> max_i64"
    using fees.balancedD [OF bal(2), of "()" b] bnd unfolding custody_bounds_def fee_balance_def by simp
  assume a: "db_pools d c = Some a"
  have "0 \<le> pa_BalanceCents a"
    using pools.balancedD [OF bal(3), of c "pa_BalanceCents a"] a unfolding pool_balance_def by simp
  moreover have "pa_BalanceCents a \<le> max_i64" using a bnd unfolding custody_bounds_def by blast
  ultimately show "0 \<le> pa_BalanceCents a \<and> pa_BalanceCents a \<le> max_i64" ..
qed
text \<open>The overflow guard \<open>newBalance < balance\<close> is exact on balances and positive amounts.\<close>

lemma overflow_guard:
  assumes "0 \<le> b" "b \<le> max_i64" "0 < a" "is_i64 a"
  shows "wrap64 (b + a) < b \<longleftrightarrow> b + a > max_i64" "\<not> wrap64 (b + a) < b \<Longrightarrow> wrap64 (b + a) = b + a"
proof -
  show g: "wrap64 (b + a) < b \<longleftrightarrow> b + a > max_i64"
  proof
    assume "wrap64 (b + a) < b"
    then have "\<not> is_i64 (b + a)" using assms by (auto simp: wrap64_eq_iff [symmetric])
    with assms show "b + a > max_i64" by (simp add: is_i64_def)
  next
    assume "b + a > max_i64"
    with balance_no_wrap(2) [OF assms(1,2,4)] have "wrap64 (b + a) < 0" by force
    with assms show "wrap64 (b + a) < b" by simp
  qed
  assume "\<not> wrap64 (b + a) < b"
  with g assms show "wrap64 (b + a) = b + a" by (simp add: is_i64_def)
qed

lemma wallet_inv_frame: "wallet_inv d \<Longrightarrow> db_wallets d' = db_wallets d \<Longrightarrow> db_ledger d' = db_ledger d \<Longrightarrow> wallet_inv d'"
  unfolding wallet_inv_def by metis

section \<open>Deposits, fees and contributions move custody\<close>

lemma PostConfirmedDeposit_new:
  assumes inv: "wallet_inv d" "custody_inv d" and "is_i64 a"
    and "PostConfirmedDeposit ti ei u a p d = Inr (d', False)"
  shows "\<exists>te d1 e. te_PaymentIntentID te = Some p \<and> te_BeneficiaryID te = Some u \<and> te_AmountCents te = a
    \<and> te_Kind te = ExternalDeposit \<and> 0 < a
    \<and> custody_move [te] [] '''' [] d d1 \<and> db_wallets d1 = db_wallets d \<and> db_ledger d1 = db_ledger d
    \<and> entry_posted e d1 d' \<and> le_UserID e = u \<and> le_AmountCents e = a \<and> le_Type e = Deposit
    \<and> le_IdempotencyKey e = Some (depositKey p) \<and> le_RefType e = Some PaymentIntentRef \<and> le_RefID e = Some p"
proof -
  obtain t where t: "db_treasury d = Some t" "0 < a" "\<not> wrap64 (ta_BalanceCents t + a) < ta_BalanceCents t"
    and none: "List.find (\<lambda>e. te_PaymentIntentID e = Some p) (db_treasury_ledger d) = None"
    using assms(4)
    by (auto simp: PostConfirmedDeposit_def res_simps LockTreasury_Inr Let_def split: if_splits option.splits)
  note tb = custody_boundsD(1) [OF inv(2) t(1)]
  have nb: "wrap64 (ta_BalanceCents t + a) = ta_BalanceCents t + a" "ta_BalanceCents t + a \<le> max_i64"
    using overflow_guard [of "ta_BalanceCents t" a] tb t(2,3) assms(3) by auto
  let ?te = "depositTreasuryEntry ti u a (ta_BalanceCents t + a) p"
  let ?d1 = "d\<lparr>db_treasury := Some (t\<lparr>ta_BalanceCents := ta_BalanceCents t + a\<rparr>),
               db_treasury_ledger := db_treasury_ledger d @ [?te]\<rparr>"
  have "rbind (update_treasury_balance (ta_BalanceCents t + a) d) (\<lambda>d. rbind (insert_treasury ?te d) (postEntitlement ei u a p)) = Inr (d', False)"
    using assms(4) t none
    by (auto simp: PostConfirmedDeposit_def rbind_eq_Inr LockTreasury_Inr Let_def nb split: if_splits)
  then have "postEntitlement ei u a p ?d1 = Inr (d', False)"
    using t(1) by (auto simp: rbind_eq_Inr dest!: update_treasury_balanceD insert_treasuryD)
  then obtain x where ok: "CreditIdempotent ei u a Deposit (Some PaymentIntentRef) (Some p) None (depositKey p) ?d1 = Inr (d', x)"
    by (auto simp: postEntitlement_def split: sum.splits wallet_error.splits)
  have inv1: "wallet_inv ?d1" using inv(1) by (rule wallet_inv_frame) simp_all
  from CreditIdempotentWithReason_row [OF inv1 assms(3) ok [unfolded CreditIdempotent_def]]
  obtain e where "entry_posted e ?d1 d'" "le_UserID e = u" "le_AmountCents e = a" "le_Type e = Deposit"
    "le_IdempotencyKey e = Some (depositKey p)" "le_RefType e = Some PaymentIntentRef" "le_RefID e = Some p" by blast
  moreover have "custody_move [?te] [] '''' [] d ?d1"
    using t(1) nb tb inv(2) t(2)
    by (auto simp: custody_move_def treasury_posts_def depositTreasuryEntry_def custody_inv_def
        custody_bounds_def pools_ok_def)
  ultimately show ?thesis using t(2)
    by (intro exI [of _ ?te] exI [of _ ?d1] exI [of _ e]) (simp add: depositTreasuryEntry_def)
qed

lemma PostContestFee_new:
  assumes inv: "custody_inv d" and "is_i64 a"
    and "PostContestFee up ti fi c u k a bps d = Inr (d', False)"
  shows "\<exists>t f. custody_move [t] [f] '''' [] d d' \<and> te_AmountCents t = - a \<and> fe_AmountCents f = a \<and> 0 < a
    \<and> te_Kind t = ContestFeeAllocation \<and> te_AdmissionID t = Some (admissionID c u) \<and> te_FeeKind t = Some k
    \<and> te_ContestID t = Some c \<and> te_ParticipantID t = Some u
    \<and> fe_AdmissionID f = admissionID c u \<and> fe_Kind f = k \<and> fe_ContestID f = c \<and> fe_ParticipantUserID f = u
    \<and> fe_PlatformFeeBps f = bps \<and> fe_PolicyVersion f = ContestFundsPolicyVersion
    \<and> feeRow (admissionID c u) k d = None \<and> feeTreasuryRow (admissionID c u) k d = None
    \<and> db_wallets d' = db_wallets d \<and> db_ledger d' = db_ledger d \<and> db_contests d' = db_contests d"
proof -
  obtain t b where t: "db_treasury d = Some t" "db_fee_account d = Some b" "0 < a" "a \<le> ta_BalanceCents t"
      "\<not> wrap64 (b + a) < b" "feeRow (admissionID c u) k d = None" "feeTreasuryRow (admissionID c u) k d = None"
    and ok: "rbind (update_treasury_balance (ta_BalanceCents t - a) d) (\<lambda>d.
       rbind (update_fee_balance (wrap64 (b + a)) d) (\<lambda>d.
         rbind (insert_treasury (feeTreasuryEntry ti c u k a (ta_BalanceCents t - a)) d) (\<lambda>d.
           rbind (insert_fee (feeEntry fi c u k a (wrap64 (b + a)) bps (db_now d)) d) (\<lambda>d. Inr (d, False))))) = Inr (d', False)"
    using assms(3)
    by (auto simp: PostContestFee_def rbind_eq_Inr LockTreasury_Inr Let_def split: if_splits option.splits)
  note tb = custody_boundsD(1) [OF inv t(1)] and fb = custody_boundsD(2) [OF inv t(2)]
  have nb: "wrap64 (b + a) = b + a" "b + a \<le> max_i64"
    using overflow_guard [of b a] fb t(3,5) assms(2) by auto
  let ?te = "feeTreasuryEntry ti c u k a (ta_BalanceCents t - a)"
  let ?fe = "feeEntry fi c u k a (b + a) bps (db_now d)"
  have d': "d' = d\<lparr>db_treasury := Some (t\<lparr>ta_BalanceCents := ta_BalanceCents t - a\<rparr>),
      db_fee_account := Some (b + a), db_treasury_ledger := db_treasury_ledger d @ [?te],
      db_fee_ledger := db_fee_ledger d @ [?fe]\<rparr>"
    using ok t(1,2) nb
    by (auto simp: rbind_eq_Inr dest!: update_treasury_balanceD update_fee_balanceD insert_treasuryD insert_feeD)
  have "custody_move [?te] [?fe] '''' [] d d'"
    using t nb tb fb inv
    by (auto simp: d' custody_move_def treasury_posts_def fee_posts_def feeTreasuryEntry_def feeEntry_def
        custody_inv_def custody_bounds_def pools_ok_def)
  with t d' show ?thesis
    by (intro exI [of _ ?te] exI [of _ ?fe]) (simp add: feeTreasuryEntry_def feeEntry_def)
qed

lemma PostContestPrizeContribution_new:
  assumes inv: "custody_inv d" and "is_i64 a"
    and "PostContestPrizeContribution up ti ei c u a d = Inr (d', False)"
  shows "\<exists>t p. custody_move [t] [] c [p] d d' \<and> te_AmountCents t = - a \<and> pe_AmountCents p = a \<and> 0 < a
    \<and> te_Kind t = ContestPoolAllocation \<and> te_AdmissionID t = Some (admissionID c u)
    \<and> te_ContestID t = Some c \<and> te_ParticipantID t = Some u
    \<and> pe_ContestID p = c \<and> pe_ParticipantUserID p = u \<and> pe_Direction p = ''credit''
    \<and> pe_IdempotencyKey p = poolKey (admissionID c u) \<and> pe_ReferenceID p = admissionID c u
    \<and> map_option pa_ID (db_pools d' c) = Some (pe_PoolAccountID p)
    \<and> db_wallets d' = db_wallets d \<and> db_ledger d' = db_ledger d \<and> db_contests d' = db_contests d
    \<and> db_treasury_ledger d' = db_treasury_ledger d @ [t] \<and> db_pool_ledger d' = db_pool_ledger d @ [p]"
proof -
  obtain t pa where t: "db_treasury d = Some t" "db_pools d c = Some pa" "0 < a" "a \<le> ta_BalanceCents t"
      "a \<le> max_i64 - pa_BalanceCents pa"
    and ok: "rbind (update_treasury_balance (ta_BalanceCents t - a) d) (\<lambda>d.
        rbind (insert_treasury (poolTreasuryEntry ti c u a (ta_BalanceCents t - a)) d) (\<lambda>d.
          rbind (insert_pool (poolEntry ei c (pa_ID pa) u a (pa_BalanceCents pa + a) (db_now d)) d) (\<lambda>d.
            rbind (update_pool_balance c (pa_BalanceCents pa + a) d) (\<lambda>d. Inr (d, False))))) = Inr (d', False)"
    using assms(3)
    by (cases "db_contests d c"; cases "db_pools d c";
        cases "List.find (\<lambda>p. pe_IdempotencyKey p = poolKey (admissionID c u)) (db_pool_ledger d)";
        cases "List.find (\<lambda>t. te_Kind t = ContestPoolAllocation \<and> te_AdmissionID t = Some (admissionID c u)) (db_treasury_ledger d)")
      (auto simp: PostContestPrizeContribution_def rbind_eq_Inr LockTreasury_Inr Let_def split: if_splits)
  note tb = custody_boundsD(1) [OF inv t(1)] and pb = custody_boundsD(3) [OF inv t(2)]
  let ?te = "poolTreasuryEntry ti c u a (ta_BalanceCents t - a)"
  let ?pe = "poolEntry ei c (pa_ID pa) u a (pa_BalanceCents pa + a) (db_now d)"
  have d': "d' = d\<lparr>db_treasury := Some (t\<lparr>ta_BalanceCents := ta_BalanceCents t - a\<rparr>),
      db_treasury_ledger := db_treasury_ledger d @ [?te], db_pool_ledger := db_pool_ledger d @ [?pe],
      db_pools := (db_pools d)(c \<mapsto> pa\<lparr>pa_BalanceCents := pa_BalanceCents pa + a, pa_UpdatedAt := db_now d\<rparr>)\<rparr>"
    using ok t(1,2)
    by (auto simp: rbind_eq_Inr dest!: update_treasury_balanceD insert_treasuryD insert_poolD update_pool_balanceD)
  have "pools_ok d'" using inv t(2) by (auto simp: d' custody_inv_def pools_ok_def poolEntry_def)
  then have "custody_move [?te] [] c [?pe] d d'"
    using t tb pb inv
    by (auto simp: d' custody_move_def treasury_posts_def pool_posts_def poolTreasuryEntry_def poolEntry_def
        custody_inv_def custody_bounds_def)
  with t d' show ?thesis
    by (intro exI [of _ ?te] exI [of _ ?pe]) (simp add: poolTreasuryEntry_def poolEntry_def)
qed

section \<open>Reversals move custody back\<close>

definition fees_sum :: "(ContestFeeEntry \<times> TreasuryEntry) list \<Rightarrow> int" where
  "fees_sum fs = sum_list (map (\<lambda>(f, t). fe_AmountCents f) fs)"

lemma reverseFees_effect:
  assumes "reverseFees newID c u fs s = Inr s'"
    and "0 \<le> rs_treasury s" "rs_treasury s \<le> max_i64" "rs_fee s \<le> max_i64"
    and "0 \<le> rs_feeCents s" "rs_feeCents s \<le> rs_treasury s" "0 \<le> rs_fee s"
  shows "rs_fee s' = rs_fee s - fees_sum fs \<and> rs_treasury s' = rs_treasury s + fees_sum fs
    \<and> rs_feeCents s' = rs_feeCents s + fees_sum fs \<and> 0 \<le> rs_fee s' \<and> 0 \<le> fees_sum fs \<and> rs_treasury s' \<le> max_i64
    \<and> (\<exists>fes tes. rs_db s' = (rs_db s)\<lparr>db_fee_ledger := db_fee_ledger (rs_db s) @ fes,
                                       db_treasury_ledger := db_treasury_ledger (rs_db s) @ tes\<rparr>
         \<and> sum_list (map fe_AmountCents fes) = - fees_sum fs \<and> sum_list (map te_AmountCents tes) = fees_sum fs
         \<and> (\<forall>t \<in> set tes. te_Kind t = TreasuryReversal))"
  using assms
proof (induction fs arbitrary: s)
  case Nil
  then show ?case by (auto simp: fees_sum_def intro!: exI [of _ "[]"])
next
  case (Cons x fs)
  obtain f t where x: "x = (f, t)" by force
  let ?a = "fe_AmountCents f"
  let ?d = "rs_db s"
  let ?fe = "feeReversalEntry (newID (2 * length fs + 1)) c u f (rs_fee s - ?a) (db_now ?d)"
  let ?te = "treasuryReversalEntry (newID (2 * length fs + 2)) c u ?a (wrap64 (rs_treasury s + ?a)) (Some (fe_Kind f)) (te_ID t)"
  let ?d2 = "?d\<lparr>db_fee_ledger := db_fee_ledger ?d @ [?fe], db_treasury_ledger := db_treasury_ledger ?d @ [?te]\<rparr>"
  let ?s = "\<lparr>rs_fee = rs_fee s - ?a, rs_treasury = wrap64 (rs_treasury s + ?a),
      rs_feeCents = wrap64 (rs_feeCents s + ?a), rs_db = ?d2\<rparr>"
  obtain d1 d2 where ins: "insert_fee ?fe ?d = Inr d1" "insert_treasury ?te d1 = Inr d2"
    and a: "?a \<le> rs_fee s" and rest: "reverseFees newID c u fs (?s\<lparr>rs_db := d2\<rparr>) = Inr s'"
    using Cons.prems(1) by (auto simp: x Let_def rbind_eq_Inr split: if_splits)
  have "d2 = ?d2" using insert_feeD [OF ins(1)] insert_treasuryD [OF ins(2)] by simp
  with rest a insert_treasuryD [OF ins(2)] have ok: "?a \<le> rs_fee s"
    "reverseFees newID c u fs ?s = Inr s'" "treasury_shape ?te" "0 \<le> te_BalanceAfterCents ?te" by simp_all
  have pos: "0 < ?a" using ok(3) by (simp add: treasury_shape_def treasuryReversalEntry_def)
  have i64: "is_i64 ?a" using pos ok(1) Cons.prems(4) by (simp add: is_i64_def)
  have tw: "wrap64 (rs_treasury s + ?a) = rs_treasury s + ?a" "rs_treasury s + ?a \<le> max_i64"
    using balance_no_wrap [OF Cons.prems(2,3) i64] ok(4) by (simp_all add: treasuryReversalEntry_def)
  have cw: "wrap64 (rs_feeCents s + ?a) = rs_feeCents s + ?a"
    using Cons.prems(5,6) tw(2) pos by (simp add: is_i64_def)
  from Cons.IH [OF ok(2)] tw cw pos ok(1) Cons.prems(2-7)
  obtain fes tes where IH: "rs_fee s' = rs_fee s - ?a - fees_sum fs" "rs_treasury s' = rs_treasury s + ?a + fees_sum fs"
    "rs_feeCents s' = rs_feeCents s + ?a + fees_sum fs" "0 \<le> rs_fee s'" "0 \<le> fees_sum fs" "rs_treasury s' \<le> max_i64"
    "rs_db s' = ?d2\<lparr>db_fee_ledger := db_fee_ledger ?d2 @ fes, db_treasury_ledger := db_treasury_ledger ?d2 @ tes\<rparr>"
    "sum_list (map fe_AmountCents fes) = - fees_sum fs" "sum_list (map te_AmountCents tes) = fees_sum fs"
    "\<forall>t \<in> set tes. te_Kind t = TreasuryReversal"
    by auto
  have "fees_sum (x # fs) = ?a + fees_sum fs" by (simp add: fees_sum_def x)
  with IH pos show ?case
    by (auto simp: feeReversalEntry_def treasuryReversalEntry_def intro!: exI [of _ "?fe # fes"] exI [of _ "?te # tes"])
qed

lemma reversePool_effect:
  assumes "reversePool ti ei c u ev pid pb tb d = Inr (pb', tb', n, d')"
    and "0 \<le> tb" "tb \<le> max_i64" "0 \<le> pb" "pb \<le> max_i64"
  shows "pb' = pb - n \<and> tb' = tb + n \<and> 0 \<le> n \<and> 0 \<le> pb' \<and> tb' \<le> max_i64
    \<and> (\<exists>pes tes. d' = d\<lparr>db_pool_ledger := db_pool_ledger d @ pes, db_treasury_ledger := db_treasury_ledger d @ tes\<rparr>
         \<and> sum_list (map pe_AmountCents pes) = - n \<and> sum_list (map te_AmountCents tes) = n
         \<and> (\<forall>p \<in> set pes. pe_ContestID p = c \<and> pe_PoolAccountID p = pid)
         \<and> (\<forall>t \<in> set tes. te_Kind t = TreasuryReversal))"
proof (cases "poolOriginals c u d")
  case Nil
  with assms show ?thesis by (auto simp: reversePool_def intro!: exI [of _ "[]"])
next
  case (Cons x xs)
  obtain p t where x: "x = (p, t)" by force
  let ?a = "pe_AmountCents p"
  let ?pe = "poolReversalEntry ei c pid u ev ?a (pb - ?a) (pe_ID p) (db_now d)"
  let ?te = "treasuryReversalEntry ti c u ?a (wrap64 (tb + ?a)) None (te_ID t)"
  obtain d1 where ins: "insert_pool ?pe d = Inr d1" "insert_treasury ?te d1 = Inr d'"
    and r: "?a \<le> pb" "pb' = pb - ?a" "tb' = wrap64 (tb + ?a)" "n = ?a"
    using assms(1) Cons by (auto simp: x reversePool_def Let_def rbind_eq_Inr split: if_splits)
  have ok: "?a \<le> pb" "d' = d\<lparr>db_pool_ledger := db_pool_ledger d @ [?pe], db_treasury_ledger := db_treasury_ledger d @ [?te]\<rparr>"
    "treasury_shape ?te" "0 \<le> te_BalanceAfterCents ?te" "pb' = pb - ?a" "tb' = wrap64 (tb + ?a)" "n = ?a"
    using insert_poolD [OF ins(1)] insert_treasuryD [OF ins(2)] r by simp_all
  have pos: "0 < ?a" using ok(3) by (simp add: treasury_shape_def treasuryReversalEntry_def)
  have i64: "is_i64 ?a" using pos ok(1) assms(5) by (simp add: is_i64_def)
  have "wrap64 (tb + ?a) = tb + ?a" "tb + ?a \<le> max_i64"
    using balance_no_wrap [OF assms(2,3) i64] ok(4) by (simp_all add: treasuryReversalEntry_def)
  with ok pos show ?thesis
    by (auto simp: poolReversalEntry_def treasuryReversalEntry_def intro!: exI [of _ "[?pe]"] exI [of _ "[?te]"])
qed

lemma ReverseContestAdmission_accounts:
  assumes "originalEntry c u d = Some orig" "ReverseContestAdmission up ri ni c u ac ev re d = Inr (d', r)"
  obtains t w fb a where "db_treasury d = Some t" "db_wallets d u = Some w" "db_fee_account d = Some fb" "db_pools d c = Some a"
  using assms
  by (cases "db_wallets d u"; cases "db_fee_account d"; cases "db_pools d c")
    (auto simp: ReverseContestAdmission_def rbind_eq_Inr LockTreasury_Inr split: if_splits)

lemma ReverseContestAdmission_stages:
  assumes "originalEntry c u d = Some orig" "ReverseContestAdmission up ri ni c u ac ev re d = Inr (d', r)"
    and "db_treasury d = Some t" "db_wallets d u = Some w" "db_fee_account d = Some fb" "db_pools d c = Some a"
    and "refund = wrap64 (- le_AmountCents orig)" "nb = wrap64 (w_BalanceCents w + refund)"
  obtains d0 d1 s pb tb n d2 d3 d4 where
    "update_wallet_balance u nb d = Inr d0"
    "insert_ledger (walletReversalEntry ri c u ac ev re refund nb (le_ID orig) (db_now d0)) d0 = Inr d1"
    "reverseFees ni c u (feeOriginals (admissionID c u) d1)
       \<lparr>rs_fee = fb, rs_treasury = ta_BalanceCents t, rs_feeCents = 0, rs_db = d1\<rparr> = Inr s"
    "reversePool (ni 0) (ni 0) c u ev (pa_ID a) (pa_BalanceCents a) (rs_treasury s) (rs_db s) = Inr (pb, tb, n, d2)"
    "wrap64 (rs_feeCents s + n) = refund"
    "update_fee_balance (rs_fee s) d2 = Inr d3" "update_pool_balance c pb d3 = Inr d4"
    "update_treasury_balance tb d4 = Inr d'"
    "cr_WalletCents r = refund" "cr_FeeCents r = rs_feeCents s" "cr_PrizePoolCents r = n"
  using assms
  by (auto simp: ReverseContestAdmission_def rbind_eq_Inr LockTreasury_Inr Let_def split: if_splits)

lemma ReverseContestAdmission_effect:
  assumes inv: "wallet_inv d" "custody_inv d" and "originalEntry c u d = Some orig"
    and "ReverseContestAdmission up ri ni c u ac ev re d = Inr (d', r)"
  shows "\<exists>e d1 ts fs ps. entry_posted e d d1 \<and> le_UserID e = u \<and> le_AmountCents e = cr_WalletCents r
    \<and> le_IdempotencyKey e = Some (reversalKey c u)
    \<and> custody_move ts fs c ps d1 d' \<and> db_wallets d' = db_wallets d1 \<and> db_ledger d' = db_ledger d1
    \<and> cr_WalletCents r = wrap64 (- le_AmountCents orig) \<and> cr_WalletCents r = cr_FeeCents r + cr_PrizePoolCents r
    \<and> sum_list (map fe_AmountCents fs) = - cr_FeeCents r \<and> sum_list (map pe_AmountCents ps) = - cr_PrizePoolCents r
    \<and> sum_list (map te_AmountCents ts) = cr_WalletCents r
    \<and> fee_posts d1 () (map fe_AmountCents fs) d' \<and> pool_posts d1 c (map pe_AmountCents ps) d'
    \<and> db_fee_ledger d' = db_fee_ledger d @ fs \<and> db_contests d' = db_contests d"
proof -
  let ?refund = "wrap64 (- le_AmountCents orig)"
  obtain t w fb a where acc: "db_treasury d = Some t" "db_wallets d u = Some w" "db_fee_account d = Some fb" "db_pools d c = Some a"
    by (rule ReverseContestAdmission_accounts [OF assms(3,4)])
  let ?nb = "wrap64 (w_BalanceCents w + ?refund)"
  let ?e = "walletReversalEntry ri c u ac ev re ?refund ?nb (le_ID orig) (db_now d)"
  obtain d0 d1 s pb tb n d2 d3 d4 where
    st: "update_wallet_balance u ?nb d = Inr d0"
      "insert_ledger (walletReversalEntry ri c u ac ev re ?refund ?nb (le_ID orig) (db_now d0)) d0 = Inr d1"
      "reverseFees ni c u (feeOriginals (admissionID c u) d1)
         \<lparr>rs_fee = fb, rs_treasury = ta_BalanceCents t, rs_feeCents = 0, rs_db = d1\<rparr> = Inr s"
      "reversePool (ni 0) (ni 0) c u ev (pa_ID a) (pa_BalanceCents a) (rs_treasury s) (rs_db s) = Inr (pb, tb, n, d2)"
      "wrap64 (rs_feeCents s + n) = ?refund"
      "update_fee_balance (rs_fee s) d2 = Inr d3" "update_pool_balance c pb d3 = Inr d4"
      "update_treasury_balance tb d4 = Inr d'"
    and r: "cr_WalletCents r = ?refund" "cr_FeeCents r = rs_feeCents s" "cr_PrizePoolCents r = n"
    by (rule ReverseContestAdmission_stages [OF assms(3,4) acc refl refl])  note tbd = custody_boundsD(1) [OF inv(2) acc(1)] and fbd = custody_boundsD(2) [OF inv(2) acc(3)]
    and pbd = custody_boundsD(3) [OF inv(2) acc(4)] and wbd = wallet_invD [OF inv(1) acc(2)]
  have "entry_posted (walletReversalEntry ri c u ac ev re ?refund ?nb (le_ID orig) (db_now d0)) d d1"
    by (rule insert_ledger_posted [OF acc(2) wbd(2,3) _ refl st(1,2)]) (simp_all add: walletReversalEntry_def)
  then obtain e where e: "entry_posted e d d1" "le_UserID e = u" "le_AmountCents e = ?refund"
    "le_IdempotencyKey e = Some (reversalKey c u)"
    by (force simp: walletReversalEntry_def)
  then have same: "same_custody d d1" and cn: "db_contests d1 = db_contests d"
    by (auto simp: entry_posted_def same_custody_def)
  from reverseFees_effect [OF st(3)] tbd fbd
  obtain fes tes where f: "rs_fee s = fb - rs_feeCents s" "rs_treasury s = ta_BalanceCents t + rs_feeCents s"
    "0 \<le> rs_fee s" "0 \<le> rs_feeCents s" "rs_treasury s \<le> max_i64"
    "rs_db s = d1\<lparr>db_fee_ledger := db_fee_ledger d1 @ fes, db_treasury_ledger := db_treasury_ledger d1 @ tes\<rparr>"
    "sum_list (map fe_AmountCents fes) = - rs_feeCents s" "sum_list (map te_AmountCents tes) = rs_feeCents s"
    "\<forall>t \<in> set tes. te_Kind t = TreasuryReversal"
    by auto
  from reversePool_effect [OF st(4)] f tbd pbd
  obtain pes tes' where p: "pb = pa_BalanceCents a - n" "tb = rs_treasury s + n" "0 \<le> n" "0 \<le> pb" "tb \<le> max_i64"
    "d2 = (rs_db s)\<lparr>db_pool_ledger := db_pool_ledger (rs_db s) @ pes, db_treasury_ledger := db_treasury_ledger (rs_db s) @ tes'\<rparr>"
    "sum_list (map pe_AmountCents pes) = - n" "sum_list (map te_AmountCents tes') = n"
    "\<forall>p \<in> set pes. pe_ContestID p = c \<and> pe_PoolAccountID p = pa_ID a" "\<forall>t \<in> set tes'. te_Kind t = TreasuryReversal"
    by auto
  have acc2: "db_fee_account d2 = Some fb" "db_pools d2 c = Some a" "db_treasury d2 = Some t"
    using acc same p(6) f(6) by (simp_all add: same_custody_def)
  have d3: "d3 = d2\<lparr>db_fee_account := Some (rs_fee s)\<rparr>" using update_fee_balanceD [OF st(6) acc2(1)] by simp
  have d4: "d4 = d3\<lparr>db_pools := (db_pools d3)(c \<mapsto> a\<lparr>pa_BalanceCents := pb, pa_UpdatedAt := db_now d3\<rparr>)\<rparr>"
    using update_pool_balanceD [OF st(7)] acc2(2) d3 by simp
  have d': "d' = d4\<lparr>db_treasury := Some (t\<lparr>ta_BalanceCents := tb\<rparr>)\<rparr>"
    using update_treasury_balanceD [OF st(8)] acc2(3) d3 d4 by simp
  have sum: "?refund = rs_feeCents s + n" using st(5) f(2,4) p(2,3,5) tbd by (simp add: is_i64_def)
  have fp: "fee_posts d1 () (map fe_AmountCents fes) d'"
    using acc(3) same f(1,3,6,7) p(6) d3 d4 d' by (auto simp: fee_posts_def same_custody_def)
  have pp: "pool_posts d1 c (map pe_AmountCents pes) d'"
    using acc(4) same f(6) p(1,4,6,7,9) d3 d4 d' by (auto simp: pool_posts_def same_custody_def)
  have tp: "treasury_posts d1 () (map te_AmountCents (tes @ tes')) d'"
    using acc(1) same f(2,4,6,8) p(2,3,6,8) d3 d4 d' tbd
    by (auto simp: treasury_posts_def same_custody_def intro!: exI [of _ "tes @ tes'"])
  have "custody_bounds d'"
    using inv(2) same f p pbd fbd tbd d3 d4 d'
    by (auto simp: custody_inv_def custody_bounds_def same_custody_def)
  moreover have "pools_ok d'"
    using inv(2) same f(6) p(6,9) acc(4) d3 d4 d' by (auto simp: custody_inv_def pools_ok_def same_custody_def)
  moreover have "filter (\<lambda>t. te_Kind t = ExternalDeposit) (tes @ tes') = []"
    using f(9) p(10) by (auto simp: filter_empty_conv)
  ultimately have "custody_move (tes @ tes') fes c pes d1 d'"
    using tp fp pp f(6-8) p(6-8) d3 d4 d' by (simp add: custody_move_def)
  moreover have "db_wallets d' = db_wallets d1" "db_ledger d' = db_ledger d1" "db_contests d' = db_contests d"
    "db_fee_ledger d' = db_fee_ledger d @ fes"
    using f(6) p(6) d3 d4 d' cn same by (simp_all add: same_custody_def)
  ultimately show ?thesis
    using e r sum f(7,8) p(7,8) fp pp by (intro exI [of _ e] exI [of _ d1] exI [of _ "tes @ tes'"] exI [of _ fes] exI [of _ pes]) simp
qed

section \<open>Reachable states\<close>

lemma postEntitlement_False: "postEntitlement ei u a p d = Inr (d', b) \<Longrightarrow> \<not> b"
  by (auto simp: postEntitlement_def split: sum.splits wallet_error.splits prod.splits)

lemma PostConfirmedDeposit_replay: "PostConfirmedDeposit ti ei u a p d = Inr (d', True) \<Longrightarrow> d' = d"
  by (auto simp: PostConfirmedDeposit_def rbind_eq_Inr Let_def split: if_splits option.splits
      dest: postEntitlement_False)

lemma PostContestFee_replay: "PostContestFee up ti fi c u k a bps d = Inr (d', True) \<Longrightarrow> d' = d"
  by (cases "feeRow (admissionID c u) k d"; cases "feeTreasuryRow (admissionID c u) k d")
    (auto simp: PostContestFee_def rbind_eq_Inr Let_def split: if_splits option.splits)

lemma PostContestPrizeContribution_replay:
  "PostContestPrizeContribution up ti ei c u a d = Inr (d', True) \<Longrightarrow> d' = d"
  by (cases "db_contests d c"; cases "db_pools d c";
      cases "List.find (\<lambda>p. pe_IdempotencyKey p = poolKey (admissionID c u)) (db_pool_ledger d)";
      cases "List.find (\<lambda>t. te_Kind t = ContestPoolAllocation \<and> te_AdmissionID t = Some (admissionID c u)) (db_treasury_ledger d)")
    (auto simp: PostContestPrizeContribution_def rbind_eq_Inr Let_def split: if_splits)

text \<open>
  A committed step of the financial system: a wallet operation, a custody operation, a new
  contest with its provisioned pool, or a new lifecycle event. \<open>up\<close> is the UUID parser.
\<close>

inductive funds_step :: "(string \<Rightarrow> bool) \<Rightarrow> db \<Rightarrow> db \<Rightarrow> bool" for up where
  fs_wallet: "wallet_step d d' \<Longrightarrow> funds_step up d d'"
| fs_contest: "db_pools d c = None \<Longrightarrow> funds_step up d
    (d\<lparr>db_contests := (db_contests d)(c \<mapsto> row),
       db_pools := (db_pools d)(c \<mapsto> \<lparr>pa_ID = i, pa_BalanceCents = 0, pa_Status = ''active'',
         pa_CreatedAt = db_now d, pa_UpdatedAt = db_now d\<rparr>)\<rparr>)"
| fs_event: "funds_step up d (d\<lparr>db_events := insert ev (db_events d)\<rparr>)"
| fs_bump: "funds_step up d (bump_contest c x y d)"
| fs_deposit: "is_i64 a \<Longrightarrow> PostConfirmedDeposit ti ei u a p d = Inr (d', b) \<Longrightarrow> funds_step up d d'"
| fs_fee: "is_i64 a \<Longrightarrow> PostContestFee up ti fi c u k a bps d = Inr (d', b) \<Longrightarrow> funds_step up d d'"
| fs_pool: "is_i64 a \<Longrightarrow> PostContestPrizeContribution up ti ei c u a d = Inr (d', b) \<Longrightarrow> funds_step up d d'"
| fs_reverse: "ReverseContestAdmission up ri ni c u ac ev re d = Inr (d', r) \<Longrightarrow> funds_step up d d'"

inductive funds_steps :: "(string \<Rightarrow> bool) \<Rightarrow> db \<Rightarrow> db \<Rightarrow> bool" for up where
  fss_refl: "funds_steps up d d"
| fss_step: "funds_steps up d d' \<Longrightarrow> funds_step up d' d'' \<Longrightarrow> funds_steps up d d''"

definition funds_inv :: "db \<Rightarrow> bool" where
  "funds_inv d \<longleftrightarrow> wallet_inv d \<and> custody_inv d"

text \<open>A step appends rows to the ledgers and never edits one, and keeps the system accounts.\<close>

definition custody_status :: "db \<Rightarrow> string option \<times> bool" where
  "custody_status d = (map_option ta_ReconciliationStatus (db_treasury d), db_fee_account d = None)"

definition appends :: "db \<Rightarrow> db \<Rightarrow> bool" where
  "appends d d' \<longleftrightarrow> prefix (db_ledger d) (db_ledger d') \<and> prefix (db_treasury_ledger d) (db_treasury_ledger d')
     \<and> prefix (db_fee_ledger d) (db_fee_ledger d') \<and> prefix (db_pool_ledger d) (db_pool_ledger d')
     \<and> custody_status d' = custody_status d"

lemma appends_refl: "appends d d"
  by (simp add: appends_def)

lemma appends_trans: "appends a b \<Longrightarrow> appends b c \<Longrightarrow> appends a c"
  by (auto simp: appends_def intro: prefix_order.trans)

lemma entry_posted_appends: "entry_posted e d d' \<Longrightarrow> appends d d'"
  by (auto simp: entry_posted_def appends_def custody_status_def)

lemma treasury_postsD:
  "treasury_posts d x as d' \<Longrightarrow> \<exists>t. db_treasury d = Some t
     \<and> db_treasury d' = Some (t\<lparr>ta_BalanceCents := ta_BalanceCents t + sum_list as\<rparr>)"
  unfolding treasury_posts_def by blast

lemma fee_postsD: "fee_posts d x as d' \<Longrightarrow> \<exists>b. db_fee_account d = Some b \<and> db_fee_account d' = Some (b + sum_list as)"
  unfolding fee_posts_def by blast

lemma custody_moveD:
  assumes "custody_move ts fs c ps d d'"
  shows "\<exists>t. db_treasury d = Some t \<and> db_treasury d' = Some (t\<lparr>ta_BalanceCents := ta_BalanceCents t + sum_list (map te_AmountCents ts)\<rparr>)"
    and "db_fee_account d' = None \<longleftrightarrow> db_fee_account d = None"
    and "db_treasury_ledger d' = db_treasury_ledger d @ ts" "db_fee_ledger d' = db_fee_ledger d @ fs"
    and "db_pool_ledger d' = db_pool_ledger d @ ps"
  using assms treasury_postsD [of d "()" "map te_AmountCents ts" d'] fee_postsD [of d "()" "map fe_AmountCents fs" d']
  unfolding custody_move_def by auto

lemma custody_move_appends:
  assumes "custody_move ts fs c ps d d'" "db_ledger d' = db_ledger d"
  shows "appends d d'"
  using custody_moveD [OF assms(1)] assms(2) by (auto simp: appends_def custody_status_def)

lemma entry_posted_funds: "funds_inv d \<Longrightarrow> entry_posted e d d' \<Longrightarrow> funds_inv d'"
  by (auto simp: funds_inv_def intro: entry_posted_inv same_custody_inv entry_posted_custody)

lemma custody_move_funds:
  "funds_inv d \<Longrightarrow> custody_move ts fs c ps d d' \<Longrightarrow> db_wallets d' = db_wallets d \<Longrightarrow> db_ledger d' = db_ledger d
     \<Longrightarrow> funds_inv d'"
  by (auto simp: funds_inv_def intro: custody_move_inv wallet_inv_frame)

lemma new_contest_funds:
  assumes "funds_inv d" "db_pools d c = None"
    and "d' = d\<lparr>db_contests := (db_contests d)(c \<mapsto> row), db_pools := (db_pools d)(c \<mapsto> \<lparr>pa_ID = i,
       pa_BalanceCents = 0, pa_Status = st, pa_CreatedAt = n, pa_UpdatedAt = m\<rparr>)\<rparr>"
  shows "funds_inv d'"
proof -
  have ok: "pools_ok d" "pools.balanced d" "custody_inv d" "wallet_inv d" using assms(1) by (simp_all add: funds_inv_def custody_inv_def)
  have "filter (\<lambda>e. pe_ContestID e = c) (db_pool_ledger d) = []"
    using ok(1) assms(2) by (force simp: pools_ok_def filter_empty_conv)
  then have "pools.balanced d'"
    using ok(2) by (auto simp: pools.balanced_def pool_balance_def pool_movements_def assms(3))
  moreover have "pools_ok d'" using ok(1) assms(2) by (auto simp: pools_ok_def assms(3))
  moreover have "treasury.balanced d'" "fees.balanced d'"
    using ok(3) by (auto simp: custody_inv_def assms(3) treasury_balance_def treasury_movements_def fee_balance_def
        fee_movements_def treasury.balanced_def fees.balanced_def)
  moreover have "custody_ledgers_sum d' = deposits d'" "custody_bounds d'"
    using ok(3) by (auto simp: custody_inv_def custody_ledgers_sum_def deposits_def custody_bounds_def assms(3))
  moreover have "wallet_inv d'" using ok(4) by (rule wallet_inv_frame) (simp_all add: assms(3))
  ultimately show ?thesis by (simp add: funds_inv_def custody_inv_def)
qed

lemma frame_funds:
  "funds_inv d \<Longrightarrow> same_custody d d' \<Longrightarrow> db_wallets d' = db_wallets d \<Longrightarrow> db_ledger d' = db_ledger d \<Longrightarrow> funds_inv d' \<and> appends d d'"
  by (auto simp: funds_inv_def appends_def custody_status_def same_custody_def intro: wallet_inv_frame same_custody_inv)

lemma funds_step_inv:
  assumes "funds_step up d d'" "funds_inv d"
  shows "funds_inv d' \<and> appends d d'"
proof -
  have inv: "wallet_inv d" "custody_inv d" using assms(2) by (simp_all add: funds_inv_def)
  show ?thesis
    using assms(1)
  proof (cases rule: funds_step.cases)
    case fs_wallet
    from wallet_step_posts [OF this inv(1)] show ?thesis
    proof
      assume q: "quiet d d'"
      then have "same_custody d d'" "db_ledger d' = db_ledger d" by (simp_all add: quiet_def)
      with q inv show ?thesis
        by (auto simp: funds_inv_def appends_def custody_status_def same_custody_def intro: quiet_inv same_custody_inv [of d])
    qed (use assms(2) in \<open>auto intro: entry_posted_funds entry_posted_appends\<close>)
  next
    case fs_contest
    then show ?thesis using new_contest_funds [OF assms(2)] by (auto simp: appends_def custody_status_def)
  next
    case fs_event
    then show ?thesis using frame_funds [OF assms(2)] by (simp add: same_custody_def)
  next
    case (fs_bump c x y)
    then show ?thesis using frame_funds [OF assms(2)] by (simp add: bump_contest_def same_custody_def split: option.split)
  next
    case (fs_deposit a ti ei u p b)
    show ?thesis
    proof (cases b)
      case True
      with fs_deposit(2) assms(2) show ?thesis by (auto dest: PostConfirmedDeposit_replay intro: appends_refl)
    next
      case False
      with fs_deposit(2) have "PostConfirmedDeposit ti ei u a p d = Inr (d', False)" by simp
      from PostConfirmedDeposit_new [OF inv fs_deposit(1) this] obtain te d1 e where
        "custody_move [te] [] '''' [] d d1" "db_wallets d1 = db_wallets d" "db_ledger d1 = db_ledger d" "entry_posted e d1 d'"
        by blast
      with assms(2) show ?thesis
        by (blast intro: custody_move_funds entry_posted_funds appends_trans custody_move_appends entry_posted_appends)
    qed
  next
    case (fs_fee a ti fi c u k bps b)
    then show ?thesis
    proof (cases b)
      case True
      with fs_fee(2) assms(2) show ?thesis by (auto dest: PostContestFee_replay intro: appends_refl)
    next
      case False
      with fs_fee(2) PostContestFee_new [OF inv(2) fs_fee(1)] assms(2) show ?thesis
        by (metis custody_move_funds custody_move_appends)
    qed
  next
    case (fs_pool a ti ei c u b)
    then show ?thesis
    proof (cases b)
      case True
      with fs_pool(2) assms(2) show ?thesis by (auto dest: PostContestPrizeContribution_replay intro: appends_refl)
    next
      case False
      with fs_pool(2) PostContestPrizeContribution_new [OF inv(2) fs_pool(1)] assms(2) show ?thesis
        by (metis custody_move_funds custody_move_appends)
    qed
  next
    case (fs_reverse ri ni c u ac ev re r)
    show ?thesis
    proof (cases "originalEntry c u d")
      case None
      with fs_reverse assms(2) show ?thesis by (auto simp: ReverseContestAdmission_def appends_refl split: if_splits)
    next
      case (Some orig)
      from ReverseContestAdmission_effect [OF inv Some fs_reverse] assms(2) show ?thesis
        by (blast intro: custody_move_funds entry_posted_funds appends_trans custody_move_appends entry_posted_appends)
    qed
  qed
qed

lemma funds_steps_inv: "funds_steps up d d' \<Longrightarrow> funds_inv d \<Longrightarrow> funds_inv d' \<and> appends d d'"
  by (induction rule: funds_steps.induct) (auto dest: funds_step_inv intro: appends_refl appends_trans)

end
