(* ===== verification/Custody_Properties.thy ===== *)
theory Custody_Properties
  imports Custody_Invariant
begin

text \<open>
  What the custody operations guarantee: conservation of the confirmed deposits, exactly-once
  posting of deposits, the money flow of a paid admission and of its reversal, and two defects
  of the refund paths. Concrete tables at the end evaluate the operations.
\<close>

section \<open>Conservation and deposits\<close>

lemma sum_pool_balances:
  assumes "custody_inv d"
  shows "(\<Sum>c \<in> dom (db_pools d). pa_BalanceCents (the (db_pools d c))) = sum_list (map pe_AmountCents (db_pool_ledger d))"
proof -
  have fin: "finite (dom (db_pools d))" and own: "\<forall>e \<in> set (db_pool_ledger d). pe_ContestID e \<in> dom (db_pools d)"
    using assms by (auto simp: custody_inv_def pools_ok_def)
  have "pa_BalanceCents (the (db_pools d c)) = sum_list (map pe_AmountCents (filter (\<lambda>e. pe_ContestID e = c) (db_pool_ledger d)))"
    if c: "c \<in> dom (db_pools d)" for c
  proof -
    from c obtain a where a: "db_pools d c = Some a" by auto
    then have "pool_balance d c = Some (pa_BalanceCents a)" by (simp add: pool_balance_def)
    moreover have "pools.balanced d" using assms by (simp add: custody_inv_def)
    ultimately show ?thesis using pools.balancedD a unfolding pool_movements_def by fastforce
  qed
  then have "(\<Sum>c \<in> dom (db_pools d). pa_BalanceCents (the (db_pools d c))) =
      (\<Sum>c \<in> dom (db_pools d). sum_list (map pe_AmountCents (filter (\<lambda>e. pe_ContestID e = c) (db_pool_ledger d))))"
    by (intro sum.cong) simp_all
  also have "\<dots> = sum_list (map pe_AmountCents (db_pool_ledger d))"
    by (rule sum_list_partition [OF fin own])  finally show ?thesis .
qed

lemma sample_funds: "funds_inv sample_db"
proof -
  have "custody_inv sample_db"
    by (auto simp: custody_inv_def treasury.balanced_def fees.balanced_def pools.balanced_def treasury_balance_def
        treasury_movements_def fee_balance_def fee_movements_def pool_balance_def pool_movements_def sample_db_def
        custody_ledgers_sum_def deposits_def custody_bounds_def pools_ok_def split: if_splits)
  then show ?thesis by (simp add: funds_inv_def sample_inv)
qed

lemma empty_funds: "funds_inv empty_db"
  by (auto simp: funds_inv_def wallet_inv_def ledger_keys_def List.map_filter_def custody_inv_def
      treasury.balanced_def fees.balanced_def pools.balanced_def treasury_balance_def
      treasury_movements_def fee_balance_def fee_movements_def pool_balance_def pool_movements_def empty_db_def
      custody_ledgers_sum_def deposits_def custody_bounds_def pools_ok_def)


text \<open>
  (C25) A confirmed deposit is posted exactly once: it raises the treasury and the user's wallet
  by the same amount; after it, whatever committed operations happen in between, a replay of
  the same deposit reports \<open>alreadyPosted\<close> and changes nothing, and a replay of the same payment
  intent for another user or amount is an error.
\<close>
theorem deposit_posted_once:
  assumes "funds_inv d" "is_i64 a" "PostConfirmedDeposit ti ei u a p d = Inr (d1, False)"
    and "funds_steps up d1 d2"
  shows "treasury_balance d1 () = map_option (\<lambda>b. b + a) (treasury_balance d ())
    \<and> wallet_balance d1 u = map_option (\<lambda>b. b + a) (wallet_balance d u)
    \<and> PostConfirmedDeposit ti' ei' u a p d2 = Inr (d2, True)
    \<and> (u' \<noteq> '''' \<longrightarrow> 0 < a' \<longrightarrow> u' \<noteq> u \<or> a' \<noteq> a \<longrightarrow> (\<exists>e. PostConfirmedDeposit ti' ei' u' a' p d2 = Inl e))"
proof -
  have inv: "wallet_inv d" "custody_inv d" using assms(1) by (simp_all add: funds_inv_def)
  have new: "p \<noteq> ''''" "u \<noteq> ''''" "List.find (\<lambda>e. te_PaymentIntentID e = Some p) (db_treasury_ledger d) = None"
    using assms(3)
    by (cases "List.find (\<lambda>e. te_PaymentIntentID e = Some p) (db_treasury_ledger d)";
        auto simp: PostConfirmedDeposit_def rbind_eq_Inr Let_def split: if_splits)+
  from PostConfirmedDeposit_new [OF inv assms(2,3)] obtain te d' e where
    te: "te_PaymentIntentID te = Some p" "te_BeneficiaryID te = Some u" "te_AmountCents te = a" "0 < a"
    and mv: "custody_move [te] [] '''' [] d d'" "db_wallets d' = db_wallets d" "db_ledger d' = db_ledger d"
    and e: "entry_posted e d' d1" "le_UserID e = u" "le_AmountCents e = a" "le_Type e = Deposit"
      "le_IdempotencyKey e = Some (depositKey p)" "le_RefType e = Some PaymentIntentRef" "le_RefID e = Some p"
    by blast
  have "funds_inv d1" using assms(1) mv e(1) by (blast intro: custody_move_funds entry_posted_funds)
  then have app: "appends d1 d2" using funds_steps_inv [OF assms(4)] by blast
  have d1: "db_treasury_ledger d1 = db_treasury_ledger d @ [te]" "e \<in> set (db_ledger d1)"
    "treasury_balance d1 () = map_option (\<lambda>b. b + a) (treasury_balance d ())"
    using custody_moveD(1,3) [OF mv(1)] e(1) te(3) by (auto simp: treasury_balance_def entry_posted_def)
  have "wallet_posts d' u [a] d1" using e by (auto simp: wallet_posts_def)
  then have wb: "wallet_balance d1 u = map_option (\<lambda>b. b + a) (wallet_balance d u)"
    using wallets.posts_balance mv(2) by (fastforce simp: wallet_balance_def)
  have "fst (custody_status d) = Some TreasuryReconciliationForwardOnly"
    using assms(3) by (auto simp: PostConfirmedDeposit_def rbind_eq_Inr LockTreasury_Inr custody_status_def split: if_splits)
  moreover have "custody_status d1 = custody_status d"
    using appends_trans [OF custody_move_appends [OF mv(1,3)] entry_posted_appends [OF e(1)]] by (simp add: appends_def)
  ultimately obtain t where "db_treasury d2 = Some t" "ta_ReconciliationStatus t = TreasuryReconciliationForwardOnly"
    using app by (auto simp: appends_def custody_status_def)
  then have lock: "LockTreasuryForFinancialOperation d2 = Inr (ta_BalanceCents t)" by (simp add: LockTreasury_Inr)
  have row: "List.find (\<lambda>e. te_PaymentIntentID e = Some p) (db_treasury_ledger d2) = Some te"
    using app d1(1) new(3) te(1) by (auto simp: appends_def prefix_def find_append_None)
  have "depositEntitlementExists u a p d2"
    using app d1(2) e by (auto simp: appends_def prefix_def depositEntitlementExists_def)
  with lock row te new have "PostConfirmedDeposit ti' ei' u a p d2 = Inr (d2, True)"
    by (simp add: PostConfirmedDeposit_def)
  moreover have "\<exists>e. PostConfirmedDeposit ti' ei' u' a' p d2 = Inl e" if "u' \<noteq> ''''" "0 < a'" "u' \<noteq> u \<or> a' \<noteq> a"
    using lock row te new that by (auto simp: PostConfirmedDeposit_def)
  ultimately show ?thesis using d1(3) wb by blast
qed

section \<open>Balances moved by an admission and by its reversal\<close>

definition custody_delta :: "string \<Rightarrow> int \<Rightarrow> int \<Rightarrow> int \<Rightarrow> db \<Rightarrow> db \<Rightarrow> bool" where
  "custody_delta c x y z d d' \<longleftrightarrow>
     treasury_balance d' () = map_option (\<lambda>b. b + x) (treasury_balance d ())
     \<and> fee_balance d' () = map_option (\<lambda>b. b + y) (fee_balance d ())
     \<and> pool_balance d' c = map_option (\<lambda>b. b + z) (pool_balance d c)"

lemma custody_delta_same: "same_custody d d' \<Longrightarrow> custody_delta c 0 0 0 d d'"
  by (simp add: custody_delta_def same_custody_def treasury_balance_def fee_balance_def pool_balance_def option.map_comp comp_def option.map_ident)

lemma custody_delta_trans:
  "custody_delta c x y z d d1 \<Longrightarrow> custody_delta c x' y' z' d1 d2 \<Longrightarrow> custody_delta c (x + x') (y + y') (z + z') d d2"
  by (simp add: custody_delta_def option.map_comp comp_def add.assoc)

lemma custody_move_delta:
  assumes "custody_move ts fs c' ps d d'" "ps = [] \<or> c' = c"
  shows "custody_delta c (sum_list (map te_AmountCents ts)) (sum_list (map fe_AmountCents fs)) (sum_list (map pe_AmountCents ps)) d d'"
proof -
  have "treasury_posts d () (map te_AmountCents ts) d'" using assms(1) by (simp add: custody_move_def)
  then have t: "treasury_balance d' () = map_option (\<lambda>b. b + sum_list (map te_AmountCents ts)) (treasury_balance d ())"
    using treasury.posts_balance by fastforce
  have f: "fee_balance d' () = map_option (\<lambda>b. b + sum_list (map fe_AmountCents fs)) (fee_balance d ())"
  proof (cases "fee_posts d () (map fe_AmountCents fs) d'")
    case True
    from fees.posts_balance [OF this] show ?thesis by auto
  next
    case False
    with assms(1) have "fs = []" "db_fee_account d' = db_fee_account d" by (auto simp: custody_move_def)
    then show ?thesis by (simp add: fee_balance_def option.map_ident)
  qed
  have "pool_balance d' c = map_option (\<lambda>b. b + sum_list (map pe_AmountCents ps)) (pool_balance d c)"
  proof (cases "pool_posts d c' (map pe_AmountCents ps) d'")
    case True
    show ?thesis
    proof (cases "c' = c")
      case True
      with pools.posts_balance [OF \<open>pool_posts d c' (map pe_AmountCents ps) d'\<close>] show ?thesis by auto
    next
      case False
      with assms(2) pools.posts_other [OF True, of c] show ?thesis by (simp add: option.map_ident)
    qed
  next
    case False
    with assms(1) have "ps = []" "db_pools d' = db_pools d" by (auto simp: custody_move_def)
    then show ?thesis by (simp add: pool_balance_def option.map_comp comp_def)
  qed
  with t f show ?thesis by (simp add: custody_delta_def)
qed

text \<open>No row of any ledger belongs to the admission yet.\<close>

definition fresh_admission :: "string \<Rightarrow> string \<Rightarrow> db \<Rightarrow> bool" where
  "fresh_admission c u d \<longleftrightarrow> ledger_by_key (contestEntryKey c u) d = None
     \<and> (\<forall>f \<in> set (db_fee_ledger d). fe_AdmissionID f \<noteq> admissionID c u)
     \<and> (\<forall>p \<in> set (db_pool_ledger d). pe_IdempotencyKey p \<noteq> poolKey (admissionID c u))"

lemma PostContestFee_fresh:
  "feeRow (admissionID c u) k d = None \<Longrightarrow> PostContestFee up ti fi c u k a bps d = Inr (d', b) \<Longrightarrow> \<not> b"
  by (cases "feeTreasuryRow (admissionID c u) k d")
    (auto simp: PostContestFee_def rbind_eq_Inr Let_def split: if_splits option.splits)

lemma PostContestPrizeContribution_fresh:
  "List.find (\<lambda>p. pe_IdempotencyKey p = poolKey (admissionID c u)) (db_pool_ledger d) = None \<Longrightarrow>
     PostContestPrizeContribution up ti ei c u a d = Inr (d', b) \<Longrightarrow> \<not> b"
  by (cases "db_contests d c"; cases "db_pools d c";
      cases "List.find (\<lambda>t. te_Kind t = ContestPoolAllocation \<and> te_AdmissionID t = Some (admissionID c u)) (db_treasury_ledger d)")
    (auto simp: PostContestPrizeContribution_def rbind_eq_Inr Let_def split: if_splits)

text \<open>The fee and pool postings of an admission, as conditional steps of the join handler.\<close>

lemma fee_stage:
  assumes "funds_inv d" "0 \<le> a" "is_i64 a"
    and "(if a > 0 then rbind (PostContestFee up ti fi c u k a bps d) (\<lambda>(d, _). Inr d) else Inr d) = Inr d'"
    and "\<forall>f \<in> set (db_fee_ledger d). fe_AdmissionID f = admissionID c u \<longrightarrow> fe_Kind f \<noteq> k"
  shows "funds_inv d' \<and> custody_delta c (- a) a 0 d d' \<and> db_wallets d' = db_wallets d \<and> db_ledger d' = db_ledger d
    \<and> db_pool_ledger d' = db_pool_ledger d \<and> db_contests d' = db_contests d
    \<and> (\<forall>f \<in> set (db_fee_ledger d'). f \<in> set (db_fee_ledger d) \<or> fe_Kind f = k)"
proof (cases "a > 0")
  case True
  with assms(4) obtain b where ok: "PostContestFee up ti fi c u k a bps d = Inr (d', b)"
    by (auto simp: rbind_eq_Inr)
  have "feeRow (admissionID c u) k d = None" using assms(5) by (auto simp: feeRow_def find_None_iff)
  from PostContestFee_fresh [OF this ok] ok have "PostContestFee up ti fi c u k a bps d = Inr (d', False)" by simp
  moreover have "custody_inv d" using assms(1) by (simp add: funds_inv_def)
  ultimately obtain t f where mv: "custody_move [t] [f] '''' [] d d'" "te_AmountCents t = - a" "fe_AmountCents f = a"
    "fe_Kind f = k" "db_wallets d' = db_wallets d" "db_ledger d' = db_ledger d" "db_contests d' = db_contests d"
    using PostContestFee_new [OF _ assms(3)] by blast
  with custody_move_delta [OF mv(1), of c] custody_moveD [OF mv(1)] custody_move_funds [OF assms(1) mv(1)]
  show ?thesis by auto
next
  case False
  with assms(2,4) have "a = 0" "d' = d" by simp_all
  with assms(1) custody_delta_same [of d d c] show ?thesis by simp
qed

lemma pool_stage:
  assumes "funds_inv d" "0 \<le> a" "is_i64 a"
    and "(if P \<and> a > 0 then rbind (PostContestPrizeContribution up ti ei c u a d) (\<lambda>(d, _). Inr d) else Inr d) = Inr d'"
    and "List.find (\<lambda>p. pe_IdempotencyKey p = poolKey (admissionID c u)) (db_pool_ledger d) = None"
    and "P"
  shows "funds_inv d' \<and> custody_delta c (- a) 0 a d d' \<and> db_wallets d' = db_wallets d"
proof (cases "a > 0")
  case True
  with assms(4,6) obtain b where ok: "PostContestPrizeContribution up ti ei c u a d = Inr (d', b)"
    by (auto simp: rbind_eq_Inr)
  with PostContestPrizeContribution_fresh [OF assms(5) ok]
  have "PostContestPrizeContribution up ti ei c u a d = Inr (d', False)" by simp
  moreover have "custody_inv d" using assms(1) by (simp add: funds_inv_def)
  ultimately obtain t p where mv: "custody_move [t] [] c [p] d d'" "te_AmountCents t = - a" "pe_AmountCents p = a"
    "db_wallets d' = db_wallets d" "db_ledger d' = db_ledger d"
    using PostContestPrizeContribution_new [OF _ assms(3)] by blast
  with custody_move_delta [OF mv(1), of c] custody_move_funds [OF assms(1) mv(1)] show ?thesis by auto
next
  case False
  with assms(2,4) have "a = 0" "d' = d" by simp_all
  with assms(1) custody_delta_same [of d d c] show ?thesis by simp
qed

lemma deduct_stage:
  assumes "funds_inv d" "0 \<le> a" "is_i64 a"
    and "(if a > 0 then rbind (LockTreasuryForFinancialOperation d) (\<lambda>_.
            rbind (DeductContestEntryFeeWithName i u c n a d) (\<lambda>(d, _). Inr d)) else Inr d) = Inr d'"
    and "ledger_by_key (contestEntryKey c u) d = None"
  shows "funds_inv d' \<and> same_custody d d' \<and> wallet_balance d' u = map_option (\<lambda>b. b - a) (wallet_balance d u)
    \<and> db_contests d' = db_contests d"
proof (cases "a > 0")
  case True
  with assms(4) obtain x where ok: "DeductContestEntryFeeWithName i u c n a d = Inr (d', x)"
    by (auto simp: rbind_eq_Inr)
  have inv: "wallet_inv d" using assms(1) by (simp add: funds_inv_def)
  obtain e where "posted u (- a) (Some (contestEntryKey c u)) e d d'"
    using DeductContestEntryFeeWithName_new [OF inv assms(3) ok True assms(5)] by blast
  then obtain r where r: "entry_posted r d d'" "le_UserID r = u" "le_AmountCents r = - a" by (auto simp: posted_def)
  then have "wallet_posts d u [- a] d'" by (auto simp: wallet_posts_def)
  from wallets.posts_balance [OF this] have "wallet_balance d' u = map_option (\<lambda>b. b - a) (wallet_balance d u)" by auto
  moreover have "db_contests d' = db_contests d" using r(1) by (auto simp: entry_posted_def)
  ultimately show ?thesis
    using entry_posted_funds [OF assms(1) r(1)] entry_posted_custody [OF r(1)] by simp
next
  case False
  with assms(2,4) have "a = 0" "d' = d" by simp_all
  with assms(1) show ?thesis by (simp add: option.map_ident)
qed

lemma bump_contest_simps [simp]:
  "same_custody d (bump_contest c x y d)" "db_wallets (bump_contest c x y d) = db_wallets d"
  "db_ledger (bump_contest c x y d) = db_ledger d"
  by (auto simp: bump_contest_def same_custody_def split: option.split)

lemma bump_funds: "funds_inv d \<Longrightarrow> funds_inv (bump_contest c x y d)"
  using frame_funds [of d "bump_contest c x y d"] by simp

lemma chargeJoin_effect:
  assumes "funds_inv d" "0 \<le> f" "f * 10000 \<le> max_i64" "fresh_admission c u d"
    and "map_option cn_FundsPolicyVersion (db_contests d c) = Some ContestPrizePoolPolicyV1"
    and "chargeJoin up ni c u n f bps late d = Inr d'"
  shows "let charge = ComputeJoinCharge f bps late in
    wallet_balance d' u = map_option (\<lambda>b. b - jc_TotalCents charge) (wallet_balance d u)
    \<and> treasury_balance d' () = map_option (\<lambda>b. b - jc_TotalCents charge) (treasury_balance d ())
    \<and> fee_balance d' () = map_option (\<lambda>b. b + (jc_PlatformCents charge + jc_SurchargeCents charge)) (fee_balance d ())
    \<and> pool_balance d' c = map_option (\<lambda>b. b + jc_PrizeCents charge) (pool_balance d c)
    \<and> funds_inv d'"
proof -
  define ch where "ch = ComputeJoinCharge f bps late"
  have parts: "jc_TotalCents ch = jc_PlatformCents ch + jc_PrizeCents ch + jc_SurchargeCents ch"
    "0 \<le> jc_PlatformCents ch" "0 \<le> jc_PrizeCents ch" "0 \<le> jc_SurchargeCents ch" "jc_TotalCents ch \<le> f * 10000"
    using ComputeJoinCharge_parts [OF assms(2,3), of bps late] assms(2) by (auto simp: ch_def Let_def)
  then have i64: "is_i64 (jc_TotalCents ch)" "is_i64 (jc_PlatformCents ch)" "is_i64 (jc_PrizeCents ch)" "is_i64 (jc_SurchargeCents ch)"
    using assms(3) by (auto simp: is_i64_def)
  obtain d1 d2 d3 d4 where
    s1: "(if jc_TotalCents ch > 0 then rbind (LockTreasuryForFinancialOperation d) (\<lambda>_.
            rbind (DeductContestEntryFeeWithName (ni 0) u c n (jc_TotalCents ch) d) (\<lambda>(d, _). Inr d)) else Inr d) = Inr d1"
    and d2: "d2 = (if jc_PrizeCents ch > 0 \<or> jc_PlatformCents ch > 0
                 then bump_contest c (jc_PrizeCents ch) (jc_PlatformCents ch + jc_SurchargeCents ch) d1 else d1)"
    and s3: "(if jc_PlatformCents ch > 0 then rbind (PostContestFee up (ni 1) (ni 2) c u ContestFeeKindBase
        (jc_PlatformCents ch) bps d2) (\<lambda>(d, _). Inr d) else Inr d2) = Inr d3"
    and s4: "(if jc_SurchargeCents ch > 0 then rbind (PostContestFee up (ni 3) (ni 4) c u ContestFeeKindLateSurcharge
        (jc_SurchargeCents ch) bps d3) (\<lambda>(d, _). Inr d) else Inr d3) = Inr d4"
    and s5: "(if map_option cn_FundsPolicyVersion (db_contests d c) = Some ContestPrizePoolPolicyV1 \<and> jc_PrizeCents ch > 0
        then rbind (PostContestPrizeContribution up (ni 5) (ni 6) c u (jc_PrizeCents ch) d4) (\<lambda>(d, _). Inr d)
        else Inr d4) = Inr d'"
    using assms(6) unfolding chargeJoin_def Let_def ch_def [symmetric] rbind_eq_Inr by blast
  have fr: "ledger_by_key (contestEntryKey c u) d = None" "\<forall>f \<in> set (db_fee_ledger d). fe_AdmissionID f \<noteq> admissionID c u"
    "List.find (\<lambda>p. pe_IdempotencyKey p = poolKey (admissionID c u)) (db_pool_ledger d) = None"
    using assms(4) by (auto simp: fresh_admission_def find_None_iff)
  from parts have t0: "0 \<le> jc_TotalCents ch" by simp
  note e1 = deduct_stage [OF assms(1) t0 i64(1) s1 fr(1)]
  have e2: "funds_inv d2" "same_custody d1 d2" "db_wallets d2 = db_wallets d1"
    using e1 by (auto simp: d2 bump_funds)
  have c2: "same_custody d d2" using e1 e2(2) by (simp add: same_custody_def)
  then have l2: "db_fee_ledger d2 = db_fee_ledger d" "db_pool_ledger d2 = db_pool_ledger d" by (simp_all add: same_custody_def)
  have e3: "funds_inv d3 \<and> custody_delta c (- jc_PlatformCents ch) (jc_PlatformCents ch) 0 d2 d3 \<and> db_wallets d3 = db_wallets d2
      \<and> db_pool_ledger d3 = db_pool_ledger d2 \<and> (\<forall>f \<in> set (db_fee_ledger d3). f \<in> set (db_fee_ledger d2) \<or> fe_Kind f = ContestFeeKindBase)"
    using fee_stage [OF e2(1) parts(2) i64(2) s3] fr(2) l2 by auto
  have "\<forall>f \<in> set (db_fee_ledger d3). fe_AdmissionID f = admissionID c u \<longrightarrow> fe_Kind f \<noteq> ContestFeeKindLateSurcharge"
    using e3 fr(2) l2 by (auto simp: custody_consts)
  with fee_stage [OF _ parts(4) i64(4) s4] e3
  have e4: "funds_inv d4 \<and> custody_delta c (- jc_SurchargeCents ch) (jc_SurchargeCents ch) 0 d3 d4 \<and> db_wallets d4 = db_wallets d3
      \<and> db_pool_ledger d4 = db_pool_ledger d3" by auto
  have e5: "funds_inv d' \<and> custody_delta c (- jc_PrizeCents ch) 0 (jc_PrizeCents ch) d4 d' \<and> db_wallets d' = db_wallets d4"
    using pool_stage [OF _ parts(3) i64(3) s5] e4 e3 l2 fr(3) assms(5) by simp
  have "custody_delta c (0 + - jc_PlatformCents ch + - jc_SurchargeCents ch + - jc_PrizeCents ch)
      (0 + jc_PlatformCents ch + jc_SurchargeCents ch + 0) (0 + 0 + 0 + jc_PrizeCents ch) d d'"
    by (rule custody_delta_trans [OF custody_delta_trans [OF custody_delta_trans [OF custody_delta_same [OF c2]
        e3 [THEN conjunct2, THEN conjunct1]] e4 [THEN conjunct2, THEN conjunct1]] e5 [THEN conjunct2, THEN conjunct1]])
  then have "custody_delta c (- jc_TotalCents ch) (jc_PlatformCents ch + jc_SurchargeCents ch) (jc_PrizeCents ch) d d'"
    by (simp add: parts(1) algebra_simps)
  moreover have "wallet_balance d' u = map_option (\<lambda>b. b - jc_TotalCents ch) (wallet_balance d u)"
    using e1 e2 e3 e4 e5 by (simp add: wallet_balance_def)
  ultimately show ?thesis using e5 by (simp add: custody_delta_def ch_def [symmetric])
qed

text \<open>
  (C20) A paid admission conserves money: for a contest on \<open>contest_funds_v1\<close> and an admission with
  no postings yet, a successful join debits the user by the total charge, moves the platform
  fee and the late surcharge from the treasury to the fee wallet and the prize contribution
  from the treasury to the contest's pool, so that the treasury gives up exactly what the
  user paid.
\<close>
theorem chargeJoin_conserves:
  assumes "funds_inv d" "0 \<le> f" "f * 10000 \<le> max_i64" "fresh_admission c u d"
    and "map_option cn_FundsPolicyVersion (db_contests d c) = Some ContestPrizePoolPolicyV1"
    and "chargeJoin up ni c u n f bps late d = Inr d'"
  shows "let charge = ComputeJoinCharge f bps late in
    wallet_balance d' u = map_option (\<lambda>b. b - jc_TotalCents charge) (wallet_balance d u)
    \<and> treasury_balance d' () = map_option (\<lambda>b. b - jc_TotalCents charge) (treasury_balance d ())
    \<and> fee_balance d' () = map_option (\<lambda>b. b + (jc_PlatformCents charge + jc_SurchargeCents charge)) (fee_balance d ())
    \<and> pool_balance d' c = map_option (\<lambda>b. b + jc_PrizeCents charge) (pool_balance d c)
    \<and> funds_inv d'"
  by (rule chargeJoin_effect [OF assms])

lemma originalEntry_persists:
  assumes "prefix (db_ledger d) (db_ledger d')" "originalEntry c u d \<noteq> None"
  shows "originalEntry c u d' \<noteq> None"
proof -
  let ?P = "\<lambda>e. le_UserID e = u \<and> le_Type e = ContestEntry \<and> le_RefType e = Some ContestRef \<and> le_RefID e = Some c"
  have none: "originalEntry c u d = None \<longleftrightarrow> filter ?P (db_ledger d) = []" for d
  proof -
    have "originalEntry c u d = None \<longleftrightarrow> set (sort_key (\<lambda>e. (le_CreatedAt e, le_ID e)) (filter ?P (db_ledger d))) = {}"
      unfolding originalEntry_def set_empty by (simp split: list.split)
    then show ?thesis by (simp only: set_sort set_empty)
  qed
  obtain xs where "db_ledger d' = db_ledger d @ xs" using assms(1) by (auto simp: prefix_def)
  with assms(2) show ?thesis unfolding none by simp
qed
lemma insert_ledger_taken: "ledger_by_key k d \<noteq> None \<Longrightarrow> le_IdempotencyKey e = Some k \<Longrightarrow> \<exists>x. insert_ledger e d = Inl x"
  by (auto simp: insert_ledger_def key_taken_def)


lemma poolOriginals_Nil:
  "poolOriginals c u d = [] \<longleftrightarrow> (\<forall>p \<in> set (db_pool_ledger d). \<forall>t \<in> set (db_treasury_ledger d).
     pe_ContestID p = c \<and> pe_ParticipantUserID p = u \<and> pe_Direction p = ''credit'' \<longrightarrow>
     \<not> (te_Kind t = ContestPoolAllocation \<and> te_AdmissionID t = Some (pe_ReferenceID p)))"
proof -
  have "poolOriginals c u d = [] \<longleftrightarrow> set (poolOriginals c u d) = {}" by simp
  also have "\<dots> \<longleftrightarrow> (\<forall>x. x \<notin> set (poolOriginals c u d))" by (simp only: all_not_in_conv)
  finally show ?thesis by (auto simp: poolOriginals_def)
qed

text \<open>
  An admission without a pool contribution (a contest whose fee takes the whole entry)
  cannot be reversed: the reversal writes the unchanged pool balance back, and the trigger on
  the pool account rejects an update that changes only the time stamp. In every transaction
  later than the last update of the pool account the reversal fails.
\<close>
theorem fee_only_admission_not_reversible:
  assumes "funds_inv d" "originalEntry c u d = Some orig" "poolOriginals c u d = []"
    and "db_pools d c = Some a" "pa_UpdatedAt a \<noteq> db_now d"
  shows "\<exists>e. ReverseContestAdmission up ri ni c u ac ev re d = Inl e"
proof (rule ccontr)
  assume "\<not> ?thesis"
  then obtain d' r where ok: "ReverseContestAdmission up ri ni c u ac ev re d = Inr (d', r)"
    by (metis old.sum.exhaust surj_pair)
  have inv: "wallet_inv d" "custody_inv d" using assms(1) by (simp_all add: funds_inv_def)
  obtain t w fb a' where acc: "db_treasury d = Some t" "db_wallets d u = Some w" "db_fee_account d = Some fb" "db_pools d c = Some a'"
    by (rule ReverseContestAdmission_accounts [OF assms(2) ok])
  with assms(4) have a': "a' = a" by simp
  obtain d0 d1 s pb tb n d2 d3 d4 where
    st: "update_wallet_balance u (wrap64 (w_BalanceCents w + wrap64 (- le_AmountCents orig))) d = Inr d0"
      "insert_ledger (walletReversalEntry ri c u ac ev re (wrap64 (- le_AmountCents orig))
         (wrap64 (w_BalanceCents w + wrap64 (- le_AmountCents orig))) (le_ID orig) (db_now d0)) d0 = Inr d1"
      "reverseFees ni c u (feeOriginals (admissionID c u) d1)
         \<lparr>rs_fee = fb, rs_treasury = ta_BalanceCents t, rs_feeCents = 0, rs_db = d1\<rparr> = Inr s"
      "reversePool (ni 0) (ni 0) c u ev (pa_ID a') (pa_BalanceCents a') (rs_treasury s) (rs_db s) = Inr (pb, tb, n, d2)"
      "update_fee_balance (rs_fee s) d2 = Inr d3" "update_pool_balance c pb d3 = Inr d4"
    by (rule ReverseContestAdmission_stages [OF assms(2) ok acc refl refl])
  have d1: "db_pools d1 = db_pools d" "db_now d1 = db_now d" "db_pool_ledger d1 = db_pool_ledger d"
    "db_treasury_ledger d1 = db_treasury_ledger d" "db_fee_account d1 = Some fb"
    using st(1) acc(2,3) insert_ledgerD(3) [OF st(2)] by (auto simp: update_wallet_balance_def split: if_splits)
  obtain fes tes where s: "rs_db s = d1\<lparr>db_fee_ledger := db_fee_ledger d1 @ fes, db_treasury_ledger := db_treasury_ledger d1 @ tes\<rparr>"
    "\<forall>t \<in> set tes. te_Kind t = TreasuryReversal"
    using reverseFees_effect [OF st(3)] custody_boundsD(1,2) [OF inv(2)] acc(1,3) by auto
  have "poolOriginals c u (rs_db s) = []"
    using assms(3) s d1 by (auto simp: poolOriginals_Nil)
  with st(4) have pb: "pb = pa_BalanceCents a" "d2 = rs_db s" by (auto simp: reversePool_def a')
  have "d3 = d2\<lparr>db_fee_account := Some (rs_fee s)\<rparr>" using update_fee_balanceD [OF st(5)] d1(5) s(1) pb(2) by simp
  with st(6) pb s(1) d1 assms(4,5) show False by (auto simp: update_pool_balance_def split: if_splits)
qed


section \<open>Witnesses\<close>

definition sample_id :: "nat \<Rightarrow> string" where
  "sample_id i = ''n'' @ show_nat i"

lemma sample_id_eval: "sample_id 0 = ''n0''" "sample_id 1 = ''n1''" "sample_id 2 = ''n2''" "sample_id 3 = ''n3''"
  "sample_id 4 = ''n4''" "sample_id 5 = ''n5''" "sample_id 6 = ''n6''" "sample_id (Suc 0) = ''n1''"
  "sample_id (Suc (Suc 0)) = ''n2''"
  by code_simp+

text \<open>The sample tables after the deposited user has paid 25.00 to enter contest \<open>c1\<close>.\<close>

definition sample_admitted :: db where
  "sample_admitted = sample_db\<lparr>
     db_wallets := [''u1'' \<mapsto> \<lparr>w_UserID = ''u1'', w_BalanceCents = 7500, w_Currency = ''USD'',
       w_Status = Active, w_CreatedAt = 1, w_UpdatedAt = 9\<rparr>],
     db_ledger := db_ledger sample_db @ [\<lparr>le_ID = ''n0'', le_UserID = ''u1'', le_Type = ContestEntry,
       le_AmountCents = - 2500, le_BalanceAfterCents = 7500, le_RefType = Some ContestRef, le_RefID = Some ''c1'',
       le_Description = Some (entryFeeDescription ''Cup'' ''c1''), le_ReasonCode = Some RC_ContestEntry,
       le_IdempotencyKey = Some ''contest_entry:c1:u1'', le_CreatedAt = 9, le_OriginalID = None,
       le_EventID = None, le_ActorID = None\<rparr>],
     db_treasury := Some \<lparr>ta_BalanceCents = 7500, ta_ReconciliationStatus = ''forward_only_unreconciled''\<rparr>,
     db_treasury_ledger := db_treasury_ledger sample_db @
       [feeTreasuryEntry ''n1'' ''c1'' ''u1'' ''contest_base_fee'' 500 9500, poolTreasuryEntry ''n5'' ''c1'' ''u1'' 2000 7500],
     db_fee_account := Some 500,
     db_fee_ledger := [feeEntry ''n2'' ''c1'' ''u1'' ''contest_base_fee'' 500 500 2000 9],
     db_contests := [''c1'' \<mapsto> \<lparr>cn_FundsPolicyVersion = ''contest_funds_v1'', cn_PrizePoolNetCents = 2000, cn_CommissionAmount = 500\<rparr>],
     db_pools := [''c1'' \<mapsto> \<lparr>pa_ID = ''a1'', pa_BalanceCents = 2000, pa_Status = ''active'', pa_CreatedAt = 1, pa_UpdatedAt = 9\<rparr>],
     db_pool_ledger := [poolEntry ''n6'' ''c1'' ''a1'' ''u1'' 2000 2000 9]\<rparr>"

lemmas custody_eval = wallet_eval custody_consts sample_id_eval LockTreasuryForFinancialOperation_def
  admissionID_def feeRow_def feeTreasuryRow_def update_treasury_balance_def update_fee_balance_def
  update_pool_balance_def insert_treasury_def treasury_shape_def treasury_conflict_def treasury_reverses_def
  insert_fee_def fee_shape_def fee_conflict_def fee_reverses_def is_fee_inflow_def insert_pool_def pool_shape_def
  pool_conflict_def pool_reverses_def pool_ledger_sum_def feeTreasuryEntry_def feeEntry_def poolTreasuryEntry_def
  poolEntry_def poolKey_def contestEntryKey_def

lemma sample_charge: "ComputeJoinCharge 2500 2000 False = \<lparr>jc_BaseEntryCents = 2500, jc_SurchargeCents = 0,
    jc_TotalCents = 2500, jc_IsLate = False, jc_PlatformCents = 500, jc_PrizeCents = 2000\<rparr>"
  by code_simp

lemma sample_join: "chargeJoin (\<lambda>_. True) sample_id ''c1'' ''u1'' ''Cup'' 2500 2000 False sample_db = Inr sample_admitted"
  unfolding chargeJoin_def Let_def sample_charge
  by (simp add: custody_eval DeductContestEntryFeeWithName_def PostContestFee_def PostContestPrizeContribution_def
      bump_contest_def sample_admitted_def)

lemma sample_fresh: "fresh_admission ''c1'' ''u1'' sample_db"
  by (simp add: fresh_admission_def sample_db_def ledger_by_key_def contestEntryKey_def)

lemma sample_admitted_funds: "funds_inv sample_admitted"
  using chargeJoin_effect [OF sample_funds _ _ sample_fresh _ sample_join]
  by (simp add: sample_db_def custody_consts Let_def)

lemma sample_original: "\<exists>orig. originalEntry ''c1'' ''u1'' sample_admitted = Some orig"
  by (simp add: originalEntry_def sample_admitted_def sample_db_def)

lemma sample_reversal:
  "\<exists>d1 r. ReverseContestAdmission (\<lambda>_. True) ''r1'' (\<lambda>i. ''r'' @ sample_id i) ''c1'' ''u1'' ''adm'' ''ev1'' ''left'' sample_admitted = Inr (d1, r)
     \<and> cr_WalletCents r = 2500 \<and> db_users d1 = {''u1'', ''adm''} \<and> map le_ID (db_ledger d1) = [''e1'', ''n0'', ''r1'']"
  by (simp add: ReverseContestAdmission_def originalEntry_def sample_admitted_def custody_eval walletReversalEntry_def
      reversalKey_def feeOriginals_def feeReversalEntry_def treasuryReversalEntry_def reversePool_def poolOriginals_def
      poolReversalEntry_def)


theorem deposit_posted_once_witness:
  "\<exists>d1. wallet_balance d1 ''u1'' = Some 10300 \<and> treasury_balance d1 () = Some 10300
     \<and> PostConfirmedDeposit ''t3'' ''e3'' ''u1'' 300 ''p2'' (FreezeWallet ''u1'' d1) = Inr (FreezeWallet ''u1'' d1, True)
     \<and> (\<exists>e. PostConfirmedDeposit ''t3'' ''e3'' ''u1'' 400 ''p2'' (FreezeWallet ''u1'' d1) = Inl e)"
proof -
  have "\<exists>d1. PostConfirmedDeposit ''t2'' ''e2'' ''u1'' 300 ''p2'' sample_db = Inr (d1, False)"
    by (simp add: PostConfirmedDeposit_def custody_eval depositTreasuryEntry_def postEntitlement_def CreditIdempotent_def
        CreditIdempotentWithReason_def depositKey_def)
  then obtain d1 where ok: "PostConfirmedDeposit ''t2'' ''e2'' ''u1'' 300 ''p2'' sample_db = Inr (d1, False)" by blast
  have "funds_steps (\<lambda>_. True) d1 (FreezeWallet ''u1'' d1)" by (intro fss_step [OF fss_refl] fs_wallet ws_freeze)
  from deposit_posted_once [OF sample_funds _ ok this, of "''t3''" "''e3''" "''u1''" 400] show ?thesis
    by (auto simp: is_i64_def treasury_balance_def wallet_balance_def sample_db_def)
qed

theorem chargeJoin_conserves_witness:
  "wallet_balance sample_admitted ''u1'' = Some 7500 \<and> treasury_balance sample_admitted () = Some 7500
   \<and> fee_balance sample_admitted () = Some 500 \<and> pool_balance sample_admitted ''c1'' = Some 2000"
  using chargeJoin_conserves [OF sample_funds _ _ sample_fresh _ sample_join]
  by (simp add: sample_charge sample_db_def custody_consts Let_def wallet_balance_def treasury_balance_def
      fee_balance_def pool_balance_def)



text \<open>The sample admission as a contest with a fee of 100 percent would have left it.\<close>

definition sample_fee_only :: db where
  "sample_fee_only = sample_db\<lparr>db_now := 50,
     db_ledger := db_ledger sample_db @ [\<lparr>le_ID = ''n0'', le_UserID = ''u1'', le_Type = ContestEntry,
       le_AmountCents = - 2500, le_BalanceAfterCents = 7500, le_RefType = Some ContestRef, le_RefID = Some ''c1'',
       le_Description = None, le_ReasonCode = Some RC_ContestEntry,
       le_IdempotencyKey = Some ''contest_entry:c1:u1'', le_CreatedAt = 9, le_OriginalID = None,
       le_EventID = None, le_ActorID = None\<rparr>],
     db_wallets := [''u1'' \<mapsto> \<lparr>w_UserID = ''u1'', w_BalanceCents = 7500, w_Currency = ''USD'',
       w_Status = Active, w_CreatedAt = 1, w_UpdatedAt = 9\<rparr>],
     db_treasury := Some \<lparr>ta_BalanceCents = 7500, ta_ReconciliationStatus = ''forward_only_unreconciled''\<rparr>,
     db_treasury_ledger := db_treasury_ledger sample_db @ [feeTreasuryEntry ''n1'' ''c1'' ''u1'' ''contest_base_fee'' 2500 7500],
     db_fee_account := Some 2500,
     db_fee_ledger := [feeEntry ''n2'' ''c1'' ''u1'' ''contest_base_fee'' 2500 2500 10000 9]\<rparr>"

theorem fee_only_admission_not_reversible_witness:
  "\<exists>e. ReverseContestAdmission (\<lambda>_. True) ''r1'' (\<lambda>i. ''r'' @ sample_id i) ''c1'' ''u1'' ''adm'' ''ev1'' ''left'' sample_fee_only = Inl e"
proof -
  have orig: "\<exists>orig. originalEntry ''c1'' ''u1'' sample_fee_only = Some orig"
    by (simp add: originalEntry_def sample_fee_only_def sample_db_def)
  have "wallet_inv sample_fee_only"
    by (simp add: wallet_inv_def sample_fee_only_def sample_db_def ledger_keys_def List.map_filter_def)
  moreover have "custody_inv sample_fee_only"
    by (auto simp: custody_inv_def treasury.balanced_def fees.balanced_def pools.balanced_def treasury_balance_def
        treasury_movements_def fee_balance_def fee_movements_def pool_balance_def pool_movements_def sample_fee_only_def
        sample_db_def custody_ledgers_sum_def deposits_def custody_bounds_def pools_ok_def feeTreasuryEntry_def feeEntry_def
        split: if_splits)
  ultimately have "funds_inv sample_fee_only" by (simp add: funds_inv_def)
  moreover have "poolOriginals ''c1'' ''u1'' sample_fee_only = []"
    by (simp add: poolOriginals_def sample_fee_only_def sample_db_def)
  moreover have "\<exists>a. db_pools sample_fee_only ''c1'' = Some a \<and> pa_UpdatedAt a \<noteq> db_now sample_fee_only"
    by (simp add: sample_fee_only_def sample_db_def)
  ultimately show ?thesis using orig fee_only_admission_not_reversible by blast
qed

end
