(* ===== verification/Contest_Properties.thy ===== *)
theory Contest_Properties
  imports Contest_Lifecycle Contest_Scheduler Custody_Properties
begin

text \<open>
  What the contest components guarantee: the lifecycle invariant and the bound on its runs, the
  pause arithmetic, quorum at the start, the scheduler's progress, the reconciliation of the
  economics cutoff, and three defects. Concrete tables evaluate the operations.
\<close>

section \<open>Concrete tables\<close>

definition sample_driver :: driver where
  "sample_driver = \<lparr>pg_time = \<lambda>t. t div 1000,
     pg_interval = \<lambda>t. if t \<noteq> 0 \<and> \<bar>t\<bar> < 1000000 then None else Some (t div 1000),
     pg_interval_text = \<lambda>_. ''00:00:00''\<rparr>"

definition sample_row :: ContestCols where
  "sample_row = \<lparr>ct_ID = ''c1'', ct_Name = ''Cup'', ct_Status = StatusDraft, ct_StartsAt = 100, ct_EndsAt = 1000,
     ct_RegistrationDeadline = None, ct_MinParticipants = 2, ct_MaxParticipants = None, ct_CurrentParticipants = 1,
     ct_AutoStart = True, ct_PublishedAt = None, ct_StartedAt = None, ct_EndedAt = None, ct_SettledAt = None,
     ct_CancelledAt = None, ct_CancellationReason = None, ct_QtyTotal = 1000, ct_EntryFeeCents = 2500, ct_IsFree = False,
     ct_PausedAt = None, ct_TotalPausedDuration = 0, ct_CommissionRate = 0, ct_RegistrationOpensAt = None,
     ct_LifecyclePolicyVersion = ''legacy'', cc_PlatformFeeBps = 2000, cc_LockedEntryFeeCents = None,
     cc_LockedPlatformFeeBps = None, cc_EconomicsLockedAt = None, cc_LateJoinEnabled = True, cc_ConfirmedAt = None,
     cc_Rules = ''''\<rparr>"

definition sample_participant :: "string \<Rightarrow> Participant" where
  "sample_participant u = \<lparr>pt_ContestID = ''c1'', pt_UserID = u, pt_JoinedAt = 9, pt_QtyTotal = 1000,
     pt_QtyAvailable = 1000, pt_IsSystem = False, pt_LifecycleStatus = ''ACTIVE'', pt_HasStartedTrading = True, pt_FinalRank = None, pt_FinalPrizeCents = None\<rparr>"

definition sample_cdb :: "ContestCols \<Rightarrow> string list \<Rightarrow> cdb" where
  "sample_cdb r us = \<lparr>cd_funds = sample_admitted, cd_contests = [''c1'' \<mapsto> r],
     cd_participants = map sample_participant us, cd_history = [], cd_snapshots = [], cd_econ_events = [],
     cd_settlements = [], cd_rankings = [], cd_prizes = [], cd_system_users = {}, cd_referrals = [],
     cd_commissions = []\<rparr>"

lemmas contest_eval = sample_cdb_def sample_row_def sample_driver_def sample_participant_def sample_admitted_def
  transitionTx_def request_def validateTransition_def minRequired_def realParticipants_def transitionUpdate_def
  update_contest_def insert_history_def startsModern_def ContestSnapshotPolicyV1_def Let_def

section \<open>Lifecycle\<close>


lemma sample_publish:
  "\<exists>d r. transitionTx sample_driver ni 50000 (request ''c1'' StatusScheduled None ''go'') (sample_cdb sample_row us) = Inr (d, r)"
  by (simp add: contest_eval)

lemma sample_row_fresh: "fresh_contest ''c1'' (sample_cdb sample_row us)"
  by (simp add: fresh_contest_def sample_cdb_def sample_row_def contest_history_def)




section \<open>Pause and resume\<close>

text \<open>Times are kept to the microsecond: the driver and the server round by less than one.\<close>

definition driver_ok :: "driver \<Rightarrow> bool" where
  "driver_ok drv \<longleftrightarrow> (\<forall>t. \<bar>1000 * pg_time drv t - t\<bar> < 1000)
     \<and> (\<forall>t m. pg_interval drv t = Some m \<longrightarrow> \<bar>1000 * m - t\<bar> < 1000)"

lemma sample_driver_ok: "driver_ok sample_driver"
proof -
  have "\<bar>1000 * (t div 1000) - t\<bar> < (1000::int)" for t by presburger
  then show ?thesis by (simp add: driver_ok_def sample_driver_def)
qed

lemma us_arith:
  assumes "\<bar>1000 * e - (1000 * (x::int) + D)\<bar> < 1000" "\<bar>1000 * us - D\<bar> < 1000"
  shows "\<bar>e - us - x\<bar> \<le> 1" "\<bar>1000 * (e - x) - D\<bar> < 1000"
proof -
  from assms have "1000 * e - (1000 * x + D) < 1000" "- 1000 < 1000 * e - (1000 * x + D)"
    "1000 * us - D < 1000" "- 1000 < 1000 * us - D" by linarith+
  then show "\<bar>e - us - x\<bar> \<le> 1" "\<bar>1000 * (e - x) - D\<bar> < 1000"
    by (linarith, simp add: abs_less_iff right_diff_distrib)
qed

text \<open>
  Resuming gives the players their time back: when a paused contest is resumed, its end moves
  by the length of the pause and the accumulated pause grows by the same length, both to the
  microsecond, so the scheduled playing time is kept; the pause time is cleared and nothing
  else of the schedule changes.
\<close>
theorem resume_extends_end:
  assumes "driver_ok drv" "cd_contests d (tq_ContestID req) = Some r" "ct_Status r = StatusPaused"
    and "ct_PausedAt r = Some p" "is_i64 (now - 1000 * p)" "tq_ToStatus req = StatusRunning"
    and "transitionTx drv ni now req d = Inr (d', res)"
  shows "\<exists>r'. cd_contests d' (tq_ContestID req) = Some r' \<and> ct_Status r' = StatusRunning \<and> ct_PausedAt r' = None
    \<and> \<bar>1000 * (ct_EndsAt r' - ct_EndsAt r) - (now - 1000 * p)\<bar> < 1000
    \<and> \<bar>1000 * (ct_TotalPausedDuration r' - ct_TotalPausedDuration r) - (now - 1000 * p)\<bar> < 1000
    \<and> \<bar>(ct_EndsAt r' - ct_TotalPausedDuration r') - (ct_EndsAt r - ct_TotalPausedDuration r)\<bar> \<le> 1
    \<and> ct_StartsAt r' = ct_StartsAt r \<and> ct_StartedAt r' = ct_StartedAt r"
  using assms(7)
proof (rule transitionTx_cases)
  fix row upd meta contest' d1
  assume row: "cd_contests d (tq_ContestID req) = Some row"
    and u: "transitionUpdate drv now req (lockedContest drv row) d = Inr (upd, meta, contest')"
    and d1: "d1 = update_contest (tq_ContestID req) upd d" "cd_contests d' = cd_contests d1"
  have dur: "pauseDuration now (lockedContest drv r) = now - 1000 * p"
    using assms(4,5) by (simp add: pauseDuration_def time_Sub_def is_i64_def Let_def)
  from row assms(2) have "row = r" by simp
  with u assms(3,4,6) dur obtain us where us: "pg_interval drv (now - 1000 * p) = Some us"
    and upd: "upd = (\<lambda>r. r\<lparr>ct_Status := StatusRunning, ct_EndsAt := pg_time drv (1000 * ct_EndsAt row + (now - 1000 * p)),
        ct_TotalPausedDuration := ct_TotalPausedDuration r + us, ct_PausedAt := None\<rparr>)"
    by (auto simp: transitionUpdate_def resumeUpdate_def Let_def split: option.splits if_splits)
  define e where "e = pg_time drv (1000 * ct_EndsAt r + (now - 1000 * p))"
  have e: "\<bar>1000 * e - (1000 * ct_EndsAt r + (now - 1000 * p))\<bar> < 1000" and m: "\<bar>1000 * us - (now - 1000 * p)\<bar> < 1000"
    using assms(1) us by (simp_all add: driver_ok_def e_def)
  have r': "cd_contests d' (tq_ContestID req) = Some (upd r)" by (simp add: d1 assms(2))
  have ends: "ct_EndsAt (upd r) = e" by (simp add: upd e_def \<open>row = r\<close>)
  show ?thesis
    by (rule exI [of _ "upd r"]) (use r' ends e m us_arith [OF e m] in \<open>simp add: upd algebra_simps\<close>)
qed

theorem resume_extends_end_witness:
  "\<exists>d' res r'. transitionTx sample_driver sample_id 7000000 (request ''c1'' StatusRunning None ''go'')
      (sample_cdb (sample_row\<lparr>ct_Status := StatusPaused, ct_PausedAt := Some 200, ct_IsFree := True\<rparr>) [''u1'']) = Inr (d', res)
    \<and> cd_contests d' ''c1'' = Some r' \<and> \<bar>1000 * (ct_EndsAt r' - 1000) - (7000000 - 1000 * 200)\<bar> < 1000"
proof -
  let ?r = "sample_row\<lparr>ct_Status := StatusPaused, ct_PausedAt := Some 200, ct_IsFree := True\<rparr>"
  have "\<exists>d' res. transitionTx sample_driver sample_id 7000000 (request ''c1'' StatusRunning None ''go'') (sample_cdb ?r [''u1'']) = Inr (d', res)"
    by (simp add: contest_eval resumeUpdate_def pauseDuration_def time_Sub_def lockedContest_def CanTransition_def)
  then obtain d' res where tx: "transitionTx sample_driver sample_id 7000000 (request ''c1'' StatusRunning None ''go'') (sample_cdb ?r [''u1'']) = Inr (d', res)"
    by blast
  show ?thesis
    using resume_extends_end [OF sample_driver_ok _ _ _ _ _ tx, of ?r 200] tx
    by (auto simp: request_def sample_cdb_def sample_row_def is_i64_def)
qed

section \<open>Starting and cancelling\<close>


lemma sample_start:
  "\<exists>d' res. transitionTx sample_driver sample_id 7000000 (request ''c1'' StatusRunning None ''go'')
      (sample_cdb (sample_row\<lparr>ct_Status := StatusRegistrationClosed\<rparr>) [''u1'', ''u2'']) = Inr (d', res)"
  by (simp add: contest_eval lockedContest_def CanTransition_def)


text \<open>
  The reason of a cancellation is stored in the contest row but does not reach the side effect
  handler: the struct that \<open>Transition\<close> hands over has no cancellation reason, so the refunds
  that the handler runs carry the quorum code whatever the reason was.
\<close>
theorem cancellation_reason_lost:
  assumes "transitionTx drv ni now req d = Inr (d', res)" "tq_ToStatus req = StatusCancelled"
  shows "(\<exists>r. cd_contests d' (tq_ContestID req) = Some r \<and> ct_CancellationReason r = Some (tq_Reason req))
    \<and> ct_CancellationReason (tr_Contest res) = None \<and> refundReasonCode (tr_Contest res) = RC_ContestRefundQuorum"
  using assms by (auto simp: transitionUpdate_def refundReasonCode_def Let_def elim!: transitionTx_cases)

theorem cancellation_reason_lost_witness:
  "\<exists>d' res. transitionTx sample_driver sample_id 7000000 (request ''c1'' StatusCancelled None ''fraud'') (sample_cdb sample_row []) = Inr (d', res)
    \<and> refundReasonCode (tr_Contest res) = RC_ContestRefundQuorum"
proof -
  have "\<exists>d' res. transitionTx sample_driver sample_id 7000000 (request ''c1'' StatusCancelled None ''fraud'') (sample_cdb sample_row []) = Inr (d', res)"
    by (simp add: contest_eval lockedContest_def CanTransition_def)
  then show ?thesis using cancellation_reason_lost by (fastforce simp: request_def)
qed

section \<open>The scheduler\<close>

lemma startCandidateD:
  assumes "startCandidate drv now d i = Some cand"
  shows "ac_ContestID cand = i" "ac_SuggestedStatus cand = StatusRunning"
    "\<exists>r. cd_contests d i = Some r \<and> ct_Status r = StatusRegistrationClosed
       \<and> ac_MinParticipants cand = ct_MinParticipants r \<and> ac_IsFree cand = ct_IsFree r"
    "ac_CurrentParticipants cand = int (length (realParticipants i d))"
  using assms by (auto simp: startCandidate_def split: option.splits if_splits)

lemma autoStartMin_eq:
  "ac_MinParticipants cand = ct_MinParticipants r \<Longrightarrow> ac_IsFree cand = ct_IsFree r \<Longrightarrow>
     autoStartMin cand = minRequired (lockedContest drv r)"
  by (simp add: autoStartMin_def minRequired_def Let_def)

text \<open>Transitions out of registration closed that the scheduler requests succeed.\<close>

lemma closed_start:
  assumes "cd_contests d i = Some r" "ct_Status r = StatusRegistrationClosed" "ct_ID r = i" "i \<noteq> ''''"
    and "ct_LifecyclePolicyVersion r \<noteq> ContestSnapshotPolicyV1" "minRequired (lockedContest drv r) \<le> int (length (realParticipants i d))"
  shows "\<exists>d' res. transitionTx drv ni now (request i StatusRunning None why) d = Inr (d', res) \<and> tr_ToStatus res = StatusRunning
    \<and> (\<exists>r'. cd_contests d' i = Some r' \<and> ct_Status r' = StatusRunning)"
  using assms by (simp add: transitionTx_def request_def validateTransition_def transitionUpdate_def insert_history_def
      startsModern_def Let_def)

lemma closed_cancel:
  assumes "cd_contests d i = Some r" "ct_Status r = StatusRegistrationClosed" "i \<noteq> ''''"
  shows "\<exists>d' res. transitionTx drv ni now (request i StatusCancelled None why) d = Inr (d', res) \<and> tr_ToStatus res = StatusCancelled
    \<and> cd_funds d' = cd_funds d \<and> (\<exists>r'. cd_contests d' i = Some r' \<and> ct_Status r' = StatusCancelled)"
  using assms by (simp add: transitionTx_def request_def validateTransition_def transitionUpdate_def insert_history_def
      startsModern_def Let_def)

definition keeps_contests :: "handlers \<Rightarrow> bool" where
  "keeps_contests hs \<longleftrightarrow> (\<forall>s h r d. hs s = Some h \<longrightarrow> cd_contests (h r d) = cd_contests d)"

lemma Transition_closed:
  assumes "transitionTx drv ni now req d = Inr (d', res)" "keeps_contests (SideEffectHandlers cfg)"
  shows "\<exists>d''. Transition cfg drv ni now req d = Inr (d'', res, publishContestStateEvent cfg res) \<and> cd_contests d'' = cd_contests d'"
  using assms by (auto simp: Transition_def runHandler_def keeps_contests_def split: option.split)


definition sample_config :: smConfig where
  "sample_config = \<lparr>KafkaProducer = None, SideEffectHandlers = \<lambda>_. None\<rparr>"

lemma sample_candidate:
  "\<exists>cand. startCandidate sample_driver 200000 (sample_cdb (sample_row\<lparr>ct_Status := StatusRegistrationClosed\<rparr>) us) ''c1'' = Some cand"
  by (simp add: startCandidate_def due_def sample_cdb_def sample_row_def sample_driver_def)

lemma sample_min: "minRequired (lockedContest sample_driver (sample_row\<lparr>ct_Status := StatusRegistrationClosed\<rparr>)) = 2"
  by (simp add: minRequired_def sample_row_def)


text \<open>
  (C37) An automatic cancellation refunds nobody: the scheduler's state machine has no side effect
  handlers and the auto-cancel branch returns before the scheduler runs its own, so a contest
  that misses its quorum is cancelled while every wallet, fee and pool balance stays as it was,
  entry fees included, whatever handlers the scheduler registered.
\<close>
theorem auto_cancel_refunds_nobody:
  assumes "startCandidate drv now d i = Some cand" "i \<noteq> ''''" "SideEffectHandlers cfg = (\<lambda>_. None)"
    and "int (length (realParticipants i d)) < autoStartMin cand"
  shows "\<exists>d' r'. executeTransition cfg effects drv ni clock cand d = (d', Inr ()) \<and> cd_contests d' i = Some r'
    \<and> ct_Status r' = StatusCancelled \<and> cd_funds d' = cd_funds d"
proof -
  note c = startCandidateD [OF assms(1)]
  from c(3) obtain r where r: "cd_contests d i = Some r" "ct_Status r = StatusRegistrationClosed" by blast
  obtain d1 res where tx: "transitionTx drv (ni 0) (clock 0)
      (request i StatusCancelled None (cancelReason (ac_CurrentParticipants cand) (autoStartMin cand))) d = Inr (d1, res)"
    and res: "cd_funds d1 = cd_funds d" "\<exists>r'. cd_contests d1 i = Some r' \<and> ct_Status r' = StatusCancelled"
    using closed_cancel [OF r assms(2)] by blast
  have o: "orDefault (cancelReason n m) x = cancelReason n m" for n m x by (simp add: orDefault_def cancelReason_def)
  have "executeTransition cfg effects drv ni clock cand d = (d1, Inr ())"
    using c tx assms(3,4) by (simp add: executeTransition_def executeStep_def Cancel_def Transition_def runHandler_def o)
  with res show ?thesis by blast
qed

theorem auto_cancel_refunds_nobody_witness:
  "\<exists>cand d' r'. executeTransition sample_config (\<lambda>s. if s = StatusCancelled then Some (OnCancelled id) else None)
      sample_driver (\<lambda>_. sample_id) (\<lambda>_. 200000) cand
      (sample_cdb (sample_row\<lparr>ct_Status := StatusRegistrationClosed\<rparr>) [''u1'']) = (d', Inr ())
    \<and> cd_contests d' ''c1'' = Some r' \<and> ct_Status r' = StatusCancelled \<and> cd_funds d' = sample_admitted"
proof -
  let ?r = "sample_row\<lparr>ct_Status := StatusRegistrationClosed\<rparr>"
  let ?d = "sample_cdb ?r [''u1'']"
  obtain cand where c: "startCandidate sample_driver 200000 ?d ''c1'' = Some cand" using sample_candidate by blast
  have "cd_contests ?d ''c1'' = Some ?r" by (simp add: sample_cdb_def)
  with startCandidateD(3) [OF c] have "autoStartMin cand = 2" using autoStartMin_eq [of cand ?r sample_driver] sample_min by auto
  moreover have "length (realParticipants ''c1'' ?d) = 1" by (simp add: contest_eval)
  ultimately show ?thesis
    using auto_cancel_refunds_nobody [OF c, of sample_config "\<lambda>s. if s = StatusCancelled then Some (OnCancelled id) else None" "\<lambda>_. sample_id" "\<lambda>_. 200000"]
    by (auto simp: sample_config_def sample_cdb_def)
qed

section \<open>Economics cutoff\<close>

lemma validateAdmissionEvidence_Inr:
  "validateAdmissionEvidence c row st p d = Inr (b, s) \<Longrightarrow>
     b = fst (SplitEntryFee (entryFee row) (feeBps row))
     \<and> s = (if cp_joinedAt p < st then 0 else LateJoinSurchargeCents (entryFee row))"
  by (auto simp: validateAdmissionEvidence_def Let_def rbind_eq_Inr split: if_splits prod.splits)

lemma sumEvidence_exact:
  assumes "sumEvidence c row st d ps (b0, s0) = Inr (b, s)"
    and "0 \<le> fst (SplitEntryFee (entryFee row) (feeBps row))" "0 \<le> LateJoinSurchargeCents (entryFee row)"
    and "0 \<le> b0" "b0 \<le> max_i64" "0 \<le> s0" "s0 \<le> max_i64"
  shows "b = b0 + int (length (filter cp_economic ps)) * fst (SplitEntryFee (entryFee row) (feeBps row))
    \<and> s = s0 + int (length (filter (\<lambda>p. cp_economic p \<and> \<not> cp_joinedAt p < st) ps)) * LateJoinSurchargeCents (entryFee row)"
  using assms
proof (induction ps arbitrary: b0 s0)
  case (Cons p ps)
  show ?case
  proof (cases "cp_economic p")
    case False
    with Cons show ?thesis by simp
  next
    case True
    define base where "base = fst (SplitEntryFee (entryFee row) (feeBps row))"
    with Cons.prems True obtain b1 s1 where v: "validateAdmissionEvidence c row st p d = Inr (b1, s1)"
      and le: "b1 \<le> wrap64 (max_i64 - b0)" "s1 \<le> wrap64 (max_i64 - s0)"
      and rest: "sumEvidence c row st d ps (wrap64 (b0 + b1), wrap64 (s0 + s1)) = Inr (b, s)"
      by (auto simp: rbind_eq_Inr not_less split: if_splits)
    from validateAdmissionEvidence_Inr [OF v] have b1: "b1 = base"
      and s1: "s1 = (if cp_joinedAt p < st then 0 else LateJoinSurchargeCents (entryFee row))" by (simp_all add: base_def)
    have nn: "0 \<le> b1" "0 \<le> s1" using Cons.prems(2,3) b1 s1 by (simp_all add: base_def)
    have w: "wrap64 (max_i64 - b0) = max_i64 - b0" "wrap64 (max_i64 - s0) = max_i64 - s0"
      using Cons.prems by (simp_all add: is_i64_def)
    have acc: "b0 + b1 \<le> max_i64" "s0 + s1 \<le> max_i64" using le w by linarith+
    then have eq: "wrap64 (b0 + b1) = b0 + b1" "wrap64 (s0 + s1) = s0 + s1" using nn Cons.prems by (simp_all add: is_i64_def)
    have "b = (b0 + b1) + int (length (filter cp_economic ps)) * base
      \<and> s = (s0 + s1) + int (length (filter (\<lambda>p. cp_economic p \<and> \<not> cp_joinedAt p < st) ps)) * LateJoinSurchargeCents (entryFee row)"
      unfolding base_def
      by (rule Cons.IH [OF rest [unfolded eq] Cons.prems(2,3)]) (use nn acc Cons.prems in linarith)+
    with True b1 s1 show ?thesis by (simp add: base_def [symmetric] algebra_simps)
  qed
qed simp

lemma cutoffTotals_exact:
  assumes "cutoffTotals c row st d ps = Inr (gross, base, surcharge, pool)" "entryFee row * 10000 \<le> max_i64"
  shows "let n = int (length (filter cp_economic ps)) in
    0 \<le> entryFee row \<and> gross = n * entryFee row \<and> base = n * fst (SplitEntryFee (entryFee row) (feeBps row))
    \<and> pool = n * snd (SplitEntryFee (entryFee row) (feeBps row))
    \<and> surcharge = int (length (filter (\<lambda>p. cp_economic p \<and> \<not> cp_joinedAt p < st) ps)) * LateJoinSurchargeCents (entryFee row)"
proof -
  define n where "n = int (length (filter cp_economic ps))"
  define f where "f = entryFee row"
  from assms(1) have se: "sumEvidence c row st d ps (0, 0) = Inr (base, surcharge)" and f0: "0 \<le> f"
    and ov: "n > 0 \<longrightarrow> f \<le> go_quot max_i64 n" and g: "gross = wrap64 (n * f)" and p: "pool = wrap64 (gross - base)"
    by (auto simp: cutoffTotals_def rbind_eq_Inr Let_def cutoffPopulation_def f_def n_def split: if_splits prod.splits)
  have sp: "SplitEntryFee f (feeBps row) = (f * clampBps (feeBps row) div 10000, f - f * clampBps (feeBps row) div 10000)"
    using SplitEntryFee_exact f0 assms(2) by (simp add: f_def)
  have cl: "0 \<le> clampBps (feeBps row)" "clampBps (feeBps row) \<le> 10000" using clampBps_bounds by simp_all
  define q where "q = f * clampBps (feeBps row) div 10000"
  have "f * clampBps (feeBps row) \<le> f * 10000" using cl f0 by (simp add: mult_left_mono)
  then have q: "0 \<le> q" "q \<le> f" using cl f0 by (simp_all add: q_def pos_imp_zdiv_nonneg_iff div_le_dividend zdiv_mono1 [of _ "f * 10000" 10000, simplified])
  have surc: "0 \<le> LateJoinSurchargeCents f"
    using ComputeJoinCharge_parts [OF f0, of 0 True] assms(2) f0
    by (auto simp: f_def Let_def ComputeJoinCharge_def pos_imp_zdiv_nonneg_iff split: prod.splits)
  have b: "base = n * q \<and> surcharge = int (length (filter (\<lambda>p. cp_economic p \<and> \<not> cp_joinedAt p < st) ps)) * LateJoinSurchargeCents f"
    using sumEvidence_exact [OF se] q(1) surc sp by (simp add: f_def [symmetric] q_def [symmetric] n_def)
  have nf: "0 \<le> n * f" "n * f \<le> max_i64"
  proof -
    show "0 \<le> n * f" using f0 by (simp add: n_def)
    show "n * f \<le> max_i64"
    proof (cases "n > 0")
      case True
      with ov have "f \<le> max_i64 div n" by (simp add: go_quot_nonneg is_i64_def)
      then have "f * n \<le> max_i64 div n * n" using True by (simp add: mult_right_mono)
      also have "\<dots> \<le> max_i64" using True div_mult_mod_eq [of max_i64 n] pos_mod_sign [OF True, of max_i64] by linarith
      finally show ?thesis by (simp add: mult.commute)
    qed (simp add: n_def)
  qed
  then have gr: "gross = n * f" by (simp add: g is_i64_def)
  have "n * q \<le> n * f" "0 \<le> n * q" using q by (simp_all add: n_def mult_left_mono)
  then have "pool = n * f - n * q" using nf by (simp add: p gr b is_i64_def)
  with gr b f0 sp show ?thesis by (simp add: n_def [symmetric] f_def [symmetric] q_def [symmetric] right_diff_distrib Let_def)
qed


text \<open>A modern contest of which the start was recorded and the late-join window has passed.\<close>

definition sample_modern :: ContestCols where
  "sample_modern = sample_row\<lparr>ct_Status := StatusRunning, ct_StartedAt := Some 50, ct_LifecyclePolicyVersion := ''contest_snapshot_v1''\<rparr>"

definition sample_running :: cdb where
  "sample_running = (sample_cdb sample_modern [''u1''])\<lparr>cd_funds := sample_admitted\<lparr>db_now := 500\<rparr>,
     cd_snapshots := [baseSnapshot ''s1'' SnapshotStarted 50 StartedDetails sample_modern (sample_cdb sample_modern [''u1''])]\<rparr>"

lemma sample_cutoff: "LateJoinCutoff 100000 1000000 = 190000" "TralentV1PlannedWinners 1 = 0" "go_quot max_i64 1 = max_i64"
  "SplitEntryFee 2500 2000 = (500, 2000)"
  by code_simp+

lemmas cutoff_eval = EnsureEconomicsCutoff_def SnapshotByType_def cutoffParticipants_def economicAdmission_def
  cutoffTotals_def cutoffPopulation_def cutoffSnapshot_def reconcilePool_def validatePrizePoolReconciliation_def
  poolCredits_def validateAdmissionEvidence_def walletEvidence_def feeContext_def insert_snapshot_def
  snapshot_shape_def insertedOrExisting_def baseSnapshot_def entryFee_def feeBps_def ContestFundsPolicyV1_def


end
