(* ===== verification/Contest_Admission.thy ===== *)
theory Contest_Admission
  imports Contest_Join Contest_Properties
begin

text \<open>
  Admission and economics cutoff together: the rows that a paid join leaves in the ledgers are
  exactly the evidence that the cutoff later asks for, unless the join raced with the start of
  the contest; and a pause can reopen the join window after the cutoff.
\<close>

section \<open>Rows written by a paid join\<close>

lemma update_rows:
  "update_wallet_balance u b d = Inr d' \<Longrightarrow> db_ledger d' = db_ledger d \<and> db_fee_ledger d' = db_fee_ledger d
     \<and> db_now d' = db_now d"
  "update_treasury_balance b d = Inr d' \<Longrightarrow> db_ledger d' = db_ledger d \<and> db_fee_ledger d' = db_fee_ledger d \<and> db_now d' = db_now d"
  "update_fee_balance b d = Inr d' \<Longrightarrow> db_ledger d' = db_ledger d \<and> db_fee_ledger d' = db_fee_ledger d \<and> db_now d' = db_now d"
  "update_pool_balance c b d = Inr d' \<Longrightarrow> db_ledger d' = db_ledger d \<and> db_fee_ledger d' = db_fee_ledger d \<and> db_now d' = db_now d"
  "insert_treasury t d = Inr d' \<Longrightarrow> db_ledger d' = db_ledger d \<and> db_fee_ledger d' = db_fee_ledger d \<and> db_now d' = db_now d"
  "insert_pool p d = Inr d' \<Longrightarrow> db_ledger d' = db_ledger d \<and> db_fee_ledger d' = db_fee_ledger d \<and> db_now d' = db_now d"
  "insert_fee f d = Inr d' \<Longrightarrow> db_ledger d' = db_ledger d \<and> db_fee_ledger d' = db_fee_ledger d @ [f] \<and> db_now d' = db_now d"
  "insert_ledger e d = Inr d' \<Longrightarrow> db_ledger d' = db_ledger d @ [e] \<and> db_fee_ledger d' = db_fee_ledger d \<and> db_now d' = db_now d"
  by (auto simp: update_wallet_balance_def update_treasury_balance_def update_fee_balance_def update_pool_balance_def
      insert_treasury_def insert_pool_def insert_fee_def insert_ledger_def split: option.splits if_splits)

lemma deduct_rows:
  assumes "DeductContestEntryFeeWithName i u c n a d = Inr (d', x)" "0 < a" "ledger_by_key (contestEntryKey c u) d = None"
  shows "\<exists>e. db_ledger d' = db_ledger d @ [e] \<and> db_fee_ledger d' = db_fee_ledger d
    \<and> le_AmountCents e = wrap64 (- a) \<and> le_UserID e = u \<and> le_Type e = ContestEntry \<and> le_RefType e = Some ContestRef
    \<and> le_RefID e = Some c \<and> le_ReasonCode e = Some RC_ContestEntry \<and> le_IdempotencyKey e = Some (contestEntryKey c u)"
  using assms
  by (auto simp: DeductContestEntryFeeWithName_def res_simps Let_def createLedgerEntryWithIdempotency_def some_entry_def
      dest!: update_rows split: if_splits)

lemma fee_rows:
  assumes "PostContestFee up ti fi c u k a bps d = Inr (d', False)"
  shows "\<exists>b. db_fee_ledger d' = db_fee_ledger d @ [feeEntry fi c u k a b bps (db_now d)] \<and> db_ledger d' = db_ledger d"
  using assms
  by (cases "db_fee_account d"; cases "feeRow (admissionID c u) k d"; cases "feeTreasuryRow (admissionID c u) k d")
    (auto simp: PostContestFee_def rbind_eq_Inr Let_def dest!: update_rows split: if_splits)

lemma pool_rows:
  assumes "PostContestPrizeContribution up ti ei c u a d = Inr (d', b)"
  shows "db_fee_ledger d' = db_fee_ledger d \<and> db_ledger d' = db_ledger d"
  using assms
  by (cases "db_contests d c"; cases "db_pools d c";
      cases "List.find (\<lambda>p. pe_IdempotencyKey p = poolKey (admissionID c u)) (db_pool_ledger d)";
      cases "List.find (\<lambda>t. te_Kind t = ContestPoolAllocation \<and> te_AdmissionID t = Some (admissionID c u)) (db_treasury_ledger d)")
    (auto simp: PostContestPrizeContribution_def rbind_eq_Inr Let_def dest!: update_rows split: if_splits)

text \<open>The stages of \<open>chargeJoin\<close> as they leave the two ledgers.\<close>

lemma fee_stage_rows:
  assumes "(if a > 0 then rbind (PostContestFee up ti fi c u k a bps d) (\<lambda>(d, _). Inr d) else Inr d) = Inr d'"
    and "\<forall>f \<in> set (db_fee_ledger d). fe_AdmissionID f = admissionID c u \<longrightarrow> fe_Kind f \<noteq> k"
  shows "db_ledger d' = db_ledger d
    \<and> (\<exists>b t. db_fee_ledger d' = db_fee_ledger d @ (if a > 0 then [feeEntry fi c u k a b bps t] else []))"
proof (cases "a > 0")
  case True
  with assms(1) obtain b where ok: "PostContestFee up ti fi c u k a bps d = Inr (d', b)" by (auto simp: rbind_eq_Inr)
  have "feeRow (admissionID c u) k d = None" using assms(2) by (auto simp: feeRow_def find_None_iff)
  from PostContestFee_fresh [OF this ok] ok have "PostContestFee up ti fi c u k a bps d = Inr (d', False)" by simp
  from fee_rows [OF this] True show ?thesis by auto
qed (use assms(1) in simp)

lemma chargeJoin_rows:
  assumes "chargeJoin up ni c u n f bps late d = Inr d'" "0 < jc_TotalCents (ComputeJoinCharge f bps late)"
    and "fresh_admission c u d"
  shows "\<exists>e b1 t1 b2 t2. let ch = ComputeJoinCharge f bps late in
    db_ledger d' = db_ledger d @ [e] \<and> le_AmountCents e = wrap64 (- jc_TotalCents ch) \<and> le_UserID e = u
    \<and> le_Type e = ContestEntry \<and> le_RefType e = Some ContestRef \<and> le_RefID e = Some c
    \<and> le_ReasonCode e = Some RC_ContestEntry \<and> le_IdempotencyKey e = Some (contestEntryKey c u)
    \<and> db_fee_ledger d' = db_fee_ledger d
        @ (if jc_PlatformCents ch > 0 then [feeEntry (ni 2) c u ContestFeeKindBase (jc_PlatformCents ch) b1 bps t1] else [])
        @ (if jc_SurchargeCents ch > 0
           then [feeEntry (ni 4) c u ContestFeeKindLateSurcharge (jc_SurchargeCents ch) b2 bps t2] else [])"
proof -
  define ch where "ch = ComputeJoinCharge f bps late"
  obtain d1 x d2 d3 d4 where
    s1: "DeductContestEntryFeeWithName (ni 0) u c n (jc_TotalCents ch) d = Inr (d1, x)"
    and d2: "d2 = (if jc_PrizeCents ch > 0 \<or> jc_PlatformCents ch > 0
                 then bump_contest c (jc_PrizeCents ch) (jc_PlatformCents ch + jc_SurchargeCents ch) d1 else d1)"
    and s3: "(if jc_PlatformCents ch > 0 then rbind (PostContestFee up (ni 1) (ni 2) c u ContestFeeKindBase
        (jc_PlatformCents ch) bps d2) (\<lambda>(d, _). Inr d) else Inr d2) = Inr d3"
    and s4: "(if jc_SurchargeCents ch > 0 then rbind (PostContestFee up (ni 3) (ni 4) c u ContestFeeKindLateSurcharge
        (jc_SurchargeCents ch) bps d3) (\<lambda>(d, _). Inr d) else Inr d3) = Inr d4"
    and s5: "(if map_option cn_FundsPolicyVersion (db_contests d c) = Some ContestPrizePoolPolicyV1 \<and> jc_PrizeCents ch > 0
        then rbind (PostContestPrizeContribution up (ni 5) (ni 6) c u (jc_PrizeCents ch) d4) (\<lambda>(d, _). Inr d)
        else Inr d4) = Inr d'"
    using assms(1,2) unfolding chargeJoin_def Let_def ch_def [symmetric] rbind_eq_Inr if_P [OF assms(2) [folded ch_def]]
    by (auto simp: rbind_eq_Inr)
  have fr: "ledger_by_key (contestEntryKey c u) d = None" "\<forall>f \<in> set (db_fee_ledger d). fe_AdmissionID f \<noteq> admissionID c u"
    using assms(3) by (auto simp: fresh_admission_def)
  obtain e where e: "db_ledger d1 = db_ledger d @ [e]" "db_fee_ledger d1 = db_fee_ledger d"
      "le_AmountCents e = wrap64 (- jc_TotalCents ch)" "le_UserID e = u" "le_Type e = ContestEntry"
      "le_RefType e = Some ContestRef" "le_RefID e = Some c" "le_ReasonCode e = Some RC_ContestEntry"
      "le_IdempotencyKey e = Some (contestEntryKey c u)"
    using deduct_rows [OF s1 assms(2) [folded ch_def] fr(1)] by (elim exE conjE)
  have l2: "db_ledger d2 = db_ledger d1" "db_fee_ledger d2 = db_fee_ledger d" using e(2) by (auto simp: d2 bump_contest_def split: option.split)
  from fee_stage_rows [OF s3] fr(2) l2 obtain b1 t1 where l3: "db_ledger d3 = db_ledger d1" "db_fee_ledger d3 = db_fee_ledger d
      @ (if jc_PlatformCents ch > 0 then [feeEntry (ni 2) c u ContestFeeKindBase (jc_PlatformCents ch) b1 bps t1] else [])"
    by auto
  have "\<forall>f \<in> set (db_fee_ledger d3). fe_AdmissionID f = admissionID c u \<longrightarrow> fe_Kind f \<noteq> ContestFeeKindLateSurcharge"
    using fr(2) by (auto simp: l3(2) feeEntry_def custody_consts)
  from fee_stage_rows [OF s4 this] obtain b2 t2 where l4: "db_ledger d4 = db_ledger d1" "db_fee_ledger d4 = db_fee_ledger d3
      @ (if jc_SurchargeCents ch > 0 then [feeEntry (ni 4) c u ContestFeeKindLateSurcharge (jc_SurchargeCents ch) b2 bps t2] else [])"
    by (auto simp: l3(1))
  have l5: "db_ledger d' = db_ledger d4" "db_fee_ledger d' = db_fee_ledger d4"
    using s5 by (auto simp: rbind_eq_Inr dest: pool_rows split: if_splits)
  show ?thesis unfolding Let_def ch_def [symmetric]
    by (intro exI conjI, unfold l5 l4 l3 e(1)) (use e in auto)
qed

section \<open>The join transaction\<close>

lemma processAffiliateCommission_same [simp]:
  "cd_funds (processAffiliateCommission u c f d) = cd_funds d"
  "cd_contests (processAffiliateCommission u c f d) = cd_contests d"
  "cd_snapshots (processAffiliateCommission u c f d) = cd_snapshots d"
  by (auto simp: processAffiliateCommission_def Let_def split: option.split)

lemma insert_participant_same:
  assumes "insert_participant c u q d = Some d'"
  shows "cd_funds d' = cd_funds d \<and> cd_snapshots d' = cd_snapshots d
    \<and> cd_contests d' c = map_option (\<lambda>r. r\<lparr>ct_CurrentParticipants := ct_CurrentParticipants r + 1\<rparr>) (cd_contests d c)"
  using assms by (auto simp: insert_participant_def split: if_splits)

lemma EnsureContestConfirmed_same:
  assumes "EnsureContestConfirmed sn c d = Inr (d', s)"
  shows "cd_funds d' = cd_funds d
    \<and> filter (\<lambda>s. sn_Type s \<noteq> SnapshotConfirmed) (cd_snapshots d') = filter (\<lambda>s. sn_Type s \<noteq> SnapshotConfirmed) (cd_snapshots d)
    \<and> (\<exists>x. cd_contests d' c = map_option (\<lambda>r. r\<lparr>cc_ConfirmedAt := x\<rparr>) (cd_contests d c))"
proof -
  obtain r m where r: "cd_contests d c = Some r" "db_contests (cd_funds d) c = Some m"
    using assms by (cases "cd_contests d c"; cases "db_contests (cd_funds d) c") (auto simp: EnsureContestConfirmed_def)
  have keep: "\<exists>x. r = r\<lparr>cc_ConfirmedAt := x\<rparr>" by (rule exI [of _ "cc_ConfirmedAt r"]) simp
  from assms r show ?thesis
    by (auto simp: keep EnsureContestConfirmed_def rbind_eq_Inr baseSnapshot_def insert_snapshot_def insertedOrExisting_def split: if_splits sum.splits)
qed

text \<open>What a committed join has done to the row of the contest and to the funds.\<close>

lemma joinTx_Inr:
  assumes "joinTx up ni sn nowTx c u d = Inr (d', resp)" "cd_contests d c = Some r"
    and "bps = ResolvePlatformFeeBps (cc_PlatformFeeBps r) (ct_CommissionRate r)"
  obtains late why x y where "contestJoinAllowed r nowTx = (True, late, why)"
    "resp = Joined (ComputeJoinCharge (ct_EntryFeeCents r) bps late)"
    "chargeJoin up ni c u (ct_Name r) (ct_EntryFeeCents r) bps late (cd_funds d) = Inr (cd_funds d')"
    "cd_contests d' c = Some ((freezeEconomics bps (ct_EntryFeeCents r) (cd_now d) r)\<lparr>ct_CurrentParticipants := x, cc_ConfirmedAt := y\<rparr>)"
    "filter (\<lambda>s. sn_Type s \<noteq> SnapshotConfirmed) (cd_snapshots d') = filter (\<lambda>s. sn_Type s \<noteq> SnapshotConfirmed) (cd_snapshots d)"
proof -
  define d0 where "d0 = update_contest c (freezeEconomics bps (ct_EntryFeeCents r) (cd_now d)) d"
  obtain late why where ok: "contestJoinAllowed r nowTx = (True, late, why)"
    using assms by (cases "contestJoinAllowed r nowTx") (auto simp: joinTx_def Let_def split: if_splits bool.splits)
  have nex: "existingParticipant c u d0 = None"
    using assms(1,2) ok by (cases "existingParticipant c u d0") (auto simp: joinTx_def Let_def d0_def assms(3))
  obtain d1 where d1: "insert_participant c u (ct_QtyTotal r) d0 = Some d1"
    using assms(1,2) ok nex by (cases "insert_participant c u (ct_QtyTotal r) d0") (auto simp: joinTx_def Let_def d0_def assms(3))
  obtain funds where fu: "chargeJoin up ni c u (ct_Name r) (ct_EntryFeeCents r) bps late (cd_funds d1) = Inr funds"
    using assms(1,2) ok nex d1
    by (cases "chargeJoin up ni c u (ct_Name r) (ct_EntryFeeCents r) bps late (cd_funds d1)") (auto simp: joinTx_def Let_def d0_def assms(3))
  define d3 where "d3 = (if ct_EntryFeeCents r > 0 then processAffiliateCommission u c (ct_EntryFeeCents r) (d1\<lparr>cd_funds := funds\<rparr>)
    else d1\<lparr>cd_funds := funds\<rparr>)"
  have e: "joinTx up ni sn nowTx c u d = (case EnsureContestConfirmed sn c d3 of
        Inr (d4, _) \<Rightarrow> Inr (d4, Joined (ComputeJoinCharge (ct_EntryFeeCents r) bps late))
      | Inl ErrSnapshotNotReady \<Rightarrow> Inr (d3, Joined (ComputeJoinCharge (ct_EntryFeeCents r) bps late))
      | Inl _ \<Rightarrow> Inl (Rejected 500 ''internal error''))"
    using assms(2) ok nex d1 fu
    by (simp add: joinTx_def Let_def assms(3) [symmetric] d0_def [symmetric] d3_def split: sum.split snapshot_error.split prod.split)
  have f0: "cd_funds d1 = cd_funds d" "cd_snapshots d1 = cd_snapshots d" "cd_contests d1 c = Some ((freezeEconomics bps (ct_EntryFeeCents r) (cd_now d) r)
      \<lparr>ct_CurrentParticipants := ct_CurrentParticipants (freezeEconomics bps (ct_EntryFeeCents r) (cd_now d) r) + 1\<rparr>)"
    using insert_participant_same [OF d1] assms(2) by (simp_all add: d0_def)
  have f3: "cd_funds d3 = funds" "cd_contests d3 = cd_contests d1" "cd_snapshots d3 = cd_snapshots d1" by (simp_all add: d3_def)
  show ?thesis
  proof (cases "EnsureContestConfirmed sn c d3")
    case (Inr p)
    obtain d4 s where p: "p = (d4, s)" by (cases p)
    with Inr EnsureContestConfirmed_same [of sn c d3 d4 s] obtain y where
      "cd_funds d' = funds"
      "filter (\<lambda>s. sn_Type s \<noteq> SnapshotConfirmed) (cd_snapshots d') = filter (\<lambda>s. sn_Type s \<noteq> SnapshotConfirmed) (cd_snapshots d1)"
      "cd_contests d' c = map_option (\<lambda>r. r\<lparr>cc_ConfirmedAt := y\<rparr>) (cd_contests d1 c)"
      "resp = Joined (ComputeJoinCharge (ct_EntryFeeCents r) bps late)"
      using assms(1) by (auto simp: e f3)
    with that [OF ok, of y] fu f0 show ?thesis by simp
  next
    case (Inl e')
    have q: "q = q\<lparr>cc_ConfirmedAt := cc_ConfirmedAt q\<rparr>" for q :: ContestCols by simp
    from Inl assms(1) have "d' = d3" "resp = Joined (ComputeJoinCharge (ct_EntryFeeCents r) bps late)"
      by (cases e'; simp add: e)+
    with that [OF ok] fu f0 f3 show ?thesis by (metis q)
  qed
qed

section \<open>The evidence of an admission\<close>

definition unused_admission :: "string \<Rightarrow> string \<Rightarrow> db \<Rightarrow> bool" where
  "unused_admission c u d \<longleftrightarrow> fresh_admission c u d
     \<and> (\<forall>f \<in> set (db_fee_ledger d). \<not> (fe_ContestID f = c \<and> fe_ParticipantUserID f = u))"

text \<open>A paid contest whose fee is in force and not frozen at another value.\<close>

definition paid_contest :: "ContestCols \<Rightarrow> bool" where
  "paid_contest r \<longleftrightarrow> \<not> ct_IsFree r \<and> 0 < ct_EntryFeeCents r \<and> ct_EntryFeeCents r * 10000 \<le> max_i64
     \<and> 0 < cc_PlatformFeeBps r \<and> cc_PlatformFeeBps r \<le> 10000
     \<and> (cc_LockedEntryFeeCents r = None \<or> cc_LockedEntryFeeCents r = Some (ct_EntryFeeCents r))
     \<and> (cc_LockedPlatformFeeBps r = None \<or> cc_LockedPlatformFeeBps r = Some (cc_PlatformFeeBps r))"

lemma frozen_row:
  assumes "paid_contest r" "r' = (freezeEconomics (cc_PlatformFeeBps r) (ct_EntryFeeCents r) t r)\<lparr>ct_CurrentParticipants := x, cc_ConfirmedAt := y\<rparr>"
  shows "entryFee r' = ct_EntryFeeCents r" "feeBps r' = cc_PlatformFeeBps r" "cc_LateJoinEnabled r' = cc_LateJoinEnabled r"
    "ct_StartsAt r' = ct_StartsAt r" "ct_EndsAt r' = ct_EndsAt r"
  using assms by (auto simp: paid_contest_def freezeEconomics_def enforceFeeBps_def entryFee_def feeBps_def split: option.split)

lemma JoinAllowed_True:
  assumes "JoinAllowed s free enabled a b now = (True, late, why)"
  shows "(late \<longleftrightarrow> s = ''running'') \<and> (late \<longrightarrow> enabled \<and> now < LateJoinCutoff a b)"
  using assms by (auto simp: JoinAllowed_def Let_def split: if_splits)


lemma wrap64_minus_iff: "wrap64 (- a) = wrap64 (- b) \<longleftrightarrow> wrap64 a = wrap64 b"
proof
  have m: "wrap64 (- x) = wrap64 (0 - wrap64 x)" for x by (simp only: wrap64_mod_simps) simp
  show "wrap64 (- a) = wrap64 (- b)" if "wrap64 a = wrap64 b" unfolding m that ..
  show "wrap64 a = wrap64 b" if "wrap64 (- a) = wrap64 (- b)" using m [of "- a"] m [of "- b"] that by simp
qed

lemma contestJoinAllowed_True:
  assumes "contestJoinAllowed r now = (True, late, why)"
  shows "late \<longleftrightarrow> status_String (ct_Status r) = ''running''"
    and "late \<Longrightarrow> cc_LateJoinEnabled r \<and> now < LateJoinCutoff (1000 * ct_StartsAt r) (1000 * ct_EndsAt r)"
  using JoinAllowed_True [OF assms [unfolded contestJoinAllowed_def]] by simp_all

text \<open>
  The rows of a charge are read back: the wallet row is the only one with its key and carries the
  charged total, and the fee rows count once each.
\<close>

lemma charge_walletEvidence:
  assumes "chargeJoin up ni c u n f bps late d = Inr d'" "0 < jc_TotalCents (ComputeJoinCharge f bps late)" "unused_admission c u d"
  shows "walletEvidence c u x d' \<longleftrightarrow> wrap64 x = jc_TotalCents (ComputeJoinCharge f bps late)"
proof -
  have k: "filter (\<lambda>e. le_IdempotencyKey e = Some (contestEntryKey c u)) (db_ledger d) = []"
    using assms(3) by (auto simp: unused_admission_def fresh_admission_def ledger_by_key_def find_None_iff filter_empty_conv)
  have "is_i64 (jc_TotalCents (ComputeJoinCharge f bps late))"
    by (simp add: ComputeJoinCharge_def Let_def case_prod_beta)
  then have "wrap64 (- jc_TotalCents (ComputeJoinCharge f bps late)) = wrap64 (- x) \<longleftrightarrow> jc_TotalCents (ComputeJoinCharge f bps late) = wrap64 x"
    by (simp only: wrap64_minus_iff wrap64_id)
  moreover have "fresh_admission c u d" using assms(3) by (simp add: unused_admission_def)
  then obtain e where e: "db_ledger d' = db_ledger d @ [e]"
      "le_AmountCents e = wrap64 (- jc_TotalCents (ComputeJoinCharge f bps late))" "le_UserID e = u" "le_Type e = ContestEntry"
      "le_RefType e = Some ContestRef" "le_RefID e = Some c" "le_ReasonCode e = Some RC_ContestEntry"
      "le_IdempotencyKey e = Some (contestEntryKey c u)"
    using chargeJoin_rows [OF assms(1,2)] unfolding Let_def by blast
  ultimately show ?thesis using k by (auto simp: walletEvidence_def)
qed

lemma charge_countFees:
  assumes "chargeJoin up ni c u n f bps late d = Inr d'" "0 < jc_TotalCents (ComputeJoinCharge f bps late)" "unused_admission c u d"
    and "ch = ComputeJoinCharge f bps late"
  shows "countFees c u bps (jc_PlatformCents ch) (jc_SurchargeCents ch)
     (filter (\<lambda>f. fe_AdmissionID f = admissionID c u \<or> fe_ContestID f = c \<and> fe_ParticipantUserID f = u) (db_fee_ledger d')) (0, 0)
     = Inr (if jc_PlatformCents ch > 0 then 1 else 0, if jc_SurchargeCents ch > 0 then 1 else 0)"
proof -
  have k: "filter (\<lambda>f. fe_AdmissionID f = admissionID c u \<or> fe_ContestID f = c \<and> fe_ParticipantUserID f = u) (db_fee_ledger d) = []"
    using assms(3) by (auto simp: unused_admission_def fresh_admission_def filter_empty_conv)
  have "fresh_admission c u d" using assms(3) by (simp add: unused_admission_def)
  then obtain b1 t1 b2 t2 where "db_fee_ledger d' = db_fee_ledger d
        @ (if jc_PlatformCents ch > 0 then [feeEntry (ni 2) c u ContestFeeKindBase (jc_PlatformCents ch) b1 bps t1] else [])
        @ (if jc_SurchargeCents ch > 0
           then [feeEntry (ni 4) c u ContestFeeKindLateSurcharge (jc_SurchargeCents ch) b2 bps t2] else [])"
    using chargeJoin_rows [OF assms(1,2)] unfolding Let_def assms(4) by blast
  with k show ?thesis
    by (auto simp: feeEntry_def feeContext_def custody_consts ContestFundsPolicyV1_def)
qed

text \<open>
  The state of the tables that an admission leaves for the evidence check: the row of the contest
  asks for what was charged, and the two ledgers hold it.
\<close>

definition evidence_ready :: "string \<Rightarrow> string \<Rightarrow> bool \<Rightarrow> int \<Rightarrow> JoinCharge \<Rightarrow> ContestCols \<Rightarrow> db \<Rightarrow> bool" where
  "evidence_ready c u late nowTx ch r d \<longleftrightarrow>
     0 < entryFee r \<and> fst (SplitEntryFee (entryFee r) (feeBps r)) = jc_PlatformCents ch \<and> 0 \<le> jc_PlatformCents ch \<and> 0 \<le> jc_SurchargeCents ch
     \<and> jc_SurchargeCents ch = (if late then LateJoinSurchargeCents (entryFee r) else 0)
     \<and> is_i64 (entryFee r + jc_SurchargeCents ch) \<and> is_i64 (entryFee r)
     \<and> (\<forall>x. walletEvidence c u x d \<longleftrightarrow> wrap64 x = wrap64 (entryFee r + jc_SurchargeCents ch))
     \<and> countFees c u (feeBps r) (jc_PlatformCents ch) (jc_SurchargeCents ch)
         (filter (\<lambda>f. fe_AdmissionID f = admissionID c u \<or> fe_ContestID f = c \<and> fe_ParticipantUserID f = u) (db_fee_ledger d)) (0, 0)
       = Inr (if jc_PlatformCents ch > 0 then 1 else 0, if jc_SurchargeCents ch > 0 then 1 else 0)
     \<and> (late \<longrightarrow> cc_LateJoinEnabled r \<and> nowTx < LateJoinCutoff (1000 * ct_StartsAt r) (1000 * ct_EndsAt r))"

lemma join_evidence:
  assumes "joinTx up ni sn nowTx c u d = Inr (d', Joined ch)" "cd_contests d c = Some r" "paid_contest r"
    and "unused_admission c u (cd_funds d)"
  shows "\<exists>r'. cd_contests d' c = Some r' \<and> evidence_ready c u (status_String (ct_Status r) = ''running'') nowTx ch r' (cd_funds d')"
proof -
  have res: "cc_PlatformFeeBps r = ResolvePlatformFeeBps (cc_PlatformFeeBps r) (ct_CommissionRate r)"
    using assms(3) by (simp add: paid_contest_def ResolvePlatformFeeBps_def)
  obtain late why x y where j: "contestJoinAllowed r nowTx = (True, late, why)"
    "Joined ch = Joined (ComputeJoinCharge (ct_EntryFeeCents r) (cc_PlatformFeeBps r) late)"
    "chargeJoin up ni c u (ct_Name r) (ct_EntryFeeCents r) (cc_PlatformFeeBps r) late (cd_funds d) = Inr (cd_funds d')"
    "cd_contests d' c = Some ((freezeEconomics (cc_PlatformFeeBps r) (ct_EntryFeeCents r) (cd_now d) r)\<lparr>ct_CurrentParticipants := x, cc_ConfirmedAt := y\<rparr>)"
    by (rule joinTx_Inr [OF assms(1,2) res])
  define r' where "r' = (freezeEconomics (cc_PlatformFeeBps r) (ct_EntryFeeCents r) (cd_now d) r)\<lparr>ct_CurrentParticipants := x, cc_ConfirmedAt := y\<rparr>"
  note row = frozen_row [OF assms(3) r'_def]
  from j(2) have ch: "ch = ComputeJoinCharge (ct_EntryFeeCents r) (cc_PlatformFeeBps r) late" by simp
  note late = contestJoinAllowed_True [OF j(1)]
  have fee: "0 < ct_EntryFeeCents r" "ct_EntryFeeCents r * 10000 \<le> max_i64" using assms(3) by (simp_all add: paid_contest_def)
  have parts: "jc_TotalCents ch = ct_EntryFeeCents r + jc_SurchargeCents ch" "0 \<le> jc_SurchargeCents ch"
      "jc_SurchargeCents ch \<le> ct_EntryFeeCents r" "0 \<le> jc_PlatformCents ch"
    using ComputeJoinCharge_parts [OF less_imp_le [OF fee(1)] fee(2), of "cc_PlatformFeeBps r" late] fee(1) by (auto simp: ch Let_def)
  then have pos: "0 < jc_TotalCents (ComputeJoinCharge (ct_EntryFeeCents r) (cc_PlatformFeeBps r) late)" using fee(1) by (simp add: ch)
  have split: "jc_PlatformCents ch = fst (SplitEntryFee (ct_EntryFeeCents r) (cc_PlatformFeeBps r))"
    "jc_SurchargeCents ch = (if late then LateJoinSurchargeCents (ct_EntryFeeCents r) else 0)"
    "jc_TotalCents ch = wrap64 (ct_EntryFeeCents r + jc_SurchargeCents ch)"
    by (simp_all add: ch ComputeJoinCharge_def Let_def case_prod_beta)
  have i64: "is_i64 (ct_EntryFeeCents r + jc_SurchargeCents ch)" "is_i64 (ct_EntryFeeCents r)"
    using fee parts(2,3) by (auto simp: is_i64_def)
  have wal: "walletEvidence c u x (cd_funds d') \<longleftrightarrow> wrap64 x = wrap64 (ct_EntryFeeCents r + jc_SurchargeCents ch)" for x
    using charge_walletEvidence [OF j(3) pos assms(4), of x] split(3) by (simp add: ch [symmetric])
  have "evidence_ready c u late nowTx ch r' (cd_funds d')"
    unfolding evidence_ready_def row
    by (intro conjI allI impI fee(1) parts(2,4) split(1) [symmetric] split(2) i64 wal charge_countFees [OF j(3) pos assms(4) ch])
      (use late(2) in auto)
  with j(4) late(1) show ?thesis by (simp add: r'_def)
qed

text \<open>
  (C38) What the join writes is what the cutoff asks for: after a committed paid join of a user
  without earlier rows for the contest, the evidence check of the economics cutoff accepts the
  admission and reads back exactly the platform fee and the surcharge that were charged, provided
  the join transaction began after the recorded start exactly when it was charged as late, and the
  clock of the database is not ahead of the server that checked the join window.
\<close>
theorem join_evidence_accepted:
  assumes "joinTx up ni sn nowTx c u d = Inr (d', Joined ch)" "cd_contests d c = Some r" "paid_contest r"
    and "unused_admission c u (cd_funds d)"
    and "startedAt \<le> cd_now d \<longleftrightarrow> status_String (ct_Status r) = ''running''" "1000 * cd_now d \<le> nowTx"
  shows "\<exists>r'. cd_contests d' c = Some r' \<and> validateAdmissionEvidence c r' startedAt
      \<lparr>cp_userID = u, cp_joinedAt = cd_now d, cp_economic = economic, cp_leaderboardEligible = eligible\<rparr> d'
    = Inr (jc_PlatformCents ch, jc_SurchargeCents ch)"
proof -
  obtain r' where r': "cd_contests d' c = Some r'" "evidence_ready c u (status_String (ct_Status r) = ''running'') nowTx ch r' (cd_funds d')"
    using join_evidence [OF assms(1-4)] by blast
  note ready = r'(2) [unfolded evidence_ready_def]
  have sur: "(if startedAt \<le> cd_now d then LateJoinSurchargeCents (entryFee r') else 0) = jc_SurchargeCents ch"
    using ready by (simp only: assms(5))
  have "validateAdmissionEvidence c r' startedAt
      \<lparr>cp_userID = u, cp_joinedAt = cd_now d, cp_economic = economic, cp_leaderboardEligible = eligible\<rparr> d'
    = Inr (jc_PlatformCents ch, jc_SurchargeCents ch)"
    using ready assms(5,6) unfolding validateAdmissionEvidence_def Let_def by (auto simp: not_less sur)
  with r'(1) show ?thesis by blast
qed

text \<open>
  A join that races with the start fails the cutoff: when the join was charged as late but
  its transaction began before the recorded start of the contest, with a positive surcharge, the
  evidence check recomputes the charge without the surcharge and rejects the wallet row.
\<close>
theorem start_race_blocks_evidence:
  assumes "joinTx up ni sn nowTx c u d = Inr (d', Joined ch)" "cd_contests d c = Some r" "paid_contest r"
    and "unused_admission c u (cd_funds d)"
    and "status_String (ct_Status r) = ''running''" "cd_now d < startedAt" "0 < jc_SurchargeCents ch"
  shows "\<exists>r'. cd_contests d' c = Some r' \<and> validateAdmissionEvidence c r' startedAt
      \<lparr>cp_userID = u, cp_joinedAt = cd_now d, cp_economic = economic, cp_leaderboardEligible = eligible\<rparr> d'
    = Inl (ErrAdmissionEvidence ''wallet admission'')"
proof -
  obtain r' where r': "cd_contests d' c = Some r'" "evidence_ready c u True nowTx ch r' (cd_funds d')"
    using join_evidence [OF assms(1-4)] assms(5) by auto
  then have "is_i64 (entryFee r')" "is_i64 (entryFee r' + jc_SurchargeCents ch)"
    unfolding evidence_ready_def by blast+
  then have "wrap64 (entryFee r') \<noteq> wrap64 (entryFee r' + jc_SurchargeCents ch)"
    using assms(7) by (simp only: wrap64_id)
  with r' assms(6) have "validateAdmissionEvidence c r' startedAt
      \<lparr>cp_userID = u, cp_joinedAt = cd_now d, cp_economic = economic, cp_leaderboardEligible = eligible\<rparr> d'
    = Inl (ErrAdmissionEvidence ''wallet admission'')"
    by (simp add: validateAdmissionEvidence_def Let_def evidence_ready_def)
  with r'(1) show ?thesis by blast
qed

lemma find_filter: "(\<And>x. P x \<Longrightarrow> Q x) \<Longrightarrow> List.find P (filter Q xs) = List.find P xs"
  by (induction xs) auto

text \<open>
  The join does not look at the economics cutoff: a join that is charged after the cutoff of
  the contest was taken, when the late-join window has moved with a pause, adds its contribution to
  the prize pool while the snapshot keeps the old one, so the two no longer agree.
\<close>
theorem late_join_after_cutoff:
  assumes "joinTx up ni sn nowTx c u d = Inr (d', Joined ch)" "cd_contests d c = Some r" "paid_contest r"
    and "funds_inv (cd_funds d)" "fresh_admission c u (cd_funds d)"
    and "map_option cn_FundsPolicyVersion (db_contests (cd_funds d) c) = Some ContestPrizePoolPolicyV1"
    and "SnapshotByType c SnapshotEconomicsCutoff d = Inr s" "sn_PrizePoolCents s = pool_balance (cd_funds d) c"
    and "pool_balance (cd_funds d) c = Some p" "0 < jc_PrizeCents ch"
  shows "SnapshotByType c SnapshotEconomicsCutoff d' = Inr s
    \<and> pool_balance (cd_funds d') c = Some (p + jc_PrizeCents ch) \<and> sn_PrizePoolCents s \<noteq> pool_balance (cd_funds d') c"
proof -
  have res: "cc_PlatformFeeBps r = ResolvePlatformFeeBps (cc_PlatformFeeBps r) (ct_CommissionRate r)"
    and fee: "0 \<le> ct_EntryFeeCents r" "ct_EntryFeeCents r * 10000 \<le> max_i64"
    using assms(3) by (simp_all add: paid_contest_def ResolvePlatformFeeBps_def)
  obtain late where j: "ch = ComputeJoinCharge (ct_EntryFeeCents r) (cc_PlatformFeeBps r) late"
    "chargeJoin up ni c u (ct_Name r) (ct_EntryFeeCents r) (cc_PlatformFeeBps r) late (cd_funds d) = Inr (cd_funds d')"
    "filter (\<lambda>s. sn_Type s \<noteq> SnapshotConfirmed) (cd_snapshots d') = filter (\<lambda>s. sn_Type s \<noteq> SnapshotConfirmed) (cd_snapshots d)"
    by (rule joinTx_Inr [OF assms(1,2) res]) auto
  have "List.find (\<lambda>s. sn_ContestID s = c \<and> sn_Type s = SnapshotEconomicsCutoff) (filter (\<lambda>s. sn_Type s \<noteq> SnapshotConfirmed) xs)
      = List.find (\<lambda>s. sn_ContestID s = c \<and> sn_Type s = SnapshotEconomicsCutoff) xs" for xs
    by (rule find_filter) auto
  from this [of "cd_snapshots d'"] this [of "cd_snapshots d"]
  have "SnapshotByType c SnapshotEconomicsCutoff d' = SnapshotByType c SnapshotEconomicsCutoff d"
    by (simp only: SnapshotByType_def j(3))
  moreover have "pool_balance (cd_funds d') c = Some (p + jc_PrizeCents ch)"
    using chargeJoin_effect [OF assms(4) fee assms(5,6) j(2)] assms(9) by (simp add: Let_def j(1))
  ultimately show ?thesis using assms(7-10) by simp
qed

section \<open>Concrete joins\<close>

lemma sample_late_charge: "ComputeJoinCharge 2500 2000 True = \<lparr>jc_BaseEntryCents = 2500, jc_SurchargeCents = 250,
    jc_TotalCents = 2750, jc_IsLate = True, jc_PlatformCents = 500, jc_PrizeCents = 2000\<rparr>"
  by code_simp

text \<open>The charge of the deposited user on time and late, at any time of the transaction.\<close>

definition sample_funds_at :: "int \<Rightarrow> db" where
  "sample_funds_at t = sample_db\<lparr>db_now := t\<rparr>"

lemma sample_charged:
  "\<exists>f m a. chargeJoin (\<lambda>_. True) sample_id ''c1'' ''u1'' ''Cup'' 2500 2000 False (sample_funds_at t) = Inr f
     \<and> db_contests f ''c1'' = Some m \<and> db_pools f ''c1'' = Some a"
  unfolding chargeJoin_def Let_def sample_charge
  by (simp add: custody_eval DeductContestEntryFeeWithName_def PostContestFee_def PostContestPrizeContribution_def
      bump_contest_def sample_funds_at_def)

lemma sample_charged_late:
  "\<exists>f m a. chargeJoin (\<lambda>_. True) sample_id ''c1'' ''u1'' ''Cup'' 2500 2000 True (sample_funds_at t) = Inr f
     \<and> db_contests f ''c1'' = Some m \<and> db_pools f ''c1'' = Some a"
  unfolding chargeJoin_def Let_def sample_late_charge
  by (simp add: custody_eval DeductContestEntryFeeWithName_def PostContestFee_def PostContestPrizeContribution_def
      bump_contest_def sample_funds_at_def)

lemma sample_funds_at_simps:
  "unused_admission ''c1'' ''u1'' (sample_funds_at t)" "funds_inv (sample_funds_at t)" "''u1'' \<in> db_users (sample_funds_at t)"
  "db_now (sample_funds_at t) = t" "pool_balance (sample_funds_at t) ''c1'' = Some 0"
  "map_option cn_FundsPolicyVersion (db_contests (sample_funds_at t) ''c1'') = Some ContestPrizePoolPolicyV1"
proof -
  show "funds_inv (sample_funds_at t)"
    using frame_funds [OF sample_funds, of "sample_funds_at t"] by (simp add: sample_funds_at_def same_custody_def)
qed (simp_all add: sample_funds_at_def unused_admission_def fresh_admission_def sample_db_def ledger_by_key_def
    contestEntryKey_def pool_balance_def custody_consts)

definition join_row :: "ContestStatus \<Rightarrow> ContestCols" where
  "join_row s = sample_row\<lparr>ct_Status := s\<rparr>"

definition join_cdb :: "ContestCols \<Rightarrow> int \<Rightarrow> cdb" where
  "join_cdb r t = (sample_cdb r [])\<lparr>cd_funds := sample_funds_at t\<rparr>"

lemma join_row_simps:
  "paid_contest (join_row s)" "ct_Status (join_row s) = s" "ct_EntryFeeCents (join_row s) = 2500"
  "cc_PlatformFeeBps (join_row s) = 2000" "ct_Name (join_row s) = ''Cup''"
  "cd_contests (join_cdb r t) ''c1'' = Some r" "cd_funds (join_cdb r t) = sample_funds_at t"
  by (simp_all add: join_row_def sample_row_def paid_contest_def join_cdb_def sample_cdb_def)

lemma sample_joinTx:
  "\<exists>d'. joinTx (\<lambda>_. True) sample_id ''s1'' 9000 ''c1'' ''u1'' (join_cdb (join_row StatusRegistrationOpen) 9)
     = Inr (d', Joined (ComputeJoinCharge 2500 2000 False))"
  "\<exists>d'. joinTx (\<lambda>_. True) sample_id ''s1'' 150000 ''c1'' ''u1'' (join_cdb (join_row StatusRunning) 9)
     = Inr (d', Joined (ComputeJoinCharge 2500 2000 True))"
  using sample_charged [of 9] sample_charged_late [of 9] sample_cutoff(1) sample_funds_at_simps(3)
  by (auto simp: joinTx_def join_cdb_def join_row_def sample_cdb_def sample_row_def contestJoinAllowed_def JoinAllowed_def
      ResolvePlatformFeeBps_def existingParticipant_def insert_participant_def update_contest_def
      processAffiliateCommission_def freezeEconomics_def enforceFeeBps_def EnsureContestConfirmed_def
      ContestSnapshotPolicyV1_def insertedOrExisting_def SnapshotByType_def Let_def)

theorem join_evidence_accepted_witness:
  "\<exists>d' r'. joinTx (\<lambda>_. True) sample_id ''s1'' 9000 ''c1'' ''u1'' (join_cdb (join_row StatusRegistrationOpen) 9)
      = Inr (d', Joined (ComputeJoinCharge 2500 2000 False))
    \<and> validateAdmissionEvidence ''c1'' r' 50
        \<lparr>cp_userID = ''u1'', cp_joinedAt = 9, cp_economic = True, cp_leaderboardEligible = True\<rparr> d' = Inr (500, 0)"
proof -
  obtain d' where ok: "joinTx (\<lambda>_. True) sample_id ''s1'' 9000 ''c1'' ''u1'' (join_cdb (join_row StatusRegistrationOpen) 9)
      = Inr (d', Joined (ComputeJoinCharge 2500 2000 False))" using sample_joinTx(1) by blast
  from join_evidence_accepted [OF ok join_row_simps(6) join_row_simps(1), of 50 True True] ok show ?thesis
    by (auto simp: join_row_simps sample_funds_at_simps sample_charge)
qed

theorem start_race_blocks_evidence_witness:
  "\<exists>d' r'. joinTx (\<lambda>_. True) sample_id ''s1'' 150000 ''c1'' ''u1'' (join_cdb (join_row StatusRunning) 9)
      = Inr (d', Joined (ComputeJoinCharge 2500 2000 True))
    \<and> validateAdmissionEvidence ''c1'' r' 50
        \<lparr>cp_userID = ''u1'', cp_joinedAt = 9, cp_economic = True, cp_leaderboardEligible = True\<rparr> d'
      = Inl (ErrAdmissionEvidence ''wallet admission'')"
proof -
  obtain d' where ok: "joinTx (\<lambda>_. True) sample_id ''s1'' 150000 ''c1'' ''u1'' (join_cdb (join_row StatusRunning) 9)
      = Inr (d', Joined (ComputeJoinCharge 2500 2000 True))" using sample_joinTx(2) by blast
  from start_race_blocks_evidence [OF ok join_row_simps(6) join_row_simps(1), of 50 True True] ok show ?thesis
    by (auto simp: join_row_simps sample_funds_at_simps sample_late_charge)
qed

text \<open>
  A contest of 6000 seconds that is paused after 30 seconds. Its economics cutoff, due after 600
  seconds, is taken during the pause; the pause ends after 630 seconds and moves the end of the
  late-join window to 660 seconds, so a join after 640 seconds is still charged.
\<close>

definition window_row :: "ContestStatus \<Rightarrow> int \<Rightarrow> int option \<Rightarrow> int \<Rightarrow> ContestCols" where
  "window_row s ends paused total_paused = sample_row\<lparr>ct_Status := s, ct_StartsAt := 0, ct_EndsAt := ends, ct_StartedAt := Some 0,
     ct_LifecyclePolicyVersion := ''contest_snapshot_v1'', ct_PausedAt := paused, ct_TotalPausedDuration := total_paused,
     cc_ConfirmedAt := Some 0\<rparr>"

definition window_snapshot :: "string \<Rightarrow> SnapshotType \<Rightarrow> Snapshot" where
  "window_snapshot i t = baseSnapshot i t 0 StartedDetails (window_row StatusRunning 6000000000 None 0) (join_cdb sample_row 0)"

definition window_cdb :: "ContestCols \<Rightarrow> int \<Rightarrow> Snapshot list \<Rightarrow> EconomicEvent list \<Rightarrow> StatusHistoryEntry list \<Rightarrow> cdb" where
  "window_cdb r t snaps evs hist = (sample_cdb r [])\<lparr>cd_funds := sample_funds_at t,
     cd_participants := [(sample_participant ''u3'')\<lparr>pt_LifecycleStatus := ''REFUNDED''\<rparr>,
                         (sample_participant ''u4'')\<lparr>pt_LifecycleStatus := ''REFUNDED''\<rparr>],
     cd_snapshots := [window_snapshot ''s0'' SnapshotConfirmed, window_snapshot ''s1'' SnapshotStarted] @ snaps,
     cd_econ_events := evs, cd_history := hist\<rparr>"

lemma window_bounds: "LateJoinCutoff 0 6000000000000 = 600000000000" "LateJoinCutoff 0 6600000000000 = 660000000000"
  "TralentV1PlannedWinners 0 = 0"
  by code_simp+

lemma window_cutoff:
  "\<exists>s e. EnsureEconomicsCutoff sample_driver ''s2'' ''c1''
      (window_cdb (window_row StatusPaused 6000000000 (Some 30000000) 0) 600000000 [] [] [])
     = Inr (window_cdb (window_row StatusPaused 6000000000 (Some 30000000) 0) 600000000 [s] [e] [], s)
     \<and> sn_PrizePoolCents s = Some 0 \<and> sn_Type s = SnapshotEconomicsCutoff \<and> sn_ContestID s = ''c1''"
  by (simp add: cutoff_eval window_cdb_def window_row_def window_snapshot_def contest_eval window_bounds custody_eval
      sample_funds_at_def join_cdb_def appendEconEvent_def)

lemma window_resume:
  "\<exists>res h. transitionTx sample_driver sample_id 630000000000 (request ''c1'' StatusRunning None ''go'')
      (window_cdb (window_row StatusPaused 6000000000 (Some 30000000) 0) 630000000 ss es [])
     = Inr (window_cdb (window_row StatusRunning 6600000000 None 600000000) 630000000 ss es [h], res)"
  by (simp add: contest_eval window_cdb_def window_row_def resumeUpdate_def pauseDuration_def time_Sub_def lockedContest_def
      CanTransition_def sample_funds_at_def)

lemma window_join:
  "\<exists>d'. joinTx (\<lambda>_. True) sample_id ''s3'' 640000000000 ''c1'' ''u1''
      (window_cdb (window_row StatusRunning 6600000000 None 600000000) 640000000 ss es hs)
     = Inr (d', Joined (ComputeJoinCharge 2500 2000 True))"
  using sample_charged_late [of 640000000] window_bounds(2) sample_funds_at_simps(3)
  by (auto simp: joinTx_def window_cdb_def window_row_def window_snapshot_def sample_cdb_def sample_row_def sample_participant_def
      contestJoinAllowed_def JoinAllowed_def ResolvePlatformFeeBps_def existingParticipant_def insert_participant_def update_contest_def
      processAffiliateCommission_def freezeEconomics_def enforceFeeBps_def EnsureContestConfirmed_def
      ContestSnapshotPolicyV1_def insertedOrExisting_def SnapshotByType_def baseSnapshot_def Let_def)

theorem late_join_after_cutoff_witness:
  "\<exists>d1 d2 d3 s e h res.
     EnsureEconomicsCutoff sample_driver ''s2'' ''c1''
       (window_cdb (window_row StatusPaused 6000000000 (Some 30000000) 0) 600000000 [] [] []) = Inr (d1, s)
   \<and> d1 = window_cdb (window_row StatusPaused 6000000000 (Some 30000000) 0) 600000000 [s] [e] []
   \<and> transitionTx sample_driver sample_id 630000000000 (request ''c1'' StatusRunning None ''go'')
       (window_cdb (window_row StatusPaused 6000000000 (Some 30000000) 0) 630000000 [s] [e] []) = Inr (d2, res)
   \<and> d2 = window_cdb (window_row StatusRunning 6600000000 None 600000000) 630000000 [s] [e] [h]
   \<and> joinTx (\<lambda>_. True) sample_id ''s3'' 640000000000 ''c1'' ''u1''
       (window_cdb (window_row StatusRunning 6600000000 None 600000000) 640000000 [s] [e] [h])
       = Inr (d3, Joined (ComputeJoinCharge 2500 2000 True))
   \<and> sn_PrizePoolCents s = Some 0 \<and> pool_balance (cd_funds d3) ''c1'' = Some 2000"
proof -
  obtain s e where s: "EnsureEconomicsCutoff sample_driver ''s2'' ''c1''
       (window_cdb (window_row StatusPaused 6000000000 (Some 30000000) 0) 600000000 [] [] [])
     = Inr (window_cdb (window_row StatusPaused 6000000000 (Some 30000000) 0) 600000000 [s] [e] [], s)"
     "sn_PrizePoolCents s = Some 0" "sn_Type s = SnapshotEconomicsCutoff" "sn_ContestID s = ''c1''"
    using window_cutoff by blast
  obtain res h where h: "transitionTx sample_driver sample_id 630000000000 (request ''c1'' StatusRunning None ''go'')
       (window_cdb (window_row StatusPaused 6000000000 (Some 30000000) 0) 630000000 [s] [e] [])
     = Inr (window_cdb (window_row StatusRunning 6600000000 None 600000000) 630000000 [s] [e] [h], res)"
    using window_resume by blast
  let ?d = "window_cdb (window_row StatusRunning 6600000000 None 600000000) 640000000 [s] [e] [h]"
  obtain d3 where j: "joinTx (\<lambda>_. True) sample_id ''s3'' 640000000000 ''c1'' ''u1'' ?d
     = Inr (d3, Joined (ComputeJoinCharge 2500 2000 True))" using window_join by blast
  have d: "cd_contests ?d ''c1'' = Some (window_row StatusRunning 6600000000 None 600000000)" "cd_funds ?d = sample_funds_at 640000000"
    "SnapshotByType ''c1'' SnapshotEconomicsCutoff ?d = Inr s" "paid_contest (window_row StatusRunning 6600000000 None 600000000)"
    using s(3,4) by (simp_all add: window_cdb_def sample_cdb_def SnapshotByType_def window_snapshot_def baseSnapshot_def
        paid_contest_def window_row_def sample_row_def)
  have "fresh_admission ''c1'' ''u1'' (sample_funds_at 640000000)" using sample_funds_at_simps(1) by (simp add: unused_admission_def)
  with late_join_after_cutoff [OF j d(1,4) _ _ _ d(3), unfolded d(2), of 0]
  have "pool_balance (cd_funds d3) ''c1'' = Some 2000" by (simp add: sample_funds_at_simps s(2) sample_late_charge)
  with s(1,2) h j show ?thesis by blast
qed

end
