(* ===== verification/Trading_Scoring.thy ===== *)
theory Trading_Scoring
  imports Go_Float Go_Strings
begin

text \<open>
  Scores of trades: \<open>packages/scoring/scoring.go\<close> with the wrappers of
  \<open>apps/trading-engine/server/decimal_scoring.go\<close> and \<open>side.go\<close>. Decimals of
  \<open>github.com/shopspring/decimal\<close> are modelled by their value; sums and products of decimals are
  exact, division, rounding and the conversions to and from \<open>float64\<close> are the argument \<open>D\<close>,
  whose documented behaviour is the locale \<open>decimals\<close>. Sides are the strings of the code.
\<close>

section \<open>The decimal library\<close>

record decimal_lib =
  NewFromFloat :: "f64 \<Rightarrow> rat"
  dec_Div :: "rat \<Rightarrow> rat \<Rightarrow> rat"
  dec_Round :: "rat \<Rightarrow> nat \<Rightarrow> rat"
  dec_Float64 :: "rat \<Rightarrow> f64"

definition on_grid :: "nat \<Rightarrow> rat \<Rightarrow> bool" where
  "on_grid n x \<longleftrightarrow> (\<exists>k :: int. x * 10 ^ n = of_int k)"

text \<open>
  \<open>Div\<close> is exact or has 16 digits after the point, \<open>Round\<close> goes to the nearest value with that
  many digits and keeps a value that has no more, and both are odd functions.
\<close>

locale decimals =
  fixes D :: decimal_lib
  assumes div_close: "b \<noteq> 0 \<Longrightarrow> \<bar>dec_Div D a b - a / b\<bar> \<le> 1 / 10 ^ 16"
    and div_neg: "dec_Div D (- a) b = - dec_Div D a b"
    and round_grid: "on_grid n (dec_Round D x n)"
    and round_close: "\<bar>dec_Round D x n - x\<bar> \<le> 1 / (2 * 10 ^ n)"
    and round_id: "on_grid n x \<Longrightarrow> dec_Round D x n = x"
    and round_neg: "dec_Round D (- x) n = - dec_Round D x n"

section \<open>Sides (side.go)\<close>

definition OrderSideBuy :: string where "OrderSideBuy = ''BUY''"
definition OrderSideSell :: string where "OrderSideSell = ''SELL''"
definition SideLong :: string where "SideLong = ''long''"
definition SideShort :: string where "SideShort = ''short''"

lemmas side_consts = OrderSideBuy_def OrderSideSell_def SideLong_def SideShort_def

definition OrderSideToPositionSide :: "string \<Rightarrow> string" where
  "OrderSideToPositionSide s = (if s = OrderSideBuy then SideLong else SideShort)"

definition PositionSideToOrderSide :: "string \<Rightarrow> string" where
  "PositionSideToOrderSide s = (if s = ''long'' then OrderSideBuy else OrderSideSell)"

definition OrderSideToDBOrderSide :: "string \<Rightarrow> string" where
  "OrderSideToDBOrderSide s = (if s = OrderSideBuy then ''buy'' else ''sell'')"

definition DBOrderSideToOrderSide :: "string \<Rightarrow> string" where
  "DBOrderSideToOrderSide s = (if s = ''buy'' then OrderSideBuy else OrderSideSell)"

definition IsSameSide :: "string \<Rightarrow> string \<Rightarrow> bool" where
  "IsSameSide dbPositionSide orderSide \<longleftrightarrow>
     (dbPositionSide = ''long'' \<and> orderSide = OrderSideBuy) \<or> (dbPositionSide = ''short'' \<and> orderSide = OrderSideSell)"

definition IsLong :: "string \<Rightarrow> bool" where
  "IsLong s \<longleftrightarrow> s = OrderSideBuy"

definition OppositeSide :: "string \<Rightarrow> string" where
  "OppositeSide s = (if s = OrderSideBuy then OrderSideSell else OrderSideBuy)"

definition PositionSideToScoringSide :: "string \<Rightarrow> string" where
  "PositionSideToScoringSide s = (if s = ''long'' then SideLong else SideShort)"

section \<open>Scores (scoring.go)\<close>

definition Precision :: nat where [simp]: "Precision = 8"

definition ValidateSide :: "string \<Rightarrow> bool" where
  "ValidateSide side \<longleftrightarrow> side = SideLong \<or> side = SideShort"

definition CalculatePctChange :: "decimal_lib \<Rightarrow> rat \<Rightarrow> rat \<Rightarrow> string \<Rightarrow> rat" where
  "CalculatePctChange D entryPrice exitPrice side =
     (if entryPrice = 0 \<or> entryPrice < 0 then 0
      else if side = SideLong then dec_Round D (dec_Div D (exitPrice - entryPrice) entryPrice * 100) Precision
      else if side = SideShort then dec_Round D (dec_Div D (entryPrice - exitPrice) entryPrice * 100) Precision
      else 0)"

definition CalculateTradeScore :: "decimal_lib \<Rightarrow> rat \<Rightarrow> rat \<Rightarrow> rat" where
  "CalculateTradeScore D qtyUsed pctChange = dec_Round D (qtyUsed * pctChange) Precision"

definition CalculateTotalScore :: "decimal_lib \<Rightarrow> rat list \<Rightarrow> rat \<Rightarrow> rat" where
  "CalculateTotalScore D realizedScores unrealizedScore =
     dec_Round D (foldl (+) 0 realizedScores + unrealizedScore) Precision"

definition CalculateRealizedTotal :: "decimal_lib \<Rightarrow> rat list \<Rightarrow> rat" where
  "CalculateRealizedTotal D realizedScores = dec_Round D (foldl (+) 0 realizedScores) Precision"

definition AddScore :: "decimal_lib \<Rightarrow> rat \<Rightarrow> rat \<Rightarrow> rat" where
  "AddScore D existing delta = dec_Round D (existing + delta) Precision"

definition CalculateTradeScoreFromPrices :: "decimal_lib \<Rightarrow> rat \<Rightarrow> rat \<Rightarrow> int \<Rightarrow> string \<Rightarrow> rat" where
  "CalculateTradeScoreFromPrices D entryPrice exitPrice qtyUsed side =
     (if entryPrice = 0 \<or> entryPrice < 0 then 0
      else CalculateTradeScore D (of_int qtyUsed) (CalculatePctChange D entryPrice exitPrice side))"

definition CalculateUnrealizedScore :: "decimal_lib \<Rightarrow> rat \<Rightarrow> rat \<Rightarrow> int \<Rightarrow> string \<Rightarrow> rat" where
  "CalculateUnrealizedScore D entryPrice currentPrice qtyUsed side =
     (if entryPrice = 0 \<or> entryPrice < 0 \<or> currentPrice = 0 \<or> currentPrice < 0 then 0
      else CalculateTradeScore D (of_int qtyUsed) (CalculatePctChange D entryPrice currentPrice side))"

definition CalculateWeightedAveragePrice :: "decimal_lib \<Rightarrow> rat \<Rightarrow> int \<Rightarrow> rat \<Rightarrow> int \<Rightarrow> rat" where
  "CalculateWeightedAveragePrice D oldEntryPrice oldQty newPrice newQty =
     (let totalQty = of_int oldQty + of_int newQty in
      if totalQty = 0 then 0
      else dec_Round D (dec_Div D (oldEntryPrice * of_int oldQty + newPrice * of_int newQty) totalQty) Precision)"

section \<open>Wrappers of the engine (decimal_scoring.go)\<close>

record DecimalScore =
  ds_Decimal :: rat
  ds_Float64 :: f64

definition NewDecimalScore :: "decimal_lib \<Rightarrow> rat \<Rightarrow> DecimalScore" where
  "NewDecimalScore D d = \<lparr>ds_Decimal = d, ds_Float64 = dec_Float64 D d\<rparr>"

definition NewDecimalScoreFromFloat :: "decimal_lib \<Rightarrow> f64 \<Rightarrow> DecimalScore" where
  "NewDecimalScoreFromFloat D f = \<lparr>ds_Decimal = NewFromFloat D f, ds_Float64 = f\<rparr>"

definition ZeroDecimalScore :: DecimalScore where
  "ZeroDecimalScore = \<lparr>ds_Decimal = 0, ds_Float64 = 0\<rparr>"

definition DecimalScore_Add :: "decimal_lib \<Rightarrow> DecimalScore \<Rightarrow> DecimalScore \<Rightarrow> DecimalScore" where
  "DecimalScore_Add D ds delta = NewDecimalScore D (ds_Decimal ds + ds_Decimal delta)"

definition calculateTradeScoreDecimal :: "decimal_lib \<Rightarrow> string \<Rightarrow> f64 \<Rightarrow> f64 \<Rightarrow> int \<Rightarrow> DecimalScore" where
  "calculateTradeScoreDecimal D side entryPrice exitPrice qtyUsed =
     NewDecimalScore D (CalculateTradeScoreFromPrices D (NewFromFloat D entryPrice) (NewFromFloat D exitPrice) qtyUsed
       (PositionSideToScoringSide side))"

definition calculateUnrealizedScoreDecimal :: "decimal_lib \<Rightarrow> f64 \<Rightarrow> f64 \<Rightarrow> int \<Rightarrow> bool \<Rightarrow> DecimalScore" where
  "calculateUnrealizedScoreDecimal D entryPrice currentPrice qtyUsed isLong =
     NewDecimalScore D (CalculateUnrealizedScore D (NewFromFloat D entryPrice) (NewFromFloat D currentPrice) qtyUsed
       (if isLong then SideLong else SideShort))"

definition calculateTotalScoreDecimal :: "decimal_lib \<Rightarrow> DecimalScore \<Rightarrow> DecimalScore \<Rightarrow> DecimalScore" where
  "calculateTotalScoreDecimal D realizedScore unrealizedScore =
     NewDecimalScore D (CalculateTotalScore D [ds_Decimal realizedScore] (ds_Decimal unrealizedScore))"

definition addRealizedScoreDecimal :: "decimal_lib \<Rightarrow> DecimalScore \<Rightarrow> DecimalScore \<Rightarrow> DecimalScore" where
  "addRealizedScoreDecimal D existing delta = NewDecimalScore D (AddScore D (ds_Decimal existing) (ds_Decimal delta))"

definition calculateWeightedAverageEntryDecimal :: "decimal_lib \<Rightarrow> f64 \<Rightarrow> int \<Rightarrow> f64 \<Rightarrow> int \<Rightarrow> f64" where
  "calculateWeightedAverageEntryDecimal D oldEntry oldQty newPrice newQty =
     dec_Float64 D (CalculateWeightedAveragePrice D (NewFromFloat D oldEntry) oldQty (NewFromFloat D newPrice) newQty)"

section \<open>The library as documented\<close>

text \<open>Rounding half away from zero, and division to 16 digits.\<close>

definition round_places :: "rat \<Rightarrow> nat \<Rightarrow> rat" where
  "round_places x n =
     (if x < 0 then - of_int \<lfloor>- x * 10 ^ n + 1 / 2\<rfloor> / 10 ^ n else of_int \<lfloor>x * 10 ^ n + 1 / 2\<rfloor> / 10 ^ n)"

definition shop_decimal :: decimal_lib where
  "shop_decimal = \<lparr>NewFromFloat = id, dec_Div = \<lambda>a b. round_places (a / b) 16, dec_Round = round_places, dec_Float64 = f64_round\<rparr>"

lemma round_places_neg: "round_places (- x) n = - round_places x n"
proof -
  have "\<lfloor>1 / 2 :: rat\<rfloor> = 0" by (simp add: floor_eq_iff)
  then show ?thesis by (auto simp: round_places_def)
qed

lemma round_places_pos_close:
  assumes "0 \<le> x"
  shows "\<bar>round_places x n - x\<bar> \<le> 1 / (2 * 10 ^ n)"
proof -
  define p :: rat where "p = 10 ^ n"
  define k where "k = \<lfloor>x * p + 1 / 2\<rfloor>"
  have p: "0 < p" by (simp add: p_def)
  have k: "of_int k \<le> x * p + 1 / 2" "x * p + 1 / 2 < of_int k + 1" unfolding k_def by linarith+
  have "round_places x n - x = (of_int k - x * p) / p" using assms p by (simp add: round_places_def k_def p_def field_simps)
  moreover have "\<bar>of_int k - x * p\<bar> / p \<le> (1 / 2) / p" using k p by (intro divide_right_mono) linarith+
  ultimately show ?thesis using p by (simp add: p_def)
qed

interpretation shop: decimals shop_decimal
proof
  have grid: "on_grid n (round_places x n)" for n x
  proof (cases "x < 0")
    case True
    then have "round_places x n * 10 ^ n = of_int (- \<lfloor>- x * 10 ^ n + 1 / 2\<rfloor>)" by (simp add: round_places_def)
    then show ?thesis unfolding on_grid_def by blast
  next
    case False
    then have "round_places x n * 10 ^ n = of_int \<lfloor>x * 10 ^ n + 1 / 2\<rfloor>" by (simp add: round_places_def)
    then show ?thesis unfolding on_grid_def by blast
  qed
  have close: "\<bar>round_places x n - x\<bar> \<le> 1 / (2 * 10 ^ n)" for n x
    using round_places_pos_close [of x n] round_places_pos_close [of "- x" n] round_places_neg [of x n]
    by (cases "0 \<le> x") (simp_all add: abs_minus_commute)
  show "on_grid n (dec_Round shop_decimal x n)" for n x using grid by (simp add: shop_decimal_def)
  show "\<bar>dec_Round shop_decimal x n - x\<bar> \<le> 1 / (2 * 10 ^ n)" for n x using close by (simp add: shop_decimal_def)
  show "dec_Round shop_decimal (- x) n = - dec_Round shop_decimal x n" for n x by (simp add: shop_decimal_def round_places_neg)
  show "dec_Div shop_decimal (- a) b = - dec_Div shop_decimal a b" for a b by (simp add: shop_decimal_def round_places_neg)
  show "\<bar>dec_Div shop_decimal a b - a / b\<bar> \<le> 1 / 10 ^ 16" for a b
    using close [of "a / b" 16] by (simp add: shop_decimal_def)
  show "dec_Round shop_decimal x n = x" if g: "on_grid n x" for n x
  proof -
    obtain k :: int where k: "x * 10 ^ n = of_int k" using g unfolding on_grid_def by blast
    have "\<lfloor>of_int k + 1 / 2 :: rat\<rfloor> = k" "\<lfloor>of_int (- k) + 1 / 2 :: rat\<rfloor> = - k" by (simp_all add: floor_eq_iff)
    moreover have "- x * 10 ^ n = of_int (- k)" using k by simp
    moreover have "x = of_int k / 10 ^ n" using k by (simp add: field_simps)
    ultimately show ?thesis using k by (simp add: shop_decimal_def round_places_def)
  qed
qed

section \<open>Exactness of scores\<close>

lemma on_grid_mult_int: "on_grid n x \<Longrightarrow> on_grid n (of_int q * x)"
  unfolding on_grid_def by (metis mult.assoc of_int_mult)

context decimals
begin

lemma pct_grid: "on_grid Precision (CalculatePctChange D entry exit side)"
proof -
  have "on_grid Precision 0" by (auto simp: on_grid_def intro: exI [of _ 0])
  then show ?thesis by (simp add: CalculatePctChange_def round_grid)
qed

lemma score_exact:
  "0 < entry \<Longrightarrow> CalculateTradeScoreFromPrices D entry exit q side = of_int q * CalculatePctChange D entry exit side"
  using round_id [OF on_grid_mult_int [OF pct_grid]] by (simp add: CalculateTradeScoreFromPrices_def CalculateTradeScore_def)

lemma pct_opposite:
  "CalculatePctChange D entry exit SideShort = - CalculatePctChange D entry exit SideLong"
proof -
  have "dec_Div D (entry - exit) entry = - dec_Div D (exit - entry) entry" using div_neg [of "exit - entry" entry] by simp
  then show ?thesis by (simp add: CalculatePctChange_def side_consts round_neg [symmetric])
qed

lemma pct_close:
  assumes "0 < entry"
  shows "\<bar>CalculatePctChange D entry exit SideLong - (exit - entry) / entry * 100\<bar> \<le> 1 / 10 ^ 8"
proof -
  define v where "v = dec_Div D (exit - entry) entry"
  define y where "y = (exit - entry) / entry"
  define pct where "pct = CalculatePctChange D entry exit SideLong"
  have "pct = dec_Round D (v * 100) 8" using assms by (simp add: pct_def v_def CalculatePctChange_def)
  then have pct: "\<bar>pct - v * 100\<bar> \<le> 1 / (2 * 10 ^ 8)" using round_close [of "v * 100" 8] by simp
  have "\<bar>v - y\<bar> \<le> 1 / 10 ^ 16" unfolding v_def y_def by (rule div_close) (use assms in simp)
  then have vy: "v - y \<le> 1 / 10000000000000000" "y - v \<le> 1 / 10000000000000000"
    by (simp_all only: abs_le_iff) simp_all
  have pv: "pct - v * 100 \<le> 1 / 200000000" "v * 100 - pct \<le> 1 / 200000000"
    using pct by (simp_all only: abs_le_iff) simp_all
  have "\<bar>pct - y * 100\<bar> \<le> 1 / 100000000" by (rule abs_leI) (use vy pv in linarith)+
  then show ?thesis unfolding pct_def y_def by simp
qed

end

text \<open>
  (C39) Scores are exact where it matters: a trade that is closed in two parts at the same price
  scores exactly what closing it at once scores, a short scores exactly the opposite of a long, and
  the score of a long differs from quantity times percentage change by at most one hundred
  millionth per unit, for any decimal library that behaves as documented.
\<close>
theorem trade_score_exact:
  assumes "decimals D" "0 < entry"
  shows "CalculateTradeScoreFromPrices D entry exit (p + q) side
      = CalculateTradeScoreFromPrices D entry exit p side + CalculateTradeScoreFromPrices D entry exit q side
    \<and> CalculateTradeScoreFromPrices D entry exit q SideShort = - CalculateTradeScoreFromPrices D entry exit q SideLong
    \<and> \<bar>CalculateTradeScoreFromPrices D entry exit q SideLong - of_int q * ((exit - entry) / entry * 100)\<bar> \<le> of_int \<bar>q\<bar> / 10 ^ 8"
proof -
  note exact = decimals.score_exact [OF assms]
  have "\<bar>of_int q * (CalculatePctChange D entry exit SideLong - (exit - entry) / entry * 100)\<bar>
      \<le> of_int \<bar>q\<bar> * (1 / 10 ^ 8 :: rat)"
    unfolding abs_mult of_int_abs by (rule mult_left_mono [OF decimals.pct_close [OF assms]]) simp
  then show ?thesis by (simp add: exact decimals.pct_opposite [OF assms(1)] algebra_simps)
qed

theorem trade_score_exact_witness:
  "CalculateTradeScoreFromPrices shop_decimal 7 10 (3 + 4) SideLong
      = CalculateTradeScoreFromPrices shop_decimal 7 10 3 SideLong + CalculateTradeScoreFromPrices shop_decimal 7 10 4 SideLong
   \<and> CalculateTradeScoreFromPrices shop_decimal 7 10 4 SideShort = - CalculateTradeScoreFromPrices shop_decimal 7 10 4 SideLong"
  using trade_score_exact [OF shop.decimals_axioms, of 7 10 3 4 SideLong] by simp

end
