(* ===== verification/Trading_State.thy ===== *)
theory Trading_State
  imports Trading_Scoring "HOL-Library.Mapping" "HOL-Library.AList_Mapping"
begin

text \<open>
  State of the trading engine: the in-memory state of \<open>apps/trading-engine/server/state.go\<close>, the
  caches of \<open>contest_cache.go\<close>, and the tables with the statements of \<open>db.go\<close>. Table rows are kept
  in insertion order, so the newest open position is the last one. A statement fails exactly when
  it violates a constraint of the schema (migrations 0001, 0003, 0032, 0072), with the message as
  error; how PostgreSQL stores a \<open>NUMERIC(20,8)\<close> and how the driver converts it from and to
  \<open>float64\<close> is the argument \<open>sql\<close>. Instants are nanoseconds; durations are \<open>int64\<close> nanoseconds.
\<close>

section \<open>In-memory state (state.go)\<close>

record PositionState =
  ps_PositionID :: string
  ps_Symbol :: string
  ps_Side :: string
  ps_QtyOpen :: int
  ps_EntryPrice :: f64
  ps_QtyUsed :: int
  ps_RealizedScore :: f64
  ps_EntryPriceDecimal :: rat
  ps_RealizedScoreDecimal :: rat

record PendingOrder =
  po_OrderID :: string
  po_Symbol :: string
  po_Side :: string
  po_Type :: string
  po_Qty :: int
  po_QtyFilled :: int
  po_LimitPrice :: "f64 option"
  po_StopPrice :: "f64 option"

record UserState =
  us_QtyTotal :: int
  us_QtyAvailable :: int
  us_RealizedScore :: f64
  us_Positions :: "(string, PositionState) mapping"
  us_PendingOrders :: "string \<rightharpoonup> PendingOrder"
  us_RealizedScoreDecimal :: rat

record ContestState =
  cs_ContestID :: string
  cs_Users :: "string \<rightharpoonup> UserState"

type_synonym StateManager = "string \<rightharpoonup> ContestState"

definition NewStateManager :: StateManager where
  "NewStateManager = Map.empty"

definition GetOrCreateContest :: "string \<Rightarrow> StateManager \<Rightarrow> ContestState \<times> StateManager" where
  "GetOrCreateContest contestID sm =
     (case sm contestID of
        Some cs \<Rightarrow> (cs, sm)
      | None \<Rightarrow> let cs = \<lparr>cs_ContestID = contestID, cs_Users = Map.empty\<rparr> in (cs, sm(contestID \<mapsto> cs)))"

definition RemoveContest :: "string \<Rightarrow> StateManager \<Rightarrow> StateManager" where
  "RemoveContest contestID sm = sm(contestID := None)"

definition NewUserState :: "decimal_lib \<Rightarrow> int \<Rightarrow> int \<Rightarrow> f64 \<Rightarrow> UserState" where
  "NewUserState D qtyTotal qtyAvailable realizedScore =
     \<lparr>us_QtyTotal = qtyTotal, us_QtyAvailable = qtyAvailable, us_RealizedScore = realizedScore,
      us_Positions = Mapping.empty, us_PendingOrders = Map.empty,
      us_RealizedScoreDecimal = NewFromFloat D realizedScore\<rparr>"

definition GetOrCreateUser :: "decimal_lib \<Rightarrow> string \<Rightarrow> int \<Rightarrow> int \<Rightarrow> f64 \<Rightarrow> ContestState \<Rightarrow> UserState \<times> ContestState" where
  "GetOrCreateUser D userID qtyTotal qtyAvailable realizedScore cs =
     (case cs_Users cs userID of
        Some us \<Rightarrow> (us, cs)
      | None \<Rightarrow> let us = NewUserState D qtyTotal qtyAvailable realizedScore
               in (us, cs\<lparr>cs_Users := (cs_Users cs)(userID \<mapsto> us)\<rparr>))"

definition GetUser :: "string \<Rightarrow> ContestState \<Rightarrow> UserState option" where
  "GetUser userID cs = cs_Users cs userID"

definition UpdateQtyAvailable :: "int \<Rightarrow> UserState \<Rightarrow> int \<times> UserState" where
  "UpdateQtyAvailable delta us =
     (let q = wrap64 (us_QtyAvailable us + delta) in (q, us\<lparr>us_QtyAvailable := q\<rparr>))"

definition ReserveQty :: "int \<Rightarrow> UserState \<Rightarrow> bool \<times> UserState" where
  "ReserveQty qty us =
     (if us_QtyAvailable us \<ge> qty then (True, us\<lparr>us_QtyAvailable := wrap64 (us_QtyAvailable us - qty)\<rparr>)
      else (False, us))"

definition ReleaseQty :: "int \<Rightarrow> UserState \<Rightarrow> UserState" where
  "ReleaseQty qty us = us\<lparr>us_QtyAvailable := wrap64 (us_QtyAvailable us + qty)\<rparr>"

definition GetPosition :: "string \<Rightarrow> UserState \<Rightarrow> PositionState option" where
  "GetPosition symbol us = Mapping.lookup (us_Positions us) symbol"

definition SetPosition :: "PositionState \<Rightarrow> UserState \<Rightarrow> UserState" where
  "SetPosition pos us = us\<lparr>us_Positions := Mapping.update (ps_Symbol pos) pos (us_Positions us)\<rparr>"

definition RemovePosition :: "string \<Rightarrow> UserState \<Rightarrow> UserState" where
  "RemovePosition symbol us = us\<lparr>us_Positions := Mapping.delete symbol (us_Positions us)\<rparr>"

definition HasOpenPositions :: "UserState \<Rightarrow> bool" where
  "HasOpenPositions us \<longleftrightarrow> \<not> Mapping.is_empty (us_Positions us)"

definition UpdateRealizedScore :: "decimal_lib \<Rightarrow> f64 \<Rightarrow> UserState \<Rightarrow> UserState" where
  "UpdateRealizedScore D newScore us =
     us\<lparr>us_RealizedScore := newScore, us_RealizedScoreDecimal := NewFromFloat D newScore\<rparr>"

definition UpdateRealizedScoreDecimal :: "decimal_lib \<Rightarrow> rat \<Rightarrow> UserState \<Rightarrow> UserState" where
  "UpdateRealizedScoreDecimal D newScore us =
     us\<lparr>us_RealizedScoreDecimal := newScore, us_RealizedScore := dec_Float64 D newScore\<rparr>"

definition AddRealizedScore :: "decimal_lib \<Rightarrow> f64 \<Rightarrow> UserState \<Rightarrow> f64 \<times> UserState" where
  "AddRealizedScore D delta us =
     (let s = f64_add (us_RealizedScore us) delta
      in (s, us\<lparr>us_RealizedScore := s,
               us_RealizedScoreDecimal := us_RealizedScoreDecimal us + NewFromFloat D delta\<rparr>))"

definition AddRealizedScoreDecimal :: "decimal_lib \<Rightarrow> rat \<Rightarrow> UserState \<Rightarrow> rat \<times> UserState" where
  "AddRealizedScoreDecimal D delta us =
     (let s = us_RealizedScoreDecimal us + delta
      in (s, us\<lparr>us_RealizedScoreDecimal := s, us_RealizedScore := dec_Float64 D s\<rparr>))"

definition us_AddPendingOrder :: "PendingOrder \<Rightarrow> UserState \<Rightarrow> UserState" where
  "us_AddPendingOrder order us = us\<lparr>us_PendingOrders := (us_PendingOrders us)(po_OrderID order \<mapsto> order)\<rparr>"

definition us_RemovePendingOrder :: "string \<Rightarrow> UserState \<Rightarrow> UserState" where
  "us_RemovePendingOrder orderID us = us\<lparr>us_PendingOrders := (us_PendingOrders us)(orderID := None)\<rparr>"

definition us_GetPendingOrder :: "string \<Rightarrow> UserState \<Rightarrow> PendingOrder option" where
  "us_GetPendingOrder orderID us = us_PendingOrders us orderID"

text \<open>
  The loops over \<open>us.Positions\<close> run in the order Go's map iteration picks: \<open>ps\<close> is the list of
  the positions in that order.
\<close>

definition pctChangeFloat :: "string \<Rightarrow> f64 \<Rightarrow> f64 \<Rightarrow> f64" where
  "pctChangeFloat side entry mark =
     (if IsLong side then f64_mul (f64_div (f64_sub mark entry) entry) 100
      else f64_mul (f64_div (f64_sub entry mark) entry) 100)"

definition us_CalculateUnrealizedScoreWithExitPrice ::
  "(string \<Rightarrow> string \<Rightarrow> f64 option) \<Rightarrow> PositionState list \<Rightarrow> f64" where
  "us_CalculateUnrealizedScoreWithExitPrice getExitPriceFunc ps =
     foldl (\<lambda>acc pos.
        case getExitPriceFunc (ps_Symbol pos) (ps_Side pos) of
          None \<Rightarrow> acc
        | Some p \<Rightarrow> if ps_EntryPrice pos = 0 then acc
                   else f64_add acc (f64_mul (f64_of_int (ps_QtyUsed pos)) (pctChangeFloat (ps_Side pos) (ps_EntryPrice pos) p)))
      0 ps"

definition unrealizedTerm :: "decimal_lib \<Rightarrow> (string \<Rightarrow> string \<Rightarrow> f64 option) \<Rightarrow> PositionState \<Rightarrow> rat" where
  "unrealizedTerm D getExitPriceFunc pos =
     (case getExitPriceFunc (ps_Symbol pos) (ps_Side pos) of
        None \<Rightarrow> 0
      | Some p \<Rightarrow>
          if ps_EntryPrice pos = 0 then 0
          else let entryDec = NewFromFloat D (ps_EntryPrice pos); exitDec = NewFromFloat D p;
                   pctChange = (if IsLong (ps_Side pos) then dec_Div D (exitDec - entryDec) entryDec * 100
                                else dec_Div D (entryDec - exitDec) entryDec * 100)
               in of_int (ps_QtyUsed pos) * pctChange)"

definition us_CalculateUnrealizedScoreDecimalWithExitPrice ::
  "decimal_lib \<Rightarrow> (string \<Rightarrow> string \<Rightarrow> f64 option) \<Rightarrow> PositionState list \<Rightarrow> rat" where
  "us_CalculateUnrealizedScoreDecimalWithExitPrice D getExitPriceFunc ps =
     dec_Round D (foldl (\<lambda>acc pos. acc + unrealizedTerm D getExitPriceFunc pos) 0 ps) 8"

definition GetTotalScoreDecimal :: "decimal_lib \<Rightarrow> (string \<Rightarrow> f64 option) \<Rightarrow> PositionState list \<Rightarrow> UserState \<Rightarrow> rat" where
  "GetTotalScoreDecimal D getPriceFunc ps us =
     dec_Round D (us_RealizedScoreDecimal us
       + us_CalculateUnrealizedScoreDecimalWithExitPrice D (\<lambda>s _. getPriceFunc s) ps) 8"

section \<open>Tables and statements (db.go)\<close>

record sql_driver =
  sql_num :: "rat \<Rightarrow> rat option"
  sql_float :: "rat \<Rightarrow> f64"
  sql_param :: "f64 \<Rightarrow> rat"

record ParticipantRow =
  pt_contest_id :: string
  pt_user_id :: string
  pt_qty_total :: int
  pt_qty_available :: int
  pt_total_score :: rat
  pt_active :: bool

record PositionRow =
  pr_position_id :: string
  pr_contest_id :: string
  pr_user_id :: string
  pr_symbol :: string
  pr_side :: string
  pr_qty_open :: int
  pr_entry_price :: rat
  pr_qty_used :: int
  pr_realized_score :: rat
  pr_closed :: bool
  pr_take_profit :: "rat option"
  pr_stop_loss :: "rat option"

record OrderRow =
  or_order_id :: string
  or_contest_id :: string
  or_user_id :: string
  or_symbol :: string
  or_side :: string
  or_type :: string
  or_qty :: int
  or_qty_filled :: int
  or_limit_price :: "rat option"
  or_stop_price :: "rat option"
  or_take_profit :: "rat option"
  or_stop_loss :: "rat option"
  or_status :: string

record FillRow =
  fl_fill_id :: string
  fl_order_id :: string
  fl_contest_id :: string
  fl_user_id :: string
  fl_symbol :: string
  fl_side :: string
  fl_qty :: int
  fl_fill_price :: rat
  fl_realized_pnl :: rat

text \<open>The rules of a contest are the parsed \<open>rules_json\<close>, \<open>None\<close> when absent or malformed.\<close>

record ContestRules =
  MaxPriceAgeMarketSeconds :: "int option"
  MaxPriceAgePendingSeconds :: "int option"

record DBContest =
  dc_ID :: string
  dc_Status :: string
  dc_AssetClass :: string
  dc_StartsAt :: "int option"
  dc_EndsAt :: "int option"
  dc_Rules :: "ContestRules option"

record tdb =
  td_participants :: "ParticipantRow list"
  td_positions :: "PositionRow list"
  td_orders :: "OrderRow list"
  td_fills :: "FillRow list"
  td_contests :: "string \<rightharpoonup> DBContest"
  td_symbols :: "(string \<times> string) list"
  td_positions_columns :: "string list"

text \<open>The columns of \<open>positions\<close> after all migrations (0003 and 0072).\<close>

definition migrated_positions_columns :: "string list" where
  "migrated_positions_columns =
     [''position_id'', ''shard_id'', ''contest_id'', ''user_id'', ''symbol'', ''side'', ''qty_open'', ''entry_price'',
      ''qty_used'', ''realized_score'', ''opened_at'', ''closed_at'', ''take_profit'', ''stop_loss'']"

type_synonym 'a sqlresult = "string + 'a"

definition WithTransaction :: "string option \<Rightarrow> (tdb \<Rightarrow> (tdb \<times> 'a) sqlresult) \<Rightarrow> tdb \<Rightarrow> (tdb \<times> 'a) sqlresult" where
  "WithTransaction txErr fn db = (case txErr of Some e \<Rightarrow> Inl e | None \<Rightarrow> fn db)"

record DBParticipant =
  dp_ContestID :: string
  dp_UserID :: string
  dp_QtyTotal :: int
  dp_QtyAvailable :: int
  dp_TotalScore :: f64

record DBPosition =
  db_PositionID :: string
  db_ContestID :: string
  db_UserID :: string
  db_Symbol :: string
  db_Side :: string
  db_QtyOpen :: int
  db_EntryPrice :: f64
  db_QtyUsed :: int
  db_RealizedScore :: f64

record DBOrder =
  do_OrderID :: string
  do_ContestID :: string
  do_UserID :: string
  do_Symbol :: string
  do_Status :: string
  do_Qty :: int
  do_QtyFilled :: int

definition active_of :: "string \<Rightarrow> string \<Rightarrow> ParticipantRow \<Rightarrow> bool" where
  "active_of contestID userID p \<longleftrightarrow> pt_contest_id p = contestID \<and> pt_user_id p = userID \<and> pt_active p"

definition GetParticipant :: "sql_driver \<Rightarrow> string \<Rightarrow> string \<Rightarrow> tdb \<Rightarrow> DBParticipant option" where
  "GetParticipant sql contestID userID db =
     map_option (\<lambda>p. \<lparr>dp_ContestID = pt_contest_id p, dp_UserID = pt_user_id p, dp_QtyTotal = pt_qty_total p,
        dp_QtyAvailable = pt_qty_available p, dp_TotalScore = sql_float sql (pt_total_score p)\<rparr>)
       (List.find (active_of contestID userID) (td_participants db))"

definition GetContestParticipantCount :: "string \<Rightarrow> tdb \<Rightarrow> int" where
  "GetContestParticipantCount contestID db =
     int (length (filter (\<lambda>p. pt_contest_id p = contestID \<and> pt_active p) (td_participants db)))"

text \<open>An \<open>UPDATE\<close> of the rows that satisfy \<open>P\<close>, with the table's check constraints \<open>ok\<close>.\<close>

definition update_rows :: "('r \<Rightarrow> bool) \<Rightarrow> ('r \<Rightarrow> 'r) \<Rightarrow> ('r \<Rightarrow> bool) \<Rightarrow> 'r list \<Rightarrow> 'r list sqlresult" where
  "update_rows P f ok rows =
     (if list_all (\<lambda>r. P r \<longrightarrow> ok (f r)) rows then Inr (map (\<lambda>r. if P r then f r else r) rows)
      else Inl ''check constraint violated'')"

definition participant_ok :: "ParticipantRow \<Rightarrow> bool" where
  "participant_ok p \<longleftrightarrow> 0 \<le> pt_qty_available p \<and> pt_qty_available p \<le> pt_qty_total p \<and> 0 \<le> pt_qty_total p"

definition position_ok :: "PositionRow \<Rightarrow> bool" where
  "position_ok p \<longleftrightarrow> 0 \<le> pr_qty_open p \<and> 0 < pr_entry_price p \<and> 0 \<le> pr_qty_used p"

fun price_set :: "rat option \<Rightarrow> bool" where
  "price_set None = False"
| "price_set (Some p) = (0 < p)"

definition order_ok :: "OrderRow \<Rightarrow> bool" where
  "order_ok r \<longleftrightarrow> 0 < or_qty r \<and> 0 \<le> or_qty_filled r \<and> or_qty_filled r \<le> or_qty r \<and>
     (or_type r \<in> {''limit'', ''stop_limit'', ''buy_limit'', ''sell_limit''} \<longrightarrow> price_set (or_limit_price r)) \<and>
     (or_type r \<in> {''stop'', ''stop_limit'', ''buy_stop'', ''sell_stop''} \<longrightarrow> price_set (or_stop_price r))"

definition num :: "sql_driver \<Rightarrow> rat \<Rightarrow> rat sqlresult" where
  "num sql x = (case sql_num sql x of None \<Rightarrow> Inl ''numeric field overflow'' | Some y \<Rightarrow> Inr y)"

fun num_opt :: "sql_driver \<Rightarrow> f64 option \<Rightarrow> rat option sqlresult" where
  "num_opt sql None = Inr None"
| "num_opt sql (Some x) = rbind (num sql (sql_param sql x)) (\<lambda>y. Inr (Some y))"

definition UpdateParticipantQtyAvailableTx :: "string \<Rightarrow> string \<Rightarrow> int \<Rightarrow> tdb \<Rightarrow> tdb sqlresult" where
  "UpdateParticipantQtyAvailableTx contestID userID qtyAvailable db =
     rbind (update_rows (active_of contestID userID) (\<lambda>p. p\<lparr>pt_qty_available := qtyAvailable\<rparr>) participant_ok (td_participants db))
       (\<lambda>rows. Inr (db\<lparr>td_participants := rows\<rparr>))"

definition UpdateParticipantScoreTx :: "sql_driver \<Rightarrow> string \<Rightarrow> string \<Rightarrow> rat \<Rightarrow> tdb \<Rightarrow> tdb sqlresult" where
  "UpdateParticipantScoreTx sql contestID userID totalScore db =
     rbind (num sql totalScore) (\<lambda>s.
     rbind (update_rows (active_of contestID userID) (\<lambda>p. p\<lparr>pt_total_score := s\<rparr>) participant_ok (td_participants db))
       (\<lambda>rows. Inr (db\<lparr>td_participants := rows\<rparr>)))"

definition UpdateParticipantQtyAndScoreTx :: "sql_driver \<Rightarrow> string \<Rightarrow> string \<Rightarrow> int \<Rightarrow> rat \<Rightarrow> tdb \<Rightarrow> tdb sqlresult" where
  "UpdateParticipantQtyAndScoreTx sql contestID userID qtyAvailable totalScore db =
     rbind (num sql totalScore) (\<lambda>s.
     rbind (update_rows (active_of contestID userID)
         (\<lambda>p. p\<lparr>pt_qty_available := qtyAvailable, pt_total_score := s\<rparr>) participant_ok (td_participants db))
       (\<lambda>rows. Inr (db\<lparr>td_participants := rows\<rparr>)))"

definition GetOrderByID :: "string \<Rightarrow> tdb \<Rightarrow> DBOrder option" where
  "GetOrderByID orderID db =
     map_option (\<lambda>r. \<lparr>do_OrderID = or_order_id r, do_ContestID = or_contest_id r, do_UserID = or_user_id r,
        do_Symbol = or_symbol r, do_Status = or_status r, do_Qty = or_qty r, do_QtyFilled = or_qty_filled r\<rparr>)
       (List.find (\<lambda>r. or_order_id r = orderID) (td_orders db))"

definition insert_order :: "OrderRow \<Rightarrow> tdb \<Rightarrow> tdb sqlresult" where
  "insert_order r db =
     (if \<exists>r' \<in> set (td_orders db). or_order_id r' = or_order_id r then Inl ''duplicate key value violates unique constraint''
      else if \<not> order_ok r then Inl ''check constraint violated''
      else Inr (db\<lparr>td_orders := td_orders db @ [r]\<rparr>))"

definition new_order_row ::
  "sql_driver \<Rightarrow> string \<Rightarrow> string \<Rightarrow> string \<Rightarrow> string \<Rightarrow> string \<Rightarrow> string \<Rightarrow> int \<Rightarrow>
   f64 option \<Rightarrow> f64 option \<Rightarrow> f64 option \<Rightarrow> f64 option \<Rightarrow> OrderRow sqlresult" where
  "new_order_row sql orderID contestID userID symbol dbSide dbType qty limitPrice stopPrice takeProfit stopLoss =
     rbind (num_opt sql limitPrice) (\<lambda>lp. rbind (num_opt sql stopPrice) (\<lambda>sp.
     rbind (num_opt sql takeProfit) (\<lambda>tp. rbind (num_opt sql stopLoss) (\<lambda>sl.
       Inr \<lparr>or_order_id = orderID, or_contest_id = contestID, or_user_id = userID, or_symbol = symbol,
         or_side = dbSide, or_type = dbType, or_qty = qty, or_qty_filled = 0, or_limit_price = lp, or_stop_price = sp,
         or_take_profit = tp, or_stop_loss = sl, or_status = ''pending''\<rparr>))))"

definition OrderTypeMarket :: string where "OrderTypeMarket = ''MARKET''"
definition OrderTypeBuyLimit :: string where "OrderTypeBuyLimit = ''BUY_LIMIT''"
definition OrderTypeSellLimit :: string where "OrderTypeSellLimit = ''SELL_LIMIT''"
definition OrderTypeBuyStop :: string where "OrderTypeBuyStop = ''BUY_STOP''"
definition OrderTypeSellStop :: string where "OrderTypeSellStop = ''SELL_STOP''"
definition OrderTypeLimit :: string where "OrderTypeLimit = ''LIMIT''"
definition OrderTypeStop :: string where "OrderTypeStop = ''STOP''"

lemmas order_type_consts = OrderTypeMarket_def OrderTypeBuyLimit_def OrderTypeSellLimit_def OrderTypeBuyStop_def
  OrderTypeSellStop_def OrderTypeLimit_def OrderTypeStop_def

definition dbOrderType :: "string \<Rightarrow> string" where
  "dbOrderType orderType =
     (if orderType = OrderTypeBuyLimit then ''buy_limit'' else if orderType = OrderTypeSellLimit then ''sell_limit''
      else if orderType = OrderTypeBuyStop then ''buy_stop'' else if orderType = OrderTypeSellStop then ''sell_stop''
      else if orderType = OrderTypeLimit then ''limit'' else if orderType = OrderTypeStop then ''stop''
      else ''market'')"

definition InsertOrder ::
  "sql_driver \<Rightarrow> string \<Rightarrow> string \<Rightarrow> string \<Rightarrow> string \<Rightarrow> string \<Rightarrow> string \<Rightarrow> int \<Rightarrow>
   f64 option \<Rightarrow> f64 option \<Rightarrow> f64 option \<Rightarrow> f64 option \<Rightarrow> tdb \<Rightarrow> tdb sqlresult" where
  "InsertOrder sql orderID contestID userID symbol side orderType qty limitPrice stopPrice takeProfit stopLoss db =
     rbind (new_order_row sql orderID contestID userID symbol (OrderSideToDBOrderSide side) (dbOrderType orderType) qty
       limitPrice stopPrice takeProfit stopLoss) (\<lambda>r. insert_order r db)"

definition dbOrderTypeTx :: "string \<Rightarrow> string" where
  "dbOrderTypeTx orderType =
     (if orderType \<in> {OrderTypeLimit, OrderTypeBuyLimit, OrderTypeSellLimit} then ''limit''
      else if orderType \<in> {OrderTypeStop, OrderTypeBuyStop, OrderTypeSellStop} then ''stop'' else ''market'')"

definition insertOrderTx ::
  "sql_driver \<Rightarrow> string \<Rightarrow> string \<Rightarrow> string \<Rightarrow> string \<Rightarrow> string \<Rightarrow> string \<Rightarrow> int \<Rightarrow>
   f64 option \<Rightarrow> f64 option \<Rightarrow> f64 option \<Rightarrow> f64 option \<Rightarrow> tdb \<Rightarrow> tdb sqlresult" where
  "insertOrderTx sql orderID contestID userID symbol side orderType qty limitPrice stopPrice takeProfit stopLoss db =
     rbind (new_order_row sql orderID contestID userID symbol (OrderSideToDBOrderSide side) (dbOrderTypeTx orderType) qty
       limitPrice stopPrice takeProfit stopLoss) (\<lambda>r. insert_order r db)"

definition UpdateOrderStatusTx :: "string \<Rightarrow> string \<Rightarrow> int \<Rightarrow> tdb \<Rightarrow> tdb sqlresult" where
  "UpdateOrderStatusTx orderID status qtyFilled db =
     rbind (update_rows (\<lambda>r. or_order_id r = orderID) (\<lambda>r. r\<lparr>or_status := status, or_qty_filled := qtyFilled\<rparr>) order_ok (td_orders db))
       (\<lambda>rows. Inr (db\<lparr>td_orders := rows\<rparr>))"

text \<open>\<open>UpdateOrderStatus\<close> outside a transaction: the caller logs an error and goes on.\<close>

definition UpdateOrderStatus :: "string \<Rightarrow> string \<Rightarrow> int \<Rightarrow> tdb \<Rightarrow> tdb" where
  "UpdateOrderStatus orderID status qtyFilled db =
     (case UpdateOrderStatusTx orderID status qtyFilled db of Inl _ \<Rightarrow> db | Inr db' \<Rightarrow> db')"

definition InsertFillTx ::
  "sql_driver \<Rightarrow> string \<Rightarrow> string \<Rightarrow> string \<Rightarrow> string \<Rightarrow> string \<Rightarrow> string \<Rightarrow> int \<Rightarrow> f64 \<Rightarrow> tdb \<Rightarrow> tdb sqlresult" where
  "InsertFillTx sql fillID orderID contestID userID symbol side qty fillPrice db =
     rbind (num sql (sql_param sql fillPrice)) (\<lambda>price.
       if \<exists>f \<in> set (td_fills db). fl_fill_id f = fillID then Inl ''duplicate key value violates unique constraint''
       else if \<not> (0 < qty \<and> 0 < price) then Inl ''check constraint violated''
       else Inr (db\<lparr>td_fills := td_fills db @
         [\<lparr>fl_fill_id = fillID, fl_order_id = orderID, fl_contest_id = contestID, fl_user_id = userID, fl_symbol = symbol,
           fl_side = OrderSideToDBOrderSide side, fl_qty = qty, fl_fill_price = price, fl_realized_pnl = 0\<rparr>]\<rparr>))"

definition UpdateFillRealizedPnlTx :: "sql_driver \<Rightarrow> string \<Rightarrow> f64 \<Rightarrow> tdb \<Rightarrow> tdb sqlresult" where
  "UpdateFillRealizedPnlTx sql fillID realizedPnl db =
     rbind (num sql (sql_param sql realizedPnl)) (\<lambda>pnl.
       Inr (db\<lparr>td_fills := map (\<lambda>f. if fl_fill_id f = fillID then f\<lparr>fl_realized_pnl := pnl\<rparr> else f) (td_fills db)\<rparr>))"

definition scan_position :: "sql_driver \<Rightarrow> PositionRow \<Rightarrow> DBPosition" where
  "scan_position sql p =
     \<lparr>db_PositionID = pr_position_id p, db_ContestID = pr_contest_id p, db_UserID = pr_user_id p,
      db_Symbol = pr_symbol p, db_Side = pr_side p, db_QtyOpen = pr_qty_open p,
      db_EntryPrice = sql_float sql (pr_entry_price p), db_QtyUsed = pr_qty_used p,
      db_RealizedScore = sql_float sql (pr_realized_score p)\<rparr>"

definition open_in :: "string \<Rightarrow> string \<Rightarrow> string \<Rightarrow> PositionRow \<Rightarrow> bool" where
  "open_in contestID userID symbol p \<longleftrightarrow>
     pr_contest_id p = contestID \<and> pr_user_id p = userID \<and> pr_symbol p = symbol \<and> \<not> pr_closed p"

definition GetOpenPosition :: "sql_driver \<Rightarrow> string \<Rightarrow> string \<Rightarrow> string \<Rightarrow> tdb \<Rightarrow> DBPosition option" where
  "GetOpenPosition sql contestID userID symbol db =
     map_option (scan_position sql) (List.find (open_in contestID userID symbol) (rev (td_positions db)))"

definition GetOpenPositionTx :: "sql_driver \<Rightarrow> string \<Rightarrow> string \<Rightarrow> string \<Rightarrow> tdb \<Rightarrow> DBPosition option" where
  "GetOpenPositionTx sql contestID userID symbol db =
     map_option (scan_position sql) (List.find (open_in contestID userID symbol) (rev (td_positions db)))"

definition GetPositionByID :: "sql_driver \<Rightarrow> string \<Rightarrow> tdb \<Rightarrow> DBPosition option" where
  "GetPositionByID sql positionID db =
     map_option (scan_position sql) (List.find (\<lambda>p. pr_position_id p = positionID \<and> \<not> pr_closed p) (td_positions db))"

definition InsertPositionTx ::
  "sql_driver \<Rightarrow> string \<Rightarrow> string \<Rightarrow> string \<Rightarrow> string \<Rightarrow> string \<Rightarrow> int \<Rightarrow> f64 \<Rightarrow> int \<Rightarrow> tdb \<Rightarrow> tdb sqlresult" where
  "InsertPositionTx sql positionID contestID userID symbol side qtyOpen entryPrice qtyUsed db =
     rbind (num sql (sql_param sql entryPrice)) (\<lambda>price.
       let r = \<lparr>pr_position_id = positionID, pr_contest_id = contestID, pr_user_id = userID, pr_symbol = symbol,
                pr_side = side, pr_qty_open = qtyOpen, pr_entry_price = price, pr_qty_used = qtyUsed,
                pr_realized_score = 0, pr_closed = False, pr_take_profit = None, pr_stop_loss = None\<rparr>
       in if \<exists>p \<in> set (td_positions db). pr_position_id p = positionID then Inl ''duplicate key value violates unique constraint''
          else if \<not> position_ok r then Inl ''check constraint violated''
          else Inr (db\<lparr>td_positions := td_positions db @ [r]\<rparr>))"

definition update_position :: "string \<Rightarrow> (PositionRow \<Rightarrow> PositionRow) \<Rightarrow> tdb \<Rightarrow> tdb sqlresult" where
  "update_position positionID f db =
     rbind (update_rows (\<lambda>p. pr_position_id p = positionID) f position_ok (td_positions db))
       (\<lambda>rows. Inr (db\<lparr>td_positions := rows\<rparr>))"

definition UpdatePositionTx :: "sql_driver \<Rightarrow> string \<Rightarrow> int \<Rightarrow> f64 \<Rightarrow> int \<Rightarrow> rat \<Rightarrow> tdb \<Rightarrow> tdb sqlresult" where
  "UpdatePositionTx sql positionID qtyOpen entryPrice qtyUsed realizedScore db =
     rbind (num sql (sql_param sql entryPrice)) (\<lambda>price. rbind (num sql realizedScore) (\<lambda>score.
       update_position positionID (\<lambda>p. p\<lparr>pr_qty_open := qtyOpen, pr_entry_price := price, pr_qty_used := qtyUsed,
         pr_realized_score := score\<rparr>) db))"

definition ClosePositionTx :: "sql_driver \<Rightarrow> string \<Rightarrow> rat \<Rightarrow> tdb \<Rightarrow> tdb sqlresult" where
  "ClosePositionTx sql positionID realizedScore db =
     rbind (num sql realizedScore) (\<lambda>score.
       update_position positionID (\<lambda>p. p\<lparr>pr_closed := True, pr_qty_open := 0, pr_realized_score := score\<rparr>) db)"

text \<open>The statement also sets \<open>updated_at\<close>; it fails where the table has no such column.\<close>

definition UpdatePositionTPSLTx :: "sql_driver \<Rightarrow> string \<Rightarrow> f64 option \<Rightarrow> f64 option \<Rightarrow> tdb \<Rightarrow> tdb sqlresult" where
  "UpdatePositionTPSLTx sql positionID takeProfit stopLoss db =
     (if ''updated_at'' \<notin> set (td_positions_columns db) then Inl ''column updated_at of relation positions does not exist''
      else rbind (num_opt sql takeProfit) (\<lambda>tp. rbind (num_opt sql stopLoss) (\<lambda>sl.
        rbind (update_rows (\<lambda>p. pr_position_id p = positionID \<and> \<not> pr_closed p)
            (\<lambda>p. p\<lparr>pr_take_profit := tp, pr_stop_loss := sl\<rparr>) position_ok (td_positions db))
          (\<lambda>rows. Inr (db\<lparr>td_positions := rows\<rparr>)))))"

definition GetAllOpenPositions :: "sql_driver \<Rightarrow> string \<Rightarrow> string \<Rightarrow> tdb \<Rightarrow> DBPosition list" where
  "GetAllOpenPositions sql contestID userID db =
     map (scan_position sql) (filter (\<lambda>p. pr_contest_id p = contestID \<and> pr_user_id p = userID \<and> \<not> pr_closed p) (td_positions db))"

definition GetContest :: "string \<Rightarrow> tdb \<Rightarrow> DBContest option" where
  "GetContest contestID db = td_contests db contestID"

definition GetContestSymbols :: "string \<Rightarrow> tdb \<Rightarrow> string list" where
  "GetContestSymbols contestID db = map snd (filter (\<lambda>(c, s). c = contestID) (td_symbols db))"

definition mapDBOrderType :: "string \<Rightarrow> string \<Rightarrow> string" where
  "mapDBOrderType dbType side =
     (if dbType = ''buy_limit'' then OrderTypeBuyLimit else if dbType = ''sell_limit'' then OrderTypeSellLimit
      else if dbType = ''buy_stop'' then OrderTypeBuyStop else if dbType = ''sell_stop'' then OrderTypeSellStop
      else if dbType = ''limit'' then (if side = OrderSideBuy then OrderTypeBuyLimit else OrderTypeSellLimit)
      else if dbType = ''stop'' then (if side = OrderSideBuy then OrderTypeBuyStop else OrderTypeSellStop)
      else OrderTypeMarket)"

end
