(* ===== verification/Tragge_Points.thy ===== *)
theory Tragge_Points
  imports Trading_Scoring
begin

text \<open>
  Tragge points: \<open>packages/domain/traggepoint/traggepoint.go\<close>. Instants are nanoseconds, the zero
  time is \<open>None\<close>. Decimals are modelled as in \<open>Trading_Scoring\<close>; the logarithm and the power of the
  mathematics library are the argument \<open>M\<close>, of which the code needs only that a power of one half
  with a non-negative exponent lies between zero and one.
\<close>

section \<open>Parameters\<close>

record math_lib =
  math_Log10 :: "f64 \<Rightarrow> f64"
  math_Pow :: "f64 \<Rightarrow> f64 \<Rightarrow> f64"

locale point_math = decimals D for D :: decimal_lib +
  fixes M :: math_lib
  assumes half_pow: "0 \<le> y \<Longrightarrow> 0 \<le> NewFromFloat D (math_Pow M (1 / 2) y) \<and> NewFromFloat D (math_Pow M (1 / 2) y) \<le> 1"

definition DefaultDecayHalfLifeDays :: int where "DefaultDecayHalfLifeDays = 180"
definition MinDecayHalfLifeDays :: int where "MinDecayHalfLifeDays = 1"
definition BaseParticipants :: int where "BaseParticipants = 1000"
definition decPointOne :: rat where "decPointOne = 1 / 10"
definition decOneFive :: rat where "decOneFive = 3 / 2"
definition decHalf :: rat where "decHalf = 1 / 2"

record Calculator =
  decayHalfLifeDays :: int

definition WithDecayHalfLife :: "int \<Rightarrow> Calculator \<Rightarrow> Calculator" where
  "WithDecayHalfLife days c = (if days \<ge> MinDecayHalfLifeDays then c\<lparr>decayHalfLifeDays := days\<rparr> else c)"

definition NewCalculator :: "(Calculator \<Rightarrow> Calculator) list \<Rightarrow> Calculator" where
  "NewCalculator opts = fold (\<lambda>opt. opt) opts \<lparr>decayHalfLifeDays = DefaultDecayHalfLifeDays\<rparr>"

record ContestResult =
  cr_TournamentScore :: rat
  cr_Rank :: int
  cr_TotalParticipants :: int
  cr_CompletedAt :: "int option"

record ScoreBreakdown =
  bd_BaseScore :: rat
  bd_ParticipantMultiplier :: rat
  bd_RankBonus :: rat
  bd_DecayFactor :: rat
  bd_FinalContribution :: rat
  bd_SkipReason :: string

section \<open>Multipliers\<close>

definition CalculateParticipantMultiplier :: "decimal_lib \<Rightarrow> math_lib \<Rightarrow> int \<Rightarrow> rat" where
  "CalculateParticipantMultiplier D M totalParticipants =
     (if totalParticipants \<le> 0 then decPointOne
      else
        let mult = f64_div (math_Log10 M (f64_of_int totalParticipants)) (math_Log10 M (f64_of_int BaseParticipants));
            result = NewFromFloat D mult
        in if result < decPointOne then decPointOne
           else if result > decOneFive then decOneFive
           else dec_Round D result Precision)"

definition CalculateRankBonus :: "decimal_lib \<Rightarrow> int \<Rightarrow> int \<Rightarrow> rat" where
  "CalculateRankBonus D rank totalParticipants =
     (if rank \<le> 0 \<or> totalParticipants \<le> 0 then 1
      else
        let rankRatio = dec_Div D (of_int rank) (of_int totalParticipants);
            bonus = 1 + decHalf * (1 - rankRatio)
        in if bonus < 1 then 1 else if bonus > decOneFive then decOneFive else dec_Round D bonus Precision)"

text \<open>\<open>Duration.Hours()\<close>; \<open>Time.Sub\<close> saturates.\<close>

definition dur_Hours :: "int \<Rightarrow> f64" where
  "dur_Hours d = f64_add (f64_of_int (go_quot d 3600000000000)) (f64_div (f64_of_int (go_rem d 3600000000000)) 3600000000000)"

definition sub_time :: "int \<Rightarrow> int \<Rightarrow> int" where
  "sub_time t u = max min_i64 (min max_i64 (t - u))"

definition CalculateDecayFactor :: "decimal_lib \<Rightarrow> math_lib \<Rightarrow> Calculator \<Rightarrow> int option \<Rightarrow> int \<Rightarrow> rat" where
  "CalculateDecayFactor D M c completedAt t =
     (case completedAt of
        None \<Rightarrow> 1
      | Some done_at \<Rightarrow>
          if t < done_at then 1
          else
            let daysElapsed = f64_div (dur_Hours (sub_time t done_at)) 24;
                halfLife = f64_of_int (decayHalfLifeDays c)
            in dec_Round D (NewFromFloat D (math_Pow M (1 / 2) (f64_div daysElapsed halfLife))) Precision)"

section \<open>Contributions\<close>

definition CalculateContributionWithBreakdown ::
    "decimal_lib \<Rightarrow> math_lib \<Rightarrow> Calculator \<Rightarrow> ContestResult \<Rightarrow> int \<Rightarrow> ScoreBreakdown" where
  "CalculateContributionWithBreakdown D M c result t =
     (let breakdown = \<lparr>bd_BaseScore = cr_TournamentScore result, bd_ParticipantMultiplier = 1, bd_RankBonus = 1,
            bd_DecayFactor = 1, bd_FinalContribution = 0, bd_SkipReason = ''''\<rparr> in
      if cr_TournamentScore result \<le> 0 then breakdown\<lparr>bd_SkipReason := ''negative_or_zero_score''\<rparr>
      else if cr_Rank result \<le> 0 \<or> cr_TotalParticipants result \<le> 0
        then breakdown\<lparr>bd_SkipReason := ''invalid_rank_or_participants''\<rparr>
      else
        let mult = CalculateParticipantMultiplier D M (cr_TotalParticipants result);
            bonus = CalculateRankBonus D (cr_Rank result) (cr_TotalParticipants result);
            decay = CalculateDecayFactor D M c (cr_CompletedAt result) t
        in breakdown\<lparr>bd_ParticipantMultiplier := mult, bd_RankBonus := bonus, bd_DecayFactor := decay,
             bd_FinalContribution := dec_Round D (cr_TournamentScore result * mult * bonus * decay) Precision\<rparr>)"

definition CalculateContribution :: "decimal_lib \<Rightarrow> math_lib \<Rightarrow> Calculator \<Rightarrow> ContestResult \<Rightarrow> int \<Rightarrow> rat" where
  "CalculateContribution D M c result t = bd_FinalContribution (CalculateContributionWithBreakdown D M c result t)"

definition CalculateTotalPoint :: "decimal_lib \<Rightarrow> math_lib \<Rightarrow> Calculator \<Rightarrow> ContestResult list \<Rightarrow> int \<Rightarrow> rat" where
  "CalculateTotalPoint D M c results t =
     dec_Round D (foldl (\<lambda>total r. total + CalculateContribution D M c r t) 0 results) Precision"

definition CalculateWinRate :: "decimal_lib \<Rightarrow> int \<Rightarrow> int \<Rightarrow> rat" where
  "CalculateWinRate D wins totalContests =
     (if totalContests \<le> 0 then 0
      else dec_Round D (dec_Div D (of_int wins) (of_int totalContests) * 100) Precision)"

text \<open>The package function with the default calculator; \<open>time.Now()\<close> is the last argument.\<close>

definition pointContribution :: "decimal_lib \<Rightarrow> math_lib \<Rightarrow> rat \<Rightarrow> int \<Rightarrow> int \<Rightarrow> int option \<Rightarrow> int \<Rightarrow> rat" where
  "pointContribution D M score rank totalParticipants completedAt t =
     CalculateContribution D M (NewCalculator [])
       \<lparr>cr_TournamentScore = score, cr_Rank = rank, cr_TotalParticipants = totalParticipants, cr_CompletedAt = completedAt\<rparr> t"

section \<open>Bounds\<close>

lemma on_grid_ge:
  assumes "on_grid n a" "on_grid n r" "r < a"
  shows "r + 1 / 10 ^ n \<le> a"
proof -
  define p :: rat where "p = 10 ^ n"
  have p: "0 < p" by (simp add: p_def)
  obtain k l :: int where k: "a * p = of_int k" and l: "r * p = of_int l" using assms(1,2) by (auto simp: on_grid_def p_def)
  have "r * p < a * p" using assms(3) p by simp
  then have "l + 1 \<le> k" using k l by simp
  then have "of_int l + 1 \<le> (of_int k :: rat)" by linarith
  then have "r * p + 1 \<le> a * p" using k l by simp
  then show ?thesis using p by (simp add: p_def [symmetric] field_simps)
qed

context decimals
begin

lemma round_lower:
  assumes "on_grid n a" "a \<le> x"
  shows "a \<le> dec_Round D x n"
proof (rule ccontr)
  assume "\<not> a \<le> dec_Round D x n"
  then have "dec_Round D x n + 1 / 10 ^ n \<le> a" using on_grid_ge [OF assms(1) round_grid] by simp
  moreover have "x - dec_Round D x n \<le> 1 / (2 * 10 ^ n)" using round_close [of x n] by (simp add: abs_le_iff)
  moreover have "1 / (2 * 10 ^ n) < (1 / 10 ^ n :: rat)" by (simp add: field_simps)
  ultimately show False using assms(2) by linarith
qed

lemma round_upper:
  assumes "on_grid n a" "x \<le> a"
  shows "dec_Round D x n \<le> a"
proof -
  have "on_grid n (- a)" using assms(1) by (metis on_grid_def minus_mult_left of_int_minus)
  then have "- a \<le> dec_Round D (- x) n" using assms(2) by (intro round_lower) simp_all
  then show ?thesis by (simp add: round_neg)
qed

lemma grid_consts: "on_grid Precision (1 / 10)" "on_grid Precision (3 / 2)" "on_grid Precision 1" "on_grid Precision 0"
proof -
  have "x * 10 ^ Precision = of_int k \<Longrightarrow> on_grid Precision x" for x k unfolding on_grid_def by blast
  from this [of "1 / 10" 10000000] this [of "3 / 2" 150000000] this [of 1 100000000] this [of 0 0]
  show "on_grid Precision (1 / 10)" "on_grid Precision (3 / 2)" "on_grid Precision 1" "on_grid Precision 0" by simp_all
qed

lemma multiplier_bounds: "1 / 10 \<le> CalculateParticipantMultiplier D M n" "CalculateParticipantMultiplier D M n \<le> 3 / 2"
  using round_lower [OF grid_consts(1)] round_upper [OF grid_consts(2)]
  by (auto simp: CalculateParticipantMultiplier_def Let_def decPointOne_def decOneFive_def not_less)

lemma bonus_bounds: "1 \<le> CalculateRankBonus D r n" "CalculateRankBonus D r n \<le> 3 / 2"
  using round_lower [OF grid_consts(3)] round_upper [OF grid_consts(2)]
  by (auto simp: CalculateRankBonus_def Let_def decOneFive_def not_less)

end

context point_math
begin

lemma dur_Hours_nonneg: "0 \<le> d \<Longrightarrow> is_i64 d \<Longrightarrow> 0 \<le> dur_Hours d"
  by (auto simp: dur_Hours_def f64_add_def f64_div_def f64_of_int_def go_quot_nonneg go_rem_nonneg pos_imp_zdiv_nonneg_iff
      intro!: f64_round_nonneg add_nonneg_nonneg divide_nonneg_nonneg)

lemma decay_bounds:
  assumes "0 < decayHalfLifeDays c"
  shows "0 \<le> CalculateDecayFactor D M c completedAt t \<and> CalculateDecayFactor D M c completedAt t \<le> 1"
proof (cases completedAt)
  case None
  then show ?thesis by (simp add: CalculateDecayFactor_def)
next
  case (Some u)
  show ?thesis
  proof (cases "t < u")
    case True
    then show ?thesis using Some by (simp add: CalculateDecayFactor_def)
  next
    case False
    define y where "y = f64_div (f64_div (dur_Hours (sub_time t u)) 24) (f64_of_int (decayHalfLifeDays c))"
    have "0 \<le> sub_time t u" "is_i64 (sub_time t u)" using False by (simp_all add: sub_time_def is_i64_def)
    then have "0 \<le> y" using assms dur_Hours_nonneg
      by (auto simp: y_def f64_div_def f64_of_int_def intro!: f64_round_nonneg divide_nonneg_nonneg)
    note P = half_pow [OF this]
    have "CalculateDecayFactor D M c completedAt t = dec_Round D (NewFromFloat D (math_Pow M (1 / 2) y)) Precision"
      using Some False by (simp add: CalculateDecayFactor_def y_def)
    then show ?thesis
      using round_lower [OF grid_consts(4)] round_upper [OF grid_consts(3)] P by simp
  qed
qed

lemma contribution_bounds:
  assumes "0 < decayHalfLifeDays c" "0 < cr_TournamentScore r" "0 < cr_Rank r" "0 < cr_TotalParticipants r"
  shows "0 \<le> CalculateContribution D M c r t \<and> CalculateContribution D M c r t \<le> 9 / 4 * cr_TournamentScore r + 1 / 10 ^ 8"
proof -
  define m where "m = CalculateParticipantMultiplier D M (cr_TotalParticipants r)"
  define b where "b = CalculateRankBonus D (cr_Rank r) (cr_TotalParticipants r)"
  define k where "k = CalculateDecayFactor D M c (cr_CompletedAt r) t"
  define s where "s = cr_TournamentScore r"
  define x where "x = s * m * b * k"
  have s: "0 < s" using assms(2) by (simp add: s_def)
  have m: "0 \<le> m" "m \<le> 3 / 2" using multiplier_bounds [of M "cr_TotalParticipants r"] by (simp_all add: m_def)
  have b: "0 \<le> b" "b \<le> 3 / 2" using bonus_bounds [of "cr_Rank r" "cr_TotalParticipants r"] by (simp_all add: b_def)
  have k: "0 \<le> k" "k \<le> 1" using decay_bounds [OF assms(1)] by (simp_all add: k_def)
  have "m * b \<le> 3 / 2 * (3 / 2)" using m b by (intro mult_mono) simp_all
  then have "m * b * k \<le> 9 / 4 * 1" using m b k by (intro mult_mono) simp_all
  then have "s * (m * b * k) \<le> s * (9 / 4)" using s by (intro mult_left_mono) simp_all
  then have x: "0 \<le> x" "x \<le> 9 / 4 * s" using s m b k by (simp_all add: x_def mult.assoc algebra_simps)
  have c: "CalculateContribution D M c r t = dec_Round D x Precision"
    using assms by (simp add: CalculateContribution_def CalculateContributionWithBreakdown_def Let_def x_def s_def m_def b_def k_def)
  have "dec_Round D x Precision - x \<le> 1 / (2 * 10 ^ 8)" using round_close [of x Precision] by (simp only: abs_le_iff Precision_def)
  moreover have "1 / (2 * 10 ^ 8) \<le> (1 / 10 ^ 8 :: rat)" by simp
  moreover have "0 \<le> dec_Round D x Precision" by (rule round_lower [OF grid_consts(4) x(1)])
  ultimately show ?thesis using x(2) by (simp add: c s_def)
qed

end

section \<open>An instance\<close>

text \<open>
  Powers and logarithms rounded down to a whole exponent: values that a library may not give, but
  that satisfy what the code relies on.
\<close>

function floor_log10 :: "nat \<Rightarrow> nat" where
  "floor_log10 n = (if n < 10 then 0 else Suc (floor_log10 (n div 10)))"
  by pat_completeness auto
termination
  by (relation "measure id") auto

declare floor_log10.simps [simp del]

definition step_math :: math_lib where
  "step_math = \<lparr>math_Log10 = \<lambda>x. of_nat (floor_log10 (nat \<lfloor>x\<rfloor>)), math_Pow = \<lambda>x y. f64_round (x ^ nat \<lfloor>y\<rfloor>)\<rparr>"

lemma f64_round_one: "f64_round 1 = 1"
  by code_simp

interpretation steps: point_math shop_decimal step_math
proof
  fix y :: f64
  have "0 \<le> f64_round ((1 / 2) ^ n) \<and> f64_round ((1 / 2) ^ n) \<le> 1" for n
  proof (cases n)
    case 0
    then show ?thesis by (simp add: f64_round_one)
  next
    case (Suc m)
    have "f64_round ((1 / 2) ^ n) \<le> (1 / 2) ^ n * (1 + 1 / 2 ^ 53)" by (rule f64_round_le) simp
    also have "\<dots> \<le> 1 / 2 * (1 + 1 / 2 ^ 53)" using power_le_one [of "1 / 2 :: rat" m] by (intro mult_right_mono) (simp_all add: Suc)
    finally have "f64_round ((1 / 2) ^ n) \<le> 1" by simp
    then show ?thesis by (simp add: f64_round_nonneg)
  qed
  then show "0 \<le> NewFromFloat shop_decimal (math_Pow step_math (1 / 2) y) \<and> NewFromFloat shop_decimal (math_Pow step_math (1 / 2) y) \<le> 1"
    by (simp add: shop_decimal_def step_math_def)
qed

text \<open>
  (C28) The Tragge points of one contest are bounded by the score: whatever the size of the contest,
  the rank and the age of the result, a positive score contributes at least nothing and at most nine
  quarters of the score, up to the last of the eight digits.
\<close>
theorem point_contribution_bounds:
  assumes "point_math D M" and "0 < score" and "0 < rank" and "0 < n"
  shows "0 \<le> pointContribution D M score rank n completedAt t
    \<and> pointContribution D M score rank n completedAt t \<le> 9 / 4 * score + 1 / 10 ^ 8"
proof -
  let ?r = "\<lparr>cr_TournamentScore = score, cr_Rank = rank, cr_TotalParticipants = n, cr_CompletedAt = completedAt\<rparr>"
  have "0 < decayHalfLifeDays (NewCalculator [])" by (simp add: NewCalculator_def DefaultDecayHalfLifeDays_def)
  from point_math.contribution_bounds [OF assms(1) this, of ?r t] show ?thesis
    using assms(2-4) unfolding pointContribution_def ContestResult.select_convs by blast
qed

theorem point_contribution_bounds_witness:
  "0 \<le> pointContribution shop_decimal step_math 120 2 50 (Some 0) 86400000000000
   \<and> pointContribution shop_decimal step_math 120 2 50 (Some 0) 86400000000000 \<le> 9 / 4 * 120 + 1 / 10 ^ 8"
  by (rule point_contribution_bounds [OF steps.point_math_axioms]) simp_all

end
