(* ===== verification/Settlement_Db.thy ===== *)
theory Settlement_Db
  imports Contest_Snapshots Trading_State Tragge_Points
begin

text \<open>
  The statements of the settlement service: \<open>apps/settlement-service/server/db.go\<close>. The database is
  the one of the contests and the wallets (\<open>sd_c\<close>) together with the tables of the trading engine
  (\<open>sd_t\<close>); a row of \<open>contest_participants\<close> is split over both, with the lifecycle, the final rank
  and the prize in \<open>sd_c\<close> and the total score in \<open>sd_t\<close>. The checks of a statement are the
  constraints of migrations 0001, 0019, 0032, 0070 and 0075. Reads succeed; a writing statement can
  fail for a reason outside the model, given by \<open>se_fault\<close> under the name of the Go function.
\<close>

section \<open>State and environment\<close>

record sdb =
  sd_c :: cdb
  sd_t :: tdb
  sd_users_columns :: "string list"
  sd_points :: "string \<rightharpoonup> rat"
  sd_events :: "(string \<times> string \<times> string \<times> string option) list"

text \<open>The columns of \<open>users\<close> after all migrations; \<open>tragge_point\<close> is a column of \<open>user_stats\<close>.\<close>

definition migrated_users_columns :: "string list" where
  "migrated_users_columns =
     [''id'', ''email'', ''password_hash'', ''created_at'', ''status'', ''email_verified'', ''email_verified_at'', ''username'',
      ''display_name'', ''avatar_url'', ''bio'', ''country'', ''phone'', ''updated_at'', ''is_system_account'',
      ''password_changed_at'', ''totp_secret'', ''totp_enabled'', ''totp_verified_at'', ''backup_codes'', ''terms_accepted_at'',
      ''ban_expires_at'', ''phone_verified'', ''preferred_lang'', ''telegram_id'', ''telegram_username'',
      ''telegram_first_name'', ''telegram_last_name'']"

record FinalParticipant =
  fp_UserID :: string
  fp_FinalScore :: f64
  fp_RealizedScore :: f64
  fp_QtyTotal :: int
  fp_QtyAvailable :: int

datatype settle_error =
    SqlError string
  | WalletError wallet_error
  | SnapshotError snapshot_error
  | NoRows
  | SettlementNotOfContest
  | ContestUpdateFailed
  | AlreadyInProgress
  | CloseTimeout
  | ContextDone
  | RetriesExhausted int

type_synonym 'a settle_result = "settle_error + 'a"

text \<open>
  What a moment of polling shows: the tables at a tick of a ticker, a failed count, a deadline or the
  end of the context.
\<close>

datatype close_event =
    StartCounts tdb
  | StartCountsFailed string
  | CancelTick tdb
  | CancelTickFailed
  | CancelDeadline
  | PositionTick tdb
  | PositionTickFailed
  | PositionTimeout
  | CloseContextDone

record senv =
  se_sql :: sql_driver
  se_numeric :: "nat \<Rightarrow> nat \<Rightarrow> rat \<Rightarrow> rat option"
  se_sort :: "FinalParticipant list \<Rightarrow> FinalParticipant list"
  se_fault :: "string \<Rightarrow> string option"
  se_prizeBegin :: "nat \<Rightarrow> string option"
  se_prizeCommit :: "nat \<Rightarrow> string option"
  se_settlementID :: string
  se_entryID :: "nat \<Rightarrow> string"
  se_refundID :: string
  se_snapshotID :: string
  se_events :: "close_event list"
  se_redis :: "string \<Rightarrow> Price option"
  se_dec :: decimal_lib
  se_math :: math_lib
  se_time :: int
  se_PlatformFeeBps :: int
  se_waitDone :: bool

abbreviation sd_funds :: "sdb \<Rightarrow> db" where
  "sd_funds d \<equiv> cd_funds (sd_c d)"

definition put_c :: "cdb \<Rightarrow> sdb \<Rightarrow> sdb" where
  "put_c c d = d\<lparr>sd_c := c\<rparr>"

definition put_funds :: "db \<Rightarrow> sdb \<Rightarrow> sdb" where
  "put_funds f d = d\<lparr>sd_c := (sd_c d)\<lparr>cd_funds := f\<rparr>\<rparr>"

definition numeric :: "senv \<Rightarrow> nat \<Rightarrow> nat \<Rightarrow> rat \<Rightarrow> rat settle_result" where
  "numeric env p s x = (case se_numeric env p s x of None \<Rightarrow> Inl (SqlError ''numeric field overflow'') | Some y \<Rightarrow> Inr y)"

definition statement :: "senv \<Rightarrow> string \<Rightarrow> 'a \<Rightarrow> 'a settle_result" where
  "statement env name x = (case se_fault env name of Some err \<Rightarrow> Inl (SqlError err) | None \<Rightarrow> Inr x)"

section \<open>Advisory lock\<close>

unbundle bit_operations_syntax

definition fnv1a_step :: "char \<Rightarrow> 64 word \<Rightarrow> 64 word" where
  "fnv1a_step ch h = (h XOR of_nat (of_char ch)) * 1099511628211"

definition hashString :: "string \<Rightarrow> int" where
  "hashString s = sint (fold fnv1a_step s 14695981039346656037)"

section \<open>Contest information\<close>

record ContestInfo =
  ci_ID :: string
  ci_Name :: string
  ci_EntryFeeCents :: int
  ci_PlatformFeeBps :: int
  ci_PrizePoolNetCents :: int
  ci_CommissionAmount :: int
  ci_EndTime :: int
  ci_EconomicsLocked :: bool
  ci_LockedEntryFeeCents :: int
  ci_LockedPlatformFeeBps :: int

definition positive :: "int option \<Rightarrow> bool" where
  "positive x = (case x of None \<Rightarrow> False | Some n \<Rightarrow> n > 0)"

definition getContestInfo :: "string \<Rightarrow> sdb \<Rightarrow> ContestInfo settle_result" where
  "getContestInfo contestID d =
     (case (cd_contests (sd_c d) contestID, db_contests (sd_funds d) contestID) of
        (Some c, Some money) \<Rightarrow>
          let locked = cc_EconomicsLockedAt c \<noteq> None;
              lockedEntry = locked \<and> positive (cc_LockedEntryFeeCents c);
              lockedBps = locked \<and> positive (cc_LockedPlatformFeeBps c)
          in Inr \<lparr>ci_ID = ct_ID c, ci_Name = ct_Name c,
               ci_EntryFeeCents = (if lockedEntry then the (cc_LockedEntryFeeCents c) else ct_EntryFeeCents c),
               ci_PlatformFeeBps = (if lockedBps then the (cc_LockedPlatformFeeBps c) else cc_PlatformFeeBps c),
               ci_PrizePoolNetCents = cn_PrizePoolNetCents money, ci_CommissionAmount = cn_CommissionAmount money,
               ci_EndTime = ct_EndsAt c, ci_EconomicsLocked = locked,
               ci_LockedEntryFeeCents = (if lockedEntry then the (cc_LockedEntryFeeCents c) else 0),
               ci_LockedPlatformFeeBps = (if lockedBps then the (cc_LockedPlatformFeeBps c) else 0)\<rparr>
      | _ \<Rightarrow> Inl NoRows)"

section \<open>Settlement rows\<close>

text \<open>The trigger \<open>set_contest_settlements_updated_at\<close> stamps every update.\<close>

definition update_settlement :: "string \<Rightarrow> (int \<Rightarrow> Settlement \<Rightarrow> Settlement) \<Rightarrow> cdb \<Rightarrow> cdb" where
  "update_settlement settlementID f c =
     c\<lparr>cd_settlements := map (\<lambda>(i, st). if i = settlementID then (i, (f (cd_now c) st)\<lparr>st_UpdatedAt := cd_now c\<rparr>) else (i, st)) (cd_settlements c)\<rparr>"

definition set_settlement :: "senv \<Rightarrow> string \<Rightarrow> string \<Rightarrow> (int \<Rightarrow> Settlement \<Rightarrow> Settlement) \<Rightarrow> sdb \<Rightarrow> sdb settle_result" where
  "set_settlement env name settlementID f d = statement env name (put_c (update_settlement settlementID f (sd_c d)) d)"

definition newSettlement :: "string \<Rightarrow> int \<Rightarrow> Settlement" where
  "newSettlement contestID t =
     \<lparr>st_ContestID = contestID, st_Status = ''pending'', st_StartedAt = None, st_PositionsClosedAt = None,
      st_RankingsCalculatedAt = None, st_PrizesDistributedAt = None, st_CompletedAt = None, st_TotalParticipants = 0,
      st_TotalPositionsClosed = 0, st_TotalOrdersCancelled = 0, st_TotalWinners = 0, st_PrizePoolGrossCents = 0,
      st_PrizePoolNetCents = 0, st_TotalDistributedCents = 0, st_PlatformFeeCents = 0, st_AttemptCount = 0,
      st_LastError = None, st_FailedAt = None, st_SnapshotPrices = Map.empty, st_SnapshotTakenAt = None, st_UpdatedAt = t\<rparr>"

definition fetchSettlement :: "string \<Rightarrow> sdb \<Rightarrow> (string \<times> Settlement) option" where
  "fetchSettlement contestID d = List.find (\<lambda>(i, st). st_ContestID st = contestID) (cd_settlements (sd_c d))"

definition getSettlementRecord :: "senv \<Rightarrow> string \<Rightarrow> sdb \<Rightarrow> (sdb \<times> string \<times> Settlement) settle_result" where
  "getSettlementRecord env contestID d =
     (case fetchSettlement contestID d of
        Some r \<Rightarrow> Inr (d, r)
      | None \<Rightarrow>
          if cd_contests (sd_c d) contestID = None then Inl (SqlError ''contest_settlements_contest_id_fkey'')
          else if se_settlementID env \<in> fst ` set (cd_settlements (sd_c d)) then Inl (SqlError ''contest_settlements_pkey'')
          else rbind (statement env ''getSettlementRecord''
                 (put_c ((sd_c d)\<lparr>cd_settlements := cd_settlements (sd_c d)
                    @ [(se_settlementID env, newSettlement contestID (cd_now (sd_c d)))]\<rparr>) d)) (\<lambda>d'.
               case fetchSettlement contestID d' of None \<Rightarrow> Inl NoRows | Some r \<Rightarrow> Inr (d', r)))"

definition updateSettlementStarted :: "senv \<Rightarrow> string \<Rightarrow> int \<Rightarrow> sdb \<Rightarrow> sdb settle_result" where
  "updateSettlementStarted env settlementID totalParticipants =
     set_settlement env ''updateSettlementStarted'' settlementID (\<lambda>t st.
       st\<lparr>st_Status := ''in_progress'', st_StartedAt := Some t, st_TotalParticipants := totalParticipants,
          st_AttemptCount := st_AttemptCount st + 1\<rparr>)"

definition updateSettlementPositionsClosed ::
    "senv \<Rightarrow> string \<Rightarrow> int \<Rightarrow> int \<Rightarrow> (string \<rightharpoonup> Price) \<Rightarrow> sdb \<Rightarrow> sdb settle_result" where
  "updateSettlementPositionsClosed env settlementID positionsClosed ordersCancelled snapshotPrices =
     set_settlement env ''updateSettlementPositionsClosed'' settlementID (\<lambda>t st.
       st\<lparr>st_PositionsClosedAt := Some t, st_TotalPositionsClosed := positionsClosed,
          st_TotalOrdersCancelled := ordersCancelled, st_SnapshotPrices := snapshotPrices, st_SnapshotTakenAt := Some t\<rparr>)"

definition updateSettlementRankingsCalculated :: "senv \<Rightarrow> string \<Rightarrow> sdb \<Rightarrow> sdb settle_result" where
  "updateSettlementRankingsCalculated env settlementID =
     set_settlement env ''updateSettlementRankingsCalculated'' settlementID (\<lambda>t st. st\<lparr>st_RankingsCalculatedAt := Some t\<rparr>)"

definition updateSettlementPrizesCalculated :: "senv \<Rightarrow> string \<Rightarrow> int \<Rightarrow> int \<Rightarrow> int \<Rightarrow> int \<Rightarrow> sdb \<Rightarrow> sdb settle_result" where
  "updateSettlementPrizesCalculated env settlementID gross net fee winnersCount =
     set_settlement env ''updateSettlementPrizesCalculated'' settlementID (\<lambda>t st.
       st\<lparr>st_PrizePoolGrossCents := gross, st_PrizePoolNetCents := net, st_PlatformFeeCents := fee, st_TotalWinners := winnersCount\<rparr>)"

definition updateSettlementPrizesDistributed :: "senv \<Rightarrow> string \<Rightarrow> int \<Rightarrow> sdb \<Rightarrow> sdb settle_result" where
  "updateSettlementPrizesDistributed env settlementID totalDistributed =
     set_settlement env ''updateSettlementPrizesDistributed'' settlementID (\<lambda>t st.
       st\<lparr>st_PrizesDistributedAt := Some t, st_TotalDistributedCents := totalDistributed\<rparr>)"

definition updateSettlementCompleted :: "senv \<Rightarrow> string \<Rightarrow> sdb \<Rightarrow> sdb settle_result" where
  "updateSettlementCompleted env settlementID =
     set_settlement env ''updateSettlementCompleted'' settlementID (\<lambda>t st. st\<lparr>st_Status := ''completed'', st_CompletedAt := Some t\<rparr>)"

definition updateSettlementFailed :: "senv \<Rightarrow> string \<Rightarrow> string \<Rightarrow> sdb \<Rightarrow> sdb settle_result" where
  "updateSettlementFailed env settlementID errMsg =
     set_settlement env ''updateSettlementFailed'' settlementID (\<lambda>t st.
       st\<lparr>st_Status := ''failed'', st_LastError := Some errMsg, st_FailedAt := Some t\<rparr>)"

definition updateContestStatus :: "senv \<Rightarrow> string \<Rightarrow> ContestStatus \<Rightarrow> sdb \<Rightarrow> sdb settle_result" where
  "updateContestStatus env contestID status d =
     statement env ''updateContestStatus'' (put_c (update_contest contestID (\<lambda>c. c\<lparr>ct_Status := status\<rparr>) (sd_c d)) d)"

text \<open>Where the caller drops the error: the statement has its effect or none.\<close>

definition ignoring :: "(sdb \<Rightarrow> sdb settle_result) \<Rightarrow> sdb \<Rightarrow> sdb" where
  "ignoring f d = (case f d of Inl _ \<Rightarrow> d | Inr d' \<Rightarrow> d')"

definition logSettlementEvent :: "senv \<Rightarrow> string \<Rightarrow> string \<Rightarrow> string \<Rightarrow> string option \<Rightarrow> sdb \<Rightarrow> sdb" where
  "logSettlementEvent env settlementID contestID eventType errMsg =
     ignoring (\<lambda>d. statement env ''logSettlementEvent'' (d\<lparr>sd_events := sd_events d @ [(settlementID, contestID, eventType, errMsg)]\<rparr>))"

text \<open>One transaction: settlement, contest and finished snapshot, or nothing.\<close>

definition completeContestFinalization :: "senv \<Rightarrow> string \<Rightarrow> string \<Rightarrow> sdb \<Rightarrow> sdb settle_result" where
  "completeContestFinalization env contestID settlementID d =
     (case cd_contests (sd_c d) contestID of
        None \<Rightarrow> Inl NoRows
      | Some k \<Rightarrow>
          if map_option st_ContestID (map_of (cd_settlements (sd_c d)) settlementID) \<noteq> Some contestID then Inl SettlementNotOfContest
          else
            let t = cd_now (sd_c d);
                c1 = update_settlement settlementID (\<lambda>t st. st\<lparr>st_Status := ''completed'',
                       st_CompletedAt := Some (case st_CompletedAt st of None \<Rightarrow> t | Some u \<Rightarrow> u)\<rparr>) (sd_c d);
                c2 = update_contest contestID (\<lambda>c. c\<lparr>ct_Status := StatusCompleted,
                       ct_SettledAt := Some (case ct_SettledAt c of None \<Rightarrow> t | Some u \<Rightarrow> u)\<rparr>) c1
            in if ct_LifecyclePolicyVersion k = ContestSnapshotPolicyV1
               then (case EnsureContestFinished (se_snapshotID env) contestID settlementID c2 of
                       Inl err \<Rightarrow> Inl (SnapshotError err)
                     | Inr (c3, _) \<Rightarrow> statement env ''completeContestFinalization'' (put_c c3 d))
               else statement env ''completeContestFinalization'' (put_c c2 d))"

section \<open>Reads\<close>

definition tradingRow :: "string \<Rightarrow> string \<Rightarrow> sdb \<Rightarrow> ParticipantRow option" where
  "tradingRow contestID userID d =
     List.find (\<lambda>p. pt_contest_id p = contestID \<and> pt_user_id p = userID) (td_participants (sd_t d))"

definition scanParticipant :: "senv \<Rightarrow> sdb \<Rightarrow> Participant \<Rightarrow> FinalParticipant" where
  "scanParticipant env d p =
     (let row = tradingRow (pt_ContestID p) (pt_UserID p) d;
          realized = sum_list (map pr_realized_score
            (filter (\<lambda>r. pr_contest_id r = pt_ContestID p \<and> pr_user_id r = pt_UserID p) (td_positions (sd_t d))))
      in \<lparr>fp_UserID = pt_UserID p,
          fp_FinalScore = sql_float (se_sql env) (case row of None \<Rightarrow> 0 | Some r \<Rightarrow> pt_total_score r),
          fp_RealizedScore = sql_float (se_sql env) realized,
          fp_QtyTotal = (case row of None \<Rightarrow> pt_QtyTotal p | Some r \<Rightarrow> pt_qty_total r),
          fp_QtyAvailable = (case row of None \<Rightarrow> pt_QtyAvailable p | Some r \<Rightarrow> pt_qty_available r)\<rparr>)"

definition getParticipants :: "senv \<Rightarrow> string \<Rightarrow> sdb \<Rightarrow> FinalParticipant list" where
  "getParticipants env contestID d =
     map (scanParticipant env d)
       (filter (\<lambda>p. pt_ContestID p = contestID \<and> pt_LifecycleStatus p = ''ACTIVE'') (cd_participants (sd_c d)))"

definition getTotalParticipants :: "string \<Rightarrow> sdb \<Rightarrow> int" where
  "getTotalParticipants contestID d =
     int (length (filter (\<lambda>p. pt_ContestID p = contestID \<and> pt_LifecycleStatus p = ''ACTIVE'') (cd_participants (sd_c d))))"

definition getOpenPositionsCount :: "string \<Rightarrow> tdb \<Rightarrow> int" where
  "getOpenPositionsCount contestID t = int (length (filter (\<lambda>p. pr_contest_id p = contestID \<and> \<not> pr_closed p) (td_positions t)))"

definition getPendingOrdersCount :: "string \<Rightarrow> tdb \<Rightarrow> int" where
  "getPendingOrdersCount contestID t =
     int (length (filter (\<lambda>r. or_contest_id r = contestID \<and> or_status r \<in> {''pending'', ''open''}) (td_orders t)))"

definition getContestSymbols :: "string \<Rightarrow> tdb \<Rightarrow> string list" where
  "getContestSymbols contestID t = remdups (map pr_symbol (filter (\<lambda>p. pr_contest_id p = contestID) (td_positions t)))"

definition getUserTradeStats :: "string \<Rightarrow> string \<Rightarrow> tdb \<Rightarrow> int \<times> int" where
  "getUserTradeStats contestID userID t =
     (int (length (filter (\<lambda>r. or_contest_id r = contestID \<and> or_user_id r = userID \<and> or_status r = ''filled'') (td_orders t))),
      int (length (filter (\<lambda>p. pr_contest_id p = contestID \<and> pr_user_id p = userID \<and> pr_realized_score p > 0) (td_positions t))))"

section \<open>Rankings and prizes\<close>

record FinalRanking =
  fr_UserID :: string
  fr_Rank :: int
  fr_TiedWithCount :: int
  fr_FinalScore :: f64
  fr_RealizedScore :: f64
  fr_TotalTrades :: int
  fr_WinningTrades :: int
  fr_WinRate :: f64
  fr_TraggePointContribution :: f64

record PrizeAllocation =
  pl_UserID :: string
  pl_Rank :: int
  pl_AmountCents :: int
  pl_Percentage :: f64
  pl_Status :: string
  pl_LedgerEntryID :: string
  pl_Error :: "wallet_error option"

text \<open>\<open>INSERT ... ON CONFLICT ... DO UPDATE\<close>: the rows in conflict are changed, or the row is added.\<close>

definition upsert :: "('a \<Rightarrow> bool) \<Rightarrow> ('a \<Rightarrow> 'a) \<Rightarrow> 'a \<Rightarrow> 'a list \<Rightarrow> 'a list" where
  "upsert P f x xs = (if \<exists>y \<in> set xs. P y then map (\<lambda>y. if P y then f y else y) xs else xs @ [x])"

definition float_param :: "senv \<Rightarrow> nat \<Rightarrow> nat \<Rightarrow> f64 \<Rightarrow> rat settle_result" where
  "float_param env p s x = numeric env p s (sql_param (se_sql env) x)"

definition insertFinalRanking :: "senv \<Rightarrow> string \<Rightarrow> string \<Rightarrow> FinalRanking \<Rightarrow> sdb \<Rightarrow> sdb settle_result" where
  "insertFinalRanking env settlementID contestID r d =
     rbind (float_param env 20 4 (fr_FinalScore r)) (\<lambda>finalScore.
     rbind (float_param env 20 4 (fr_RealizedScore r)) (\<lambda>realizedScore.
     rbind (float_param env 5 2 (fr_WinRate r)) (\<lambda>winRate.
     rbind (float_param env 20 4 (fr_TraggePointContribution r)) (\<lambda>contribution.
       let new = \<lparr>rk_ContestID = contestID, rk_SettlementID = settlementID, rk_UserID = fr_UserID r, rk_Rank = fr_Rank r,
             rk_TiedWithCount = fr_TiedWithCount r, rk_FinalScore = finalScore, rk_RealizedScore = realizedScore,
             rk_TotalTrades = fr_TotalTrades r, rk_WinningTrades = fr_WinningTrades r, rk_WinRate = winRate,
             rk_TraggePointContribution = contribution\<rparr>;
           same = (\<lambda>row. rk_ContestID row = contestID \<and> rk_UserID row = fr_UserID r)
       in if fr_UserID r \<notin> db_users (sd_funds d) then Inl (SqlError ''final_rankings_user_id_fkey'')
          else statement env ''insertFinalRanking''
            (put_c ((sd_c d)\<lparr>cd_rankings :=
               upsert same (\<lambda>row. new\<lparr>rk_SettlementID := rk_SettlementID row\<rparr>) new (cd_rankings (sd_c d))\<rparr>) d)))))"

definition insertPrizeDistribution :: "senv \<Rightarrow> string \<Rightarrow> string \<Rightarrow> PrizeAllocation \<Rightarrow> sdb \<Rightarrow> sdb settle_result" where
  "insertPrizeDistribution env settlementID contestID prize d =
     rbind (float_param env 10 6 (pl_Percentage prize)) (\<lambda>percentage.
       let mine = (\<lambda>row. pz_ContestID row = contestID \<and> pz_UserID row = pl_UserID prize) in
       case List.find (\<lambda>row. rk_ContestID row = contestID \<and> rk_UserID row = pl_UserID prize) (cd_rankings (sd_c d)) of
         None \<Rightarrow> Inl (SqlError ''prize_distributions.final_score is null'')
       | Some row \<Rightarrow>
           statement env ''insertPrizeDistribution''
             (put_c ((sd_c d)\<lparr>cd_prizes :=
                upsert mine (\<lambda>p. p\<lparr>pz_AmountCents := pl_AmountCents prize, pz_Percentage := percentage, pz_Status := ''pending''\<rparr>)
                  \<lparr>pz_ContestID = contestID, pz_SettlementID = settlementID, pz_UserID = pl_UserID prize, pz_Rank = pl_Rank prize,
                   pz_FinalScore = rk_FinalScore row, pz_AmountCents = pl_AmountCents prize, pz_Percentage = percentage,
                   pz_Status = ''pending'', pz_Credited = False, pz_LedgerEntryID = None, pz_Error = None\<rparr>
                  (cd_prizes (sd_c d))\<rparr>) d))"

text \<open>The ledger entry is a UUID column: the empty string is no value of it.\<close>

definition updatePrizeDistributionStatus ::
    "senv \<Rightarrow> string \<Rightarrow> string \<Rightarrow> string \<Rightarrow> string option \<Rightarrow> wallet_error option \<Rightarrow> sdb \<Rightarrow> sdb settle_result" where
  "updatePrizeDistributionStatus env contestID userID status ledgerEntryID err d =
     (if ledgerEntryID = Some '''' then Inl (SqlError ''invalid input syntax for type uuid'')
      else statement env ''updatePrizeDistributionStatus''
        (put_c ((sd_c d)\<lparr>cd_prizes := map (\<lambda>p. if pz_ContestID p = contestID \<and> pz_UserID p = userID
            then p\<lparr>pz_Status := status, pz_Credited := (status = ''credited''), pz_LedgerEntryID := ledgerEntryID, pz_Error := err\<rparr>
            else p) (cd_prizes (sd_c d))\<rparr>) d))"

definition updateParticipantFinalRank ::
    "senv \<Rightarrow> string \<Rightarrow> string \<Rightarrow> int \<Rightarrow> int \<Rightarrow> f64 \<Rightarrow> sdb \<Rightarrow> sdb settle_result" where
  "updateParticipantFinalRank env contestID userID rank prizeCents finalScore d =
     (if prizeCents < - 2147483648 \<or> prizeCents > 2147483647 then Inl (SqlError ''integer out of range'')
      else rbind (float_param env 20 8 finalScore) (\<lambda>score.
        statement env ''updateParticipantFinalRank''
          (d\<lparr>sd_c := (sd_c d)\<lparr>cd_participants := map (\<lambda>p. if pt_ContestID p = contestID \<and> pt_UserID p = userID
                 then p\<lparr>pt_FinalRank := Some rank, pt_FinalPrizeCents := Some prizeCents\<rparr> else p) (cd_participants (sd_c d))\<rparr>,
              sd_t := (sd_t d)\<lparr>td_participants := map (\<lambda>p. if pt_contest_id p = contestID \<and> pt_user_id p = userID
                 then p\<lparr>pt_total_score := score\<rparr> else p) (td_participants (sd_t d))\<rparr>\<rparr>)))"

definition incrementUserTraggePoint :: "senv \<Rightarrow> string \<Rightarrow> f64 \<Rightarrow> sdb \<Rightarrow> (sdb \<times> rat) settle_result" where
  "incrementUserTraggePoint env userID contribution d =
     (if ''tragge_point'' \<notin> set (sd_users_columns d) then Inl (SqlError ''column \"tragge_point\" does not exist'')
      else if userID \<notin> db_users (sd_funds d) then Inl NoRows
      else
        let newScore = (case sd_points d userID of None \<Rightarrow> 0 | Some x \<Rightarrow> x) + sql_param (se_sql env) contribution
        in statement env ''incrementUserTraggePoint'' (d\<lparr>sd_points := (sd_points d)(userID \<mapsto> newScore)\<rparr>, newScore))"

end
