(* ===== verification/Settlement.thy ===== *)
theory Settlement
  imports Settlement_Db Economics
begin

text \<open>
  The settlement of a contest: \<open>apps/settlement-service/server/settlement.go\<close>. An attempt is a
  function of the tables and of what it meets (\<open>senv\<close>): the polls of the trading tables while it
  waits for positions to close, the order in which \<open>sort.Slice\<close> leaves participants, new
  identifiers, prices and failing statements. An attempt that is still waiting when the events end
  is \<open>None\<close>; a failed one returns the tables it leaves together with its error. Events, e-mails and
  notifications to users are not modelled.
\<close>

section \<open>Closing positions\<close>

text \<open>The two waiting loops: \<open>None\<close> while the wait goes on, otherwise an error or the remaining events.\<close>

fun waitCancel :: "string \<Rightarrow> close_event list \<Rightarrow> close_event list settle_result option" where
  "waitCancel c [] = None"
| "waitCancel c (CancelDeadline # es) = Some (Inr es)"
| "waitCancel c (CancelTick t # es) = (if getPendingOrdersCount c t = 0 then Some (Inr es) else waitCancel c es)"
| "waitCancel c (CloseContextDone # es) = Some (Inl ContextDone)"
| "waitCancel c (e # es) = waitCancel c es"

fun waitPositions :: "string \<Rightarrow> close_event list \<Rightarrow> (tdb option \<times> close_event list) settle_result option" where
  "waitPositions c [] = None"
| "waitPositions c (PositionTimeout # es) = Some (Inr (None, es))"
| "waitPositions c (PositionTick t # es) =
     (if getOpenPositionsCount c t = 0 \<and> getPendingOrdersCount c t = 0 then Some (Inr (Some t, es)) else waitPositions c es)"
| "waitPositions c (CloseContextDone # es) = Some (Inl ContextDone)"
| "waitPositions c (e # es) = waitPositions c es"

fun closeAttempts :: "string \<Rightarrow> nat \<Rightarrow> close_event list \<Rightarrow> (tdb \<times> int \<times> int) settle_result option" where
  "closeAttempts c 0 es = Some (Inl CloseTimeout)"
| "closeAttempts c (Suc n) [] = None"
| "closeAttempts c (Suc n) (StartCounts s # es) =
     (case waitCancel c es of
        None \<Rightarrow> None
      | Some (Inl err) \<Rightarrow> Some (Inl err)
      | Some (Inr es1) \<Rightarrow>
          (case waitPositions c es1 of
             None \<Rightarrow> None
           | Some (Inl err) \<Rightarrow> Some (Inl err)
           | Some (Inr (None, es2)) \<Rightarrow> closeAttempts c n es2
           | Some (Inr (Some t, es2)) \<Rightarrow> Some (Inr (t, getOpenPositionsCount c s - getOpenPositionsCount c t,
               getPendingOrdersCount c s - getPendingOrdersCount c t))))"
| "closeAttempts c (Suc n) (StartCountsFailed err # es) = Some (Inl (SqlError err))"
| "closeAttempts c (Suc n) (CloseContextDone # es) = Some (Inl ContextDone)"
| "closeAttempts c (Suc n) (e # es) = closeAttempts c (Suc n) es"

definition snapshotPricesFromRedis :: "senv \<Rightarrow> string \<Rightarrow> tdb \<Rightarrow> string \<rightharpoonup> Price" where
  "snapshotPricesFromRedis env contestID t =
     (\<lambda>s. if s \<in> set (getContestSymbols contestID t) then se_redis env s else None)"

definition closeAllPositions :: "senv \<Rightarrow> string \<Rightarrow> sdb \<Rightarrow> (sdb \<times> int \<times> int \<times> (string \<rightharpoonup> Price)) settle_result option" where
  "closeAllPositions env contestID d =
     map_option (\<lambda>r. rbind r (\<lambda>(t, positionsClosed, ordersCancelled).
         Inr (d\<lparr>sd_t := t\<rparr>, positionsClosed, ordersCancelled, snapshotPricesFromRedis env contestID t)))
       (closeAttempts contestID 3 (se_events env))"

section \<open>Rankings\<close>

definition MaxFloat64 :: f64 where
  "MaxFloat64 = (2 ^ 53 - 1) * 2 ^ 971"

definition tiedCount :: "FinalParticipant list \<Rightarrow> nat \<Rightarrow> int" where
  "tiedCount ps i = int (length (filter (\<lambda>j. j \<noteq> i \<and> fp_FinalScore (ps ! j) = fp_FinalScore (ps ! i)) [0..<length ps]))"

definition rankingOf :: "string \<Rightarrow> tdb \<Rightarrow> FinalParticipant list \<Rightarrow> nat \<Rightarrow> int \<Rightarrow> FinalRanking" where
  "rankingOf contestID t ps i rank =
     (let p = ps ! i; (totalTrades, winningTrades) = getUserTradeStats contestID (fp_UserID p) t in
      \<lparr>fr_UserID = fp_UserID p, fr_Rank = rank, fr_TiedWithCount = tiedCount ps i,
       fr_FinalScore = fp_FinalScore p, fr_RealizedScore = fp_RealizedScore p,
       fr_TotalTrades = totalTrades, fr_WinningTrades = winningTrades,
       fr_WinRate = (if totalTrades > 0 then f64_mul (f64_div (f64_of_int winningTrades) (f64_of_int totalTrades)) 100 else 0),
       fr_TraggePointContribution = 0\<rparr>)"

fun rankLoop :: "(nat \<Rightarrow> int \<Rightarrow> FinalRanking) \<Rightarrow> FinalParticipant list \<Rightarrow> nat \<Rightarrow> int \<Rightarrow> f64 \<Rightarrow> FinalRanking list" where
  "rankLoop row [] i currentRank prevScore = []"
| "rankLoop row (p # ps) i currentRank prevScore =
     (let rank = (if fp_FinalScore p < prevScore then int i + 1 else currentRank)
      in row i rank # rankLoop row ps (i + 1) rank (fp_FinalScore p))"

definition calculateRankings :: "senv \<Rightarrow> string \<Rightarrow> FinalParticipant list \<Rightarrow> tdb \<Rightarrow> FinalRanking list" where
  "calculateRankings env contestID participants t =
     (let sorted = se_sort env participants
      in rankLoop (rankingOf contestID t sorted) sorted 0 1 MaxFloat64)"

section \<open>Prizes\<close>

record PrizePool =
  pp_Gross :: int
  pp_Net :: int
  pp_PlatformFee :: int

definition settlementPool :: "int \<Rightarrow> int \<Rightarrow> ContestInfo \<Rightarrow> PrizePool" where
  "settlementPool configFeeBps participantsCount info =
     (let gross = wrap64 (participantsCount * ci_EntryFeeCents info);
          stored = ci_PrizePoolNetCents info > 0;
          net = (if stored \<and> ci_PrizePoolNetCents info \<le> gross then ci_PrizePoolNetCents info else 0)
      in if net \<le> 0 then
           let bps = (if ci_EconomicsLocked info \<and> ci_LockedPlatformFeeBps info > 0 then ci_LockedPlatformFeeBps info
                      else if ci_PlatformFeeBps info = 0 \<and> \<not> ci_EconomicsLocked info then configFeeBps
                      else ci_PlatformFeeBps info);
               calc = CalculatePool participantsCount (ci_EntryFeeCents info) bps
           in \<lparr>pp_Gross = pr_GrossCents calc, pp_Net = pr_NetCents calc, pp_PlatformFee = pr_FeeCents calc\<rparr>
         else \<lparr>pp_Gross = gross, pp_Net = net, pp_PlatformFee = ci_CommissionAmount info\<rparr>)"

definition shareByRank :: "PrizeShare list \<Rightarrow> int \<rightharpoonup> PrizeShare" where
  "shareByRank shares = foldl (\<lambda>m s. m(ps_Rank s \<mapsto> s)) Map.empty shares"

definition shareFor :: "(int \<rightharpoonup> PrizeShare) \<Rightarrow> nat \<Rightarrow> FinalRanking \<Rightarrow> PrizeShare option" where
  "shareFor m i r = (case m (fr_Rank r) of Some s \<Rightarrow> Some s | None \<Rightarrow> m (int i + 1))"

fun prizeLoop :: "(int \<rightharpoonup> PrizeShare) \<Rightarrow> nat \<Rightarrow> FinalRanking list \<Rightarrow> PrizeAllocation list" where
  "prizeLoop m i [] = []"
| "prizeLoop m i (r # rs) =
     (case shareFor m i r of
        None \<Rightarrow> prizeLoop m (i + 1) rs
      | Some s \<Rightarrow>
          if ps_AmountCents s \<le> 0 then prizeLoop m (i + 1) rs
          else \<lparr>pl_UserID = fr_UserID r, pl_Rank = fr_Rank r, pl_AmountCents = ps_AmountCents s,
                pl_Percentage = ps_Percentage s, pl_Status = ''pending'', pl_LedgerEntryID = '''', pl_Error = None\<rparr>
               # prizeLoop m (i + 1) rs)"

definition calculatePrizes :: "int \<Rightarrow> FinalRanking list \<Rightarrow> ContestInfo \<Rightarrow> PrizePool \<times> PrizeAllocation list" where
  "calculatePrizes configFeeBps rankings info =
     (if rankings = [] \<or> ci_EntryFeeCents info \<le> 0 then (\<lparr>pp_Gross = 0, pp_Net = 0, pp_PlatformFee = 0\<rparr>, [])
      else
        let pool = settlementPool configFeeBps (int (length rankings)) info;
            shares = CalculateForContest (pp_Net pool) (int (length rankings))
        in (pool, prizeLoop (shareByRank shares) 0 (take (length shares) rankings)))"

section \<open>Distribution\<close>

text \<open>Phase 1: one transaction for all rankings.\<close>

definition prizeMap :: "PrizeAllocation list \<Rightarrow> string \<rightharpoonup> PrizeAllocation" where
  "prizeMap prizes = foldl (\<lambda>m p. m(pl_UserID p \<mapsto> p)) Map.empty prizes"

fun rankTx :: "senv \<Rightarrow> string \<Rightarrow> string \<Rightarrow> (string \<rightharpoonup> PrizeAllocation) \<Rightarrow> FinalRanking list \<Rightarrow> sdb \<Rightarrow> sdb settle_result" where
  "rankTx env settlementID contestID m [] d = Inr d"
| "rankTx env settlementID contestID m (r # rs) d =
     rbind (insertFinalRanking env settlementID contestID r d) (\<lambda>d.
     rbind (updateParticipantFinalRank env contestID (fr_UserID r) (fr_Rank r)
              (case m (fr_UserID r) of None \<Rightarrow> 0 | Some p \<Rightarrow> pl_AmountCents p) (fr_FinalScore r) d) (\<lambda>d.
       rankTx env settlementID contestID m rs d))"

definition failedPrize :: "wallet_error \<Rightarrow> PrizeAllocation \<Rightarrow> PrizeAllocation" where
  "failedPrize err p = p\<lparr>pl_Status := ''failed'', pl_Error := Some err\<rparr>"

text \<open>
  Phase 2: one transaction per prize. After a failed statement the transaction is aborted: every
  later statement fails and the commit rolls back. An error of the wallet that is not one of the
  database is committed as the status of the prize.
\<close>

definition abortedTx :: wallet_error where
  "abortedTx = DbError ''current transaction is aborted''"

definition finishPrize ::
    "senv \<Rightarrow> string \<Rightarrow> nat \<Rightarrow> LedgerEntry option \<Rightarrow> PrizeAllocation \<Rightarrow> sdb \<Rightarrow> sdb \<Rightarrow> sdb \<times> PrizeAllocation" where
  "finishPrize env contestID i entry p d0 d =
     (let ledgerID = (case entry of None \<Rightarrow> '''' | Some e \<Rightarrow> le_ID e) in
      case updatePrizeDistributionStatus env contestID (pl_UserID p) ''credited'' (Some ledgerID) None d of
        Inl _ \<Rightarrow> (d0, failedPrize abortedTx (p\<lparr>pl_LedgerEntryID := ledgerID\<rparr>))
      | Inr d' \<Rightarrow>
          (case se_prizeCommit env i of
             Some err \<Rightarrow> (d0, failedPrize (DbError err) (p\<lparr>pl_LedgerEntryID := ledgerID\<rparr>))
           | None \<Rightarrow> (d', p\<lparr>pl_Status := ''credited'', pl_LedgerEntryID := ledgerID\<rparr>)))"

fun is_db_error :: "wallet_error \<Rightarrow> bool" where
  "is_db_error (DbError _) = True"
| "is_db_error _ = False"

definition commitFailedPrize :: "senv \<Rightarrow> string \<Rightarrow> nat \<Rightarrow> wallet_error \<Rightarrow> PrizeAllocation \<Rightarrow> sdb \<Rightarrow> sdb \<Rightarrow> sdb" where
  "commitFailedPrize env contestID i err p d0 d =
     (if is_db_error err then d0
      else case updatePrizeDistributionStatus env contestID (pl_UserID p) ''failed'' None (Some err) d of
             Inl _ \<Rightarrow> d0
           | Inr d' \<Rightarrow> if se_prizeCommit env i = None then d' else d0)"

definition prizeTx :: "senv \<Rightarrow> string \<Rightarrow> string \<Rightarrow> nat \<Rightarrow> PrizeAllocation \<Rightarrow> sdb \<Rightarrow> sdb \<times> PrizeAllocation" where
  "prizeTx env settlementID contestID i p d =
     (case se_prizeBegin env i of
        Some err \<Rightarrow> (d, failedPrize (DbError err) p)
      | None \<Rightarrow>
          (case insertPrizeDistribution env settlementID contestID p d of
             Inl _ \<Rightarrow> (d, failedPrize abortedTx p)
           | Inr d1 \<Rightarrow>
               (case CreditPrizeIdempotent (se_entryID env i) (pl_UserID p) contestID (pl_Rank p) (pl_AmountCents p) (sd_funds d1) of
                  Inr (f, entry) \<Rightarrow> finishPrize env contestID i entry p d (put_funds f d1)
                | Inl (DuplicatePrizeCreditError k existing) \<Rightarrow> finishPrize env contestID i (Some existing) p d d1
                | Inl err \<Rightarrow> (commitFailedPrize env contestID i err p d d1, failedPrize err p))))"

fun prizeTxs :: "senv \<Rightarrow> string \<Rightarrow> string \<Rightarrow> nat \<Rightarrow> PrizeAllocation list \<Rightarrow> sdb \<Rightarrow> sdb \<times> PrizeAllocation list" where
  "prizeTxs env settlementID contestID i [] d = (d, [])"
| "prizeTxs env settlementID contestID i (p # ps) d =
     (let (d1, q) = prizeTx env settlementID contestID i p d;
          (d2, qs) = prizeTxs env settlementID contestID (i + 1) ps d1
      in (d2, q # qs))"

definition creditedPrize :: "PrizeAllocation \<Rightarrow> bool" where
  "creditedPrize p \<longleftrightarrow> pl_Status p = ''credited''"

definition distributePrizes ::
    "senv \<Rightarrow> string \<Rightarrow> string \<Rightarrow> FinalRanking list \<Rightarrow> PrizeAllocation list \<Rightarrow> sdb \<Rightarrow> (sdb \<times> int \<times> PrizeAllocation list) settle_result" where
  "distributePrizes env contestID settlementID rankings prizes d =
     rbind (statement env ''beginRankings'' d) (\<lambda>d.
     rbind (rankTx env settlementID contestID (prizeMap prizes) rankings d) (\<lambda>d.
     rbind (statement env ''commitRankings'' d) (\<lambda>d.
       let (d', qs) = prizeTxs env settlementID contestID 0 prizes d
       in Inr (d', go_sum (map pl_AmountCents (filter creditedPrize qs)), filter (\<lambda>q. \<not> creditedPrize q) qs))))"

section \<open>Tragge points\<close>

text \<open>
  One transaction over all rankings; the error of a user is logged and the loop goes on, in a
  transaction that the failed statement has aborted (\<open>None\<close>).
\<close>

fun pointsTx :: "senv \<Rightarrow> int \<Rightarrow> int \<Rightarrow> FinalRanking list \<Rightarrow> sdb option \<Rightarrow> sdb option \<times> FinalRanking list" where
  "pointsTx env n endTime [] tx = (tx, [])"
| "pointsTx env n endTime (r # rs) tx =
     (let contribution = dec_Float64 (se_dec env)
            (pointContribution (se_dec env) (se_math env) (NewFromFloat (se_dec env) (fr_FinalScore r)) (fr_Rank r) n (Some endTime) (se_time env));
          tx' = (if contribution \<le> 0 then tx
                 else case tx of
                        None \<Rightarrow> None
                      | Some d \<Rightarrow> (case incrementUserTraggePoint env (fr_UserID r) contribution d of Inl _ \<Rightarrow> None | Inr (d', _) \<Rightarrow> Some d'));
          (tx'', rs') = pointsTx env n endTime rs tx'
      in (tx'', r\<lparr>fr_TraggePointContribution := contribution\<rparr> # rs'))"

definition updateTraggePoints :: "senv \<Rightarrow> FinalRanking list \<Rightarrow> int \<Rightarrow> int \<Rightarrow> sdb \<Rightarrow> sdb settle_result \<times> FinalRanking list" where
  "updateTraggePoints env rankings n endTime d =
     (case se_fault env ''beginTraggePoints'' of
        Some err \<Rightarrow> (Inl (SqlError err), rankings)
      | None \<Rightarrow>
          let (tx, rankings') = pointsTx env n endTime rankings (Some d)
          in (case tx of
                None \<Rightarrow> (Inl (SqlError ''commit unexpectedly resulted in rollback''), rankings')
              | Some d' \<Rightarrow> (statement env ''commitTraggePoints'' d', rankings')))"

section \<open>A single participant\<close>

definition resetPool :: "senv \<Rightarrow> string \<Rightarrow> sdb \<Rightarrow> sdb settle_result" where
  "resetPool env contestID d =
     statement env ''resetPool''
       (put_funds ((sd_funds d)\<lparr>db_contests := (\<lambda>c. if c = contestID
            then map_option (\<lambda>m. m\<lparr>cn_PrizePoolNetCents := 0, cn_CommissionAmount := 0\<rparr>) (db_contests (sd_funds d) c)
            else db_contests (sd_funds d) c)\<rparr>) d)"

definition refundTx :: "senv \<Rightarrow> string \<Rightarrow> string \<Rightarrow> ContestInfo \<Rightarrow> sdb \<Rightarrow> sdb settle_result" where
  "refundTx env contestID userID info d =
     rbind (statement env ''beginRefund'' d) (\<lambda>d.
     case RefundContestEntryFeeIdempotent (se_refundID env) userID contestID (ci_Name info) (ci_EntryFeeCents info)
            RC_ContestRefundQuorum (sd_funds d) of
       Inl err \<Rightarrow> Inl (WalletError err)
     | Inr (f, _) \<Rightarrow> rbind (resetPool env contestID (put_funds f d)) (statement env ''commitRefund''))"

definition refundSingleParticipant ::
    "senv \<Rightarrow> string \<Rightarrow> string \<Rightarrow> FinalParticipant \<Rightarrow> ContestInfo \<Rightarrow> sdb \<Rightarrow> sdb \<times> unit settle_result" where
  "refundSingleParticipant env contestID settlementID p info d =
     (case updateSettlementStarted env settlementID 1 d of
        Inl err \<Rightarrow> (d, Inl err)
      | Inr d1 \<Rightarrow>
          (case refundTx env contestID (fp_UserID p) info d1 of
             Inl err \<Rightarrow> (d1, Inl err)
           | Inr d2 \<Rightarrow>
               (logSettlementEvent env settlementID contestID ''single_participant_refunded'' None
                 (ignoring (updateContestStatus env contestID StatusCancelled)
                   (ignoring (updateSettlementCompleted env settlementID) d2)), Inr ())))"

section \<open>An attempt\<close>

definition attempt_step ::
    "sdb \<Rightarrow> 'a settle_result \<Rightarrow> ('a \<Rightarrow> (sdb \<times> unit settle_result) option) \<Rightarrow> (sdb \<times> unit settle_result) option" where
  "attempt_step d r k = (case r of Inl err \<Rightarrow> Some (d, Inl err) | Inr x \<Rightarrow> k x)"

text \<open>Steps 11 to 16: the distribution, the points and the end.\<close>

definition payAttempt ::
    "senv \<Rightarrow> string \<Rightarrow> string \<Rightarrow> ContestInfo \<Rightarrow> int \<Rightarrow> FinalRanking list \<Rightarrow> PrizeAllocation list \<Rightarrow> sdb \<Rightarrow> (sdb \<times> unit settle_result) option" where
  "payAttempt env contestID settlementID info n rankings prizes d =
     (case distributePrizes env contestID settlementID rankings prizes d of
        Inl err \<Rightarrow> Some (logSettlementEvent env settlementID contestID ''prizes_distribution_failed'' (Some ''distribute prizes'') d, Inl err)
      | Inr (d, totalDistributed, failedPrizes) \<Rightarrow>
          attempt_step d (updateSettlementPrizesDistributed env settlementID totalDistributed d) (\<lambda>d.
          let d = logSettlementEvent env settlementID contestID ''prizes_distributed'' None d;
              d = (case fst (updateTraggePoints env rankings n (1000 * ci_EndTime info) d) of Inl _ \<Rightarrow> d | Inr d' \<Rightarrow> d') in
          attempt_step d (completeContestFinalization env contestID settlementID d) (\<lambda>d.
            Some (logSettlementEvent env settlementID contestID ''completed'' None d, Inr ()))))"

text \<open>Steps 8 to 10: the rankings and the prizes.\<close>

definition finalizeAttempt ::
    "senv \<Rightarrow> string \<Rightarrow> string \<Rightarrow> ContestInfo \<Rightarrow> sdb \<Rightarrow> (sdb \<times> unit settle_result) option" where
  "finalizeAttempt env contestID settlementID info d =
     (let participants = getParticipants env contestID d;
          rankings = calculateRankings env contestID participants (sd_t d);
          (pool, prizes) = calculatePrizes (se_PlatformFeeBps env) rankings info in
      attempt_step d (updateSettlementRankingsCalculated env settlementID d) (\<lambda>d.
      let d = logSettlementEvent env settlementID contestID ''rankings_calculated'' None d in
      attempt_step d (updateSettlementPrizesCalculated env settlementID (pp_Gross pool) (pp_Net pool) (pp_PlatformFee pool)
                        (int (length prizes)) d) (\<lambda>d.
        payAttempt env contestID settlementID info (int (length participants)) rankings prizes
          (logSettlementEvent env settlementID contestID ''prizes_calculated'' None d))))"

text \<open>Steps 5 to 7: the start and the close of the positions.\<close>

definition closeAttempt ::
    "senv \<Rightarrow> string \<Rightarrow> string \<Rightarrow> ContestInfo \<Rightarrow> int \<Rightarrow> sdb \<Rightarrow> (sdb \<times> unit settle_result) option" where
  "closeAttempt env contestID settlementID info n d =
     attempt_step d (updateSettlementStarted env settlementID n d) (\<lambda>d.
     let d = logSettlementEvent env settlementID contestID ''started'' None d;
         d = ignoring (updateContestStatus env contestID StatusSettling) d in
     case closeAllPositions env contestID d of
       None \<Rightarrow> None
     | Some (Inl err) \<Rightarrow>
         Some (logSettlementEvent env settlementID contestID ''positions_close_failed'' (Some ''close positions'') d, Inl err)
     | Some (Inr (d, positionsClosed, ordersCancelled, prices)) \<Rightarrow>
         attempt_step d (updateSettlementPositionsClosed env settlementID positionsClosed ordersCancelled prices d) (\<lambda>d.
           finalizeAttempt env contestID settlementID info
             (logSettlementEvent env settlementID contestID ''positions_closed'' None d)))"

definition settleContestAttempt :: "senv \<Rightarrow> string \<Rightarrow> sdb \<Rightarrow> (sdb \<times> unit settle_result) option" where
  "settleContestAttempt env contestID d =
     attempt_step d (getSettlementRecord env contestID d) (\<lambda>(d, settlementID, st).
     if st_Status st = ''completed'' then Some (d, Inr ())
     else attempt_step d (getContestInfo contestID d) (\<lambda>info.
     let participants = getParticipants env contestID d in
     if participants = [] then
       Some (ignoring (updateContestStatus env contestID StatusCancelled)
               (ignoring (updateSettlementCompleted env settlementID) d), Inr ())
     else if length participants = 1 \<and> ci_EntryFeeCents info > 0 then
       Some (refundSingleParticipant env contestID settlementID (hd participants) info d)
     else closeAttempt env contestID settlementID info (int (length participants)) d))"

section \<open>Retries\<close>

text \<open>
  \<open>envs\<close> gives what each attempt meets, from 1; \<open>se_waitDone\<close> says that the context ends in the
  wait after it. The service holds the advisory lock, if it got it, over all attempts.
\<close>

definition markFailed :: "senv \<Rightarrow> string \<Rightarrow> sdb \<Rightarrow> sdb" where
  "markFailed env contestID d =
     (case getSettlementRecord env contestID d of
        Inl _ \<Rightarrow> d
      | Inr (d', settlementID, _) \<Rightarrow> ignoring (updateSettlementFailed env settlementID ''max retries exceeded'') d')"

fun settleRetries :: "(nat \<Rightarrow> senv) \<Rightarrow> string \<Rightarrow> nat \<Rightarrow> nat \<Rightarrow> sdb \<Rightarrow> (sdb \<times> unit settle_result) option" where
  "settleRetries envs contestID attempt 0 d =
     Some (markFailed (envs attempt) contestID d, Inl (RetriesExhausted (int attempt - 1)))"
| "settleRetries envs contestID attempt (Suc left) d =
     (case settleContestAttempt (envs attempt) contestID d of
        None \<Rightarrow> None
      | Some (d', Inr u) \<Rightarrow> Some (d', Inr u)
      | Some (d', Inl err) \<Rightarrow>
          if left > 0 \<and> se_waitDone (envs attempt) then Some (d', Inl ContextDone)
          else settleRetries envs contestID (attempt + 1) left d')"

definition SettleContestWithRetry ::
    "bool settle_result \<Rightarrow> nat \<Rightarrow> (nat \<Rightarrow> senv) \<Rightarrow> string \<Rightarrow> sdb \<Rightarrow> (sdb \<times> unit settle_result) option" where
  "SettleContestWithRetry lock MaxRetries envs contestID d =
     (case lock of
        Inl err \<Rightarrow> Some (d, Inl err)
      | Inr locked \<Rightarrow> if locked then settleRetries envs contestID 1 MaxRetries d else Some (d, Inl AlreadyInProgress))"

end
