(* ===== verification/Settlement_Prizes.thy ===== *)
theory Settlement_Prizes
  imports Settlement "HOL-Library.Multiset"
begin

text \<open>
  Rankings and prizes of a settlement: whatever order \<open>sort.Slice\<close> gives tied participants, the
  ranks are those of standard competition ranking; without ties the prizes are those of the
  reference allocation and add up to the pool, with ties at the top they do not.
\<close>

section \<open>The sort\<close>

abbreviation score_desc :: "FinalParticipant \<Rightarrow> FinalParticipant \<Rightarrow> bool" where
  "score_desc p q \<equiv> fp_FinalScore q \<le> fp_FinalScore p"

locale slice_sort =
  fixes slice :: "FinalParticipant list \<Rightarrow> FinalParticipant list"
  assumes slice_perm: "mset (slice ps) = mset ps"
    and slice_desc: "sorted_wrt score_desc (slice ps)"

definition outranking :: "f64 \<Rightarrow> FinalParticipant list \<Rightarrow> int" where
  "outranking s ps = int (length (filter (\<lambda>q. s < fp_FinalScore q) ps))"

lemma desc_nth: "sorted_wrt score_desc ps \<Longrightarrow> i \<le> j \<Longrightarrow> j < length ps \<Longrightarrow> fp_FinalScore (ps ! j) \<le> fp_FinalScore (ps ! i)"
  by (cases "i = j") (auto simp: sorted_wrt_iff_nth_less)

lemma outranking_first:
  assumes "sorted_wrt score_desc ps" "i < length ps" "i > 0 \<Longrightarrow> fp_FinalScore (ps ! i) < fp_FinalScore (ps ! (i - 1))"
  shows "outranking (fp_FinalScore (ps ! i)) ps = int i"
proof -
  have "{j. j < length ps \<and> fp_FinalScore (ps ! i) < fp_FinalScore (ps ! j)} = {..<i}" (is "?A = _")
  proof (intro set_eqI iffI)
    fix j assume j: "j \<in> ?A"
    then have "\<not> i \<le> j" using desc_nth [OF assms(1), of i j] by auto
    then show "j \<in> {..<i}" by simp
  next
    fix j assume "j \<in> {..<i}"
    then have "j \<le> i - 1" "i > 0" "i - 1 < length ps" using assms(2) by auto
    from desc_nth [OF assms(1) this(1,3)] assms(3) [OF this(2)] \<open>j \<in> {..<i}\<close> assms(2) show "j \<in> ?A" by auto
  qed
  then show ?thesis by (simp add: outranking_def length_filter_conv_card)
qed

lemma rankLoop_eq:
  assumes desc: "sorted_wrt score_desc ps" and "i \<le> length ps"
    and "i = 0 \<longrightarrow> cur = 1" "i > 0 \<longrightarrow> prev = fp_FinalScore (ps ! (i - 1)) \<and> cur = 1 + outranking prev ps"
  shows "rankLoop row (drop i ps) i cur prev = map (\<lambda>j. row j (1 + outranking (fp_FinalScore (ps ! j)) ps)) [i..<length ps]"
  using assms(2-4)
proof (induction "length ps - i" arbitrary: i cur prev)
  case 0
  then show ?case by simp
next
  case (Suc k)
  then have i: "i < length ps" by simp
  let ?s = "fp_FinalScore (ps ! i)"
  have rank: "(if ?s < prev then int i + 1 else cur) = 1 + outranking ?s ps"
  proof (cases "i = 0")
    case True
    then show ?thesis using outranking_first [OF desc i] Suc.prems by simp
  next
    case False
    show ?thesis
    proof (cases "?s < prev")
      case True
      then show ?thesis using outranking_first [OF desc i] Suc.prems False by simp
    next
      case below: False
      have "?s \<le> prev" using desc_nth [OF desc, of "i - 1" i] i Suc.prems False by simp
      with below have "?s = prev" by simp
      then show ?thesis using Suc.prems False by simp
    qed
  qed
  have "rankLoop row (drop (Suc i) ps) (Suc i) (1 + outranking ?s ps) ?s =
      map (\<lambda>j. row j (1 + outranking (fp_FinalScore (ps ! j)) ps)) [Suc i..<length ps]"
    using Suc.hyps(2) i by (intro Suc.hyps(1)) auto
  with rank i show ?case
    by (simp add: Cons_nth_drop_Suc [symmetric] upt_conv_Cons)
qed

lemma outranking_mset: "mset ps = mset qs \<Longrightarrow> outranking s ps = outranking s qs"
  unfolding outranking_def by (metis mset_filter size_mset)

lemma tiedCount_eq: "i < length ps \<Longrightarrow>
    tiedCount ps i = int (length (filter (\<lambda>q. fp_FinalScore q = fp_FinalScore (ps ! i)) ps)) - 1"
proof -
  assume i: "i < length ps"
  let ?A = "{j. j < length ps \<and> fp_FinalScore (ps ! j) = fp_FinalScore (ps ! i)}"
  have "length (filter (\<lambda>j. j \<noteq> i \<and> fp_FinalScore (ps ! j) = fp_FinalScore (ps ! i)) [0..<length ps]) = card (?A - {i})"
    by (subst distinct_card [symmetric]) (auto intro!: arg_cong [of _ _ card])
  moreover have "card ?A > 0" using i by (auto simp: card_gt_0_iff)
  ultimately show ?thesis using i by (simp add: tiedCount_def length_filter_conv_card card_Diff_singleton of_nat_diff)
qed

context slice_sort
begin

lemma slice_length [simp]: "length (slice ps) = length ps"
  using slice_perm mset_eq_length by blast

lemma rankings_eq:
  assumes "se_sort env = slice"
  shows "calculateRankings env c ps t =
    map (\<lambda>j. rankingOf c t (slice ps) j (1 + outranking (fp_FinalScore (slice ps ! j)) ps)) [0..<length ps]"
proof -
  have "outranking s (slice ps) = outranking s ps" for s by (rule outranking_mset [OF slice_perm])
  with rankLoop_eq [OF slice_desc, of 0 ps 1 MaxFloat64 "rankingOf c t (slice ps)"] show ?thesis
    by (simp add: calculateRankings_def Let_def assms)
qed

end

interpretation stable_sort: slice_sort "sort_key (\<lambda>p. - fp_FinalScore p)"
proof
  fix ps :: "FinalParticipant list"
  show "mset (sort_key (\<lambda>p. - fp_FinalScore p) ps) = mset ps" by simp
  have "sorted (map (\<lambda>p. - fp_FinalScore p) (sort_key (\<lambda>p. - fp_FinalScore p) ps))" by (rule sorted_sort_key)
  then show "sorted_wrt score_desc (sort_key (\<lambda>p. - fp_FinalScore p) ps)" by (simp add: sorted_map)
qed

section \<open>The number of winners\<close>

lemma snap_le:
  assumes "1 \<le> raw"
  shows "tralentV1SnapToBandUpper raw \<le> 2 * raw"
proof (cases "List.find (\<lambda>(lo, hi). raw \<ge> lo \<and> raw \<le> hi) tralentV1RankBands")
  case None
  then show ?thesis using assms by (simp add: tralentV1SnapToBandUpper_def)
next
  case (Some b)
  have "\<forall>(lo, hi) \<in> set tralentV1RankBands. hi \<le> 2 * lo" by code_simp
  moreover have "b \<in> set tralentV1RankBands" "fst b \<le> raw" using Some by (auto simp: find_Some_iff case_prod_beta)
  ultimately have "snd b \<le> 2 * raw" by fastforce
  with Some show ?thesis by (simp add: tralentV1SnapToBandUpper_def case_prod_beta)
qed

lemma planned_le:
  assumes "2 \<le> n"
  shows "TralentV1PlannedWinners n \<le> n"
proof (cases "n \<le> 11")
  case True
  then show ?thesis using assms by (simp add: TralentV1PlannedWinners_def)
next
  case False
  define e :: rat where "e = 1 + 1 / 2 ^ 53"
  define x where "x = f64_mul (f64_of_int n) TralentV1WinnerRatio"
  define y where "y = f64_add x (1 / 2)"
  define raw where "raw = f64_to_int (f64_floor y)"
  define N :: rat where "N = of_int n"
  have N: "12 \<le> N" using False by (simp add: N_def)
  have a: "0 \<le> f64_of_int n" "f64_of_int n \<le> N * e" using N f64_round_le [of N] by (simp_all add: f64_of_int_def e_def N_def)
  have t: "0 \<le> TralentV1WinnerRatio" "TralentV1WinnerRatio \<le> 3 / 10 * e"
    using f64_round_le [of "3 / 10"] by (simp_all add: TralentV1WinnerRatio_def e_def)
  have at: "0 \<le> f64_of_int n * TralentV1WinnerRatio" using a t by simp
  have x: "0 \<le> x" using at by (simp add: x_def f64_mul_def)
  have "x \<le> f64_of_int n * TralentV1WinnerRatio * e" using f64_round_le [OF at] by (simp add: x_def f64_mul_def e_def)
  also have "\<dots> \<le> (N * e) * (3 / 10 * e) * e" using a t N by (intro mult_mono mult_nonneg_nonneg) (simp_all add: e_def)
  also have "\<dots> = N * (3 / 10 * (e * e * e))" by simp
  also have "\<dots> \<le> N * (31 / 100)" using N by (intro mult_left_mono) (simp_all add: e_def)
  finally have x': "x \<le> N * (31 / 100)" .
  have "y \<le> (x + 1 / 2) * e" using f64_round_le [of "x + 1 / 2"] x by (simp add: y_def f64_add_def e_def)
  also have "\<dots> \<le> (N * (31 / 100) + 1 / 2) * (101 / 100)" using x x' N by (intro mult_mono) (simp_all add: e_def)
  also have "\<dots> \<le> N / 2" using N by simp
  finally have y: "y \<le> N / 2" .
  have y0: "0 \<le> y" using x by (simp add: y_def f64_add_def)
  have "raw \<le> \<lfloor>y\<rfloor>" using y0 by (simp add: raw_def f64_to_int_def f64_trunc_def f64_floor_def)
  then have "of_int (2 * raw) \<le> N" using y by linarith
  then have "2 * raw \<le> n" by (simp only: N_def of_int_le_iff)
  moreover have "TralentV1PlannedWinners n = tralentV1SnapToBandUpper (if raw < 1 then 1 else raw)"
    using False by (simp add: TralentV1PlannedWinners_def Let_def raw_def x_def y_def)
  ultimately show ?thesis using snap_le [of "if raw < 1 then 1 else raw"] False by (simp split: if_splits)
qed

lemma shares_ranks:
  assumes "0 < net" "2 \<le> n"
  shows "map ps_Rank (CalculateForContest net n) = [1..int (length (CalculateForContest net n))]"
    and "int (length (CalculateForContest net n)) \<le> n"
proof -
  let ?ss = "CalculateForContest net n"
  let ?k = "min (actualWinners n 0) 3000"
  have r: "map ps_Rank ?ss = [1..?k]" using distribution_ranks [OF assms, of 0] by (simp add: CalculateForContest_def)
  have k: "1 \<le> ?k" "?k \<le> n" using actualWinners_bounds [OF assms(2), of 0] planned_le [OF assms(2)] by auto
  have "length (map ps_Rank ?ss) = nat ?k" using r k by simp
  then have "int (length ?ss) = ?k" using k by simp
  with r k show "map ps_Rank ?ss = [1..int (length ?ss)]" "int (length ?ss) \<le> n" by simp_all
qed

section \<open>Shares by rank\<close>

lemma shareByRank_foldl:
  "foldl (\<lambda>m s. m(ps_Rank s \<mapsto> s)) m ss r =
     (case find (\<lambda>s. ps_Rank s = r) (rev ss) of Some s \<Rightarrow> Some s | None \<Rightarrow> m r)"
  by (induction ss arbitrary: m rule: rev_induct) auto

lemma rankAmounts_share: "rankAmounts ss r = map_option ps_AmountCents (shareByRank ss r)"
  unfolding rankAmounts_def shareByRank_def by (induction ss rule: rev_induct) auto

lemma share_at:
  assumes "map ps_Rank ss = [1..int (length ss)]"
  shows "shareByRank ss (int i + 1) = (if i < length ss then Some (ss ! i) else None)"
proof -
  have rank: "ps_Rank (ss ! j) = int j + 1" if "j < length ss" for j
    using that arg_cong [OF assms, of "\<lambda>xs. xs ! j"] by simp
  have "find (\<lambda>s. ps_Rank s = int i + 1) (rev ss) = (if i < length ss then Some (ss ! i) else None)"
  proof (cases "i < length ss")
    case True
    have "\<forall>s \<in> set (drop (i + 1) ss). ps_Rank s \<noteq> int i + 1" by (auto simp: in_set_conv_nth rank)
    then have "find (\<lambda>s. ps_Rank s = int i + 1) (rev (drop (i + 1) ss)) = None" by (simp add: find_None_iff)
    moreover have "rev ss = rev (drop (i + 1) ss) @ ss ! i # rev (take i ss)"
      using id_take_nth_drop [OF True] by (metis Suc_eq_plus1 append_assoc append_Cons append_Nil rev.simps(2) rev_append)
    ultimately show ?thesis using True rank [of i] by (simp add: find_append_None)
  next
    case False
    then show ?thesis by (auto simp: find_None_iff in_set_conv_nth rank)
  qed
  then show ?thesis by (simp add: shareByRank_def shareByRank_foldl)
qed

section \<open>Prizes by rank\<close>

definition rankedUser :: "FinalRanking \<Rightarrow> RankedUser" where
  "rankedUser r = \<lparr>ru_UserID = fr_UserID r, ru_Rank = fr_Rank r, ru_Score = fr_FinalScore r\<rparr>"

definition prizePayout :: "PrizeAllocation \<Rightarrow> Payout" where
  "prizePayout p = \<lparr>po_UserID = pl_UserID p, po_Rank = pl_Rank p, po_AmountCents = pl_AmountCents p\<rparr>"

lemma prizeLoop_amounts:
  assumes "length ss = length rs" "\<And>j. j < length rs \<Longrightarrow> shareFor m (i + j) (rs ! j) = Some (ss ! j)"
  shows "map pl_AmountCents (prizeLoop m i rs) = filter (\<lambda>a. 0 < a) (map ps_AmountCents ss)"
  using assms
proof (induction rs arbitrary: i ss)
  case Nil
  then show ?case by simp
next
  case (Cons r rs)
  then obtain s ss' where ss: "ss = s # ss'" by (cases ss) auto
  have "shareFor m i r = Some s" using Cons.prems(2) [of 0] by (simp add: ss)
  moreover have "shareFor m (i + 1 + j) (rs ! j) = Some (ss' ! j)" if "j < length rs" for j
    using Cons.prems(2) [of "Suc j"] that by (simp add: ss)
  then have "map pl_AmountCents (prizeLoop m (i + 1) rs) = filter (\<lambda>a. 0 < a) (map ps_AmountCents ss')"
    using Cons.prems(1) by (intro Cons.IH) (simp_all add: ss)
  ultimately show ?case by (simp add: ss)
qed

lemma prizeLoop_payouts:
  assumes "\<And>j. j < length rs \<Longrightarrow> fr_Rank (rs ! j) = int (i + j) + 1"
  shows "map prizePayout (prizeLoop (shareByRank ss) i rs) =
    map (payout_of (rankAmounts ss)) (filter (paid (rankAmounts ss)) (map rankedUser rs))"
  using assms
proof (induction rs arbitrary: i)
  case Nil
  then show ?case by simp
next
  case (Cons r rs)
  have r: "fr_Rank r = int i + 1" using Cons.prems [of 0] by simp
  have "fr_Rank (rs ! j) = int (i + 1 + j) + 1" if "j < length rs" for j
    using Cons.prems [of "Suc j"] that by simp
  note IH = Cons.IH [OF this]
  show ?case
  proof (cases "\<exists>s. shareByRank ss (int i + 1) = Some s \<and> 0 < ps_AmountCents s")
    case True
    then obtain s where s: "shareByRank ss (int i + 1) = Some s" "0 < ps_AmountCents s" by blast
    define q where "q = \<lparr>pl_UserID = fr_UserID r, pl_Rank = fr_Rank r, pl_AmountCents = ps_AmountCents s,
      pl_Percentage = ps_Percentage s, pl_Status = ''pending'', pl_LedgerEntryID = '''', pl_Error = None\<rparr>"
    have "prizeLoop (shareByRank ss) i (r # rs) = q # prizeLoop (shareByRank ss) (i + 1) rs"
      using s by (simp add: shareFor_def r q_def)
    moreover have "prizePayout q = payout_of (rankAmounts ss) (rankedUser r)" "paid (rankAmounts ss) (rankedUser r)"
      using s by (simp_all add: q_def prizePayout_def payout_of_def paid_def rankedUser_def rankAmounts_share r)
    ultimately show ?thesis using IH by simp
  next
    case False
    then have "prizeLoop (shareByRank ss) i (r # rs) = prizeLoop (shareByRank ss) (i + 1) rs"
      by (auto simp: shareFor_def r split: option.split)
    moreover have "\<not> paid (rankAmounts ss) (rankedUser r)"
      using False by (auto simp: paid_def rankedUser_def rankAmounts_share r)
    ultimately show ?thesis using IH by simp
  qed
qed

lemma sum_positive: "\<forall>a \<in> set xs. (0::int) \<le> a \<Longrightarrow> sum_list (filter (\<lambda>a. 0 < a) xs) = sum_list xs"
  by (induction xs) auto

lemma go_sum_prizes:
  assumes "length ss = length rs" "\<And>j. j < length rs \<Longrightarrow> shareFor m j (rs ! j) = Some (ss ! j)" "\<forall>s \<in> set ss. 0 \<le> ps_AmountCents s"
  shows "go_sum (map pl_AmountCents (prizeLoop m 0 rs)) = wrap64 (sum_list (map ps_AmountCents ss))"
  using prizeLoop_amounts [OF assms(1), of m 0] assms(2,3) by (simp add: go_sum_eq sum_positive)

lemma calculatePrizes_paid:
  assumes "rankings \<noteq> []" "0 < ci_EntryFeeCents info"
  shows "calculatePrizes cfg rankings info =
    (let pool = settlementPool cfg (int (length rankings)) info;
         shares = CalculateForContest (pp_Net pool) (int (length rankings))
     in (pool, prizeLoop (shareByRank shares) 0 (take (length shares) rankings)))"
  using assms by (simp add: calculatePrizes_def)

context slice_sort
begin

lemma ranking_rank:
  assumes "se_sort env = slice" "i < length ps" "i > 0 \<Longrightarrow> fp_FinalScore (slice ps ! i) < fp_FinalScore (slice ps ! (i - 1))"
  shows "fr_Rank (calculateRankings env c ps t ! i) = int i + 1"
proof -
  have "outranking (fp_FinalScore (slice ps ! i)) ps = outranking (fp_FinalScore (slice ps ! i)) (slice ps)"
    by (rule outranking_mset) (simp add: slice_perm)
  also have "\<dots> = int i" using assms(2,3) by (intro outranking_first slice_desc) simp_all
  finally show ?thesis using assms(1,2) by (simp add: rankings_eq rankingOf_def Let_def case_prod_beta)
qed

lemma rankings_length: "se_sort env = slice \<Longrightarrow> length (calculateRankings env c ps t) = length ps"
  by (simp add: rankings_eq)

lemma distinct_scores:
  assumes "distinct (map fp_FinalScore ps)" "0 < i" "i < length ps"
  shows "fp_FinalScore (slice ps ! i) < fp_FinalScore (slice ps ! (i - 1))"
proof -
  have "mset (map fp_FinalScore (slice ps)) = mset (map fp_FinalScore ps)" by (simp add: slice_perm)
  then have d: "distinct (map fp_FinalScore (slice ps))" using assms(1) mset_eq_imp_distinct_iff by blast
  have "fp_FinalScore (slice ps ! i) \<noteq> fp_FinalScore (slice ps ! (i - 1))"
    using d assms(2,3) nth_eq_iff_index_eq [OF d, of i "i - 1"] by auto
  moreover have "fp_FinalScore (slice ps ! i) \<le> fp_FinalScore (slice ps ! (i - 1))"
    by (rule desc_nth [OF slice_desc]) (use assms in simp_all)
  ultimately show ?thesis by simp
qed

lemma distinct_ranks:
  "se_sort env = slice \<Longrightarrow> distinct (map fp_FinalScore ps) \<Longrightarrow> i < length ps \<Longrightarrow>
     fr_Rank (calculateRankings env c ps t ! i) = int i + 1"
  by (rule ranking_rank, assumption, assumption, rule distinct_scores)

end

section \<open>An example\<close>

definition plain_pg :: sql_driver where
  "plain_pg = \<lparr>sql_num = Some, sql_float = id, sql_param = id\<rparr>"

definition sample_trades :: tdb where
  "sample_trades = \<lparr>td_participants = [], td_positions = [], td_orders = [], td_fills = [], td_contests = Map.empty,
     td_symbols = [], td_positions_columns = migrated_positions_columns\<rparr>"

definition sample_senv :: senv where
  "sample_senv = \<lparr>se_sql = plain_pg, se_numeric = \<lambda>p s x. Some x, se_sort = sort_key (\<lambda>p. - fp_FinalScore p),
     se_fault = \<lambda>_. None, se_prizeBegin = \<lambda>_. None, se_prizeCommit = \<lambda>_. None, se_settlementID = ''S'',
     se_entryID = \<lambda>i. CHR ''E'' # replicate i CHR ''x'', se_refundID = ''R'', se_snapshotID = ''N'',
     se_events = [StartCounts sample_trades, CancelTick sample_trades, PositionTick sample_trades], se_redis = \<lambda>_. None,
     se_dec = shop_decimal, se_math = step_math, se_time = 0, se_PlatformFeeBps = 2000, se_waitDone = False\<rparr>"

definition final_row :: "string \<Rightarrow> f64 \<Rightarrow> FinalParticipant" where
  "final_row u s = \<lparr>fp_UserID = u, fp_FinalScore = s, fp_RealizedScore = s, fp_QtyTotal = 100, fp_QtyAvailable = 100\<rparr>"

definition sample_info :: "int \<Rightarrow> ContestInfo" where
  "sample_info net = \<lparr>ci_ID = ''c'', ci_Name = ''C'', ci_EntryFeeCents = 1000, ci_PlatformFeeBps = 0, ci_PrizePoolNetCents = net,
     ci_CommissionAmount = 0, ci_EndTime = 0, ci_EconomicsLocked = False, ci_LockedEntryFeeCents = 0, ci_LockedPlatformFeeBps = 0\<rparr>"

lemma sample_slice: "slice_sort (se_sort sample_senv)"
  by (simp add: sample_senv_def stable_sort.slice_sort_axioms)

lemma two_shares: "CalculateForContest 2000 2 = [\<lparr>ps_Rank = 1, ps_AmountCents = 2000, ps_Percentage = 100\<rparr>]"
proof -
  have w: "TralentV1PlannedWinners 2 = 1" "TralentV1SmallContestPercents 2 = Some [100]" by code_simp+
  have f: "f64_add 0 100 = 100" "f64_div 100 100 = 1" "f64_mul 1 100 = 100" "half_up_cents 2000 100 = 2000" by code_simp+
  show ?thesis
    by (simp add: CalculateForContest_def TralentV1CalculatePrizeDistribution_def w smallShares_def f enumerate_eq_zip
        addResidual_def go_sum_eq is_i64_def)
qed

lemma four_shares: "CalculateForContest 4000 4 =
    [\<lparr>ps_Rank = 1, ps_AmountCents = 3200, ps_Percentage = 80\<rparr>, \<lparr>ps_Rank = 2, ps_AmountCents = 800, ps_Percentage = 20\<rparr>]"
proof -
  have w: "TralentV1PlannedWinners 4 = 2" "TralentV1SmallContestPercents 4 = Some [80, 20]" by code_simp+
  have f: "f64_add 0 80 = 80" "f64_add 80 20 = 100" "f64_mul (f64_div 80 100) 100 = 80" "f64_mul (f64_div 20 100) 100 = 20"
    "half_up_cents 4000 80 = 3200" "half_up_cents 4000 20 = 800" by code_simp+
  show ?thesis
    by (simp add: CalculateForContest_def TralentV1CalculatePrizeDistribution_def w smallShares_def f enumerate_eq_zip
        addResidual_def go_sum_eq is_i64_def)
qed

lemma sample_sorted:
  "se_sort sample_senv [final_row ''a'' 10, final_row ''b'' 30] = [final_row ''b'' 30, final_row ''a'' 10]"
  "se_sort sample_senv [final_row ''a'' 30, final_row ''b'' 30, final_row ''d'' 20, final_row ''e'' 10] =
     [final_row ''a'' 30, final_row ''b'' 30, final_row ''d'' 20, final_row ''e'' 10]"
  by (simp_all add: sample_senv_def final_row_def)

lemma sample_pool: "settlementPool 2000 2 (sample_info 2000) = \<lparr>pp_Gross = 2000, pp_Net = 2000, pp_PlatformFee = 0\<rparr>"
  "settlementPool 2000 4 (sample_info 4000) = \<lparr>pp_Gross = 4000, pp_Net = 4000, pp_PlatformFee = 0\<rparr>"
  by (simp_all add: settlementPool_def sample_info_def is_i64_def)

lemma sample_prizes:
  "fst (calculatePrizes 2000 (calculateRankings sample_senv ''c'' [final_row ''a'' 10, final_row ''b'' 30] sample_trades) (sample_info 2000))
     = \<lparr>pp_Gross = 2000, pp_Net = 2000, pp_PlatformFee = 0\<rparr>"
  "fst (calculatePrizes 2000 (calculateRankings sample_senv ''c'' [final_row ''a'' 30, final_row ''b'' 30, final_row ''d'' 20, final_row ''e'' 10]
       sample_trades) (sample_info 4000)) = \<lparr>pp_Gross = 4000, pp_Net = 4000, pp_PlatformFee = 0\<rparr>"
  using sample_pool
  by (simp_all add: calculatePrizes_def slice_sort.rankings_length [OF sample_slice refl] sample_info_def Let_def
      slice_sort.rankings_eq [OF sample_slice refl])

section \<open>Properties\<close>

text \<open>
  (C18) Whatever order the sort leaves tied participants in, the final ranks are those of standard
  competition ranking: the rank of a participant is one more than the number of participants with a
  greater score, and its tie count is the number of others with the same score.
\<close>
theorem final_ranks_are_competition_ranks:
  assumes "slice_sort (se_sort env)"
  shows "mset (map (\<lambda>r. (fr_UserID r, fr_FinalScore r, fr_Rank r, fr_TiedWithCount r)) (calculateRankings env c ps t)) =
    mset (map (\<lambda>p. (fp_UserID p, fp_FinalScore p, 1 + outranking (fp_FinalScore p) ps,
        int (length (filter (\<lambda>q. fp_FinalScore q = fp_FinalScore p) ps)) - 1)) ps)"
proof -
  let ?s = "se_sort env ps"
  let ?same = "\<lambda>xs p. int (length (filter (\<lambda>q. fp_FinalScore q = fp_FinalScore p) xs))"
  let ?f = "\<lambda>p. (fp_UserID p, fp_FinalScore p, 1 + outranking (fp_FinalScore p) ps, ?same ps p - 1)"
  note perm = slice_sort.slice_perm [OF assms, of ps]
  have same: "?same ?s p = ?same ps p" for p using perm by (metis mset_filter size_mset)
  have "map (\<lambda>r. (fr_UserID r, fr_FinalScore r, fr_Rank r, fr_TiedWithCount r)) (calculateRankings env c ps t) = map ?f ?s"
    by (rule nth_equalityI)
      (simp_all add: slice_sort.rankings_eq [OF assms refl] slice_sort.slice_length [OF assms] rankingOf_def Let_def
        case_prod_beta tiedCount_eq same)
  then show ?thesis using perm by simp
qed

theorem final_ranks_are_competition_ranks_witness:
  "mset (map (\<lambda>r. (fr_UserID r, fr_FinalScore r, fr_Rank r, fr_TiedWithCount r))
      (calculateRankings sample_senv ''c'' [final_row ''a'' 10, final_row ''b'' 30, final_row ''d'' 10] sample_trades)) =
    mset (map (\<lambda>p. (fp_UserID p, fp_FinalScore p,
        1 + outranking (fp_FinalScore p) [final_row ''a'' 10, final_row ''b'' 30, final_row ''d'' 10],
        int (length (filter (\<lambda>q. fp_FinalScore q = fp_FinalScore p) [final_row ''a'' 10, final_row ''b'' 30, final_row ''d'' 10])) - 1))
      [final_row ''a'' 10, final_row ''b'' 30, final_row ''d'' 10])"
  by (rule final_ranks_are_competition_ranks [OF sample_slice])

text \<open>
  (C17) Without ties the settlement pays what the reference allocation of \<open>packages/scoring/economics\<close>
  pays: the same users, ranks and amounts in the same order, whenever that allocation succeeds.
\<close>
theorem settlement_matches_allocation:
  assumes "slice_sort (se_sort env)" and "distinct (map fp_FinalScore ps)"
    and "calculatePrizes cfg (calculateRankings env c ps t) info = (pool, prizes)"
    and "AllocatePayouts (map rankedUser (calculateRankings env c ps t)) (pp_Net pool) = Inr out"
  shows "map prizePayout prizes = out"
proof -
  let ?rs = "calculateRankings env c ps t"
  let ?ss = "CalculateForContest (pp_Net pool) (int (length ?rs))"
  let ?m = "rankAmounts ?ss"
  have len: "length ?rs = length ps" by (rule slice_sort.rankings_length [OF assms(1) refl])
  have rank: "fr_Rank (?rs ! j) = int j + 1" if "j < length ?rs" for j
    using slice_sort.distinct_ranks [OF assms(1) refl assms(2)] that len by simp
  show ?thesis
  proof (cases "?rs = [] \<or> ci_EntryFeeCents info \<le> 0 \<or> ?ss = []")
    case True
    then show ?thesis using assms(3,4) by (auto simp: calculatePrizes_def AllocatePayouts_def Let_def split: if_splits prod.splits)
  next
    case False
    have "\<not> (pp_Net pool \<le> 0 \<or> int (length ?rs) < 2)" using False distribution_empty by (metis CalculateForContest_def)
    then have net: "0 < pp_Net pool" "2 \<le> int (length ?rs)" by auto
    note ss = shares_ranks [OF net]
    have out: "out = map (payout_of ?m) (filter (paid ?m) (map rankedUser ?rs))"
      using assms(4) False net(1) by (simp add: AllocatePayouts_def allocLoop_start Let_def split: if_splits)
    have prizes: "prizes = prizeLoop (shareByRank ?ss) 0 (take (length ?ss) ?rs)"
      using assms(3) False calculatePrizes_paid [of ?rs info cfg] by (auto simp: Let_def)
    have first: "map prizePayout prizes = map (payout_of ?m) (filter (paid ?m) (map rankedUser (take (length ?ss) ?rs)))"
      unfolding prizes by (rule prizeLoop_payouts) (simp add: rank)
    have "\<not> paid ?m (rankedUser r)" if "r \<in> set (drop (length ?ss) ?rs)" for r
    proof -
      obtain i where i: "i < length (drop (length ?ss) ?rs)" "drop (length ?ss) ?rs ! i = r"
        using \<open>r \<in> _\<close> unfolding in_set_conv_nth by blast
      define j where "j = length ?ss + i"
      have "length ?ss \<le> j" "j < length ?rs" "r = ?rs ! j" using i by (simp_all add: j_def)
      then show ?thesis using rank [of j] share_at [OF ss(1), of j] by (simp add: paid_def rankedUser_def rankAmounts_share)
    qed
    then have "filter (paid ?m) (map rankedUser (drop (length ?ss) ?rs)) = []" by (auto simp: filter_empty_conv)
    then have "filter (paid ?m) (map rankedUser ?rs) = filter (paid ?m) (map rankedUser (take (length ?ss) ?rs))"
      using append_take_drop_id [of "length ?ss" ?rs] by (metis append.right_neutral filter_append map_append)
    then show ?thesis using first out by simp
  qed
qed

theorem settlement_matches_allocation_witness:
  "map prizePayout (snd (calculatePrizes 2000 (calculateRankings sample_senv ''c'' [final_row ''a'' 10, final_row ''b'' 30] sample_trades)
      (sample_info 2000))) = [\<lparr>po_UserID = ''b'', po_Rank = 1, po_AmountCents = 2000\<rparr>]"
proof (rule settlement_matches_allocation [OF sample_slice])
  let ?rs = "calculateRankings sample_senv ''c'' [final_row ''a'' 10, final_row ''b'' 30] sample_trades"
  show "distinct (map fp_FinalScore [final_row ''a'' 10, final_row ''b'' 30])" by (simp add: final_row_def)
  show "calculatePrizes 2000 ?rs (sample_info 2000) =
      (\<lparr>pp_Gross = 2000, pp_Net = 2000, pp_PlatformFee = 0\<rparr>, snd (calculatePrizes 2000 ?rs (sample_info 2000)))"
    by (rule prod_eqI) (simp_all add: sample_prizes)
  have rs: "map rankedUser ?rs = [\<lparr>ru_UserID = ''b'', ru_Rank = 1, ru_Score = 30\<rparr>, \<lparr>ru_UserID = ''a'', ru_Rank = 2, ru_Score = 10\<rparr>]"
    unfolding calculateRankings_def sample_sorted Let_def
    by (simp add: final_row_def rankingOf_def MaxFloat64_def Let_def case_prod_beta rankedUser_def)
  show "AllocatePayouts (map rankedUser ?rs) (pp_Net \<lparr>pp_Gross = 2000, pp_Net = 2000, pp_PlatformFee = 0\<rparr>) =
      Inr [\<lparr>po_UserID = ''b'', po_Rank = 1, po_AmountCents = 2000\<rparr>]"
    by (simp add: rs AllocatePayouts_def two_shares rankAmounts_def is_i64_def)
qed

text \<open>
  (C13) Without ties the prizes of a paid contest add up to the net pool, as long as no share is
  negative; the pool they come from is the one accumulated when the participants joined, or the one
  calculated from the locked fee.
\<close>
theorem prizes_sum_to_pool:
  assumes "slice_sort (se_sort env)" and "distinct (map fp_FinalScore ps)" and "2 \<le> length ps" and "0 < ci_EntryFeeCents info"
    and "calculatePrizes cfg (calculateRankings env c ps t) info = (pool, prizes)"
    and "0 < pp_Net pool" and "is_i64 (pp_Net pool)"
    and "\<forall>s \<in> set (CalculateForContest (pp_Net pool) (int (length ps))). 0 \<le> ps_AmountCents s"
  shows "pool = settlementPool cfg (int (length ps)) info \<and> go_sum (map pl_AmountCents prizes) = pp_Net pool"
proof -
  let ?rs = "calculateRankings env c ps t"
  let ?ss = "CalculateForContest (pp_Net pool) (int (length ps))"
  have len: "length ?rs = length ps" by (rule slice_sort.rankings_length [OF assms(1) refl])
  have n: "2 \<le> int (length ps)" using assms(3) by simp
  note ss = shares_ranks [OF assms(6) n]
  have "?rs \<noteq> []" using len assms(3) by auto
  then have p: "pool = settlementPool cfg (int (length ps)) info" "prizes = prizeLoop (shareByRank ?ss) 0 (take (length ?ss) ?rs)"
    using assms(5) calculatePrizes_paid [OF _ assms(4), of ?rs cfg] by (auto simp: Let_def len)
  have "go_sum (map pl_AmountCents prizes) = wrap64 (sum_list (map ps_AmountCents ?ss))"
    unfolding p(2)
  proof (rule go_sum_prizes)
    show "length ?ss = length (take (length ?ss) ?rs)" using ss(2) by (simp add: len)
    fix j assume "j < length (take (length ?ss) ?rs)"
    then show "shareFor (shareByRank ?ss) j (take (length ?ss) ?rs ! j) = Some (?ss ! j)"
      using slice_sort.distinct_ranks [OF assms(1) refl assms(2)] share_at [OF ss(1), of j] by (simp add: shareFor_def len)
  qed (fact assms(8))
  also have "\<dots> = pp_Net pool"
    using distribution_sum [OF assms(6) n assms(7), of 0] by (simp add: go_sum_eq CalculateForContest_def)
  finally show ?thesis using p(1) by simp
qed

theorem prizes_sum_to_pool_witness:
  "\<lparr>pp_Gross = 2000, pp_Net = 2000, pp_PlatformFee = 0\<rparr> = settlementPool 2000 (int (length [final_row ''a'' 10, final_row ''b'' 30])) (sample_info 2000) \<and>
   go_sum (map pl_AmountCents (snd (calculatePrizes 2000
      (calculateRankings sample_senv ''c'' [final_row ''a'' 10, final_row ''b'' 30] sample_trades) (sample_info 2000)))) =
    pp_Net \<lparr>pp_Gross = 2000, pp_Net = 2000, pp_PlatformFee = 0\<rparr>"
proof (rule prizes_sum_to_pool [OF sample_slice])
  let ?rs = "calculateRankings sample_senv ''c'' [final_row ''a'' 10, final_row ''b'' 30] sample_trades"
  show "calculatePrizes 2000 ?rs (sample_info 2000) =
      (\<lparr>pp_Gross = 2000, pp_Net = 2000, pp_PlatformFee = 0\<rparr>, snd (calculatePrizes 2000 ?rs (sample_info 2000)))"
    by (rule prod_eqI) (simp_all add: sample_prizes)
qed (simp_all add: final_row_def sample_info_def is_i64_def two_shares)

text \<open>
  (C14) With two participants tied at the top both are paid the share of rank 1 and the share of rank
  2 is not withheld: the prizes add up to the pool plus the difference of the two shares.
\<close>
theorem tied_leaders_overpay_pool:
  assumes "slice_sort (se_sort env)" and "se_sort env ps = p1 # p2 # rest"
    and "fp_FinalScore p1 = fp_FinalScore p2" and "distinct (map fp_FinalScore (p2 # rest))"
    and "0 < ci_EntryFeeCents info" and "calculatePrizes cfg (calculateRankings env c ps t) info = (pool, prizes)"
    and "0 < pp_Net pool" and "is_i64 (pp_Net pool)"
    and "CalculateForContest (pp_Net pool) (int (length ps)) = s1 # s2 # shares" and "\<forall>s \<in> set (s1 # s2 # shares). 0 \<le> ps_AmountCents s"
  shows "go_sum (map pl_AmountCents prizes) = wrap64 (pp_Net pool + ps_AmountCents s1 - ps_AmountCents s2)"
proof -
  let ?rs = "calculateRankings env c ps t"
  let ?ss = "s1 # s2 # shares"
  note sort = slice_sort.slice_desc [OF assms(1), of ps]
  have len: "length ?rs = length ps" by (rule slice_sort.rankings_length [OF assms(1) refl])
  have lps: "length ps = Suc (Suc (length rest))" using slice_sort.slice_length [OF assms(1), of ps] assms(2) by simp
  have n: "2 \<le> int (length ps)" using lps by simp
  note ss = shares_ranks [OF assms(7) n, unfolded assms(9)]
  have rank: "fr_Rank (?rs ! j) = int j + 1" if jl: "j < length ps" and j1: "j \<noteq> 1" for j
  proof (rule slice_sort.ranking_rank [OF assms(1) refl jl])
    assume "0 < j"
    then obtain k where k: "j = Suc (Suc k)" using j1 by (metis One_nat_def not0_implies_Suc gr_implies_not0)
    have kl: "Suc k < length (p2 # rest)" using jl k lps by simp
    then have "map fp_FinalScore (p2 # rest) ! Suc k \<noteq> map fp_FinalScore (p2 # rest) ! k"
      using nth_eq_iff_index_eq [OF assms(4), of "Suc k" k] by (simp del: list.map)
    then have "fp_FinalScore ((p2 # rest) ! Suc k) \<noteq> fp_FinalScore ((p2 # rest) ! k)"
      using kl by (simp only: nth_map Suc_lessD not_False_eq_True)
    moreover have "fp_FinalScore (se_sort env ps ! j) \<le> fp_FinalScore (se_sort env ps ! (j - 1))"
      using jl slice_sort.slice_length [OF assms(1), of ps] by (intro desc_nth [OF sort]) simp_all
    ultimately show "fp_FinalScore (se_sort env ps ! j) < fp_FinalScore (se_sort env ps ! (j - 1))"
      by (simp add: assms(2) k)
  qed
  have rank1: "fr_Rank (?rs ! 1) = 1"
  proof -
    have "outranking (fp_FinalScore p1) ps = outranking (fp_FinalScore p1) (se_sort env ps)"
      by (rule outranking_mset) (simp add: slice_sort.slice_perm [OF assms(1)])
    also have "\<dots> = 0" using outranking_first [OF sort, of 0] by (simp add: assms(2))
    finally show ?thesis
      using lps by (simp add: slice_sort.rankings_eq [OF assms(1) refl] rankingOf_def Let_def case_prod_beta assms(2,3) upt_rec)
  qed
  have "?rs \<noteq> []" using len lps by auto
  then have p: "prizes = prizeLoop (shareByRank ?ss) 0 (take (length ?ss) ?rs)"
    using assms(6) calculatePrizes_paid [OF _ assms(5), of ?rs cfg] unfolding assms(9) [symmetric] by (auto simp: Let_def len)
  have "go_sum (map pl_AmountCents prizes) = wrap64 (sum_list (map ps_AmountCents (s1 # s1 # shares)))"
    unfolding p
  proof (rule go_sum_prizes)
    show "length (s1 # s1 # shares) = length (take (length ?ss) ?rs)" using ss(2) by (simp add: len lps)
    fix j assume j: "j < length (take (length ?ss) ?rs)"
    show "shareFor (shareByRank ?ss) j (take (length ?ss) ?rs ! j) = Some ((s1 # s1 # shares) ! j)"
    proof (cases "j = 1")
      case True
      then show ?thesis using rank1 share_at [OF ss(1), of 0] j by (simp add: shareFor_def del: One_nat_def)
    next
      case False
      then have "(s1 # s1 # shares) ! j = ?ss ! j" by (cases j; cases "j - 1") auto
      then show ?thesis using rank [of j] False share_at [OF ss(1), of j] j by (simp add: shareFor_def len)
    qed
  qed (use assms(10) in simp)
  moreover have "wrap64 (sum_list (map ps_AmountCents ?ss)) = pp_Net pool"
    using distribution_sum [OF assms(7) n assms(8), of 0] assms(9) by (simp add: go_sum_eq CalculateForContest_def)
  moreover have "wrap64 (wrap64 (sum_list (map ps_AmountCents ?ss)) + (ps_AmountCents s1 - ps_AmountCents s2)) =
      wrap64 (sum_list (map ps_AmountCents ?ss) + (ps_AmountCents s1 - ps_AmountCents s2))"
    by (rule wrap64_mod_simps(1))
  ultimately show ?thesis by (simp add: algebra_simps)
qed

text \<open>Four participants, two of them tied at the top, and a pool of 4000: 6400 is paid.\<close>

theorem tied_leaders_overpay_pool_witness:
  "go_sum (map pl_AmountCents (snd (calculatePrizes 2000 (calculateRankings sample_senv ''c''
      [final_row ''a'' 30, final_row ''b'' 30, final_row ''d'' 20, final_row ''e'' 10] sample_trades) (sample_info 4000)))) = 6400"
proof -
  let ?ps = "[final_row ''a'' 30, final_row ''b'' 30, final_row ''d'' 20, final_row ''e'' 10]"
  let ?rs = "calculateRankings sample_senv ''c'' ?ps sample_trades"
  let ?pool = "\<lparr>pp_Gross = 4000, pp_Net = 4000, pp_PlatformFee = 0\<rparr>"
  let ?s1 = "\<lparr>ps_Rank = 1, ps_AmountCents = 3200, ps_Percentage = 80\<rparr>"
  let ?s2 = "\<lparr>ps_Rank = 2, ps_AmountCents = 800, ps_Percentage = 20\<rparr>"
  have "calculatePrizes 2000 ?rs (sample_info 4000) = (?pool, snd (calculatePrizes 2000 ?rs (sample_info 4000)))"
    by (rule prod_eqI) (simp_all add: sample_prizes)
  from tied_leaders_overpay_pool [OF sample_slice sample_sorted(2) _ _ _ this, of ?s1 ?s2 "[]"]
  show ?thesis by (simp add: final_row_def sample_info_def is_i64_def four_shares)
qed

end
