(* ===== verification/Settlement_Money.thy ===== *)
theory Settlement_Money
  imports Settlement_Prizes
begin

text \<open>
  What a settlement does to money and points: every operation either leaves wallets and ledgers as
  they are or posts prizes and refunds of the contest under their idempotency keys, whatever fails
  on the way and however often the settlement is repeated.
\<close>

section \<open>Operations that move no money\<close>

definition fee_cols :: "sdb \<Rightarrow> string \<Rightarrow> (int \<times> int option) option" where
  "fee_cols d = (\<lambda>c. map_option (\<lambda>k. (ct_EntryFeeCents k, cc_LockedEntryFeeCents k)) (cd_contests (sd_c d) c))"

definition still :: "sdb \<Rightarrow> sdb \<Rightarrow> bool" where
  "still d d' \<longleftrightarrow> sd_funds d' = sd_funds d \<and> fee_cols d' = fee_cols d \<and> sd_users_columns d' = sd_users_columns d
     \<and> sd_points d' = sd_points d"

named_theorems still_rules

lemma still_refl [simp, still_rules]: "still d d"
  by (simp add: still_def)

lemma still_trans [trans]: "still d d' \<Longrightarrow> still d' d'' \<Longrightarrow> still d d''"
  by (simp add: still_def)

lemma statement_Inr [simp]: "statement env n x = Inr y \<longleftrightarrow> se_fault env n = None \<and> y = x"
  by (auto simp: statement_def split: option.split)

lemma put_c_simps [simp]:
  "sd_c (put_c c d) = c" "sd_t (put_c c d) = sd_t d" "sd_points (put_c c d) = sd_points d"
  "sd_users_columns (put_c c d) = sd_users_columns d" "sd_events (put_c c d) = sd_events d"
  by (simp_all add: put_c_def)

lemma still_put_c: "cd_funds c = cd_funds (sd_c d) \<Longrightarrow> cd_contests c = cd_contests (sd_c d) \<Longrightarrow> still d (put_c c d)"
  by (simp add: still_def fee_cols_def)

lemma update_settlement_simps [simp]:
  "cd_funds (update_settlement i f c) = cd_funds c" "cd_contests (update_settlement i f c) = cd_contests c"
  "cd_participants (update_settlement i f c) = cd_participants c" "cd_rankings (update_settlement i f c) = cd_rankings c"
  "cd_prizes (update_settlement i f c) = cd_prizes c" "cd_snapshots (update_settlement i f c) = cd_snapshots c"
  by (simp_all add: update_settlement_def)

lemma still_set_settlement: "set_settlement env n i f d = Inr d' \<Longrightarrow> still d d'"
  by (auto simp: set_settlement_def intro: still_put_c)

lemma still_updates [still_rules]:
  "updateSettlementStarted env i n d = Inr d' \<Longrightarrow> still d d'"
  "updateSettlementPositionsClosed env i a b p d = Inr d' \<Longrightarrow> still d d'"
  "updateSettlementRankingsCalculated env i d = Inr d' \<Longrightarrow> still d d'"
  "updateSettlementPrizesCalculated env i g net fee w d = Inr d' \<Longrightarrow> still d d'"
  "updateSettlementPrizesDistributed env i m d = Inr d' \<Longrightarrow> still d d'"
  "updateSettlementCompleted env i d = Inr d' \<Longrightarrow> still d d'"
  "updateSettlementFailed env i e d = Inr d' \<Longrightarrow> still d d'"
  by (auto simp: updateSettlementStarted_def updateSettlementPositionsClosed_def updateSettlementRankingsCalculated_def
      updateSettlementPrizesCalculated_def updateSettlementPrizesDistributed_def updateSettlementCompleted_def
      updateSettlementFailed_def dest: still_set_settlement)

lemma still_getSettlementRecord [still_rules]: "getSettlementRecord env c d = Inr (d', r) \<Longrightarrow> still d d'"
  by (auto simp: getSettlementRecord_def res_simps intro!: still_put_c split: option.splits if_splits)

lemma still_status: "(\<And>k. ct_EntryFeeCents (f k) = ct_EntryFeeCents k \<and> cc_LockedEntryFeeCents (f k) = cc_LockedEntryFeeCents k) \<Longrightarrow>
    still d (put_c (update_contest c f (sd_c d)) d)"
  by (auto simp: still_def fee_cols_def fun_eq_iff option.map_comp comp_def)

lemma still_updateContestStatus [still_rules]: "updateContestStatus env c st d = Inr d' \<Longrightarrow> still d d'"
  by (auto simp: updateContestStatus_def intro: still_status)

lemma still_ignoring [still_rules]: "(\<And>d'. f d = Inr d' \<Longrightarrow> still d d') \<Longrightarrow> still d (ignoring f d)"
  by (auto simp: ignoring_def split: sum.split)

lemma still_log [still_rules]: "still d (logSettlementEvent env i c e m d)"
  unfolding logSettlementEvent_def by (rule still_ignoring) (auto simp: still_def fee_cols_def)

lemma log_trades [simp]: "sd_t (logSettlementEvent env i c e m d) = sd_t d"
  by (auto simp: logSettlementEvent_def ignoring_def split: sum.split)

lemma closed_trades: "updateSettlementPositionsClosed env i a b p d = Inr d' \<Longrightarrow> sd_t d' = sd_t d"
  by (auto simp: updateSettlementPositionsClosed_def set_settlement_def)

lemma still_insertFinalRanking [still_rules]: "insertFinalRanking env s c r d = Inr d' \<Longrightarrow> still d d'"
  by (auto simp: insertFinalRanking_def res_simps Let_def intro!: still_put_c split: if_splits)

lemma still_insertPrizeDistribution [still_rules]: "insertPrizeDistribution env s c p d = Inr d' \<Longrightarrow> still d d'"
  by (auto simp: insertPrizeDistribution_def res_simps Let_def intro!: still_put_c split: option.splits)

lemma still_updatePrizeDistributionStatus [still_rules]: "updatePrizeDistributionStatus env c u s l e d = Inr d' \<Longrightarrow> still d d'"
  by (auto simp: updatePrizeDistributionStatus_def intro!: still_put_c split: if_splits)

lemma still_updateParticipantFinalRank [still_rules]: "updateParticipantFinalRank env c u r p s d = Inr d' \<Longrightarrow> still d d'"
  by (auto simp: updateParticipantFinalRank_def res_simps still_def fee_cols_def split: if_splits)

lemma still_rankTx [still_rules]: "rankTx env s c m rs d = Inr d' \<Longrightarrow> still d d'"
proof (induction rs arbitrary: d)
  case (Cons r rs)
  then show ?case
    by (auto simp: res_simps dest!: still_insertFinalRanking still_updateParticipantFinalRank intro: still_trans)
qed simp

lemma still_insert_snapshot: "insert_snapshot s c = Inr (c', x) \<Longrightarrow> cd_funds c' = cd_funds c \<and> cd_contests c' = cd_contests c \<and> cd_settlements c' = cd_settlements c"
  by (auto simp: insert_snapshot_def split: if_splits)

lemma insertedOrExisting_state: "insertedOrExisting c typ old r = Inr (c', s) \<Longrightarrow> c' = fst r"
  by (cases r; cases "snd r") (auto simp: insertedOrExisting_def split: sum.splits)

lemma finished_frame:
  assumes "EnsureContestFinished n c s d = Inr (d', x)"
  shows "cd_funds d' = cd_funds d \<and> cd_contests d' = cd_contests d \<and> cd_settlements d' = cd_settlements d"
proof -
  obtain y where y: "(case cd_contests d c of
      Some k \<Rightarrow>
        if map_option (\<lambda>st. (st_ContestID st, st_Status st)) (map_of (cd_settlements d) s) = Some (c, ''completed'')
           \<and> ct_LifecyclePolicyVersion k = ContestSnapshotPolicyV1
          then (case ct_SettledAt k of
                  None \<Rightarrow> Inl (SnapshotDbError ''contest_snapshots.event_at is null'')
                | Some t \<Rightarrow> rbind (insert_snapshot
                      (baseSnapshot n SnapshotFinished t (finishedDetails c s d) k d\<lparr>sn_SettlementID := Some s\<rparr>) d)
                    (insertedOrExisting c SnapshotFinished d))
        else insertedOrExisting c SnapshotFinished d (d, None)
    | None \<Rightarrow> insertedOrExisting c SnapshotFinished d (d, None)) = Inr y"
    and d': "fst y = d'"
    using assms by (auto simp: EnsureContestFinished_def rbind_eq_Inr split: option.splits if_splits)
  obtain r where r: "insertedOrExisting c SnapshotFinished d r = Inr y" "fst r = d \<or> (\<exists>sn. insert_snapshot sn d = Inr r)"
    using y by (cases "cd_contests d c") (fastforce simp: rbind_eq_Inr split: option.splits if_splits)+
  have "d' = fst r" using insertedOrExisting_state [of c SnapshotFinished d r] r(1) d' by (cases y) auto
  with r(2) show ?thesis using still_insert_snapshot [of _ d "fst r" "snd r"] by auto
qed

lemma still_completeContestFinalization [still_rules]:
  assumes "completeContestFinalization env c s d = Inr d'"
  shows "still d d'"
proof -
  define t where "t = cd_now (sd_c d)"
  define c1 where "c1 = update_settlement s (\<lambda>t st. st\<lparr>st_Status := ''completed'',
      st_CompletedAt := Some (case st_CompletedAt st of None \<Rightarrow> t | Some u \<Rightarrow> u)\<rparr>) (sd_c d)"
  define c2 where "c2 = update_contest c (\<lambda>c. c\<lparr>ct_Status := StatusCompleted,
      ct_SettledAt := Some (case ct_SettledAt c of None \<Rightarrow> t | Some u \<Rightarrow> u)\<rparr>) c1"
  have frame: "still d (put_c c3 d)" if "cd_funds c3 = cd_funds c2" "cd_contests c3 = cd_contests c2" for c3
    using that by (auto simp: c2_def c1_def still_def fee_cols_def fun_eq_iff option.map_comp comp_def)
  obtain k where k: "cd_contests (sd_c d) c = Some k"
    using assms by (cases "cd_contests (sd_c d) c") (simp_all add: completeContestFinalization_def)
  obtain z where own: "map_of (cd_settlements (sd_c d)) s = Some z" "st_ContestID z = c"
    using assms k by (auto simp: completeContestFinalization_def split: if_splits)
  have def: "completeContestFinalization env c s d =
      (if ct_LifecyclePolicyVersion k = ContestSnapshotPolicyV1
       then (case EnsureContestFinished (se_snapshotID env) c s c2 of
               Inl err \<Rightarrow> Inl (SnapshotError err)
             | Inr (c3, _) \<Rightarrow> statement env ''completeContestFinalization'' (put_c c3 d))
       else statement env ''completeContestFinalization'' (put_c c2 d))"
    unfolding c2_def c1_def t_def using k own by (simp add: completeContestFinalization_def Let_def)
  show ?thesis
  proof (cases "ct_LifecyclePolicyVersion k = ContestSnapshotPolicyV1")
    case True
    then obtain c3 x where "EnsureContestFinished (se_snapshotID env) c s c2 = Inr (c3, x)" "d' = put_c c3 d"
      using assms def by (cases "EnsureContestFinished (se_snapshotID env) c s c2") auto
    then show ?thesis using frame finished_frame by blast
  next
    case False
    then show ?thesis using assms def frame [of c2] by simp
  qed
qed

lemma still_closeAllPositions [still_rules]: "closeAllPositions env c d = Some (Inr (d', a, b, p)) \<Longrightarrow> still d d'"
  by (auto simp: closeAllPositions_def res_simps still_def fee_cols_def)
section \<open>Prizes and refunds\<close>

definition settle_key :: "string \<Rightarrow> LedgerEntry \<Rightarrow> bool" where
  "settle_key c e \<longleftrightarrow> 0 < le_AmountCents e \<and>
     (le_IdempotencyKey e = Some (GenerateRefundIdempotencyKey c (le_UserID e)) \<or>
      (\<exists>r. le_IdempotencyKey e = Some (GeneratePrizeIdempotencyKey c (le_UserID e) r)))"

definition paid_out :: "string \<Rightarrow> db \<Rightarrow> db \<Rightarrow> bool" where
  "paid_out c d d' \<longleftrightarrow> (wallet_inv d \<longrightarrow> wallet_inv d' \<and> same_custody d d' \<and>
     (\<exists>es. db_ledger d' = db_ledger d @ es \<and> (\<forall>e \<in> set es. settle_key c e)))"

lemma paid_out_refl [simp]: "paid_out c d d"
  by (simp add: paid_out_def)

lemma same_custody_trans: "same_custody d d' \<Longrightarrow> same_custody d' d'' \<Longrightarrow> same_custody d d''"
  by (simp add: same_custody_def)

lemma paid_out_trans:
  assumes "paid_out c d d'" "paid_out c d' d''"
  shows "paid_out c d d''"
  unfolding paid_out_def
proof
  assume "wallet_inv d"
  with assms obtain es es' where "wallet_inv d''" "same_custody d d'" "same_custody d' d''"
    "db_ledger d' = db_ledger d @ es" "\<forall>e \<in> set es. settle_key c e" "db_ledger d'' = db_ledger d' @ es'" "\<forall>e \<in> set es'. settle_key c e"
    unfolding paid_out_def by blast
  then show "wallet_inv d'' \<and> same_custody d d'' \<and> (\<exists>es. db_ledger d'' = db_ledger d @ es \<and> (\<forall>e \<in> set es. settle_key c e))"
    by (auto intro: same_custody_trans)
qed

lemma posted_paid_out:
  assumes "posted u a (Some k) x d d'" "0 < a"
    and "k = GenerateRefundIdempotencyKey c u \<or> (\<exists>r. k = GeneratePrizeIdempotencyKey c u r)"
  shows "paid_out c d d'"
  unfolding paid_out_def
proof
  assume inv: "wallet_inv d"
  obtain e where e: "entry_posted e d d'" "le_UserID e = u" "le_AmountCents e = a" "le_IdempotencyKey e = Some k"
    using assms(1) by (auto simp: posted_def)
  then have "db_ledger d' = db_ledger d @ [e]" by (auto simp: entry_posted_def)
  moreover have "settle_key c e" using assms(2,3) e by (auto simp: settle_key_def)
  ultimately show "wallet_inv d' \<and> same_custody d d' \<and> (\<exists>es. db_ledger d' = db_ledger d @ es \<and> (\<forall>e \<in> set es. settle_key c e))"
    using entry_posted_inv [OF inv e(1)] entry_posted_custody [OF e(1)] by auto
qed

lemma wallet_inv_contests [simp]: "wallet_inv (d\<lparr>db_contests := x\<rparr>) = wallet_inv d"
  by (simp add: wallet_inv_def)

definition settles :: "string \<Rightarrow> sdb \<Rightarrow> sdb \<Rightarrow> bool" where
  "settles c d d' \<longleftrightarrow> paid_out c (sd_funds d) (sd_funds d') \<and> fee_cols d' = fee_cols d \<and> sd_users_columns d' = sd_users_columns d
     \<and> (''tragge_point'' \<notin> set (sd_users_columns d) \<longrightarrow> sd_points d' = sd_points d)"

lemma settles_refl [simp]: "settles c d d"
  by (simp add: settles_def)

lemma settles_trans [trans]: "settles c d d' \<Longrightarrow> settles c d' d'' \<Longrightarrow> settles c d d''"
  by (auto simp: settles_def intro: paid_out_trans)

lemma still_settles: "still d d' \<Longrightarrow> settles c d d'"
  by (simp add: settles_def still_def)

lemma put_funds_simps [simp]:
  "sd_funds (put_funds f d) = f" "fee_cols (put_funds f d) = fee_cols d" "sd_users_columns (put_funds f d) = sd_users_columns d"
  "sd_points (put_funds f d) = sd_points d" "sd_t (put_funds f d) = sd_t d"
  by (simp_all add: put_funds_def fee_cols_def)

lemma finishPrize_cases:
  assumes "finishPrize env c i entry p d0 d = (d', q)"
  shows "d' = d0 \<and> \<not> creditedPrize q \<or> still d d' \<and> creditedPrize q"
  using assms
  by (auto simp: finishPrize_def creditedPrize_def failedPrize_def Let_def dest: still_updatePrizeDistributionStatus split: sum.splits option.splits)

lemma commitFailedPrize_still: "still d0 d \<Longrightarrow> still d0 (commitFailedPrize env c i err p d0 d)"
  by (auto simp: commitFailedPrize_def dest: still_updatePrizeDistributionStatus intro: still_trans split: sum.split)

lemma prizeTx_cases:
  assumes "prizeTx env s c i p d = (d', q)"
  obtains (unpaid) "still d d'"
  | (paid) d1 f x where "still d d1" "still (put_funds f d1) d'" "creditedPrize q"
      "CreditPrizeIdempotent (se_entryID env i) (pl_UserID p) c (pl_Rank p) (pl_AmountCents p) (sd_funds d1) = Inr (f, x)"
proof (cases "se_prizeBegin env i")
  case (Some err)
  then show ?thesis using assms unpaid by (simp add: prizeTx_def)
next
  case None
  show ?thesis
  proof (cases "insertPrizeDistribution env s c p d")
    case (Inl err)
    then show ?thesis using assms None unpaid by (simp add: prizeTx_def)
  next
    case (Inr d1)
    note d1 = still_insertPrizeDistribution [OF this]
    show ?thesis
    proof (cases "CreditPrizeIdempotent (se_entryID env i) (pl_UserID p) c (pl_Rank p) (pl_AmountCents p) (sd_funds d1)")
      case (Inr fx)
      obtain f x where fx: "fx = (f, x)" by (cases fx)
      have "finishPrize env c i x p d (put_funds f d1) = (d', q)"
        using assms None \<open>insertPrizeDistribution env s c p d = Inr d1\<close> Inr fx by (simp add: prizeTx_def)
      from finishPrize_cases [OF this] show ?thesis using unpaid paid [OF d1] Inr fx by auto
    next
      case (Inl err)
      have "d' = commitFailedPrize env c i err p d d1 \<or> (\<exists>x. finishPrize env c i (Some x) p d d1 = (d', q))"
        using assms None \<open>insertPrizeDistribution env s c p d = Inr d1\<close> Inl by (cases err) (auto simp: prizeTx_def)
      then show ?thesis
        using unpaid commitFailedPrize_still [OF d1] finishPrize_cases [of env c i _ p d d1 d' q] still_trans [OF d1] still_refl by metis
    qed
  qed
qed

lemma CreditPrizeIdempotent_paid_out:
  assumes "CreditPrizeIdempotent i u c r a d = Inr (d', x)" "is_i64 a"
  shows "paid_out c d d'"
proof (cases "wallet_inv d \<and> 0 < a")
  case True
  then show ?thesis using CreditPrizeIdempotent_new [OF _ assms(2,1)] posted_paid_out by blast
next
  case False
  then show ?thesis using assms(1) by (auto simp: paid_out_def CreditPrizeIdempotent_def)
qed

lemma prizeTx_settles:
  assumes "is_i64 (pl_AmountCents p)"
  shows "settles c d (fst (prizeTx env s c i p d))"
proof -
  obtain d' q where r: "prizeTx env s c i p d = (d', q)" by fastforce
  then show ?thesis
  proof (cases rule: prizeTx_cases)
    case unpaid
    then show ?thesis using r by (simp add: still_settles)
  next
    case (paid d1 f x)
    have "settles c d d1" using paid by (simp add: still_settles)
    also have "settles c d1 (put_funds f d1)" using CreditPrizeIdempotent_paid_out [OF paid(4) assms] by (simp add: settles_def)
    also have "settles c (put_funds f d1) d'" using paid by (simp add: still_settles)
    finally show ?thesis using r by simp
  qed
qed

lemma prizeTxs_settles: "\<forall>p \<in> set ps. is_i64 (pl_AmountCents p) \<Longrightarrow> settles c d (fst (prizeTxs env s c i ps d))"
proof (induction ps arbitrary: i d)
  case (Cons p ps)
  obtain d1 q where 1: "prizeTx env s c i p d = (d1, q)" by fastforce
  then have "settles c d d1" using prizeTx_settles [of p c d env s i] Cons.prems by simp
  also have "settles c d1 (fst (prizeTxs env s c (i + 1) ps d1))" using Cons by simp
  finally show ?case using 1 by (simp add: Let_def case_prod_beta)
qed simp

lemma distributePrizes_settles:
  assumes "distributePrizes env c s rs ps d = Inr (d', n, failed)" "\<forall>p \<in> set ps. is_i64 (pl_AmountCents p)"
  shows "settles c d d'"
proof -
  obtain d1 where d1: "rankTx env s c (prizeMap ps) rs d = Inr d1" "d' = fst (prizeTxs env s c 0 ps d1)"
    using assms(1) by (auto simp: distributePrizes_def res_simps case_prod_beta Let_def)
  have "settles c d d1" by (rule still_settles [OF still_rankTx [OF d1(1)]])
  also have "settles c d1 d'" unfolding d1(2) by (rule prizeTxs_settles [OF assms(2)])
  finally show ?thesis .
qed

lemma refundTx_settles:
  assumes "refundTx env c u info d = Inr d'" "is_i64 (ci_EntryFeeCents info)"
  shows "settles c d d'"
proof -
  obtain f x where r: "RefundContestEntryFeeIdempotent (se_refundID env) u c (ci_Name info) (ci_EntryFeeCents info)
      RC_ContestRefundQuorum (sd_funds d) = Inr (f, x)" "resetPool env c (put_funds f d) = Inr d'"
    using assms(1) by (auto simp: refundTx_def res_simps split: sum.splits)
  have "paid_out c (sd_funds d) f"
  proof (cases "wallet_inv (sd_funds d) \<and> 0 < ci_EntryFeeCents info")
    case True
    then obtain y where "CreditIdempotentWithReason (se_refundID env) u (ci_EntryFeeCents info) ContestRefund (Some ContestRef) (Some c)
        (Some (refundDescription RC_ContestRefundQuorum (ci_Name info) c)) (Some RC_ContestRefundQuorum)
        (GenerateRefundIdempotencyKey c u) (sd_funds d) = Inr (f, y)"
      using r(1) by (auto simp: RefundContestEntryFeeIdempotent_def)
    from CreditIdempotentWithReason_posted [OF _ assms(2) this] True show ?thesis using posted_paid_out by blast
  next
    case False
    then show ?thesis using r(1) by (auto simp: paid_out_def RefundContestEntryFeeIdempotent_def)
  qed
  moreover have "paid_out c f (sd_funds d')" "fee_cols d' = fee_cols d" "sd_users_columns d' = sd_users_columns d" "sd_points d' = sd_points d"
    using r(2) by (auto simp: resetPool_def paid_out_def same_custody_def)
  ultimately show ?thesis by (auto simp: settles_def intro: paid_out_trans)
qed

lemma pointsTx_None: "fst (pointsTx env n t rs None) = None"
  by (induction rs) (auto simp: Let_def case_prod_beta)

lemma pointsTx_frame:
  assumes "fst (pointsTx env n t rs (Some d)) = Some d'"
  shows "sd_c d' = sd_c d \<and> sd_users_columns d' = sd_users_columns d \<and> (''tragge_point'' \<notin> set (sd_users_columns d) \<longrightarrow> d' = d)"
  using assms
proof (induction rs arbitrary: d)
  case (Cons r rs)
  define con where "con = dec_Float64 (se_dec env)
    (pointContribution (se_dec env) (se_math env) (NewFromFloat (se_dec env) (fr_FinalScore r)) (fr_Rank r) n (Some t) (se_time env))"
  define tx where "tx = (if con \<le> 0 then Some d else case Some d of None \<Rightarrow> None | Some d \<Rightarrow>
    (case incrementUserTraggePoint env (fr_UserID r) con d of Inl _ \<Rightarrow> None | Inr (d', _) \<Rightarrow> Some d'))"
  have p: "fst (pointsTx env n t rs tx) = Some d'"
    using Cons.prems unfolding tx_def con_def by (simp only: pointsTx.simps Let_def case_prod_beta fst_conv)
  then obtain d1 where d1: "tx = Some d1" by (cases tx) (simp_all add: pointsTx_None)
  have "sd_c d1 = sd_c d \<and> sd_users_columns d1 = sd_users_columns d \<and> (''tragge_point'' \<notin> set (sd_users_columns d) \<longrightarrow> d1 = d)"
    using d1 by (auto simp: tx_def incrementUserTraggePoint_def Let_def split: if_splits sum.splits)
  with Cons.IH [of d1] p d1 show ?case by auto
qed simp

lemma updateTraggePoints_settles:
  assumes "fst (updateTraggePoints env rs n t d) = Inr d'"
  shows "settles c d d'"
proof -
  have "fst (pointsTx env n t rs (Some d)) = Some d'"
    using assms by (auto simp: updateTraggePoints_def Let_def case_prod_beta split: option.splits)
  from pointsTx_frame [OF this] show ?thesis by (auto simp: settles_def fee_cols_def)
qed

section \<open>An attempt\<close>

lemma attempt_stepE:
  assumes "attempt_step d r k = Some (d', res)"
  obtains (err) e where "r = Inl e" "d' = d" "res = Inl e" | (ok) x where "r = Inr x" "k x = Some (d', res)"
  using assms by (cases r) (auto simp: attempt_step_def)

lemma share_i64:
  assumes "s \<in> set (CalculateForContest net n)"
  shows "is_i64 (ps_AmountCents s)"
proof -
  have h: "is_i64 (half_up_cents a b)" for a b by (simp add: half_up_cents_def f64_to_int_def) (simp add: is_i64_def)
  have first: "\<forall>s \<in> set ss. is_i64 (ps_AmountCents s) \<Longrightarrow> s \<in> set (addToFirst P rem ss) \<Longrightarrow> is_i64 (ps_AmountCents s)" for P rem ss s
    by (induction ss) (auto simp: addCents_def split: if_splits)
  have residual: "\<forall>s \<in> set ss. is_i64 (ps_AmountCents s) \<Longrightarrow> s \<in> set (addResidual P pool ss) \<Longrightarrow> is_i64 (ps_AmountCents s)" for P pool ss s
    by (auto simp: addResidual_def Let_def split: if_splits intro: first)
  have "\<forall>s \<in> set (smallShares pool pcts). is_i64 (ps_AmountCents s)" "\<forall>s \<in> set (bucketShares pool ranks). is_i64 (ps_AmountCents s)"
    for pool pcts ranks by (auto simp: smallShares_def bucketShares_def h Let_def)
  note shares = residual [OF this(1)] residual [OF this(2)]
  show ?thesis using assms
    by (auto simp: CalculateForContest_def TralentV1CalculatePrizeDistribution_def Let_def dest: shares split: if_splits option.splits)
qed

lemma prizeLoop_from_shares:
  "p \<in> set (prizeLoop (shareByRank ss) i rs) \<Longrightarrow> \<exists>s \<in> set ss. pl_AmountCents p = ps_AmountCents s \<and> 0 < ps_AmountCents s"
proof (induction rs arbitrary: i)
  case (Cons r rs)
  have mem: "shareByRank ss k = Some s \<Longrightarrow> s \<in> set ss" for k s
    by (auto simp: shareByRank_def shareByRank_foldl find_Some_iff split: option.splits) (metis nth_mem length_rev set_rev)
  show ?case
  proof (cases "shareFor (shareByRank ss) i r")
    case None
    then show ?thesis using Cons by simp
  next
    case (Some s)
    then have "s \<in> set ss" by (auto simp: shareFor_def mem split: option.splits)
    then show ?thesis using Cons Some by (auto split: if_splits)
  qed
qed simp

lemma prize_amounts:
  assumes "calculatePrizes cfg rs info = (pool, prizes)" "p \<in> set prizes"
  shows "is_i64 (pl_AmountCents p)" "0 < pl_AmountCents p"
proof -
  obtain n where "p \<in> set (prizeLoop (shareByRank (CalculateForContest (pp_Net pool) n)) 0 (take (length (CalculateForContest (pp_Net pool) n)) rs))"
    using assms by (auto simp: calculatePrizes_def Let_def split: if_splits)
  from prizeLoop_from_shares [OF this] share_i64 show "is_i64 (pl_AmountCents p)" "0 < pl_AmountCents p" by auto
qed

text \<open>What the steps after the close do: everything but the distribution and the points is still.\<close>

lemma payAttempt_cases:
  assumes "payAttempt env c s info n rs prizes d = Some (d', res)"
  obtains (failed) err where "still d d'" "res = Inl err"
  | (distributed) d1 d2 m fl where "distributePrizes env c s rs prizes d = Inr (d1, m, fl)"
      "settles c d1 d2" "sd_funds d2 = sd_funds d1" "still d2 d'"
proof (cases "distributePrizes env c s rs prizes d")
  case (Inl e)
  then show ?thesis using assms failed still_log by (auto simp: payAttempt_def)
next
  case (Inr t)
  obtain d1 m fl where dist: "distributePrizes env c s rs prizes d = Inr (d1, m, fl)" using Inr by (cases t) auto
  from assms [unfolded payAttempt_def dist sum.case prod.case] show ?thesis
  proof (cases rule: attempt_stepE)
    case (err e)
    then show ?thesis using distributed [OF dist, of d1] by simp
  next
    case (ok x)
    define y where "y = logSettlementEvent env s c ''prizes_distributed'' None x"
    have y: "still d1 y" unfolding y_def by (rule still_trans [OF still_updates(5) [OF ok(1)] still_log])
    define z where "z = (case fst (updateTraggePoints env rs n (1000 * ci_EndTime info) y) of Inl _ \<Rightarrow> y | Inr d' \<Rightarrow> d')"
    have "settles c y z" by (auto simp: z_def dest: updateTraggePoints_settles split: sum.split)
    moreover have "sd_funds z = sd_funds y"
      by (auto simp: z_def updateTraggePoints_def Let_def case_prod_beta split: sum.splits option.splits dest!: pointsTx_frame)
    ultimately have z: "settles c d1 z" "sd_funds z = sd_funds d1"
      using settles_trans [OF still_settles [OF y]] y by (simp_all add: still_def)
    from ok(2) [unfolded Let_def, folded y_def, folded z_def] show ?thesis
    proof (cases rule: attempt_stepE)
      case (err e)
      then show ?thesis using distributed [OF dist z] by simp
    next
      case (ok x)
      have "still z d'" using still_trans [OF still_completeContestFinalization [OF ok(1)] still_log] ok(2) by auto
      then show ?thesis using distributed [OF dist z] by simp
    qed
  qed
qed

lemma finalizeAttempt_cases:
  assumes "finalizeAttempt env c s info d = Some (d', res)"
  obtains (failed) err where "still d d'" "res = Inl err"
  | (paying) d1 pool prizes n where "still d d1"
      "calculatePrizes (se_PlatformFeeBps env) (calculateRankings env c (getParticipants env c d) (sd_t d)) info = (pool, prizes)"
      "payAttempt env c s info n (calculateRankings env c (getParticipants env c d) (sd_t d)) prizes d1 = Some (d', res)"
proof -
  define rs where "rs = calculateRankings env c (getParticipants env c d) (sd_t d)"
  obtain pool prizes where p: "calculatePrizes (se_PlatformFeeBps env) rs info = (pool, prizes)" by fastforce
  from assms [unfolded finalizeAttempt_def Let_def, folded rs_def, unfolded p prod.case] show ?thesis
  proof (cases rule: attempt_stepE)
    case (err e)
    then show ?thesis using failed by simp
  next
    case (ok x)
    define y where "y = logSettlementEvent env s c ''rankings_calculated'' None x"
    have y: "still d y" unfolding y_def by (rule still_trans [OF still_updates(3) [OF ok(1)] still_log])
    from ok(2) [folded y_def] show ?thesis
    proof (cases rule: attempt_stepE)
      case (err e)
      then show ?thesis using failed y by simp
    next
      case (ok x)
      have "still d (logSettlementEvent env s c ''prizes_calculated'' None x)"
        by (rule still_trans [OF y still_trans [OF still_updates(4) [OF ok(1)] still_log]])
      from paying [OF this p [unfolded rs_def] ok(2) [unfolded rs_def]] show ?thesis .
    qed
  qed
qed

lemma closeAttempt_cases:
  assumes "closeAttempt env c s info n d = Some (d', res)"
  obtains (failed) err where "still d d'" "res = Inl err"
  | (closed) d1 d2 d3 a b prices where "still d d1" "closeAllPositions env c d1 = Some (Inr (d2, a, b, prices))" "still d2 d3"
      "sd_t d3 = sd_t d2" "finalizeAttempt env c s info d3 = Some (d', res)"
proof -
  from assms [unfolded closeAttempt_def] show ?thesis
  proof (cases rule: attempt_stepE)
    case (err e)
    then show ?thesis using failed by simp
  next
    case (ok x)
    define y where "y = ignoring (updateContestStatus env c StatusSettling) (logSettlementEvent env s c ''started'' None x)"
    have "still (logSettlementEvent env s c ''started'' None x) y"
      unfolding y_def by (rule still_ignoring) (rule still_updateContestStatus)
    from still_trans [OF still_trans [OF still_updates(1) [OF ok(1)] still_log] this] have y: "still d y" .
    note rest = ok(2) [unfolded Let_def, folded y_def]
    consider e where "closeAllPositions env c y = Some (Inl e)"
      | d2 a b prices where "closeAllPositions env c y = Some (Inr (d2, a, b, prices))"
    proof (cases "closeAllPositions env c y")
      case None
      then show ?thesis using rest by simp
    next
      case (Some r)
      then show ?thesis using that by (cases r) auto
    qed
    then show ?thesis
    proof cases
      case 1
      then show ?thesis using rest failed still_trans [OF y still_log] by auto
    next
      case (2 d2 a b prices)
      from rest [unfolded 2 option.case sum.case prod.case] show ?thesis
      proof (cases rule: attempt_stepE)
        case (err e)
        then show ?thesis using failed still_trans [OF y still_closeAllPositions [OF 2]] by simp
      next
        case (ok x)
        have "sd_t (logSettlementEvent env s c ''positions_closed'' None x) = sd_t d2" using closed_trades [OF ok(1)] by simp
        from closed [OF y 2 still_trans [OF still_updates(2) [OF ok(1)] still_log] this ok(2)] show ?thesis .
      qed
    qed
  qed
qed

definition i64_fees :: "sdb \<Rightarrow> bool" where
  "i64_fees d \<longleftrightarrow> (\<forall>c k. cd_contests (sd_c d) c = Some k \<longrightarrow> is_i64 (ct_EntryFeeCents k) \<and> (\<forall>x. cc_LockedEntryFeeCents k = Some x \<longrightarrow> is_i64 x))"

lemma i64_fees_cols: "i64_fees d \<longleftrightarrow> (\<forall>c f l. fee_cols d c = Some (f, l) \<longrightarrow> is_i64 f \<and> (\<forall>x. l = Some x \<longrightarrow> is_i64 x))"
  by (auto simp: i64_fees_def fee_cols_def)

lemma settles_i64_fees: "settles c d d' \<Longrightarrow> i64_fees d \<Longrightarrow> i64_fees d'"
  by (simp add: settles_def i64_fees_cols)

lemma info_i64: "getContestInfo c d = Inr info \<Longrightarrow> i64_fees d \<Longrightarrow> is_i64 (ci_EntryFeeCents info)"
  by (auto simp: getContestInfo_def i64_fees_def Let_def positive_def split: option.splits)

lemma finalizeAttempt_settles:
  assumes "finalizeAttempt env c s info d = Some (d', res)"
  shows "settles c d d'"
  using assms
proof (cases rule: finalizeAttempt_cases)
  case (failed err)
  then show ?thesis by (simp add: still_settles)
next
  case (paying d1 pool prizes n)
  have "settles c d d1" using paying by (simp add: still_settles)
  also have "settles c d1 d'" using paying(3)
  proof (cases rule: payAttempt_cases)
    case (failed err)
    then show ?thesis by (simp add: still_settles)
  next
    case (distributed d2 d3 m fl)
    have "settles c d1 d2" using distributePrizes_settles [OF distributed(1)] prize_amounts(1) [OF paying(2)] by blast
    also have "settles c d2 d3" by (fact distributed)
    also have "settles c d3 d'" using distributed by (simp add: still_settles)
    finally show ?thesis .
  qed
  finally show ?thesis .
qed

lemma refundSingleParticipant_cases:
  assumes "refundSingleParticipant env c s p info d = (d', res)"
  obtains "still d d'" "\<exists>err. res = Inl err"
  | d1 d2 where "still d d1" "refundTx env c (fp_UserID p) info d1 = Inr d2" "still d2 d'" "res = Inr ()"
proof (cases "updateSettlementStarted env s 1 d")
  case (Inl err)
  then show ?thesis using assms that(1) by (auto simp: refundSingleParticipant_def)
next
  case (Inr d1)
  note s1 = still_updates(1) [OF Inr]
  show ?thesis
  proof (cases "refundTx env c (fp_UserID p) info d1")
    case (Inl err)
    then show ?thesis using assms Inr s1 that(1) by (auto simp: refundSingleParticipant_def)
  next
    case ok: (Inr d2)
    have "still d2 (ignoring (updateContestStatus env c StatusCancelled) (ignoring (updateSettlementCompleted env s) d2))"
      by (rule still_trans [of _ "ignoring (updateSettlementCompleted env s) d2"])
        (auto intro: still_ignoring still_updates still_updateContestStatus)
    from still_trans [OF this still_log] show ?thesis
      using assms Inr ok s1 that(2) by (auto simp: refundSingleParticipant_def)
  qed
qed

lemma still_i64_fees: "still d d' \<Longrightarrow> i64_fees d \<Longrightarrow> i64_fees d'"
  using settles_i64_fees still_settles by blast

lemma getSettlementRecord_frame:
  "getSettlementRecord env c d = Inr (d', r) \<Longrightarrow> getParticipants env' c' d' = getParticipants env' c' d"
  by (auto simp: getSettlementRecord_def res_simps getParticipants_def scanParticipant_def tradingRow_def Let_def
      split: option.splits if_splits)

lemma settleContestAttempt_cases:
  assumes "settleContestAttempt env c d = Some (d', res)"
  obtains (unpaid) "still d d'" "(\<exists>err. res = Inl err) \<or> getParticipants env c d = []
      \<or> (\<exists>d0 s st. getSettlementRecord env c d = Inr (d0, s, st) \<and> st_Status st = ''completed'')"
  | (refunded) p where "getParticipants env c d = [p]" "res = Inr ()" "i64_fees d \<longrightarrow> settles c d d'"
  | (finished) d1 d2 d3 s info a b prices where "still d d1" "closeAllPositions env c d1 = Some (Inr (d2, a, b, prices))" "still d2 d3"
      "sd_t d3 = sd_t d2" "finalizeAttempt env c s info d3 = Some (d', res)"
proof -
  from assms [unfolded settleContestAttempt_def] show ?thesis
  proof (cases rule: attempt_stepE)
    case (err e)
    then show ?thesis using unpaid by simp
  next
    case (ok x)
    obtain d0 s st where x: "x = (d0, s, st)" by (cases x) auto
    have s0: "still d d0" using ok(1) x still_getSettlementRecord by simp
    have parts: "getParticipants env c d0 = getParticipants env c d" using ok(1) x getSettlementRecord_frame by simp
    have rec: "getSettlementRecord env c d = Inr (d0, s, st)" using ok(1) x by simp
    show ?thesis
    proof (cases "st_Status st = ''completed''")
      case True
      then show ?thesis using ok(2) x s0 unpaid rec by auto
    next
      case False
      let ?ps = "getParticipants env c d0"
      from ok(2) [unfolded x prod.case if_not_P [OF False]] show ?thesis
      proof (cases rule: attempt_stepE)
        case (err e)
        then show ?thesis using unpaid s0 by simp
      next
        case (ok info)
        consider (none) "?ps = []" | (one) p where "?ps = [p]" "0 < ci_EntryFeeCents info"
          | (many) "?ps \<noteq> []" "\<not> (length ?ps = 1 \<and> ci_EntryFeeCents info > 0)"
          by (cases ?ps; cases "tl ?ps") auto
        then show ?thesis
        proof cases
          case none
          have "still d0 (ignoring (updateContestStatus env c StatusCancelled) (ignoring (updateSettlementCompleted env s) d0))"
            by (rule still_trans [of _ "ignoring (updateSettlementCompleted env s) d0"])
              (auto intro: still_ignoring still_updates still_updateContestStatus)
          then show ?thesis using ok(2) none unpaid still_trans [OF s0] parts by simp
        next
          case one
          have r: "refundSingleParticipant env c s p info d0 = (d', res)" using ok(2) one by simp
          then show ?thesis
          proof (cases rule: refundSingleParticipant_cases)
            case 1
            then show ?thesis using unpaid still_trans [OF s0 1(1)] 1(2) by blast
          next
            case (2 d1 d2)
            have "settles c d d'" if "i64_fees d"
            proof -
              have i: "is_i64 (ci_EntryFeeCents info)" using info_i64 [OF ok(1)] still_i64_fees [OF s0 that] by blast
              have "settles c d d1" by (rule still_settles [OF still_trans [OF s0 2(1)]])
              also have "settles c d1 d2" by (rule refundTx_settles [OF 2(2) i])
              also have "settles c d2 d'" by (rule still_settles [OF 2(3)])
              finally show ?thesis .
            qed
            then show ?thesis using refunded [of p] one(1) parts 2(4) by simp
          qed
        next
          case many
          have "closeAttempt env c s info (int (length ?ps)) d0 = Some (d', res)"
            using ok(2) unfolding Let_def if_not_P [OF many(1)] if_not_P [OF many(2)] .
          then show ?thesis
          proof (cases rule: closeAttempt_cases)
            case (failed err)
            then show ?thesis using unpaid still_trans [OF s0] by blast
          next
            case (closed d1 d2 d3 a b prices)
            from finished [OF still_trans [OF s0 closed(1)] closed(2-5)] show ?thesis .
          qed
        qed
      qed
    qed
  qed
qed

lemma settleContestAttempt_settles:
  assumes "settleContestAttempt env c d = Some (d', res)" "i64_fees d"
  shows "settles c d d'"
  using assms(1)
proof (cases rule: settleContestAttempt_cases)
  case unpaid
  then show ?thesis using still_settles by blast
next
  case refunded
  then show ?thesis using assms(2) by blast
next
  case (finished d1 d2 d3 s info a b prices)
  have "settles c d d2" by (rule still_settles [OF still_trans [OF finished(1) still_closeAllPositions [OF finished(2)]]])
  also have "settles c d2 d3" by (rule still_settles [OF finished(3)])
  also have "settles c d3 d'" by (rule finalizeAttempt_settles [OF finished(5)])
  finally show ?thesis .
qed

lemma markFailed_still: "still d (markFailed env c d)"
  by (auto simp: markFailed_def dest: still_getSettlementRecord intro: still_trans still_ignoring still_updates split: sum.split)

lemma settleRetries_settles:
  assumes "settleRetries envs c i n d = Some (d', res)" "i64_fees d"
  shows "settles c d d'"
  using assms
proof (induction n arbitrary: i d)
  case 0
  then show ?case using still_settles [OF markFailed_still] by auto
next
  case (Suc n)
  obtain d1 r1 where a: "settleContestAttempt (envs i) c d = Some (d1, r1)" using Suc.prems(1) by (cases "settleContestAttempt (envs i) c d") auto
  note m = settleContestAttempt_settles [OF a Suc.prems(2)]
  show ?case
  proof (cases r1)
    case (Inr u)
    then show ?thesis using Suc.prems(1) a m by simp
  next
    case (Inl e)
    show ?thesis
    proof (cases "n > 0 \<and> se_waitDone (envs i)")
      case True
      then show ?thesis using Suc.prems(1) a m Inl by simp
    next
      case False
      then have "settleRetries envs c (i + 1) n d1 = Some (d', res)" using Suc.prems(1) a Inl by (simp split: if_splits)
      from Suc.IH [OF this settles_i64_fees [OF m Suc.prems(2)]] show ?thesis using m settles_trans by blast
    qed
  qed
qed

lemma settlement_settles:
  assumes "SettleContestWithRetry lock n envs c d = Some (d', res)" "i64_fees d"
  shows "settles c d d'"
  using assms settleRetries_settles by (auto simp: SettleContestWithRetry_def split: sum.splits if_splits)

end
