(* ===== verification/Trading_Book.thy ===== *)
theory Trading_Book
  imports Trading_State
begin

text \<open>
  Market data and waiting orders of the trading engine: \<open>tick_validation.go\<close>, \<open>pricebook.go\<close>,
  \<open>pending.go\<close> and \<open>order_validation.go\<close> of \<open>apps/trading-engine/server\<close>. Prices come from JSON, which
  has no NaN and no infinity, so the guards against them never fire and a price is a finite float.
  \<open>time.Now()\<close> is an argument. Go's maps are maps; a loop over one takes the list of its keys in the
  order in which Go visits them.
\<close>

section \<open>Durations\<close>

definition sat_dur :: "int \<Rightarrow> int" where
  "sat_dur d = max min_i64 (min max_i64 d)"

definition since_milli :: "int \<Rightarrow> int \<Rightarrow> int" where
  "since_milli now ts = sat_dur (now - ts * 1000000)"

definition dur_Seconds :: "int \<Rightarrow> f64" where
  "dur_Seconds d =
     f64_add (f64_of_int (go_quot d 1000000000)) (f64_div (f64_of_int (go_rem d 1000000000)) 1000000000)"

section \<open>Validation of ticks (tick_validation.go)\<close>

record SymbolTick =
  st_Symbol :: string
  st_Bid :: f64
  st_Ask :: f64
  st_Last :: f64
  st_Timestamp :: int

record TickSnapshot =
  tk_Ts :: int
  tk_Symbols :: "SymbolTick list"

record TickAcceptResult =
  ta_Accepted :: bool
  ta_Reason :: string
  ta_TsMillis :: int

definition MaxFutureSkew :: int where "MaxFutureSkew = 2 * 1000000000"
definition MaxAcceptableTickAge :: int where "MaxAcceptableTickAge = 24 * 3600 * 1000000000"

definition normalizeToMillis :: "int \<Rightarrow> int" where
  "normalizeToMillis ts = (if ts < 1000000000000 then wrap64 (ts * 1000) else ts)"

definition resolveTickTimestamp :: "int \<Rightarrow> int \<Rightarrow> int" where
  "resolveTickTimestamp snapshotTs symbolTs = normalizeToMillis (if symbolTs > 0 then symbolTs else snapshotTs)"

definition validateTickTimestamp :: "int \<Rightarrow> int \<Rightarrow> TickAcceptResult" where
  "validateTickTimestamp tsMillis now =
     (if tsMillis \<le> 0 then \<lparr>ta_Accepted = False, ta_Reason = ''missing_or_zero_timestamp'', ta_TsMillis = 0\<rparr>
      else if tsMillis > 1000000000000000 then \<lparr>ta_Accepted = False, ta_Reason = ''timestamp_unit_mismatch'', ta_TsMillis = 0\<rparr>
      else let age = since_milli now tsMillis in
        if age < - MaxFutureSkew then \<lparr>ta_Accepted = False, ta_Reason = ''future_timestamp'', ta_TsMillis = tsMillis\<rparr>
        else if age > MaxAcceptableTickAge then \<lparr>ta_Accepted = False, ta_Reason = ''extremely_old_timestamp'', ta_TsMillis = tsMillis\<rparr>
        else \<lparr>ta_Accepted = True, ta_Reason = ''ok'', ta_TsMillis = tsMillis\<rparr>)"

datatype tick_error = MustNotBeNegative string | CrossedBook f64 f64 | NoPositivePrice

definition validateSymbolPrices :: "SymbolTick \<Rightarrow> tick_error + unit" where
  "validateSymbolPrices st =
     (if st_Last st < 0 then Inl (MustNotBeNegative ''last'')
      else if st_Bid st < 0 then Inl (MustNotBeNegative ''bid'')
      else if st_Ask st < 0 then Inl (MustNotBeNegative ''ask'')
      else if st_Bid st > 0 \<and> st_Ask st > 0 \<and> st_Bid st > st_Ask st then Inl (CrossedBook (st_Bid st) (st_Ask st))
      else if st_Last st \<le> 0 \<and> st_Bid st \<le> 0 \<and> st_Ask st \<le> 0 then Inl NoPositivePrice
      else Inr ())"

section \<open>Price book (pricebook.go)\<close>

record Quote =
  q_Symbol :: string
  q_Bid :: f64
  q_Ask :: f64
  q_Last :: f64
  q_Timestamp :: int

record PriceBookUpdateStats =
  sx_Accepted :: int
  sx_Rejected :: int
  sx_Reasons :: "string \<rightharpoonup> int"

record PriceBook =
  pb_quotes :: "(string, Quote) mapping"
  pb_spreadBps :: int
  pb_firstValidAt :: "int option"
  pb_lastAcceptedAt :: "int option"
  pb_rejectedTotal :: int

definition NewPriceBook :: PriceBook where
  "NewPriceBook = \<lparr>pb_quotes = Mapping.empty, pb_spreadBps = 10, pb_firstValidAt = None, pb_lastAcceptedAt = None, pb_rejectedTotal = 0\<rparr>"

definition HasBidAsk :: "Quote \<Rightarrow> bool" where
  "HasBidAsk q \<longleftrightarrow> q_Bid q > 0 \<and> q_Ask q > 0"

definition count_reason :: "string \<Rightarrow> PriceBookUpdateStats \<Rightarrow> PriceBookUpdateStats" where
  "count_reason r sx = sx\<lparr>sx_Rejected := sx_Rejected sx + 1,
     sx_Reasons := (sx_Reasons sx)(r \<mapsto> (case sx_Reasons sx r of None \<Rightarrow> 0 | Some n \<Rightarrow> n) + 1)\<rparr>"

definition getOrCreateQuote :: "int \<Rightarrow> string \<Rightarrow> PriceBook \<Rightarrow> Quote" where
  "getOrCreateQuote now symbol pb =
     (case Mapping.lookup (pb_quotes pb) symbol of
        Some q \<Rightarrow> q
      | None \<Rightarrow> \<lparr>q_Symbol = symbol, q_Bid = 0, q_Ask = 0, q_Last = 0, q_Timestamp = now div 1000000\<rparr>)"

text \<open>The new content of an accepted symbol's quote; a missing side is derived from the last price.\<close>

definition updateQuote :: "int \<Rightarrow> int \<Rightarrow> SymbolTick \<Rightarrow> Quote \<Rightarrow> Quote" where
  "updateQuote spreadBps ts st quote =
     (let lst = (if st_Last st > 0 then st_Last st else q_Last quote);
          bid = (if st_Bid st > 0 then st_Bid st else 0);
          ask = (if st_Ask st > 0 then st_Ask st else 0);
          half = f64_div (f64_div (f64_of_int spreadBps) 2) 10000
      in quote\<lparr>q_Timestamp := ts, q_Last := lst,
           q_Bid := (if lst > 0 \<and> bid \<le> 0 then f64_mul lst (f64_sub 1 half) else bid),
           q_Ask := (if lst > 0 \<and> ask \<le> 0 then f64_mul lst (f64_add 1 half) else ask)\<rparr>)"

definition updateSymbol :: "int \<Rightarrow> int \<Rightarrow> SymbolTick \<Rightarrow> PriceBook \<times> PriceBookUpdateStats \<Rightarrow> PriceBook \<times> PriceBookUpdateStats" where
  "updateSymbol now tickTs st = (\<lambda>(pb, sx).
     if st_Symbol st = '''' then (pb, count_reason ''missing_symbol'' sx)
     else let rejected = pb\<lparr>pb_rejectedTotal := wrap64 (pb_rejectedTotal pb + 1)\<rparr> in
       case validateSymbolPrices st of
         Inl _ \<Rightarrow> (rejected, count_reason ''invalid_price'' sx)
       | Inr _ \<Rightarrow>
         let vr = validateTickTimestamp (resolveTickTimestamp tickTs (st_Timestamp st)) now in
         if \<not> ta_Accepted vr then (rejected, count_reason (ta_Reason vr) sx)
         else if (case Mapping.lookup (pb_quotes pb) (st_Symbol st) of
                    Some ex \<Rightarrow> q_Timestamp ex > 0 \<and> ta_TsMillis vr < q_Timestamp ex | None \<Rightarrow> False)
           then (rejected, count_reason ''backward_timestamp'' sx)
         else (pb\<lparr>pb_quotes := Mapping.update (st_Symbol st)
                   (updateQuote (pb_spreadBps pb) (ta_TsMillis vr) st (getOrCreateQuote now (st_Symbol st) pb)) (pb_quotes pb),
                 pb_firstValidAt := (case pb_firstValidAt pb of None \<Rightarrow> Some now | Some t \<Rightarrow> Some t),
                 pb_lastAcceptedAt := Some now\<rparr>,
               sx\<lparr>sx_Accepted := sx_Accepted sx + 1\<rparr>))"

definition UpdateFromTick :: "int \<Rightarrow> TickSnapshot option \<Rightarrow> PriceBook \<Rightarrow> PriceBook \<times> PriceBookUpdateStats" where
  "UpdateFromTick now tick pb =
     (case tick of
        None \<Rightarrow> (pb, \<lparr>sx_Accepted = 0, sx_Rejected = 1, sx_Reasons = [''nil_tick'' \<mapsto> 1]\<rparr>)
      | Some t \<Rightarrow> fold (updateSymbol now (tk_Ts t)) (tk_Symbols t)
                   (pb, \<lparr>sx_Accepted = 0, sx_Rejected = 0, sx_Reasons = Map.empty\<rparr>))"

definition HasValidMarketData :: "PriceBook \<Rightarrow> bool" where
  "HasValidMarketData pb \<longleftrightarrow> pb_firstValidAt pb \<noteq> None \<and> \<not> Mapping.is_empty (pb_quotes pb)"

definition usable_quote :: "int \<Rightarrow> int \<Rightarrow> Quote \<Rightarrow> bool" where
  "usable_quote now maxAge q \<longleftrightarrow>
     - MaxFutureSkew \<le> since_milli now (q_Timestamp q) \<and> since_milli now (q_Timestamp q) \<le> maxAge \<and>
     (q_Last q > 0 \<or> (q_Bid q > 0 \<and> q_Ask q > 0))"

fun requiredReady :: "int \<Rightarrow> int \<Rightarrow> PriceBook \<Rightarrow> string list \<Rightarrow> bool \<times> string" where
  "requiredReady now maxAge pb [] = (True, ''ok'')"
| "requiredReady now maxAge pb (symb # symbs) =
     (case Mapping.lookup (pb_quotes pb) symb of
        None \<Rightarrow> (False, ''missing_symbol:'' @ symb)
      | Some q \<Rightarrow>
          let age = since_milli now (q_Timestamp q) in
          if age < - MaxFutureSkew then (False, ''anomaly:'' @ symb)
          else if age > maxAge then (False, ''stale:'' @ symb)
          else if q_Last q \<le> 0 \<and> (q_Bid q \<le> 0 \<or> q_Ask q \<le> 0) then (False, ''incomplete_quote:'' @ symb)
          else requiredReady now maxAge pb symbs)"

text \<open>\<open>keys\<close> are the symbols of the book in the order in which the map is visited.\<close>

definition pb_MarketDataReady :: "int \<Rightarrow> string list \<Rightarrow> int \<Rightarrow> string list \<Rightarrow> PriceBook \<Rightarrow> bool \<times> string" where
  "pb_MarketDataReady now required maxAge keys pb =
     (if \<not> HasValidMarketData pb then (False, ''no_valid_tick'')
      else if required = [] then
        (if list_ex (\<lambda>k. case Mapping.lookup (pb_quotes pb) k of Some q \<Rightarrow> usable_quote now maxAge q | None \<Rightarrow> False) keys then (True, ''ok'')
         else (False, ''all_quotes_stale''))
      else requiredReady now maxAge pb required)"

definition GetQuote :: "string \<Rightarrow> PriceBook \<Rightarrow> Quote option" where
  "GetQuote symbol pb = Mapping.lookup (pb_quotes pb) symbol"

definition GetBidAskDirect :: "string \<Rightarrow> PriceBook \<Rightarrow> (f64 \<times> f64) option" where
  "GetBidAskDirect symbol pb =
     (case Mapping.lookup (pb_quotes pb) symbol of
        None \<Rightarrow> None
      | Some q \<Rightarrow> if q_Bid q \<le> 0 \<or> q_Ask q \<le> 0 then None else Some (q_Bid q, q_Ask q))"

definition GetFillPriceDirect :: "int \<Rightarrow> string \<Rightarrow> string \<Rightarrow> PriceBook \<Rightarrow> (f64 \<times> int) option" where
  "GetFillPriceDirect now symbol side pb =
     (case Mapping.lookup (pb_quotes pb) symbol of
        None \<Rightarrow> None
      | Some q \<Rightarrow>
          let price = (if side = OrderSideBuy
                then (if q_Ask q > 0 then q_Ask q else if q_Last q > 0 then q_Last q else 0)
                else (if q_Bid q > 0 then q_Bid q else if q_Last q > 0 then q_Last q else 0))
          in if price = 0 then None else Some (price, since_milli now (q_Timestamp q)))"

definition IsStale :: "int \<Rightarrow> string \<Rightarrow> int \<Rightarrow> PriceBook \<Rightarrow> bool" where
  "IsStale now symbol maxAge pb =
     (case GetQuote symbol pb of
        None \<Rightarrow> True
      | Some q \<Rightarrow> let age = since_milli now (q_Timestamp q) in if age < - 2000000000 then True else age > maxAge)"

definition PriceAgeClassifies :: "int \<Rightarrow> string \<Rightarrow> int \<Rightarrow> PriceBook \<Rightarrow> string" where
  "PriceAgeClassifies now symbol maxAge pb =
     (case GetQuote symbol pb of
        None \<Rightarrow> ''missing''
      | Some q \<Rightarrow> let age = since_milli now (q_Timestamp q) in
          if age < - 2000000000 then ''anomaly'' else if age > maxAge then ''stale'' else ''fresh'')"

definition GetExitPrice :: "string \<Rightarrow> string \<Rightarrow> PriceBook \<Rightarrow> f64 option" where
  "GetExitPrice symbol positionSide pb =
     (case GetQuote symbol pb of
        None \<Rightarrow> None
      | Some q \<Rightarrow>
          let side = (if positionSide = OrderSideBuy then q_Bid q else q_Ask q) in
          if side > 0 then Some side else if q_Last q > 0 then Some (q_Last q) else None)"

definition GetFillPrice :: "string \<Rightarrow> string \<Rightarrow> PriceBook \<Rightarrow> f64 option" where
  "GetFillPrice symbol side pb =
     (case GetQuote symbol pb of
        None \<Rightarrow> None
      | Some q \<Rightarrow>
          let p = (if side = OrderSideBuy then q_Ask q else q_Bid q) in
          if p > 0 then Some p else if q_Last q > 0 then Some (q_Last q) else None)"

definition GetLast :: "string \<Rightarrow> PriceBook \<Rightarrow> f64 option" where
  "GetLast symbol pb =
     (case GetQuote symbol pb of None \<Rightarrow> None | Some q \<Rightarrow> if q_Last q \<le> 0 then None else Some (q_Last q))"

definition GetPriceAge :: "int \<Rightarrow> string \<Rightarrow> PriceBook \<Rightarrow> int option" where
  "GetPriceAge now symbol pb = map_option (\<lambda>q. since_milli now (q_Timestamp q)) (GetQuote symbol pb)"

definition GetPrice :: "string \<Rightarrow> string \<Rightarrow> PriceBook \<Rightarrow> f64 option" where
  "GetPrice symbol positionSide pb =
     (case GetQuote symbol pb of
        None \<Rightarrow> None
      | Some q \<Rightarrow>
          let p = (if positionSide = ''long'' then q_Bid q else q_Ask q) in
          if p > 0 then Some p else if q_Last q > 0 then Some (q_Last q) else None)"

section \<open>Waiting orders and TP/SL levels (pending.go)\<close>

record PendingOrderInfo =
  pi_OrderID :: string
  pi_ContestID :: string
  pi_UserID :: string
  pi_Symbol :: string
  pi_Side :: string
  pi_Type :: string
  pi_Qty :: int
  pi_LimitPrice :: "f64 option"
  pi_StopPrice :: "f64 option"
  pi_TakeProfit :: "f64 option"
  pi_StopLoss :: "f64 option"
  pi_StalePriceRetry :: bool

record PositionWithTPSL =
  tp_PositionID :: string
  tp_ContestID :: string
  tp_UserID :: string
  tp_Symbol :: string
  tp_Side :: string
  tp_QtyOpen :: int
  tp_EntryPrice :: f64
  tp_TakeProfit :: "f64 option"
  tp_StopLoss :: "f64 option"

type_synonym 'a by_symbol = "(string, (string, 'a) mapping) mapping"

record PendingOrderBook =
  ordersBySymbol :: "PendingOrderInfo by_symbol"
  positionsBySymbol :: "PositionWithTPSL by_symbol"

definition NewPendingOrderBook :: PendingOrderBook where
  "NewPendingOrderBook = \<lparr>ordersBySymbol = Mapping.empty, positionsBySymbol = Mapping.empty\<rparr>"

text \<open>Entry \<open>k\<close> under \<open>s\<close> in a map of maps: insertion creates the inner map, deletion drops an empty one.\<close>

definition lookup2 :: "'a by_symbol \<Rightarrow> string \<Rightarrow> string \<Rightarrow> 'a option" where
  "lookup2 m s k = (case Mapping.lookup m s of None \<Rightarrow> None | Some i \<Rightarrow> Mapping.lookup i k)"

definition insert2 :: "'a by_symbol \<Rightarrow> string \<Rightarrow> string \<Rightarrow> 'a \<Rightarrow> 'a by_symbol" where
  "insert2 m s k v = Mapping.update s (Mapping.update k v (case Mapping.lookup m s of None \<Rightarrow> Mapping.empty | Some i \<Rightarrow> i)) m"

definition delete2 :: "'a by_symbol \<Rightarrow> string \<Rightarrow> string \<Rightarrow> 'a by_symbol" where
  "delete2 m s k =
     (case Mapping.lookup m s of
        None \<Rightarrow> m
      | Some i \<Rightarrow>
          let j = Mapping.delete k i in if Mapping.is_empty j then Mapping.delete s m else Mapping.update s j m)"

lemma is_empty_lookup: "Mapping.is_empty m \<longleftrightarrow> (\<forall>k. Mapping.lookup m k = None)"
  by (auto simp: Mapping.is_empty_def keys_dom_lookup)

lemma lookup_delete_if: "Mapping.lookup (Mapping.delete k m) k' = (if k = k' then None else Mapping.lookup m k')"
  by simp

lemma lookup2_insert2 [simp]: "lookup2 (insert2 m s k v) s' k' = (if s' = s \<and> k' = k then Some v else lookup2 m s' k')"
  by (auto simp: lookup2_def insert2_def lookup_update' split: option.splits)

lemma lookup2_delete2 [simp]: "lookup2 (delete2 m s k) s' k' = (if s' = s \<and> k' = k then None else lookup2 m s' k')"
  by (auto simp: lookup2_def delete2_def Let_def is_empty_lookup lookup_update' lookup_delete_if split: option.splits if_splits)

lemma lookup2_empty [simp]: "lookup2 Mapping.empty s k = None"
  by (simp add: lookup2_def)

definition AddPendingOrder :: "PendingOrderInfo \<Rightarrow> PendingOrderBook \<Rightarrow> PendingOrderBook" where
  "AddPendingOrder order pob = pob\<lparr>ordersBySymbol := insert2 (ordersBySymbol pob) (pi_Symbol order) (pi_OrderID order) order\<rparr>"

definition RemovePendingOrder :: "string \<Rightarrow> string \<Rightarrow> PendingOrderBook \<Rightarrow> PendingOrderBook" where
  "RemovePendingOrder symbol orderID pob = pob\<lparr>ordersBySymbol := delete2 (ordersBySymbol pob) symbol orderID\<rparr>"

definition AddPositionWithTPSL :: "PositionWithTPSL \<Rightarrow> PendingOrderBook \<Rightarrow> PendingOrderBook" where
  "AddPositionWithTPSL pos pob =
     pob\<lparr>positionsBySymbol := insert2 (positionsBySymbol pob) (tp_Symbol pos) (tp_PositionID pos) pos\<rparr>"

definition RemovePositionTPSL :: "string \<Rightarrow> string \<Rightarrow> PendingOrderBook \<Rightarrow> PendingOrderBook" where
  "RemovePositionTPSL symbol positionID pob = pob\<lparr>positionsBySymbol := delete2 (positionsBySymbol pob) symbol positionID\<rparr>"

definition remove_where :: "('a \<Rightarrow> bool) \<Rightarrow> 'a by_symbol \<Rightarrow> 'a by_symbol" where
  "remove_where P m =
     Mapping.filter (\<lambda>_ i. \<not> Mapping.is_empty i) (Mapping.map_values (\<lambda>_. Mapping.filter (\<lambda>_ v. \<not> P v)) m)"

definition RemoveAllForContest :: "string \<Rightarrow> PendingOrderBook \<Rightarrow> PendingOrderBook" where
  "RemoveAllForContest contestID pob =
     pob\<lparr>ordersBySymbol := remove_where (\<lambda>i. pi_ContestID i = contestID) (ordersBySymbol pob),
         positionsBySymbol := remove_where (\<lambda>p. tp_ContestID p = contestID) (positionsBySymbol pob)\<rparr>"

definition UpdatePositionQty :: "string \<Rightarrow> string \<Rightarrow> int \<Rightarrow> PendingOrderBook \<Rightarrow> PendingOrderBook" where
  "UpdatePositionQty symbol positionID qtyOpen pob =
     (case lookup2 (positionsBySymbol pob) symbol positionID of
        None \<Rightarrow> pob
      | Some pos \<Rightarrow> pob\<lparr>positionsBySymbol := insert2 (positionsBySymbol pob) symbol positionID (pos\<lparr>tp_QtyOpen := qtyOpen\<rparr>)\<rparr>)"

definition UpdatePositionTPSL ::
  "string \<Rightarrow> string \<Rightarrow> f64 option \<Rightarrow> f64 option \<Rightarrow> PendingOrderBook \<Rightarrow> bool \<times> PendingOrderBook" where
  "UpdatePositionTPSL symbol positionID tp sl pob =
     (case lookup2 (positionsBySymbol pob) symbol positionID of
        None \<Rightarrow> (False, pob)
      | Some pos \<Rightarrow>
          if tp = None \<and> sl = None
          then (True, pob\<lparr>positionsBySymbol := delete2 (positionsBySymbol pob) symbol positionID\<rparr>)
          else (True, pob\<lparr>positionsBySymbol := insert2 (positionsBySymbol pob) symbol positionID
                          (pos\<lparr>tp_TakeProfit := tp, tp_StopLoss := sl\<rparr>)\<rparr>))"

definition GetPositionTPSL :: "string \<Rightarrow> string \<Rightarrow> PendingOrderBook \<Rightarrow> (f64 option \<times> f64 option) option" where
  "GetPositionTPSL symbol positionID pob =
     map_option (\<lambda>p. (tp_TakeProfit p, tp_StopLoss p)) (lookup2 (positionsBySymbol pob) symbol positionID)"

record TriggeredOrder =
  to_Order :: PendingOrderInfo
  to_FillPrice :: f64

record TriggeredTPSL =
  tt_Position :: PositionWithTPSL
  tt_FillPrice :: f64
  tt_IsTP :: bool

definition orderTrigger :: "f64 \<Rightarrow> f64 \<Rightarrow> PendingOrderInfo \<Rightarrow> f64 option" where
  "orderTrigger bid ask order =
     (if pi_Type order = OrderTypeBuyLimit then
        (case pi_LimitPrice order of Some l \<Rightarrow> if ask \<le> l then Some ask else None | None \<Rightarrow> None)
      else if pi_Type order = OrderTypeSellLimit then
        (case pi_LimitPrice order of Some l \<Rightarrow> if bid \<ge> l then Some bid else None | None \<Rightarrow> None)
      else if pi_Type order = OrderTypeBuyStop then
        (case pi_StopPrice order of Some l \<Rightarrow> if ask \<ge> l then Some ask else None | None \<Rightarrow> None)
      else if pi_Type order = OrderTypeSellStop then
        (case pi_StopPrice order of Some l \<Rightarrow> if bid \<le> l then Some bid else None | None \<Rightarrow> None)
      else None)"

definition EvaluatePendingOrders :: "string \<Rightarrow> f64 \<Rightarrow> f64 \<Rightarrow> string list \<Rightarrow> PendingOrderBook \<Rightarrow> TriggeredOrder list" where
  "EvaluatePendingOrders symbol bid ask keys pob =
     List.map_filter (\<lambda>k. case lookup2 (ordersBySymbol pob) symbol k of
        None \<Rightarrow> None
      | Some order \<Rightarrow> map_option (\<lambda>p. \<lparr>to_Order = order, to_FillPrice = p\<rparr>) (orderTrigger bid ask order)) keys"

definition tpslTrigger :: "f64 \<Rightarrow> f64 \<Rightarrow> PositionWithTPSL \<Rightarrow> (f64 \<times> bool) option" where
  "tpslTrigger bid ask pos =
     (if tp_TakeProfit pos = None \<and> tp_StopLoss pos = None then None
      else if tp_Side pos = OrderSideBuy then
        (if (case tp_TakeProfit pos of Some t \<Rightarrow> bid \<ge> t | None \<Rightarrow> False) then Some (bid, True)
         else if (case tp_StopLoss pos of Some s \<Rightarrow> bid \<le> s | None \<Rightarrow> False) then Some (bid, False) else None)
      else
        (if (case tp_TakeProfit pos of Some t \<Rightarrow> ask \<le> t | None \<Rightarrow> False) then Some (ask, True)
         else if (case tp_StopLoss pos of Some s \<Rightarrow> ask \<ge> s | None \<Rightarrow> False) then Some (ask, False) else None))"

definition EvaluateTPSL :: "string \<Rightarrow> f64 \<Rightarrow> f64 \<Rightarrow> string list \<Rightarrow> PendingOrderBook \<Rightarrow> TriggeredTPSL list" where
  "EvaluateTPSL symbol bid ask keys pob =
     List.map_filter (\<lambda>k. case lookup2 (positionsBySymbol pob) symbol k of
        None \<Rightarrow> None
      | Some pos \<Rightarrow> map_option (\<lambda>(p, b). \<lparr>tt_Position = pos, tt_FillPrice = p, tt_IsTP = b\<rparr>) (tpslTrigger bid ask pos)) keys"

definition GetAllPendingOrders :: "sql_driver \<Rightarrow> tdb \<Rightarrow> PendingOrderInfo list" where
  "GetAllPendingOrders sql db =
     map (\<lambda>r. let side = DBOrderSideToOrderSide (or_side r) in
        \<lparr>pi_OrderID = or_order_id r, pi_ContestID = or_contest_id r, pi_UserID = or_user_id r, pi_Symbol = or_symbol r,
         pi_Side = side, pi_Type = mapDBOrderType (or_type r) side, pi_Qty = or_qty r,
         pi_LimitPrice = map_option (sql_float sql) (or_limit_price r), pi_StopPrice = map_option (sql_float sql) (or_stop_price r),
         pi_TakeProfit = map_option (sql_float sql) (or_take_profit r), pi_StopLoss = map_option (sql_float sql) (or_stop_loss r),
         pi_StalePriceRetry = False\<rparr>)
       (filter (\<lambda>r. or_status r = ''pending'') (td_orders db))"

definition GetAllOpenPositionsWithTPSL :: "sql_driver \<Rightarrow> tdb \<Rightarrow> PositionWithTPSL list" where
  "GetAllOpenPositionsWithTPSL sql db =
     map (\<lambda>p. \<lparr>tp_PositionID = pr_position_id p, tp_ContestID = pr_contest_id p, tp_UserID = pr_user_id p,
         tp_Symbol = pr_symbol p, tp_Side = PositionSideToOrderSide (pr_side p), tp_QtyOpen = pr_qty_open p,
         tp_EntryPrice = sql_float sql (pr_entry_price p), tp_TakeProfit = map_option (sql_float sql) (pr_take_profit p),
         tp_StopLoss = map_option (sql_float sql) (pr_stop_loss p)\<rparr>)
       (filter (\<lambda>p. \<not> pr_closed p \<and> (pr_take_profit p \<noteq> None \<or> pr_stop_loss p \<noteq> None)) (td_positions db))"

definition ReloadFromDB :: "sql_driver \<Rightarrow> tdb \<Rightarrow> PendingOrderBook \<Rightarrow> PendingOrderBook" where
  "ReloadFromDB sql db pob =
     fold AddPositionWithTPSL (GetAllOpenPositionsWithTPSL sql db) (fold AddPendingOrder (GetAllPendingOrders sql db) pob)"

end
