(* ===== verification/Trading_Orders.thy ===== *)
theory Trading_Orders
  imports Trading_Book
begin

text \<open>
  The handlers of the trading engine: \<open>order_validation.go\<close>, \<open>order_processing.go\<close> and
  \<open>position_management.go\<close> of \<open>apps/trading-engine/server\<close>, with the caches of \<open>contest_cache.go\<close>.

  The state of the engine is the record \<open>engine\<close>: the database, the users in memory, the pending
  order book, the price book and the caches. A handler holds the position lock from its first read
  of the position on, so it is one function on this state. What a handler takes from elsewhere is
  in the record \<open>env\<close>: the clock, fresh identifiers, whether the lock was obtained, the verdicts of
  the rate limiter, the write-ahead log, the trading gate, the shard assignment and the market hours,
  the price that Redis holds, the database error that makes a transaction fail as a whole, and the
  configuration. Reads outside a transaction succeed. Events go to Kafka and are not modelled; what
  an order handler reports is its \<open>outcome\<close>.
\<close>

section \<open>Requests and their validation (order_validation.go)\<close>

record OrderRequest =
  rq_OrderID :: string
  rq_UserID :: string
  rq_ContestID :: string
  rq_Symbol :: string
  rq_Side :: string
  rq_Type :: string
  rq_Qty :: int
  rq_LimitPrice :: "f64 option"
  rq_StopPrice :: "f64 option"
  rq_TakeProfit :: "f64 option"
  rq_StopLoss :: "f64 option"

datatype request_error =
    OrderIDRequired
  | QtyNotPositive int
  | QtyAboveAbsoluteMax int
  | QtyBelowMinimum int int
  | QtyAboveShare int int
  | PriceRequired string
  | PriceNotPositive string f64
  | PriceBelowMinimum string f64
  | PriceAboveMaximum string f64
  | TakeProfitDirection f64 f64
  | StopLossDirection f64 f64

definition MaxAllowedQty :: int where "MaxAllowedQty = 10000000"
definition minExecutablePrice :: f64 where "minExecutablePrice = 1 / 10 ^ 12"
definition maxExecutablePrice :: f64 where "maxExecutablePrice = 10 ^ 12"

definition validatePriceValue :: "string \<Rightarrow> f64 \<Rightarrow> request_error + unit" where
  "validatePriceValue field price =
     (if price \<le> 0 then Inl (PriceNotPositive field price)
      else if price < minExecutablePrice then Inl (PriceBelowMinimum field price)
      else if price > maxExecutablePrice then Inl (PriceAboveMaximum field price)
      else Inr ())"

definition requirePositivePrice :: "string \<Rightarrow> f64 option \<Rightarrow> request_error + unit" where
  "requirePositivePrice field p =
     (case p of None \<Rightarrow> Inl (PriceRequired field) | Some x \<Rightarrow> validatePriceValue field x)"

definition optionalPrice :: "string \<Rightarrow> f64 option \<Rightarrow> request_error + unit" where
  "optionalPrice field p = (case p of None \<Rightarrow> Inr () | Some x \<Rightarrow> validatePriceValue field x)"

definition referenceEntryPrice :: "f64 option \<Rightarrow> f64 option \<Rightarrow> f64 option" where
  "referenceEntryPrice limitPrice stopPrice =
     (if (case limitPrice of Some x \<Rightarrow> x > 0 | None \<Rightarrow> False) then limitPrice
      else if (case stopPrice of Some x \<Rightarrow> x > 0 | None \<Rightarrow> False) then stopPrice else None)"

definition validateTPSL :: "string \<Rightarrow> f64 option \<Rightarrow> f64 option \<Rightarrow> f64 option \<Rightarrow> f64 option \<Rightarrow> request_error + unit" where
  "validateTPSL side takeProfit stopLoss limitPrice stopPrice =
     rbind (optionalPrice ''take_profit'' takeProfit) (\<lambda>_.
     rbind (optionalPrice ''stop_loss'' stopLoss) (\<lambda>_.
       case referenceEntryPrice limitPrice stopPrice of
         None \<Rightarrow> Inr ()
       | Some entry \<Rightarrow>
           let isLong = (side = OrderSideBuy) in
           rbind (case takeProfit of None \<Rightarrow> Inr () | Some t \<Rightarrow>
                    if isLong \<and> t \<le> entry \<or> \<not> isLong \<and> t \<ge> entry then Inl (TakeProfitDirection t entry) else Inr ()) (\<lambda>_.
           case stopLoss of None \<Rightarrow> Inr () | Some s \<Rightarrow>
             if isLong \<and> s \<ge> entry \<or> \<not> isLong \<and> s \<le> entry then Inl (StopLossDirection s entry) else Inr ())))"

definition validateOrderRequest :: "OrderRequest \<Rightarrow> request_error + unit" where
  "validateOrderRequest order =
     (if rq_OrderID order = '''' then Inl OrderIDRequired
      else if rq_Qty order \<le> 0 then Inl (QtyNotPositive (rq_Qty order))
      else if rq_Qty order > MaxAllowedQty then Inl (QtyAboveAbsoluteMax (rq_Qty order))
      else
        rbind (if rq_Type order \<in> {OrderTypeBuyLimit, OrderTypeSellLimit, OrderTypeLimit}
                 then requirePositivePrice ''limit_price'' (rq_LimitPrice order)
               else if rq_Type order \<in> {OrderTypeBuyStop, OrderTypeSellStop, OrderTypeStop}
                 then requirePositivePrice ''stop_price'' (rq_StopPrice order)
               else Inr ()) (\<lambda>_.
        rbind (optionalPrice ''limit_price'' (rq_LimitPrice order)) (\<lambda>_.
        rbind (optionalPrice ''stop_price'' (rq_StopPrice order)) (\<lambda>_.
          validateTPSL (rq_Side order) (rq_TakeProfit order) (rq_StopLoss order) (rq_LimitPrice order) (rq_StopPrice order)))))"

definition isValidMarketPrice :: "f64 \<Rightarrow> bool" where
  "isValidMarketPrice price = isOK (validatePriceValue ''market_price'' price)"

definition isPriceTimestampAnomalous :: "f64 \<Rightarrow> bool" where
  "isPriceTimestampAnomalous ageSeconds \<longleftrightarrow> ageSeconds < - 2"

section \<open>Engine and environment\<close>

record PriceData =
  pd_Last :: f64
  pd_Bid :: f64
  pd_Ask :: f64
  pd_Ts :: int

record env =
  now :: int
  uuid_position :: string
  uuid_order :: string
  uuid_fill :: string
  lock_ok :: bool
  rate_allowed :: bool
  can_accept :: bool
  trading_enabled :: bool
  shard_ok :: bool
  require_market_data :: bool
  quote_keys :: "string list"
  market_open :: "string \<Rightarrow> bool"
  redis_price :: "string \<Rightarrow> PriceData option"
  tx_error :: "string option"
  uuid_sha1 :: "string \<Rightarrow> string"
  dec :: decimal_lib
  sql :: sql_driver
  CacheEnabled :: bool
  CacheTTL :: int
  QtyMinPerTrade :: int
  QtyMaxPctOfTotal :: int
  MaxPriceAgeMarket :: int
  MaxPriceAgePending :: int
  MaxPriceAgeOpenCrypto :: int
  MaxPriceAgeOpenForex :: int
  MaxPriceAgeCloseCrypto :: int
  MaxPriceAgeCloseForex :: int

record engine =
  e_db :: tdb
  e_state :: StateManager
  e_book :: PendingOrderBook
  e_prices :: PriceBook
  e_contestCache :: "string \<rightharpoonup> DBContest \<times> int"
  e_participantCache :: "string \<times> string \<rightharpoonup> DBParticipant \<times> int"
  e_symbolCache :: "string \<rightharpoonup> string list \<times> int"

definition user_of :: "string \<Rightarrow> string \<Rightarrow> engine \<Rightarrow> UserState option" where
  "user_of contestID userID e = (case e_state e contestID of None \<Rightarrow> None | Some cs \<Rightarrow> GetUser userID cs)"

text \<open>Handlers mutate a user through a pointer.\<close>

definition put_user :: "string \<Rightarrow> string \<Rightarrow> UserState \<Rightarrow> engine \<Rightarrow> engine" where
  "put_user contestID userID us e =
     (case e_state e contestID of
        None \<Rightarrow> e
      | Some cs \<Rightarrow> e\<lparr>e_state := (e_state e)(contestID \<mapsto> cs\<lparr>cs_Users := (cs_Users cs)(userID \<mapsto> us)\<rparr>)\<rparr>)"

definition put_db :: "tdb \<Rightarrow> engine \<Rightarrow> engine" where
  "put_db db e = e\<lparr>e_db := db\<rparr>"

section \<open>Caches (contest_cache.go)\<close>

definition cache_Get :: "int \<Rightarrow> 'k \<Rightarrow> ('k \<rightharpoonup> 'v \<times> int) \<Rightarrow> 'v option" where
  "cache_Get t k m = (case m k of None \<Rightarrow> None | Some (v, expiresAt) \<Rightarrow> if t > expiresAt then None else Some v)"

definition cache_Set :: "int \<Rightarrow> int \<Rightarrow> 'k \<Rightarrow> 'v \<Rightarrow> ('k \<rightharpoonup> 'v \<times> int) \<Rightarrow> ('k \<rightharpoonup> 'v \<times> int)" where
  "cache_Set t ttl k v m = m(k \<mapsto> (v, t + ttl))"

definition getContestCached :: "env \<Rightarrow> string \<Rightarrow> engine \<Rightarrow> DBContest option \<times> engine" where
  "getContestCached env contestID e =
     (case (if CacheEnabled env then cache_Get (now env) contestID (e_contestCache e) else None) of
        Some c \<Rightarrow> (Some c, e)
      | None \<Rightarrow>
          (case GetContest contestID (e_db e) of
             None \<Rightarrow> (None, e)
           | Some c \<Rightarrow> (Some c, if CacheEnabled env
               then e\<lparr>e_contestCache := cache_Set (now env) (CacheTTL env) contestID c (e_contestCache e)\<rparr> else e)))"

definition getParticipantCached :: "env \<Rightarrow> string \<Rightarrow> string \<Rightarrow> engine \<Rightarrow> DBParticipant option \<times> engine" where
  "getParticipantCached env contestID userID e =
     (case (if CacheEnabled env then cache_Get (now env) (contestID, userID) (e_participantCache e) else None) of
        Some p \<Rightarrow> (Some p, e)
      | None \<Rightarrow>
          (case GetParticipant (sql env) contestID userID (e_db e) of
             None \<Rightarrow> (None, e)
           | Some p \<Rightarrow> (Some p, if CacheEnabled env
               then e\<lparr>e_participantCache := cache_Set (now env) (CacheTTL env) (contestID, userID) p (e_participantCache e)\<rparr> else e)))"

definition isSymbolAllowedInContest :: "env \<Rightarrow> string \<Rightarrow> string \<Rightarrow> engine \<Rightarrow> bool \<times> engine" where
  "isSymbolAllowedInContest env contestID symbol e =
     (case cache_Get (now env) contestID (e_symbolCache e) of
        Some symbols \<Rightarrow> (symbol \<in> set symbols, e)
      | None \<Rightarrow>
          let symbols = GetContestSymbols contestID (e_db e) in
          if symbols = [] then (True, e)
          else (symbol \<in> set symbols, e\<lparr>e_symbolCache := cache_Set (now env) (CacheTTL env) contestID symbols (e_symbolCache e)\<rparr>))"

text \<open>\<open>GetOrCreateContest\<close> followed by \<open>GetOrCreateUser\<close>, as the handlers use them.\<close>

definition loadUser :: "env \<Rightarrow> DBParticipant \<Rightarrow> string \<Rightarrow> string \<Rightarrow> engine \<Rightarrow> UserState \<times> engine" where
  "loadUser env p contestID userID e =
     (let (cs, sm) = GetOrCreateContest contestID (e_state e);
          (us, cs') = GetOrCreateUser (dec env) userID (dp_QtyTotal p) (dp_QtyAvailable p) (dp_TotalScore p) cs
      in (us, e\<lparr>e_state := sm(contestID \<mapsto> cs')\<rparr>))"

section \<open>Prices (position_management.go)\<close>

definition getMaxPriceAge :: "env \<Rightarrow> string \<Rightarrow> bool \<Rightarrow> int" where
  "getMaxPriceAge env assetClass isClose =
     (if to_lower assetClass = ''crypto'' then (if isClose then MaxPriceAgeCloseCrypto env else MaxPriceAgeOpenCrypto env)
      else if to_lower assetClass = ''forex'' then (if isClose then MaxPriceAgeCloseForex env else MaxPriceAgeOpenForex env)
      else if isClose then MaxPriceAgePending env else MaxPriceAgeMarket env)"

definition fillPriceFromData :: "PriceData \<Rightarrow> string \<Rightarrow> f64" where
  "fillPriceFromData pd side =
     (if side = OrderSideBuy then (if pd_Ask pd > 0 then pd_Ask pd else pd_Last pd)
      else if pd_Bid pd > 0 then pd_Bid pd else pd_Last pd)"

definition exitPriceFromData :: "PriceData \<Rightarrow> string \<Rightarrow> f64" where
  "exitPriceFromData pd positionSide =
     (if positionSide = OrderSideBuy then (if pd_Bid pd > 0 then pd_Bid pd else pd_Last pd)
      else if pd_Ask pd > 0 then pd_Ask pd else pd_Last pd)"

definition getPriceDataFromRedis :: "env \<Rightarrow> string \<Rightarrow> (PriceData \<times> int) option" where
  "getPriceDataFromRedis env symbol =
     map_option (\<lambda>pd. (pd, since_milli (now env) (normalizeToMillis (pd_Ts pd)))) (redis_price env symbol)"

definition getMarketPriceWithAge :: "env \<Rightarrow> string \<Rightarrow> string \<Rightarrow> engine \<Rightarrow> (f64 \<times> int) option" where
  "getMarketPriceWithAge env symbol side e =
     (case GetFillPriceDirect (now env) symbol side (e_prices e) of
        Some pa \<Rightarrow> Some pa
      | None \<Rightarrow> map_option (\<lambda>(pd, age). (fillPriceFromData pd side, age)) (getPriceDataFromRedis env symbol))"

section \<open>Position updates (position_management.go)\<close>

record PositionTxResult =
  Branch :: string
  r_PositionID :: string
  r_PositionSide :: string
  r_Symbol :: string
  r_EntryPrice :: f64
  r_QtyOpen :: int
  r_QtyUsed :: int
  r_TotalQty :: int
  r_NewEntryPrice :: f64
  r_NewQtyUsed :: int
  r_TradeScore :: f64
  r_TradeScoreDecimal :: rat
  r_QtyReleased :: int
  r_NewQtyAvailable :: int
  r_NewRealizedScore :: f64
  r_NewPositionRealizedScore :: f64
  r_OverflowQty :: int
  r_OverflowPositionID :: string
  r_RemainingQty :: int

definition zeroResult :: PositionTxResult where
  "zeroResult = \<lparr>Branch = '''', r_PositionID = '''', r_PositionSide = '''', r_Symbol = '''', r_EntryPrice = 0,
     r_QtyOpen = 0, r_QtyUsed = 0, r_TotalQty = 0, r_NewEntryPrice = 0, r_NewQtyUsed = 0, r_TradeScore = 0,
     r_TradeScoreDecimal = 0, r_QtyReleased = 0, r_NewQtyAvailable = 0, r_NewRealizedScore = 0,
     r_NewPositionRealizedScore = 0, r_OverflowQty = 0, r_OverflowPositionID = '''', r_RemainingQty = 0\<rparr>"

definition math_Round :: "f64 \<Rightarrow> f64" where
  "math_Round x = (if x < 0 then - of_int \<lfloor>- x + 1 / 2\<rfloor> else of_int \<lfloor>x + 1 / 2\<rfloor>)"

text \<open>The part of \<open>qty_used\<close> that a partial close gives back; both closing paths compute it alike.\<close>

definition proportionalQtyUsed :: "int \<Rightarrow> int \<Rightarrow> int \<Rightarrow> int" where
  "proportionalQtyUsed qtyUsed closingQty qtyOpen =
     (let q = f64_to_int (math_Round (f64_div (f64_mul (f64_of_int qtyUsed) (f64_of_int closingQty)) (f64_of_int qtyOpen)))
      in if q \<le> 0 \<and> closingQty > 0 then 1 else q)"

definition openNewPosition :: "env \<Rightarrow> OrderRequest \<Rightarrow> f64 \<Rightarrow> int \<Rightarrow> tdb \<Rightarrow> (tdb \<times> PositionTxResult) sqlresult" where
  "openNewPosition env order fillPrice fillQty db =
     (let positionSide = OrderSideToPositionSide (rq_Side order) in
      rbind (InsertPositionTx (sql env) (uuid_position env) (rq_ContestID order) (rq_UserID order) (rq_Symbol order)
          positionSide fillQty fillPrice fillQty db) (\<lambda>db1.
      Inr (db1, zeroResult\<lparr>Branch := ''new'', r_PositionID := uuid_position env, r_PositionSide := positionSide,
        r_Symbol := rq_Symbol order, r_QtyOpen := fillQty, r_EntryPrice := fillPrice, r_QtyUsed := fillQty\<rparr>)))"

definition addToPosition :: "env \<Rightarrow> OrderRequest \<Rightarrow> DBPosition \<Rightarrow> f64 \<Rightarrow> int \<Rightarrow> tdb \<Rightarrow> (tdb \<times> PositionTxResult) sqlresult" where
  "addToPosition env order dbPos fillPrice fillQty db =
     (let totalQty = wrap64 (db_QtyOpen dbPos + fillQty);
          newEntryPrice = calculateWeightedAverageEntryDecimal (dec env) (db_EntryPrice dbPos) (db_QtyOpen dbPos) fillPrice fillQty;
          newQtyUsed = wrap64 (db_QtyUsed dbPos + fillQty)
      in rbind (UpdatePositionTx (sql env) (db_PositionID dbPos) totalQty newEntryPrice newQtyUsed
             (NewFromFloat (dec env) (db_RealizedScore dbPos)) db) (\<lambda>db1.
         Inr (db1, zeroResult\<lparr>Branch := ''add'', r_PositionID := db_PositionID dbPos, r_PositionSide := db_Side dbPos,
           r_Symbol := rq_Symbol order, r_TotalQty := totalQty, r_NewEntryPrice := newEntryPrice, r_NewQtyUsed := newQtyUsed,
           r_NewPositionRealizedScore := db_RealizedScore dbPos\<rparr>)))"

definition closeFully ::
  "env \<Rightarrow> OrderRequest \<Rightarrow> UserState \<Rightarrow> DBPosition \<Rightarrow> f64 \<Rightarrow> int \<Rightarrow> bool \<Rightarrow> tdb \<Rightarrow> (tdb \<times> PositionTxResult) sqlresult" where
  "closeFully env order us dbPos fillPrice fillQty preReserved db =
     (let positionSide = OrderSideToPositionSide (rq_Side order);
          overflowQty = wrap64 (fillQty - db_QtyOpen dbPos);
          tradeScoreDec = calculateTradeScoreDecimal (dec env) (db_Side dbPos) (db_EntryPrice dbPos) fillPrice (db_QtyUsed dbPos);
          tradeScore = ds_Float64 tradeScoreDec;
          newPositionRealizedScore = f64_add (db_RealizedScore dbPos) tradeScore;
          newPositionRealizedScoreDec = NewFromFloat (dec env) (db_RealizedScore dbPos) + ds_Decimal tradeScoreDec;
          closePortion = (if preReserved then wrap64 (fillQty - overflowQty) else 0);
          newQtyAvailable = wrap64 (wrap64 (us_QtyAvailable us + db_QtyUsed dbPos) + closePortion);
          newRealizedScore = f64_add (us_RealizedScore us) tradeScore;
          newRealizedScoreDec = us_RealizedScoreDecimal us + ds_Decimal tradeScoreDec
      in rbind (ClosePositionTx (sql env) (db_PositionID dbPos) newPositionRealizedScoreDec db) (\<lambda>db1.
         rbind (UpdateParticipantQtyAndScoreTx (sql env) (rq_ContestID order) (rq_UserID order) newQtyAvailable newRealizedScoreDec db1) (\<lambda>db2.
         rbind (if overflowQty > 0
                then InsertPositionTx (sql env) (uuid_position env) (rq_ContestID order) (rq_UserID order) (rq_Symbol order)
                       positionSide overflowQty fillPrice overflowQty db2
                else Inr db2) (\<lambda>db3.
         Inr (db3, zeroResult\<lparr>Branch := ''close'', r_PositionID := db_PositionID dbPos, r_PositionSide := positionSide,
           r_Symbol := rq_Symbol order, r_EntryPrice := fillPrice, r_TradeScore := tradeScore,
           r_TradeScoreDecimal := ds_Decimal tradeScoreDec, r_QtyReleased := wrap64 (db_QtyUsed dbPos + closePortion),
           r_NewQtyAvailable := newQtyAvailable, r_NewRealizedScore := newRealizedScore,
           r_NewPositionRealizedScore := newPositionRealizedScore, r_OverflowQty := overflowQty,
           r_OverflowPositionID := (if overflowQty > 0 then uuid_position env else '''')\<rparr>)))))"

definition closePartly ::
  "env \<Rightarrow> OrderRequest \<Rightarrow> UserState \<Rightarrow> DBPosition \<Rightarrow> f64 \<Rightarrow> int \<Rightarrow> bool \<Rightarrow> tdb \<Rightarrow> (tdb \<times> PositionTxResult) sqlresult" where
  "closePartly env order us dbPos fillPrice fillQty preReserved db =
     (let remainingQty = wrap64 (db_QtyOpen dbPos - fillQty);
          qtyUsedForClose = proportionalQtyUsed (db_QtyUsed dbPos) fillQty (db_QtyOpen dbPos);
          tradeScoreDec = calculateTradeScoreDecimal (dec env) (db_Side dbPos) (db_EntryPrice dbPos) fillPrice qtyUsedForClose;
          tradeScore = ds_Float64 tradeScoreDec;
          newQtyUsed = wrap64 (db_QtyUsed dbPos - qtyUsedForClose);
          newPositionRealizedScore = f64_add (db_RealizedScore dbPos) tradeScore;
          newPositionRealizedScoreDec = NewFromFloat (dec env) (db_RealizedScore dbPos) + ds_Decimal tradeScoreDec;
          orderReservationRelease = (if preReserved then fillQty else 0);
          newQtyAvailable = wrap64 (wrap64 (us_QtyAvailable us + qtyUsedForClose) + orderReservationRelease);
          newUserRealizedScore = f64_add (us_RealizedScore us) tradeScore;
          newUserRealizedScoreDec = us_RealizedScoreDecimal us + ds_Decimal tradeScoreDec
      in rbind (UpdatePositionTx (sql env) (db_PositionID dbPos) remainingQty (db_EntryPrice dbPos) newQtyUsed newPositionRealizedScoreDec db) (\<lambda>db1.
         rbind (UpdateParticipantQtyAndScoreTx (sql env) (rq_ContestID order) (rq_UserID order) newQtyAvailable newUserRealizedScoreDec db1) (\<lambda>db2.
         Inr (db2, zeroResult\<lparr>Branch := ''partial_close'', r_PositionID := db_PositionID dbPos, r_PositionSide := db_Side dbPos,
           r_Symbol := rq_Symbol order, r_EntryPrice := db_EntryPrice dbPos, r_TradeScore := tradeScore,
           r_TradeScoreDecimal := ds_Decimal tradeScoreDec, r_QtyReleased := wrap64 (qtyUsedForClose + orderReservationRelease),
           r_RemainingQty := remainingQty, r_NewQtyUsed := newQtyUsed, r_NewQtyAvailable := newQtyAvailable,
           r_NewRealizedScore := newUserRealizedScore, r_NewPositionRealizedScore := newPositionRealizedScore\<rparr>))))"

definition updatePositionTx ::
  "env \<Rightarrow> OrderRequest \<Rightarrow> UserState \<Rightarrow> f64 \<Rightarrow> int \<Rightarrow> bool \<Rightarrow> tdb \<Rightarrow> (tdb \<times> PositionTxResult) sqlresult" where
  "updatePositionTx env order us fillPrice fillQty preReserved db =
     (case GetOpenPositionTx (sql env) (rq_ContestID order) (rq_UserID order) (rq_Symbol order) db of
        None \<Rightarrow> openNewPosition env order fillPrice fillQty db
      | Some dbPos \<Rightarrow>
          if IsSameSide (db_Side dbPos) (rq_Side order) then addToPosition env order dbPos fillPrice fillQty db
          else if fillQty \<ge> db_QtyOpen dbPos then closeFully env order us dbPos fillPrice fillQty preReserved db
          else closePartly env order us dbPos fillPrice fillQty preReserved db)"

definition applied_position :: "string \<Rightarrow> string \<Rightarrow> string \<Rightarrow> int \<Rightarrow> f64 \<Rightarrow> int \<Rightarrow> f64 \<Rightarrow> PositionState" where
  "applied_position positionID symbol side qtyOpen entryPrice qtyUsed realizedScore =
     \<lparr>ps_PositionID = positionID, ps_Symbol = symbol, ps_Side = side, ps_QtyOpen = qtyOpen, ps_EntryPrice = entryPrice,
      ps_QtyUsed = qtyUsed, ps_RealizedScore = realizedScore, ps_EntryPriceDecimal = 0, ps_RealizedScoreDecimal = 0\<rparr>"

definition applyToUser :: "env \<Rightarrow> OrderRequest \<Rightarrow> PositionTxResult \<Rightarrow> UserState \<Rightarrow> UserState" where
  "applyToUser env order result us =
     (if Branch result = ''new'' then
        SetPosition (applied_position (r_PositionID result) (r_Symbol result) (rq_Side order) (r_QtyOpen result)
          (r_EntryPrice result) (r_QtyUsed result) 0) us
      else if Branch result = ''add'' then
        SetPosition (applied_position (r_PositionID result) (r_Symbol result) (rq_Side order) (r_TotalQty result)
          (r_NewEntryPrice result) (r_NewQtyUsed result) (r_NewPositionRealizedScore result)) us
      else if Branch result = ''close'' then
        (let us1 = snd (AddRealizedScoreDecimal (dec env) (r_TradeScoreDecimal result) us);
             us2 = RemovePosition (r_Symbol result) (ReleaseQty (r_QtyReleased result) us1)
         in if r_OverflowQty result > 0 then
              SetPosition (applied_position (r_OverflowPositionID result) (r_Symbol result) (rq_Side order) (r_OverflowQty result)
                (r_EntryPrice result) (r_OverflowQty result) 0) us2
            else us2)
      else if Branch result = ''partial_close'' then
        (let us1 = snd (AddRealizedScoreDecimal (dec env) (r_TradeScoreDecimal result) us);
             us2 = ReleaseQty (r_QtyReleased result) us1
         in SetPosition (applied_position (r_PositionID result) (r_Symbol result) (PositionSideToOrderSide (r_PositionSide result))
              (r_RemainingQty result) (r_EntryPrice result) (r_NewQtyUsed result) (r_NewPositionRealizedScore result)) us2)
      else us)"

text \<open>
  The in-memory update runs after the commit; the write-ahead log around it
  (\<open>safeUpdateInMemoryState\<close>) always runs it and reports only a panic, which these updates cannot cause.
\<close>

definition applyPositionResultToMemory :: "env \<Rightarrow> OrderRequest \<Rightarrow> PositionTxResult \<Rightarrow> engine \<Rightarrow> engine" where
  "applyPositionResultToMemory env order result e =
     (case user_of (rq_ContestID order) (rq_UserID order) e of
        None \<Rightarrow> e
      | Some us \<Rightarrow>
          let e1 = put_user (rq_ContestID order) (rq_UserID order) (applyToUser env order result us) e in
          if Branch result = ''partial_close''
          then e1\<lparr>e_book := UpdatePositionQty (r_Symbol result) (r_PositionID result) (r_RemainingQty result) (e_book e1)\<rparr>
          else e1)"

definition trackPositionTPSL :: "string \<Rightarrow> string \<Rightarrow> string \<Rightarrow> string \<Rightarrow> f64 option \<Rightarrow> f64 option \<Rightarrow> engine \<Rightarrow> engine" where
  "trackPositionTPSL contestID userID symbol side tp sl e =
     (if tp = None \<and> sl = None then e
      else case user_of contestID userID e of
        None \<Rightarrow> e
      | Some us \<Rightarrow>
          (case GetPosition symbol us of
             None \<Rightarrow> e
           | Some pos \<Rightarrow> e\<lparr>e_book := AddPositionWithTPSL
               \<lparr>tp_PositionID = ps_PositionID pos, tp_ContestID = contestID, tp_UserID = userID, tp_Symbol = symbol,
                tp_Side = side, tp_QtyOpen = ps_QtyOpen pos, tp_EntryPrice = ps_EntryPrice pos,
                tp_TakeProfit = tp, tp_StopLoss = sl\<rparr> (e_book e)\<rparr>))"

section \<open>Orders (order_processing.go)\<close>

datatype reject_reason =
    RateLimited
  | EngineNotReady
  | TradingDisabled
  | BadRequest request_error
  | WrongShard
  | OrderIDConflict
  | OrderAlready string
  | ContestNotFound
  | ContestNotRunning string
  | ContestNotStarted int
  | ContestEnded int
  | MarketDataNotReady string
  | MarketClosed string
  | SymbolNotAllowed string
  | NotParticipant
  | InsufficientQty int int
  | InsertFailed string
  | UnsupportedType string
  | NoPriceData string
  | FutureTick
  | StalePrice int int
  | LockTimeout
  | InsufficientAvailable
  | NoLongerRunning
  | InvalidMarketPrice f64
  | StatusUpdateFailed

datatype outcome = Accepted | Rejected reject_reason | Failed string

definition deterministicFillID :: "env \<Rightarrow> string \<Rightarrow> string" where
  "deterministicFillID env orderID = uuid_sha1 env (''tragge-fill:'' @ orderID)"

definition validateQtyLimits :: "env \<Rightarrow> int \<Rightarrow> int \<Rightarrow> request_error + unit" where
  "validateQtyLimits env orderQty qtyTotal =
     (if orderQty \<le> 0 then Inl (QtyNotPositive orderQty)
      else if orderQty > MaxAllowedQty then Inl (QtyAboveAbsoluteMax orderQty)
      else if QtyMinPerTrade env > 0 \<and> orderQty < QtyMinPerTrade env then Inl (QtyBelowMinimum orderQty (QtyMinPerTrade env))
      else if QtyMaxPctOfTotal env > 0 \<and> qtyTotal > 0 then
        (let pct = QtyMaxPctOfTotal env in
         if qtyTotal > go_quot (2 ^ 62) pct then Inr ()
         else let maxQty = go_quot (wrap64 (qtyTotal * pct)) 100 in
              if orderQty > maxQty then Inl (QtyAboveShare orderQty maxQty) else Inr ())
      else Inr ())"

definition isClosingExistingPosition :: "env \<Rightarrow> OrderRequest \<Rightarrow> engine \<Rightarrow> bool" where
  "isClosingExistingPosition env order e =
     (case GetOpenPosition (sql env) (rq_ContestID order) (rq_UserID order) (rq_Symbol order) (e_db e) of
        None \<Rightarrow> False
      | Some position \<Rightarrow> \<not> IsSameSide (db_Side position) (rq_Side order))"

definition freeQtyRequiredForOrder :: "int \<Rightarrow> DBPosition option \<Rightarrow> string \<Rightarrow> int" where
  "freeQtyRequiredForOrder orderQty openPos orderSide =
     (if orderQty \<le> 0 then orderQty
      else case openPos of
        None \<Rightarrow> orderQty
      | Some p \<Rightarrow>
          if db_QtyOpen p \<le> 0 then orderQty
          else if IsSameSide (db_Side p) orderSide then orderQty
          else if orderQty \<le> db_QtyOpen p then 0
          else wrap64 (orderQty - db_QtyOpen p))"

definition rejectRow :: "OrderRequest \<Rightarrow> reject_reason \<Rightarrow> engine \<Rightarrow> outcome \<times> engine" where
  "rejectRow order reason e = (Rejected reason, put_db (UpdateOrderStatus (rq_OrderID order) ''rejected'' 0 (e_db e)) e)"

text \<open>The tail of the three filling transactions: position, realized P&L of the fill, participant.\<close>

definition positionStage ::
  "env \<Rightarrow> OrderRequest \<Rightarrow> UserState \<Rightarrow> string \<Rightarrow> f64 \<Rightarrow> int \<Rightarrow> bool \<Rightarrow> tdb \<Rightarrow> (tdb \<times> PositionTxResult) sqlresult" where
  "positionStage env order us fillID fillPrice fillQty preReserved db =
     rbind (updatePositionTx env order us fillPrice fillQty preReserved db) (\<lambda>(db1, result).
     rbind (if Branch result = ''close'' \<or> Branch result = ''partial_close''
            then UpdateFillRealizedPnlTx (sql env) fillID (r_TradeScore result) db1 else Inr db1) (\<lambda>db2.
     rbind (if Branch result = ''new'' \<or> Branch result = ''add''
            then UpdateParticipantQtyAvailableTx (rq_ContestID order) (rq_UserID order) (us_QtyAvailable us) db2 else Inr db2) (\<lambda>db3.
     Inr (db3, result))))"

definition fillTx ::
  "env \<Rightarrow> OrderRequest \<Rightarrow> UserState \<Rightarrow> string \<Rightarrow> f64 \<Rightarrow> int \<Rightarrow> bool \<Rightarrow> tdb \<Rightarrow> (tdb \<times> PositionTxResult) sqlresult" where
  "fillTx env order us fillID fillPrice fillQty preReserved db =
     rbind (InsertFillTx (sql env) fillID (rq_OrderID order) (rq_ContestID order) (rq_UserID order) (rq_Symbol order)
       (rq_Side order) fillQty fillPrice db) (\<lambda>db1.
     rbind (UpdateOrderStatusTx (rq_OrderID order) ''filled'' fillQty db1) (\<lambda>db2.
     positionStage env order us fillID fillPrice fillQty preReserved db2))"

definition settleFill :: "env \<Rightarrow> OrderRequest \<Rightarrow> UserState \<Rightarrow> tdb \<Rightarrow> PositionTxResult \<Rightarrow> engine \<Rightarrow> engine" where
  "settleFill env order us db result e =
     trackPositionTPSL (rq_ContestID order) (rq_UserID order) (rq_Symbol order) (rq_Side order) (rq_TakeProfit order) (rq_StopLoss order)
       (applyPositionResultToMemory env order result (put_user (rq_ContestID order) (rq_UserID order) us (put_db db e)))"

text \<open>\<open>executeMarketOrder\<close> under the position lock, from the reservation on.\<close>

definition marketFill :: "env \<Rightarrow> OrderRequest \<Rightarrow> f64 \<Rightarrow> UserState \<Rightarrow> engine \<Rightarrow> outcome \<times> engine" where
  "marketFill env order price us e =
     (let c = rq_ContestID order; u = rq_UserID order;
          freeRequired = freeQtyRequiredForOrder (rq_Qty order) (GetOpenPosition (sql env) c u (rq_Symbol order) (e_db e)) (rq_Side order);
          (reserved, us1) = (if freeRequired > 0 then ReserveQty freeRequired us else (True, us));
          released = put_user c u (if freeRequired > 0 then ReleaseQty freeRequired us1 else us1) e
      in if \<not> reserved then rejectRow order InsufficientAvailable e
         else if (case GetContest c (e_db e) of None \<Rightarrow> True | Some fresh \<Rightarrow> dc_Status fresh \<noteq> ''running'')
           then rejectRow order NoLongerRunning released
         else if \<not> isValidMarketPrice price then rejectRow order (InvalidMarketPrice price) released
         else case WithTransaction (tx_error env)
               (fillTx env order us1 (deterministicFillID env (rq_OrderID order)) price (rq_Qty order)
                 (freeRequired = rq_Qty order \<and> rq_Qty order > 0)) (e_db e) of
             Inl err \<Rightarrow> (Failed err, released)
           | Inr (db', result) \<Rightarrow> (Accepted, settleFill env order us1 db' result e))"

definition contestAgeOverride :: "(ContestRules \<Rightarrow> int option) \<Rightarrow> DBContest option \<Rightarrow> int \<Rightarrow> int" where
  "contestAgeOverride field contest base =
     (case contest of
        None \<Rightarrow> base
      | Some c \<Rightarrow> (case dc_Rules c of
          None \<Rightarrow> base
        | Some r \<Rightarrow> (case field r of None \<Rightarrow> base | Some s \<Rightarrow> wrap64 (s * 1000000000))))"

definition executeMarketOrder :: "env \<Rightarrow> OrderRequest \<Rightarrow> DBContest \<Rightarrow> UserState \<Rightarrow> engine \<Rightarrow> outcome \<times> engine" where
  "executeMarketOrder env order contest us e =
     (case getMarketPriceWithAge env (rq_Symbol order) (rq_Side order) e of
        None \<Rightarrow> rejectRow order (NoPriceData (rq_Symbol order)) e
      | Some (price, priceAge) \<Rightarrow>
          let isClosing = isClosingExistingPosition env order e;
              maxPriceAge = contestAgeOverride MaxPriceAgeMarketSeconds (Some contest)
                (getMaxPriceAge env (dc_AssetClass contest) isClosing)
          in if isPriceTimestampAnomalous (dur_Seconds priceAge) then rejectRow order FutureTick e
             else if maxPriceAge > 0 \<and> priceAge > maxPriceAge then rejectRow order (StalePrice priceAge maxPriceAge) e
             else if \<not> lock_ok env then rejectRow order LockTimeout e
             else marketFill env order price us e)"

definition processPendingOrder :: "env \<Rightarrow> OrderRequest \<Rightarrow> UserState \<Rightarrow> engine \<Rightarrow> outcome \<times> engine" where
  "processPendingOrder env order us e =
     (let c = rq_ContestID order; u = rq_UserID order; (reserved, us1) = ReserveQty (rq_Qty order) us in
      if \<not> reserved then rejectRow order InsufficientAvailable e
      else case WithTransaction (tx_error env) (\<lambda>db.
             rbind (UpdateOrderStatusTx (rq_OrderID order) ''open'' 0 db) (\<lambda>db1.
             rbind (UpdateParticipantQtyAvailableTx c u (us_QtyAvailable us1) db1) (\<lambda>db2. Inr (db2, ())))) (e_db e) of
          Inl _ \<Rightarrow> (Rejected StatusUpdateFailed, put_user c u (ReleaseQty (rq_Qty order) us1) e)
        | Inr (db', _) \<Rightarrow>
            let e1 = put_db db' e;
                e2 = e1\<lparr>e_book := AddPendingOrder
                  \<lparr>pi_OrderID = rq_OrderID order, pi_ContestID = c, pi_UserID = u, pi_Symbol = rq_Symbol order,
                   pi_Side = rq_Side order, pi_Type = rq_Type order, pi_Qty = rq_Qty order,
                   pi_LimitPrice = rq_LimitPrice order, pi_StopPrice = rq_StopPrice order,
                   pi_TakeProfit = rq_TakeProfit order, pi_StopLoss = rq_StopLoss order, pi_StalePriceRetry = False\<rparr> (e_book e1)\<rparr>
            in (Accepted, put_user c u (us_AddPendingOrder
                  \<lparr>po_OrderID = rq_OrderID order, po_Symbol = rq_Symbol order, po_Side = rq_Side order,
                   po_Type = rq_Type order, po_Qty = rq_Qty order, po_QtyFilled = 0,
                   po_LimitPrice = rq_LimitPrice order, po_StopPrice = rq_StopPrice order\<rparr> us1) e2))"

text \<open>Gates before any read: limits, recovery, finalization, structure, shard.\<close>

definition orderGates :: "env \<Rightarrow> OrderRequest \<Rightarrow> reject_reason option" where
  "orderGates env order =
     (if \<not> rate_allowed env then Some RateLimited
      else if \<not> can_accept env then Some EngineNotReady
      else if \<not> trading_enabled env then Some TradingDisabled
      else case validateOrderRequest order of
        Inl err \<Rightarrow> Some (BadRequest err)
      | Inr _ \<Rightarrow> if \<not> shard_ok env then Some WrongShard else None)"

text \<open>An order identifier that is already in the table; the same table decides after a lost insert race.\<close>

definition progressed :: "string \<Rightarrow> bool" where
  "progressed status \<longleftrightarrow> status \<in> {''filled'', ''accepted'', ''open'', ''pending'', ''partially_filled''}"

definition duplicateOrder :: "OrderRequest \<Rightarrow> DBOrder option \<Rightarrow> outcome option" where
  "duplicateOrder order existing =
     (case existing of
        None \<Rightarrow> None
      | Some o' \<Rightarrow>
          if do_UserID o' \<noteq> rq_UserID order \<or> do_ContestID o' \<noteq> rq_ContestID order then Some (Rejected OrderIDConflict)
          else if progressed (do_Status o') then Some Accepted
          else if do_Status o' \<in> {''rejected'', ''cancelled'', ''canceled''} then Some (Rejected (OrderAlready (do_Status o')))
          else None)"

definition contestWindow :: "env \<Rightarrow> DBContest option \<Rightarrow> reject_reason + DBContest" where
  "contestWindow env contest =
     (case contest of
        None \<Rightarrow> Inl ContestNotFound
      | Some c \<Rightarrow>
          if dc_Status c \<noteq> ''running'' then Inl (ContestNotRunning (dc_Status c))
          else if (case dc_StartsAt c of Some t \<Rightarrow> now env < t | None \<Rightarrow> False) then Inl (ContestNotStarted (the (dc_StartsAt c)))
          else if (case dc_EndsAt c of Some t \<Rightarrow> \<not> now env < t | None \<Rightarrow> False) then Inl (ContestEnded (the (dc_EndsAt c)))
          else Inr c)"

definition MarketDataReady :: "env \<Rightarrow> engine \<Rightarrow> bool \<times> string" where
  "MarketDataReady env e =
     pb_MarketDataReady (now env) [] (if MaxPriceAgeMarket env > 0 then MaxPriceAgeMarket env else 60 * 1000000000)
       (quote_keys env) (e_prices e)"

text \<open>Steps 2 to 7: the contest, the market, the symbol, the participant and the free quantity.\<close>

definition orderChecks :: "env \<Rightarrow> OrderRequest \<Rightarrow> engine \<Rightarrow> (reject_reason + DBContest \<times> UserState) \<times> engine" where
  "orderChecks env order e =
     (let (contest, e1) = getContestCached env (rq_ContestID order) e in
      case contestWindow env contest of
        Inl reason \<Rightarrow> (Inl reason, e1)
      | Inr c \<Rightarrow>
          if require_market_data env \<and> \<not> fst (MarketDataReady env e1) then (Inl (MarketDataNotReady (snd (MarketDataReady env e1))), e1)
          else if \<not> market_open env (dc_AssetClass c) \<and> \<not> isClosingExistingPosition env order e1
            then (Inl (MarketClosed (dc_AssetClass c)), e1)
          else
            let (symbolAllowed, e2) = isSymbolAllowedInContest env (rq_ContestID order) (rq_Symbol order) e1 in
            if \<not> symbolAllowed then (Inl (SymbolNotAllowed (rq_Symbol order)), e2)
            else
              let (participant, e3) = getParticipantCached env (rq_ContestID order) (rq_UserID order) e2 in
              case participant of
                None \<Rightarrow> (Inl NotParticipant, e3)
              | Some p \<Rightarrow>
                  let (us, e4) = loadUser env p (rq_ContestID order) (rq_UserID order) e3;
                      freeRequired = freeQtyRequiredForOrder (rq_Qty order)
                        (GetOpenPosition (sql env) (rq_ContestID order) (rq_UserID order) (rq_Symbol order) (e_db e4)) (rq_Side order)
                  in case validateQtyLimits env (rq_Qty order) (us_QtyTotal us) of
                       Inl err \<Rightarrow> (Inl (BadRequest err), e4)
                     | Inr _ \<Rightarrow>
                         if us_QtyAvailable us < freeRequired then (Inl (InsufficientQty (us_QtyAvailable us) freeRequired), e4)
                         else (Inr (c, us), e4))"

definition str_contains :: "string \<Rightarrow> string \<Rightarrow> bool" where
  "str_contains t s = list_ex (\<lambda>i. take (length t) (drop i s) = t) [0..<Suc (length s)]"

definition isUniqueViolation :: "string \<Rightarrow> bool" where
  "isUniqueViolation err =
     (let msg = to_lower err in str_contains ''23505'' msg \<or> str_contains ''duplicate key'' msg \<or> str_contains ''unique constraint'' msg)"

definition insertRequested :: "env \<Rightarrow> OrderRequest \<Rightarrow> tdb \<Rightarrow> tdb sqlresult" where
  "insertRequested env order db =
     InsertOrder (sql env) (rq_OrderID order) (rq_ContestID order) (rq_UserID order) (rq_Symbol order) (rq_Side order)
       (rq_Type order) (rq_Qty order) (rq_LimitPrice order) (rq_StopPrice order) (rq_TakeProfit order) (rq_StopLoss order) db"

definition insertRace :: "OrderRequest \<Rightarrow> string \<Rightarrow> tdb \<Rightarrow> outcome" where
  "insertRace order err db =
     (case (if isUniqueViolation err then GetOrderByID (rq_OrderID order) db else None) of
        None \<Rightarrow> Rejected (InsertFailed err)
      | Some o' \<Rightarrow>
          if do_UserID o' = rq_UserID order \<and> do_ContestID o' = rq_ContestID order \<and> progressed (do_Status o') then Accepted
          else Rejected (InsertFailed err))"

definition dispatchOrder :: "env \<Rightarrow> OrderRequest \<Rightarrow> DBContest \<Rightarrow> UserState \<Rightarrow> engine \<Rightarrow> outcome \<times> engine" where
  "dispatchOrder env order contest us e =
     (if rq_Type order = OrderTypeMarket then executeMarketOrder env order contest us e
      else if rq_Type order \<in> {OrderTypeBuyLimit, OrderTypeSellLimit, OrderTypeBuyStop, OrderTypeSellStop}
        then processPendingOrder env order us e
      else if rq_Type order \<in> {OrderTypeLimit, OrderTypeStop} then (Accepted, e)
      else (Rejected (UnsupportedType (rq_Type order)), e))"

definition ProcessOrder :: "env \<Rightarrow> OrderRequest \<Rightarrow> engine \<Rightarrow> outcome \<times> engine" where
  "ProcessOrder env order e =
     (case orderGates env order of
        Some reason \<Rightarrow> (Rejected reason, e)
      | None \<Rightarrow>
          (case duplicateOrder order (GetOrderByID (rq_OrderID order) (e_db e)) of
             Some oc \<Rightarrow> (oc, e)
           | None \<Rightarrow>
               (case orderChecks env order e of
                  (Inl reason, e1) \<Rightarrow> (Rejected reason, e1)
                | (Inr (contest, us), e1) \<Rightarrow>
                    (case insertRequested env order (e_db e1) of
                       Inl err \<Rightarrow> (insertRace order err (e_db e1), e1)
                     | Inr db' \<Rightarrow> dispatchOrder env order contest us (put_db db' e1)))))"

section \<open>Triggered orders\<close>

definition triggeredRequest :: "PendingOrderInfo \<Rightarrow> OrderRequest" where
  "triggeredRequest order =
     \<lparr>rq_OrderID = pi_OrderID order, rq_UserID = pi_UserID order, rq_ContestID = pi_ContestID order, rq_Symbol = pi_Symbol order,
      rq_Side = pi_Side order, rq_Type = pi_Type order, rq_Qty = pi_Qty order, rq_LimitPrice = None, rq_StopPrice = None,
      rq_TakeProfit = pi_TakeProfit order, rq_StopLoss = pi_StopLoss order\<rparr>"

definition ensureContest :: "string \<Rightarrow> engine \<Rightarrow> engine" where
  "ensureContest contestID e = e\<lparr>e_state := snd (GetOrCreateContest contestID (e_state e))\<rparr>"

definition dropPending :: "PendingOrderInfo \<Rightarrow> UserState \<Rightarrow> engine \<Rightarrow> engine" where
  "dropPending order us e =
     put_user (pi_ContestID order) (pi_UserID order) (us_RemovePendingOrder (pi_OrderID order) us)
       (e\<lparr>e_book := RemovePendingOrder (pi_Symbol order) (pi_OrderID order) (e_book e)\<rparr>)"

text \<open>
  A stale price leaves the order where it is: the flag \<open>StalePriceRetry\<close> is set on the copy that
  \<open>EvaluatePendingOrders\<close> made, so the book does not change.
\<close>

definition executePendingOrder :: "env \<Rightarrow> TriggeredOrder \<Rightarrow> engine \<Rightarrow> engine" where
  "executePendingOrder env triggered e =
     (let order = to_Order triggered; c = pi_ContestID order; u = pi_UserID order;
          (contest, e1) = getContestCached env c e;
          maxPriceAge = contestAgeOverride MaxPriceAgePendingSeconds contest
            (getMaxPriceAge env (case contest of Some k \<Rightarrow> dc_AssetClass k | None \<Rightarrow> '''') False)
      in if (case GetPriceAge (now env) (pi_Symbol order) (e_prices e1) of
               Some age \<Rightarrow> maxPriceAge > 0 \<and> age > maxPriceAge | None \<Rightarrow> False) then e1
         else if \<not> lock_ok env then e1
         else
           let e2 = ensureContest c e1 in
           case user_of c u e2 of
             None \<Rightarrow> e2
           | Some us \<Rightarrow>
               if (case GetContest c (e_db e2) of None \<Rightarrow> True | Some fresh \<Rightarrow> dc_Status fresh \<noteq> ''running'') then
                 (let e3 = dropPending order (ReleaseQty (pi_Qty order) us) e2
                  in put_db (UpdateOrderStatus (pi_OrderID order) ''rejected'' 0 (e_db e3)) e3)
               else
                 case WithTransaction (tx_error env)
                     (fillTx env (triggeredRequest order) us (uuid_fill env) (to_FillPrice triggered) (pi_Qty order) True) (e_db e2) of
                   Inl _ \<Rightarrow> e2
                 | Inr (db', result) \<Rightarrow>
                     settleFill env (triggeredRequest order) (us_RemovePendingOrder (pi_OrderID order) us) db' result
                       (dropPending order us e2))"

definition tpslRequest :: "env \<Rightarrow> PositionWithTPSL \<Rightarrow> int \<Rightarrow> OrderRequest" where
  "tpslRequest env pos fillQty =
     \<lparr>rq_OrderID = uuid_order env, rq_UserID = tp_UserID pos, rq_ContestID = tp_ContestID pos, rq_Symbol = tp_Symbol pos,
      rq_Side = OppositeSide (tp_Side pos), rq_Type = OrderTypeMarket, rq_Qty = fillQty, rq_LimitPrice = None, rq_StopPrice = None,
      rq_TakeProfit = None, rq_StopLoss = None\<rparr>"

text \<open>The synthetic closing order: inserted, filled, and its fill recorded, in this order.\<close>

definition closingOrderTx :: "env \<Rightarrow> OrderRequest \<Rightarrow> f64 \<Rightarrow> tdb \<Rightarrow> tdb sqlresult" where
  "closingOrderTx env order fillPrice db =
     rbind (insertOrderTx (sql env) (rq_OrderID order) (rq_ContestID order) (rq_UserID order) (rq_Symbol order) (rq_Side order)
       OrderTypeMarket (rq_Qty order) None None None None db) (\<lambda>db1.
     rbind (UpdateOrderStatusTx (rq_OrderID order) ''filled'' (rq_Qty order) db1) (\<lambda>db2.
     InsertFillTx (sql env) (uuid_fill env) (rq_OrderID order) (rq_ContestID order) (rq_UserID order) (rq_Symbol order) (rq_Side order)
       (rq_Qty order) fillPrice db2))"

definition executeTPSL :: "env \<Rightarrow> TriggeredTPSL \<Rightarrow> engine \<Rightarrow> engine" where
  "executeTPSL env triggered e =
     (let pos = tt_Position triggered; c = tp_ContestID pos; u = tp_UserID pos;
          (contest, e1) = getContestCached env c e;
          maxAge = getMaxPriceAge env (case contest of Some k \<Rightarrow> dc_AssetClass k | None \<Rightarrow> '''') True
      in case GetPriceAge (now env) (tp_Symbol pos) (e_prices e1) of
           None \<Rightarrow> e1
         | Some age \<Rightarrow>
             if maxAge > 0 \<and> age > maxAge then e1
             else
               let e2 = ensureContest c e1 in
               case user_of c u e2 of
                 None \<Rightarrow> e2
               | Some us \<Rightarrow>
                   if \<not> lock_ok env then e2
                   else case GetOpenPosition (sql env) c u (tp_Symbol pos) (e_db e2) of
                     None \<Rightarrow> e2\<lparr>e_book := RemovePositionTPSL (tp_Symbol pos) (tp_PositionID pos) (e_book e2)\<rparr>
                   | Some freshPos \<Rightarrow>
                       let order = tpslRequest env pos (db_QtyOpen freshPos) in
                       case WithTransaction (tx_error env) (\<lambda>db.
                           rbind (closingOrderTx env order (tt_FillPrice triggered) db)
                             (positionStage env order us (uuid_fill env) (tt_FillPrice triggered) (db_QtyOpen freshPos) False)) (e_db e2) of
                         Inl _ \<Rightarrow> e2
                       | Inr (db', result) \<Rightarrow>
                           applyPositionResultToMemory env order result
                             (put_db db' (e2\<lparr>e_book := RemovePositionTPSL (tp_Symbol pos) (tp_PositionID pos) (e_book e2)\<rparr>)))"

section \<open>Closing, cancelling, modifying\<close>

record ClosePositionRequest =
  cp_PositionID :: string
  cp_UserID :: string
  cp_ContestID :: string
  cp_QtyToClose :: int

definition contestRunning :: "DBContest option \<Rightarrow> string + DBContest" where
  "contestRunning contest =
     (case contest of
        None \<Rightarrow> Inl ''contest not found''
      | Some c \<Rightarrow> if dc_Status c \<noteq> ''running'' then Inl ''contest is not running'' else Inr c)"

definition closeRequest :: "env \<Rightarrow> ClosePositionRequest \<Rightarrow> DBPosition \<Rightarrow> int \<Rightarrow> OrderRequest" where
  "closeRequest env req dbPos qtyToClose =
     \<lparr>rq_OrderID = uuid_order env, rq_UserID = cp_UserID req, rq_ContestID = cp_ContestID req, rq_Symbol = db_Symbol dbPos,
      rq_Side = OppositeSide (PositionSideToOrderSide (db_Side dbPos)), rq_Type = OrderTypeMarket, rq_Qty = qtyToClose,
      rq_LimitPrice = None, rq_StopPrice = None, rq_TakeProfit = None, rq_StopLoss = None\<rparr>"

text \<open>Step 12 of \<open>ProcessClosePosition\<close>: the transaction and the update of the memory.\<close>

definition closeFull :: "env \<Rightarrow> ClosePositionRequest \<Rightarrow> DBPosition \<Rightarrow> f64 \<Rightarrow> UserState \<Rightarrow> engine \<Rightarrow> outcome \<times> engine" where
  "closeFull env req dbPos closePrice us e =
     (let order = closeRequest env req dbPos (db_QtyOpen dbPos);
          score = calculateTradeScoreDecimal (dec env) (db_Side dbPos) (db_EntryPrice dbPos) closePrice (db_QtyUsed dbPos);
          newPositionRealizedScoreDec = NewFromFloat (dec env) (db_RealizedScore dbPos) + ds_Decimal score;
          newQtyAvailable = wrap64 (us_QtyAvailable us + db_QtyUsed dbPos);
          newRealizedScoreDec = us_RealizedScoreDecimal us + ds_Decimal score
      in case WithTransaction (tx_error env) (\<lambda>db.
             rbind (closingOrderTx env order closePrice db) (\<lambda>db1.
             rbind (UpdateFillRealizedPnlTx (sql env) (uuid_fill env) (ds_Float64 score) db1) (\<lambda>db2.
             rbind (ClosePositionTx (sql env) (cp_PositionID req) newPositionRealizedScoreDec db2) (\<lambda>db3.
             rbind (UpdateParticipantQtyAndScoreTx (sql env) (cp_ContestID req) (cp_UserID req) newQtyAvailable newRealizedScoreDec db3)
               (\<lambda>db4. Inr (db4, ())))))) (e_db e) of
           Inl err \<Rightarrow> (Failed err, e)
         | Inr (db', _) \<Rightarrow>
             let us1 = RemovePosition (db_Symbol dbPos)
                   (ReleaseQty (db_QtyUsed dbPos) (snd (AddRealizedScoreDecimal (dec env) (ds_Decimal score) us)));
                 e1 = put_user (cp_ContestID req) (cp_UserID req) us1 (put_db db' e)
             in (Accepted, e1\<lparr>e_book := RemovePositionTPSL (db_Symbol dbPos) (cp_PositionID req) (e_book e1)\<rparr>))"

definition closeSome :: "env \<Rightarrow> ClosePositionRequest \<Rightarrow> DBPosition \<Rightarrow> int \<Rightarrow> f64 \<Rightarrow> UserState \<Rightarrow> engine \<Rightarrow> outcome \<times> engine" where
  "closeSome env req dbPos qtyToClose closePrice us e =
     (let order = closeRequest env req dbPos qtyToClose;
          qtyUsedForClose = proportionalQtyUsed (db_QtyUsed dbPos) qtyToClose (db_QtyOpen dbPos);
          score = calculateTradeScoreDecimal (dec env) (db_Side dbPos) (db_EntryPrice dbPos) closePrice qtyUsedForClose;
          remainingQty = wrap64 (db_QtyOpen dbPos - qtyToClose);
          newQtyUsed = wrap64 (db_QtyUsed dbPos - qtyUsedForClose);
          newPositionRealizedScore = f64_add (db_RealizedScore dbPos) (ds_Float64 score);
          newPositionRealizedScoreDec = NewFromFloat (dec env) (db_RealizedScore dbPos) + ds_Decimal score;
          newQtyAvailable = wrap64 (us_QtyAvailable us + qtyUsedForClose);
          newUserRealizedScoreDec = us_RealizedScoreDecimal us + ds_Decimal score
      in case WithTransaction (tx_error env) (\<lambda>db.
             rbind (closingOrderTx env order closePrice db) (\<lambda>db1.
             rbind (UpdateFillRealizedPnlTx (sql env) (uuid_fill env) (ds_Float64 score) db1) (\<lambda>db2.
             rbind (UpdatePositionTx (sql env) (cp_PositionID req) remainingQty (db_EntryPrice dbPos) newQtyUsed newPositionRealizedScoreDec db2) (\<lambda>db3.
             rbind (UpdateParticipantQtyAndScoreTx (sql env) (cp_ContestID req) (cp_UserID req) newQtyAvailable newUserRealizedScoreDec db3)
               (\<lambda>db4. Inr (db4, ())))))) (e_db e) of
           Inl err \<Rightarrow> (Failed err, e)
         | Inr (db', _) \<Rightarrow>
             let us1 = SetPosition (applied_position (db_PositionID dbPos) (db_Symbol dbPos) (PositionSideToOrderSide (db_Side dbPos))
                   remainingQty (db_EntryPrice dbPos) newQtyUsed newPositionRealizedScore)
                   (ReleaseQty qtyUsedForClose (snd (AddRealizedScoreDecimal (dec env) (ds_Decimal score) us)));
                 e1 = put_user (cp_ContestID req) (cp_UserID req) us1 (put_db db' e)
             in (Accepted, e1\<lparr>e_book := UpdatePositionQty (db_Symbol dbPos) (db_PositionID dbPos) remainingQty (e_book e1)\<rparr>))"

definition closeAtMarket :: "env \<Rightarrow> ClosePositionRequest \<Rightarrow> DBContest \<Rightarrow> DBPosition \<Rightarrow> UserState \<Rightarrow> engine \<Rightarrow> outcome \<times> engine" where
  "closeAtMarket env req contest dbPos us e =
     (let qtyToClose = (if cp_QtyToClose req \<le> 0 \<or> cp_QtyToClose req \<ge> db_QtyOpen dbPos then db_QtyOpen dbPos else cp_QtyToClose req)
      in case getMarketPriceWithAge env (db_Symbol dbPos) (OppositeSide (PositionSideToOrderSide (db_Side dbPos))) e of
           None \<Rightarrow> (Failed ''No price data available'', e)
         | Some (closePrice, priceAge) \<Rightarrow>
             let maxCloseAge = getMaxPriceAge env (dc_AssetClass contest) True in
             if maxCloseAge > 0 \<and> priceAge > maxCloseAge then (Failed ''price data is stale'', e)
             else if qtyToClose \<ge> db_QtyOpen dbPos then closeFull env req dbPos closePrice us e
             else closeSome env req dbPos qtyToClose closePrice us e)"

definition ProcessClosePosition :: "env \<Rightarrow> ClosePositionRequest \<Rightarrow> engine \<Rightarrow> outcome \<times> engine" where
  "ProcessClosePosition env req e =
     (if \<not> shard_ok env then (Failed ''wrong shard'', e)
      else
        let (contest, e1) = getContestCached env (cp_ContestID req) e in
        case contestRunning contest of
          Inl err \<Rightarrow> (Failed err, e1)
        | Inr c \<Rightarrow>
            (case GetPositionByID (sql env) (cp_PositionID req) (e_db e1) of
               None \<Rightarrow> (Accepted, e1)
             | Some dbPos \<Rightarrow>
                 if db_UserID dbPos \<noteq> cp_UserID req then (Failed ''position does not belong to user'', e1)
                 else if db_ContestID dbPos \<noteq> cp_ContestID req then (Failed ''position is not in specified contest'', e1)
                 else if \<not> lock_ok env then (Failed ''position lock timeout'', e1)
                 else
                   let (participant, e2) = getParticipantCached env (cp_ContestID req) (cp_UserID req) (ensureContest (cp_ContestID req) e1) in
                   case participant of
                     None \<Rightarrow> (Failed ''user is not a participant in this contest'', e2)
                   | Some p \<Rightarrow>
                       let (us, e3) = loadUser env p (cp_ContestID req) (cp_UserID req) e2
                       in closeAtMarket env req c dbPos us e3))"

record CancelOrderRequest =
  co_OrderID :: string
  co_UserID :: string
  co_ContestID :: string

definition ProcessCancelOrder :: "env \<Rightarrow> CancelOrderRequest \<Rightarrow> engine \<Rightarrow> outcome \<times> engine" where
  "ProcessCancelOrder env req e =
     (if \<not> shard_ok env then (Failed ''wrong shard'', e)
      else
        let c = co_ContestID req; u = co_UserID req; e1 = ensureContest c e in
        case user_of c u e1 of
          None \<Rightarrow> (Accepted, e1)
        | Some us \<Rightarrow>
            (case us_GetPendingOrder (co_OrderID req) us of
               None \<Rightarrow> (Accepted, e1)
             | Some pendingOrder \<Rightarrow>
                 let newQtyAvailable = wrap64 (us_QtyAvailable us + po_Qty pendingOrder) in
                 case WithTransaction (tx_error env) (\<lambda>db.
                     rbind (UpdateOrderStatusTx (co_OrderID req) ''cancelled'' 0 db) (\<lambda>db1.
                     rbind (UpdateParticipantQtyAvailableTx c u newQtyAvailable db1) (\<lambda>db2. Inr (db2, ())))) (e_db e1) of
                   Inl err \<Rightarrow> (Failed err, e1)
                 | Inr (db', _) \<Rightarrow>
                     let e2 = put_db db' (e1\<lparr>e_book := RemovePendingOrder (po_Symbol pendingOrder) (co_OrderID req) (e_book e1)\<rparr>)
                     in (Accepted, put_user c u (ReleaseQty (po_Qty pendingOrder) (us_RemovePendingOrder (co_OrderID req) us)) e2)))"

record ModifyTPSLRequest =
  mt_PositionID :: string
  mt_UserID :: string
  mt_ContestID :: string
  mt_TakeProfit :: "f64 option"
  mt_StopLoss :: "f64 option"

text \<open>Step 6 of \<open>ProcessModifyTPSL\<close>: the tracked levels follow the database.\<close>

definition modifyTracking :: "ModifyTPSLRequest \<Rightarrow> DBPosition \<Rightarrow> PendingOrderBook \<Rightarrow> PendingOrderBook" where
  "modifyTracking req dbPos pob =
     (let (found, pob1) = UpdatePositionTPSL (db_Symbol dbPos) (mt_PositionID req) (mt_TakeProfit req) (mt_StopLoss req) pob in
      if found \<or> mt_TakeProfit req = None \<and> mt_StopLoss req = None then pob1
      else AddPositionWithTPSL
        \<lparr>tp_PositionID = mt_PositionID req, tp_ContestID = mt_ContestID req, tp_UserID = mt_UserID req,
         tp_Symbol = db_Symbol dbPos, tp_Side = PositionSideToOrderSide (db_Side dbPos), tp_QtyOpen = db_QtyOpen dbPos,
         tp_EntryPrice = db_EntryPrice dbPos, tp_TakeProfit = mt_TakeProfit req, tp_StopLoss = mt_StopLoss req\<rparr> pob1)"

definition ProcessModifyTPSL :: "env \<Rightarrow> ModifyTPSLRequest \<Rightarrow> engine \<Rightarrow> outcome \<times> engine" where
  "ProcessModifyTPSL env req e =
     (if \<not> shard_ok env then (Failed ''wrong shard'', e)
      else
        let c = mt_ContestID req; u = mt_UserID req; (contest, e1) = getContestCached env c e in
        case contestRunning contest of
          Inl err \<Rightarrow> (Failed err, e1)
        | Inr _ \<Rightarrow>
            (case GetPositionByID (sql env) (mt_PositionID req) (e_db e1) of
               None \<Rightarrow> (Accepted, e1)
             | Some dbPos \<Rightarrow>
                 if db_UserID dbPos \<noteq> u then (Failed ''position does not belong to user'', e1)
                 else if db_ContestID dbPos \<noteq> c then (Failed ''position is not in specified contest'', e1)
                 else case UpdatePositionTPSLTx (sql env) (mt_PositionID req) (mt_TakeProfit req) (mt_StopLoss req) (e_db e1) of
                     Inl err \<Rightarrow> (Failed err, e1)
                   | Inr db' \<Rightarrow>
                       let e2 = put_db db' e1; e3 = e2\<lparr>e_book := modifyTracking req dbPos (e_book e2)\<rparr>;
                           (participant, e4) = getParticipantCached env c u (ensureContest c e3)
                       in (Accepted, case participant of None \<Rightarrow> e4 | Some p \<Rightarrow> snd (loadUser env p c u e4))))"

section \<open>Ticks (engine.go)\<close>

text \<open>
  Each triggered execution has its own environment (clock, identifiers, lock), given by \<open>envs\<close> for
  the n-th execution; \<open>okeys\<close> and \<open>pkeys\<close> are the visiting orders of the two maps.
\<close>

definition processSymbolTick :: "(nat \<Rightarrow> env) \<Rightarrow> (nat \<Rightarrow> env) \<Rightarrow> string list \<Rightarrow> string list \<Rightarrow> string \<Rightarrow> engine \<Rightarrow> engine" where
  "processSymbolTick oenvs penvs okeys pkeys symbol e =
     (case GetBidAskDirect symbol (e_prices e) of
        None \<Rightarrow> e
      | Some (bid, ask) \<Rightarrow>
          let triggeredOrders = EvaluatePendingOrders symbol bid ask okeys (e_book e);
              e1 = fold (\<lambda>(i, t). executePendingOrder (oenvs i) t) (enumerate 0 triggeredOrders) e;
              triggeredTPSL = EvaluateTPSL symbol bid ask pkeys (e_book e1)
          in fold (\<lambda>(i, t). executeTPSL (penvs i) t) (enumerate 0 triggeredTPSL) e1)"

end
