(* ===== verification/Trading_Power.thy ===== *)
theory Trading_Power
  imports Trading_Orders
begin

text \<open>
  Buying power. Every user of a contest has \<open>QtyTotal\<close> units; a unit is available, held by an open
  position (\<open>qty_used\<close>) or reserved by a waiting order. \<open>power_ok\<close> says so for the whole engine, with
  the positions and waiting orders as the database has them and the available units as the memory
  has them, and ties waiting orders in memory to their rows. The lemmas follow the statements, then
  the stages of a transaction, then the handlers.
\<close>

section \<open>Sums over tables\<close>

definition sum_where :: "('r \<Rightarrow> bool) \<Rightarrow> ('r \<Rightarrow> int) \<Rightarrow> 'r list \<Rightarrow> int" where
  "sum_where P v xs = sum_list (map (\<lambda>x. if P x then v x else 0) xs)"

lemma sum_where_simps [simp]:
  "sum_where P v [] = 0" "sum_where P v (x # xs) = (if P x then v x else 0) + sum_where P v xs"
  "sum_where P v (xs @ ys) = sum_where P v xs + sum_where P v ys"
  by (simp_all add: sum_where_def)

lemma map_update_absent: "i \<notin> k ` set xs \<Longrightarrow> map (\<lambda>r. if k r = i then f r else r) xs = xs"
  by (induction xs) auto

lemma sum_where_update:
  assumes "distinct (map k xs)" "x \<in> set xs"
  shows "sum_where P v (map (\<lambda>r. if k r = k x then f r else r) xs)
    = sum_where P v xs - (if P x then v x else 0) + (if P (f x) then v (f x) else 0)"
  using assms
proof (induction xs)
  case (Cons y ys)
  show ?case
  proof (cases "y = x")
    case True
    then have "k x \<notin> k ` set ys" using Cons.prems by simp
    then show ?thesis using True by (simp add: map_update_absent)
  next
    case False
    then have x: "x \<in> set ys" using Cons.prems by simp
    then have "k y \<noteq> k x" using Cons.prems by force
    then show ?thesis using Cons.IH Cons.prems x by simp
  qed
qed simp

lemma sum_where_nonneg: "(\<And>x. x \<in> set xs \<Longrightarrow> P x \<Longrightarrow> 0 \<le> v x) \<Longrightarrow> 0 \<le> sum_where P v xs"
  by (induction xs) auto

lemma sum_where_ge:
  assumes "\<And>x. x \<in> set xs \<Longrightarrow> P x \<Longrightarrow> 0 \<le> v x" "x \<in> set xs" "P x"
  shows "v x \<le> sum_where P v xs"
  using assms
proof (induction xs)
  case (Cons y ys)
  have "0 \<le> sum_where P v ys" using Cons.prems(1) by (intro sum_where_nonneg) simp
  moreover have "x \<in> set ys \<Longrightarrow> v x \<le> sum_where P v ys" using Cons by simp
  moreover have "P y \<Longrightarrow> 0 \<le> v y" using Cons.prems(1) by simp
  ultimately show ?case using Cons.prems(2,3) by fastforce
qed simp

lemma find_rev_SomeD: "List.find P (rev xs) = Some x \<Longrightarrow> x \<in> set xs \<and> P x"
  by (metis find_Some_iff nth_mem set_rev)

section \<open>Tables\<close>

definition used_by :: "string \<Rightarrow> string \<Rightarrow> PositionRow \<Rightarrow> bool" where
  "used_by c u p \<longleftrightarrow> pr_contest_id p = c \<and> pr_user_id p = u \<and> \<not> pr_closed p"

definition waits_for :: "string \<Rightarrow> string \<Rightarrow> OrderRow \<Rightarrow> bool" where
  "waits_for c u r \<longleftrightarrow> or_contest_id r = c \<and> or_user_id r = u \<and> or_status r = ''open''"

definition used :: "string \<Rightarrow> string \<Rightarrow> tdb \<Rightarrow> int" where
  "used c u db = sum_where (used_by c u) pr_qty_used (td_positions db)"

definition waiting :: "string \<Rightarrow> string \<Rightarrow> tdb \<Rightarrow> int" where
  "waiting c u db = sum_where (waits_for c u) or_qty (td_orders db)"

definition tables_ok :: "tdb \<Rightarrow> bool" where
  "tables_ok db \<longleftrightarrow>
     distinct (map pr_position_id (td_positions db)) \<and> distinct (map or_order_id (td_orders db)) \<and>
     (\<forall>p \<in> set (td_positions db). position_ok p \<and> is_i64 (pr_qty_open p)) \<and> (\<forall>r \<in> set (td_orders db). order_ok r)"

text \<open>A participant row that is not the user's own is one of the old rows.\<close>

definition same_others :: "string \<Rightarrow> string \<Rightarrow> tdb \<Rightarrow> tdb \<Rightarrow> bool" where
  "same_others c u db db' \<longleftrightarrow>
     (\<forall>p \<in> set (td_participants db'). active_of c u p \<or> p \<in> set (td_participants db))"

lemma same_others_refl [simp]: "same_others c u db db"
  by (simp add: same_others_def)

lemma same_others_trans: "same_others c u a b \<Longrightarrow> same_others c u b d \<Longrightarrow> same_others c u a d"
  unfolding same_others_def by blast

lemma used_nonneg: "tables_ok db \<Longrightarrow> 0 \<le> used c u db"
  unfolding used_def by (rule sum_where_nonneg) (simp add: tables_ok_def position_ok_def)

lemma waiting_nonneg: "tables_ok db \<Longrightarrow> 0 \<le> waiting c u db"
  unfolding waiting_def by (rule sum_where_nonneg) (force simp: tables_ok_def order_ok_def)

lemma update_rows_Inr:
  "update_rows P f ok rows = Inr rows' \<longleftrightarrow>
     (\<forall>r \<in> set rows. P r \<longrightarrow> ok (f r)) \<and> rows' = map (\<lambda>r. if P r then f r else r) rows"
  by (auto simp: update_rows_def list_all_iff)

text \<open>Participant statements touch only the user's own rows.\<close>

lemma participant_update:
  assumes "update_rows (active_of c u) f participant_ok (td_participants db) = Inr rows"
    and "\<And>p. active_of c u p \<Longrightarrow> active_of c u (f p)"
  shows "same_others c u db (db\<lparr>td_participants := rows\<rparr>)"
  using assms by (auto simp: update_rows_Inr same_others_def)

lemma UpdateParticipantQtyAvailableTx_effect:
  assumes "UpdateParticipantQtyAvailableTx c u q db = Inr db'"
  shows "same_others c u db db' \<and> (\<exists>rows. db' = db\<lparr>td_participants := rows\<rparr>)"
  using assms participant_update [of c u "\<lambda>p. p\<lparr>pt_qty_available := q\<rparr>" db]
  by (auto simp: UpdateParticipantQtyAvailableTx_def res_simps active_of_def)

lemma UpdateParticipantQtyAndScoreTx_effect:
  assumes "UpdateParticipantQtyAndScoreTx sq c u q s db = Inr db'"
  shows "same_others c u db db' \<and> (\<exists>rows. db' = db\<lparr>td_participants := rows\<rparr>)"
  using assms participant_update [of c u "\<lambda>p. p\<lparr>pt_qty_available := q, pt_total_score := _\<rparr>" db]
  by (auto simp: UpdateParticipantQtyAndScoreTx_def res_simps active_of_def)

section \<open>Statements\<close>

text \<open>
  \<open>pos_step c u d db db'\<close>: the tables stay well formed, the units held by the positions of user
  \<open>u\<close> in contest \<open>c\<close> grow by \<open>d\<close>, and nothing that counts for anybody else changes.
\<close>

definition pos_step :: "string \<Rightarrow> string \<Rightarrow> int \<Rightarrow> tdb \<Rightarrow> tdb \<Rightarrow> bool" where
  "pos_step c u d db db' \<longleftrightarrow>
     tables_ok db' \<and> same_others c u db db' \<and> td_orders db' = td_orders db \<and> td_contests db' = td_contests db \<and>
     (\<forall>c' u'. used c' u' db' = used c' u' db + (if c' = c \<and> u' = u then d else 0))"

lemma pos_step_trans: "pos_step c u d a b \<Longrightarrow> pos_step c u d' b k \<Longrightarrow> pos_step c u (d + d') a k"
  unfolding pos_step_def by (auto intro: same_others_trans)

lemma pos_step_used: "pos_step c u d db db' \<Longrightarrow> used c u db' = used c u db + d"
  by (simp add: pos_step_def)

lemma pos_step_tables: "pos_step c u d db db' \<Longrightarrow> tables_ok db'"
  by (simp add: pos_step_def)

lemma pos_step_fills: "tables_ok db \<Longrightarrow> pos_step c u 0 db (db\<lparr>td_fills := fs\<rparr>)"
  by (simp add: pos_step_def tables_ok_def used_def same_others_def)

lemma pos_step_participants:
  "tables_ok db \<Longrightarrow> same_others c u db (db\<lparr>td_participants := rows\<rparr>) \<Longrightarrow> pos_step c u 0 db (db\<lparr>td_participants := rows\<rparr>)"
  by (simp add: pos_step_def tables_ok_def used_def)

lemma InsertFillTx_step:
  assumes "InsertFillTx sq f oid c' u' s side q pr db = Inr db'" "tables_ok db"
  shows "pos_step c u 0 db db'"
  using assms pos_step_fills by (auto simp: InsertFillTx_def res_simps split: if_splits)

lemma UpdateFillRealizedPnlTx_step:
  assumes "UpdateFillRealizedPnlTx sq f x db = Inr db'" "tables_ok db"
  shows "pos_step c u 0 db db'"
  using assms pos_step_fills by (auto simp: UpdateFillRealizedPnlTx_def res_simps)

lemma UpdateParticipantQtyAvailableTx_step:
  assumes "UpdateParticipantQtyAvailableTx c u q db = Inr db'" "tables_ok db"
  shows "pos_step c u 0 db db'"
  using UpdateParticipantQtyAvailableTx_effect [OF assms(1)] assms(2) pos_step_participants by blast

lemma UpdateParticipantQtyAndScoreTx_step:
  assumes "UpdateParticipantQtyAndScoreTx sq c u q s db = Inr db'" "tables_ok db"
  shows "pos_step c u 0 db db'"
  using UpdateParticipantQtyAndScoreTx_effect [OF assms(1)] assms(2) pos_step_participants by blast

lemma InsertPositionTx_step:
  assumes "InsertPositionTx sq pid c u s side qo pr qu db = Inr db'" "tables_ok db" "is_i64 qo"
  shows "pos_step c u qu db db'"
  using assms by (auto simp: InsertPositionTx_def Let_def res_simps pos_step_def tables_ok_def used_def used_by_def same_others_def
      split: if_splits)

lemma update_position_step:
  assumes "update_position (pr_position_id p) f db = Inr db'" "tables_ok db"
    and p: "p \<in> set (td_positions db)" "used_by c u p"
    and f: "\<And>p. pr_position_id (f p) = pr_position_id p" "\<And>p. pr_contest_id (f p) = pr_contest_id p"
      "\<And>p. pr_user_id (f p) = pr_user_id p" "\<And>p. is_i64 (pr_qty_open (f p))"
  shows "pos_step c u ((if pr_closed (f p) then 0 else pr_qty_used (f p)) - pr_qty_used p) db db'
    \<and> position_ok (f p)"
proof -
  define rows where "rows = map (\<lambda>r. if pr_position_id r = pr_position_id p then f r else r) (td_positions db)"
  have db': "db' = db\<lparr>td_positions := rows\<rparr>" and ok: "\<forall>r \<in> set (td_positions db). pr_position_id r = pr_position_id p \<longrightarrow> position_ok (f r)"
    using assms(1) by (auto simp: update_position_def res_simps update_rows_Inr rows_def)
  have d: "distinct (map pr_position_id (td_positions db))" using assms(2) by (simp add: tables_ok_def)
  have ids: "map pr_position_id rows = map pr_position_id (td_positions db)" by (simp add: rows_def f)
  have "\<forall>q \<in> set rows. position_ok q \<and> is_i64 (pr_qty_open q)"
    using assms(2) ok f(4) by (auto simp: tables_ok_def rows_def)
  then have "tables_ok db'" using assms(2) ids d by (simp add: db' tables_ok_def)
  moreover have "sum_where (used_by c' u') pr_qty_used rows = sum_where (used_by c' u') pr_qty_used (td_positions db)
      + (if c' = c \<and> u' = u then (if pr_closed (f p) then 0 else pr_qty_used (f p)) - pr_qty_used p else 0)" for c' u'
    unfolding rows_def using sum_where_update [OF d p(1), of "used_by c' u'" pr_qty_used f] p(2)
    by (auto simp: used_by_def f)
  ultimately show ?thesis using ok p by (simp add: pos_step_def db' used_def same_others_def)
qed

lemma UpdatePositionTx_step:
  assumes "UpdatePositionTx sq (pr_position_id p) qo pr qu sc db = Inr db'" "tables_ok db"
    and "p \<in> set (td_positions db)" "used_by c u p" "is_i64 qo"
  shows "pos_step c u (qu - pr_qty_used p) db db' \<and> 0 \<le> qu"
proof -
  obtain price score where up: "update_position (pr_position_id p) (\<lambda>p. p\<lparr>pr_qty_open := qo, pr_entry_price := price,
      pr_qty_used := qu, pr_realized_score := score\<rparr>) db = Inr db'"
    using assms(1) by (auto simp: UpdatePositionTx_def res_simps)
  show ?thesis using update_position_step [OF up assms(2-4)] assms(4,5) by (simp add: used_by_def position_ok_def)
qed

lemma ClosePositionTx_step:
  assumes "ClosePositionTx sq (pr_position_id p) sc db = Inr db'" "tables_ok db" "p \<in> set (td_positions db)" "used_by c u p"
  shows "pos_step c u (- pr_qty_used p) db db'"
proof -
  obtain score where up: "update_position (pr_position_id p) (\<lambda>p. p\<lparr>pr_closed := True, pr_qty_open := 0,
      pr_realized_score := score\<rparr>) db = Inr db'"
    using assms(1) by (auto simp: ClosePositionTx_def res_simps)
  show ?thesis using update_position_step [OF up assms(2-4)] by simp
qed

section \<open>Position updates\<close>

text \<open>The units that a fill takes from what its order has reserved.\<close>

definition consumed :: "DBPosition option \<Rightarrow> string \<Rightarrow> int \<Rightarrow> bool \<Rightarrow> int" where
  "consumed openPos side fillQty preReserved =
     (case openPos of
        None \<Rightarrow> fillQty
      | Some p \<Rightarrow> if IsSameSide (db_Side p) side \<or> preReserved then fillQty else max 0 (fillQty - db_QtyOpen p))"

lemma proportionalQtyUsed_pos: "0 < closing \<Longrightarrow> 0 < proportionalQtyUsed qu closing qo \<and> is_i64 (proportionalQtyUsed qu closing qo)"
  by (auto simp: proportionalQtyUsed_def Let_def f64_to_int_def is_i64_def)

lemma is_i64_between: "is_i64 a \<Longrightarrow> is_i64 b \<Longrightarrow> a \<le> x \<Longrightarrow> x \<le> b \<Longrightarrow> is_i64 x"
  by (simp add: is_i64_def)

lemma is_i64_upto: "is_i64 b \<Longrightarrow> 0 \<le> x \<Longrightarrow> x \<le> b \<Longrightarrow> is_i64 x"
  by (simp add: is_i64_def)

lemma us_avail_simps [simp]:
  "us_QtyAvailable (SetPosition p us) = us_QtyAvailable us" "us_QtyAvailable (RemovePosition s us) = us_QtyAvailable us"
  "us_QtyAvailable (ReleaseQty q us) = wrap64 (us_QtyAvailable us + q)"
  "us_QtyAvailable (snd (AddRealizedScoreDecimal D x us)) = us_QtyAvailable us"
  "us_QtyTotal (SetPosition p us) = us_QtyTotal us" "us_QtyTotal (RemovePosition s us) = us_QtyTotal us"
  "us_QtyTotal (ReleaseQty q us) = us_QtyTotal us" "us_QtyTotal (snd (AddRealizedScoreDecimal D x us)) = us_QtyTotal us"
  "us_PendingOrders (SetPosition p us) = us_PendingOrders us" "us_PendingOrders (RemovePosition s us) = us_PendingOrders us"
  "us_PendingOrders (ReleaseQty q us) = us_PendingOrders us"
  "us_PendingOrders (snd (AddRealizedScoreDecimal D x us)) = us_PendingOrders us"
  by (simp_all add: SetPosition_def RemovePosition_def ReleaseQty_def AddRealizedScoreDecimal_def Let_def)

text \<open>What a position update leaves in memory and in the tables, on each branch.\<close>

definition moves :: "env \<Rightarrow> OrderRequest \<Rightarrow> UserState \<Rightarrow> tdb \<Rightarrow> int \<Rightarrow> tdb \<times> PositionTxResult \<Rightarrow> bool" where
  "moves env order us db taken = (\<lambda>(db', r).
     let us' = applyToUser env order r us; c = rq_ContestID order; u = rq_UserID order in
     \<exists>d. pos_step c u d db db' \<and>
       us_QtyAvailable us' + d = us_QtyAvailable us + taken \<and> us_QtyAvailable us \<le> us_QtyAvailable us' \<and>
       us_QtyTotal us' = us_QtyTotal us \<and> us_PendingOrders us' = us_PendingOrders us)"

lemma GetOpenPositionTx_eq: "GetOpenPositionTx = GetOpenPosition"
  by (simp add: fun_eq_iff GetOpenPositionTx_def GetOpenPosition_def)

lemma GetOpenPosition_SomeD:
  assumes "GetOpenPosition sq c u s db = Some dbPos"
  obtains p where "p \<in> set (td_positions db)" "open_in c u s p" "dbPos = scan_position sq p"
  using assms find_rev_SomeD [of "open_in c u s" "td_positions db"] unfolding GetOpenPosition_def by blast

lemma openNewPosition_moves:
  assumes "openNewPosition env order price q db = Inr x" "tables_ok db" "is_i64 q"
  shows "moves env order us db q x"
  using assms InsertPositionTx_step
  by (fastforce simp: openNewPosition_def Let_def res_simps moves_def applyToUser_def zeroResult_def)

lemma addToPosition_moves:
  assumes "addToPosition env order (scan_position sq p) price q db = Inr x" "tables_ok db"
    and p: "p \<in> set (td_positions db)" "used_by (rq_ContestID order) (rq_UserID order) p" and w: "is_i64 (pr_qty_used p + q)"
  shows "moves env order us db q x"
proof -
  obtain db' where up: "UpdatePositionTx (sql env) (pr_position_id p) (wrap64 (pr_qty_open p + q))
      (calculateWeightedAverageEntryDecimal (dec env) (sql_float sq (pr_entry_price p)) (pr_qty_open p) price q) (pr_qty_used p + q)
      (NewFromFloat (dec env) (sql_float sq (pr_realized_score p))) db = Inr db'" and x: "fst x = db'" "Branch (snd x) = ''add''"
    using assms(1) w by (auto simp: addToPosition_def Let_def res_simps scan_position_def zeroResult_def)
  show ?thesis using UpdatePositionTx_step [OF up assms(2) p] x
    by (cases x) (auto simp: moves_def Let_def applyToUser_def intro: exI [of _ q])
qed

lemma closeFully_moves:
  assumes cl: "closeFully env order us (scan_position sq p) price q pre db = Inr x" and t: "tables_ok db"
    and p: "p \<in> set (td_positions db)" "used_by (rq_ContestID order) (rq_UserID order) p"
    and q: "0 < q" "is_i64 q" "pr_qty_open p \<le> q" and A: "0 \<le> us_QtyAvailable us"
    and w: "is_i64 (us_QtyAvailable us + pr_qty_used p + (if pre then q else q - pr_qty_open p))"
  shows "moves env order us db (if pre then q else q - pr_qty_open p) x"
proof -
  define over where "over = q - pr_qty_open p"
  define portion where "portion = (if pre then pr_qty_open p else 0)"
  have po: "0 \<le> pr_qty_open p" "0 \<le> pr_qty_used p" using t p(1) by (auto simp: tables_ok_def position_ok_def)
  have over: "0 \<le> over" "is_i64 over" using q po by (auto simp: over_def is_i64_def)
  have wover [simp]: "wrap64 (q - pr_qty_open p) = over" using over by (simp add: over_def)
  have portion_eq [simp]: "q - over = pr_qty_open p" by (simp add: over_def)
  have rel: "is_i64 (pr_qty_used p + portion)" "is_i64 (us_QtyAvailable us + (pr_qty_used p + portion))"
    using w A po q by (auto simp: portion_def is_i64_def split: if_splits)
  obtain sc db1 av db2 db3 where
    1: "ClosePositionTx (sql env) (pr_position_id p) sc db = Inr db1" and
    2: "UpdateParticipantQtyAndScoreTx (sql env) (rq_ContestID order) (rq_UserID order) (fst av) (snd av) db1 = Inr db2" and
    3: "(if over > 0 then InsertPositionTx (sql env) (uuid_position env) (rq_ContestID order) (rq_UserID order) (rq_Symbol order)
           (OrderSideToPositionSide (rq_Side order)) over price over db2 else Inr db2) = Inr db3" and
    x: "fst x = db3" "Branch (snd x) = ''close''" "r_QtyReleased (snd x) = pr_qty_used p + portion"
    using cl rel by (cases pre) (auto simp: closeFully_def Let_def res_simps scan_position_def zeroResult_def portion_def)
  have s1: "pos_step (rq_ContestID order) (rq_UserID order) (- pr_qty_used p) db db1" by (rule ClosePositionTx_step [OF 1 t p])
  have s2: "pos_step (rq_ContestID order) (rq_UserID order) (- pr_qty_used p + 0) db db2"
    by (rule pos_step_trans [OF s1 UpdateParticipantQtyAndScoreTx_step [OF 2 pos_step_tables [OF s1]]])
  have s3: "pos_step (rq_ContestID order) (rq_UserID order) over db2 db3"
  proof (cases "over > 0")
    case True
    then show ?thesis using 3 InsertPositionTx_step [OF _ pos_step_tables [OF s2] over(2)] by simp
  next
    case False
    then show ?thesis using 3 over pos_step_tables [OF s2] by (simp add: pos_step_def)
  qed
  have "pos_step (rq_ContestID order) (rq_UserID order) (- pr_qty_used p + 0 + over) db db3" by (rule pos_step_trans [OF s2 s3])
  moreover have "us_QtyAvailable (applyToUser env order (snd x) us) = us_QtyAvailable us + (pr_qty_used p + portion)"
    using x rel by (simp add: applyToUser_def Let_def)
  moreover have "us_QtyTotal (applyToUser env order (snd x) us) = us_QtyTotal us"
    "us_PendingOrders (applyToUser env order (snd x) us) = us_PendingOrders us"
    using x by (simp_all add: applyToUser_def Let_def)
  ultimately show ?thesis using x(1) po
    by (cases x) (auto simp: moves_def Let_def portion_def over_def intro!: exI [of _ "- pr_qty_used p + 0 + over"])
qed

lemma closePartly_moves:
  assumes cl: "closePartly env order us (scan_position sq p) price q pre db = Inr x" and t: "tables_ok db"
    and p: "p \<in> set (td_positions db)" "used_by (rq_ContestID order) (rq_UserID order) p"
    and q: "0 < q" and A: "0 \<le> us_QtyAvailable us"
    and w: "is_i64 (us_QtyAvailable us + pr_qty_used p + (if pre then q else 0))"
  shows "moves env order us db (if pre then q else 0) x"
proof -
  define part where "part = proportionalQtyUsed (pr_qty_used p) q (pr_qty_open p)"
  define portion where "portion = (if pre then q else 0)"
  have part: "0 < part" "is_i64 part" using proportionalQtyUsed_pos [OF q] by (simp_all add: part_def)
  have po: "0 \<le> pr_qty_used p" using t p(1) by (auto simp: tables_ok_def position_ok_def)
  have "is_i64 (pr_qty_used p)" using w A po q by (auto simp: is_i64_def split: if_splits)
  then have wused: "wrap64 (pr_qty_used p - part) = pr_qty_used p - part" using part po by (intro wrap64_id) (simp add: is_i64_def)
  obtain en sc db1 av db2 where
    1: "UpdatePositionTx (sql env) (pr_position_id p) (wrap64 (pr_qty_open p - q)) en (pr_qty_used p - part) sc db = Inr db1" and
    2: "UpdateParticipantQtyAndScoreTx (sql env) (rq_ContestID order) (rq_UserID order) (fst av) (snd av) db1 = Inr db2" and
    x: "fst x = db2" "Branch (snd x) = ''partial_close''" "r_QtyReleased (snd x) = wrap64 (part + portion)"
    using cl by (auto simp: closePartly_def Let_def res_simps scan_position_def zeroResult_def portion_def wused part_def [symmetric])
  have "pos_step (rq_ContestID order) (rq_UserID order) (pr_qty_used p - part - pr_qty_used p) db db1 \<and> 0 \<le> pr_qty_used p - part"
    by (rule UpdatePositionTx_step [OF 1 t p]) simp
  then have s1: "pos_step (rq_ContestID order) (rq_UserID order) (- part) db db1" and le: "part \<le> pr_qty_used p" by simp_all
  have s2: "pos_step (rq_ContestID order) (rq_UserID order) (- part + 0) db db2"
    by (rule pos_step_trans [OF s1 UpdateParticipantQtyAndScoreTx_step [OF 2 pos_step_tables [OF s1]]])
  have "is_i64 (us_QtyAvailable us + (part + portion))"
    by (rule is_i64_upto [OF w]) (use le part A q in \<open>auto simp: portion_def\<close>)
  then have "us_QtyAvailable (applyToUser env order (snd x) us) = us_QtyAvailable us + (part + portion)"
    using x by (simp add: applyToUser_def Let_def)
  moreover have "us_QtyTotal (applyToUser env order (snd x) us) = us_QtyTotal us"
    "us_PendingOrders (applyToUser env order (snd x) us) = us_PendingOrders us"
    using x by (simp_all add: applyToUser_def Let_def)
  ultimately show ?thesis using x(1) s2 part q
    by (cases x) (auto simp: moves_def Let_def portion_def intro!: exI [of _ "- part"])
qed

lemma open_in_used_by: "open_in c u s p \<Longrightarrow> used_by c u p"
  by (simp add: open_in_def used_by_def)

text \<open>
  Whatever branch a fill takes, the units that the user has available and the units the positions
  hold grow together by exactly what the fill consumes of the reservation.
\<close>

lemma updatePositionTx_moves:
  assumes up: "updatePositionTx env order us price q pre db = Inr x" and t: "tables_ok db"
    and q: "0 < q" "is_i64 q" and A: "0 \<le> us_QtyAvailable us"
    and taken: "taken = consumed (GetOpenPosition (sql env) (rq_ContestID order) (rq_UserID order) (rq_Symbol order) db) (rq_Side order) q pre"
    and w: "is_i64 (us_QtyAvailable us + used (rq_ContestID order) (rq_UserID order) db + taken)"
  shows "moves env order us db taken x"
proof (cases "GetOpenPosition (sql env) (rq_ContestID order) (rq_UserID order) (rq_Symbol order) db")
  case None
  then show ?thesis
    using up openNewPosition_moves [OF _ t q(2)] by (simp add: updatePositionTx_def GetOpenPositionTx_eq taken consumed_def)
next
  case (Some dbPos)
  then obtain p where p: "p \<in> set (td_positions db)" "open_in (rq_ContestID order) (rq_UserID order) (rq_Symbol order) p"
    "dbPos = scan_position (sql env) p" by (rule GetOpenPosition_SomeD)
  note u = open_in_used_by [OF p(2)]
  have le: "0 \<le> pr_qty_used p" "pr_qty_used p \<le> used (rq_ContestID order) (rq_UserID order) db"
    using t p(1) u sum_where_ge [of "td_positions db" "used_by (rq_ContestID order) (rq_UserID order)" pr_qty_used p]
    by (auto simp: used_def tables_ok_def position_ok_def)
  have taken0: "0 \<le> taken" using q by (simp add: taken Some consumed_def)
  have w': "is_i64 (us_QtyAvailable us + pr_qty_used p + taken)" by (rule is_i64_upto [OF w]) (use le A taken0 in simp_all)
  show ?thesis
  proof (cases "IsSameSide (db_Side dbPos) (rq_Side order)")
    case True
    then have "taken = q" by (simp add: taken Some consumed_def)
    moreover have "is_i64 (pr_qty_used p + q)" by (rule is_i64_upto [OF w']) (use le A q calculation in simp_all)
    ultimately show ?thesis
      using up True addToPosition_moves [OF _ t p(1) u] by (simp add: updatePositionTx_def GetOpenPositionTx_eq Some p(3))
  next
    case opp: False
    show ?thesis
    proof (cases "pr_qty_open p \<le> q")
      case True
      then have "taken = (if pre then q else q - pr_qty_open p)" using opp by (simp add: taken Some consumed_def p(3) scan_position_def)
      then show ?thesis using up opp True closeFully_moves [OF _ t p(1) u q True A] w'
        by (simp add: updatePositionTx_def GetOpenPositionTx_eq Some p(3) scan_position_def)
    next
      case False
      then have "taken = (if pre then q else 0)" using opp by (simp add: taken Some consumed_def p(3) scan_position_def)
      then show ?thesis using up opp False closePartly_moves [OF _ t p(1) u q(1) A] w'
        by (simp add: updatePositionTx_def GetOpenPositionTx_eq Some p(3) scan_position_def)
    qed
  qed
qed

end
