(* ===== verification/Trading_Conservation.thy ===== *)
theory Trading_Conservation
  imports Trading_Power
begin

text \<open>
  Buying power is conserved by the handlers of the trading engine, and the sequences of requests
  that break it. \<open>power\<close> is the invariant as a predicate of what it depends on: the database, the
  users in memory, the cached participants and the waiting orders of the pending book.
\<close>

section \<open>The invariant\<close>

definition user_ok :: "string \<Rightarrow> string \<Rightarrow> UserState \<Rightarrow> tdb \<Rightarrow> bool" where
  "user_ok c u us db \<longleftrightarrow>
     0 \<le> us_QtyAvailable us \<and> us_QtyAvailable us + used c u db + waiting c u db = us_QtyTotal us \<and> is_i64 (us_QtyTotal us) \<and>
     (\<forall>oid po. us_PendingOrders us oid = Some po \<longrightarrow>
        (\<exists>r \<in> set (td_orders db). or_order_id r = oid \<and> waits_for c u r \<and> or_qty r = po_Qty po))"

lemma user_okD:
  "user_ok c u us db \<Longrightarrow> us_QtyAvailable us + used c u db + waiting c u db = us_QtyTotal us"
  "user_ok c u us db \<Longrightarrow> 0 \<le> us_QtyAvailable us" "user_ok c u us db \<Longrightarrow> is_i64 (us_QtyTotal us)"
  unfolding user_ok_def by blast+

type_synonym users = "string \<Rightarrow> string \<Rightarrow> UserState option"

definition unloaded_ok :: "tdb \<Rightarrow> users \<Rightarrow> bool" where
  "unloaded_ok db U \<longleftrightarrow>
     (\<forall>p \<in> set (td_participants db). pt_active p \<and> U (pt_contest_id p) (pt_user_id p) = None \<longrightarrow>
        0 \<le> pt_qty_available p \<and> is_i64 (pt_qty_total p) \<and>
        pt_qty_available p + used (pt_contest_id p) (pt_user_id p) db + waiting (pt_contest_id p) (pt_user_id p) db = pt_qty_total p)"

definition book_ok :: "PendingOrderInfo by_symbol \<Rightarrow> users \<Rightarrow> bool" where
  "book_ok B U \<longleftrightarrow>
     (\<forall>s oid i. lookup2 B s oid = Some i \<longrightarrow> pi_OrderID i = oid \<and> pi_Symbol i = s \<and>
        (\<exists>us po. U (pi_ContestID i) (pi_UserID i) = Some us \<and> us_PendingOrders us oid = Some po \<and>
           po_Qty po = pi_Qty i \<and> po_Symbol po = s))"

definition power :: "tdb \<Rightarrow> users \<Rightarrow> (string \<times> string) set \<Rightarrow> PendingOrderInfo by_symbol \<Rightarrow> bool" where
  "power db U C B \<longleftrightarrow>
     tables_ok db \<and> (\<forall>c u us. U c u = Some us \<longrightarrow> user_ok c u us db) \<and> unloaded_ok db U \<and>
     (\<forall>(c, u) \<in> C. U c u \<noteq> None) \<and> book_ok B U"

definition users_of :: "engine \<Rightarrow> users" where
  "users_of e = (\<lambda>c u. user_of c u e)"

definition power_ok :: "engine \<Rightarrow> bool" where
  "power_ok e \<longleftrightarrow> power (e_db e) (users_of e) (dom (e_participantCache e)) (ordersBySymbol (e_book e))"

lemma users_of_simps [simp]:
  "users_of (e\<lparr>e_db := db\<rparr>) = users_of e" "users_of (e\<lparr>e_book := b\<rparr>) = users_of e"
  "users_of (e\<lparr>e_contestCache := cc\<rparr>) = users_of e" "users_of (e\<lparr>e_participantCache := pc\<rparr>) = users_of e"
  "users_of (e\<lparr>e_symbolCache := sc\<rparr>) = users_of e" "users_of (put_db db e) = users_of e"
  by (simp_all add: users_of_def user_of_def put_db_def)

lemma users_of_put_user:
  assumes "users_of e c u \<noteq> None"
  shows "users_of (put_user c u us e) = (\<lambda>c' u'. if c' = c \<and> u' = u then Some us else users_of e c' u')"
  using assms by (auto simp: users_of_def user_of_def put_user_def GetUser_def fun_eq_iff split: option.splits)

lemma put_user_simps [simp]:
  "e_db (put_user c u us e) = e_db e" "e_book (put_user c u us e) = e_book e"
  "e_participantCache (put_user c u us e) = e_participantCache e" "e_prices (put_user c u us e) = e_prices e"
  by (simp_all add: put_user_def split: option.splits)

lemma put_db_simps [simp]:
  "e_db (put_db db e) = db" "e_book (put_db db e) = e_book e" "e_participantCache (put_db db e) = e_participantCache e"
  by (simp_all add: put_db_def)

lemma ensureContest_simps [simp]:
  "e_db (ensureContest c e) = e_db e" "e_book (ensureContest c e) = e_book e"
  "e_participantCache (ensureContest c e) = e_participantCache e" "users_of (ensureContest c e) = users_of e"
  by (auto simp: ensureContest_def GetOrCreateContest_def users_of_def user_of_def GetUser_def Let_def fun_eq_iff split: option.splits)

lemma getContestCached_simps:
  assumes "getContestCached env c e = (k, e1)"
  shows "e_db e1 = e_db e" "e_book e1 = e_book e" "e_participantCache e1 = e_participantCache e" "users_of e1 = users_of e"
  using assms by (auto simp: getContestCached_def split: option.splits if_splits)

lemma isSymbolAllowedInContest_simps:
  assumes "isSymbolAllowedInContest env c s e = (k, e1)"
  shows "e_db e1 = e_db e" "e_book e1 = e_book e" "e_participantCache e1 = e_participantCache e" "users_of e1 = users_of e"
  using assms by (auto simp: isSymbolAllowedInContest_def Let_def split: option.splits if_splits)

lemma power_ok_cong:
  "power_ok e \<Longrightarrow> e_db e' = e_db e \<Longrightarrow> e_participantCache e' = e_participantCache e \<Longrightarrow>
   ordersBySymbol (e_book e') = ordersBySymbol (e_book e) \<Longrightarrow> users_of e' = users_of e \<Longrightarrow> power_ok e'"
  by (simp add: power_ok_def)

section \<open>One user's step\<close>

text \<open>
  A handler changes one user: everything that counts for the others stays. \<open>rows_kept\<close> is about
  the order rows of the others.
\<close>

definition others_kept :: "string \<Rightarrow> string \<Rightarrow> tdb \<Rightarrow> tdb \<Rightarrow> bool" where
  "others_kept c u db db' \<longleftrightarrow>
     same_others c u db db' \<and>
     (\<forall>c' u'. \<not> (c' = c \<and> u' = u) \<longrightarrow> used c' u' db' = used c' u' db \<and> waiting c' u' db' = waiting c' u' db) \<and>
     (\<forall>r \<in> set (td_orders db). \<not> (or_contest_id r = c \<and> or_user_id r = u) \<longrightarrow> r \<in> set (td_orders db'))"

lemma others_kept_refl [simp]: "others_kept c u db db"
  by (simp add: others_kept_def)

lemma others_kept_trans: "others_kept c u a b \<Longrightarrow> others_kept c u b d \<Longrightarrow> others_kept c u a d"
  unfolding others_kept_def by (auto intro: same_others_trans)

lemma pos_step_others_kept: "pos_step c u d db db' \<Longrightarrow> others_kept c u db db'"
  by (auto simp: pos_step_def others_kept_def waiting_def)

lemma user_ok_others:
  assumes "user_ok c' u' us db" "others_kept c u db db'" "\<not> (c' = c \<and> u' = u)"
  shows "user_ok c' u' us db'"
  using assms unfolding user_ok_def others_kept_def waits_for_def by (smt (verit, best))

lemma power_step:
  assumes P: "power db U C B" and old: "U c u \<noteq> None" and t: "tables_ok db'"
    and own: "user_ok c u us' db'" and oth: "others_kept c u db db'"
    and U': "U' = (\<lambda>c' u'. if c' = c \<and> u' = u then Some us' else U c' u')" and B': "book_ok B' U'"
  shows "power db' U' C B'"
proof -
  have "user_ok c' u' us db'" if "U' c' u' = Some us" for c' u' us
    using that P own user_ok_others [OF _ oth] by (auto simp: U' power_def split: if_splits)
  moreover have "unloaded_ok db' U'"
    unfolding unloaded_ok_def
  proof safe
    fix p
    assume p: "p \<in> set (td_participants db')" "pt_active p" "U' (pt_contest_id p) (pt_user_id p) = None"
    then have ne: "\<not> (pt_contest_id p = c \<and> pt_user_id p = u)" "U (pt_contest_id p) (pt_user_id p) = None"
      by (auto simp: U' split: if_splits)
    then have "p \<in> set (td_participants db)" using oth p by (auto simp: others_kept_def same_others_def active_of_def)
    then show "0 \<le> pt_qty_available p" "is_i64 (pt_qty_total p)"
      "pt_qty_available p + used (pt_contest_id p) (pt_user_id p) db' + waiting (pt_contest_id p) (pt_user_id p) db' = pt_qty_total p"
      using P p(2) ne oth by (simp_all add: power_def unloaded_ok_def others_kept_def)
  qed
  moreover have "\<forall>(c, u) \<in> C. U' c u \<noteq> None" using P by (auto simp: power_def U')
  ultimately show ?thesis using t B' by (auto simp: power_def)
qed

lemma book_okE:
  assumes "book_ok B U" "lookup2 B s oid = Some i"
  obtains us po where "pi_OrderID i = oid" "pi_Symbol i = s" "U (pi_ContestID i) (pi_UserID i) = Some us"
    "us_PendingOrders us oid = Some po" "po_Qty po = pi_Qty i" "po_Symbol po = s"
  using assms unfolding book_ok_def by metis

text \<open>Handlers that leave the waiting orders of the user alone keep the book.\<close>

lemma book_ok_same:
  assumes "book_ok B U" "U c u = Some us" "us_PendingOrders us' = us_PendingOrders us"
  shows "book_ok B (\<lambda>c' u'. if c' = c \<and> u' = u then Some us' else U c' u')"
  using assms unfolding book_ok_def by (smt (verit, best) option.inject)

lemma power_pending:
  assumes "power db U C B" "U c u = Some us" "us_PendingOrders us oid = Some po"
  obtains r where "r \<in> set (td_orders db)" "or_order_id r = oid" "waits_for c u r" "or_qty r = po_Qty po"
  using assms unfolding power_def user_ok_def by metis

lemma book_ok_remove:
  assumes P: "power db U C B" and us: "U c u = Some us" and po: "us_PendingOrders us oid = Some po" "po_Symbol po = s"
    and us': "us_PendingOrders us' = (us_PendingOrders us)(oid := None)"
  shows "book_ok (delete2 B s oid) (\<lambda>c' u'. if c' = c \<and> u' = u then Some us' else U c' u')"
proof -
  obtain r where r: "r \<in> set (td_orders db)" "or_order_id r = oid" "waits_for c u r"
    using power_pending [OF P us po(1)] by blast
  have d: "distinct (map or_order_id (td_orders db))" using P by (simp add: power_def tables_ok_def)
  have own: "c' = c \<and> u' = u" if h: "U c' u' = Some us0" "us_PendingOrders us0 oid = Some po0" for c' u' us0 po0
  proof -
    obtain r' where r': "r' \<in> set (td_orders db)" "or_order_id r' = oid" "waits_for c' u' r'"
      using power_pending [OF P h] by blast
    then have "r' = r" using r d by (auto simp: distinct_map inj_on_def)
    then show ?thesis using r(3) r'(3) by (simp add: waits_for_def)
  qed
  show ?thesis
    unfolding book_ok_def
  proof (intro allI impI)
    fix s' oid' i
    assume "lookup2 (delete2 B s oid) s' oid' = Some i"
    then have ne: "\<not> (s' = s \<and> oid' = oid)" and l: "lookup2 B s' oid' = Some i" by (auto split: if_splits)
    have "book_ok B U" using P by (simp add: power_def)
    then obtain us0 po0 where i: "pi_OrderID i = oid'" "pi_Symbol i = s'" "U (pi_ContestID i) (pi_UserID i) = Some us0"
      "us_PendingOrders us0 oid' = Some po0" "po_Qty po0 = pi_Qty i" "po_Symbol po0 = s'"
      using l by (rule book_okE)
    then have "oid' \<noteq> oid" using own us po ne by (metis option.inject)
    then show "pi_OrderID i = oid' \<and> pi_Symbol i = s' \<and> (\<exists>us po. (if pi_ContestID i = c \<and> pi_UserID i = u then Some us'
        else U (pi_ContestID i) (pi_UserID i)) = Some us \<and> us_PendingOrders us oid' = Some po \<and> po_Qty po = pi_Qty i \<and> po_Symbol po = s')"
      using i us us' by auto
  qed
qed

lemma book_ok_add:
  assumes "book_ok B U" "U c u = Some us" "us_PendingOrders us' = (us_PendingOrders us)(oid \<mapsto> po)"
    and "us_PendingOrders us oid = None" "pi_OrderID i = oid" "pi_ContestID i = c" "pi_UserID i = u" "pi_Qty i = po_Qty po" "pi_Symbol i = po_Symbol po"
  shows "book_ok (insert2 B (pi_Symbol i) oid i) (\<lambda>c' u'. if c' = c \<and> u' = u then Some us' else U c' u')"
  unfolding book_ok_def
proof (intro allI impI)
  fix s' oid' i'
  assume l: "lookup2 (insert2 B (pi_Symbol i) oid i) s' oid' = Some i'"
  show "pi_OrderID i' = oid' \<and> pi_Symbol i' = s' \<and> (\<exists>us0 po0. (if pi_ContestID i' = c \<and> pi_UserID i' = u then Some us'
      else U (pi_ContestID i') (pi_UserID i')) = Some us0 \<and> us_PendingOrders us0 oid' = Some po0 \<and> po_Qty po0 = pi_Qty i' \<and> po_Symbol po0 = s')"
  proof (cases "s' = pi_Symbol i \<and> oid' = oid")
    case True
    then show ?thesis using l assms by auto
  next
    case False
    then have "lookup2 B s' oid' = Some i'" using l by (auto split: if_splits)
    with assms(1) obtain us0 po0 where o': "pi_OrderID i' = oid'" "pi_Symbol i' = s'" "U (pi_ContestID i') (pi_UserID i') = Some us0"
      "us_PendingOrders us0 oid' = Some po0" "po_Qty po0 = pi_Qty i'" "po_Symbol po0 = s'"
      by (rule book_okE)
    show ?thesis
    proof (cases "pi_ContestID i' = c \<and> pi_UserID i' = u")
      case True
      then have "us0 = us" using o'(3) assms(2) by simp
      then have "us_PendingOrders us' oid' = Some po0" using o'(4) assms(3,4) by auto
      then show ?thesis using o' True by simp
    next
      case False
      then show ?thesis using o' by auto
    qed
  qed
qed

section \<open>Transactions\<close>

lemma positionStage_moves:
  assumes st: "positionStage env order us fid price q pre db = Inr x" and t: "tables_ok db"
    and q: "0 < q" "is_i64 q" and A: "0 \<le> us_QtyAvailable us"
    and taken: "taken = consumed (GetOpenPosition (sql env) (rq_ContestID order) (rq_UserID order) (rq_Symbol order) db) (rq_Side order) q pre"
    and w: "is_i64 (us_QtyAvailable us + used (rq_ContestID order) (rq_UserID order) db + taken)"
  shows "moves env order us db taken x"
proof -
  let ?c = "rq_ContestID order" and ?u = "rq_UserID order"
  obtain db1 r db2 db3 where
    1: "updatePositionTx env order us price q pre db = Inr (db1, r)" and
    2: "(if Branch r = ''close'' \<or> Branch r = ''partial_close'' then UpdateFillRealizedPnlTx (sql env) fid (r_TradeScore r) db1 else Inr db1) = Inr db2" and
    3: "(if Branch r = ''new'' \<or> Branch r = ''add'' then UpdateParticipantQtyAvailableTx ?c ?u (us_QtyAvailable us) db2 else Inr db2) = Inr db3" and
    x: "x = (db3, r)"
    using st by (auto simp: positionStage_def res_simps)
  have m: "moves env order us db taken (db1, r)" by (rule updatePositionTx_moves [OF 1 t q A taken w])
  then obtain d where d: "pos_step ?c ?u d db db1" by (auto simp: moves_def Let_def)
  have s2: "pos_step ?c ?u 0 db1 db2"
    using 2 UpdateFillRealizedPnlTx_step [OF _ pos_step_tables [OF d]] pos_step_tables [OF d]
    by (auto simp: pos_step_def split: if_splits)
  have s3: "pos_step ?c ?u 0 db2 db3"
    using 3 UpdateParticipantQtyAvailableTx_step [OF _ pos_step_tables [OF s2]] pos_step_tables [OF s2]
    by (auto simp: pos_step_def split: if_splits)
  have "pos_step ?c ?u d' db db3" if "pos_step ?c ?u d' db db1" for d'
    using pos_step_trans [OF pos_step_trans [OF that s2] s3] by simp
  then show ?thesis using m unfolding x moves_def Let_def prod.case by blast
qed

text \<open>A status update of an order row of the user.\<close>

lemma UpdateOrderStatusTx_effect:
  assumes up: "UpdateOrderStatusTx oid st q db = Inr db'" and t: "tables_ok db"
    and r: "r \<in> set (td_orders db)" "or_order_id r = oid" "or_contest_id r = c" "or_user_id r = u"
  shows "tables_ok db'" "others_kept c u db db'" "td_positions db' = td_positions db" "td_participants db' = td_participants db"
    "td_contests db' = td_contests db"
    "waiting c u db' = waiting c u db - (if or_status r = ''open'' then or_qty r else 0) + (if st = ''open'' then or_qty r else 0)"
    "\<And>x. x \<in> set (td_orders db) \<Longrightarrow> or_order_id x \<noteq> oid \<Longrightarrow> x \<in> set (td_orders db')"
    "r\<lparr>or_status := st, or_qty_filled := q\<rparr> \<in> set (td_orders db')"
proof -
  let ?f = "\<lambda>x. x\<lparr>or_status := st, or_qty_filled := q\<rparr>"
  define rows where "rows = map (\<lambda>x. if or_order_id x = or_order_id r then ?f x else x) (td_orders db)"
  have db': "db' = db\<lparr>td_orders := rows\<rparr>" and ok: "\<forall>x \<in> set (td_orders db). or_order_id x = oid \<longrightarrow> order_ok (?f x)"
    using up r(2) by (auto simp: UpdateOrderStatusTx_def res_simps update_rows_Inr rows_def)
  have d: "distinct (map or_order_id (td_orders db))" using t by (simp add: tables_ok_def)
  have ids: "map or_order_id rows = map or_order_id (td_orders db)" by (simp add: rows_def)
  have "\<forall>x \<in> set rows. order_ok x" using t ok r(2) by (auto simp: rows_def tables_ok_def)
  then show t': "tables_ok db'" using t ids d by (simp add: db' tables_ok_def)
  show pos: "td_positions db' = td_positions db" and part: "td_participants db' = td_participants db"
    and con: "td_contests db' = td_contests db" by (simp_all add: db')
  show keep: "x \<in> set (td_orders db')" if "x \<in> set (td_orders db)" "or_order_id x \<noteq> oid" for x
    using that r(2) by (auto simp: db' rows_def)
  show "?f r \<in> set (td_orders db')" using r(1) by (auto simp: db' rows_def)
  have sum: "waiting c' u' db' = waiting c' u' db - (if waits_for c' u' r then or_qty r else 0)
      + (if waits_for c' u' (?f r) then or_qty r else 0)" for c' u'
    using sum_where_update [OF d r(1), of "waits_for c' u'" or_qty ?f] by (simp add: waiting_def db' rows_def)
  then show "waiting c u db' = waiting c u db - (if or_status r = ''open'' then or_qty r else 0) + (if st = ''open'' then or_qty r else 0)"
    using r(3,4) by (simp add: waits_for_def)
  have "x \<in> set (td_orders db')" if "x \<in> set (td_orders db)" "\<not> (or_contest_id x = c \<and> or_user_id x = u)" for x
  proof (rule keep [OF that(1)])
    show "or_order_id x \<noteq> oid" using that r d by (auto simp: distinct_map inj_on_def)
  qed
  moreover have "waiting c' u' db' = waiting c' u' db" if "\<not> (c' = c \<and> u' = u)" for c' u'
    using sum [of c' u'] that r(3,4) by (auto simp: waits_for_def)
  ultimately show "others_kept c u db db'" by (simp add: others_kept_def same_others_def used_def pos part)
qed

lemma order_qty_pos: "tables_ok db \<Longrightarrow> r \<in> set (td_orders db) \<Longrightarrow> 0 < or_qty r"
  by (simp add: tables_ok_def order_ok_def)

lemma waiting_ge: "tables_ok db \<Longrightarrow> r \<in> set (td_orders db) \<Longrightarrow> waits_for c u r \<Longrightarrow> or_qty r \<le> waiting c u db"
  unfolding waiting_def by (rule sum_where_ge) (auto dest: order_qty_pos)

lemma GetOpenPosition_cong: "td_positions db' = td_positions db \<Longrightarrow> GetOpenPosition sq c u s db' = GetOpenPosition sq c u s db"
  by (simp add: GetOpenPosition_def)

text \<open>
  A fill: \<open>us0\<close> is the user before the handler, \<open>us1\<close> the user the transaction sees. What the fill
  takes has been set aside: from the available units, or by the waiting order itself.
\<close>

lemma fillTx_user_ok:
  assumes fill: "fillTx env order us1 fid price q pre db = Inr (db', res)"
    and P: "power db U C B" and us0: "U (rq_ContestID order) (rq_UserID order) = Some us0"
    and r: "r \<in> set (td_orders db)" "or_order_id r = rq_OrderID order" "or_contest_id r = rq_ContestID order" "or_user_id r = rq_UserID order"
    and q: "0 < q" "is_i64 q" and A: "0 \<le> us_QtyAvailable us1"
    and taken: "us_QtyAvailable us1 + consumed (GetOpenPosition (sql env) (rq_ContestID order) (rq_UserID order) (rq_Symbol order) db) (rq_Side order) q pre
      = us_QtyAvailable us0 + (if or_status r = ''open'' then or_qty r else 0)"
    and total: "us_QtyTotal us1 = us_QtyTotal us0"
    and pend: "\<And>oid po. us_PendingOrders us1 oid = Some po \<Longrightarrow> us_PendingOrders us0 oid = Some po \<and> oid \<noteq> rq_OrderID order"
  shows "tables_ok db' \<and> others_kept (rq_ContestID order) (rq_UserID order) db db' \<and>
    user_ok (rq_ContestID order) (rq_UserID order) (applyToUser env order res us1) db' \<and>
    us_PendingOrders (applyToUser env order res us1) = us_PendingOrders us1"
proof -
  let ?c = "rq_ContestID order" and ?u = "rq_UserID order"
  let ?held = "if or_status r = ''open'' then or_qty r else 0"
  define k where "k = consumed (GetOpenPosition (sql env) ?c ?u (rq_Symbol order) db) (rq_Side order) q pre"
  have t: "tables_ok db" and ok0: "user_ok ?c ?u us0 db" using P us0 by (simp_all add: power_def)
  obtain db1 db2 where 1: "InsertFillTx (sql env) fid (rq_OrderID order) ?c ?u (rq_Symbol order) (rq_Side order) q price db = Inr db1"
    and 2: "UpdateOrderStatusTx (rq_OrderID order) ''filled'' q db1 = Inr db2"
    and 3: "positionStage env order us1 fid price q pre db2 = Inr (db', res)"
    using fill by (auto simp: fillTx_def res_simps)
  have s1: "pos_step ?c ?u 0 db db1" by (rule InsertFillTx_step [OF 1 t])
  have d1: "td_orders db1 = td_orders db" "td_positions db1 = td_positions db" "used ?c ?u db1 = used ?c ?u db" "waiting ?c ?u db1 = waiting ?c ?u db"
    using s1 1 by (auto simp: pos_step_def waiting_def InsertFillTx_def res_simps split: if_splits)
  note e2 = UpdateOrderStatusTx_effect [OF 2 pos_step_tables [OF s1] r(1) [folded d1(1)] r(2-4)]
  have d2: "used ?c ?u db2 = used ?c ?u db" "waiting ?c ?u db2 = waiting ?c ?u db - ?held"
    using e2(3,6) d1(2,4) by (simp_all add: used_def)
  have held: "0 \<le> ?held" "?held \<le> waiting ?c ?u db"
    using order_qty_pos [OF t r(1)] waiting_ge [OF t r(1), of ?c ?u] waiting_nonneg [OF t, of ?c ?u] r(3,4)
    by (auto simp: waits_for_def)
  have k0: "0 \<le> k" using q by (auto simp: k_def consumed_def split: option.splits)
  have w: "is_i64 (us_QtyAvailable us1 + used ?c ?u db2 + k)"
    by (rule is_i64_upto [where b = "us_QtyTotal us0"])
      (use ok0 taken held used_nonneg [OF t, of ?c ?u] A k0 d2 in \<open>auto simp: user_ok_def k_def\<close>)
  have "k = consumed (GetOpenPosition (sql env) ?c ?u (rq_Symbol order) db2) (rq_Side order) q pre"
    using GetOpenPosition_cong [of db2 db] e2(3) d1(2) by (simp add: k_def)
  then have "moves env order us1 db2 k (db', res)" by (rule positionStage_moves [OF 3 e2(1) q A _ w])
  then obtain d where d: "pos_step ?c ?u d db2 db'" "us_QtyAvailable (applyToUser env order res us1) + d = us_QtyAvailable us1 + k"
    "us_QtyAvailable us1 \<le> us_QtyAvailable (applyToUser env order res us1)"
    "us_QtyTotal (applyToUser env order res us1) = us_QtyTotal us1"
    "us_PendingOrders (applyToUser env order res us1) = us_PendingOrders us1"
    by (auto simp: moves_def Let_def)
  have d3: "used ?c ?u db' = used ?c ?u db2 + d" "waiting ?c ?u db' = waiting ?c ?u db2" "td_orders db' = td_orders db2"
    using d(1) by (auto simp: pos_step_def waiting_def)
  have rows: "\<exists>x \<in> set (td_orders db'). or_order_id x = oid \<and> waits_for ?c ?u x \<and> or_qty x = po_Qty po"
    if h: "us_PendingOrders us1 oid = Some po" for oid po
  proof -
    have o': "us_PendingOrders us0 oid = Some po" "oid \<noteq> rq_OrderID order" using pend [OF h] by simp_all
    then obtain x where x: "x \<in> set (td_orders db)" "or_order_id x = oid" "waits_for ?c ?u x" "or_qty x = po_Qty po"
      using power_pending [OF P us0] by blast
    then have "x \<in> set (td_orders db')" using e2(7) [of x] o'(2) d1(1) d3(3) by simp
    then show ?thesis using x by blast
  qed
  have "user_ok ?c ?u (applyToUser env order res us1) db'"
    unfolding user_ok_def d(4,5) d3(1,2) d2 total
  proof (intro conjI allI impI)
    show "0 \<le> us_QtyAvailable (applyToUser env order res us1)" using A d(3) by simp
    show "us_QtyAvailable (applyToUser env order res us1) + (used ?c ?u db + d) + (waiting ?c ?u db - ?held) = us_QtyTotal us0"
      using user_okD [OF ok0] d(2) taken unfolding k_def by linarith
    show "is_i64 (us_QtyTotal us0)" using ok0 by (simp only: user_ok_def)
  qed (rule rows)
  moreover have "others_kept ?c ?u db db'"
    by (rule others_kept_trans [OF pos_step_others_kept [OF s1] others_kept_trans [OF e2(2) pos_step_others_kept [OF d(1)]]])
  ultimately show ?thesis using pos_step_tables [OF d(1)] d(5) by blast
qed

section \<open>Handlers\<close>

lemma trackPositionTPSL_simps [simp]:
  "e_db (trackPositionTPSL c u s side tp sl e) = e_db e" "users_of (trackPositionTPSL c u s side tp sl e) = users_of e"
  "e_participantCache (trackPositionTPSL c u s side tp sl e) = e_participantCache e"
  "ordersBySymbol (e_book (trackPositionTPSL c u s side tp sl e)) = ordersBySymbol (e_book e)"
  by (auto simp: trackPositionTPSL_def AddPositionWithTPSL_def split: option.splits)

lemma UpdatePositionQty_orders [simp]: "ordersBySymbol (UpdatePositionQty s pid q b) = ordersBySymbol b"
  by (simp add: UpdatePositionQty_def split: option.splits)

lemma applyPositionResultToMemory_facts:
  assumes "users_of e (rq_ContestID order) (rq_UserID order) = Some us"
  shows "e_db (applyPositionResultToMemory env order res e) = e_db e"
    "e_participantCache (applyPositionResultToMemory env order res e) = e_participantCache e"
    "ordersBySymbol (e_book (applyPositionResultToMemory env order res e)) = ordersBySymbol (e_book e)"
    "users_of (applyPositionResultToMemory env order res e) = (\<lambda>c' u'. if c' = rq_ContestID order \<and> u' = rq_UserID order
       then Some (applyToUser env order res us) else users_of e c' u')"
proof -
  have us: "user_of (rq_ContestID order) (rq_UserID order) e = Some us" using assms by (simp add: users_of_def)
  have ne: "users_of e (rq_ContestID order) (rq_UserID order) \<noteq> None" using assms by simp
  show "e_db (applyPositionResultToMemory env order res e) = e_db e"
    "e_participantCache (applyPositionResultToMemory env order res e) = e_participantCache e"
    "ordersBySymbol (e_book (applyPositionResultToMemory env order res e)) = ordersBySymbol (e_book e)"
    by (simp_all add: applyPositionResultToMemory_def us Let_def)
  show "users_of (applyPositionResultToMemory env order res e) = (\<lambda>c' u'. if c' = rq_ContestID order \<and> u' = rq_UserID order
       then Some (applyToUser env order res us) else users_of e c' u')"
    by (simp add: applyPositionResultToMemory_def us Let_def users_of_put_user [OF ne])
qed

lemma settleFill_facts:
  assumes "users_of e (rq_ContestID order) (rq_UserID order) \<noteq> None"
  shows "e_db (settleFill env order us db res e) = db"
    "e_participantCache (settleFill env order us db res e) = e_participantCache e"
    "ordersBySymbol (e_book (settleFill env order us db res e)) = ordersBySymbol (e_book e)"
    "users_of (settleFill env order us db res e) = (\<lambda>c' u'. if c' = rq_ContestID order \<and> u' = rq_UserID order
       then Some (applyToUser env order res us) else users_of e c' u')"
proof -
  define e1 where "e1 = put_user (rq_ContestID order) (rq_UserID order) us (put_db db e)"
  have ne: "users_of (put_db db e) (rq_ContestID order) (rq_UserID order) \<noteq> None" using assms by simp
  have u1: "users_of e1 = (\<lambda>c' u'. if c' = rq_ContestID order \<and> u' = rq_UserID order then Some us else users_of e c' u')"
    unfolding e1_def by (simp add: users_of_put_user [OF ne] cong: if_cong)
  then have "users_of e1 (rq_ContestID order) (rq_UserID order) = Some us" by simp
  note f = applyPositionResultToMemory_facts [OF this]
  show "e_db (settleFill env order us db res e) = db"
    "e_participantCache (settleFill env order us db res e) = e_participantCache e"
    "ordersBySymbol (e_book (settleFill env order us db res e)) = ordersBySymbol (e_book e)"
    by (simp_all add: settleFill_def f [unfolded e1_def])
  show "users_of (settleFill env order us db res e) = (\<lambda>c' u'. if c' = rq_ContestID order \<and> u' = rq_UserID order
       then Some (applyToUser env order res us) else users_of e c' u')"
    using f(4) u1 by (auto simp: settleFill_def e1_def fun_eq_iff)
qed

lemma powerD:
  "power db U C B \<Longrightarrow> tables_ok db" "power db U C B \<Longrightarrow> U c u = Some us \<Longrightarrow> user_ok c u us db"
  "power db U C B \<Longrightarrow> book_ok B U" "power db U C B \<Longrightarrow> unloaded_ok db U"
  by (simp_all add: power_def)

text \<open>The order row of a handler that is not waiting may change its status.\<close>

lemma status_power:
  assumes P: "power db U C B" and us: "U c u = Some us"
    and r: "r \<in> set (td_orders db)" "or_order_id r = oid" "or_contest_id r = c" "or_user_id r = u" "or_status r \<noteq> ''open''"
    and st: "st \<noteq> ''open''"
  shows "power (UpdateOrderStatus oid st q db) U C B"
proof (cases "UpdateOrderStatusTx oid st q db")
  case (Inl e)
  then show ?thesis using P by (simp add: UpdateOrderStatus_def)
next
  case (Inr db')
  note t = powerD(1) [OF P] and e = UpdateOrderStatusTx_effect [OF Inr powerD(1) [OF P] r(1-4)]
  have d: "distinct (map or_order_id (td_orders db))" using t by (simp add: tables_ok_def)
  have "user_ok c u us db'"
    unfolding user_ok_def
  proof (intro conjI allI impI)
    show "us_QtyAvailable us + used c u db' + waiting c u db' = us_QtyTotal us"
      using user_okD(1) [OF powerD(2) [OF P us]] e(3,6) r(5) st by (simp add: used_def)
    show "0 \<le> us_QtyAvailable us" "is_i64 (us_QtyTotal us)" using user_okD(2,3) [OF powerD(2) [OF P us]] .
    fix o' po
    assume "us_PendingOrders us o' = Some po"
    then obtain x where x: "x \<in> set (td_orders db)" "or_order_id x = o'" "waits_for c u x" "or_qty x = po_Qty po"
      by (rule power_pending [OF P us])
    then have "or_order_id x \<noteq> oid" using r d by (auto simp: distinct_map inj_on_def waits_for_def)
    then show "\<exists>r \<in> set (td_orders db'). or_order_id r = o' \<and> waits_for c u r \<and> or_qty r = po_Qty po" using e(7) x by blast
  qed
  moreover have "U = (\<lambda>c' u'. if c' = c \<and> u' = u then Some us else U c' u')" using us by (auto simp: fun_eq_iff)
  ultimately have "power db' U C B" by (intro power_step [OF P _ e(1) _ e(2) _ powerD(3) [OF P]]) (use us in simp_all)
  then show ?thesis using Inr by (simp add: UpdateOrderStatus_def)
qed

definition owns_row :: "OrderRequest \<Rightarrow> OrderRow \<Rightarrow> tdb \<Rightarrow> bool" where
  "owns_row order r db \<longleftrightarrow> r \<in> set (td_orders db) \<and> or_order_id r = rq_OrderID order \<and>
     or_contest_id r = rq_ContestID order \<and> or_user_id r = rq_UserID order"

lemma rejectRow_power:
  assumes "power_ok e" "users_of e (rq_ContestID order) (rq_UserID order) = Some us"
    and "owns_row order r (e_db e)" "or_status r \<noteq> ''open''"
  shows "power_ok (snd (rejectRow order reason e))"
  using assms status_power [of "e_db e" "users_of e" "dom (e_participantCache e)" "ordersBySymbol (e_book e)"
      "rq_ContestID order" "rq_UserID order" us r "rq_OrderID order" "''rejected''" 0]
  by (simp add: rejectRow_def power_ok_def owns_row_def)

lemma release_reserve:
  assumes "is_i64 (us_QtyAvailable us)" "ReserveQty q us = (True, us1)"
  shows "ReleaseQty q us1 = us"
  using assms by (auto simp: ReserveQty_def ReleaseQty_def split: if_splits)

lemma put_same_user: "users_of e c u = Some us \<Longrightarrow> users_of (put_user c u us e) = users_of e"
  by (auto simp: users_of_put_user fun_eq_iff)

lemma ReserveQty_Some:
  assumes "ReserveQty q us = (True, us1)" "0 \<le> q" "0 \<le> us_QtyAvailable us" "is_i64 (us_QtyAvailable us)"
  shows "us_QtyAvailable us1 = us_QtyAvailable us - q" "0 \<le> us_QtyAvailable us1" "us_QtyTotal us1 = us_QtyTotal us"
    "us_PendingOrders us1 = us_PendingOrders us"
proof -
  have "is_i64 (us_QtyAvailable us - q)" if "q \<le> us_QtyAvailable us" using assms that by (auto simp: is_i64_def)
  then show "us_QtyAvailable us1 = us_QtyAvailable us - q" "0 \<le> us_QtyAvailable us1" "us_QtyTotal us1 = us_QtyTotal us"
    "us_PendingOrders us1 = us_PendingOrders us"
    using assms by (auto simp: ReserveQty_def split: if_splits)
qed

lemma consumed_free:
  assumes t: "tables_ok db" and q: "0 < q" "is_i64 q"
  shows "consumed (GetOpenPosition sq c u s db) side q
      (freeQtyRequiredForOrder q (GetOpenPosition sq c u s db) side = q \<and> q > 0)
    = freeQtyRequiredForOrder q (GetOpenPosition sq c u s db) side
   \<and> 0 \<le> freeQtyRequiredForOrder q (GetOpenPosition sq c u s db) side"
proof (cases "GetOpenPosition sq c u s db")
  case None
  then show ?thesis using q by (simp add: consumed_def freeQtyRequiredForOrder_def)
next
  case (Some dbPos)
  then obtain p where p: "p \<in> set (td_positions db)" "dbPos = scan_position sq p" by (rule GetOpenPosition_SomeD)
  then have "0 \<le> db_QtyOpen dbPos" using t by (auto simp: tables_ok_def position_ok_def scan_position_def)
  then have "wrap64 (q - db_QtyOpen dbPos) = q - db_QtyOpen dbPos" if "db_QtyOpen dbPos \<le> q"
    using that q by (intro wrap64_id) (simp add: is_i64_def)
  then show ?thesis using q by (auto simp: Some consumed_def freeQtyRequiredForOrder_def)
qed

text \<open>\<open>us1\<close> has the free quantity taken out, as \<open>marketFill\<close> does it.\<close>

lemma reserve_if:
  assumes "(if 0 < free then ReserveQty free us else (True, us)) = (True, us1)" "0 \<le> free"
    and "0 \<le> us_QtyAvailable us" "is_i64 (us_QtyAvailable us)"
  shows "us_QtyAvailable us1 = us_QtyAvailable us - free" "0 \<le> us_QtyAvailable us1" "us_QtyTotal us1 = us_QtyTotal us"
    "us_PendingOrders us1 = us_PendingOrders us" "(if 0 < free then ReleaseQty free us1 else us1) = us"
  using assms ReserveQty_Some [of free us us1] release_reserve [of us free us1] by (auto split: if_splits)

lemma avail_i64: "user_ok c u us db \<Longrightarrow> tables_ok db \<Longrightarrow> is_i64 (us_QtyAvailable us)"
  by (rule is_i64_upto [where b = "us_QtyTotal us"])
    (use user_okD [of c u us db] used_nonneg [of db c u] waiting_nonneg [of db c u] in auto)

lemma not_waiting_key:
  assumes P: "power db U C B" and us: "U c u = Some us" and po: "us_PendingOrders us oid = Some po"
    and r: "r \<in> set (td_orders db)" "or_status r \<noteq> ''open''"
  shows "oid \<noteq> or_order_id r"
proof
  assume "oid = or_order_id r"
  moreover obtain x where "x \<in> set (td_orders db)" "or_order_id x = oid" "waits_for c u x"
    using power_pending [OF P us po] by blast
  moreover have "distinct (map or_order_id (td_orders db))" using powerD(1) [OF P] by (simp add: tables_ok_def)
  ultimately show False using r by (auto simp: distinct_map inj_on_def waits_for_def)
qed

lemma marketFill_power:
  assumes P: "power_ok e" and us: "users_of e (rq_ContestID order) (rq_UserID order) = Some us"
    and r: "owns_row order r (e_db e)" "or_status r \<noteq> ''open''" and q: "0 < rq_Qty order" "is_i64 (rq_Qty order)"
  shows "power_ok (snd (marketFill env order price us e))"
proof -
  let ?c = "rq_ContestID order" and ?u = "rq_UserID order"
  define op where "op = GetOpenPosition (sql env) ?c ?u (rq_Symbol order) (e_db e)"
  define free where "free = freeQtyRequiredForOrder (rq_Qty order) op (rq_Side order)"
  define pre where "pre = (free = rq_Qty order \<and> rq_Qty order > 0)"
  note P' = P [unfolded power_ok_def]
  note t = powerD(1) [OF P'] and ok = powerD(2) [OF P' us]
  have free: "consumed op (rq_Side order) (rq_Qty order) pre = free" "0 \<le> free"
    using consumed_free [OF t q, of "sql env" ?c ?u "rq_Symbol order" "rq_Side order"] by (simp_all add: op_def free_def pre_def)
  obtain reserved us1 where res: "(if 0 < free then ReserveQty free us else (True, us)) = (reserved, us1)" by (meson surj_pair)
  define tx where "tx = WithTransaction (tx_error env) (fillTx env order us1 (deterministicFillID env (rq_OrderID order)) price (rq_Qty order) pre) (e_db e)"
  define rolled where "rolled = put_user ?c ?u (if 0 < free then ReleaseQty free us1 else us1) e"
  have mf: "marketFill env order price us e =
     (if \<not> reserved then rejectRow order InsufficientAvailable e
      else if (case GetContest ?c (e_db e) of None \<Rightarrow> True | Some fresh \<Rightarrow> dc_Status fresh \<noteq> ''running'')
        then rejectRow order NoLongerRunning rolled
      else if \<not> isValidMarketPrice price then rejectRow order (InvalidMarketPrice price) rolled
      else case tx of Inl err \<Rightarrow> (Failed err, rolled) | Inr (db', result) \<Rightarrow> (Accepted, settleFill env order us1 db' result e))"
    unfolding marketFill_def Let_def op_def [symmetric] free_def [symmetric] pre_def [symmetric] res prod.case
      rolled_def [symmetric] tx_def [symmetric] by (rule refl)
  show ?thesis
  proof (cases reserved)
    case False
    then show ?thesis using rejectRow_power [OF P us r] by (simp only: mf if_True not_False_eq_True)
  next
    case True
    then have res1: "(if 0 < free then ReserveQty free us else (True, us)) = (True, us1)" using res by (simp only:)
    note rs = reserve_if [OF res1 free(2) user_okD(2) [OF ok] avail_i64 [OF ok t]]
    have rolled_eq: "rolled = put_user ?c ?u us e" unfolding rolled_def rs(5) ..
    have pb: "power_ok rolled" unfolding rolled_eq by (rule power_ok_cong [OF P]) (simp_all add: put_same_user [OF us])
    have usb: "users_of rolled ?c ?u = Some us" and rb: "owns_row order r (e_db rolled)" using us r(1) by (simp_all add: rolled_eq put_same_user)
    note rej = rejectRow_power [OF pb usb rb r(2)]
    have filled: "power_ok (snd (case tx of Inl err \<Rightarrow> (Failed err, rolled) | Inr (db', result) \<Rightarrow> (Accepted, settleFill env order us1 db' result e)))"
    proof (cases tx)
      case (Inl err)
      then show ?thesis using pb by simp
    next
      case (Inr x)
      then obtain db' result where x: "x = (db', result)" by (cases x)
      have fill: "fillTx env order us1 (deterministicFillID env (rq_OrderID order)) price (rq_Qty order) pre (e_db e) = Inr (db', result)"
        using Inr by (auto simp: tx_def x WithTransaction_def split: option.splits)
      have own: "r \<in> set (td_orders (e_db e))" "or_order_id r = rq_OrderID order" "or_contest_id r = ?c" "or_user_id r = ?u"
        using r(1) by (simp_all add: owns_row_def)
      have f: "tables_ok db' \<and> others_kept ?c ?u (e_db e) db' \<and> user_ok ?c ?u (applyToUser env order result us1) db' \<and>
          us_PendingOrders (applyToUser env order result us1) = us_PendingOrders us1"
      proof (rule fillTx_user_ok [OF fill P' us own q rs(2) _ rs(3)])
        show "us_QtyAvailable us1 + consumed (GetOpenPosition (sql env) ?c ?u (rq_Symbol order) (e_db e)) (rq_Side order) (rq_Qty order) pre
          = us_QtyAvailable us + (if or_status r = ''open'' then or_qty r else 0)"
          using rs(1) free r(2) by (simp add: op_def)
        show "us_PendingOrders us oid = Some po \<and> oid \<noteq> rq_OrderID order" if "us_PendingOrders us1 oid = Some po" for oid po
          using that rs(4) not_waiting_key [OF P' us _ own(1) r(2)] own(2) by simp
      qed
      have ne: "users_of e ?c ?u \<noteq> None" using us by simp
      have "power db' (users_of (settleFill env order us1 db' result e)) (dom (e_participantCache e)) (ordersBySymbol (e_book e))"
      proof (rule power_step [OF P' ne _ _ _ settleFill_facts(4) [OF ne]])
        show "book_ok (ordersBySymbol (e_book e)) (users_of (settleFill env order us1 db' result e))"
          unfolding settleFill_facts(4) [OF ne] by (rule book_ok_same [OF powerD(3) [OF P'] us]) (use f rs(4) in simp)
      qed (use f in simp_all)
      then have "power_ok (settleFill env order us1 db' result e)" by (simp add: power_ok_def settleFill_facts [OF ne])
      then show ?thesis using Inr x by simp
    qed
    show ?thesis unfolding mf using True rej filled by (simp only: not_True_eq_False if_False split: if_split) blast
  qed
qed

lemma executeMarketOrder_power:
  assumes "power_ok e" "users_of e (rq_ContestID order) (rq_UserID order) = Some us"
    and "owns_row order r (e_db e)" "or_status r \<noteq> ''open''" "0 < rq_Qty order" "is_i64 (rq_Qty order)"
  shows "power_ok (snd (executeMarketOrder env order contest us e))"
  unfolding executeMarketOrder_def Let_def
  using rejectRow_power [OF assms(1-4)] marketFill_power [OF assms] by (simp split: option.split)

lemma processPendingOrder_power:
  assumes P: "power_ok e" and us: "users_of e (rq_ContestID order) (rq_UserID order) = Some us"
    and r: "owns_row order r (e_db e)" "or_status r \<noteq> ''open''" "or_qty r = rq_Qty order" and q: "0 < rq_Qty order"
  shows "power_ok (snd (processPendingOrder env order us e))"
proof -
  let ?c = "rq_ContestID order" and ?u = "rq_UserID order"
  define po where "po = \<lparr>po_OrderID = rq_OrderID order, po_Symbol = rq_Symbol order, po_Side = rq_Side order,
    po_Type = rq_Type order, po_Qty = rq_Qty order, po_QtyFilled = 0, po_LimitPrice = rq_LimitPrice order, po_StopPrice = rq_StopPrice order\<rparr>"
  define i where "i = \<lparr>pi_OrderID = rq_OrderID order, pi_ContestID = ?c, pi_UserID = ?u, pi_Symbol = rq_Symbol order,
    pi_Side = rq_Side order, pi_Type = rq_Type order, pi_Qty = rq_Qty order, pi_LimitPrice = rq_LimitPrice order,
    pi_StopPrice = rq_StopPrice order, pi_TakeProfit = rq_TakeProfit order, pi_StopLoss = rq_StopLoss order, pi_StalePriceRetry = False\<rparr>"
  define tx where "tx us1 = WithTransaction (tx_error env) (\<lambda>db.
    rbind (UpdateOrderStatusTx (rq_OrderID order) ''open'' 0 db) (\<lambda>db1.
    rbind (UpdateParticipantQtyAvailableTx ?c ?u (us_QtyAvailable us1) db1) (\<lambda>db2. Inr (db2, ())))) (e_db e)" for us1 :: UserState
  note P' = P [unfolded power_ok_def]
  note t = powerD(1) [OF P'] and ok = powerD(2) [OF P' us]
  have own: "r \<in> set (td_orders (e_db e))" "or_order_id r = rq_OrderID order" "or_contest_id r = ?c" "or_user_id r = ?u"
    using r(1) by (simp_all add: owns_row_def)
  obtain reserved us1 where res: "ReserveQty (rq_Qty order) us = (reserved, us1)" by (meson surj_pair)
  have pp: "processPendingOrder env order us e =
     (if \<not> reserved then rejectRow order InsufficientAvailable e
      else case tx us1 of
          Inl _ \<Rightarrow> (Rejected StatusUpdateFailed, put_user ?c ?u (ReleaseQty (rq_Qty order) us1) e)
        | Inr (db', _) \<Rightarrow> (Accepted, put_user ?c ?u (us_AddPendingOrder po us1)
            ((put_db db' e)\<lparr>e_book := AddPendingOrder i (e_book (put_db db' e))\<rparr>)))"
    unfolding processPendingOrder_def Let_def res prod.case po_def i_def tx_def by (rule refl)
  show ?thesis
  proof (cases reserved)
    case False
    then show ?thesis using rejectRow_power [OF P us r(1,2)] by (simp add: pp)
  next
    case True
    note res1 = res [unfolded eqTrueI [OF True]]
    note rs = ReserveQty_Some [OF res1 _ user_okD(2) [OF ok] avail_i64 [OF ok t]]
    show ?thesis
    proof (cases "tx us1")
      case (Inl err)
      have "ReleaseQty (rq_Qty order) us1 = us" by (rule release_reserve [OF avail_i64 [OF ok t] res1])
      then show ?thesis using True Inl power_ok_cong [OF P] by (simp add: pp put_same_user [OF us])
    next
      case (Inr x)
      obtain db' where x: "x = (db', ())" by (cases x) auto
      obtain db1 where 1: "UpdateOrderStatusTx (rq_OrderID order) ''open'' 0 (e_db e) = Inr db1"
        and 2: "UpdateParticipantQtyAvailableTx ?c ?u (us_QtyAvailable us1) db1 = Inr db'"
        using Inr by (auto simp: x tx_def WithTransaction_def res_simps split: option.splits)
      note e1 = UpdateOrderStatusTx_effect [OF 1 t own]
      note s2 = UpdateParticipantQtyAvailableTx_step [OF 2 e1(1)]
      have d2: "used ?c ?u db' = used ?c ?u (e_db e)" "waiting ?c ?u db' = waiting ?c ?u db1" "td_orders db' = td_orders db1"
        using s2 e1(3) by (auto simp: pos_step_def used_def waiting_def)
      define us2 where "us2 = us_AddPendingOrder po us1"
      have us2: "us_QtyAvailable us2 = us_QtyAvailable us - rq_Qty order" "0 \<le> us_QtyAvailable us2" "us_QtyTotal us2 = us_QtyTotal us"
        "us_PendingOrders us2 = (us_PendingOrders us)(rq_OrderID order \<mapsto> po)"
        using rs q by (simp_all add: us2_def us_AddPendingOrder_def po_def)
      have new: "us_PendingOrders us (rq_OrderID order) = None"
        using not_waiting_key [OF P' us _ own(1) r(2)] own(2) by fastforce
      have own2: "user_ok ?c ?u us2 db'"
        unfolding user_ok_def
      proof (intro conjI allI impI)
        show "us_QtyAvailable us2 + used ?c ?u db' + waiting ?c ?u db' = us_QtyTotal us2"
          using user_okD(1) [OF ok] e1(6) r(2,3) us2(1,3) d2 by simp
        show "is_i64 (us_QtyTotal us2)" using user_okD(3) [OF ok] us2(3) by simp
        fix oid p
        assume p: "us_PendingOrders us2 oid = Some p"
        show "\<exists>x \<in> set (td_orders db'). or_order_id x = oid \<and> waits_for ?c ?u x \<and> or_qty x = po_Qty p"
        proof (cases "oid = rq_OrderID order")
          case True
          then show ?thesis using p us2(4) e1(8) own r(3) d2(3) by (intro bexI [OF _ e1(8) [folded d2(3)]]) (auto simp: waits_for_def po_def)
        next
          case False
          then have "us_PendingOrders us oid = Some p" using p us2(4) by simp
          then obtain y where y: "y \<in> set (td_orders (e_db e))" "or_order_id y = oid" "waits_for ?c ?u y" "or_qty y = po_Qty p"
            by (rule power_pending [OF P' us])
          then show ?thesis using e1(7) [of y] False d2(3) by auto
        qed
      qed (rule us2(2))
      define e3 where "e3 = (put_db db' e)\<lparr>e_book := AddPendingOrder i (e_book (put_db db' e))\<rparr>"
      have ne: "users_of e3 ?c ?u \<noteq> None" using us by (simp add: e3_def)
      have U: "users_of (put_user ?c ?u us2 e3) = (\<lambda>c' u'. if c' = ?c \<and> u' = ?u then Some us2 else users_of e c' u')"
        unfolding users_of_put_user [OF ne] by (simp add: e3_def cong: if_cong)
      have B: "ordersBySymbol (e_book (put_user ?c ?u us2 e3)) = insert2 (ordersBySymbol (e_book e)) (pi_Symbol i) (rq_OrderID order) i"
        by (simp add: e3_def AddPendingOrder_def i_def)
      have bk: "book_ok (insert2 (ordersBySymbol (e_book e)) (pi_Symbol i) (rq_OrderID order) i) (users_of (put_user ?c ?u us2 e3))"
        unfolding U by (rule book_ok_add [OF powerD(3) [OF P'] us us2(4) new]) (simp_all add: i_def po_def)
      have "power db' (users_of (put_user ?c ?u us2 e3)) (dom (e_participantCache e)) (insert2 (ordersBySymbol (e_book e)) (pi_Symbol i) (rq_OrderID order) i)"
        by (rule power_step [OF P' _ pos_step_tables [OF s2] own2 others_kept_trans [OF e1(2) pos_step_others_kept [OF s2]] U bk])
          (use us in simp)
      moreover have "e_db (put_user ?c ?u us2 e3) = db'" "e_participantCache (put_user ?c ?u us2 e3) = e_participantCache e"
        by (simp_all add: e3_def)
      ultimately have "power_ok (put_user ?c ?u us2 e3)" unfolding power_ok_def B by (simp only:)
      then show ?thesis using True Inr by (simp add: pp x us2_def e3_def)
    qed
  qed
qed

text \<open>Loading a user: a cached participant is loaded already, a fresh one comes from the database.\<close>

lemma loadUser_facts:
  assumes "loadUser env p c u e = (us, e2)"
  shows "e_db e2 = e_db e" "e_book e2 = e_book e" "e_participantCache e2 = e_participantCache e"
    "users_of e2 = (\<lambda>c' u'. if c' = c \<and> u' = u then Some us else users_of e c' u')"
    "us = (case users_of e c u of Some us0 \<Rightarrow> us0 | None \<Rightarrow> NewUserState (dec env) (dp_QtyTotal p) (dp_QtyAvailable p) (dp_TotalScore p))"
  using assms
  by (auto simp: loadUser_def GetOrCreateContest_def GetOrCreateUser_def users_of_def user_of_def GetUser_def Let_def fun_eq_iff
      split: option.splits if_splits)

lemma getParticipantCached_facts:
  assumes "getParticipantCached env c u e = (Some p, e1)"
  shows "e_db e1 = e_db e" "e_book e1 = e_book e" "users_of e1 = users_of e"
    "(c, u) \<in> dom (e_participantCache e) \<and> e1 = e \<or>
     GetParticipant (sql env) c u (e_db e) = Some p \<and> dom (e_participantCache e1) \<subseteq> insert (c, u) (dom (e_participantCache e))"
  using assms by (auto simp: getParticipantCached_def cache_Get_def cache_Set_def split: option.splits if_splits prod.splits)

lemma getParticipantCached_None:
  "getParticipantCached env c u e = (None, e1) \<Longrightarrow> e1 = e"
  by (auto simp: getParticipantCached_def split: option.splits if_splits)

lemma load_power:
  assumes P: "power_ok e" and g: "getParticipantCached env c u e = (Some p, e1)" and l: "loadUser env p c u e1 = (us, e2)"
  shows "power_ok e2 \<and> users_of e2 c u = Some us \<and> e_db e2 = e_db e \<and> e_book e2 = e_book e"
proof -
  note g' = getParticipantCached_facts [OF g] and l' = loadUser_facts [OF l] and P' = P [unfolded power_ok_def]
  have dbs: "e_db e2 = e_db e" "e_book e2 = e_book e" and loaded: "users_of e2 c u = Some us" using g' l' by simp_all
  have U2: "users_of e2 = (\<lambda>c' u'. if c' = c \<and> u' = u then Some us else users_of e c' u')" unfolding l'(4) g'(3) ..
  have was: "users_of e c' u' \<noteq> None" if "(c', u') \<in> dom (e_participantCache e)" for c' u'
    using P' that unfolding power_def by blast
  have C: "\<forall>(c', u') \<in> dom (e_participantCache e2). users_of e2 c' u' \<noteq> None"
  proof -
    have sub: "dom (e_participantCache e2) \<subseteq> insert (c, u) (dom (e_participantCache e))" using g'(4) l'(3) by auto
    have "users_of e2 c' u' \<noteq> None" if "(c', u') \<in> dom (e_participantCache e2)" for c' u'
    proof (cases "c' = c \<and> u' = u")
      case False
      then have "(c', u') \<in> dom (e_participantCache e)" using subsetD [OF sub that] by blast
      then show ?thesis using was False by (simp add: U2)
    qed (simp add: U2)
    then show ?thesis by blast
  qed
  have "power (e_db e) (users_of e2) (dom (e_participantCache e2)) (ordersBySymbol (e_book e))"
  proof (cases "users_of e c u")
    case (Some us0)
    then have "us = us0" using l'(5) g'(3) by simp
    then have "users_of e2 = users_of e" using Some U2 by (auto simp: fun_eq_iff)
    then show ?thesis using P' C by (simp add: power_def)
  next
    case None
    then have "(c, u) \<notin> dom (e_participantCache e)" using was [of c u] by blast
    then have "GetParticipant (sql env) c u (e_db e) = Some p" using g'(4) by simp
    then obtain row where row: "row \<in> set (td_participants (e_db e))" "active_of c u row" "dp_QtyTotal p = pt_qty_total row"
      "dp_QtyAvailable p = pt_qty_available row"
      unfolding GetParticipant_def find_Some_iff map_option_case by (auto simp: find_Some_iff split: option.splits dest: nth_mem)
    have us: "us = NewUserState (dec env) (dp_QtyTotal p) (dp_QtyAvailable p) (dp_TotalScore p)" using l'(5) g'(3) None by simp
    have "user_ok c u us (e_db e)"
      using powerD(4) [OF P'] row None by (auto simp: unloaded_ok_def user_ok_def us NewUserState_def active_of_def)
    moreover have "unloaded_ok (e_db e) (users_of e2)" using powerD(4) [OF P'] by (auto simp: unloaded_ok_def U2 split: if_splits)
    moreover have "book_ok (ordersBySymbol (e_book e)) (users_of e2)"
      unfolding book_ok_def
    proof (intro allI impI)
      fix s oid i
      assume "lookup2 (ordersBySymbol (e_book e)) s oid = Some i"
      then obtain us0 po where "pi_OrderID i = oid" "pi_Symbol i = s" "users_of e (pi_ContestID i) (pi_UserID i) = Some us0"
        "us_PendingOrders us0 oid = Some po" "po_Qty po = pi_Qty i" "po_Symbol po = s" by (rule book_okE [OF powerD(3) [OF P']])
      then show "pi_OrderID i = oid \<and> pi_Symbol i = s \<and> (\<exists>us po. users_of e2 (pi_ContestID i) (pi_UserID i) = Some us \<and>
          us_PendingOrders us oid = Some po \<and> po_Qty po = pi_Qty i \<and> po_Symbol po = s)"
        using None by (auto simp: U2)
    qed
    ultimately show ?thesis using P' C by (auto simp: power_def U2 split: if_splits)
  qed
  then show ?thesis using dbs loaded by (simp add: power_ok_def)
qed

end
