(* ===== verification/Trading_Handlers.thy ===== *)
theory Trading_Handlers
  imports Trading_Conservation
begin

text \<open>
  The remaining handlers of the trading engine keep buying power: \<open>ProcessOrder\<close> as a whole,
  \<open>executePendingOrder\<close> for an order that still waits, \<open>executeTPSL\<close> for levels that face the open
  position, \<open>ProcessClosePosition\<close>, \<open>ProcessCancelOrder\<close> and \<open>ProcessModifyTPSL\<close>.
\<close>

section \<open>Calm statements\<close>

text \<open>A calm sequence of statements leaves positions, participants and waiting orders as they are.\<close>

definition calm :: "tdb \<Rightarrow> tdb \<Rightarrow> bool" where
  "calm db db' \<longleftrightarrow>
     tables_ok db' \<and> td_positions db' = td_positions db \<and> td_participants db' = td_participants db \<and>
     (\<forall>c u. waiting c u db' = waiting c u db) \<and>
     (\<forall>r \<in> set (td_orders db). or_status r = ''open'' \<longrightarrow> r \<in> set (td_orders db'))"

lemma calm_trans: "calm a b \<Longrightarrow> calm b d \<Longrightarrow> calm a d"
  by (auto simp: calm_def)

lemma calm_tables: "calm a b \<Longrightarrow> tables_ok b"
  by (simp add: calm_def)

lemma calm_used: "calm db db' \<Longrightarrow> used c u db' = used c u db"
  by (simp add: calm_def used_def)

lemma calm_GetOpenPosition: "calm db db' \<Longrightarrow> GetOpenPosition sq c u s db' = GetOpenPosition sq c u s db"
  by (simp add: calm_def GetOpenPosition_def)

lemma user_ok_calm:
  assumes "user_ok c u us db" "calm db db'"
  shows "user_ok c u us db'"
  using assms calm_used [OF assms(2)] unfolding user_ok_def calm_def waits_for_def by metis

lemma calm_others_kept: "calm db db' \<Longrightarrow> (\<And>r. r \<in> set (td_orders db) \<Longrightarrow> r \<in> set (td_orders db')) \<Longrightarrow> others_kept c u db db'"
  using calm_used by (auto simp: calm_def others_kept_def same_others_def)

lemma power_calm:
  assumes "power db U C B" "calm db db'"
  shows "power db' U C B"
  using assms user_ok_calm [OF _ assms(2)] calm_used [OF assms(2)] by (simp add: power_def unloaded_ok_def calm_def)

lemma power_ok_calm:
  "power_ok e \<Longrightarrow> calm (e_db e) db' \<Longrightarrow> power_ok (put_db db' e)"
  using power_calm by (simp add: power_ok_def)

lemma insert_order_calm:
  assumes "insert_order r db = Inr db'" "or_status r \<noteq> ''open''" "tables_ok db"
  shows "calm db db' \<and> r \<in> set (td_orders db') \<and> (\<forall>x \<in> set (td_orders db). x \<in> set (td_orders db'))"
proof -
  have "or_order_id r \<notin> or_order_id ` set (td_orders db)" and db': "order_ok r" "db' = db\<lparr>td_orders := td_orders db @ [r]\<rparr>"
    using assms(1) by (auto simp: insert_order_def split: if_splits)
  then show ?thesis using assms(2,3) by (simp add: calm_def tables_ok_def waiting_def waits_for_def)
qed

lemma InsertFillTx_calm:
  assumes "InsertFillTx sq f oid c u s side q pr db = Inr db'" "tables_ok db"
  shows "calm db db' \<and> td_orders db' = td_orders db"
  using assms by (auto simp: InsertFillTx_def res_simps calm_def tables_ok_def waiting_def split: if_splits)

lemma UpdateOrderStatusTx_calm:
  assumes up: "UpdateOrderStatusTx oid st q db = Inr db'" and t: "tables_ok db"
    and r: "r \<in> set (td_orders db)" "or_order_id r = oid" "or_status r \<noteq> ''open''" and st: "st \<noteq> ''open''"
  shows "calm db db'"
proof -
  note e = UpdateOrderStatusTx_effect [OF up t r(1,2) refl refl]
  have d: "distinct (map or_order_id (td_orders db))" using t by (simp add: tables_ok_def)
  have "waiting c u db' = waiting c u db" for c u
    using e(2,6) r(3) st by (cases "c = or_contest_id r \<and> u = or_user_id r") (auto simp: others_kept_def)
  moreover have "x \<in> set (td_orders db')" if "x \<in> set (td_orders db)" "or_status x = ''open''" for x
    by (rule e(7) [OF that(1)]) (use that r d in \<open>auto simp: distinct_map inj_on_def\<close>)
  ultimately show ?thesis using e by (simp add: calm_def)
qed

lemma new_order_row_Inr:
  "new_order_row sq oid c u s side ty q lp sp tp sl = Inr r \<Longrightarrow>
     or_order_id r = oid \<and> or_contest_id r = c \<and> or_user_id r = u \<and> or_status r = ''pending'' \<and> or_qty r = q"
  by (auto simp: new_order_row_def res_simps)

text \<open>The synthetic order of a closing handler: inserted as pending, filled at once.\<close>

lemma closingOrderTx_calm:
  assumes cl: "closingOrderTx env order price db = Inr db'" and t: "tables_ok db"
  shows "calm db db' \<and> 0 < rq_Qty order \<and> others_kept c u db db'"
proof -
  obtain r db1 db2 where r: "or_order_id r = rq_OrderID order" "or_status r = ''pending''" "or_qty r = rq_Qty order"
    and 1: "insert_order r db = Inr db1" and 2: "UpdateOrderStatusTx (rq_OrderID order) ''filled'' (rq_Qty order) db1 = Inr db2"
    and 3: "InsertFillTx (sql env) (uuid_fill env) (rq_OrderID order) (rq_ContestID order) (rq_UserID order) (rq_Symbol order)
      (rq_Side order) (rq_Qty order) price db2 = Inr db'"
    using cl by (auto simp: closingOrderTx_def insertOrderTx_def rbind_eq_Inr dest!: new_order_row_Inr)
  have new: "or_order_id x \<noteq> rq_OrderID order" if "x \<in> set (td_orders db)" for x
    using 1 that r(1) by (auto simp: insert_order_def split: if_splits)
  have i: "calm db db1" "r \<in> set (td_orders db1)" "\<forall>x \<in> set (td_orders db). x \<in> set (td_orders db1)"
    using insert_order_calm [OF 1 _ t] r(2) by auto
  have s: "calm db1 db2" by (rule UpdateOrderStatusTx_calm [OF 2 calm_tables [OF i(1)] i(2) r(1)]) (simp_all add: r(2))
  note e = UpdateOrderStatusTx_effect [OF 2 calm_tables [OF i(1)] i(2) r(1) refl refl]
  have f: "calm db2 db'" "td_orders db' = td_orders db2" using InsertFillTx_calm [OF 3 calm_tables [OF s]] by simp_all
  have q: "calm db db'" by (rule calm_trans [OF calm_trans [OF i(1) s] f(1)])
  have "x \<in> set (td_orders db')" if "x \<in> set (td_orders db)" for x using e(7) [of x] new [OF that] i(3) f(2) that by auto
  then have "others_kept c u db db'" by (rule calm_others_kept [OF q])
  moreover have "0 < or_qty r" using i(2) calm_tables [OF i(1)] by (rule order_qty_pos [rotated])
  ultimately show ?thesis using q r(3) by simp
qed

section \<open>Placing an order\<close>

lemma orderGates_qty:
  assumes "orderGates env order = None"
  shows "0 < rq_Qty order" "is_i64 (rq_Qty order)"
proof -
  have "validateOrderRequest order \<noteq> Inl x" for x using assms by (auto simp: orderGates_def split: sum.splits if_splits)
  moreover have "rq_Qty order \<le> 0 \<or> rq_Qty order > MaxAllowedQty \<Longrightarrow> \<exists>x. validateOrderRequest order = Inl x"
    by (auto simp: validateOrderRequest_def)
  ultimately have "\<not> rq_Qty order \<le> 0" "\<not> rq_Qty order > MaxAllowedQty" by blast+
  then show "0 < rq_Qty order" "is_i64 (rq_Qty order)" by (simp_all add: MaxAllowedQty_def is_i64_def)
qed

lemma orderChecks_power:
  assumes P: "power_ok e" and ch: "orderChecks env order e = (res, e')"
  shows "power_ok e' \<and> e_db e' = e_db e \<and>
    (\<forall>k us. res = Inr (k, us) \<longrightarrow> users_of e' (rq_ContestID order) (rq_UserID order) = Some us)"
proof -
  obtain contest e1 where g1: "getContestCached env (rq_ContestID order) e = (contest, e1)" by (meson surj_pair)
  obtain allowed e2 where g2: "isSymbolAllowedInContest env (rq_ContestID order) (rq_Symbol order) e1 = (allowed, e2)" by (meson surj_pair)
  obtain part e3 where g3: "getParticipantCached env (rq_ContestID order) (rq_UserID order) e2 = (part, e3)" by (meson surj_pair)
  note s1 = getContestCached_simps [OF g1] and s2 = isSymbolAllowedInContest_simps [OF g2]
  have P1: "power_ok e1" "e_db e1 = e_db e" using power_ok_cong [OF P] s1 by simp_all
  have P2: "power_ok e2" "e_db e2 = e_db e" using power_ok_cong [OF P1(1)] s2 P1(2) by simp_all
  show ?thesis
  proof (cases part)
    case None
    then have "e3 = e2" using g3 getParticipantCached_None by simp
    then show ?thesis using ch P1 P2 None
      by (auto simp: orderChecks_def g1 g2 g3 split: sum.splits if_splits)
  next
    case (Some p)
    obtain us e4 where g4: "loadUser env p (rq_ContestID order) (rq_UserID order) e3 = (us, e4)" by (meson surj_pair)
    note L = load_power [OF P2(1) g3 [unfolded Some] g4]
    then show ?thesis using ch P1 P2 
      by (auto simp: orderChecks_def g1 g2 g3 g4 Some Let_def split: sum.splits if_splits)
  qed
qed

lemma insertRequested_row:
  assumes "insertRequested env order db = Inr db'" "tables_ok db"
  shows "calm db db' \<and> (\<exists>r. owns_row order r db' \<and> or_status r = ''pending'' \<and> or_qty r = rq_Qty order)"
proof -
  obtain r where r: "or_order_id r = rq_OrderID order" "or_contest_id r = rq_ContestID order" "or_user_id r = rq_UserID order"
    "or_status r = ''pending''" "or_qty r = rq_Qty order" and i: "insert_order r db = Inr db'"
    using assms(1) by (auto simp: insertRequested_def InsertOrder_def rbind_eq_Inr dest!: new_order_row_Inr)
  show ?thesis using insert_order_calm [OF i _ assms(2)] r by (auto simp: owns_row_def)
qed

lemma ProcessOrder_power:
  assumes P: "power_ok e"
  shows "power_ok (snd (ProcessOrder env order e))"
proof (cases "orderGates env order")
  case None
  note q = orderGates_qty [OF None]
  obtain res e1 where ch: "orderChecks env order e = (res, e1)" by (meson surj_pair)
  note C = orderChecks_power [OF P ch]
  have t: "tables_ok (e_db e1)" using C powerD(1) unfolding power_ok_def by blast
  show ?thesis
  proof (cases "duplicateOrder order (GetOrderByID (rq_OrderID order) (e_db e))")
    case dup: None
    show ?thesis
    proof (cases "\<exists>k us db'. res = Inr (k, us) \<and> insertRequested env order (e_db e1) = Inr db'")
      case False
      then show ?thesis using None dup ch C by (auto simp: ProcessOrder_def split: sum.splits)
    next
      case True
      then obtain k us db' where res: "res = Inr (k, us)" and ins: "insertRequested env order (e_db e1) = Inr db'" by blast
      obtain r where Q: "calm (e_db e1) db'" and r: "owns_row order r db'" "or_status r = ''pending''" "or_qty r = rq_Qty order"
        using insertRequested_row [OF ins t] by blast
      define e2 where "e2 = put_db db' e1"
      have P2: "power_ok e2" using power_ok_calm [OF _ Q] C by (simp add: e2_def)
      have us: "users_of e2 (rq_ContestID order) (rq_UserID order) = Some us" using C res by (simp add: e2_def)
      have r2: "owns_row order r (e_db e2)" "or_status r \<noteq> ''open''" using r by (simp_all add: e2_def)
      have "power_ok (snd (dispatchOrder env order k us e2))"
        using executeMarketOrder_power [OF P2 us r2 q] processPendingOrder_power [OF P2 us r2 r(3) q(1)] P2
        by (simp add: dispatchOrder_def)
      then show ?thesis using None dup ch res ins by (simp add: ProcessOrder_def e2_def)
    qed
  qed (use None P in \<open>simp add: ProcessOrder_def\<close>)
qed (use P in \<open>simp add: ProcessOrder_def\<close>)

section \<open>Triggered orders\<close>

text \<open>The transaction reads the score and the available units of the user, not the waiting orders.\<close>

lemma us_RemovePendingOrder_simps [simp]:
  "us_QtyAvailable (us_RemovePendingOrder oid us) = us_QtyAvailable us" "us_QtyTotal (us_RemovePendingOrder oid us) = us_QtyTotal us"
  "us_RealizedScore (us_RemovePendingOrder oid us) = us_RealizedScore us"
  "us_RealizedScoreDecimal (us_RemovePendingOrder oid us) = us_RealizedScoreDecimal us"
  "us_PendingOrders (us_RemovePendingOrder oid us) = (us_PendingOrders us)(oid := None)"
  by (simp_all add: us_RemovePendingOrder_def)

lemma updatePositionTx_RemovePendingOrder:
  "updatePositionTx env order (us_RemovePendingOrder oid us) price q pre db = updatePositionTx env order us price q pre db"
proof -
  have "closeFully env order (us_RemovePendingOrder oid us) = closeFully env order us"
    "closePartly env order (us_RemovePendingOrder oid us) = closePartly env order us"
    by (simp_all add: fun_eq_iff closeFully_def closePartly_def Let_def)
  then show ?thesis by (simp only: updatePositionTx_def)
qed

lemma fillTx_RemovePendingOrder:
  "fillTx env order (us_RemovePendingOrder oid us) fid price q pre db = fillTx env order us fid price q pre db"
  by (simp add: fillTx_def positionStage_def updatePositionTx_RemovePendingOrder cong: if_cong)

lemma dropPending_facts:
  assumes "users_of e (pi_ContestID i) (pi_UserID i) \<noteq> None"
  shows "e_db (dropPending i us e) = e_db e" "e_participantCache (dropPending i us e) = e_participantCache e"
    "ordersBySymbol (e_book (dropPending i us e)) = delete2 (ordersBySymbol (e_book e)) (pi_Symbol i) (pi_OrderID i)"
    "users_of (dropPending i us e) = (\<lambda>c' u'. if c' = pi_ContestID i \<and> u' = pi_UserID i
       then Some (us_RemovePendingOrder (pi_OrderID i) us) else users_of e c' u')"
  using users_of_put_user [of "e\<lparr>e_book := RemovePendingOrder (pi_Symbol i) (pi_OrderID i) (e_book e)\<rparr>"] assms
  by (simp_all add: dropPending_def RemovePendingOrder_def cong: if_cong)

text \<open>A waiting order of a user who leaves: the row stops waiting and its units are free again.\<close>

lemma release_user_ok:
  assumes P: "power db U C B" and us: "U c u = Some us" and po: "us_PendingOrders us oid = Some po"
    and r: "r \<in> set (td_orders db)" "or_order_id r = oid" "waits_for c u r" "or_qty r = po_Qty po"
    and up: "UpdateOrderStatusTx oid st q db = Inr db'" and st: "st \<noteq> ''open''"
    and us': "us' = ReleaseQty (po_Qty po) (us_RemovePendingOrder oid us)"
  shows "user_ok c u us' db'"
proof -
  note t = powerD(1) [OF P] and ok = powerD(2) [OF P us]
  have own: "or_contest_id r = c" "or_user_id r = u" "or_status r = ''open''" using r(3) by (simp_all add: waits_for_def)
  note e = UpdateOrderStatusTx_effect [OF up t r(1,2) own(1,2)]
  have used: "used c u db' = used c u db" using e(3) by (simp add: used_def)
  have w: "waiting c u db' = waiting c u db - po_Qty po" using e(6) st own(3) r(4) by simp
  have le: "po_Qty po \<le> waiting c u db" "0 < po_Qty po" using waiting_ge [OF t r(1,3)] order_qty_pos [OF t r(1)] r(4) by simp_all
  have "is_i64 (us_QtyAvailable us + po_Qty po)"
    by (rule is_i64_upto [OF user_okD(3) [OF ok]]) (use le user_okD(1,2) [OF ok] used_nonneg [OF t, of c u] in linarith)+
  then have avail: "us_QtyAvailable us' = us_QtyAvailable us + po_Qty po" by (simp add: us')
  show ?thesis
    unfolding user_ok_def
  proof (intro conjI allI impI)
    show "0 \<le> us_QtyAvailable us'" using avail le(2) user_okD(2) [OF ok] by simp
    show "us_QtyAvailable us' + used c u db' + waiting c u db' = us_QtyTotal us'"
      using avail used w user_okD(1) [OF ok] by (simp add: us')
    show "is_i64 (us_QtyTotal us')" using user_okD(3) [OF ok] by (simp add: us')
    fix o' p
    assume p: "us_PendingOrders us' o' = Some p"
    then have "us_PendingOrders us o' = Some p" "o' \<noteq> oid" by (auto simp: us' split: if_splits)
    then show "\<exists>x \<in> set (td_orders db'). or_order_id x = o' \<and> waits_for c u x \<and> or_qty x = po_Qty p"
      using power_pending [OF P us] e(7) by metis
  qed
qed

lemma reject_possible:
  assumes "tables_ok db" "st = ''rejected'' \<or> st = ''cancelled''"
  shows "\<exists>db'. UpdateOrderStatusTx oid st 0 db = Inr db'"
proof -
  have "order_ok (r\<lparr>or_status := st, or_qty_filled := 0\<rparr>)" if "r \<in> set (td_orders db)" for r
    using assms(1) that by (auto simp: tables_ok_def order_ok_def)
  then show ?thesis by (auto simp: UpdateOrderStatusTx_def res_simps update_rows_Inr)
qed

lemma executePendingOrder_power:
  assumes P: "power_ok e" and waits: "lookup2 (ordersBySymbol (e_book e)) (pi_Symbol (to_Order t)) (pi_OrderID (to_Order t)) = Some (to_Order t)"
  shows "power_ok (executePendingOrder env t e)"
proof -
  define i where "i = to_Order t"
  let ?c = "pi_ContestID i" and ?u = "pi_UserID i" and ?oid = "pi_OrderID i"
  obtain contest e1 where g: "getContestCached env ?c e = (contest, e1)" by (meson surj_pair)
  note s1 = getContestCached_simps [OF g]
  define e2 where "e2 = ensureContest ?c e1"
  have e2: "e_db e2 = e_db e" "e_book e2 = e_book e" "e_participantCache e2 = e_participantCache e" "users_of e2 = users_of e"
    by (simp_all add: e2_def s1)
  have P1: "power_ok e1" by (rule power_ok_cong [OF P]) (simp_all add: s1)
  have P2: "power_ok e2" by (rule power_ok_cong [OF P]) (simp_all add: e2)
  note P' = P2 [unfolded power_ok_def]
  have "lookup2 (ordersBySymbol (e_book e2)) (pi_Symbol i) ?oid = Some i" using waits e2(2) by (simp add: i_def)
  then obtain us po where us: "users_of e2 ?c ?u = Some us" and po: "us_PendingOrders us ?oid = Some po"
    and qs: "po_Qty po = pi_Qty i" "po_Symbol po = pi_Symbol i" by (rule book_okE [OF powerD(3) [OF P']])
  obtain r where r: "r \<in> set (td_orders (e_db e2))" "or_order_id r = ?oid" "waits_for ?c ?u r" "or_qty r = po_Qty po"
    by (rule power_pending [OF P' us po])
  have own: "or_contest_id r = ?c" "or_user_id r = ?u" "or_status r = ''open''" using r(3) by (simp_all add: waits_for_def)
  have qpos: "0 < pi_Qty i" using order_qty_pos [OF powerD(1) [OF P'] r(1)] r(4) qs by simp
  have ne: "users_of e2 ?c ?u \<noteq> None" using us by simp
  have qi: "is_i64 (pi_Qty i)"
    by (rule is_i64_upto [OF user_okD(3) [OF powerD(2) [OF P' us]]])
      (use qpos qs r(4) waiting_ge [OF powerD(1) [OF P'] r(1,3)] used_nonneg [OF powerD(1) [OF P'], of ?c ?u]
         user_okD(1,2) [OF powerD(2) [OF P' us]] in linarith)+
  define us1 where "us1 = us_RemovePendingOrder ?oid us"
  have bk: "book_ok (delete2 (ordersBySymbol (e_book e2)) (pi_Symbol i) ?oid) (\<lambda>c' u'. if c' = ?c \<and> u' = ?u then Some us' else users_of e2 c' u')"
    if "us_PendingOrders us' = (us_PendingOrders us)(?oid := None)" for us'
    by (rule book_ok_remove [OF P' us po qs(2) that])
  have rejected: "power_ok (put_db (UpdateOrderStatus ?oid ''rejected'' 0 (e_db (dropPending i (ReleaseQty (pi_Qty i) us) e2)))
      (dropPending i (ReleaseQty (pi_Qty i) us) e2))"
  proof -
    note f = dropPending_facts [OF ne]
    obtain db' where up: "UpdateOrderStatusTx ?oid ''rejected'' 0 (e_db e2) = Inr db'"
      using reject_possible [OF powerD(1) [OF P']] by blast
    note e = UpdateOrderStatusTx_effect [OF up powerD(1) [OF P'] r(1,2) own(1,2)]
    have comm: "us_RemovePendingOrder ?oid (ReleaseQty (pi_Qty i) us) = ReleaseQty (po_Qty po) (us_RemovePendingOrder ?oid us)"
      by (simp add: qs ReleaseQty_def us_RemovePendingOrder_def)
    note ok = release_user_ok [OF P' us po r up _ comm]
    have "power db' (users_of (dropPending i (ReleaseQty (pi_Qty i) us) e2)) (dom (e_participantCache e2))
        (delete2 (ordersBySymbol (e_book e2)) (pi_Symbol i) ?oid)"
    proof (rule power_step [OF P' ne e(1) _ e(2) f(4)])
      show "book_ok (delete2 (ordersBySymbol (e_book e2)) (pi_Symbol i) ?oid) (users_of (dropPending i (ReleaseQty (pi_Qty i) us) e2))"
        unfolding f(4) by (rule bk) simp
    qed (use ok in simp)
    then show ?thesis using up by (simp add: power_ok_def f UpdateOrderStatus_def)
  qed
  have filled: "power_ok (settleFill env (triggeredRequest i) us1 db' result (dropPending i us e2))"
    if fill: "fillTx env (triggeredRequest i) us (uuid_fill env) (to_FillPrice t) (pi_Qty i) True (e_db e2) = Inr (db', result)" for db' result
  proof -
    note f = dropPending_facts [OF ne]
    let ?us' = "applyToUser env (triggeredRequest i) result us1"
    have ids: "rq_ContestID (triggeredRequest i) = ?c" "rq_UserID (triggeredRequest i) = ?u" "rq_OrderID (triggeredRequest i) = ?oid"
      by (simp_all add: triggeredRequest_def)
    have fill1: "fillTx env (triggeredRequest i) us1 (uuid_fill env) (to_FillPrice t) (pi_Qty i) True (e_db e2) = Inr (db', result)"
      unfolding us1_def fillTx_RemovePendingOrder by (rule fill)
    have A: "0 \<le> us_QtyAvailable us1" using user_okD(2) [OF powerD(2) [OF P' us]] by (simp add: us1_def)
    have F: "tables_ok db' \<and> others_kept ?c ?u (e_db e2) db' \<and> user_ok ?c ?u ?us' db' \<and> us_PendingOrders ?us' = us_PendingOrders us1"
      unfolding ids [symmetric]
    proof (rule fillTx_user_ok [OF fill1 P' _ r(1) _ _ _ qpos qi A])
      show "us_QtyAvailable us1 + consumed (GetOpenPosition (sql env) (rq_ContestID (triggeredRequest i)) (rq_UserID (triggeredRequest i))
          (rq_Symbol (triggeredRequest i)) (e_db e2)) (rq_Side (triggeredRequest i)) (pi_Qty i) True
        = us_QtyAvailable us + (if or_status r = ''open'' then or_qty r else 0)"
        using own(3) r(4) qs by (simp add: us1_def consumed_def split: option.split)
    qed (use us r own in \<open>auto simp: us1_def ids split: if_splits\<close>)
    have ned: "users_of (dropPending i us e2) (rq_ContestID (triggeredRequest i)) (rq_UserID (triggeredRequest i)) \<noteq> None"
      by (simp add: f(4) ids)
    have U: "users_of (settleFill env (triggeredRequest i) us1 db' result (dropPending i us e2))
      = (\<lambda>c' u'. if c' = ?c \<and> u' = ?u then Some ?us' else users_of e2 c' u')"
      by (simp add: settleFill_facts(4) [OF ned] ids f(4) fun_eq_iff)
    have "power db' (users_of (settleFill env (triggeredRequest i) us1 db' result (dropPending i us e2))) (dom (e_participantCache e2))
        (delete2 (ordersBySymbol (e_book e2)) (pi_Symbol i) ?oid)"
    proof (rule power_step [OF P' ne _ _ _ U])
      show "book_ok (delete2 (ordersBySymbol (e_book e2)) (pi_Symbol i) ?oid)
        (users_of (settleFill env (triggeredRequest i) us1 db' result (dropPending i us e2)))"
        unfolding U by (rule bk) (use F in \<open>simp add: us1_def\<close>)
    qed (use F in blast)+
    then show ?thesis by (simp add: power_ok_def settleFill_facts [OF ned] f)
  qed
  have us': "user_of ?c ?u e2 = Some us" using us by (simp add: users_of_def)
  show ?thesis
    using P1 P2 rejected filled
    unfolding executePendingOrder_def i_def [symmetric] Let_def g prod.case e2_def [symmetric] us' option.case us1_def [symmetric]
    by (auto simp: WithTransaction_def split: option.split sum.split prod.split)
qed

section \<open>Take profit and stop loss\<close>

text \<open>A position stage whose consumption is known, after statements that left the user's units alone.\<close>

lemma stage_user_ok:
  assumes m: "moves env order us db 0 (db', res)" and ok: "user_ok (rq_ContestID order) (rq_UserID order) us db"
  shows "tables_ok db' \<and> others_kept (rq_ContestID order) (rq_UserID order) db db' \<and>
    user_ok (rq_ContestID order) (rq_UserID order) (applyToUser env order res us) db' \<and>
    us_PendingOrders (applyToUser env order res us) = us_PendingOrders us"
proof -
  let ?c = "rq_ContestID order" and ?u = "rq_UserID order" and ?us = "applyToUser env order res us"
  obtain d where d: "pos_step ?c ?u d db db'" "us_QtyAvailable ?us + d = us_QtyAvailable us" "us_QtyAvailable us \<le> us_QtyAvailable ?us"
    "us_QtyTotal ?us = us_QtyTotal us" "us_PendingOrders ?us = us_PendingOrders us"
    using m by (auto simp: moves_def Let_def)
  have "waiting ?c ?u db' = waiting ?c ?u db" "td_orders db' = td_orders db" using d(1) by (simp_all add: pos_step_def waiting_def)
  moreover have "used ?c ?u db' = used ?c ?u db + d" using d(1) by (simp add: pos_step_def)
  ultimately have "user_ok ?c ?u ?us db'" using ok d(2-5) by (simp add: user_ok_def)
  then show ?thesis using pos_step_tables [OF d(1)] pos_step_others_kept [OF d(1)] d(5) by blast
qed

lemma same_users_power:
  assumes P: "power db U C B" and us: "U c u = Some us" and t: "tables_ok db'"
    and own: "user_ok c u us' db'" and oth: "others_kept c u db db'" and pend: "us_PendingOrders us' = us_PendingOrders us"
    and U': "U' = (\<lambda>c' u'. if c' = c \<and> u' = u then Some us' else U c' u')"
  shows "power db' U' C B"
proof (rule power_step [OF P _ t own oth U'])
  show "book_ok B U'" unfolding U' by (rule book_ok_same [OF powerD(3) [OF P] us pend])
qed (use us in simp)

text \<open>The level closes the position only when it was recorded for the side that is open now.\<close>

definition faces_position :: "env \<Rightarrow> PositionWithTPSL \<Rightarrow> tdb \<Rightarrow> bool" where
  "faces_position env pos db \<longleftrightarrow>
     (\<forall>p. GetOpenPosition (sql env) (tp_ContestID pos) (tp_UserID pos) (tp_Symbol pos) db = Some p \<longrightarrow>
        \<not> IsSameSide (db_Side p) (OppositeSide (tp_Side pos)))"

lemma RemovePositionTPSL_orders [simp]: "ordersBySymbol (RemovePositionTPSL s pid b) = ordersBySymbol b"
  by (simp add: RemovePositionTPSL_def)

lemma open_qty_i64:
  assumes "tables_ok db" "GetOpenPosition sq c u s db = Some p"
  shows "is_i64 (db_QtyOpen p)"
proof -
  obtain row where "row \<in> set (td_positions db)" "p = scan_position sq row" using GetOpenPosition_SomeD [OF assms(2)] by metis
  then show ?thesis using assms(1) by (simp add: tables_ok_def scan_position_def)
qed

lemma executeTPSL_power:
  assumes P: "power_ok e" and faces: "faces_position env (tt_Position t) (e_db e)"
  shows "power_ok (executeTPSL env t e)"
proof -
  define pos where "pos = tt_Position t"
  let ?c = "tp_ContestID pos" and ?u = "tp_UserID pos"
  obtain contest e1 where g: "getContestCached env ?c e = (contest, e1)" by (meson surj_pair)
  note s1 = getContestCached_simps [OF g]
  define e2 where "e2 = ensureContest ?c e1"
  have e2: "e_db e2 = e_db e" "e_book e2 = e_book e" "e_participantCache e2 = e_participantCache e" "users_of e2 = users_of e"
    by (simp_all add: e2_def s1)
  have P1: "power_ok e1" by (rule power_ok_cong [OF P]) (simp_all add: s1)
  have P2: "power_ok e2" by (rule power_ok_cong [OF P]) (simp_all add: e2)
  note P' = P2 [unfolded power_ok_def]
  have forgotten: "power_ok (e2\<lparr>e_book := RemovePositionTPSL (tp_Symbol pos) (tp_PositionID pos) (e_book e2)\<rparr>)"
    by (rule power_ok_cong [OF P2]) simp_all
  have closed: "power_ok (applyPositionResultToMemory env (tpslRequest env pos (db_QtyOpen p)) res
      (put_db db' (e2\<lparr>e_book := RemovePositionTPSL (tp_Symbol pos) (tp_PositionID pos) (e_book e2)\<rparr>)))"
    if us: "user_of ?c ?u e2 = Some us"
      and p: "GetOpenPosition (sql env) ?c ?u (tp_Symbol pos) (e_db e2) = Some p"
      and tx: "rbind (closingOrderTx env (tpslRequest env pos (db_QtyOpen p)) (tt_FillPrice t) (e_db e2))
        (positionStage env (tpslRequest env pos (db_QtyOpen p)) us (uuid_fill env) (tt_FillPrice t) (db_QtyOpen p) False) = Inr (db', res)"
    for us p db' res
  proof -
    define order where "order = tpslRequest env pos (db_QtyOpen p)"
    have ids: "rq_ContestID order = ?c" "rq_UserID order = ?u" "rq_Symbol order = tp_Symbol pos" "rq_Qty order = db_QtyOpen p"
      "rq_Side order = OppositeSide (tp_Side pos)" by (simp_all add: order_def tpslRequest_def)
    have U: "users_of e2 ?c ?u = Some us" using us by (simp add: users_of_def)
    note ok = powerD(2) [OF P' U]
    obtain db1 where 1: "closingOrderTx env order (tt_FillPrice t) (e_db e2) = Inr db1"
      and 2: "positionStage env order us (uuid_fill env) (tt_FillPrice t) (db_QtyOpen p) False db1 = Inr (db', res)"
      using tx by (auto simp: order_def rbind_eq_Inr)
    have q: "calm (e_db e2) db1" "0 < db_QtyOpen p" "others_kept ?c ?u (e_db e2) db1"
      using closingOrderTx_calm [OF 1 powerD(1) [OF P']] ids(4) by simp_all
    have qi: "is_i64 (db_QtyOpen p)" by (rule open_qty_i64 [OF powerD(1) [OF P'] p])
    have ok1: "user_ok ?c ?u us db1" by (rule user_ok_calm [OF ok q(1)])
    have fac: "\<not> IsSameSide (db_Side p) (rq_Side order)" using faces p e2(1) by (simp add: faces_position_def pos_def [symmetric] ids)
    have taken: "0 = consumed (GetOpenPosition (sql env) (rq_ContestID order) (rq_UserID order) (rq_Symbol order) db1) (rq_Side order) (db_QtyOpen p) False"
      using fac p by (simp add: calm_GetOpenPosition [OF q(1)] ids(1-3) consumed_def)
    have w: "is_i64 (us_QtyAvailable us + used ?c ?u db1 + 0)"
      by (rule is_i64_upto [OF user_okD(3) [OF ok1]])
        (use user_okD(1,2) [OF ok1] used_nonneg [OF calm_tables [OF q(1)], of ?c ?u] waiting_nonneg [OF calm_tables [OF q(1)], of ?c ?u] in linarith)+
    have "moves env order us db1 0 (db', res)"
      by (rule positionStage_moves [OF 2 calm_tables [OF q(1)] q(2) qi user_okD(2) [OF ok] taken w [folded ids(1,2)]])
    then have S: "tables_ok db' \<and> others_kept ?c ?u db1 db' \<and> user_ok ?c ?u (applyToUser env order res us) db' \<and>
        us_PendingOrders (applyToUser env order res us) = us_PendingOrders us"
      using stage_user_ok [of env order us db1 db' res] ok1 ids by simp
    define e3 where "e3 = put_db db' (e2\<lparr>e_book := RemovePositionTPSL (tp_Symbol pos) (tp_PositionID pos) (e_book e2)\<rparr>)"
    have e3: "users_of e3 = users_of e2" "e_db e3 = db'" "e_participantCache e3 = e_participantCache e2"
      "ordersBySymbol (e_book e3) = ordersBySymbol (e_book e2)" by (simp_all add: e3_def)
    have "users_of e3 (rq_ContestID order) (rq_UserID order) = Some us" using U e3 ids by simp
    note f = applyPositionResultToMemory_facts [OF this, of env res]
    have "power db' (users_of (applyPositionResultToMemory env order res e3)) (dom (e_participantCache e2)) (ordersBySymbol (e_book e2))"
      by (rule same_users_power [OF P' U _ _ others_kept_trans [OF q(3)] _ f(4) [unfolded e3 ids]]) (use S in simp_all)
    then show ?thesis unfolding order_def [symmetric] e3_def [symmetric] by (simp add: power_ok_def f e3)
  qed
  show ?thesis
    using P1 P2 forgotten closed
    unfolding executeTPSL_def pos_def [symmetric] Let_def g prod.case e2_def [symmetric]
    by (auto simp: WithTransaction_def split: option.split sum.split prod.split)
qed

section \<open>Closing by hand\<close>

lemma GetPositionByID_SomeD:
  assumes "GetPositionByID sq pid db = Some p"
  obtains row where "row \<in> set (td_positions db)" "pr_position_id row = pid" "\<not> pr_closed row" "p = scan_position sq row"
proof -
  obtain row where "List.find (\<lambda>p. pr_position_id p = pid \<and> \<not> pr_closed p) (td_positions db) = Some row" "p = scan_position sq row"
    using assms by (auto simp: GetPositionByID_def)
  then show thesis using that by (auto simp: find_Some_iff in_set_conv_nth)
qed

text \<open>Both closing transactions: \<open>part\<close> units leave the position and are released in memory.\<close>

lemma closing_power:
  assumes P: "power_ok e" and us: "users_of e c u = Some us"
    and q: "calm (e_db e) db1" "others_kept c u (e_db e) db1" and s: "pos_step c u (- part) db1 db'" and part: "0 \<le> part"
    and us': "us_QtyAvailable us' = wrap64 (us_QtyAvailable us + part)" "us_QtyTotal us' = us_QtyTotal us"
      "us_PendingOrders us' = us_PendingOrders us"
    and e': "e_db e' = db'" "e_participantCache e' = e_participantCache e" "ordersBySymbol (e_book e') = ordersBySymbol (e_book e)"
      "users_of e' = (\<lambda>c' u'. if c' = c \<and> u' = u then Some us' else users_of e c' u')"
  shows "power_ok e'"
proof -
  note P' = P [unfolded power_ok_def]
  have ok1: "user_ok c u us db1" by (rule user_ok_calm [OF powerD(2) [OF P' us] q(1)])
  have t': "tables_ok db'" by (rule pos_step_tables [OF s])
  have db': "used c u db' = used c u db1 - part" "waiting c u db' = waiting c u db1" "td_orders db' = td_orders db1"
    using s by (simp_all add: pos_step_def waiting_def)
  have "is_i64 (us_QtyAvailable us + part)"
    by (rule is_i64_upto [OF user_okD(3) [OF ok1]])
      (use user_okD(1,2) [OF ok1] used_nonneg [OF t', of c u] waiting_nonneg [OF t', of c u] db' part in linarith)+
  then have "us_QtyAvailable us' = us_QtyAvailable us + part" by (simp add: us')
  then have "user_ok c u us' db'" using ok1 db' part us' by (simp add: user_ok_def)
  then have "power db' (users_of e') (dom (e_participantCache e)) (ordersBySymbol (e_book e))"
    by (rule same_users_power [OF P' us t' _ others_kept_trans [OF q(2) pos_step_others_kept [OF s]] us'(3) e'(4)])
  then show ?thesis by (simp add: power_ok_def e')
qed

lemma put_user_put_db:
  assumes "users_of e c u = Some us"
  shows "users_of (put_user c u us' (put_db db' e)) = (\<lambda>c' u'. if c' = c \<and> u' = u then Some us' else users_of e c' u')"
  using users_of_put_user [of "put_db db' e" c u] assms by (simp cong: if_cong)

lemma book_update_facts:
  "e_db (e\<lparr>e_book := b\<rparr>) = e_db e" "e_participantCache (e\<lparr>e_book := b\<rparr>) = e_participantCache e" "e_book (e\<lparr>e_book := b\<rparr>) = b"
  by simp_all

lemma closeFull_power:
  assumes P: "power_ok e" and us: "users_of e (cp_ContestID req) (cp_UserID req) = Some us"
    and row: "row \<in> set (td_positions (e_db e))" "pr_position_id row = cp_PositionID req" "used_by (cp_ContestID req) (cp_UserID req) row"
    and p: "p = scan_position (sql env) row"
  shows "power_ok (snd (closeFull env req p price us e))"
proof -
  let ?c = "cp_ContestID req" and ?u = "cp_UserID req"
  note P' = P [unfolded power_ok_def]
  define score where "score = calculateTradeScoreDecimal (dec env) (db_Side p) (db_EntryPrice p) price (db_QtyUsed p)"
  define tx where "tx = WithTransaction (tx_error env) (\<lambda>db.
       rbind (closingOrderTx env (closeRequest env req p (db_QtyOpen p)) price db) (\<lambda>db1.
       rbind (UpdateFillRealizedPnlTx (sql env) (uuid_fill env) (ds_Float64 score) db1) (\<lambda>db2.
       rbind (ClosePositionTx (sql env) (cp_PositionID req) (NewFromFloat (dec env) (db_RealizedScore p) + ds_Decimal score) db2) (\<lambda>db3.
       rbind (UpdateParticipantQtyAndScoreTx (sql env) ?c ?u (wrap64 (us_QtyAvailable us + db_QtyUsed p))
           (us_RealizedScoreDecimal us + ds_Decimal score) db3) (\<lambda>db4. Inr (db4, ())))))) (e_db e)"
  define us1 where "us1 = RemovePosition (db_Symbol p)
      (ReleaseQty (db_QtyUsed p) (snd (AddRealizedScoreDecimal (dec env) (ds_Decimal score) us)))"
  have eq: "closeFull env req p price us e = (case tx of Inl err \<Rightarrow> (Failed err, e) | Inr (db', _) \<Rightarrow>
      (Accepted, (put_user ?c ?u us1 (put_db db' e))\<lparr>e_book := RemovePositionTPSL (db_Symbol p) (cp_PositionID req)
        (e_book (put_user ?c ?u us1 (put_db db' e)))\<rparr>))"
    unfolding closeFull_def Let_def score_def tx_def us1_def by (rule refl)
  show ?thesis
  proof (cases tx)
    case (Inr x)
    obtain db' where x: "x = (db', ())" by (cases x) auto
    obtain db1 db2 db3 sc where 1: "closingOrderTx env (closeRequest env req p (db_QtyOpen p)) price (e_db e) = Inr db1"
      and 2: "UpdateFillRealizedPnlTx (sql env) (uuid_fill env) (ds_Float64 score) db1 = Inr db2"
      and 3: "ClosePositionTx (sql env) (pr_position_id row) sc db2 = Inr db3"
      and 4: "UpdateParticipantQtyAndScoreTx (sql env) ?c ?u (wrap64 (us_QtyAvailable us + db_QtyUsed p))
           (us_RealizedScoreDecimal us + ds_Decimal score) db3 = Inr db'"
      using Inr row(2) by (auto simp: x tx_def WithTransaction_def rbind_eq_Inr split: option.splits)
    have q: "calm (e_db e) db1" "others_kept ?c ?u (e_db e) db1" using closingOrderTx_calm [OF 1 powerD(1) [OF P']] by simp_all
    have s2: "pos_step ?c ?u 0 db1 db2" by (rule UpdateFillRealizedPnlTx_step [OF 2 calm_tables [OF q(1)]])
    have "td_positions db2 = td_positions (e_db e)" using q(1) 2 by (auto simp: calm_def UpdateFillRealizedPnlTx_def res_simps)
    then have s3: "pos_step ?c ?u (- pr_qty_used row) db2 db3"
      using ClosePositionTx_step [OF 3 pos_step_tables [OF s2] _ row(3)] row(1) by simp
    have "pos_step ?c ?u (0 + - pr_qty_used row + 0) db1 db'"
      by (rule pos_step_trans [OF pos_step_trans [OF s2 s3] UpdateParticipantQtyAndScoreTx_step [OF 4 pos_step_tables [OF s3]]])
    then have s: "pos_step ?c ?u (- pr_qty_used row) db1 db'" by simp
    have nn: "0 \<le> pr_qty_used row" using powerD(1) [OF P'] row(1) by (simp add: tables_ok_def position_ok_def)
    have u: "us_QtyAvailable us1 = wrap64 (us_QtyAvailable us + pr_qty_used row)" "us_QtyTotal us1 = us_QtyTotal us"
      "us_PendingOrders us1 = us_PendingOrders us" by (simp_all add: us1_def p scan_position_def)
    show ?thesis
      unfolding eq Inr x sum.case prod.case snd_conv
      by (rule closing_power [OF P us q s nn u]) (simp_all add: put_user_put_db [OF us])
  qed (simp add: eq P)
qed

lemma closeSome_power:
  assumes P: "power_ok e" and us: "users_of e (cp_ContestID req) (cp_UserID req) = Some us"
    and row: "row \<in> set (td_positions (e_db e))" "pr_position_id row = cp_PositionID req" "used_by (cp_ContestID req) (cp_UserID req) row"
    and p: "p = scan_position (sql env) row" and q: "0 < qty"
  shows "power_ok (snd (closeSome env req p qty price us e))"
proof -
  let ?c = "cp_ContestID req" and ?u = "cp_UserID req"
  note P' = P [unfolded power_ok_def]
  define part where "part = proportionalQtyUsed (db_QtyUsed p) qty (db_QtyOpen p)"
  define score where "score = calculateTradeScoreDecimal (dec env) (db_Side p) (db_EntryPrice p) price part"
  define tx where "tx = WithTransaction (tx_error env) (\<lambda>db.
       rbind (closingOrderTx env (closeRequest env req p qty) price db) (\<lambda>db1.
       rbind (UpdateFillRealizedPnlTx (sql env) (uuid_fill env) (ds_Float64 score) db1) (\<lambda>db2.
       rbind (UpdatePositionTx (sql env) (cp_PositionID req) (wrap64 (db_QtyOpen p - qty)) (db_EntryPrice p) (wrap64 (db_QtyUsed p - part))
           (NewFromFloat (dec env) (db_RealizedScore p) + ds_Decimal score) db2) (\<lambda>db3.
       rbind (UpdateParticipantQtyAndScoreTx (sql env) ?c ?u (wrap64 (us_QtyAvailable us + part))
           (us_RealizedScoreDecimal us + ds_Decimal score) db3) (\<lambda>db4. Inr (db4, ())))))) (e_db e)"
  define us1 where "us1 = SetPosition (applied_position (db_PositionID p) (db_Symbol p) (PositionSideToOrderSide (db_Side p))
        (wrap64 (db_QtyOpen p - qty)) (db_EntryPrice p) (wrap64 (db_QtyUsed p - part)) (f64_add (db_RealizedScore p) (ds_Float64 score)))
      (ReleaseQty part (snd (AddRealizedScoreDecimal (dec env) (ds_Decimal score) us)))"
  have eq: "closeSome env req p qty price us e = (case tx of Inl err \<Rightarrow> (Failed err, e) | Inr (db', _) \<Rightarrow>
      (Accepted, (put_user ?c ?u us1 (put_db db' e))\<lparr>e_book := UpdatePositionQty (db_Symbol p) (db_PositionID p) (wrap64 (db_QtyOpen p - qty))
        (e_book (put_user ?c ?u us1 (put_db db' e)))\<rparr>))"
    unfolding closeSome_def Let_def score_def part_def tx_def us1_def by (rule refl)
  have part: "0 < part" "is_i64 part" using proportionalQtyUsed_pos [OF q] by (simp_all add: part_def)
  show ?thesis
  proof (cases tx)
    case (Inr x)
    obtain db' where x: "x = (db', ())" by (cases x) auto
    obtain db1 db2 db3 sc where 1: "closingOrderTx env (closeRequest env req p qty) price (e_db e) = Inr db1"
      and 2: "UpdateFillRealizedPnlTx (sql env) (uuid_fill env) (ds_Float64 score) db1 = Inr db2"
      and 3: "UpdatePositionTx (sql env) (pr_position_id row) (wrap64 (db_QtyOpen p - qty)) (db_EntryPrice p) (wrap64 (db_QtyUsed p - part)) sc db2 = Inr db3"
      and 4: "UpdateParticipantQtyAndScoreTx (sql env) ?c ?u (wrap64 (us_QtyAvailable us + part))
           (us_RealizedScoreDecimal us + ds_Decimal score) db3 = Inr db'"
      using Inr row(2) by (auto simp: x tx_def WithTransaction_def rbind_eq_Inr split: option.splits)
    have q: "calm (e_db e) db1" "others_kept ?c ?u (e_db e) db1" using closingOrderTx_calm [OF 1 powerD(1) [OF P']] by simp_all
    have s2: "pos_step ?c ?u 0 db1 db2" by (rule UpdateFillRealizedPnlTx_step [OF 2 calm_tables [OF q(1)]])
    have pos: "td_positions db2 = td_positions (e_db e)" using q(1) 2 by (auto simp: calm_def UpdateFillRealizedPnlTx_def res_simps)
    have nn: "0 \<le> pr_qty_used row" "pr_qty_used row \<le> used ?c ?u (e_db e)"
      using powerD(1) [OF P'] row(1,3) sum_where_ge [of "td_positions (e_db e)" "used_by ?c ?u" pr_qty_used row]
      by (auto simp: used_def tables_ok_def position_ok_def)
    have i: "is_i64 (pr_qty_used row)"
      by (rule is_i64_upto [OF user_okD(3) [OF powerD(2) [OF P' us]]])
        (use nn user_okD(1,2) [OF powerD(2) [OF P' us]] waiting_nonneg [OF powerD(1) [OF P'], of ?c ?u] in linarith)+
    then have w: "wrap64 (db_QtyUsed p - part) = pr_qty_used row - part"
      using part nn by (simp add: p scan_position_def, intro wrap64_id, simp add: is_i64_def)
    have s3: "pos_step ?c ?u (pr_qty_used row - part - pr_qty_used row) db2 db3"
      using UpdatePositionTx_step [OF 3 [unfolded w] pos_step_tables [OF s2] _ row(3)] row(1) pos by simp
    have "pos_step ?c ?u (0 + (pr_qty_used row - part - pr_qty_used row) + 0) db1 db'"
      by (rule pos_step_trans [OF pos_step_trans [OF s2 s3] UpdateParticipantQtyAndScoreTx_step [OF 4 pos_step_tables [OF s3]]])
    then have s: "pos_step ?c ?u (- part) db1 db'" by simp
    have u: "us_QtyAvailable us1 = wrap64 (us_QtyAvailable us + part)" "us_QtyTotal us1 = us_QtyTotal us"
      "us_PendingOrders us1 = us_PendingOrders us" by (simp_all add: us1_def)
    show ?thesis
      unfolding eq Inr x sum.case prod.case snd_conv
      by (rule closing_power [OF P us q s _ u]) (use part in \<open>simp_all add: put_user_put_db [OF us]\<close>)
  qed (simp add: eq P)
qed

lemma closeAtMarket_power:
  assumes P: "power_ok e" and us: "users_of e (cp_ContestID req) (cp_UserID req) = Some us"
    and row: "row \<in> set (td_positions (e_db e))" "pr_position_id row = cp_PositionID req" "used_by (cp_ContestID req) (cp_UserID req) row"
    and p: "p = scan_position (sql env) row"
  shows "power_ok (snd (closeAtMarket env req k p us e))"
  using P closeFull_power [OF P us row p] closeSome_power [OF P us row p]
  by (auto simp: closeAtMarket_def Let_def split: option.split)

lemma ProcessClosePosition_power:
  assumes P: "power_ok e"
  shows "power_ok (snd (ProcessClosePosition env req e))"
proof -
  let ?c = "cp_ContestID req" and ?u = "cp_UserID req"
  obtain contest e1 where g1: "getContestCached env ?c e = (contest, e1)" by (meson surj_pair)
  obtain part e2 where g2: "getParticipantCached env ?c ?u (ensureContest ?c e1) = (part, e2)" by (meson surj_pair)
  have P1: "power_ok e1" by (rule power_ok_cong [OF P]) (simp_all add: getContestCached_simps [OF g1])
  have P1': "power_ok (ensureContest ?c e1)" by (rule power_ok_cong [OF P1]) simp_all
  have P2: "part = None \<Longrightarrow> power_ok e2" using g2 getParticipantCached_None [of env ?c ?u "ensureContest ?c e1" e2] P1' by simp
  have closed: "power_ok (snd (closeAtMarket env req k p us e3))"
    if h: "part = Some pt" "loadUser env pt ?c ?u e2 = (us, e3)" "GetPositionByID (sql env) (cp_PositionID req) (e_db e1) = Some p"
      "db_UserID p = ?u" "db_ContestID p = ?c" for k p pt us e3
  proof -
    note L = load_power [OF P1' g2 [unfolded h(1)] h(2)]
    obtain row where row: "row \<in> set (td_positions (e_db e1))" "pr_position_id row = cp_PositionID req" "\<not> pr_closed row" "p = scan_position (sql env) row"
      using h(3) by (rule GetPositionByID_SomeD)
    have "used_by ?c ?u row" using h(4,5) row(3,4) by (simp add: used_by_def scan_position_def)
    then show ?thesis using L row by (intro closeAtMarket_power [of _ _ _ row]) simp_all
  qed
  show ?thesis
    using P P1 P2 closed
    unfolding ProcessClosePosition_def Let_def g1 g2 prod.case
    by (auto split: option.split sum.split prod.split)
qed

section \<open>Cancelling and modifying\<close>

lemma ProcessCancelOrder_power:
  assumes P: "power_ok e"
  shows "power_ok (snd (ProcessCancelOrder env req e))"
proof -
  let ?c = "co_ContestID req" and ?u = "co_UserID req" and ?oid = "co_OrderID req"
  define e1 where "e1 = ensureContest ?c e"
  have P1: "power_ok e1" unfolding e1_def by (rule power_ok_cong [OF P]) simp_all
  note P' = P1 [unfolded power_ok_def]
  have cancelled: "power_ok (put_user ?c ?u (ReleaseQty (po_Qty po) (us_RemovePendingOrder ?oid us))
      (put_db db' (e1\<lparr>e_book := RemovePendingOrder (po_Symbol po) ?oid (e_book e1)\<rparr>)))"
    if us: "user_of ?c ?u e1 = Some us" and po: "us_PendingOrders us ?oid = Some po"
      and tx: "rbind (UpdateOrderStatusTx ?oid ''cancelled'' 0 (e_db e1)) (\<lambda>db1.
        rbind (UpdateParticipantQtyAvailableTx ?c ?u (wrap64 (us_QtyAvailable us + po_Qty po)) db1) (\<lambda>db2. Inr (db2, ()))) = Inr (db', ())"
    for us po db'
  proof -
    have U: "users_of e1 ?c ?u = Some us" using us by (simp add: users_of_def)
    obtain db1 where 1: "UpdateOrderStatusTx ?oid ''cancelled'' 0 (e_db e1) = Inr db1"
      and 2: "UpdateParticipantQtyAvailableTx ?c ?u (wrap64 (us_QtyAvailable us + po_Qty po)) db1 = Inr db'"
      using tx by (auto simp: rbind_eq_Inr)
    obtain r where r: "r \<in> set (td_orders (e_db e1))" "or_order_id r = ?oid" "waits_for ?c ?u r" "or_qty r = po_Qty po"
      by (rule power_pending [OF P' U po])
    have own: "or_contest_id r = ?c" "or_user_id r = ?u" using r(3) by (simp_all add: waits_for_def)
    define us1 where "us1 = ReleaseQty (po_Qty po) (us_RemovePendingOrder ?oid us)"
    note e = UpdateOrderStatusTx_effect [OF 1 powerD(1) [OF P'] r(1,2) own]
    have ok1: "user_ok ?c ?u us1 db1" by (rule release_user_ok [OF P' U po r 1 _ us1_def]) simp
    note s = UpdateParticipantQtyAvailableTx_step [OF 2 e(1)]
    have "used ?c ?u db' = used ?c ?u db1" "waiting ?c ?u db' = waiting ?c ?u db1" "td_orders db' = td_orders db1"
      using s by (simp_all add: pos_step_def waiting_def)
    then have ok: "user_ok ?c ?u us1 db'" using ok1 by (simp add: user_ok_def)
    define e2 where "e2 = put_db db' (e1\<lparr>e_book := RemovePendingOrder (po_Symbol po) ?oid (e_book e1)\<rparr>)"
    have e2: "users_of e2 = users_of e1" "e_participantCache e2 = e_participantCache e1" "e_db e2 = db'"
      "ordersBySymbol (e_book e2) = delete2 (ordersBySymbol (e_book e1)) (po_Symbol po) ?oid"
      by (simp_all add: e2_def RemovePendingOrder_def)
    have ne: "users_of e1 ?c ?u \<noteq> None" using U by simp
    have U2: "users_of (put_user ?c ?u us1 e2) = (\<lambda>c' u'. if c' = ?c \<and> u' = ?u then Some us1 else users_of e1 c' u')"
      using users_of_put_user [of e2 ?c ?u us1] ne by (simp add: e2(1) cong: if_cong)
    have "power db' (users_of (put_user ?c ?u us1 e2)) (dom (e_participantCache e1)) (delete2 (ordersBySymbol (e_book e1)) (po_Symbol po) ?oid)"
    proof (rule power_step [OF P' ne pos_step_tables [OF s] ok others_kept_trans [OF e(2) pos_step_others_kept [OF s]] U2])
      show "book_ok (delete2 (ordersBySymbol (e_book e1)) (po_Symbol po) ?oid) (users_of (put_user ?c ?u us1 e2))"
        unfolding U2 by (rule book_ok_remove [OF P' U po refl]) (simp add: us1_def)
    qed
    then show ?thesis unfolding us1_def [symmetric] e2_def [symmetric] by (simp add: power_ok_def e2)
  qed
  show ?thesis
    using P P1 cancelled
    unfolding ProcessCancelOrder_def Let_def e1_def [symmetric] us_GetPendingOrder_def
    by (auto simp: WithTransaction_def split: option.split sum.split prod.split)
qed

lemma UpdatePositionTPSLTx_calm:
  assumes "UpdatePositionTPSLTx sq pid tp sl db = Inr db'" "tables_ok db"
  shows "tables_ok db'" "td_orders db' = td_orders db" "td_participants db' = td_participants db" "used c u db' = used c u db"
proof -
  let ?f = "\<lambda>t s p. if pr_position_id p = pid \<and> \<not> pr_closed p then p\<lparr>pr_take_profit := t, pr_stop_loss := s\<rparr> else p"
  obtain t s where db': "db' = db\<lparr>td_positions := map (?f t s) (td_positions db)\<rparr>"
    using assms(1) by (auto simp: UpdatePositionTPSLTx_def res_simps update_rows_Inr split: if_splits)
  have ids: "map pr_position_id (map (?f t s) (td_positions db)) = map pr_position_id (td_positions db)" by simp
  have "\<forall>p \<in> set (map (?f t s) (td_positions db)). position_ok p \<and> is_i64 (pr_qty_open p)"
    using assms(2) by (auto simp: tables_ok_def position_ok_def)
  then show "tables_ok db'" using assms(2) ids by (simp add: db' tables_ok_def del: map_map)
  show "td_orders db' = td_orders db" "td_participants db' = td_participants db" by (simp_all add: db')
  show "used c u db' = used c u db"
    by (simp add: used_def db' sum_where_def comp_def used_by_def if_distrib cong: if_cong) (rule arg_cong [of _ _ sum_list], simp)
qed

lemma ProcessModifyTPSL_power:
  assumes P: "power_ok e"
  shows "power_ok (snd (ProcessModifyTPSL env req e))"
proof -
  let ?c = "mt_ContestID req" and ?u = "mt_UserID req"
  obtain contest e1 where g1: "getContestCached env ?c e = (contest, e1)" by (meson surj_pair)
  have P1: "power_ok e1" by (rule power_ok_cong [OF P]) (simp_all add: getContestCached_simps [OF g1])
  note P' = P1 [unfolded power_ok_def]
  have modified: "power_ok (case part of None \<Rightarrow> e4 | Some pt \<Rightarrow> snd (loadUser env pt ?c ?u e4))"
    if up: "UpdatePositionTPSLTx (sql env) (mt_PositionID req) (mt_TakeProfit req) (mt_StopLoss req) (e_db e1) = Inr db'"
      and gp: "getParticipantCached env ?c ?u (ensureContest ?c ((put_db db' e1)\<lparr>e_book := modifyTracking req p (e_book (put_db db' e1))\<rparr>)) = (part, e4)"
    for db' p part e4
  proof -
    note U = UpdatePositionTPSLTx_calm [OF up powerD(1) [OF P']]
    have w: "waiting c u db' = waiting c u (e_db e1)" for c u by (simp add: waiting_def U(2))
    have b: "ordersBySymbol (modifyTracking req p b) = ordersBySymbol b" for b
      by (auto simp: modifyTracking_def UpdatePositionTPSL_def AddPositionWithTPSL_def Let_def split: option.splits)
    have "power db' (users_of e1) (dom (e_participantCache e1)) (ordersBySymbol (e_book e1))"
      using P' U w by (simp add: power_def user_ok_def unloaded_ok_def)
    then have P3: "power_ok (ensureContest ?c ((put_db db' e1)\<lparr>e_book := modifyTracking req p (e_book (put_db db' e1))\<rparr>))"
      by (simp add: power_ok_def b)
    show ?thesis
    proof (cases part)
      case None
      then show ?thesis using P3 getParticipantCached_None [OF gp [unfolded None]] by simp
    next
      case (Some pt)
      obtain us e5 where "loadUser env pt ?c ?u e4 = (us, e5)" by (meson surj_pair)
      then show ?thesis using load_power [OF P3 gp [unfolded Some]] Some by simp
    qed
  qed
  show ?thesis
    using P P1 modified
    unfolding ProcessModifyTPSL_def Let_def g1 prod.case
    by (auto split: option.split sum.split prod.split)
qed

end
