(* ===== verification/Trading_Engine.thy ===== *)
theory Trading_Engine
  imports Trading_Handlers
begin

text \<open>
  The trading engine as a transition system: a start from the database, then requests, ticks and
  status changes of contests in any order. Buying power is conserved on every run whose take profit
  and stop loss levels face the position they close; the last section has the runs that the code
  also allows and that break it.
\<close>

section \<open>The engine as a transition system\<close>

text \<open>A start: empty memory, the pending book from the database (\<open>app.go\<close>).\<close>

definition started_engine :: "sql_driver \<Rightarrow> tdb \<Rightarrow> engine" where
  "started_engine sq db =
     \<lparr>e_db = db, e_state = NewStateManager, e_book = ReloadFromDB sq db NewPendingOrderBook, e_prices = NewPriceBook,
      e_contestCache = Map.empty, e_participantCache = Map.empty, e_symbolCache = Map.empty\<rparr>"

definition runTriggered :: "(nat \<Rightarrow> env) \<Rightarrow> TriggeredOrder list \<Rightarrow> engine \<Rightarrow> engine" where
  "runTriggered envs ts e = fold (\<lambda>(i, t). executePendingOrder (envs i) t) (enumerate 0 ts) e"

inductive engine_step :: "engine \<Rightarrow> engine \<Rightarrow> bool" where
  engine_order: "engine_step e (snd (ProcessOrder env order e))"
| engine_close: "engine_step e (snd (ProcessClosePosition env creq e))"
| engine_cancel: "engine_step e (snd (ProcessCancelOrder env xreq e))"
| engine_modify: "engine_step e (snd (ProcessModifyTPSL env mreq e))"
| engine_tick: "engine_step e (e\<lparr>e_prices := fst (UpdateFromTick t tick (e_prices e))\<rparr>)"
| engine_triggers: "distinct keys \<Longrightarrow>
    engine_step e (runTriggered envs (EvaluatePendingOrders symbol bid ask keys (e_book e)) e)"
| engine_tpsl: "faces_position env (tt_Position t) (e_db e) \<Longrightarrow> engine_step e (executeTPSL env t e)"
| engine_contest: "engine_step e (put_db ((e_db e)\<lparr>td_contests := cs\<rparr>) e)"

inductive_cases engine_stepE: "engine_step e e'"

section \<open>Triggered orders of one tick\<close>

text \<open>Executing a triggered order takes no other order out of the book.\<close>

lemma settleFill_orders: "ordersBySymbol (e_book (settleFill env order us db res e)) = ordersBySymbol (e_book e)"
  by (simp add: settleFill_def applyPositionResultToMemory_def Let_def split: option.split)

lemma dropPending_orders:
  "ordersBySymbol (e_book (dropPending i us e)) = delete2 (ordersBySymbol (e_book e)) (pi_Symbol i) (pi_OrderID i)"
  by (simp add: dropPending_def RemovePendingOrder_def)

lemma executePendingOrder_book:
  assumes "\<not> (s = pi_Symbol (to_Order t) \<and> k = pi_OrderID (to_Order t))"
  shows "lookup2 (ordersBySymbol (e_book (executePendingOrder env t e))) s k = lookup2 (ordersBySymbol (e_book e)) s k"
proof -
  obtain contest e1 where g: "getContestCached env (pi_ContestID (to_Order t)) e = (contest, e1)" by (meson surj_pair)
  show ?thesis
    using assms getContestCached_simps(2) [OF g]
    by (auto simp: executePendingOrder_def Let_def g settleFill_orders dropPending_orders WithTransaction_def
        split: option.split sum.split prod.split)
qed

lemma triggered_list:
  assumes "t \<in> set (EvaluatePendingOrders symbol bid ask keys pob)"
  obtains k where "k \<in> set keys" "lookup2 (ordersBySymbol pob) symbol k = Some (to_Order t)"
  using assms by (auto simp: EvaluatePendingOrders_def List.map_filter_def split: option.splits)

lemma run_power:
  assumes "power_ok e" "distinct (map (\<lambda>t. pi_OrderID (to_Order t)) ts)"
    and "\<And>t. t \<in> set ts \<Longrightarrow> lookup2 (ordersBySymbol (e_book e)) (pi_Symbol (to_Order t)) (pi_OrderID (to_Order t)) = Some (to_Order t)"
  shows "power_ok (fold (\<lambda>(i, t). executePendingOrder (envs i) t) (enumerate n ts) e)"
  using assms
proof (induction ts arbitrary: n e)
  case (Cons t ts)
  have P: "power_ok (executePendingOrder (envs n) t e)" by (rule executePendingOrder_power) (use Cons.prems in simp_all)
  have "lookup2 (ordersBySymbol (e_book (executePendingOrder (envs n) t e))) (pi_Symbol (to_Order x)) (pi_OrderID (to_Order x)) = Some (to_Order x)"
    if "x \<in> set ts" for x
  proof -
    have "pi_OrderID (to_Order x) \<in> (\<lambda>t. pi_OrderID (to_Order t)) ` set ts" using that by (rule imageI)
    then have "pi_OrderID (to_Order x) \<noteq> pi_OrderID (to_Order t)" using Cons.prems(2) by auto
    then show ?thesis using executePendingOrder_book [of _ t] Cons.prems(3) that by simp
  qed
  then show ?case using Cons.IH [OF P] Cons.prems(2) by simp
qed simp

lemma triggers_power:
  assumes P: "power_ok e" and d: "distinct keys"
  shows "power_ok (runTriggered envs (EvaluatePendingOrders symbol bid ask keys (e_book e)) e)"
proof -
  have bk: "book_ok (ordersBySymbol (e_book e)) (users_of e)" using P by (simp add: power_ok_def power_def)
  have key: "pi_OrderID i = k" "pi_Symbol i = symbol" if "lookup2 (ordersBySymbol (e_book e)) symbol k = Some i" for k i
    using book_okE [OF bk that] by metis+
  have "map (\<lambda>t. pi_OrderID (to_Order t)) (EvaluatePendingOrders symbol bid ask ks (e_book e))
      = filter (\<lambda>k. \<exists>i. lookup2 (ordersBySymbol (e_book e)) symbol k = Some i \<and> orderTrigger bid ask i \<noteq> None) ks" for ks
    by (induction ks) (auto simp: EvaluatePendingOrders_def List.map_filter_simps dest: key split: option.split)
  then have "distinct (map (\<lambda>t. pi_OrderID (to_Order t)) (EvaluatePendingOrders symbol bid ask keys (e_book e)))"
    using d by simp
  then show ?thesis
    unfolding runTriggered_def by (rule run_power [OF P]) (metis triggered_list key)
qed

section \<open>Conservation\<close>

lemma prices_power: "power_ok e \<Longrightarrow> power_ok (e\<lparr>e_prices := pb\<rparr>)"
  by (erule power_ok_cong) (simp_all add: users_of_def user_of_def)

lemma contests_power:
  assumes "power_ok e"
  shows "power_ok (put_db ((e_db e)\<lparr>td_contests := cs\<rparr>) e)"
proof -
  have "used c u ((e_db e)\<lparr>td_contests := cs\<rparr>) = used c u (e_db e)" "waiting c u ((e_db e)\<lparr>td_contests := cs\<rparr>) = waiting c u (e_db e)" for c u
    by (simp_all add: used_def waiting_def)
  then show ?thesis using assms by (simp add: power_ok_def power_def tables_ok_def user_ok_def unloaded_ok_def)
qed

lemma engine_step_power: "engine_step e e' \<Longrightarrow> power_ok e \<Longrightarrow> power_ok e'"
  by (induction rule: engine_step.induct)
    (rule ProcessOrder_power ProcessClosePosition_power ProcessCancelOrder_power ProcessModifyTPSL_power prices_power
      triggers_power executeTPSL_power contests_power; assumption)+

lemma engine_steps_power: "engine_step\<^sup>*\<^sup>* e e' \<Longrightarrow> power_ok e \<Longrightarrow> power_ok e'"
  by (induction rule: rtranclp_induct) (auto intro: engine_step_power)

text \<open>A start is in order when the tables are and no row waits in the state that the reload reads.\<close>

definition balanced_tables :: "tdb \<Rightarrow> bool" where
  "balanced_tables db \<longleftrightarrow>
     tables_ok db \<and> (\<forall>r \<in> set (td_orders db). or_status r \<noteq> ''pending'') \<and>
     (\<forall>p \<in> set (td_participants db). pt_active p \<longrightarrow>
        0 \<le> pt_qty_available p \<and> is_i64 (pt_qty_total p) \<and>
        pt_qty_available p + used (pt_contest_id p) (pt_user_id p) db + waiting (pt_contest_id p) (pt_user_id p) db = pt_qty_total p)"

lemma ReloadFromDB_orders: "ordersBySymbol (ReloadFromDB sq db pob) = ordersBySymbol (fold AddPendingOrder (GetAllPendingOrders sq db) pob)"
proof -
  have "ordersBySymbol (fold AddPositionWithTPSL ps b) = ordersBySymbol b" for ps b
    by (induction ps arbitrary: b) (simp_all add: AddPositionWithTPSL_def)
  then show ?thesis by (simp add: ReloadFromDB_def)
qed

lemma started_power:
  assumes "balanced_tables db"
  shows "power_ok (started_engine sq db)"
proof -
  have "GetAllPendingOrders sq db = []" using assms by (auto simp: GetAllPendingOrders_def balanced_tables_def filter_empty_conv)
  then have "ordersBySymbol (e_book (started_engine sq db)) = Mapping.empty"
    by (simp add: started_engine_def ReloadFromDB_orders NewPendingOrderBook_def)
  moreover have "users_of (started_engine sq db) = (\<lambda>c u. None)"
    by (simp add: users_of_def user_of_def started_engine_def NewStateManager_def fun_eq_iff)
  ultimately show ?thesis
    using assms by (simp add: power_ok_def power_def book_ok_def unloaded_ok_def balanced_tables_def started_engine_def)
qed

end
