(* ===== verification/Trading_Closing.thy ===== *)
theory Trading_Closing
  imports Trading_Engine
begin

text \<open>
  What the engine does when a contest ends: \<open>contest_operations.go\<close> of \<open>apps/trading-engine/server\<close>.
  All waiting orders of the contest are cancelled in one transaction and all open positions are
  closed in another, both with relative updates of the participant rows; afterwards the memory
  follows. The section on closing shows what the two operations do to the units of each player, and
  when the first of them cannot work.
\<close>

section \<open>Cancelling all orders\<close>

definition live_order :: "string \<Rightarrow> OrderRow \<Rightarrow> bool" where
  "live_order contestID r \<longleftrightarrow> or_contest_id r = contestID \<and> or_status r \<in> {''pending'', ''open''}"

text \<open>\<open>qtyByUser[o.UserID] += o.Qty\<close>\<close>

definition addQty :: "OrderRow \<Rightarrow> (string \<rightharpoonup> int) \<Rightarrow> (string \<rightharpoonup> int)" where
  "addQty r m = m(or_user_id r \<mapsto> wrap64 ((case m (or_user_id r) of None \<Rightarrow> 0 | Some q \<Rightarrow> q) + or_qty r))"

definition qtyByUser :: "OrderRow list \<Rightarrow> (string \<rightharpoonup> int)" where
  "qtyByUser orders = fold addQty orders Map.empty"

text \<open>\<open>UPDATE contest_participants SET qty_available = qty_available + $1\<close>\<close>

definition returnQtyTx :: "string \<Rightarrow> string \<Rightarrow> int \<Rightarrow> tdb \<Rightarrow> tdb sqlresult" where
  "returnQtyTx contestID userID qty db =
     rbind (update_rows (active_of contestID userID) (\<lambda>p. p\<lparr>pt_qty_available := pt_qty_available p + qty\<rparr>) participant_ok (td_participants db))
       (\<lambda>rows. Inr (db\<lparr>td_participants := rows\<rparr>))"

text \<open>The loop over the map visits the users in the order \<open>keys\<close>.\<close>

fun returnQtys :: "string \<Rightarrow> (string \<rightharpoonup> int) \<Rightarrow> string list \<Rightarrow> tdb \<Rightarrow> tdb sqlresult" where
  "returnQtys contestID m [] db = Inr db"
| "returnQtys contestID m (u # us) db =
     (case m u of
        None \<Rightarrow> returnQtys contestID m us db
      | Some q \<Rightarrow> rbind (returnQtyTx contestID u q db) (returnQtys contestID m us))"

definition cancelOrdersTx :: "string \<Rightarrow> string list \<Rightarrow> tdb \<Rightarrow> (tdb \<times> OrderRow list) sqlresult" where
  "cancelOrdersTx contestID keys db =
     (let orders = filter (live_order contestID) (td_orders db) in
      if orders = [] then Inr (db, [])
      else
        rbind (update_rows (live_order contestID) (\<lambda>r. r\<lparr>or_status := ''cancelled''\<rparr>) order_ok (td_orders db)) (\<lambda>rows.
        rbind (returnQtys contestID (qtyByUser orders) keys (db\<lparr>td_orders := rows\<rparr>)) (\<lambda>db'. Inr (db', orders))))"

definition update_user :: "string \<Rightarrow> string \<Rightarrow> (UserState \<Rightarrow> UserState) \<Rightarrow> engine \<Rightarrow> engine" where
  "update_user contestID userID f e =
     (case user_of contestID userID e of None \<Rightarrow> e | Some us \<Rightarrow> put_user contestID userID (f us) e)"

definition releaseCancelled :: "string \<Rightarrow> string list \<Rightarrow> OrderRow list \<Rightarrow> engine \<Rightarrow> engine" where
  "releaseCancelled contestID keys orders e =
     fold (\<lambda>r. update_user contestID (or_user_id r) (us_RemovePendingOrder (or_order_id r))) orders
       (fold (\<lambda>u. case qtyByUser orders u of None \<Rightarrow> id | Some q \<Rightarrow> update_user contestID u (ReleaseQty q)) keys
         (ensureContest contestID e))"

definition cancelAllContestOrders :: "env \<Rightarrow> string \<Rightarrow> string list \<Rightarrow> engine \<Rightarrow> (string + int) \<times> engine" where
  "cancelAllContestOrders env contestID keys e =
     (case WithTransaction (tx_error env) (cancelOrdersTx contestID keys) (e_db e) of
        Inl err \<Rightarrow> (Inl err, e)
      | Inr (db', orders) \<Rightarrow>
          if orders = [] then (Inr 0, put_db db' e)
          else
            let e1 = put_db db' e;
                e2 = e1\<lparr>e_book := fold (\<lambda>r. RemovePendingOrder (or_symbol r) (or_order_id r)) orders (e_book e1)\<rparr>
            in (Inr (int (length orders)), releaseCancelled contestID keys orders e2))"

section \<open>Closing all positions\<close>

definition openPositions :: "string \<Rightarrow> tdb \<Rightarrow> PositionRow list" where
  "openPositions contestID db = filter (\<lambda>p. pr_contest_id p = contestID \<and> \<not> pr_closed p) (td_positions db)"

definition closingPrice :: "f64 option \<Rightarrow> PriceBook \<Rightarrow> DBPosition \<Rightarrow> f64" where
  "closingPrice closePrice pb pos =
     (case closePrice of
        Some p \<Rightarrow> p
      | None \<Rightarrow> (case GetPrice (db_Symbol pos) (db_Side pos) pb of Some p \<Rightarrow> p | None \<Rightarrow> db_EntryPrice pos))"

definition closingScore :: "env \<Rightarrow> f64 option \<Rightarrow> PriceBook \<Rightarrow> DBPosition \<Rightarrow> DecimalScore" where
  "closingScore env closePrice pb pos =
     calculateTradeScoreDecimal (dec env) (db_Side pos) (db_EntryPrice pos) (closingPrice closePrice pb pos) (db_QtyUsed pos)"

text \<open>\<open>SET closed_at = $1, realized_score = realized_score + $2, qty_open = 0 WHERE position_id = $3\<close>\<close>

definition addToScore :: "env \<Rightarrow> rat \<Rightarrow> f64 \<Rightarrow> rat sqlresult" where
  "addToScore env old delta = num (sql env) (old + sql_param (sql env) delta)"

definition closeRowTx :: "env \<Rightarrow> f64 \<Rightarrow> DBPosition \<Rightarrow> tdb \<Rightarrow> tdb sqlresult" where
  "closeRowTx env pnl pos db =
     (if list_all (\<lambda>p. pr_position_id p = db_PositionID pos \<longrightarrow> isOK (addToScore env (pr_realized_score p) pnl)) (td_positions db)
      then update_position (db_PositionID pos)
             (\<lambda>p. p\<lparr>pr_closed := True, pr_qty_open := 0,
                      pr_realized_score := (case addToScore env (pr_realized_score p) pnl of Inr s \<Rightarrow> s | Inl _ \<Rightarrow> 0)\<rparr>) db
      else Inl ''numeric field overflow'')"

text \<open>\<open>SET qty_available = qty_available + $1, total_score = total_score + $2 ... lifecycle_status = 'ACTIVE'\<close>\<close>

definition returnQtyAndScoreTx :: "env \<Rightarrow> f64 \<Rightarrow> DBPosition \<Rightarrow> string \<Rightarrow> tdb \<Rightarrow> tdb sqlresult" where
  "returnQtyAndScoreTx env pnl pos contestID db =
     (if list_all (\<lambda>p. active_of contestID (db_UserID pos) p \<longrightarrow> isOK (addToScore env (pt_total_score p) pnl)) (td_participants db)
      then rbind (update_rows (active_of contestID (db_UserID pos))
             (\<lambda>p. p\<lparr>pt_qty_available := pt_qty_available p + db_QtyUsed pos,
                      pt_total_score := (case addToScore env (pt_total_score p) pnl of Inr s \<Rightarrow> s | Inl _ \<Rightarrow> 0)\<rparr>)
             participant_ok (td_participants db)) (\<lambda>rows. Inr (db\<lparr>td_participants := rows\<rparr>))
      else Inl ''numeric field overflow'')"

fun closePositionsTx :: "env \<Rightarrow> f64 option \<Rightarrow> PriceBook \<Rightarrow> string \<Rightarrow> DBPosition list \<Rightarrow> tdb \<Rightarrow> tdb sqlresult" where
  "closePositionsTx env closePrice pb contestID [] db = Inr db"
| "closePositionsTx env closePrice pb contestID (pos # ps) db =
     (let pnl = ds_Float64 (closingScore env closePrice pb pos) in
      rbind (closeRowTx env pnl pos db) (\<lambda>db1.
      rbind (returnQtyAndScoreTx env pnl pos contestID db1) (closePositionsTx env closePrice pb contestID ps)))"

definition closedInMemory :: "env \<Rightarrow> f64 option \<Rightarrow> string \<Rightarrow> DBPosition \<Rightarrow> engine \<Rightarrow> engine" where
  "closedInMemory env closePrice contestID pos e =
     update_user contestID (db_UserID pos)
       (\<lambda>us. ReleaseQty (db_QtyUsed pos)
          (snd (AddRealizedScoreDecimal (dec env) (NewFromFloat (dec env) (ds_Float64 (closingScore env closePrice (e_prices e) pos)))
            (RemovePosition (db_Symbol pos) us)))) e"

definition forceCloseAllContestPositions :: "env \<Rightarrow> string \<Rightarrow> f64 option \<Rightarrow> engine \<Rightarrow> (string + int) \<times> engine" where
  "forceCloseAllContestPositions env contestID closePrice e =
     (case WithTransaction (tx_error env) (\<lambda>db.
           let ps = map (scan_position (sql env)) (openPositions contestID db) in
           rbind (closePositionsTx env closePrice (e_prices e) contestID ps db) (\<lambda>db'. Inr (db', ps))) (e_db e) of
        Inl err \<Rightarrow> (Inl err, e)
      | Inr (db', ps) \<Rightarrow>
          if ps = [] then (Inr 0, put_db db' e)
          else (Inr (int (length ps)), fold (closedInMemory env closePrice contestID) ps (ensureContest contestID (put_db db' e))))"

section \<open>Status events\<close>

text \<open>
  The gate that handlers ask before an order; \<open>env.trading_enabled\<close> is its answer. A contest that
  has never been mentioned is enabled.
\<close>

record trading_app =
  ap_engine :: engine
  ap_contestTrading :: "string \<rightharpoonup> bool"

definition IsContestTradingEnabled :: "string \<Rightarrow> trading_app \<Rightarrow> bool" where
  "IsContestTradingEnabled contestID a = (case ap_contestTrading a contestID of None \<Rightarrow> True | Some b \<Rightarrow> b)"

definition SetContestTradingEnabled :: "string \<Rightarrow> bool \<Rightarrow> trading_app \<Rightarrow> trading_app" where
  "SetContestTradingEnabled contestID enabled a =
     a\<lparr>ap_contestTrading := (ap_contestTrading a)(contestID \<mapsto> enabled),
       ap_engine := (ap_engine a)\<lparr>e_contestCache := (e_contestCache (ap_engine a))(contestID := None)\<rparr>\<rparr>"

definition processContestStateEvent :: "string \<Rightarrow> string \<Rightarrow> trading_app \<Rightarrow> trading_app" where
  "processContestStateEvent contestID status a =
     (let e = ap_engine a;
          a1 = a\<lparr>ap_engine := e\<lparr>e_contestCache := (e_contestCache e)(contestID := None),
                 e_participantCache := (\<lambda>k. if fst k = contestID then None else e_participantCache e k),
                 e_symbolCache := (e_symbolCache e)(contestID := None)\<rparr>\<rparr>
      in if status = ''running'' then SetContestTradingEnabled contestID True a1
         else if status \<in> {''settling'', ''completed'', ''cancelled'', ''paused''} then SetContestTradingEnabled contestID False a1
         else a1)"

text \<open>What runs five minutes after a final status.\<close>

definition evictContest :: "string \<Rightarrow> engine \<Rightarrow> engine" where
  "evictContest contestID e =
     e\<lparr>e_state := RemoveContest contestID (e_state e), e_book := RemoveAllForContest contestID (e_book e)\<rparr>"

section \<open>Units returned by the two transactions\<close>

definition liveQty :: "string \<Rightarrow> string \<Rightarrow> tdb \<Rightarrow> int" where
  "liveQty c u db = sum_where (\<lambda>r. live_order c r \<and> or_user_id r = u) or_qty (td_orders db)"

text \<open>The units of rows with status pending: an order in that state has reserved nothing.\<close>

definition unreservedQty :: "string \<Rightarrow> string \<Rightarrow> tdb \<Rightarrow> int" where
  "unreservedQty c u db =
     sum_where (\<lambda>r. or_contest_id r = c \<and> or_user_id r = u \<and> or_status r = ''pending'') or_qty (td_orders db)"

lemma sum_where_filter: "sum_where P v (filter Q xs) = sum_where (\<lambda>x. Q x \<and> P x) v xs"
  by (induction xs) auto

lemma sum_where_add: "(\<And>x. \<not> (P x \<and> Q x)) \<Longrightarrow> sum_where (\<lambda>x. P x \<or> Q x) v xs = sum_where P v xs + sum_where Q v xs"
  by (induction xs) auto

lemma liveQty_parts: "liveQty c u db = unreservedQty c u db + waiting c u db"
proof -
  have "liveQty c u db = sum_where (\<lambda>r. (or_contest_id r = c \<and> or_user_id r = u \<and> or_status r = ''pending'') \<or> waits_for c u r) or_qty (td_orders db)"
    unfolding liveQty_def by (rule arg_cong [where f = "\<lambda>P. sum_where P or_qty (td_orders db)"])
      (auto simp: fun_eq_iff live_order_def waits_for_def)
  also have "\<dots> = unreservedQty c u db + waiting c u db"
    unfolding unreservedQty_def waiting_def by (rule sum_where_add) (auto simp: waits_for_def)
  finally show ?thesis .
qed

lemma sum_where_none: "\<forall>x \<in> set xs. \<not> P x \<Longrightarrow> sum_where P v xs = 0"
  by (induction xs) auto

lemma qtyByUser_fold:
  "fold addQty orders m u =
     (if \<exists>r \<in> set orders. or_user_id r = u
      then Some (wrap64 ((case m u of None \<Rightarrow> 0 | Some q \<Rightarrow> q) + sum_where (\<lambda>r. or_user_id r = u) or_qty orders)) else m u)"
proof (induction orders arbitrary: m)
  case (Cons r rs)
  have "addQty r m u = (if u = or_user_id r then Some (wrap64 ((case m u of None \<Rightarrow> 0 | Some q \<Rightarrow> q) + or_qty r)) else m u)"
    by (simp add: addQty_def)
  then show ?case
    using Cons.IH [of "addQty r m"] sum_where_none [of rs "\<lambda>r. or_user_id r = u" or_qty]
    by (cases "or_user_id r = u") (auto simp: add.assoc)
qed simp

lemma qtyByUser_eq:
  "qtyByUser (filter (live_order c) (td_orders db)) u =
     (if \<exists>r \<in> set (td_orders db). live_order c r \<and> or_user_id r = u then Some (wrap64 (liveQty c u db)) else None)"
  by (auto simp: qtyByUser_def qtyByUser_fold liveQty_def sum_where_filter)

text \<open>What the loop does to one participant row.\<close>

definition credited :: "string \<Rightarrow> (string \<rightharpoonup> int) \<Rightarrow> string list \<Rightarrow> ParticipantRow \<Rightarrow> ParticipantRow" where
  "credited c m keys p =
     (if pt_contest_id p = c \<and> pt_active p \<and> pt_user_id p \<in> set keys
      then p\<lparr>pt_qty_available := pt_qty_available p + (case m (pt_user_id p) of None \<Rightarrow> 0 | Some q \<Rightarrow> q)\<rparr> else p)"

lemma credited_simps [simp]:
  "pt_contest_id (credited c m keys p) = pt_contest_id p" "pt_user_id (credited c m keys p) = pt_user_id p"
  "pt_active (credited c m keys p) = pt_active p" "pt_qty_total (credited c m keys p) = pt_qty_total p"
  by (simp_all add: credited_def)

lemma returnQtys_Inr:
  assumes "distinct keys" "returnQtys c m keys db = Inr db'"
  shows "db' = db\<lparr>td_participants := map (credited c m keys) (td_participants db)\<rparr> \<and>
    (\<forall>p \<in> set (td_participants db). pt_contest_id p = c \<longrightarrow> pt_active p \<longrightarrow> pt_user_id p \<in> set keys \<longrightarrow> m (pt_user_id p) \<noteq> None \<longrightarrow>
       participant_ok (credited c m keys p))"
  using assms
proof (induction keys arbitrary: db)
  case Nil
  then have "map (credited c m []) (td_participants db) = td_participants db" by (simp add: credited_def map_idI)
  then show ?case using Nil by simp
next
  case (Cons u us)
  show ?case
  proof (cases "m u")
    case None
    then have "credited c m (u # us) = credited c m us" using Cons.prems(1) by (auto simp: credited_def fun_eq_iff)
    then show ?thesis using Cons None by auto
  next
    case (Some q)
    define f where "f = (\<lambda>p. if active_of c u p then p\<lparr>pt_qty_available := pt_qty_available p + q\<rparr> else p)"
    obtain rows where rows: "rows = map f (td_participants db)" "\<forall>p \<in> set (td_participants db). active_of c u p \<longrightarrow> participant_ok (f p)"
      and rest: "returnQtys c m us (db\<lparr>td_participants := rows\<rparr>) = Inr db'"
      using Cons.prems(2) Some by (auto simp: returnQtyTx_def res_simps update_rows_Inr f_def)
    note IH = Cons.IH [OF _ rest]
    have e: "credited c m us (f p) = credited c m (u # us) p" for p
      using Cons.prems(1) Some by (auto simp: credited_def f_def active_of_def)
    have "participant_ok (credited c m (u # us) p)"
      if "p \<in> set (td_participants db)" "pt_contest_id p = c" "pt_active p" "pt_user_id p \<in> set (u # us)" "m (pt_user_id p) \<noteq> None" for p
    proof (cases "pt_user_id p = u")
      case True
      then have "credited c m (u # us) p = f p" using that Some Cons.prems(1) by (simp add: credited_def f_def active_of_def)
      then show ?thesis using rows(2) that True by (simp add: active_of_def)
    next
      case False
      then have "f p = p" by (simp add: f_def active_of_def)
      then have "p \<in> set rows" using that rows(1) by force
      then have "participant_ok (credited c m us p)" using IH Cons.prems(1) that False by simp
      then show ?thesis using e [of p] \<open>f p = p\<close> by simp
    qed
    then show ?thesis using IH Cons.prems(1) rows(1) e by (simp add: comp_def)
  qed
qed

lemma returnQtys_works:
  assumes "distinct keys"
    and "\<And>p. p \<in> set (td_participants db) \<Longrightarrow> pt_contest_id p = c \<Longrightarrow> pt_active p \<Longrightarrow> pt_user_id p \<in> set keys \<Longrightarrow>
      m (pt_user_id p) \<noteq> None \<Longrightarrow> participant_ok (credited c m keys p)"
  shows "\<exists>db'. returnQtys c m keys db = Inr db'"
  using assms
proof (induction keys arbitrary: db)
  case (Cons u us)
  show ?case
  proof (cases "m u")
    case None
    then have "credited c m (u # us) = credited c m us" using Cons.prems(1) by (auto simp: credited_def fun_eq_iff)
    then show ?thesis using Cons None by simp
  next
    case (Some q)
    define f where "f = (\<lambda>p. if active_of c u p then p\<lparr>pt_qty_available := pt_qty_available p + q\<rparr> else p)"
    have e: "credited c m us (f p) = credited c m (u # us) p" for p
      using Cons.prems(1) Some by (auto simp: credited_def f_def active_of_def)
    have own: "participant_ok (f p)" if "p \<in> set (td_participants db)" "active_of c u p" for p
    proof -
      have "credited c m (u # us) p = f p" using that(2) Some Cons.prems(1) by (simp add: credited_def f_def active_of_def)
      then show ?thesis using Cons.prems(2) [OF that(1)] that(2) Some by (simp add: active_of_def)
    qed
    then have 1: "returnQtyTx c u q db = Inr (db\<lparr>td_participants := map f (td_participants db)\<rparr>)"
      by (auto simp: returnQtyTx_def res_simps update_rows_Inr f_def)
    have "\<exists>db'. returnQtys c m us (db\<lparr>td_participants := map f (td_participants db)\<rparr>) = Inr db'"
    proof (rule Cons.IH)
      show "distinct us" using Cons.prems(1) by simp
      fix p
      assume p: "p \<in> set (td_participants (db\<lparr>td_participants := map f (td_participants db)\<rparr>))" "pt_contest_id p = c" "pt_active p"
        "pt_user_id p \<in> set us" "m (pt_user_id p) \<noteq> None"
      then obtain p0 where p0: "p0 \<in> set (td_participants db)" "p = f p0" by auto
      then have "pt_contest_id p0 = c" "pt_active p0" "pt_user_id p0 = pt_user_id p"
        using p by (auto simp: f_def active_of_def split: if_splits)
      then show "participant_ok (credited c m us p)" using Cons.prems(2) [OF p0(1)] p p0 e by simp
    qed
    then show ?thesis using 1 Some by simp
  qed
qed simp

section \<open>Accounts of a contest\<close>

definition accounted :: "string \<Rightarrow> tdb \<Rightarrow> bool" where
  "accounted c db \<longleftrightarrow>
     (\<forall>p \<in> set (td_participants db). pt_contest_id p = c \<longrightarrow> pt_active p \<longrightarrow>
        0 \<le> pt_qty_available p \<and> is_i64 (pt_qty_total p) \<and>
        pt_qty_available p + used c (pt_user_id p) db + waiting c (pt_user_id p) db = pt_qty_total p)"

text \<open>The visiting order of the users: each one with a live order once.\<close>

definition visits :: "string \<Rightarrow> string list \<Rightarrow> tdb \<Rightarrow> bool" where
  "visits c keys db \<longleftrightarrow> distinct keys \<and> set keys = or_user_id ` set (filter (live_order c) (td_orders db))"

lemma liveQty_none: "u \<notin> or_user_id ` set (filter (live_order c) (td_orders db)) \<Longrightarrow> liveQty c u db = 0"
  unfolding liveQty_def by (rule sum_where_none) auto

definition cancelRow :: "string \<Rightarrow> OrderRow \<Rightarrow> OrderRow" where
  "cancelRow c r = (if live_order c r then r\<lparr>or_status := ''cancelled''\<rparr> else r)"

lemma order_ok_status [simp]: "order_ok (r\<lparr>or_status := s\<rparr>) = order_ok r"
  by (simp add: order_ok_def)

lemma cancelRow_simps [simp]:
  "or_order_id (cancelRow c r) = or_order_id r" "order_ok (cancelRow c r) = order_ok r" "\<not> live_order c (cancelRow c r)"
  by (simp_all add: cancelRow_def live_order_def)

lemma cancelled_tables: "tables_ok db \<Longrightarrow> tables_ok (db\<lparr>td_orders := map (cancelRow c) (td_orders db)\<rparr>)"
  by (simp add: tables_ok_def comp_def)

text \<open>Without unreserved orders the transaction succeeds and returns exactly what waits.\<close>

lemma cancelOrdersTx_works:
  assumes t: "tables_ok db" and a: "accounted c db" and v: "visits c keys db"
    and np: "\<And>r. r \<in> set (td_orders db) \<Longrightarrow> or_contest_id r = c \<Longrightarrow> or_status r \<noteq> ''pending''"
  shows "\<exists>db' os. cancelOrdersTx c keys db = Inr (db', os) \<and> tables_ok db' \<and> accounted c db' \<and>
    td_positions db' = td_positions db \<and> (\<forall>r \<in> set (td_orders db'). \<not> live_order c r)"
proof (cases "filter (live_order c) (td_orders db) = []")
  case True
  then show ?thesis using t a by (auto simp: cancelOrdersTx_def filter_empty_conv)
next
  case False
  define orders where "orders = filter (live_order c) (td_orders db)"
  define rows where "rows = map (cancelRow c) (td_orders db)"
  define db1 where "db1 = db\<lparr>td_orders := rows\<rparr>"
  have up: "update_rows (live_order c) (\<lambda>r. r\<lparr>or_status := ''cancelled''\<rparr>) order_ok (td_orders db) = Inr rows"
    using t by (auto simp: update_rows_Inr rows_def tables_ok_def cancelRow_def)
  have unres: "unreservedQty c u db = 0" for u
    unfolding unreservedQty_def by (rule sum_where_none) (use np in auto)
  then have live: "liveQty c u db = waiting c u db" for u by (simp add: liveQty_parts)
  have fits: "participant_ok (credited c (qtyByUser orders) keys p) \<and>
      pt_qty_available (credited c (qtyByUser orders) keys p) = pt_qty_available p + waiting c (pt_user_id p) db"
    if p: "p \<in> set (td_participants db)" "pt_contest_id p = c" "pt_active p" for p
  proof -
    let ?u = "pt_user_id p"
    have acc: "0 \<le> pt_qty_available p" "is_i64 (pt_qty_total p)"
      "pt_qty_available p + used c ?u db + waiting c ?u db = pt_qty_total p" using a p by (auto simp: accounted_def)
    have nn: "0 \<le> used c ?u db" "0 \<le> waiting c ?u db" using used_nonneg waiting_nonneg t by blast+
    have "is_i64 (waiting c ?u db)" by (rule is_i64_upto [OF acc(2)]) (use acc nn in simp_all)
    then have "pt_qty_available (credited c (qtyByUser orders) keys p) = pt_qty_available p + waiting c ?u db"
      using p v liveQty_none [of ?u c db] live [of ?u]
      by (auto simp: credited_def qtyByUser_eq orders_def visits_def)
    then show ?thesis using acc nn by (simp add: participant_ok_def)
  qed
  have "\<exists>db'. returnQtys c (qtyByUser orders) keys db1 = Inr db'"
    by (rule returnQtys_works) (use v fits in \<open>auto simp: visits_def db1_def\<close>)
  then obtain db' where ret: "returnQtys c (qtyByUser orders) keys db1 = Inr db'" by blast
  have db': "db' = db1\<lparr>td_participants := map (credited c (qtyByUser orders) keys) (td_participants db)\<rparr>"
    using returnQtys_Inr [OF _ ret] v by (simp add: visits_def db1_def)
  have tx: "cancelOrdersTx c keys db = Inr (db', orders)"
    using False up ret by (simp add: cancelOrdersTx_def orders_def [symmetric] db1_def)
  have none: "\<forall>r \<in> set rows. \<not> live_order c r" by (simp add: rows_def)
  have "waiting c u db' = 0" for u
    unfolding waiting_def by (rule sum_where_none) (use none in \<open>auto simp: db' db1_def live_order_def waits_for_def\<close>)
  moreover have "used c u db' = used c u db" for u by (simp add: used_def db' db1_def)
  ultimately have "accounted c db'"
    using a fits used_nonneg [OF t] waiting_nonneg [OF t] by (fastforce simp: accounted_def db' db1_def)
  moreover have "tables_ok db'" using cancelled_tables [OF t, of c] by (simp add: tables_ok_def db' db1_def rows_def)
  ultimately show ?thesis using tx none by (auto simp: db' db1_def)
qed

text \<open>A user whose live orders are worth more than he can take back stops the whole transaction.\<close>

lemma cancelOrdersTx_blocked:
  assumes v: "visits c keys db" and p: "p \<in> set (td_participants db)" "active_of c u p"
    and over: "pt_qty_total p < pt_qty_available p + liveQty c u db" and i: "is_i64 (liveQty c u db)"
    and r: "r \<in> set (td_orders db)" "live_order c r" "or_user_id r = u"
  shows "\<exists>err. cancelOrdersTx c keys db = Inl err"
proof (rule ccontr)
  assume "\<nexists>err. cancelOrdersTx c keys db = Inl err"
  then obtain x where x: "cancelOrdersTx c keys db = Inr x" by (metis sum.exhaust)
  define orders where "orders = filter (live_order c) (td_orders db)"
  have ne: "orders \<noteq> []" using r by (auto simp: orders_def filter_empty_conv)
  obtain rows db' where ret: "returnQtys c (qtyByUser orders) keys (db\<lparr>td_orders := rows\<rparr>) = Inr db'"
    using x ne by (auto simp: cancelOrdersTx_def orders_def [symmetric] res_simps)
  have u: "u \<in> set keys" using v r by (auto simp: visits_def)
  have q: "qtyByUser orders u = Some (liveQty c u db)" using r i by (auto simp: qtyByUser_eq orders_def)
  have "participant_ok (credited c (qtyByUser orders) keys p)"
    using returnQtys_Inr [OF _ ret] v p u q by (auto simp: visits_def active_of_def)
  moreover have "credited c (qtyByUser orders) keys p = p\<lparr>pt_qty_available := pt_qty_available p + liveQty c u db\<rparr>"
    using p u q by (auto simp: credited_def active_of_def)
  ultimately show False using over by (simp add: participant_ok_def)
qed

section \<open>Closing keeps the accounts\<close>

lemma closeRowTx_step:
  assumes cl: "closeRowTx env x (scan_position sq p) db = Inr db'" and t: "tables_ok db"
    and p: "p \<in> set (td_positions db)" "used_by c u p"
  shows "pos_step c u (- pr_qty_used p) db db' \<and> td_participants db' = td_participants db \<and>
    (\<exists>f. td_positions db' = map (\<lambda>r. if pr_position_id r = pr_position_id p then f r else r) (td_positions db) \<and> (\<forall>r. pr_closed (f r)))"
proof -
  define f where "f = (\<lambda>r :: PositionRow. r\<lparr>pr_closed := True, pr_qty_open := 0,
      pr_realized_score := (case addToScore env (pr_realized_score r) x of Inr s \<Rightarrow> s | Inl _ \<Rightarrow> 0)\<rparr>)"
  have up: "update_position (pr_position_id p) f db = Inr db'"
    using cl by (simp add: closeRowTx_def scan_position_def f_def split: if_splits)
  have "pos_step c u ((if pr_closed (f p) then 0 else pr_qty_used (f p)) - pr_qty_used p) db db' \<and> position_ok (f p)"
    by (rule update_position_step [OF up t p]) (simp_all add: f_def)
  moreover have "td_positions db' = map (\<lambda>r. if pr_position_id r = pr_position_id p then f r else r) (td_positions db)"
    "td_participants db' = td_participants db"
    using up by (auto simp: update_position_def res_simps update_rows_Inr)
  ultimately show ?thesis by (auto simp: f_def)
qed

lemma returnQtyAndScoreTx_Inr:
  assumes "returnQtyAndScoreTx env x pos c db = Inr db'"
  shows "\<exists>rows. db' = db\<lparr>td_participants := rows\<rparr> \<and> (\<forall>p' \<in> set rows. \<exists>p \<in> set (td_participants db).
      pt_contest_id p' = pt_contest_id p \<and> pt_user_id p' = pt_user_id p \<and> pt_active p' = pt_active p \<and> pt_qty_total p' = pt_qty_total p \<and>
      (active_of c (db_UserID pos) p \<longrightarrow> participant_ok p') \<and>
      pt_qty_available p' = pt_qty_available p + (if active_of c (db_UserID pos) p then db_QtyUsed pos else 0))"
  using assms by (fastforce simp: returnQtyAndScoreTx_def res_simps update_rows_Inr split: if_splits)

lemma scan_position_simps [simp]:
  "db_UserID (scan_position sq p) = pr_user_id p" "db_QtyUsed (scan_position sq p) = pr_qty_used p"
  by (simp_all add: scan_position_def)

text \<open>Closing one position: its units move from the position to its owner.\<close>

lemma close_one:
  assumes 1: "closeRowTx env x (scan_position sq p) db = Inr db1" and 2: "returnQtyAndScoreTx env x (scan_position sq p) c db1 = Inr db2"
    and t: "tables_ok db" and a: "accounted c db" and p: "p \<in> set (td_positions db)" "pr_contest_id p = c" "\<not> pr_closed p"
  shows "tables_ok db2 \<and> accounted c db2 \<and> td_orders db2 = td_orders db \<and>
    (\<exists>f. td_positions db2 = map (\<lambda>r. if pr_position_id r = pr_position_id p then f r else r) (td_positions db) \<and> (\<forall>r. pr_closed (f r)))"
proof -
  have u: "used_by c (pr_user_id p) p" using p by (simp add: used_by_def)
  note C = closeRowTx_step [OF 1 t p(1) u]
  obtain rows where rows: "db2 = db1\<lparr>td_participants := rows\<rparr>" "\<forall>p' \<in> set rows. \<exists>q \<in> set (td_participants db1).
      pt_contest_id p' = pt_contest_id q \<and> pt_user_id p' = pt_user_id q \<and> pt_active p' = pt_active q \<and> pt_qty_total p' = pt_qty_total q \<and>
      (active_of c (pr_user_id p) q \<longrightarrow> participant_ok p') \<and>
      pt_qty_available p' = pt_qty_available q + (if active_of c (pr_user_id p) q then pr_qty_used p else 0)"
    using returnQtyAndScoreTx_Inr [OF 2, unfolded scan_position_simps] by blast
  have t1: "tables_ok db1" and o1: "td_orders db1 = td_orders db"
    and used1: "used c v db1 = used c v db + (if v = pr_user_id p then - pr_qty_used p else 0)" for v
    using C by (auto simp: pos_step_def)
  have "accounted c db2"
    unfolding accounted_def
  proof (intro ballI impI)
    fix p'
    assume p': "p' \<in> set (td_participants db2)" "pt_contest_id p' = c" "pt_active p'"
    then obtain q where q: "q \<in> set (td_participants db)" "pt_contest_id q = c" "pt_user_id p' = pt_user_id q" "pt_active q"
      "pt_qty_total p' = pt_qty_total q" "active_of c (pr_user_id p) q \<longrightarrow> participant_ok p'"
      "pt_qty_available p' = pt_qty_available q + (if active_of c (pr_user_id p) q then pr_qty_used p else 0)"
      using rows C by fastforce
    have acc: "0 \<le> pt_qty_available q" "is_i64 (pt_qty_total q)"
      "pt_qty_available q + used c (pt_user_id q) db + waiting c (pt_user_id q) db = pt_qty_total q" using a q by (auto simp: accounted_def)
    have "0 \<le> pt_qty_available p'" using q(6,7) acc(1) by (auto simp: participant_ok_def split: if_splits)
    moreover have "used c (pt_user_id p') db2 = used c (pt_user_id q) db + (if pt_user_id q = pr_user_id p then - pr_qty_used p else 0)"
      using used1 [of "pt_user_id q"] q(3) by (simp add: rows(1) used_def)
    moreover have "waiting c (pt_user_id p') db2 = waiting c (pt_user_id q) db" using q(3) o1 by (simp add: rows(1) waiting_def)
    ultimately show "0 \<le> pt_qty_available p' \<and> is_i64 (pt_qty_total p') \<and>
        pt_qty_available p' + used c (pt_user_id p') db2 + waiting c (pt_user_id p') db2 = pt_qty_total p'"
      using acc q by (auto simp: active_of_def)
  qed
  moreover have "tables_ok db2" using t1 by (simp add: rows(1) tables_ok_def)
  ultimately show ?thesis using C o1 by (simp add: rows(1))
qed

lemma closePositionsTx_facts:
  assumes "closePositionsTx env cp pb c (map (scan_position sq) ps) db = Inr db'" "tables_ok db" "accounted c db"
    and "\<forall>p \<in> set ps. p \<in> set (td_positions db) \<and> pr_contest_id p = c \<and> \<not> pr_closed p" "distinct (map pr_position_id ps)"
  shows "tables_ok db' \<and> accounted c db' \<and> td_orders db' = td_orders db \<and>
    set (openPositions c db') \<subseteq> {p \<in> set (openPositions c db). pr_position_id p \<notin> pr_position_id ` set ps}"
  using assms
proof (induction ps arbitrary: db)
  case (Cons p ps)
  define x where "x = ds_Float64 (closingScore env cp pb (scan_position sq p))"
  obtain db1 db2 where 1: "closeRowTx env x (scan_position sq p) db = Inr db1"
    and 2: "returnQtyAndScoreTx env x (scan_position sq p) c db1 = Inr db2"
    and rest: "closePositionsTx env cp pb c (map (scan_position sq) ps) db2 = Inr db'"
    using Cons.prems(1) by (auto simp: Let_def res_simps x_def)
  have "p \<in> set (td_positions db)" "pr_contest_id p = c" "\<not> pr_closed p" using Cons.prems(4) by auto
  note S = close_one [OF 1 2 Cons.prems(2,3) this]
  obtain f where f: "td_positions db2 = map (\<lambda>r. if pr_position_id r = pr_position_id p then f r else r) (td_positions db)" "\<forall>r. pr_closed (f r)"
    using S by blast
  have "\<forall>q \<in> set ps. q \<in> set (td_positions db2) \<and> pr_contest_id q = c \<and> \<not> pr_closed q"
  proof
    fix q assume q: "q \<in> set ps"
    then have "pr_position_id q \<in> pr_position_id ` set ps" by (rule imageI)
    then have "pr_position_id q \<noteq> pr_position_id p" using Cons.prems(5) by auto
    then show "q \<in> set (td_positions db2) \<and> pr_contest_id q = c \<and> \<not> pr_closed q" using Cons.prems(4) q f(1) by force
  qed
  then have IH: "tables_ok db' \<and> accounted c db' \<and> td_orders db' = td_orders db2 \<and>
      set (openPositions c db') \<subseteq> {q \<in> set (openPositions c db2). pr_position_id q \<notin> pr_position_id ` set ps}"
    using Cons.IH [OF rest] S Cons.prems(5) by simp
  have "set (openPositions c db2) \<subseteq> {q \<in> set (openPositions c db). pr_position_id q \<noteq> pr_position_id p}"
    using f by (auto simp: openPositions_def split: if_splits)
  then show ?case using IH S by auto
qed simp

lemma openPositions_used: "openPositions c db = [] \<Longrightarrow> used c u db = 0"
  unfolding used_def by (rule sum_where_none) (auto simp: openPositions_def filter_empty_conv used_by_def)

lemma user_update_db [simp]: "e_db (update_user c u f e) = e_db e"
  by (simp add: update_user_def split: option.split)

lemma fold_same: "(\<And>x e. g (f x e) = g e) \<Longrightarrow> g (fold f xs e) = g e"
  by (induction xs arbitrary: e) auto

lemma releaseCancelled_db [simp]: "e_db (releaseCancelled c keys orders e) = e_db e"
proof -
  have "e_db (fold (\<lambda>u. case m u of None \<Rightarrow> id | Some q \<Rightarrow> update_user c u (ReleaseQty q)) ks e') = e_db e'"
    for m :: "string \<Rightarrow> int option" and ks e'
    by (rule fold_same) (simp split: option.split)
  moreover have "e_db (fold (\<lambda>r. update_user c (or_user_id r) (us_RemovePendingOrder (or_order_id r))) orders e') = e_db e'" for e'
    by (rule fold_same) simp
  ultimately show ?thesis by (simp add: releaseCancelled_def)
qed

lemma cancelAll_result:
  assumes "tx_error env = None"
  shows "cancelOrdersTx c keys (e_db e) = Inr (db', os) \<Longrightarrow>
      \<exists>e'. cancelAllContestOrders env c keys e = (Inr (int (length os)), e') \<and> e_db e' = db'"
    and "cancelOrdersTx c keys (e_db e) = Inl err \<Longrightarrow> cancelAllContestOrders env c keys e = (Inl err, e)"
  using assms by (auto simp: cancelAllContestOrders_def WithTransaction_def Let_def)

lemma forceClose_Inr:
  assumes "forceCloseAllContestPositions env c cp e = (Inr n, e')" "tables_ok (e_db e)"
  shows "closePositionsTx env cp (e_prices e) c (map (scan_position (sql env)) (openPositions c (e_db e))) (e_db e) = Inr (e_db e')"
proof -
  have "e_db (fold (closedInMemory env cp c) ps e0) = e_db e0" for ps e0
    by (rule fold_same) (simp add: closedInMemory_def)
  then show ?thesis
    using assms(1) by (auto simp: forceCloseAllContestPositions_def WithTransaction_def Let_def res_simps split: sum.splits option.splits if_splits)
qed

lemma forceClose_facts:
  assumes fc: "forceCloseAllContestPositions env c cp e = (Inr n, e')" and t: "tables_ok (e_db e)" and a: "accounted c (e_db e)"
  shows "tables_ok (e_db e') \<and> accounted c (e_db e') \<and> td_orders (e_db e') = td_orders (e_db e) \<and> openPositions c (e_db e') = []"
proof -
  have p: "\<forall>p \<in> set (openPositions c (e_db e)). p \<in> set (td_positions (e_db e)) \<and> pr_contest_id p = c \<and> \<not> pr_closed p"
    by (simp add: openPositions_def)
  have d: "distinct (map pr_position_id (openPositions c (e_db e)))"
    unfolding openPositions_def using t by (auto simp: tables_ok_def intro: distinct_map_filter)
  have F: "tables_ok (e_db e') \<and> accounted c (e_db e') \<and> td_orders (e_db e') = td_orders (e_db e) \<and>
      set (openPositions c (e_db e')) \<subseteq> {p \<in> set (openPositions c (e_db e)). pr_position_id p \<notin> pr_position_id ` set (openPositions c (e_db e))}"
    by (rule closePositionsTx_facts [OF forceClose_Inr [OF fc t] t a p d])
  then have "openPositions c (e_db e') = []" by (cases "openPositions c (e_db e')") auto
  then show ?thesis using F by blast
qed

end
