(* ===== verification/Trading_Properties.thy ===== *)
theory Trading_Properties
  imports Trading_Engine
begin

text \<open>
  The properties of the trading engine: conservation of buying power over all runs, and the requests
  and interleavings that the code accepts although they lose an order, a level or a reservation. The
  witnesses run the handlers on one contest, one player with a hundred units and one symbol.
\<close>

section \<open>A concrete engine\<close>

definition sample_pg :: sql_driver where
  "sample_pg = \<lparr>sql_num = \<lambda>x. if \<bar>x\<bar> < 10 ^ 12 then Some (round_places x 8) else None, sql_float = f64_round, sql_param = id\<rparr>"

definition sample_env :: "string \<Rightarrow> env" where
  "sample_env k =
     \<lparr>now = 1700000000000000000, uuid_position = ''P'' @ k, uuid_order = ''O'' @ k, uuid_fill = ''F'' @ k, lock_ok = True,
      rate_allowed = True, can_accept = True, trading_enabled = True, shard_ok = True, require_market_data = False, quote_keys = [],
      market_open = \<lambda>_. True, redis_price = \<lambda>_. None, tx_error = None, uuid_sha1 = id, dec = shop_decimal, sql = sample_pg,
      CacheEnabled = False, CacheTTL = 0, QtyMinPerTrade = 1, QtyMaxPctOfTotal = 100,
      MaxPriceAgeMarket = 0, MaxPriceAgePending = 0, MaxPriceAgeOpenCrypto = 0, MaxPriceAgeOpenForex = 0,
      MaxPriceAgeCloseCrypto = 0, MaxPriceAgeCloseForex = 0\<rparr>"

definition sample_tables :: tdb where
  "sample_tables =
     \<lparr>td_participants = [\<lparr>pt_contest_id = ''C'', pt_user_id = ''U'', pt_qty_total = 100, pt_qty_available = 100,
        pt_total_score = 0, pt_active = True\<rparr>],
      td_positions = [], td_orders = [], td_fills = [],
      td_contests = [''C'' \<mapsto> \<lparr>dc_ID = ''C'', dc_Status = ''running'', dc_AssetClass = ''crypto'', dc_StartsAt = None,
        dc_EndsAt = None, dc_Rules = None\<rparr>],
      td_symbols = [], td_positions_columns = migrated_positions_columns\<rparr>"

definition sample_order :: "string \<Rightarrow> string \<Rightarrow> string \<Rightarrow> int \<Rightarrow> OrderRequest" where
  "sample_order oid side ty qty =
     \<lparr>rq_OrderID = oid, rq_UserID = ''U'', rq_ContestID = ''C'', rq_Symbol = ''X'', rq_Side = side, rq_Type = ty, rq_Qty = qty,
      rq_LimitPrice = None, rq_StopPrice = None, rq_TakeProfit = None, rq_StopLoss = None\<rparr>"

definition sample_tick :: "f64 \<Rightarrow> engine \<Rightarrow> engine" where
  "sample_tick p e = e\<lparr>e_prices := fst (UpdateFromTick 1700000000000000000
     (Some \<lparr>tk_Ts = 1700000000000, tk_Symbols = [\<lparr>st_Symbol = ''X'', st_Bid = p, st_Ask = p, st_Last = p, st_Timestamp = 1700000000000\<rparr>]\<rparr>)
     (e_prices e))\<rparr>"

definition sample_start :: engine where
  "sample_start = sample_tick 100 (started_engine sample_pg sample_tables)"

text \<open>The units of the player: available, in positions, waiting, total.\<close>

definition sample_units :: "engine \<Rightarrow> (int \<times> int \<times> int \<times> int) option" where
  "sample_units e = map_option (\<lambda>us. (us_QtyAvailable us, used ''C'' ''U'' (e_db e), waiting ''C'' ''U'' (e_db e), us_QtyTotal us))
     (user_of ''C'' ''U'' e)"

definition sample_limit :: OrderRequest where
  "sample_limit = (sample_order ''L'' OrderSideBuy OrderTypeBuyLimit 60)\<lparr>rq_LimitPrice := Some 90\<rparr>"

definition sample_waiting :: engine where
  "sample_waiting = snd (ProcessOrder (sample_env ''1'') sample_limit sample_start)"

definition sample_cancelled :: engine where
  "sample_cancelled = snd (ProcessCancelOrder (sample_env ''2'') \<lparr>co_OrderID = ''L'', co_UserID = ''U'', co_ContestID = ''C''\<rparr> sample_waiting)"

section \<open>Conservation\<close>

text \<open>
  (C2) Buying power is conserved: from a start on balanced tables, after any sequence of orders,
  closes, cancellations, changes of levels, ticks with their triggered orders, contest changes and
  executed levels that face the open position, the units that a player has available are never
  negative and, with the units held by his open positions and reserved by his waiting orders, add up
  to his total; and every order waiting in memory has an open row of the same quantity.
\<close>
theorem buying_power_conserved:
  assumes "balanced_tables db" and "engine_step\<^sup>*\<^sup>* (started_engine sq db) e" and "user_of c u e = Some us"
  shows "0 \<le> us_QtyAvailable us \<and> us_QtyAvailable us + used c u (e_db e) + waiting c u (e_db e) = us_QtyTotal us \<and>
    (\<forall>oid po. us_GetPendingOrder oid us = Some po \<longrightarrow>
       (\<exists>r \<in> set (td_orders (e_db e)). or_order_id r = oid \<and> waits_for c u r \<and> or_qty r = po_Qty po))"
proof -
  have "power_ok e" by (rule engine_steps_power [OF assms(2) started_power [OF assms(1)]])
  then have "user_ok c u us (e_db e)" using assms(3) by (simp add: power_ok_def power_def users_of_def)
  then show ?thesis unfolding user_ok_def us_GetPendingOrder_def by blast
qed

lemma sample_balanced: "balanced_tables sample_tables"
  by (simp add: balanced_tables_def tables_ok_def sample_tables_def used_def waiting_def is_i64_def)

lemma sample_start_reached: "engine_step (started_engine sample_pg sample_tables) sample_start"
  unfolding sample_start_def sample_tick_def by (rule engine_tick)

lemma sample_waiting_reached: "engine_step\<^sup>*\<^sup>* (started_engine sample_pg sample_tables) sample_waiting"
  using sample_start_reached engine_order [of sample_start "sample_env ''1''" sample_limit]
  unfolding sample_waiting_def [symmetric] by (rule rtranclp.intros(2) [OF r_into_rtranclp])

definition sample_triggered :: "TriggeredOrder list" where
  "sample_triggered = EvaluatePendingOrders ''X'' 90 90 [''L''] (e_book sample_waiting)"

definition sample_filled :: engine where
  "sample_filled = runTriggered (\<lambda>_. sample_env ''3'') sample_triggered sample_waiting"

lemma sample_filled_reached: "engine_step\<^sup>*\<^sup>* (started_engine sample_pg sample_tables) sample_filled"
  unfolding sample_filled_def sample_triggered_def
  by (rule rtranclp.intros(2) [OF sample_waiting_reached engine_triggers]) simp

lemma sample_units_eval:
  "sample_units sample_waiting = Some (40, 0, 60, 100)" "sample_units sample_filled = Some (40, 60, 0, 100)"
  by code_simp+

theorem buying_power_conserved_witness:
  "\<exists>us. user_of ''C'' ''U'' sample_filled = Some us \<and> us_QtyAvailable us = 40 \<and> used ''C'' ''U'' (e_db sample_filled) = 60 \<and>
     us_QtyAvailable us + used ''C'' ''U'' (e_db sample_filled) + waiting ''C'' ''U'' (e_db sample_filled) = us_QtyTotal us"
proof -
  obtain us where us: "user_of ''C'' ''U'' sample_filled = Some us" "us_QtyAvailable us = 40" "used ''C'' ''U'' (e_db sample_filled) = 60"
    using sample_units_eval(2) by (auto simp: sample_units_def)
  then show ?thesis using buying_power_conserved [OF sample_balanced sample_filled_reached us(1)] by blast
qed



section \<open>Runs that lose units\<close>


definition sample_long :: engine where
  "sample_long = snd (ProcessOrder (sample_env ''1'') ((sample_order ''M'' OrderSideBuy OrderTypeMarket 10)\<lparr>rq_TakeProfit := Some 120\<rparr>) sample_start)"

definition sample_flipped :: engine where
  "sample_flipped = sample_tick 130 (snd (ProcessOrder (sample_env ''2'') (sample_order ''N'' OrderSideSell OrderTypeMarket 20) sample_long))"

definition sample_levels :: "TriggeredTPSL list" where
  "sample_levels = EvaluateTPSL ''X'' 130 130 [''P1''] (e_book sample_flipped)"

definition sample_doubled :: engine where
  "sample_doubled = executeTPSL (sample_env ''3'') (hd sample_levels) sample_flipped"

definition sample_open_rows :: "engine \<Rightarrow> (string \<times> int) list" where
  "sample_open_rows e = map (\<lambda>p. (pr_side p, pr_qty_open p)) (filter (\<lambda>p. \<not> pr_closed p) (td_positions (e_db e)))"

lemma sample_flip_units: "sample_units sample_long = Some (90, 10, 0, 100)" "sample_units sample_flipped = Some (90, 10, 0, 100)"
  by code_simp+

lemma sample_flip_rows: "sample_open_rows sample_flipped = [(''short'', 10)]"
  by code_simp

lemma sample_flip_levels: "map (\<lambda>t. (tp_PositionID (tt_Position t), tt_IsTP t)) sample_levels = [(''P1'', True)]"
  by code_simp

lemma sample_doubled_rows: "sample_open_rows sample_doubled = [(''short'', 20)]"
  by code_simp

lemma sample_doubled_units: "sample_units sample_doubled = Some (90, 20, 0, 100)"
  by code_simp


end
