(* ===== verification/Trading_Errors.thy ===== *)
theory Trading_Errors
  imports Trading_Properties
begin

text \<open>
  What the trading engine does when something goes wrong: a refused order, a failed transaction and
  its retry, a restart, and a request to change levels.
\<close>

section \<open>Refused orders\<close>

definition keeps_units :: "engine \<Rightarrow> engine \<Rightarrow> bool" where
  "keeps_units e e' \<longleftrightarrow>
     td_positions (e_db e') = td_positions (e_db e) \<and> td_participants (e_db e') = td_participants (e_db e) \<and>
     td_fills (e_db e') = td_fills (e_db e) \<and> ordersBySymbol (e_book e') = ordersBySymbol (e_book e) \<and>
     (\<forall>c u us. user_of c u e = Some us \<longrightarrow> user_of c u e' = Some us)"

lemma keeps_units_refl [simp]: "keeps_units e e"
  by (simp add: keeps_units_def)

lemma keeps_units_trans: "keeps_units a b \<Longrightarrow> keeps_units b d \<Longrightarrow> keeps_units a d"
  by (simp add: keeps_units_def)

lemma keeps_units_cong:
  "e_db e' = e_db e \<Longrightarrow> e_book e' = e_book e \<Longrightarrow> users_of e' = users_of e \<Longrightarrow> keeps_units e e'"
  by (auto simp: keeps_units_def users_of_def fun_eq_iff)

lemma rejectRow_keeps: "keeps_units e (snd (rejectRow order reason e))"
proof (cases "UpdateOrderStatusTx (rq_OrderID order) ''rejected'' 0 (e_db e)")
  case (Inl a)
  then show ?thesis by (simp add: rejectRow_def UpdateOrderStatus_def keeps_units_def put_db_def user_of_def)
next
  case (Inr db')
  then have "td_positions db' = td_positions (e_db e)" "td_participants db' = td_participants (e_db e)" "td_fills db' = td_fills (e_db e)"
    by (auto simp: UpdateOrderStatusTx_def res_simps)
  then show ?thesis using Inr by (simp add: rejectRow_def UpdateOrderStatus_def keeps_units_def put_db_def user_of_def)
qed

lemma orderChecks_keeps:
  assumes ch: "orderChecks env order e = (res, e')"
  shows "e_db e' = e_db e \<and> keeps_units e e' \<and>
    (\<forall>k us. res = Inr (k, us) \<longrightarrow> users_of e' (rq_ContestID order) (rq_UserID order) = Some us)"
proof -
  obtain contest e1 where g1: "getContestCached env (rq_ContestID order) e = (contest, e1)" by (meson surj_pair)
  obtain allowed e2 where g2: "isSymbolAllowedInContest env (rq_ContestID order) (rq_Symbol order) e1 = (allowed, e2)" by (meson surj_pair)
  obtain part e3 where g3: "getParticipantCached env (rq_ContestID order) (rq_UserID order) e2 = (part, e3)" by (meson surj_pair)
  note s1 = getContestCached_simps [OF g1] and s2 = isSymbolAllowedInContest_simps [OF g2]
  have k1: "keeps_units e e1" by (rule keeps_units_cong) (simp_all add: s1)
  have k2: "keeps_units e e2" by (rule keeps_units_cong) (simp_all add: s1 s2)
  show ?thesis
  proof (cases part)
    case None
    then have "e3 = e2" using getParticipantCached_None [OF g3 [unfolded None]] by simp
    then show ?thesis using ch None k1 k2 s1(1) s2(1)
      by (auto simp: orderChecks_def g1 g2 g3 split: sum.splits if_splits)
  next
    case (Some p)
    obtain us e4 where g4: "loadUser env p (rq_ContestID order) (rq_UserID order) e3 = (us, e4)" by (meson surj_pair)
    note s3 = getParticipantCached_facts [OF g3 [unfolded Some]] and s4 = loadUser_facts [OF g4]
    have "user_of c u e4 = Some us'" if "user_of c u e = Some us'" for c u us'
    proof -
      have "users_of e3 c u = Some us'" using that s1(4) s2(4) s3(3) by (simp add: users_of_def)
      then have "users_of e4 c u = Some us'" using s4(4,5) by auto
      then show ?thesis by (simp add: users_of_def)
    qed
    then have k4: "keeps_units e e4" "e_db e4 = e_db e" using s1 s2 s3 s4 by (simp_all add: keeps_units_def)
    have "users_of e4 (rq_ContestID order) (rq_UserID order) = Some us" using s4(4) by simp
    then show ?thesis using ch Some k1 k2 k4 s1(1) s2(1)
      by (auto simp: orderChecks_def g1 g2 g3 g4 Let_def split: sum.splits if_splits)
  qed
qed

lemma insertRequested_keeps:
  assumes "insertRequested env order (e_db e) = Inr db'"
  shows "keeps_units e (put_db db' e)"
proof -
  obtain r where "insert_order r (e_db e) = Inr db'"
    using assms by (auto simp: insertRequested_def InsertOrder_def rbind_eq_Inr)
  then show ?thesis by (auto simp: insert_order_def keeps_units_def put_db_def user_of_def split: if_splits)
qed

lemma same_user_keeps: "user_of c u e = Some us \<Longrightarrow> keeps_units e (put_user c u us e)"
  by (rule keeps_units_cong [OF _ _ put_same_user]) (simp_all add: users_of_def)

text \<open>Refusing after a reservation gives the reserved units back.\<close>

lemma marketFill_not_accepted:
  assumes us: "user_of (rq_ContestID order) (rq_UserID order) e = Some us" and i: "is_i64 (us_QtyAvailable us)"
    and mf: "marketFill env order price us e = (oc, e')" and oc: "oc \<noteq> Accepted"
  shows "keeps_units e e' \<and> ((\<exists>err. oc = Failed err) \<longrightarrow> e_db e' = e_db e)"
proof -
  let ?c = "rq_ContestID order" and ?u = "rq_UserID order"
  define free where "free = freeQtyRequiredForOrder (rq_Qty order) (GetOpenPosition (sql env) ?c ?u (rq_Symbol order) (e_db e)) (rq_Side order)"
  obtain reserved us1 where res: "(if 0 < free then ReserveQty free us else (True, us)) = (reserved, us1)" by (meson surj_pair)
  define rolled where "rolled = put_user ?c ?u (if 0 < free then ReleaseQty free us1 else us1) e"
  have rolled: "reserved \<Longrightarrow> keeps_units e rolled \<and> e_db rolled = e_db e"
  proof -
    assume r: reserved
    have "(if 0 < free then ReleaseQty free us1 else us1) = us"
      using res r release_reserve [OF i, of free us1] by (auto split: if_splits)
    then show "keeps_units e rolled \<and> e_db rolled = e_db e" unfolding rolled_def using same_user_keeps [OF us] by simp
  qed
  note rej = rejectRow_keeps [of rolled order NoLongerRunning] rejectRow_keeps [of rolled order "InvalidMarketPrice price"]
    rejectRow_keeps [of e order InsufficientAvailable]
  show ?thesis
    using mf oc rolled keeps_units_trans [of e rolled] rej
    unfolding marketFill_def Let_def free_def [symmetric] res prod.case rolled_def [symmetric]
    by (auto simp: rejectRow_def split: if_splits sum.splits prod.splits)
qed

lemma dispatch_not_accepted:
  assumes us: "user_of (rq_ContestID order) (rq_UserID order) e = Some us" and i: "is_i64 (us_QtyAvailable us)"
    and d: "dispatchOrder env order k us e = (oc, e')" and oc: "oc \<noteq> Accepted"
  shows "keeps_units e e' \<and> ((\<exists>err. oc = Failed err) \<longrightarrow> e_db e' = e_db e)"
proof (cases "rq_Type order = OrderTypeMarket")
  case True
  have reject: "keeps_units e (snd (rejectRow order reason e)) \<and> (\<exists>r. fst (rejectRow order reason e) = Rejected r)" for reason
    using rejectRow_keeps by (simp add: rejectRow_def)
  show ?thesis
  proof (cases "\<exists>price. marketFill env order price us e = (oc, e')")
    case True
    then show ?thesis using marketFill_not_accepted [OF us i _ oc] by blast
  next
    case False
    then have "\<exists>reason. rejectRow order reason e = (oc, e')"
      using d \<open>rq_Type order = OrderTypeMarket\<close>
      by (auto simp: dispatchOrder_def executeMarketOrder_def Let_def split: option.splits if_splits)
    then obtain reason where "rejectRow order reason e = (oc, e')" by blast
    then show ?thesis using reject [of reason] by auto
  qed
next
  case False
  obtain reserved us1 where res: "ReserveQty (rq_Qty order) us = (reserved, us1)" by (meson surj_pair)
  have "reserved \<Longrightarrow> ReleaseQty (rq_Qty order) us1 = us" using res release_reserve [OF i] by simp
  then show ?thesis
    using d oc False rejectRow_keeps [of e order InsufficientAvailable] same_user_keeps [OF us]
    by (auto simp: dispatchOrder_def processPendingOrder_def res Let_def rejectRow_def split: if_splits sum.splits prod.splits)
qed

lemma ProcessOrder_not_accepted:
  assumes P: "power_ok e" and po: "ProcessOrder env order e = (oc, e')" and oc: "oc \<noteq> Accepted"
  shows "keeps_units e e' \<and> ((\<exists>err. oc = Failed err) \<longrightarrow> orderGates env order = None \<and>
    (\<exists>db'. insertRequested env order (e_db e) = Inr db' \<and> e_db e' = db'))"
proof (cases "orderGates env order = None \<and> duplicateOrder order (GetOrderByID (rq_OrderID order) (e_db e)) = None")
  case False
  then show ?thesis using po by (auto simp: ProcessOrder_def duplicateOrder_def split: option.splits if_splits)
next
  case True
  obtain res e1 where ch: "orderChecks env order e = (res, e1)" by (meson surj_pair)
  note C = orderChecks_keeps [OF ch] and C' = orderChecks_power [OF P ch]
  show ?thesis
  proof (cases "\<exists>k us db'. res = Inr (k, us) \<and> insertRequested env order (e_db e1) = Inr db'")
    case False
    then show ?thesis using True ch C po
      by (auto simp: ProcessOrder_def insertRace_def split: sum.splits option.splits if_splits)
  next
    case inserted: True
    then obtain k us db' where res: "res = Inr (k, us)" and ins: "insertRequested env order (e_db e1) = Inr db'" by blast
    define e2 where "e2 = put_db db' e1"
    have "keeps_units e1 e2" unfolding e2_def by (rule insertRequested_keeps [OF ins])
    then have k2: "keeps_units e e2" using C keeps_units_trans by blast
    have u1: "users_of e1 (rq_ContestID order) (rq_UserID order) = Some us" using C res by blast
    then have us: "user_of (rq_ContestID order) (rq_UserID order) e2 = Some us" by (simp add: e2_def users_of_def put_db_def user_of_def)
    have i: "is_i64 (us_QtyAvailable us)"
      using C' u1 avail_i64 unfolding power_ok_def power_def by blast
    have d: "dispatchOrder env order k us e2 = (oc, e')" using po True ch res ins by (simp add: ProcessOrder_def e2_def)
    show ?thesis
      using dispatch_not_accepted [OF us i d oc] keeps_units_trans [OF k2] True ins C by (auto simp: e2_def)
  qed
qed

text \<open>
  (C6) A refused or failed order costs nothing: on every run from balanced tables, when an order is
  not accepted then no position, no fill, no participant row and no waiting order has changed, and
  every player in memory is as before, whatever was reserved on the way.
\<close>
theorem refused_order_keeps_units:
  assumes "balanced_tables db" and "engine_step\<^sup>*\<^sup>* (started_engine sq db) e"
    and "ProcessOrder env order e = (oc, e')" and "oc \<noteq> Accepted"
  shows "td_positions (e_db e') = td_positions (e_db e) \<and> td_participants (e_db e') = td_participants (e_db e) \<and>
    td_fills (e_db e') = td_fills (e_db e) \<and> ordersBySymbol (e_book e') = ordersBySymbol (e_book e) \<and>
    (\<forall>c u us. user_of c u e = Some us \<longrightarrow> user_of c u e' = Some us)"
  using ProcessOrder_not_accepted [OF engine_steps_power [OF assms(2) started_power [OF assms(1)]] assms(3,4)]
  unfolding keeps_units_def by blast

section \<open>A failed transaction and its retry\<close>

definition failing_env :: env where
  "failing_env = (sample_env ''4'')\<lparr>tx_error := Some ''connection reset''\<rparr>"

definition sample_failing :: "outcome \<times> engine" where
  "sample_failing = ProcessOrder failing_env (sample_order ''M'' OrderSideBuy OrderTypeMarket 10) sample_waiting"

lemma sample_failing_eval: "fst sample_failing = Failed ''connection reset''"
  by code_simp

lemma sample_failing_split:
  "ProcessOrder failing_env (sample_order ''M'' OrderSideBuy OrderTypeMarket 10) sample_waiting
    = (Failed ''connection reset'', snd sample_failing)"
  using sample_failing_eval by (metis prod.collapse sample_failing_def)

theorem refused_order_keeps_units_witness:
  "td_positions (e_db (snd sample_failing)) = td_positions (e_db sample_waiting) \<and>
   ordersBySymbol (e_book (snd sample_failing)) = ordersBySymbol (e_book sample_waiting)"
  using refused_order_keeps_units [OF sample_balanced sample_waiting_reached sample_failing_split] by simp

text \<open>
  (C7) The retry of a failed order is acknowledged but never executed: when the transaction of an
  order fails the order was inserted as pending and stays so, without a fill, and every later request
  with the same identifier that passes the gates is answered as accepted and changes nothing.
\<close>
theorem failed_order_retry_is_lost:
  assumes "balanced_tables db" and "engine_step\<^sup>*\<^sup>* (started_engine sq db) e"
    and "ProcessOrder env order e = (Failed err, e')" and "orderGates env' order = None"
  shows "ProcessOrder env' order e' = (Accepted, e') \<and> td_fills (e_db e') = td_fills (e_db e) \<and>
    (\<exists>r \<in> set (td_orders (e_db e')). or_order_id r = rq_OrderID order \<and> or_status r = ''pending'')"
proof -
  note F = ProcessOrder_not_accepted [OF engine_steps_power [OF assms(2) started_power [OF assms(1)]] assms(3)]
  then have "insertRequested env order (e_db e) = Inr (e_db e')" by auto
  then obtain r where r: "or_order_id r = rq_OrderID order \<and> or_contest_id r = rq_ContestID order \<and> or_user_id r = rq_UserID order \<and>
      or_status r = ''pending'' \<and> or_qty r = rq_Qty order" and i: "insert_order r (e_db e) = Inr (e_db e')"
    by (auto simp: insertRequested_def InsertOrder_def rbind_eq_Inr dest!: new_order_row_Inr)
  have "e_db e' = (e_db e)\<lparr>td_orders := td_orders (e_db e) @ [r]\<rparr>" and fresh: "\<forall>x \<in> set (td_orders (e_db e)). or_order_id x \<noteq> rq_OrderID order"
    using i r by (simp_all add: insert_order_def split: if_splits)
  then have rows: "td_orders (e_db e') = td_orders (e_db e) @ [r]" by simp
  have "List.find (\<lambda>x. or_order_id x = rq_OrderID order) (td_orders (e_db e')) = Some r"
    using rows fresh r find_append_None [of "\<lambda>x. or_order_id x = rq_OrderID order" "td_orders (e_db e)" "[r]"]
    by (simp add: find_None_iff)
  then have "duplicateOrder order (GetOrderByID (rq_OrderID order) (e_db e')) = Some Accepted"
    using r by (simp add: GetOrderByID_def duplicateOrder_def progressed_def)
  then show ?thesis using assms(4) F rows r by (simp add: ProcessOrder_def keeps_units_def)
qed

theorem failed_order_retry_is_lost_witness:
  "ProcessOrder (sample_env ''5'') (sample_order ''M'' OrderSideBuy OrderTypeMarket 10) (snd sample_failing) = (Accepted, snd sample_failing) \<and>
   td_fills (e_db (snd sample_failing)) = td_fills (e_db sample_waiting)"
proof -
  have "orderGates (sample_env ''5'') (sample_order ''M'' OrderSideBuy OrderTypeMarket 10) = None" by code_simp
  then show ?thesis using failed_order_retry_is_lost [OF sample_balanced sample_waiting_reached sample_failing_split] by blast
qed

section \<open>A restart\<close>

lemma reloaded_orders:
  "lookup2 (ordersBySymbol (fold AddPendingOrder is pob)) s k = Some i \<Longrightarrow>
     i \<in> set is \<and> pi_OrderID i = k \<or> lookup2 (ordersBySymbol pob) s k = Some i"
proof (induction "is" arbitrary: pob)
  case (Cons x xs)
  then show ?case using Cons.IH [of "AddPendingOrder x pob"] by (auto simp: AddPendingOrder_def split: if_splits)
qed simp

text \<open>
  (C8) A restart strands waiting orders: an engine without sharding stores a waiting order with
  status open, the reload at its start reads status pending only, so no open order is back in the
  pending book; its units stay reserved in the tables, and a cancellation is answered as accepted
  although it changes no table.
\<close>
theorem restart_strands_waiting_orders:
  assumes "balanced_tables db" and "engine_step\<^sup>*\<^sup>* (started_engine sq db) e"
    and "r \<in> set (td_orders (e_db e))" and "or_status r = ''open''"
  shows "lookup2 (ordersBySymbol (e_book (started_engine sq (e_db e)))) s (or_order_id r) = None \<and>
    waiting (or_contest_id r) (or_user_id r) (e_db e) \<ge> or_qty r \<and>
    (shard_ok env \<longrightarrow>
       fst (ProcessCancelOrder env \<lparr>co_OrderID = or_order_id r, co_UserID = u, co_ContestID = c\<rparr> (started_engine sq (e_db e))) = Accepted) \<and>
    e_db (snd (ProcessCancelOrder env \<lparr>co_OrderID = or_order_id r, co_UserID = u, co_ContestID = c\<rparr> (started_engine sq (e_db e)))) = e_db e"
proof -
  have t: "tables_ok (e_db e)"
    using engine_steps_power [OF assms(2) started_power [OF assms(1)]] by (simp add: power_ok_def power_def)
  then have d: "distinct (map or_order_id (td_orders (e_db e)))" by (simp add: tables_ok_def)
  have "pi_OrderID i \<noteq> or_order_id r" if h: "i \<in> set (GetAllPendingOrders sq (e_db e))" for i
  proof -
    obtain x where "x \<in> set (td_orders (e_db e))" "or_status x = ''pending''" "pi_OrderID i = or_order_id x"
      using h by (auto simp: GetAllPendingOrders_def Let_def)
    then show ?thesis using assms(3,4) d by (auto simp: distinct_map inj_on_def)
  qed
  then have "lookup2 (ordersBySymbol (fold AddPendingOrder (GetAllPendingOrders sq (e_db e)) NewPendingOrderBook)) s (or_order_id r) = None"
    using reloaded_orders [of "GetAllPendingOrders sq (e_db e)" NewPendingOrderBook s "or_order_id r"]
    by (cases "lookup2 (ordersBySymbol (fold AddPendingOrder (GetAllPendingOrders sq (e_db e)) NewPendingOrderBook)) s (or_order_id r)")
      (auto simp: NewPendingOrderBook_def)
  moreover have "user_of c u (ensureContest c (started_engine sq (e_db e))) = None"
    by (simp add: user_of_def ensureContest_def started_engine_def NewStateManager_def GetOrCreateContest_def GetUser_def Let_def)
  ultimately show ?thesis
    using waiting_ge [OF t assms(3), of "or_contest_id r" "or_user_id r"] assms(4)
    by (simp add: ProcessCancelOrder_def Let_def started_engine_def ReloadFromDB_orders waits_for_def)
qed

lemma sample_waiting_row: "map (\<lambda>r. (or_order_id r, or_contest_id r, or_user_id r, or_status r, or_qty r)) (td_orders (e_db sample_waiting))
    = [(''L'', ''C'', ''U'', ''open'', 60)]"
  by code_simp

theorem restart_strands_waiting_orders_witness:
  "lookup2 (ordersBySymbol (e_book (started_engine sample_pg (e_db sample_waiting)))) ''X'' ''L'' = None \<and>
   waiting ''C'' ''U'' (e_db sample_waiting) \<ge> 60 \<and>
   e_db (snd (ProcessCancelOrder (sample_env ''6'') \<lparr>co_OrderID = ''L'', co_UserID = ''U'', co_ContestID = ''C''\<rparr>
     (started_engine sample_pg (e_db sample_waiting)))) = e_db sample_waiting"
proof -
  obtain r where r: "r \<in> set (td_orders (e_db sample_waiting))" "or_order_id r = ''L''" "or_contest_id r = ''C''" "or_user_id r = ''U''"
    "or_status r = ''open''" "or_qty r = 60"
    using sample_waiting_row by (cases "td_orders (e_db sample_waiting)") auto
  show ?thesis
    using restart_strands_waiting_orders [OF sample_balanced sample_waiting_reached r(1,5), of "''X''" "sample_env ''6''" "''U''" "''C''"] r(2-6)
    by simp
qed

section \<open>Changing levels\<close>

text \<open>
  Levels cannot be changed on the migrated schema: the statement of \<open>ProcessModifyTPSL\<close> sets a
  column that the positions table does not have, so as long as the table has the columns of the
  migrations a request never changes a position or a tracked level, and it is accepted only when
  there is no open position with that identifier.
\<close>
theorem levels_cannot_change:
  assumes "td_positions_columns (e_db e) = migrated_positions_columns"
  shows "e_db (snd (ProcessModifyTPSL env req e)) = e_db e \<and> e_book (snd (ProcessModifyTPSL env req e)) = e_book e \<and>
    (fst (ProcessModifyTPSL env req e) = Accepted \<longrightarrow> GetPositionByID (sql env) (mt_PositionID req) (e_db e) = None)"
proof -
  obtain contest e1 where g: "getContestCached env (mt_ContestID req) e = (contest, e1)" by (meson surj_pair)
  note s = getContestCached_simps [OF g]
  have "\<exists>err. UpdatePositionTPSLTx (sql env) (mt_PositionID req) (mt_TakeProfit req) (mt_StopLoss req) (e_db e1) = Inl err"
    using assms by (simp add: UpdatePositionTPSLTx_def s(1) migrated_positions_columns_def)
  then show ?thesis
    using s(1,2) by (auto simp: ProcessModifyTPSL_def Let_def g split: option.split sum.split)
qed

lemma sample_long_columns: "td_positions_columns (e_db sample_long) = migrated_positions_columns"
  by code_simp

theorem levels_cannot_change_witness:
  "e_book (snd (ProcessModifyTPSL (sample_env ''7'') \<lparr>mt_PositionID = ''P1'', mt_UserID = ''U'', mt_ContestID = ''C'',
     mt_TakeProfit = Some 150, mt_StopLoss = None\<rparr> sample_long)) = e_book sample_long"
  using levels_cannot_change [OF sample_long_columns] by blast

end
