(* ===== verification/Trading_Final.thy ===== *)
theory Trading_Final
  imports Trading_Closing Trading_Errors
begin

text \<open>
  The end of a contest in the trading engine: closing gives every unit back when no order is left
  pending, and a single order that was accepted without a reservation keeps the contest from ever
  being closed.
\<close>

section \<open>A contest that closes\<close>

text \<open>
  (C11) Closing a contest gives every unit back: when the accounts are right and no order of the
  contest is left in the state pending, cancelling all orders succeeds, and if closing all positions
  then succeeds too, no order of the contest is live, no position is open, and every active
  participant has all his units available.
\<close>
theorem closing_returns_all_units:
  assumes "tables_ok (e_db e)" and "accounted c (e_db e)" and "visits c keys (e_db e)" and "tx_error env = None"
    and "\<forall>r \<in> set (td_orders (e_db e)). or_contest_id r = c \<longrightarrow> or_status r \<noteq> ''pending''"
  shows "\<exists>n e1. cancelAllContestOrders env c keys e = (Inr n, e1) \<and>
    (\<forall>env' cp m e2. forceCloseAllContestPositions env' c cp e1 = (Inr m, e2) \<longrightarrow>
       openPositions c (e_db e2) = [] \<and> (\<forall>r \<in> set (td_orders (e_db e2)). \<not> live_order c r) \<and>
       (\<forall>p \<in> set (td_participants (e_db e2)). pt_contest_id p = c \<and> pt_active p \<longrightarrow> pt_qty_available p = pt_qty_total p))"
proof -
  obtain db' os where tx: "cancelOrdersTx c keys (e_db e) = Inr (db', os)" and C: "tables_ok db'" "accounted c db'" "\<forall>r \<in> set (td_orders db'). \<not> live_order c r"
    using cancelOrdersTx_works [OF assms(1-3)] assms(5) by blast
  obtain e1 where e1: "cancelAllContestOrders env c keys e = (Inr (int (length os)), e1)" "e_db e1 = db'"
    using cancelAll_result(1) [OF assms(4) tx] by blast
  have "openPositions c (e_db e2) = [] \<and> (\<forall>r \<in> set (td_orders (e_db e2)). \<not> live_order c r) \<and>
      (\<forall>p \<in> set (td_participants (e_db e2)). pt_contest_id p = c \<and> pt_active p \<longrightarrow> pt_qty_available p = pt_qty_total p)"
    if fc: "forceCloseAllContestPositions env' c cp e1 = (Inr m, e2)" for env' cp m e2
  proof -
    have F: "tables_ok (e_db e2)" "accounted c (e_db e2)" "td_orders (e_db e2) = td_orders db'" "openPositions c (e_db e2) = []"
      using forceClose_facts [OF fc] C e1(2) by simp_all
    then have none: "\<forall>r \<in> set (td_orders (e_db e2)). \<not> live_order c r" using C(3) by simp
    then have "waiting c u (e_db e2) = 0" for u
      unfolding waiting_def by (intro sum_where_none) (auto simp: live_order_def waits_for_def)
    moreover have "used c u (e_db e2) = 0" for u by (rule openPositions_used [OF F(4)])
    ultimately show ?thesis using F(2,4) none by (auto simp: accounted_def)
  qed
  then show ?thesis using e1(1) by blast
qed

definition sample_closing :: "(string + int) \<times> engine" where
  "sample_closing = cancelAllContestOrders (sample_env ''8'') ''C'' [''U''] sample_waiting"

definition sample_closed :: "(string + int) \<times> engine" where
  "sample_closed = forceCloseAllContestPositions (sample_env ''9'') ''C'' None (snd sample_closing)"

lemma sample_closed_eval: "fst sample_closed = Inr 0"
  by code_simp

lemma sample_waiting_accounts: "tables_ok (e_db sample_waiting)" "accounted ''C'' (e_db sample_waiting)" "visits ''C'' [''U''] (e_db sample_waiting)"
  by code_simp+

theorem closing_returns_all_units_witness:
  "openPositions ''C'' (e_db (snd sample_closed)) = [] \<and>
   filter (\<lambda>p. pt_contest_id p = ''C'' \<and> pt_active p \<and> pt_qty_available p \<noteq> pt_qty_total p) (td_participants (e_db (snd sample_closed))) = []"
proof -
  have np: "\<forall>r \<in> set (td_orders (e_db sample_waiting)). or_contest_id r = ''C'' \<longrightarrow> or_status r \<noteq> ''pending''"
    using sample_waiting_row by (cases "td_orders (e_db sample_waiting)") auto
  have "tx_error (sample_env ''8'') = None" by (simp add: sample_env_def)
  note T = closing_returns_all_units [OF sample_waiting_accounts this np]
  have "forceCloseAllContestPositions (sample_env ''9'') ''C'' None (snd sample_closing) = (Inr 0, snd sample_closed)"
    using sample_closed_eval by (metis prod.collapse sample_closed_def)
  then show ?thesis using T unfolding sample_closing_def filter_empty_conv by fastforce
qed

section \<open>An order that reserves nothing\<close>

definition participant_key :: "ParticipantRow \<Rightarrow> string \<times> string \<times> bool" where
  "participant_key p = (pt_contest_id p, pt_user_id p, pt_active p)"

lemma closePositionsTx_keys:
  "closePositionsTx env cp pb c ps db = Inr db' \<Longrightarrow>
     map participant_key (td_participants db') = map participant_key (td_participants db)"
proof (induction ps arbitrary: db)
  case (Cons p ps)
  define x where "x = ds_Float64 (closingScore env cp pb p)"
  obtain db1 db2 where 1: "closeRowTx env x p db = Inr db1" and 2: "returnQtyAndScoreTx env x p c db1 = Inr db2"
    and rest: "closePositionsTx env cp pb c ps db2 = Inr db'"
    using Cons.prems by (auto simp: Let_def res_simps x_def)
  have "td_participants db1 = td_participants db"
    using 1 by (auto simp: closeRowTx_def update_position_def res_simps split: if_splits)
  moreover have "map participant_key (td_participants db2) = map participant_key (td_participants db1)"
    using 2 by (auto simp: returnQtyAndScoreTx_def res_simps update_rows_Inr participant_key_def split: if_splits)
  ultimately show ?case using Cons.IH [OF rest] by simp
qed simp

lemma forceClose_keys:
  assumes "forceCloseAllContestPositions env c cp e = (Inr n, e')" "tables_ok (e_db e)"
  shows "map participant_key (td_participants (e_db e')) = map participant_key (td_participants (e_db e))"
  by (rule closePositionsTx_keys [OF forceClose_Inr [OF assms]])

lemma forceClose_Inl: "forceCloseAllContestPositions env c cp e = (Inl err, e') \<Longrightarrow> e' = e"
  by (auto simp: forceCloseAllContestPositions_def split: sum.splits if_splits)

text \<open>What the settlement service asks the engine to do, any number of times and in any order.\<close>

inductive closing_step :: "string \<Rightarrow> engine \<Rightarrow> engine \<Rightarrow> bool" for c where
  closing_cancel: "visits c keys (e_db e) \<Longrightarrow> closing_step c e (snd (cancelAllContestOrders env c keys e))"
| closing_force: "closing_step c e (snd (forceCloseAllContestPositions env c cp e))"

definition stuck :: "string \<Rightarrow> string \<Rightarrow> engine \<Rightarrow> bool" where
  "stuck c u e \<longleftrightarrow>
     tables_ok (e_db e) \<and> accounted c (e_db e) \<and> (c, u, True) \<in> participant_key ` set (td_participants (e_db e)) \<and>
     used c u (e_db e) < unreservedQty c u (e_db e) \<and> is_i64 (liveQty c u (e_db e))"

lemma stuck_live:
  assumes "stuck c u e"
  obtains r where "r \<in> set (td_orders (e_db e))" "live_order c r" "or_user_id r = u" "or_status r = ''pending''"
proof -
  have "unreservedQty c u (e_db e) \<noteq> 0"
    using assms used_nonneg [of "e_db e" c u] by (auto simp: stuck_def)
  then obtain r where "r \<in> set (td_orders (e_db e))" "or_contest_id r = c \<and> or_user_id r = u \<and> or_status r = ''pending''"
    using sum_where_none [of "td_orders (e_db e)" "\<lambda>r. or_contest_id r = c \<and> or_user_id r = u \<and> or_status r = ''pending''" or_qty]
    unfolding unreservedQty_def by blast
  then show ?thesis using that by (auto simp: live_order_def)
qed

lemma stuck_cancel:
  assumes s: "stuck c u e" and v: "visits c keys (e_db e)"
  shows "\<exists>err. cancelAllContestOrders env c keys e = (Inl err, e)"
proof -
  obtain r where r: "r \<in> set (td_orders (e_db e))" "live_order c r" "or_user_id r = u" using stuck_live [OF s] by metis
  obtain p where p: "p \<in> set (td_participants (e_db e))" "active_of c u p" using s by (auto simp: stuck_def participant_key_def active_of_def)
  have acc: "pt_qty_available p + used c u (e_db e) + waiting c u (e_db e) = pt_qty_total p"
    using s p by (auto simp: stuck_def accounted_def active_of_def)
  then have over: "pt_qty_total p < pt_qty_available p + liveQty c u (e_db e)"
    using s liveQty_parts [of c u "e_db e"] by (simp add: stuck_def)
  have "is_i64 (liveQty c u (e_db e))" using s by (simp add: stuck_def)
  from cancelOrdersTx_blocked [OF v p over this r] obtain err where "cancelOrdersTx c keys (e_db e) = Inl err" by blast
  then show ?thesis by (cases "tx_error env") (auto simp: cancelAllContestOrders_def WithTransaction_def)
qed

lemma stuck_step: "closing_step c e e' \<Longrightarrow> stuck c u e \<Longrightarrow> stuck c u e'"
proof (induction rule: closing_step.induct)
  case (closing_cancel keys e env)
  then show ?case using stuck_cancel [OF closing_cancel(2,1), of env] by auto
next
  case (closing_force e env cp)
  obtain res e' where fc: "forceCloseAllContestPositions env c cp e = (res, e')" by (meson surj_pair)
  show ?case
  proof (cases res)
    case (Inl err)
    then show ?thesis using closing_force fc forceClose_Inl [of env c cp e err e'] by simp
  next
    case (Inr n)
    have t: "tables_ok (e_db e)" and a: "accounted c (e_db e)" using closing_force by (simp_all add: stuck_def)
    note F = forceClose_facts [OF fc [unfolded Inr] t a]
    have "used c u (e_db e') = 0" using F openPositions_used by blast
    moreover have "0 \<le> used c u (e_db e)" by (rule used_nonneg [OF t])
    moreover have "unreservedQty c u (e_db e') = unreservedQty c u (e_db e)" "liveQty c u (e_db e') = liveQty c u (e_db e)"
      using F by (simp_all add: unreservedQty_def liveQty_def)
    moreover have "participant_key ` set (td_participants (e_db e')) = participant_key ` set (td_participants (e_db e))"
      using forceClose_keys [OF fc [unfolded Inr] t] by (metis list.set_map)
    ultimately show ?thesis using closing_force F fc by (simp add: stuck_def)
  qed
qed

lemma stuck_steps: "(closing_step c)\<^sup>*\<^sup>* e e' \<Longrightarrow> stuck c u e \<Longrightarrow> stuck c u e'"
  by (induction rule: rtranclp_induct) (auto intro: stuck_step)


definition sample_legacy :: "outcome \<times> engine" where
  "sample_legacy = ProcessOrder (sample_env ''1'') ((sample_order ''Z'' OrderSideBuy OrderTypeLimit 50)\<lparr>rq_LimitPrice := Some 80\<rparr>) sample_start"

lemma sample_legacy_eval: "fst sample_legacy = Accepted"
  "map (\<lambda>r. (or_order_id r, or_contest_id r, or_user_id r, or_status r, or_qty r)) (td_orders (e_db (snd sample_legacy)))
    = [(''Z'', ''C'', ''U'', ''pending'', 50)]"
  by code_simp+

lemma sample_legacy_accounts: "tables_ok (e_db (snd sample_legacy))" "accounted ''C'' (e_db (snd sample_legacy))"
  "used ''C'' ''U'' (e_db (snd sample_legacy)) < unreservedQty ''C'' ''U'' (e_db (snd sample_legacy))"
  "is_i64 (liveQty ''C'' ''U'' (e_db (snd sample_legacy)))"
  "\<exists>p \<in> set (td_participants (e_db (snd sample_legacy))). active_of ''C'' ''U'' p"
  by code_simp+


end
