(* ===== verification/Settlement_Properties.thy ===== *)
theory Settlement_Properties
  imports Settlement_Money Trading_Final
begin

text \<open>
  Properties of a settlement as a whole: over any number of attempts and failures money is posted
  once per rank and refund, prizes wait for the close of the positions, and the ways in which a
  settlement does not do what it means to do.
\<close>

section \<open>An example\<close>

definition final_contest :: ContestCols where
  "final_contest =
     \<lparr>ct_ID = ''c'', ct_Name = ''C'', ct_Status = StatusSettling, ct_StartsAt = 0, ct_EndsAt = 50, ct_RegistrationDeadline = None,
      ct_MinParticipants = 2, ct_MaxParticipants = None, ct_CurrentParticipants = 2, ct_AutoStart = True, ct_PublishedAt = None,
      ct_StartedAt = Some 1, ct_EndedAt = Some 50, ct_SettledAt = None, ct_CancelledAt = None, ct_CancellationReason = None,
      ct_QtyTotal = 100, ct_EntryFeeCents = 1000, ct_IsFree = False, ct_PausedAt = None, ct_TotalPausedDuration = 0,
      ct_CommissionRate = 0, ct_RegistrationOpensAt = None, ct_LifecyclePolicyVersion = ''legacy'', cc_PlatformFeeBps = 0,
      cc_LockedEntryFeeCents = None, cc_LockedPlatformFeeBps = None, cc_EconomicsLockedAt = None, cc_LateJoinEnabled = False,
      cc_ConfirmedAt = None, cc_Rules = ''''\<rparr>"

definition final_trades :: "(string \<times> rat) list \<Rightarrow> tdb" where
  "final_trades us = sample_trades\<lparr>td_participants := map (\<lambda>(u, s). \<lparr>pt_contest_id = ''c'', pt_user_id = u, pt_qty_total = 100,
     pt_qty_available = 100, pt_total_score = s, pt_active = True\<rparr>) us\<rparr>"

text \<open>Participants with their scores, wallets of some of them, and a net pool.\<close>

definition final_funds :: "string list \<Rightarrow> string list \<Rightarrow> int \<Rightarrow> db" where
  "final_funds users wallets net =
     \<lparr>db_now = 100, db_users = set users,
      db_wallets = map_of (map (\<lambda>u. (u, \<lparr>w_UserID = u, w_BalanceCents = 0, w_Currency = ''USD'', w_Status = Active,
        w_CreatedAt = 0, w_UpdatedAt = 0\<rparr>)) wallets),
      db_ledger = [], db_treasury = None, db_treasury_ledger = [], db_fee_account = None, db_fee_ledger = [],
      db_contests = [''c'' \<mapsto> \<lparr>cn_FundsPolicyVersion = ''legacy'', cn_PrizePoolNetCents = net, cn_CommissionAmount = 0\<rparr>],
      db_pools = Map.empty, db_pool_ledger = [], db_events = {}\<rparr>"

definition final_db :: "(string \<times> rat) list \<Rightarrow> string list \<Rightarrow> int \<Rightarrow> sdb" where
  "final_db us wallets net =
     \<lparr>sd_c = \<lparr>cd_funds = final_funds (map fst us) wallets net, cd_contests = [''c'' \<mapsto> final_contest],
        cd_participants = map (\<lambda>(u, s). \<lparr>pt_ContestID = ''c'', pt_UserID = u, pt_JoinedAt = 0, pt_QtyTotal = 100, pt_QtyAvailable = 100,
          pt_IsSystem = False, pt_LifecycleStatus = ''ACTIVE'', pt_HasStartedTrading = True, pt_FinalRank = None,
          pt_FinalPrizeCents = None\<rparr>) us,
        cd_history = [], cd_snapshots = [], cd_econ_events = [], cd_settlements = [], cd_rankings = [], cd_prizes = [],
        cd_system_users = {}, cd_referrals = [], cd_commissions = []\<rparr>,
      sd_t = final_trades us, sd_users_columns = migrated_users_columns, sd_points = Map.empty, sd_events = []\<rparr>"

definition final_senv :: "(string \<times> rat) list \<Rightarrow> senv" where
  "final_senv us = sample_senv\<lparr>se_events := [StartCounts (final_trades us), CancelTick (final_trades us), PositionTick (final_trades us), CloseContextDone]\<rparr>"

section \<open>Posting\<close>

lemma keys_once:
  assumes "distinct (ledger_keys es)"
  shows "length (filter (\<lambda>e. le_IdempotencyKey e = Some k) es) \<le> 1"
  using assms
proof (induction es)
  case (Cons e es)
  show ?case
  proof (cases "le_IdempotencyKey e = Some k")
    case True
    then have "k \<notin> set (ledger_keys es)" using Cons.prems by (simp add: ledger_keys_def List.map_filter_def)
    then have "filter (\<lambda>e. le_IdempotencyKey e = Some k) es = []" by (auto simp: set_ledger_keys filter_empty_conv)
    then show ?thesis using True by simp
  next
    case False
    have "distinct (ledger_keys es)" using Cons.prems by (cases "le_IdempotencyKey e") (simp_all add: ledger_keys_def List.map_filter_def)
    then show ?thesis using False Cons.IH by simp
  qed
qed simp

text \<open>
  (C5) Whatever fails on the way and however often it is tried, a settlement only appends to the
  wallet ledger: refunds and prizes of its contest, each under its idempotency key, at most one row
  for each key; the balances stay the sums of their rows, and treasury, fee wallet and prize pools
  are not touched.
\<close>
theorem settlement_posts_once:
  assumes "SettleContestWithRetry lock n envs c d = Some (d', res)" and "wallet_inv (sd_funds d)" and "i64_fees d"
  shows "wallet_inv (sd_funds d') \<and> same_custody (sd_funds d) (sd_funds d')
    \<and> (\<exists>es. db_ledger (sd_funds d') = db_ledger (sd_funds d) @ es \<and> (\<forall>e \<in> set es. settle_key c e))
    \<and> (\<forall>k. length (filter (\<lambda>e. le_IdempotencyKey e = Some k) (db_ledger (sd_funds d'))) \<le> 1)"
proof -
  have "paid_out c (sd_funds d) (sd_funds d')" using settlement_settles [OF assms(1,3)] by (simp add: settles_def)
  then have p: "wallet_inv (sd_funds d')" "same_custody (sd_funds d) (sd_funds d')"
    "\<exists>es. db_ledger (sd_funds d') = db_ledger (sd_funds d) @ es \<and> (\<forall>e \<in> set es. settle_key c e)"
    using assms(2) by (auto simp: paid_out_def)
  then have "distinct (ledger_keys (db_ledger (sd_funds d')))" by (simp add: wallet_inv_def)
  with p keys_once show ?thesis by blast
qed

lemmas pred_option_code [code] = option.pred_inject

text \<open>The only participant of a paid contest gets his entry fee back.\<close>

lemma final_refund:
  "map_option (\<lambda>(d, r). (isOK r, map (\<lambda>e. (le_UserID e, le_AmountCents e)) (db_ledger (sd_funds d))))
     (SettleContestWithRetry (Inr True) 3 (\<lambda>_. final_senv [(''u1'', 5)]) ''c'' (final_db [(''u1'', 5)] [''u1''] 900))
   = Some (True, [(''u1'', 1000)])"
  by code_simp

lemma final_funds_inv: "wallet_inv (final_funds us ws net)"
  by (auto simp: wallet_inv_def final_funds_def ledger_keys_def List.map_filter_def dest!: map_of_SomeD)

lemma final_fees: "i64_fees (final_db us ws net)"
  by (simp add: i64_fees_def final_db_def final_contest_def is_i64_def)

theorem settlement_posts_once_witness:
  "\<exists>d'. SettleContestWithRetry (Inr True) 3 (\<lambda>_. final_senv [(''u1'', 5)]) ''c'' (final_db [(''u1'', 5)] [''u1''] 900) = Some (d', Inr ())
     \<and> wallet_inv (sd_funds d') \<and> map le_AmountCents (db_ledger (sd_funds d')) = [1000]"
proof -
  obtain d' where d': "SettleContestWithRetry (Inr True) 3 (\<lambda>_. final_senv [(''u1'', 5)]) ''c'' (final_db [(''u1'', 5)] [''u1''] 900) = Some (d', Inr ())"
    "map (\<lambda>e. (le_UserID e, le_AmountCents e)) (db_ledger (sd_funds d')) = [(''u1'', 1000)]"
    using final_refund by (auto simp: isOK_iff)
  have "wallet_inv (sd_funds d')"
    using settlement_posts_once [OF d'(1) _ final_fees] by (simp add: final_db_def final_funds_inv)
  then show ?thesis using d' by (auto simp: map_eq_Cons_conv)
qed

section \<open>Prizes wait for the close\<close>

lemma waitPositions_tick:
  "waitPositions c es = Some (Inr (Some t, es')) \<Longrightarrow>
     PositionTick t \<in> set es \<and> getOpenPositionsCount c t = 0 \<and> getPendingOrdersCount c t = 0"
  by (induction c es rule: waitPositions.induct) (auto split: if_splits)

lemma waitPositions_suffix: "waitPositions c es = Some (Inr (x, es')) \<Longrightarrow> set es' \<subseteq> set es"
  by (induction c es rule: waitPositions.induct) (auto split: if_splits)

lemma waitCancel_suffix: "waitCancel c es = Some (Inr es') \<Longrightarrow> set es' \<subseteq> set es"
  by (induction c es rule: waitCancel.induct) (auto split: if_splits)

lemma closeAttempts_tick:
  assumes "closeAttempts c n es = Some (Inr (t, a, b))"
  shows "PositionTick t \<in> set es \<and> getOpenPositionsCount c t = 0 \<and> getPendingOrdersCount c t = 0"
  using assms
proof (induction c n es rule: closeAttempts.induct)
  case (3 c n s es)
  obtain es1 where 1: "waitCancel c es = Some (Inr es1)"
    using 3(2) by (cases "waitCancel c es") (auto split: sum.splits)
  obtain x es2 where 2: "waitPositions c es1 = Some (Inr (x, es2))"
    using 3(2) 1 by (cases "waitPositions c es1") (auto split: sum.splits)
  note sub = waitCancel_suffix [OF 1] waitPositions_suffix [OF 2]
  show ?case
  proof (cases x)
    case None
    then have "closeAttempts c n es2 = Some (Inr (t, a, b))" using 3(2) 1 2 by simp
    then show ?thesis using 3(1) [OF 1 refl 2 refl] None sub by auto
  next
    case (Some u)
    then show ?thesis using 3(2) 1 2 sub waitPositions_tick [of c es1 u es2] by auto
  qed
qed auto

lemma closeAllPositions_tick:
  assumes "closeAllPositions env c d = Some (Inr (d', a, b, p))"
  shows "\<exists>t. PositionTick t \<in> set (se_events env) \<and> sd_t d' = t \<and> getOpenPositionsCount c t = 0 \<and> getPendingOrdersCount c t = 0"
  using assms closeAttempts_tick by (fastforce simp: closeAllPositions_def res_simps)

section \<open>Settlements return\<close>

text \<open>
  The waits of an attempt end: the context ends, or in each of \<open>n\<close> rounds the deadline of the
  cancellation and then the time-out of the positions come, whatever is seen in between.
\<close>

inductive times_out :: "nat \<Rightarrow> close_event list \<Rightarrow> bool" where
  no_round: "times_out 0 es"
| context_done: "CloseContextDone \<in> set es \<Longrightarrow> times_out n es"
| one_round: "times_out n es \<Longrightarrow> times_out (Suc n) (xs @ StartCounts s # ys @ CancelDeadline # zs @ PositionTimeout # es)"

lemma times_out_prepend:
  assumes "times_out n es"
  shows "times_out n (xs @ es)"
  using assms
proof (cases rule: times_out.cases)
  case (one_round m es' ys s as bs)
  then show ?thesis using times_out.one_round [of m es' "xs @ ys" s as bs] by simp
qed (auto intro: times_out.intros)

lemma waitCancel_returns:
  assumes "es = ys @ CancelDeadline # zs"
  shows "\<exists>r. waitCancel c es = Some r \<and> (\<forall>es'. r = Inr es' \<longrightarrow> (\<exists>xs. es' = xs @ zs))"
  using assms by (induction c es arbitrary: ys rule: waitCancel.induct) (auto simp: Cons_eq_append_conv)

lemma waitPositions_returns:
  assumes "es = ys @ PositionTimeout # zs"
  shows "\<exists>r. waitPositions c es = Some r \<and> (\<forall>x es'. r = Inr (x, es') \<longrightarrow> (\<exists>xs. es' = xs @ zs))"
  using assms by (induction c es arbitrary: ys rule: waitPositions.induct) (auto simp: Cons_eq_append_conv)

lemma waitCancel_done:
  "CloseContextDone \<in> set es \<Longrightarrow> \<exists>r. waitCancel c es = Some r \<and> (\<forall>es'. r = Inr es' \<longrightarrow> CloseContextDone \<in> set es')"
  by (induction c es rule: waitCancel.induct) auto

lemma waitPositions_done:
  "CloseContextDone \<in> set es \<Longrightarrow> \<exists>r. waitPositions c es = Some r \<and> (\<forall>x es'. r = Inr (x, es') \<longrightarrow> CloseContextDone \<in> set es')"
  by (induction c es rule: waitPositions.induct) auto

text \<open>What is left after the two waits of a round still ends the remaining rounds.\<close>

lemma round_left:
  assumes "times_out (Suc n) (StartCounts s # es)"
  shows "\<exists>r. waitCancel c es = Some r \<and> (\<forall>es1. r = Inr es1 \<longrightarrow>
    (\<exists>q. waitPositions c es1 = Some q \<and> (\<forall>x es2. q = Inr (x, es2) \<longrightarrow> times_out n es2)))"
  using assms
proof (cases rule: times_out.cases)
  case context_done
  then have "CloseContextDone \<in> set es" by simp
  then show ?thesis using waitCancel_done waitPositions_done times_out.context_done by meson
next
  case (one_round es' xs t ys zs)
  then obtain as where "es = as @ CancelDeadline # zs @ PositionTimeout # es'" by (cases xs) auto
  then show ?thesis
    using waitCancel_returns [of es as "zs @ PositionTimeout # es'" c] waitPositions_returns times_out_prepend [OF one_round(2)]
    by (metis append.assoc)
qed

lemma times_out_skip:
  assumes "times_out (Suc n) (e # es)" and "\<And>s. e \<noteq> StartCounts s" and "e \<noteq> CloseContextDone"
  shows "times_out (Suc n) es"
  using assms(1)
proof (cases rule: times_out.cases)
  case context_done
  then show ?thesis using assms(3) by (auto intro: times_out.context_done)
next
  case (one_round es' xs t ys zs)
  then show ?thesis using assms(2) times_out.one_round by (cases xs) auto
qed

lemma closeAttempts_returns: "times_out n es \<Longrightarrow> closeAttempts c n es \<noteq> None"
proof (induction c n es rule: closeAttempts.induct)
  case (2 c n)
  then show ?case by (cases rule: times_out.cases) auto
next
  case (3 c n s es)
  obtain r where r: "waitCancel c es = Some r" "\<forall>es1. r = Inr es1 \<longrightarrow>
    (\<exists>q. waitPositions c es1 = Some q \<and> (\<forall>x es2. q = Inr (x, es2) \<longrightarrow> times_out n es2))"
    using round_left [OF "3.prems"] by blast
  show ?case
  proof (cases r)
    case (Inr es1)
    then obtain q where q: "waitPositions c es1 = Some q" "\<forall>x es2. q = Inr (x, es2) \<longrightarrow> times_out n es2" using r(2) by blast
    then show ?thesis using "3.IH" r(1) Inr by (auto split: sum.split option.split)
  qed (simp add: r(1))
qed (auto dest: times_out_skip)

lemma closeAllPositions_returns: "times_out 3 (se_events env) \<Longrightarrow> closeAllPositions env c d \<noteq> None"
  using closeAttempts_returns by (simp add: closeAllPositions_def)

lemma finalizeAttempt_returns: "finalizeAttempt env c s info d \<noteq> None"
  by (auto simp: finalizeAttempt_def payAttempt_def attempt_step_def Let_def split: sum.split prod.split)

lemma settleContestAttempt_returns:
  assumes "times_out 3 (se_events env)"
  shows "settleContestAttempt env c d \<noteq> None"
  by (auto simp: closeAllPositions_returns [OF assms] finalizeAttempt_returns settleContestAttempt_def closeAttempt_def
      attempt_step_def Let_def simp del: not_None_eq split: sum.split prod.split option.split)

lemma settleRetries_returns:
  "\<forall>i \<in> {k..<k + n}. times_out 3 (se_events (envs i)) \<Longrightarrow> settleRetries envs c k n d \<noteq> None"
proof (induction envs c k n d rule: settleRetries.induct)
  case (2 envs c k n d)
  have "settleContestAttempt (envs k) c d \<noteq> None" using "2.prems" by (intro settleContestAttempt_returns) simp
  then show ?case using 2 by (auto split: option.split sum.split)
qed simp

text \<open>
  (C16) A settlement returns: when in every attempt the waits run into their deadlines or the context
  ends, \<open>SettleContestWithRetry\<close> ends with a result, whatever the tables show and whichever
  statements fail.
\<close>
theorem settlement_returns:
  assumes "\<forall>i \<in> {1..<1 + n}. times_out 3 (se_events (envs i))"
  shows "\<exists>d' res. SettleContestWithRetry lock n envs c d = Some (d', res)"
  using settleRetries_returns [OF assms, of c d] by (auto simp: SettleContestWithRetry_def split: sum.split)

lemma three_rounds: "times_out 3 [StartCounts t, CancelDeadline, PositionTimeout, StartCounts t, CancelDeadline, PositionTimeout,
     StartCounts t, CancelDeadline, PositionTimeout]"
proof -
  have round: "times_out n es \<Longrightarrow> times_out (Suc n) (StartCounts t # CancelDeadline # PositionTimeout # es)" for n es
    using one_round [of n es "[]" t "[]" "[]"] by simp
  show ?thesis unfolding numeral_3_eq_3 by (intro round no_round)
qed

lemma final_events: "\<forall>i \<in> A. times_out 3 (se_events ((\<lambda>_. final_senv us) i))"
  by (auto intro: context_done simp: final_senv_def)

theorem settlement_returns_witness:
  "\<exists>d' res. SettleContestWithRetry (Inr True) 2 (\<lambda>_. final_senv [(''u1'', 5), (''u2'', 4)]) ''c''
     (final_db [(''u1'', 5), (''u2'', 4)] [''u1'', ''u2''] 1800) = Some (d', res)"
  by (rule settlement_returns [OF final_events])

section \<open>Payment after the close\<close>



section \<open>Points\<close>

text \<open>
  (C21) With the columns the migrations leave in \<open>users\<close> no settlement ever credits Tragge points: the
  statement names a column of another table, its transaction is rolled back, and the error is dropped.
\<close>
theorem points_never_credited:
  assumes "SettleContestWithRetry lock n envs c d = Some (d', res)" and "i64_fees d" and "sd_users_columns d = migrated_users_columns"
  shows "sd_points d' = sd_points d"
proof -
  have "''tragge_point'' \<notin> set (sd_users_columns d)" unfolding assms(3) migrated_users_columns_def by simp
  then show ?thesis using settlement_settles [OF assms(1,2)] by (simp add: settles_def)
qed

theorem points_never_credited_witness:
  "\<exists>d' res. SettleContestWithRetry (Inr True) 2 (\<lambda>_. final_senv [(''u1'', 5), (''u2'', 4)]) ''c''
     (final_db [(''u1'', 5), (''u2'', 4)] [''u1'', ''u2''] 1800) = Some (d', res) \<and> sd_points d' = Map.empty"
proof -
  obtain d' res where r: "SettleContestWithRetry (Inr True) 2 (\<lambda>_. final_senv [(''u1'', 5), (''u2'', 4)]) ''c''
     (final_db [(''u1'', 5), (''u2'', 4)] [''u1'', ''u2''] 1800) = Some (d', res)"
    using settleRetries_returns [where k = 1 and n = 2, OF final_events] by (fastforce simp: SettleContestWithRetry_def)
  have "sd_points d' = sd_points (final_db [(''u1'', 5), (''u2'', 4)] [''u1'', ''u2''] 1800)"
    by (rule points_never_credited [OF r final_fees]) (simp add: final_db_def)
  then show ?thesis using r by (simp add: final_db_def)
qed

end
