(* ===== verification/Withdrawals.thy ===== *)
theory Withdrawals
  imports Wallet Go_Float
begin

text \<open>
  Withdrawals: the request of a player (\<open>apps/payment-service/handlers/withdraw.go\<close>), the review by
  an administrator (\<open>apps/admin-bff/server/handlers_withdrawal.go\<close>), the worker that gives back
  stuck payouts (\<open>apps/payment-service/server/expiry.go\<close>) and the limits of
  \<open>packages/wallet/wallet.go\<close>. A handler is a function of the request and the tables: the financial
  tables of \<open>Wallet_Db\<close>, \<open>payouts\<close>, \<open>withdrawal_limits\<close>, \<open>user_verification\<close> and the audit log. An
  error is the answer to the client and leaves the tables as they were. A request is taken after
  \<open>normalize\<close>, whose Unicode case mapping is not modelled.
\<close>

section \<open>Tables\<close>

datatype PayoutStatus =
  PayoutPending | PayoutProcessing | PayoutSucceeded | PayoutFailed | PayoutCancelled | PayoutRejected

text \<open>\<open>py_FeeCents\<close> is the number under \<open>fee_cents\<close> of the metadata, if there is one.\<close>

record PayoutRow =
  py_ID :: string
  py_UserID :: string
  py_AmountCents :: int
  py_Currency :: string
  py_Status :: PayoutStatus
  py_Provider :: string
  py_ProviderPayoutID :: "string option"
  py_DestinationType :: string
  py_Destination :: "(string \<times> string) list"
  py_FeeCents :: "int option"
  py_IdempotencyKey :: "string option"
  py_AdminComment :: "string option"
  py_TransactionID :: "string option"
  py_ReviewedBy :: "string option"
  py_CreatedAt :: int
  py_UpdatedAt :: int
  py_CompletedAt :: "int option"

record WithdrawalLimits =
  wl_DailyAmountCents :: int
  wl_MonthlyAmountCents :: int
  wl_DailyCount :: int
  wl_MonthlyCount :: int

text \<open>A row of \<open>withdrawal_limits\<close>; NULL means the default of the system.\<close>

record LimitRow =
  lr_daily_amount :: "int option"
  lr_monthly_amount :: "int option"
  lr_daily_count :: "int option"
  lr_monthly_count :: "int option"

record pdb =
  pd_funds :: db
  pd_payouts :: "PayoutRow list"
  pd_limits :: "string \<rightharpoonup> LimitRow"
  pd_kyc :: "string \<rightharpoonup> string \<times> int option"
  pd_audit :: "(string \<times> string \<times> string) list"

text \<open>
  What a handler meets: the clock in nanoseconds and as the column it becomes, new identifiers, the
  actor, the statements that fail for a reason outside the model, and the answers of a payout
  provider (\<open>None\<close>: no such provider; inside, \<open>None\<close>: the query failed).
\<close>

record wenv =
  we_now :: int
  we_stamp :: int
  we_payoutID :: string
  we_entryID :: string
  we_feeEntryID :: string
  we_fault :: "string \<Rightarrow> bool"
  we_provider :: "string \<Rightarrow> (string \<Rightarrow> string option) option"

datatype withdraw_error =
    Unauthorized
  | IdempotencyKeyTooLong
  | InternalServerError
  | KycRequired string
  | BelowMinimum int
  | WithdrawalLimitExceeded string int int int
  | InvalidRequest "string list"
  | WalletIsFrozen
  | NoWallet
  | InsufficientFunds int int
  | DuplicateRequest
  | WithdrawalIDRequired
  | WithdrawalNotFound
  | WithdrawalNotPending
  | WithdrawalCannotReject
  | WithdrawalMustBeProcessing
  | ReasonRequired
  | TransactionIDRequired
  | InvalidTransactionID
  | RefundFailed
  | RefundFeeFailed

type_synonym 'a withdraw_result = "withdraw_error + 'a"

definition sql :: "wenv \<Rightarrow> string \<Rightarrow> 'a \<Rightarrow> 'a withdraw_result" where
  "sql env name x = (if we_fault env name then Inl InternalServerError else Inr x)"

section \<open>Verification of the user (packages/kyc)\<close>

definition CheckVerification :: "wenv \<Rightarrow> string \<Rightarrow> pdb \<Rightarrow> bool \<times> string" where
  "CheckVerification env userID d =
     (case pd_kyc d userID of
        None \<Rightarrow> (False, ''none'')
      | Some (status, expiresAt) \<Rightarrow>
          if status = ''verified'' then
            (if (case expiresAt of None \<Rightarrow> False | Some t \<Rightarrow> 1000 * t < we_now env) then (False, ''expired'') else (True, status))
          else (False, status))"

section \<open>Limits (packages/wallet)\<close>

definition resolveWithdrawalLimits :: "string \<Rightarrow> WithdrawalLimits \<Rightarrow> pdb \<Rightarrow> WithdrawalLimits" where
  "resolveWithdrawalLimits userID defaults d =
     (case pd_limits d userID of
        None \<Rightarrow> defaults
      | Some r \<Rightarrow>
          \<lparr>wl_DailyAmountCents = (case lr_daily_amount r of None \<Rightarrow> wl_DailyAmountCents defaults | Some x \<Rightarrow> x),
           wl_MonthlyAmountCents = (case lr_monthly_amount r of None \<Rightarrow> wl_MonthlyAmountCents defaults | Some x \<Rightarrow> x),
           wl_DailyCount = (case lr_daily_count r of None \<Rightarrow> wl_DailyCount defaults | Some x \<Rightarrow> x),
           wl_MonthlyCount = (case lr_monthly_count r of None \<Rightarrow> wl_MonthlyCount defaults | Some x \<Rightarrow> x)\<rparr>)"

text \<open>The day of the month of a day counted from 1970-01-01 (proleptic Gregorian calendar).\<close>

definition day_of_month :: "int \<Rightarrow> int" where
  "day_of_month n =
     (let z = n + 719468;
          doe = z mod 146097;
          yoe = (doe - doe div 1460 + doe div 36524 - doe div 146096) div 365;
          doy = doe - (365 * yoe + yoe div 4 - yoe div 100);
          mp = (5 * doy + 2) div 153
      in doy - (153 * mp + 2) div 5 + 1)"

definition startOfDay :: "int \<Rightarrow> int" where
  "startOfDay now = 86400000000 * (now div 86400000000000)"

definition startOfMonth :: "int \<Rightarrow> int" where
  "startOfMonth now = (let n = now div 86400000000000 in 86400000000 * (n - day_of_month n + 1))"

record WithdrawalUsage =
  wu_DailyAmountCents :: int
  wu_MonthlyAmountCents :: int
  wu_DailyCount :: int
  wu_MonthlyCount :: int

definition getWithdrawalUsage :: "wenv \<Rightarrow> string \<Rightarrow> pdb \<Rightarrow> WithdrawalUsage withdraw_result" where
  "getWithdrawalUsage env userID d =
     (let month = filter (\<lambda>p. py_UserID p = userID \<and> py_CreatedAt p \<ge> startOfMonth (we_now env)
                    \<and> py_Status p \<notin> {PayoutCancelled, PayoutFailed}) (pd_payouts d);
          day = filter (\<lambda>p. py_CreatedAt p \<ge> startOfDay (we_now env)) month;
          monthly = sum_list (map py_AmountCents month);
          daily = sum_list (map py_AmountCents day)
      in if is_i64 monthly \<and> is_i64 daily
         then Inr \<lparr>wu_DailyAmountCents = daily, wu_MonthlyAmountCents = monthly,
                   wu_DailyCount = int (length day), wu_MonthlyCount = int (length month)\<rparr>
         else Inl InternalServerError)"

definition CheckWithdrawalLimits :: "wenv \<Rightarrow> string \<Rightarrow> int \<Rightarrow> WithdrawalLimits \<Rightarrow> pdb \<Rightarrow> unit withdraw_result" where
  "CheckWithdrawalLimits env userID amountCents defaultLimits d =
     (let l = resolveWithdrawalLimits userID defaultLimits d in
      rbind (getWithdrawalUsage env userID d) (\<lambda>u.
        if wl_DailyCount l > 0 \<and> wu_DailyCount u + 1 > wl_DailyCount l
        then Inl (WithdrawalLimitExceeded ''daily_count'' (wl_DailyCount l) (wu_DailyCount u) 1)
        else if wl_MonthlyCount l > 0 \<and> wu_MonthlyCount u + 1 > wl_MonthlyCount l
        then Inl (WithdrawalLimitExceeded ''monthly_count'' (wl_MonthlyCount l) (wu_MonthlyCount u) 1)
        else if wl_DailyAmountCents l > 0 \<and> wrap64 (wu_DailyAmountCents u + amountCents) > wl_DailyAmountCents l
        then Inl (WithdrawalLimitExceeded ''daily_amount'' (wl_DailyAmountCents l) (wu_DailyAmountCents u) amountCents)
        else if wl_MonthlyAmountCents l > 0 \<and> wrap64 (wu_MonthlyAmountCents u + amountCents) > wl_MonthlyAmountCents l
        then Inl (WithdrawalLimitExceeded ''monthly_amount'' (wl_MonthlyAmountCents l) (wu_MonthlyAmountCents u) amountCents)
        else Inr ()))"

section \<open>The request\<close>

record WithdrawRequest =
  rq_AmountCents :: int
  rq_Currency :: string
  rq_DestinationType :: string
  rq_BankAccount :: string
  rq_BankName :: string
  rq_AccountHolder :: string
  rq_WalletAddress :: string
  rq_CryptoCurrency :: string
  rq_Network :: string

record WithdrawConfig =
  wc_MinWithdrawCents :: int
  wc_MaxWithdrawCents :: int
  wc_WithdrawFeeCents :: int
  wc_WithdrawFeePercent :: f64
  wc_limits :: WithdrawalLimits

text \<open>Base58 without 0, O, I and l; the pattern of a TRON address has 34 characters.\<close>

definition is_base58 :: "char \<Rightarrow> bool" where
  "is_base58 c \<longleftrightarrow> c \<in> set ''123456789ABCDEFGHJKLMNPQRSTUVWXYZabcdefghijkmnopqrstuvwxyz''"

definition trc20Address :: "string \<Rightarrow> bool" where
  "trc20Address s \<longleftrightarrow> length s = 34 \<and> hd s = CHR ''T'' \<and> list_all is_base58 (tl s)"

text \<open>\<open>strings.EqualFold\<close> with USDT; U+017F, the long s, folds to S.\<close>

definition equalFoldUSDT :: "string \<Rightarrow> bool" where
  "equalFoldUSDT s \<longleftrightarrow>
     s \<in> set [u @ x @ d @ t. u \<leftarrow> [''U'', ''u''], x \<leftarrow> [''S'', ''s'', [char_of (197 :: nat), char_of (191 :: nat)]],
              d \<leftarrow> [''D'', ''d''], t \<leftarrow> [''T'', ''t'']]"

definition required_error :: "string \<Rightarrow> string \<Rightarrow> string list" where
  "required_error field v = (if trim_space v = '''' then [field] else [])"

definition validateWithdraw :: "WithdrawConfig \<Rightarrow> WithdrawRequest \<Rightarrow> string list" where
  "validateWithdraw cfg req =
     (if rq_AmountCents req > wc_MaxWithdrawCents cfg then [''amount_cents''] else [])
     @ (if rq_DestinationType req \<noteq> ''bank'' \<and> rq_DestinationType req \<noteq> ''crypto'' then [''destination_type''] else [])
     @ (if rq_DestinationType req = ''bank''
        then required_error ''bank_account'' (rq_BankAccount req) @ required_error ''account_holder'' (rq_AccountHolder req) else [])
     @ (if rq_DestinationType req = ''crypto''
        then required_error ''wallet_address'' (rq_WalletAddress req) @ required_error ''crypto_currency'' (rq_CryptoCurrency req)
          @ (if rq_Network req = ''TRC20'' \<or> equalFoldUSDT (rq_CryptoCurrency req)
             then (if trc20Address (rq_WalletAddress req) then [] else [''wallet_address''])
             else if length (rq_WalletAddress req) < 10 \<or> length (rq_WalletAddress req) > 128 then [''wallet_address''] else [])
        else [])"

text \<open>\<open>math.Round\<close>: half away from zero.\<close>

definition go_math_round :: "f64 \<Rightarrow> f64" where
  "go_math_round x = (if x < 0 then - of_int \<lfloor>- x + 1 / 2\<rfloor> else of_int \<lfloor>x + 1 / 2\<rfloor>)"

definition withdrawFee :: "WithdrawConfig \<Rightarrow> int \<Rightarrow> int" where
  "withdrawFee cfg amountCents =
     (if wc_WithdrawFeePercent cfg > 0
      then let feeBasisPoints = f64_to_int (go_math_round (f64_mul (wc_WithdrawFeePercent cfg) 100))
           in wrap64 (wc_WithdrawFeeCents cfg + go_quot (wrap64 (amountCents * feeBasisPoints)) 10000)
      else wc_WithdrawFeeCents cfg)"

definition destinationInfo :: "WithdrawRequest \<Rightarrow> (string \<times> string) list" where
  "destinationInfo req =
     (''destination_type'', rq_DestinationType req) #
     (if rq_DestinationType req = ''bank''
      then [(''bank_account'', rq_BankAccount req), (''bank_name'', rq_BankName req), (''account_holder'', rq_AccountHolder req)]
      else [(''wallet_address'', rq_WalletAddress req), (''crypto_currency'', rq_CryptoCurrency req), (''network'', rq_Network req)])"

fun MapPayoutStatusToUserFacing :: "PayoutStatus \<Rightarrow> string" where
  "MapPayoutStatusToUserFacing PayoutPending = ''pending_review''"
| "MapPayoutStatusToUserFacing PayoutProcessing = ''processing''"
| "MapPayoutStatusToUserFacing PayoutSucceeded = ''paid''"
| "MapPayoutStatusToUserFacing _ = ''rejected''"

record WithdrawResponse =
  wr_PayoutID :: string
  wr_AmountCents :: int
  wr_FeeCents :: int
  wr_NetAmountCents :: int
  wr_Currency :: string
  wr_Status :: PayoutStatus
  wr_UserFacingStatus :: string
  wr_BalanceCents :: int

section \<open>Statements\<close>

definition find_payout :: "string \<Rightarrow> pdb \<Rightarrow> PayoutRow option" where
  "find_payout i d = List.find (\<lambda>p. py_ID p = i) (pd_payouts d)"

definition payout_by_key :: "string \<Rightarrow> string \<Rightarrow> pdb \<Rightarrow> PayoutRow option" where
  "payout_by_key userID k d = List.find (\<lambda>p. py_UserID p = userID \<and> py_IdempotencyKey p = Some k) (pd_payouts d)"

text \<open>Characters of a text in UTF-8: the bytes that do not continue one.\<close>

definition rune_count :: "string \<Rightarrow> nat" where
  "rune_count s = length (filter (\<lambda>c. (of_char c :: nat) div 64 \<noteq> 2) s)"

definition insert_payout :: "wenv \<Rightarrow> PayoutRow \<Rightarrow> pdb \<Rightarrow> pdb withdraw_result" where
  "insert_payout env p d =
     (if py_AmountCents p \<le> 0 \<or> rune_count (py_Currency p) > 3 \<or> py_UserID p \<notin> db_users (pd_funds d)
      then Inl InternalServerError
      else if find_payout (py_ID p) d \<noteq> None then Inl DuplicateRequest
      else if (case py_IdempotencyKey p of None \<Rightarrow> False | Some k \<Rightarrow> k \<noteq> '''' \<and> payout_by_key (py_UserID p) k d \<noteq> None)
      then Inl DuplicateRequest
      else sql env ''insertPayout'' (d\<lparr>pd_payouts := pd_payouts d @ [p]\<rparr>))"

definition insert_audit :: "wenv \<Rightarrow> string \<Rightarrow> string \<Rightarrow> string \<Rightarrow> pdb \<Rightarrow> pdb withdraw_result" where
  "insert_audit env actor action target d =
     (if actor \<notin> db_users (pd_funds d) then Inl InternalServerError
      else sql env ''insertAuditLog'' (d\<lparr>pd_audit := pd_audit d @ [(actor, action, target)]\<rparr>))"

text \<open>
  \<open>UPDATE payouts ... WHERE id = $n AND status IN (...)\<close> and its error when it does not change
  exactly one row; the trigger \<open>set_payouts_updated_at\<close> stamps the row.
\<close>

definition update_payout ::
    "wenv \<Rightarrow> withdraw_error \<Rightarrow> string \<Rightarrow> PayoutStatus set \<Rightarrow> (PayoutRow \<Rightarrow> PayoutRow) \<Rightarrow> pdb \<Rightarrow> pdb withdraw_result" where
  "update_payout env err i from f d =
     (let hit = (\<lambda>p. py_ID p = i \<and> py_Status p \<in> from) in
      if length (filter hit (pd_payouts d)) \<noteq> 1 then Inl err
      else sql env ''updatePayout''
        (d\<lparr>pd_payouts := map (\<lambda>p. if hit p then (f p)\<lparr>py_UpdatedAt := db_now (pd_funds d)\<rparr> else p) (pd_payouts d)\<rparr>))"

text \<open>A reviewing update writes \<open>reviewed_by\<close>, which references \<open>users\<close>.\<close>

definition review_payout ::
    "wenv \<Rightarrow> withdraw_error \<Rightarrow> string \<Rightarrow> string \<Rightarrow> PayoutStatus set \<Rightarrow> (PayoutRow \<Rightarrow> PayoutRow) \<Rightarrow> pdb \<Rightarrow> pdb withdraw_result" where
  "review_payout env err actor i from f d =
     (if actor \<notin> db_users (pd_funds d) then Inl InternalServerError
      else update_payout env err i from (\<lambda>p. (f p)\<lparr>py_ReviewedBy := Some actor\<rparr>) d)"

definition put_pfunds :: "db \<Rightarrow> pdb \<Rightarrow> pdb" where
  "put_pfunds f d = d\<lparr>pd_funds := f\<rparr>"

section \<open>HandleCreateWithdraw\<close>

definition precheckWithdraw :: "WithdrawConfig \<Rightarrow> wenv \<Rightarrow> string \<Rightarrow> string \<Rightarrow> WithdrawRequest \<Rightarrow> pdb \<Rightarrow> unit withdraw_result" where
  "precheckWithdraw cfg env userID idempotencyKey req d =
     (if userID = '''' then Inl Unauthorized
      else if length idempotencyKey > 128 then Inl IdempotencyKeyTooLong
      else if we_fault env ''CheckVerification'' then Inl InternalServerError
      else let (verified, status) = CheckVerification env userID d in
        if \<not> verified then Inl (KycRequired status)
        else if rq_AmountCents req < wc_MinWithdrawCents cfg then Inl (BelowMinimum (wc_MinWithdrawCents cfg))
        else rbind (CheckWithdrawalLimits env userID (rq_AmountCents req) (wc_limits cfg) d) (\<lambda>_.
          let errs = validateWithdraw cfg req in if errs = [] then Inr () else Inl (InvalidRequest errs)))"

definition replayResponse :: "PayoutRow \<Rightarrow> pdb \<Rightarrow> WithdrawResponse" where
  "replayResponse p d =
     (let fee = (case py_FeeCents p of None \<Rightarrow> 0 | Some n \<Rightarrow> n) in
      \<lparr>wr_PayoutID = py_ID p, wr_AmountCents = wrap64 (py_AmountCents p + fee), wr_FeeCents = fee,
       wr_NetAmountCents = py_AmountCents p, wr_Currency = py_Currency p, wr_Status = py_Status p,
       wr_UserFacingStatus = MapPayoutStatusToUserFacing (py_Status p),
       wr_BalanceCents = (case db_wallets (pd_funds d) (py_UserID p) of None \<Rightarrow> 0 | Some w \<Rightarrow> w_BalanceCents w)\<rparr>)"

definition balanceError :: "wallet_error \<Rightarrow> withdraw_error" where
  "balanceError e = (case e of WalletFrozenError _ \<Rightarrow> WalletIsFrozen | WalletNotFoundError _ \<Rightarrow> NoWallet | _ \<Rightarrow> InternalServerError)"

definition debitError :: "int \<Rightarrow> wallet_error \<Rightarrow> withdraw_error" where
  "debitError totalDeductCents e =
     (case e of InsufficientBalanceError _ available \<Rightarrow> InsufficientFunds available totalDeductCents
      | WalletFrozenError _ \<Rightarrow> WalletIsFrozen | _ \<Rightarrow> InternalServerError)"

definition feeDebitError :: "int \<Rightarrow> wallet_error \<Rightarrow> withdraw_error" where
  "feeDebitError totalDeductCents e =
     (case e of InsufficientBalanceError _ available \<Rightarrow> InsufficientFunds available totalDeductCents | _ \<Rightarrow> InternalServerError)"

definition or_error :: "(wallet_error \<Rightarrow> withdraw_error) \<Rightarrow> 'a result \<Rightarrow> 'a withdraw_result" where
  "or_error f r = (case r of Inl e \<Rightarrow> Inl (f e) | Inr x \<Rightarrow> Inr x)"

definition newPayout :: "wenv \<Rightarrow> string \<Rightarrow> string \<Rightarrow> WithdrawRequest \<Rightarrow> int \<Rightarrow> PayoutRow" where
  "newPayout env userID idempotencyKey req feeCents =
     \<lparr>py_ID = we_payoutID env, py_UserID = userID, py_AmountCents = rq_AmountCents req,
      py_Currency = (if rq_Currency req = '''' then ''USD'' else rq_Currency req), py_Status = PayoutPending,
      py_Provider = ''manual'', py_ProviderPayoutID = None, py_DestinationType = rq_DestinationType req,
      py_Destination = destinationInfo req, py_FeeCents = Some feeCents,
      py_IdempotencyKey = (if idempotencyKey = '''' then None else Some idempotencyKey), py_AdminComment = None,
      py_TransactionID = None, py_ReviewedBy = None, py_CreatedAt = we_stamp env, py_UpdatedAt = we_stamp env,
      py_CompletedAt = None\<rparr>"

text \<open>The debits of amount and fee.\<close>

definition holdFunds :: "wenv \<Rightarrow> string \<Rightarrow> int \<Rightarrow> int \<Rightarrow> pdb \<Rightarrow> pdb withdraw_result" where
  "holdFunds env userID amountCents feeCents d =
     (let total = wrap64 (amountCents + feeCents) in
      rbind (or_error balanceError (GetBalanceTx userID (pd_funds d))) (\<lambda>balance.
      if balance < total then Inl (InsufficientFunds balance total)
      else rbind (or_error (debitError total) (Debit (we_entryID env) userID amountCents Withdrawal (Some PayoutRef)
             (Some (we_payoutID env)) (Some ''Withdrawal request (funds held for review)'') (pd_funds d))) (\<lambda>(f, _).
        if feeCents > 0
        then rbind (or_error (feeDebitError total) (Debit (we_feeEntryID env) userID feeCents WithdrawFee (Some PayoutRef)
             (Some (we_payoutID env)) (Some ''Withdrawal fee'') f)) (\<lambda>(f, _). Inr (put_pfunds f d))
        else Inr (put_pfunds f d))))"

text \<open>
  The audit row is written in the same transaction with its error dropped: after a failed statement
  the transaction is aborted and its commit fails.
\<close>

definition createPayout ::
    "WithdrawConfig \<Rightarrow> wenv \<Rightarrow> string \<Rightarrow> string \<Rightarrow> WithdrawRequest \<Rightarrow> pdb \<Rightarrow> (pdb \<times> WithdrawResponse) withdraw_result" where
  "createPayout cfg env userID idempotencyKey req d =
     (let feeCents = withdrawFee cfg (rq_AmountCents req);
          p = newPayout env userID idempotencyKey req feeCents in
      rbind (holdFunds env userID (rq_AmountCents req) feeCents d) (\<lambda>d.
      rbind (insert_payout env p d) (\<lambda>d.
      rbind (insert_audit env userID ''withdrawal.created'' (py_ID p) d) (\<lambda>d.
      rbind (sql env ''commit'' d) (\<lambda>d.
        Inr (d, \<lparr>wr_PayoutID = py_ID p, wr_AmountCents = rq_AmountCents req, wr_FeeCents = feeCents,
                 wr_NetAmountCents = rq_AmountCents req, wr_Currency = py_Currency p, wr_Status = PayoutPending,
                 wr_UserFacingStatus = MapPayoutStatusToUserFacing PayoutPending,
                 wr_BalanceCents = (case GetBalanceTx userID (pd_funds d) of Inl _ \<Rightarrow> 0 | Inr b \<Rightarrow> b)\<rparr>))))))"

text \<open>
  The handler reads the limits before its transaction and looks the key up before it locks the
  wallet: \<open>d0\<close>, \<open>d1\<close> and \<open>d\<close> are the tables at the three moments.
\<close>

definition HandleCreateWithdraw ::
    "WithdrawConfig \<Rightarrow> wenv \<Rightarrow> string \<Rightarrow> string \<Rightarrow> WithdrawRequest \<Rightarrow> pdb \<Rightarrow> pdb \<Rightarrow> pdb \<Rightarrow> (pdb \<times> WithdrawResponse) withdraw_result" where
  "HandleCreateWithdraw cfg env userID idempotencyKey req d0 d1 d =
     rbind (precheckWithdraw cfg env userID idempotencyKey req d0) (\<lambda>_.
     rbind (sql env ''begin'' ()) (\<lambda>_.
     rbind (if idempotencyKey = '''' then Inr None else sql env ''selectPayout'' (payout_by_key userID idempotencyKey d1)) (\<lambda>existing.
       case existing of
         Some p \<Rightarrow> Inr (d, replayResponse p d1)
       | None \<Rightarrow> createPayout cfg env userID idempotencyKey req d)))"

section \<open>Review by an administrator\<close>

text \<open>\<open>ValidateString\<close> for a required, trimmed comment of at most \<open>n\<close> characters.\<close>

definition requiredComment :: "nat \<Rightarrow> string \<Rightarrow> string withdraw_result" where
  "requiredComment n s =
     (let c = trim_space s in
      if c = '''' then Inl (InvalidRequest [''comment''])
      else if rune_count c > n then Inl (InvalidRequest [''comment''])
      else Inr c)"

definition lock_payout :: "string \<Rightarrow> pdb \<Rightarrow> PayoutRow withdraw_result" where
  "lock_payout i d = (case find_payout i d of None \<Rightarrow> Inl WithdrawalNotFound | Some p \<Rightarrow> Inr p)"

definition handleApproveWithdrawal :: "wenv \<Rightarrow> string \<Rightarrow> string \<Rightarrow> string \<Rightarrow> pdb \<Rightarrow> pdb withdraw_result" where
  "handleApproveWithdrawal env actor withdrawalID comment d =
     (if withdrawalID = '''' then Inl WithdrawalIDRequired
      else rbind (sql env ''begin'' ()) (\<lambda>_.
        rbind (lock_payout withdrawalID d) (\<lambda>p.
        if py_Status p \<noteq> PayoutPending then Inl WithdrawalNotPending
        else rbind (review_payout env WithdrawalNotPending actor withdrawalID {PayoutPending} (\<lambda>p.
               p\<lparr>py_Status := PayoutProcessing,
                 py_AdminComment := (if comment \<noteq> '''' then Some comment else py_AdminComment p)\<rparr>) d) (\<lambda>d.
          rbind (insert_audit env actor ''withdrawal.approved'' withdrawalID d) (sql env ''commit'')))))"

text \<open>The fee as the handlers read it: a JSON number, so a \<open>float64\<close>.\<close>

definition metadataFee :: "PayoutRow \<Rightarrow> int" where
  "metadataFee p = (case py_FeeCents p of None \<Rightarrow> 0 | Some n \<Rightarrow> f64_to_int (f64_of_int n))"

definition credit_or_duplicate :: "withdraw_error \<Rightarrow> (db \<times> LedgerEntry) result \<Rightarrow> pdb \<Rightarrow> pdb withdraw_result" where
  "credit_or_duplicate err r d =
     (case r of
        Inr (f, _) \<Rightarrow> Inr (put_pfunds f d)
      | Inl (DuplicateCreditError _ _) \<Rightarrow> Inr d
      | Inl _ \<Rightarrow> Inl err)"

text \<open>The two credits of a refund; \<open>pre\<close> and \<open>feePre\<close> are the families of their idempotency keys.\<close>

definition refundPayout ::
    "wenv \<Rightarrow> string \<Rightarrow> string \<Rightarrow> string \<Rightarrow> string \<Rightarrow> string \<Rightarrow> string \<Rightarrow> int \<Rightarrow> int \<Rightarrow> pdb \<Rightarrow> pdb withdraw_result" where
  "refundPayout env pre feePre desc feeDesc withdrawalID userID amountCents feeCents d =
     rbind (credit_or_duplicate RefundFailed
        (CreditIdempotent (we_entryID env) userID amountCents WithdrawalRefund (Some PayoutRef) (Some withdrawalID)
           (Some desc) (pre @ withdrawalID) (pd_funds d)) d) (\<lambda>d.
     if feeCents > 0
     then credit_or_duplicate RefundFeeFailed
        (CreditIdempotent (we_feeEntryID env) userID feeCents WithdrawFeeRefund (Some PayoutRef) (Some withdrawalID)
           (Some feeDesc) (feePre @ withdrawalID) (pd_funds d)) d
     else Inr d)"

definition handleRejectWithdrawal :: "wenv \<Rightarrow> string \<Rightarrow> string \<Rightarrow> string \<Rightarrow> pdb \<Rightarrow> pdb withdraw_result" where
  "handleRejectWithdrawal env actor withdrawalID comment d =
     (if withdrawalID = '''' then Inl WithdrawalIDRequired
      else rbind (requiredComment 1000 comment) (\<lambda>comment.
        rbind (sql env ''begin'' ()) (\<lambda>_.
        rbind (lock_payout withdrawalID d) (\<lambda>p.
        if py_Status p \<noteq> PayoutPending \<and> py_Status p \<noteq> PayoutProcessing then Inl WithdrawalCannotReject
        else rbind (review_payout env WithdrawalCannotReject actor withdrawalID {PayoutPending, PayoutProcessing} (\<lambda>p.
               p\<lparr>py_Status := PayoutRejected, py_AdminComment := Some comment, py_CompletedAt := Some (db_now (pd_funds d))\<rparr>) d) (\<lambda>d.
          rbind (refundPayout env ''withdrawal_refund:'' ''withdrawal_fee_refund:'' ''Withdrawal request rejected - funds returned''
                   ''Withdrawal fee refunded - request rejected'' withdrawalID (py_UserID p) (py_AmountCents p) (metadataFee p) d) (\<lambda>d.
          rbind (insert_audit env actor ''withdrawal.rejected'' withdrawalID d) (sql env ''commit'')))))))"

text \<open>\<open>SanitizeString\<close>: control characters other than tab, newline and return go, then white space at the ends.\<close>

definition is_control :: "char \<Rightarrow> bool" where
  "is_control c \<longleftrightarrow> (let n = (of_char c :: nat) in n \<le> 8 \<or> n = 11 \<or> n = 12 \<or> (14 \<le> n \<and> n \<le> 31) \<or> n = 127)"

definition SanitizeString :: "string \<Rightarrow> string" where
  "SanitizeString s = trim_space (filter (\<lambda>c. \<not> is_control c) s)"

definition txRefChar :: "char \<Rightarrow> bool" where
  "txRefChar c \<longleftrightarrow>
     c = CHR ''_'' \<or> c = CHR ''-'' \<or>
     (let n = (of_char c :: nat) in (48 \<le> n \<and> n \<le> 57) \<or> (97 \<le> n \<and> n \<le> 122) \<or> (65 \<le> n \<and> n \<le> 90))"

definition handleCompleteWithdrawal :: "wenv \<Rightarrow> string \<Rightarrow> string \<Rightarrow> string \<Rightarrow> string \<Rightarrow> pdb \<Rightarrow> pdb withdraw_result" where
  "handleCompleteWithdrawal env actor withdrawalID rawComment rawTransactionID d =
     (let comment = SanitizeString rawComment; txRef = trim_space (SanitizeString rawTransactionID) in
      if withdrawalID = '''' then Inl WithdrawalIDRequired
      else if trim_space comment = '''' then Inl ReasonRequired
      else if txRef = '''' then Inl TransactionIDRequired
      else rbind (sql env ''begin'' ()) (\<lambda>_.
        rbind (lock_payout withdrawalID d) (\<lambda>p.
        if py_Status p \<noteq> PayoutProcessing then Inl WithdrawalMustBeProcessing
        else if length txRef < 8 \<or> length txRef > 128 then Inl InvalidTransactionID
        else if \<not> list_all txRefChar txRef then Inl InvalidTransactionID
        else rbind (review_payout env WithdrawalMustBeProcessing actor withdrawalID {PayoutProcessing} (\<lambda>p.
               p\<lparr>py_Status := PayoutSucceeded, py_AdminComment := (if comment \<noteq> '''' then Some comment else py_AdminComment p),
                 py_TransactionID := Some txRef, py_CompletedAt := Some (db_now (pd_funds d))\<rparr>) d) (\<lambda>d.
          rbind (insert_audit env actor ''withdrawal.completed'' withdrawalID d) (sql env ''commit'')))))"

text \<open>The error of the audit statement is dropped, but it aborts the transaction all the same.\<close>

definition handleFailWithdrawal :: "wenv \<Rightarrow> string \<Rightarrow> string \<Rightarrow> string \<Rightarrow> pdb \<Rightarrow> pdb withdraw_result" where
  "handleFailWithdrawal env actor withdrawalID comment d =
     (if withdrawalID = '''' then Inl WithdrawalIDRequired
      else rbind (requiredComment 1000 comment) (\<lambda>comment.
        rbind (sql env ''begin'' ()) (\<lambda>_.
        rbind (lock_payout withdrawalID d) (\<lambda>p.
        if py_Status p \<noteq> PayoutProcessing then Inl WithdrawalMustBeProcessing
        else rbind (review_payout env WithdrawalMustBeProcessing actor withdrawalID {PayoutProcessing} (\<lambda>p.
               p\<lparr>py_Status := PayoutFailed, py_AdminComment := Some comment, py_CompletedAt := Some (db_now (pd_funds d))\<rparr>) d) (\<lambda>d.
          rbind (refundPayout env ''withdrawal_refund:'' ''withdrawal_fee_refund:'' ''Withdrawal failed - funds returned''
                   ''Withdrawal fee refunded - payout failed'' withdrawalID (py_UserID p) (py_AmountCents p) (metadataFee p) d) (\<lambda>d.
          rbind (insert_audit env actor ''withdrawal.failed'' withdrawalID d) (sql env ''commit'')))))))"

text \<open>Not a transaction: the audit row is written on its own and its error dropped.\<close>

definition handleAddWithdrawalComment :: "wenv \<Rightarrow> string \<Rightarrow> string \<Rightarrow> string \<Rightarrow> pdb \<Rightarrow> pdb withdraw_result" where
  "handleAddWithdrawalComment env actor withdrawalID comment d =
     (if withdrawalID = '''' then Inl WithdrawalIDRequired
      else rbind (requiredComment 2000 comment) (\<lambda>comment.
        rbind (lock_payout withdrawalID d) (\<lambda>_.
        rbind (sql env ''updateComment''
          (d\<lparr>pd_payouts := map (\<lambda>p. if py_ID p = withdrawalID
              then p\<lparr>py_AdminComment := Some comment, py_UpdatedAt := db_now (pd_funds d)\<rparr> else p) (pd_payouts d)\<rparr>)) (\<lambda>d.
          Inr (case insert_audit env actor ''withdrawal.commented'' withdrawalID d of Inl _ \<Rightarrow> d | Inr d' \<Rightarrow> d')))))"

section \<open>Stuck payouts\<close>

text \<open>\<open>providers.MapStatusToIntentStatus\<close>, applied to the status a payout provider reports.\<close>

definition MapStatusToIntentStatus :: "string \<Rightarrow> string" where
  "MapStatusToIntentStatus status =
     (if status \<in> {''pending'', ''waiting''} then ''pending''
      else if status \<in> {''confirming'', ''sending''} then ''processing''
      else if status \<in> {''finished'', ''confirmed''} then ''succeeded''
      else if status \<in> {''failed'', ''refunded'', ''expired''} then status
      else ''pending'')"

text \<open>Whether the provider of a payout lets the rollback go on.\<close>

definition providerReleased :: "wenv \<Rightarrow> PayoutRow \<Rightarrow> bool" where
  "providerReleased env p =
     (case py_ProviderPayoutID p of
        None \<Rightarrow> True
      | Some i \<Rightarrow> i = '''' \<or>
          (case we_provider env (py_Provider p) of
             None \<Rightarrow> True
           | Some q \<Rightarrow> (case q i of
                None \<Rightarrow> False
              | Some s \<Rightarrow> MapStatusToIntentStatus s \<notin> {''succeeded'', ''processing'', ''pending''})))"

text \<open>The transaction: \<open>p\<close> is the row as it was selected, the status is read again under the lock.\<close>

definition rollbackTx :: "wenv \<Rightarrow> PayoutRow \<Rightarrow> pdb \<Rightarrow> pdb withdraw_result" where
  "rollbackTx env p d =
     rbind (sql env ''begin'' ()) (\<lambda>_.
     rbind (lock_payout (py_ID p) d) (\<lambda>q.
     if py_Status q \<noteq> PayoutPending then Inl WithdrawalNotPending
     else rbind (refundPayout env ''withdrawal_rollback:'' ''withdrawal_fee_rollback:'' ''Withdrawal rollback: payout expired''
                   ''Withdrawal fee rollback: payout expired'' (py_ID p) (py_UserID p) (py_AmountCents p) (metadataFee p) d) (\<lambda>d.
       rbind (update_payout env InternalServerError (py_ID p) UNIV (\<lambda>q.
               q\<lparr>py_Status := PayoutFailed, py_CompletedAt := Some (we_stamp env)\<rparr>) d) (sql env ''commit''))))"

definition processStuckPayout :: "wenv \<Rightarrow> PayoutRow \<Rightarrow> pdb \<Rightarrow> pdb" where
  "processStuckPayout env p d =
     (if providerReleased env p then (case rollbackTx env p d of Inl _ \<Rightarrow> d | Inr d' \<Rightarrow> d') else d)"

text \<open>The rows of a cycle, oldest first, and the cycle with an environment for each row.\<close>

definition stuckPayouts :: "int \<Rightarrow> int \<Rightarrow> pdb \<Rightarrow> PayoutRow list" where
  "stuckPayouts cutoff batchSize d =
     take (nat batchSize) (sort_key py_CreatedAt (filter (\<lambda>p. py_Status p = PayoutPending \<and> py_CreatedAt p < cutoff) (pd_payouts d)))"

fun rollbackLoop :: "(nat \<Rightarrow> wenv) \<Rightarrow> nat \<Rightarrow> PayoutRow list \<Rightarrow> pdb \<Rightarrow> pdb" where
  "rollbackLoop envs i [] d = d"
| "rollbackLoop envs i (p # ps) d = rollbackLoop envs (i + 1) ps (processStuckPayout (envs i) p d)"

definition rollbackStuckPayouts :: "(nat \<Rightarrow> wenv) \<Rightarrow> int \<Rightarrow> int \<Rightarrow> pdb \<Rightarrow> pdb" where
  "rollbackStuckPayouts envs cutoff batchSize d = rollbackLoop envs 0 (stuckPayouts cutoff batchSize d) d"

section \<open>Adjustments by an administrator\<close>

record ChargeWalletRequest =
  cw_Amount :: int
  cw_Reason :: string
  cw_ConfirmDebit :: bool

text \<open>The label before the reason, as the bytes of the source file.\<close>

definition adminChargeLabel :: string where
  "adminChargeLabel = map (\<lambda>n. char_of (n :: nat))
      [195, 131, 203, 156, 195, 130, 194, 180, 195, 131, 203, 156, 195, 130, 194, 167, 195, 131, 203, 156, 195, 130, 194, 177,
       195, 131, 197, 161, 195, 139, 197, 147, 32, 195, 131, 203, 156, 195, 130, 194, 170, 195, 131, 226, 132, 162, 195, 139,
       226, 128, 160, 195, 131, 203, 156, 195, 130, 194, 179, 195, 131, 203, 156, 195, 130, 194, 183, 32, 195, 131, 203, 156,
       195, 130, 194, 167, 195, 131, 203, 156, 195, 130, 194, 175, 195, 131, 226, 132, 162, 195, 162, 226, 130, 172, 194, 166,
       195, 131, 226, 128, 186, 195, 133, 226, 128, 153, 195, 131, 226, 132, 162, 195, 162, 226, 130, 172, 194, 160, 58, 32]"

datatype charge_error =
    UserIDRequired | AmountRequired | AmountTooLarge | DebitNotConfirmed | ChargeReasonRequired | UserNotFound
  | ChargeInternalError | DuplicateCharge | CreateWalletFailed | ChargeWalletFailed | ChargeInsufficientBalance | ChargeNoWallet

definition chargeCredit ::
    "wenv \<Rightarrow> string \<Rightarrow> int \<Rightarrow> string \<Rightarrow> string \<Rightarrow> db \<Rightarrow> (db \<times> LedgerEntry) result" where
  "chargeCredit env userID amount description idempotencyKey f =
     CreditIdempotentWithReason (we_entryID env) userID amount AdminFundedDeposit (Some AdminActionRef) None
       (Some description) (Some RC_WalletTopup) idempotencyKey f"

definition chargeTx :: "wenv \<Rightarrow> string \<Rightarrow> int \<Rightarrow> string \<Rightarrow> string \<Rightarrow> db \<Rightarrow> charge_error + db \<times> LedgerEntry" where
  "chargeTx env userID amount description idempotencyKey f =
     (if amount > 0 then
        (case chargeCredit env userID amount description idempotencyKey f of
           Inr r \<Rightarrow> Inr r
         | Inl (DuplicateCreditError _ _) \<Rightarrow> Inl DuplicateCharge
         | Inl (WalletNotFoundError _) \<Rightarrow>
             (case CreateWallet userID f of
                Inl _ \<Rightarrow> Inl CreateWalletFailed
              | Inr (f', _) \<Rightarrow>
                  (case chargeCredit env userID amount description idempotencyKey f' of
                     Inr r \<Rightarrow> Inr r
                   | Inl (DuplicateCreditError _ _) \<Rightarrow> Inl DuplicateCharge
                   | Inl _ \<Rightarrow> Inl ChargeWalletFailed))
         | Inl _ \<Rightarrow> Inl ChargeWalletFailed)
      else
        (case DebitWithReason (we_entryID env) userID (wrap64 (- amount)) Adjustment (Some AdminActionRef) None
                (Some description) (Some RC_WalletTopup) f of
           Inr r \<Rightarrow> Inr r
         | Inl (InsufficientBalanceError _ _) \<Rightarrow> Inl ChargeInsufficientBalance
         | Inl (WalletNotFoundError _) \<Rightarrow> Inl ChargeNoWallet
         | Inl _ \<Rightarrow> Inl ChargeWalletFailed))"

definition handleChargeUserWallet ::
    "wenv \<Rightarrow> string \<Rightarrow> string \<Rightarrow> ChargeWalletRequest \<Rightarrow> pdb \<Rightarrow> charge_error + pdb \<times> int \<times> string" where
  "handleChargeUserWallet env actor userID req d =
     (if userID = '''' then Inl UserIDRequired
      else if cw_Amount req = 0 then Inl AmountRequired
      else if cw_Amount req > 10000000 \<or> cw_Amount req < - 10000000 then Inl AmountTooLarge
      else if cw_Amount req < 0 \<and> \<not> cw_ConfirmDebit req then Inl DebitNotConfirmed
      else if cw_Reason req = '''' then Inl ChargeReasonRequired
      else if userID \<notin> db_users (pd_funds d) then Inl UserNotFound
      else if we_fault env ''begin'' then Inl ChargeInternalError
      else
        let key = ''admin_charge:'' @ actor @ '':'' @ userID @ '':'' @ show_int (we_now env) in
        rbind (chargeTx env userID (cw_Amount req) (adminChargeLabel @ SanitizeString (cw_Reason req)) key (pd_funds d)) (\<lambda>(f, entry).
          case insert_audit env actor ''user.wallet.charged'' userID (put_pfunds f d) of
            Inl _ \<Rightarrow> Inl ChargeInternalError
          | Inr d' \<Rightarrow> if we_fault env ''commit'' then Inl ChargeInternalError
                      else Inr (d', le_BalanceAfterCents entry, le_ID entry)))"

end
