(* ===== verification/Withdrawal_Invariant.thy ===== *)
theory Withdrawal_Invariant
  imports Withdrawals
begin

text \<open>
  The invariant of payouts and wallet ledger: the rows that refer to a payout take its amount and fee
  from the wallet of its owner until it is rejected or failed, and then add up to nothing. Every
  handler keeps it, whatever runs between its reads and its transaction.
\<close>

section \<open>Claims\<close>

definition payout_rows :: "string \<Rightarrow> LedgerEntry list \<Rightarrow> LedgerEntry list" where
  "payout_rows i es = filter (\<lambda>e. le_RefType e = Some PayoutRef \<and> le_RefID e = Some i) es"

definition payout_net :: "string \<Rightarrow> LedgerEntry list \<Rightarrow> int" where
  "payout_net i es = sum_list (map le_AmountCents (payout_rows i es))"

definition payout_fee :: "PayoutRow \<Rightarrow> int" where
  "payout_fee p = (case py_FeeCents p of None \<Rightarrow> 0 | Some n \<Rightarrow> max 0 n)"

definition payout_returned :: "PayoutRow \<Rightarrow> bool" where
  "payout_returned p \<longleftrightarrow> py_Status p = PayoutFailed \<or> py_Status p = PayoutRejected"

text \<open>What the wallet of the owner has given for a payout.\<close>

definition payout_held :: "PayoutRow \<Rightarrow> int" where
  "payout_held p = (if payout_returned p then 0 else py_AmountCents p + payout_fee p)"

definition refund_keys :: "string \<Rightarrow> string set" where
  "refund_keys i = (\<lambda>pre. pre @ i) ` {''withdrawal_refund:'', ''withdrawal_fee_refund:'', ''withdrawal_rollback:'', ''withdrawal_fee_rollback:''}"

lemma refund_keys_disjoint: "k \<in> refund_keys i \<Longrightarrow> k \<in> refund_keys j \<Longrightarrow> i = j"
  by (auto simp: refund_keys_def)

definition fee_exact :: "int option \<Rightarrow> bool" where
  "fee_exact x \<longleftrightarrow> (case x of None \<Rightarrow> True | Some n \<Rightarrow> \<bar>n\<bar> < 2 ^ 53)"

definition claim_ok :: "LedgerEntry list \<Rightarrow> PayoutRow \<Rightarrow> bool" where
  "claim_ok es p \<longleftrightarrow>
     0 < py_AmountCents p \<and> is_i64 (py_AmountCents p) \<and> fee_exact (py_FeeCents p)
     \<and> payout_net (py_ID p) es = - payout_held p
     \<and> (\<forall>e \<in> set (payout_rows (py_ID p) es). le_UserID e = py_UserID p)
     \<and> (\<not> payout_returned p \<longrightarrow> (\<forall>k \<in> refund_keys (py_ID p). k \<notin> set (ledger_keys es)))"

definition keys_unique :: "PayoutRow list \<Rightarrow> bool" where
  "keys_unique ps \<longleftrightarrow> distinct (map (\<lambda>p. (py_UserID p, py_IdempotencyKey p)) (filter (\<lambda>p. py_IdempotencyKey p \<noteq> None) ps))"

definition claims_ok :: "db \<Rightarrow> PayoutRow list \<Rightarrow> bool" where
  "claims_ok f ps \<longleftrightarrow>
     wallet_inv f \<and> distinct (map py_ID ps) \<and> keys_unique ps \<and> (\<forall>p \<in> set ps. claim_ok (db_ledger f) p)
     \<and> (\<forall>i. payout_rows i (db_ledger f) \<noteq> [] \<or> (\<exists>k \<in> refund_keys i. k \<in> set (ledger_keys (db_ledger f)))
          \<longrightarrow> i \<in> py_ID ` set ps)"

abbreviation payouts_ok :: "pdb \<Rightarrow> bool" where
  "payouts_ok d \<equiv> claims_ok (pd_funds d) (pd_payouts d)"

section \<open>Movements\<close>

text \<open>Rows for the payout \<open>i\<close> of user \<open>u\<close> with amounts adding up to \<open>a\<close> and keys in \<open>ks\<close>.\<close>

definition movement :: "string \<Rightarrow> string \<Rightarrow> int \<Rightarrow> string set \<Rightarrow> db \<Rightarrow> db \<Rightarrow> bool" where
  "movement i u a ks f f' \<longleftrightarrow>
     wallet_inv f' \<and>
     (\<exists>es. db_ledger f' = db_ledger f @ es \<and> sum_list (map le_AmountCents es) = a
        \<and> (\<forall>e \<in> set es. le_RefType e = Some PayoutRef \<and> le_RefID e = Some i \<and> le_UserID e = u)
        \<and> set (ledger_keys es) \<subseteq> ks)"

lemma ledger_keys_app: "ledger_keys (es @ es') = ledger_keys es @ ledger_keys es'"
  by (simp add: ledger_keys_def List.map_filter_def)

lemma movement_trans:
  assumes "movement i u a ks f f1" and "movement i u b ks f1 f2"
  shows "movement i u (a + b) ks f f2"
proof -
  obtain es where es: "db_ledger f1 = db_ledger f @ es" "sum_list (map le_AmountCents es) = a"
    "\<forall>e \<in> set es. le_RefType e = Some PayoutRef \<and> le_RefID e = Some i \<and> le_UserID e = u" "set (ledger_keys es) \<subseteq> ks"
    using assms(1) by (auto simp: movement_def)
  obtain es' where es': "db_ledger f2 = db_ledger f1 @ es'" "sum_list (map le_AmountCents es') = b"
    "\<forall>e \<in> set es'. le_RefType e = Some PayoutRef \<and> le_RefID e = Some i \<and> le_UserID e = u" "set (ledger_keys es') \<subseteq> ks"
    "wallet_inv f2"
    using assms(2) by (auto simp: movement_def)
  from es es' show ?thesis
    unfolding movement_def by (intro conjI exI [of _ "es @ es'"]) (auto simp: ledger_keys_app)
qed

lemma movement_refl: "wallet_inv f \<Longrightarrow> movement i u 0 ks f f"
  by (simp add: movement_def ledger_keys_def List.map_filter_def)

lemma entry_movement:
  assumes "entry_posted e f f'" and "wallet_inv f" and "le_RefType e = Some PayoutRef" "le_RefID e = Some i" "le_UserID e = u"
    and "\<forall>k. le_IdempotencyKey e = Some k \<longrightarrow> k \<in> ks"
  shows "movement i u (le_AmountCents e) ks f f'"
proof -
  have "wallet_inv f'" by (rule entry_posted_inv [OF assms(2,1)])
  moreover have "db_ledger f' = db_ledger f @ [e]" using assms(1) by (auto simp: entry_posted_def)
  ultimately show ?thesis
    using assms(3-6) unfolding movement_def
    by (intro conjI exI [of _ "[e]"]) (auto simp: ledger_keys_def List.map_filter_def)
qed

lemma Debit_movement:
  assumes "wallet_inv f" and "is_i64 a" and "Debit x u a t (Some PayoutRef) (Some i) de f = Inr (f', e)"
  shows "movement i u (- a) ks f f'" and "0 < a"
proof -
  obtain w where w: "db_wallets f u = Some w" "0 < a"
    "rbind (update_wallet_balance u (wrap64 (w_BalanceCents w - a)) f)
       (createLedgerEntryWithIdempotency x u (wrap64 (- a)) (wrap64 (w_BalanceCents w - a)) t (Some PayoutRef) (Some i) de None None) = Inr (f', e)"
    using assms(3)
    by (auto simp: Debit_def DebitWithReason_def res_simps GetBalanceTx_Inr Let_def createLedgerEntry_eq split: if_splits)
  have m: "is_i64 (- a)" using assms(2) w(2) by (auto simp: is_i64_def)
  have "wrap64 (- a) = - a" using m by simp
  then obtain y where "entry_posted y f f'" "le_UserID y = u" "le_AmountCents y = - a" "le_IdempotencyKey y = None"
    "le_RefType y = Some PayoutRef" "le_RefID y = Some i"
    using createLedgerEntry_posted [OF assms(1) w(1) m refl, of x t "Some PayoutRef" "Some i" de None None f' e] w(3) by auto
  with entry_movement [OF this(1) assms(1), of i u ks] show "movement i u (- a) ks f f'" by simp
  show "0 < a" by (fact w(2))
qed

lemma CreditIdempotent_movement:
  assumes "wallet_inv f" and "is_i64 a" and "CreditIdempotent x u a t (Some PayoutRef) (Some i) de k f = Inr (f', e)" and "k \<in> ks"
  shows "movement i u a ks f f'"
proof -
  obtain y where "entry_posted y f f'" "le_UserID y = u" "le_AmountCents y = a" "le_IdempotencyKey y = Some k"
    "le_RefType y = Some PayoutRef" "le_RefID y = Some i"
    using CreditIdempotentWithReason_row [OF assms(1,2) assms(3) [unfolded CreditIdempotent_def]] by blast
  with entry_movement [OF this(1) assms(1), of i u ks] assms(4) show ?thesis by simp
qed

text \<open>A movement for one payout leaves the rows and keys of the others alone.\<close>

lemma payout_rows_app: "payout_rows i (es @ es') = payout_rows i es @ payout_rows i es'"
  by (simp add: payout_rows_def)

lemma movement_rows:
  assumes "movement i u a ks f f'"
  obtains es where "payout_rows i (db_ledger f') = payout_rows i (db_ledger f) @ es" "sum_list (map le_AmountCents es) = a"
    "\<forall>e \<in> set es. le_UserID e = u"
proof -
  obtain es where es: "db_ledger f' = db_ledger f @ es" "sum_list (map le_AmountCents es) = a"
    "\<forall>e \<in> set es. le_RefType e = Some PayoutRef \<and> le_RefID e = Some i \<and> le_UserID e = u"
    using assms by (auto simp: movement_def)
  then have "payout_rows i es = es" by (simp add: payout_rows_def filter_id_conv)
  with es show ?thesis using that [of es] by (simp add: payout_rows_app)
qed

lemma movement_other:
  assumes "movement i u a ks f f'" and "ks \<subseteq> refund_keys i" and "j \<noteq> i"
  shows "payout_rows j (db_ledger f') = payout_rows j (db_ledger f)"
    and "k \<in> refund_keys j \<Longrightarrow> k \<in> set (ledger_keys (db_ledger f')) \<longleftrightarrow> k \<in> set (ledger_keys (db_ledger f))"
proof -
  obtain es where es: "db_ledger f' = db_ledger f @ es" "\<forall>e \<in> set es. le_RefID e = Some i" "set (ledger_keys es) \<subseteq> ks"
    using assms(1) by (auto simp: movement_def)
  have "payout_rows j es = []" using es(2) assms(3) by (auto simp: payout_rows_def filter_empty_conv)
  with es show "payout_rows j (db_ledger f') = payout_rows j (db_ledger f)" by (simp add: payout_rows_app)
  have "k \<notin> set (ledger_keys es)" if "k \<in> refund_keys j"
    using that es(3) assms(2,3) refund_keys_disjoint by blast
  then show "k \<in> refund_keys j \<Longrightarrow> k \<in> set (ledger_keys (db_ledger f')) \<longleftrightarrow> k \<in> set (ledger_keys (db_ledger f))"
    by (simp add: es(1) ledger_keys_app)
qed

lemma movement_claim_other:
  assumes "movement i u a ks f f'" and "ks \<subseteq> refund_keys i" and "py_ID p \<noteq> i"
  shows "claim_ok (db_ledger f') p \<longleftrightarrow> claim_ok (db_ledger f) p"
  using movement_other [OF assms] by (simp add: claim_ok_def payout_net_def)

section \<open>Fees in the metadata\<close>

lemma metadataFee_exact: "fee_exact (py_FeeCents p) \<Longrightarrow> max 0 (metadataFee p) = payout_fee p"
  by (auto simp: metadataFee_def payout_fee_def fee_exact_def f64_of_int_exact split: option.splits)

lemma metadataFee_i64: "is_i64 (metadataFee p)"
  by (auto simp: metadataFee_def f64_to_int_def is_i64_def split: option.split)

section \<open>Holding and returning funds\<close>

lemma or_error_Inr [simp]: "or_error f r = Inr x \<longleftrightarrow> r = Inr x"
  by (auto simp: or_error_def split: sum.splits)

lemma holdFunds_movement:
  assumes "holdFunds env u a fee d = Inr d'" and "wallet_inv (pd_funds d)" and "is_i64 a" and "is_i64 fee"
  shows "\<exists>f'. d' = put_pfunds f' d \<and> movement (we_payoutID env) u (- (a + max 0 fee)) ks (pd_funds d) f' \<and> 0 < a"
proof -
  obtain f e where 1: "Debit (we_entryID env) u a Withdrawal (Some PayoutRef) (Some (we_payoutID env))
      (Some ''Withdrawal request (funds held for review)'') (pd_funds d) = Inr (f, e)"
    and 2: "(if fee > 0 then rbind (or_error (feeDebitError (wrap64 (a + fee))) (Debit (we_feeEntryID env) u fee WithdrawFee (Some PayoutRef)
             (Some (we_payoutID env)) (Some ''Withdrawal fee'') f)) (\<lambda>(f, _). Inr (put_pfunds f d)) else Inr (put_pfunds f d)) = Inr d'"
    using assms(1) by (auto simp: holdFunds_def Let_def res_simps split: if_splits)
  note m = Debit_movement [OF assms(2,3) 1]
  have i: "wallet_inv f" using m(1) [of ks] by (simp add: movement_def)
  show ?thesis
  proof (cases "fee > 0")
    case False
    then show ?thesis using 2 m(1) [of ks] m(2) by auto
  next
    case True
    obtain f2 e2 where 3: "Debit (we_feeEntryID env) u fee WithdrawFee (Some PayoutRef) (Some (we_payoutID env)) (Some ''Withdrawal fee'') f = Inr (f2, e2)"
      "d' = put_pfunds f2 d" using 2 True by (auto simp: res_simps)
    from movement_trans [OF m(1) Debit_movement(1) [OF i assms(4) 3(1)]] 3(2) True m(2) show ?thesis by (auto simp: algebra_simps)
  qed
qed

lemma key_fresh: "k \<notin> set (ledger_keys (db_ledger f)) \<longleftrightarrow> ledger_by_key k f = None"
  by (auto simp: ledger_by_key_def find_None_iff set_ledger_keys)

lemma credit_new:
  assumes "credit_or_duplicate err (CreditIdempotent x u a t (Some PayoutRef) (Some i) de k (pd_funds d)) d = Inr d'"
    and "wallet_inv (pd_funds d)" and "is_i64 a" and "k \<notin> set (ledger_keys (db_ledger (pd_funds d)))"
  shows "\<exists>f'. d' = put_pfunds f' d \<and> movement i u a {k} (pd_funds d) f'"
proof -
  have n: "CreditIdempotent x u a t (Some PayoutRef) (Some i) de k (pd_funds d) \<noteq> Inl (DuplicateCreditError k' e)" for k' e
    using assms(4)
    by (auto simp: key_fresh CreditIdempotent_def CreditIdempotentWithReason_def createLedgerEntryWithIdempotency_def
        creditBalance_def GetBalanceTx_def update_wallet_balance_def insert_ledger_def Let_def res_simps split: if_splits option.splits sum.splits)
  show ?thesis
  proof (cases "CreditIdempotent x u a t (Some PayoutRef) (Some i) de k (pd_funds d)")
    case (Inl e)
    then show ?thesis using assms(1) n by (cases e) (auto simp: credit_or_duplicate_def)
  next
    case (Inr r)
    then show ?thesis using assms(1) CreditIdempotent_movement [OF assms(2,3), of x u t i de k "fst r" "snd r" "{k}"]
      by (auto simp: credit_or_duplicate_def split: prod.splits)
  qed
qed

lemma refundPayout_movement:
  assumes "refundPayout env pre feePre de fde i u a fee d = Inr d'" and "wallet_inv (pd_funds d)" and "is_i64 a" and "is_i64 fee"
    and "pre @ i \<notin> set (ledger_keys (db_ledger (pd_funds d)))" and "feePre @ i \<notin> set (ledger_keys (db_ledger (pd_funds d)))" and "pre \<noteq> feePre"
  shows "\<exists>f'. d' = put_pfunds f' d \<and> movement i u (a + max 0 fee) {pre @ i, feePre @ i} (pd_funds d) f'"
proof -
  let ?ks = "{pre @ i, feePre @ i}"
  have weaken: "movement i u b {k} f g \<Longrightarrow> k \<in> ?ks \<Longrightarrow> movement i u b ?ks f g" for b k f g
    unfolding movement_def by blast
  obtain d1 where 1: "credit_or_duplicate RefundFailed (CreditIdempotent (we_entryID env) u a WithdrawalRefund (Some PayoutRef) (Some i)
           (Some de) (pre @ i) (pd_funds d)) d = Inr d1"
    and 2: "(if fee > 0 then credit_or_duplicate RefundFeeFailed (CreditIdempotent (we_feeEntryID env) u fee WithdrawFeeRefund
           (Some PayoutRef) (Some i) (Some fde) (feePre @ i) (pd_funds d1)) d1 else Inr d1) = Inr d'"
    using assms(1) by (auto simp: refundPayout_def res_simps)
  obtain f1 where f1: "d1 = put_pfunds f1 d" "movement i u a {pre @ i} (pd_funds d) f1"
    using credit_new [OF 1 assms(2,3,5)] by blast
  show ?thesis
  proof (cases "fee > 0")
    case False
    then show ?thesis using 2 f1 weaken by auto
  next
    case True
    have w: "wallet_inv (pd_funds d1)" "feePre @ i \<notin> set (ledger_keys (db_ledger (pd_funds d1)))"
      using f1 assms(6,7) by (auto simp: put_pfunds_def movement_def ledger_keys_app)
    obtain f2 where f2: "d' = put_pfunds f2 d1" "movement i u fee {feePre @ i} f1 f2"
      using credit_new [OF _ w(1) assms(4) w(2)] 2 True f1(1) by (fastforce simp: put_pfunds_def)
    have "movement i u (a + fee) ?ks (pd_funds d) f2" using movement_trans [OF weaken weaken] f1(2) f2(2) by blast
    then show ?thesis using f2(1) f1(1) True by (auto simp: put_pfunds_def)
  qed
qed

section \<open>Keeping the claims\<close>

definition same_claim :: "PayoutRow \<Rightarrow> PayoutRow \<Rightarrow> bool" where
  "same_claim p q \<longleftrightarrow> py_ID q = py_ID p \<and> py_UserID q = py_UserID p \<and> py_AmountCents q = py_AmountCents p
     \<and> py_FeeCents q = py_FeeCents p \<and> py_IdempotencyKey q = py_IdempotencyKey p"

lemma same_claim_refl [simp]: "same_claim p p"
  by (simp add: same_claim_def)

lemma claim_ok_same:
  "same_claim p q \<Longrightarrow> payout_returned q = payout_returned p \<Longrightarrow> claim_ok es q \<longleftrightarrow> claim_ok es p"
  by (simp add: same_claim_def claim_ok_def payout_held_def payout_fee_def)

definition touched :: "LedgerEntry list \<Rightarrow> string \<Rightarrow> bool" where
  "touched es i \<longleftrightarrow> payout_rows i es \<noteq> [] \<or> (\<exists>k \<in> refund_keys i. k \<in> set (ledger_keys es))"

lemma claims_ok_map:
  assumes "claims_ok f ps" and "wallet_inv f'" and "\<forall>p \<in> set ps. same_claim p (h p) \<and> claim_ok (db_ledger f') (h p)"
    and "\<forall>i. touched (db_ledger f') i \<longrightarrow> i \<in> py_ID ` set ps"
  shows "claims_ok f' (map h ps)"
proof -
  have c: "same_claim p (h p)" "claim_ok (db_ledger f') (h p)" if "p \<in> set ps" for p using assms(3) that by blast+
  have ids: "map py_ID (map h ps) = map py_ID ps" using c(1) by (simp add: same_claim_def)
  then have set_ids: "py_ID ` set (map h ps) = py_ID ` set ps" by (metis set_map)
  have "map (\<lambda>p. (py_UserID p, py_IdempotencyKey p)) (filter (\<lambda>p. py_IdempotencyKey p \<noteq> None) (map h ps))
      = map (\<lambda>p. (py_UserID p, py_IdempotencyKey p)) (filter (\<lambda>p. py_IdempotencyKey p \<noteq> None) ps)"
    using c(1) by (induction ps) (auto simp: same_claim_def)
  then have "keys_unique (map h ps)" using assms(1) by (simp add: claims_ok_def keys_unique_def)
  moreover have "distinct (map py_ID (map h ps))" using assms(1) unfolding ids by (simp add: claims_ok_def)
  moreover have "\<forall>p \<in> set (map h ps). claim_ok (db_ledger f') p" using c(2) by auto
  ultimately show ?thesis using assms(2,4) unfolding claims_ok_def touched_def set_ids by blast
qed

lemma claims_ok_touched: "claims_ok f ps \<Longrightarrow> touched (db_ledger f) i \<Longrightarrow> i \<in> py_ID ` set ps"
  by (auto simp: claims_ok_def touched_def)

lemma claims_ok_inv: "claims_ok f ps \<Longrightarrow> wallet_inv f"
  by (simp add: claims_ok_def)

text \<open>A change of status that returns nothing.\<close>

lemma claims_ok_status:
  assumes "claims_ok f ps" and "\<forall>p \<in> set ps. same_claim p (h p) \<and> payout_returned (h p) = payout_returned p"
  shows "claims_ok f (map h ps)"
  using assms claims_ok_touched [OF assms(1)] claim_ok_same by (intro claims_ok_map [OF assms(1)]) (auto simp: claims_ok_def)

text \<open>A refund.\<close>

lemma touched_movement:
  assumes "movement i u a ks f f'" and "ks \<subseteq> refund_keys i" and "touched (db_ledger f') j" and "j \<noteq> i"
  shows "touched (db_ledger f) j"
  using movement_other [OF assms(1,2,4)] assms(3) by (auto simp: touched_def)

lemma claims_ok_return:
  assumes ok: "claims_ok f ps" and p: "p \<in> set ps" "\<not> payout_returned p"
    and m: "movement (py_ID p) (py_UserID p) (py_AmountCents p + payout_fee p) ks f f'" "ks \<subseteq> refund_keys (py_ID p)"
    and h: "\<forall>q \<in> set ps. same_claim q (h q)" "payout_returned (h p)" "\<forall>q \<in> set ps. py_ID q \<noteq> py_ID p \<longrightarrow> h q = q"
  shows "claims_ok f' (map h ps)"
proof (rule claims_ok_map [OF ok])
  show "wallet_inv f'" using m(1) by (simp add: movement_def)
  show "\<forall>i. touched (db_ledger f') i \<longrightarrow> i \<in> py_ID ` set ps"
    using touched_movement [OF m] claims_ok_touched [OF ok] p(1) by blast
  have d: "distinct (map py_ID ps)" using ok by (simp add: claims_ok_def)
  have same: "q = p" if "q \<in> set ps" "py_ID q = py_ID p" for q
    using that p(1) d by (metis distinct_map inj_onD)
  have cp: "claim_ok (db_ledger f) p" using ok p(1) by (simp add: claims_ok_def)
  have s: "same_claim p (h p)" using h(1) p(1) by blast
  have "claim_ok (db_ledger f') (h p)"
  proof -
    obtain es where es: "payout_rows (py_ID p) (db_ledger f') = payout_rows (py_ID p) (db_ledger f) @ es"
      "sum_list (map le_AmountCents es) = py_AmountCents p + payout_fee p" "\<forall>e \<in> set es. le_UserID e = py_UserID p"
      using movement_rows [OF m(1)] by blast
    have "payout_net (py_ID p) (db_ledger f) = - (py_AmountCents p + payout_fee p)"
      using cp p(2) by (simp add: claim_ok_def payout_held_def)
    then have "payout_net (py_ID p) (db_ledger f') = 0" using es(1,2) by (simp add: payout_net_def)
    moreover have "\<forall>e \<in> set (payout_rows (py_ID p) (db_ledger f')). le_UserID e = py_UserID p"
      using es cp by (auto simp: claim_ok_def)
    ultimately show ?thesis using cp s h(2) by (simp add: claim_ok_def same_claim_def payout_held_def)
  qed
  moreover have "claim_ok (db_ledger f') q" if "q \<in> set ps" "py_ID q \<noteq> py_ID p" for q
    using movement_claim_other [OF m that(2)] ok that(1) by (simp add: claims_ok_def)
  ultimately show "\<forall>q \<in> set ps. same_claim q (h q) \<and> claim_ok (db_ledger f') (h q)" using h(1,3) same by metis
qed

text \<open>A new payout.\<close>

lemma claims_ok_new:
  assumes ok: "claims_ok f ps" and p: "py_ID p \<notin> py_ID ` set ps" "\<not> payout_returned p" "0 < py_AmountCents p" "is_i64 (py_AmountCents p)"
      "fee_exact (py_FeeCents p)"
    and k: "\<forall>q \<in> set ps. py_IdempotencyKey p \<noteq> None \<longrightarrow> py_UserID q = py_UserID p \<longrightarrow> py_IdempotencyKey q \<noteq> py_IdempotencyKey p"
    and m: "movement (py_ID p) (py_UserID p) (- (py_AmountCents p + payout_fee p)) {} f f'"
  shows "claims_ok f' (ps @ [p])"
proof -
  have nt: "\<not> touched (db_ledger f) (py_ID p)" using claims_ok_touched [OF ok] p(1) by blast
  obtain es where es: "payout_rows (py_ID p) (db_ledger f') = payout_rows (py_ID p) (db_ledger f) @ es"
    "sum_list (map le_AmountCents es) = - (py_AmountCents p + payout_fee p)" "\<forall>e \<in> set es. le_UserID e = py_UserID p"
    using movement_rows [OF m] by blast
  have keys: "ledger_keys (db_ledger f') = ledger_keys (db_ledger f)"
    using m by (auto simp: movement_def ledger_keys_app)
  have "claim_ok (db_ledger f') p"
    using es nt p(2-5) by (simp add: claim_ok_def payout_net_def touched_def keys payout_held_def)
  moreover have "claim_ok (db_ledger f') q" if "q \<in> set ps" for q
    using movement_claim_other [OF m, of q] ok that p(1) by (auto simp: claims_ok_def image_iff)
  moreover have "keys_unique (ps @ [p])"
    using ok k by (auto simp: claims_ok_def keys_unique_def)
  moreover have "touched (db_ledger f') i \<Longrightarrow> i \<in> py_ID ` set (ps @ [p])" for i
    using touched_movement [OF m] claims_ok_touched [OF ok] by (cases "i = py_ID p") auto
  moreover have "wallet_inv f'" using m by (simp add: movement_def)
  ultimately show ?thesis using ok p(1) unfolding claims_ok_def touched_def by auto
qed

text \<open>Rows of other operations.\<close>

lemma claims_ok_other:
  assumes ok: "claims_ok f ps" and "wallet_inv f'" and l: "db_ledger f' = db_ledger f @ es"
    and es: "\<forall>e \<in> set es. le_RefType e \<noteq> Some PayoutRef" "\<forall>i. refund_keys i \<inter> set (ledger_keys es) = {}"
  shows "claims_ok f' ps"
proof -
  have r: "payout_rows i (db_ledger f') = payout_rows i (db_ledger f)" for i
    using es(1) by (auto simp: payout_rows_def l filter_empty_conv)
  have k: "k \<in> refund_keys i \<Longrightarrow> k \<in> set (ledger_keys (db_ledger f')) \<longleftrightarrow> k \<in> set (ledger_keys (db_ledger f))" for k i
    using es(2) by (auto simp: l ledger_keys_app)
  show ?thesis using ok assms(2) by (simp add: claims_ok_def claim_ok_def payout_net_def r k cong: bex_cong)
qed

section \<open>The handlers\<close>

lemma sql_Inr [simp]: "sql env name x = Inr y \<longleftrightarrow> \<not> we_fault env name \<and> y = x"
  by (auto simp: sql_def)

lemma lock_payout_Inr:
  "lock_payout i d = Inr p \<Longrightarrow> p \<in> set (pd_payouts d) \<and> py_ID p = i"
  by (auto simp: lock_payout_def find_payout_def find_Some_iff split: option.splits)

lemma insert_audit_Inr: "insert_audit env a b c d = Inr d' \<Longrightarrow> d' = d\<lparr>pd_audit := pd_audit d @ [(a, b, c)]\<rparr>"
  by (auto simp: insert_audit_def split: if_splits)

definition stamped :: "db \<Rightarrow> string \<Rightarrow> PayoutStatus set \<Rightarrow> (PayoutRow \<Rightarrow> PayoutRow) \<Rightarrow> PayoutRow \<Rightarrow> PayoutRow" where
  "stamped f i from g p = (if py_ID p = i \<and> py_Status p \<in> from then (g p)\<lparr>py_UpdatedAt := db_now f\<rparr> else p)"

lemma update_payout_Inr:
  "update_payout env err i from g d = Inr d' \<Longrightarrow> d' = d\<lparr>pd_payouts := map (stamped (pd_funds d) i from g) (pd_payouts d)\<rparr>"
  by (auto simp: update_payout_def stamped_def Let_def fun_eq_iff split: if_splits)

lemma review_payout_Inr:
  "review_payout env err actor i from g d = Inr d' \<Longrightarrow>
     d' = d\<lparr>pd_payouts := map (stamped (pd_funds d) i from (\<lambda>p. (g p)\<lparr>py_ReviewedBy := Some actor\<rparr>)) (pd_payouts d)\<rparr>"
  using update_payout_Inr by (auto simp: review_payout_def split: if_splits)

text \<open>Approval and completion change a status and return nothing.\<close>

lemma status_change_ok:
  assumes "payouts_ok d" and "\<forall>p. py_Status p \<in> from \<longrightarrow> same_claim p (g p) \<and> \<not> payout_returned p \<and> \<not> payout_returned (g p)"
  shows "claims_ok (pd_funds d) (map (stamped (pd_funds d) i from g) (pd_payouts d))"
  using assms(2) by (intro claims_ok_status [OF assms(1)]) (auto simp: stamped_def same_claim_def payout_returned_def)

lemma handleApproveWithdrawal_ok:
  assumes "handleApproveWithdrawal env actor i comment d = Inr d'" and "payouts_ok d"
  shows "payouts_ok d'"
  using assms
  by (auto simp: handleApproveWithdrawal_def res_simps dest!: review_payout_Inr insert_audit_Inr split: if_splits
      intro!: status_change_ok simp: same_claim_def payout_returned_def)

lemma handleCompleteWithdrawal_ok:
  assumes "handleCompleteWithdrawal env actor i comment tx d = Inr d'" and "payouts_ok d"
  shows "payouts_ok d'"
  using assms
  by (auto simp: handleCompleteWithdrawal_def Let_def res_simps dest!: review_payout_Inr insert_audit_Inr split: if_splits
      intro!: status_change_ok simp: same_claim_def payout_returned_def)

lemma handleAddWithdrawalComment_ok:
  assumes "handleAddWithdrawalComment env actor i comment d = Inr d'" and "payouts_ok d"
  shows "payouts_ok d'"
proof -
  obtain c where c: "d' = (let x = d\<lparr>pd_payouts := map (\<lambda>p. if py_ID p = i
              then p\<lparr>py_AdminComment := Some c, py_UpdatedAt := db_now (pd_funds d)\<rparr> else p) (pd_payouts d)\<rparr>
       in case insert_audit env actor ''withdrawal.commented'' i x of Inl _ \<Rightarrow> x | Inr d' \<Rightarrow> d')"
    using assms(1) unfolding handleAddWithdrawalComment_def rbind_eq_Inr if_else_Inr sql_Inr Let_def by blast
  then have d': "pd_payouts d' = map (\<lambda>p. if py_ID p = i
              then p\<lparr>py_AdminComment := Some c, py_UpdatedAt := db_now (pd_funds d)\<rparr> else p) (pd_payouts d)" "pd_funds d' = pd_funds d"
    by (simp_all add: insert_audit_def sql_def Let_def)
  show ?thesis unfolding d'
    by (rule claims_ok_status [OF assms(2)]) (simp add: same_claim_def payout_returned_def)
qed

text \<open>The two refunding handlers and the rollback.\<close>

lemma refund_ok:
  assumes ok: "payouts_ok d" and p: "p \<in> set (pd_payouts d)" "py_Status p \<in> from" "from \<subseteq> {PayoutPending, PayoutProcessing} \<or> from = UNIV"
      "\<not> payout_returned p"
    and g: "\<forall>q. same_claim q (g q) \<and> payout_returned (g q)"
    and r: "refundPayout env pre feePre de fde (py_ID p) (py_UserID p) (py_AmountCents p) (metadataFee p) d0 = Inr d1"
      "pd_funds d0 = pd_funds d"
    and k: "{pre @ py_ID p, feePre @ py_ID p} \<subseteq> refund_keys (py_ID p)" "pre \<noteq> feePre"
  shows "claims_ok (pd_funds d1) (map (stamped t (py_ID p) from g) (pd_payouts d))"
proof -
  have c: "claim_ok (db_ledger (pd_funds d)) p" "wallet_inv (pd_funds d)" using ok p(1) by (auto simp: claims_ok_def)
  then have fresh: "pre @ py_ID p \<notin> set (ledger_keys (db_ledger (pd_funds d0)))" "feePre @ py_ID p \<notin> set (ledger_keys (db_ledger (pd_funds d0)))"
    and a: "is_i64 (py_AmountCents p)" "is_i64 (metadataFee p)" "max 0 (metadataFee p) = payout_fee p"
    using p(4) k(1) r(2) by (simp_all add: claim_ok_def metadataFee_exact metadataFee_i64)
  obtain f' where f': "d1 = put_pfunds f' d0"
    "movement (py_ID p) (py_UserID p) (py_AmountCents p + payout_fee p) {pre @ py_ID p, feePre @ py_ID p} (pd_funds d) f'"
    using refundPayout_movement [OF r(1) _ a(1,2) fresh k(2)] c(2) a(3) r(2) by auto
  have "claims_ok f' (map (stamped t (py_ID p) from g) (pd_payouts d))"
  proof (rule claims_ok_return [OF ok p(1,4) f'(2) k(1)])
    show "\<forall>q \<in> set (pd_payouts d). same_claim q (stamped t (py_ID p) from g q)"
      using g by (auto simp: stamped_def same_claim_def)
    show "payout_returned (stamped t (py_ID p) from g p)" using g p(2) by (auto simp: stamped_def payout_returned_def)
    show "\<forall>q \<in> set (pd_payouts d). py_ID q \<noteq> py_ID p \<longrightarrow> stamped t (py_ID p) from g q = q" by (simp add: stamped_def)
  qed
  then show ?thesis using f'(1) by (simp add: put_pfunds_def)
qed

lemma refund_key_families:
  "{''withdrawal_refund:'' @ i, ''withdrawal_fee_refund:'' @ i} \<subseteq> refund_keys i" "''withdrawal_refund:'' \<noteq> ''withdrawal_fee_refund:''"
  "{''withdrawal_rollback:'' @ i, ''withdrawal_fee_rollback:'' @ i} \<subseteq> refund_keys i" "''withdrawal_rollback:'' \<noteq> ''withdrawal_fee_rollback:''"
  by (auto simp: refund_keys_def)

lemma refundPayout_frame: "refundPayout env pre feePre de fde i u a fee d = Inr d' \<Longrightarrow> pd_payouts d' = pd_payouts d"
  by (auto simp: refundPayout_def credit_or_duplicate_def put_pfunds_def res_simps split: if_splits sum.splits wallet_error.splits)

lemma handleRejectWithdrawal_ok:
  assumes "handleRejectWithdrawal env actor i comment d = Inr d'" and "payouts_ok d"
  shows "payouts_ok d'"
proof -
  obtain p c d1 d2 where p: "lock_payout i d = Inr p" "py_Status p = PayoutPending \<or> py_Status p = PayoutProcessing"
    and 1: "review_payout env WithdrawalCannotReject actor i {PayoutPending, PayoutProcessing} (\<lambda>p.
               p\<lparr>py_Status := PayoutRejected, py_AdminComment := Some c, py_CompletedAt := Some (db_now (pd_funds d))\<rparr>) d = Inr d1"
    and 2: "refundPayout env ''withdrawal_refund:'' ''withdrawal_fee_refund:'' ''Withdrawal request rejected - funds returned''
                   ''Withdrawal fee refunded - request rejected'' i (py_UserID p) (py_AmountCents p) (metadataFee p) d1 = Inr d2"
    and 3: "insert_audit env actor ''withdrawal.rejected'' i d2 = Inr d'"
    using assms(1) by (auto simp: handleRejectWithdrawal_def res_simps split: if_splits)
  note q = lock_payout_Inr [OF p(1)] and r = review_payout_Inr [OF 1]
  let ?g = "\<lambda>p. p\<lparr>py_Status := PayoutRejected, py_AdminComment := Some c, py_CompletedAt := Some (db_now (pd_funds d)),
        py_ReviewedBy := Some actor\<rparr>"
  have "claims_ok (pd_funds d2) (map (stamped (pd_funds d) (py_ID p) {PayoutPending, PayoutProcessing} ?g) (pd_payouts d))"
  proof (rule refund_ok [OF assms(2) _ _ _ _ _ 2 [unfolded q [THEN conjunct2, symmetric]] _ refund_key_families(1,2)])
    show "\<forall>q. same_claim q (q\<lparr>py_Status := PayoutRejected, py_AdminComment := Some c, py_CompletedAt := Some (db_now (pd_funds d)),
        py_ReviewedBy := Some actor\<rparr>) \<and> payout_returned (q\<lparr>py_Status := PayoutRejected, py_AdminComment := Some c,
        py_CompletedAt := Some (db_now (pd_funds d)), py_ReviewedBy := Some actor\<rparr>)"
      by (simp add: same_claim_def payout_returned_def)
  qed (use p q r in \<open>auto simp: payout_returned_def\<close>)
  then show ?thesis using insert_audit_Inr [OF 3] refundPayout_frame [OF 2] q r by simp
qed

lemma handleFailWithdrawal_ok:
  assumes "handleFailWithdrawal env actor i comment d = Inr d'" and "payouts_ok d"
  shows "payouts_ok d'"
proof -
  obtain p c d1 d2 where p: "lock_payout i d = Inr p" "py_Status p = PayoutProcessing"
    and 1: "review_payout env WithdrawalMustBeProcessing actor i {PayoutProcessing} (\<lambda>p.
               p\<lparr>py_Status := PayoutFailed, py_AdminComment := Some c, py_CompletedAt := Some (db_now (pd_funds d))\<rparr>) d = Inr d1"
    and 2: "refundPayout env ''withdrawal_refund:'' ''withdrawal_fee_refund:'' ''Withdrawal failed - funds returned''
                   ''Withdrawal fee refunded - payout failed'' i (py_UserID p) (py_AmountCents p) (metadataFee p) d1 = Inr d2"
    and 3: "insert_audit env actor ''withdrawal.failed'' i d2 = Inr d'"
    using assms(1) by (auto simp: handleFailWithdrawal_def res_simps split: if_splits)
  note q = lock_payout_Inr [OF p(1)] and r = review_payout_Inr [OF 1]
  let ?g = "\<lambda>p. p\<lparr>py_Status := PayoutFailed, py_AdminComment := Some c, py_CompletedAt := Some (db_now (pd_funds d)),
        py_ReviewedBy := Some actor\<rparr>"
  have "claims_ok (pd_funds d2) (map (stamped (pd_funds d) (py_ID p) {PayoutProcessing} ?g) (pd_payouts d))"
  proof (rule refund_ok [OF assms(2) _ _ _ _ _ 2 [unfolded q [THEN conjunct2, symmetric]] _ refund_key_families(1,2)])
    show "\<forall>q. same_claim q (q\<lparr>py_Status := PayoutFailed, py_AdminComment := Some c, py_CompletedAt := Some (db_now (pd_funds d)),
        py_ReviewedBy := Some actor\<rparr>) \<and> payout_returned (q\<lparr>py_Status := PayoutFailed, py_AdminComment := Some c,
        py_CompletedAt := Some (db_now (pd_funds d)), py_ReviewedBy := Some actor\<rparr>)"
      by (simp add: same_claim_def payout_returned_def)
  qed (use p q r in \<open>auto simp: payout_returned_def\<close>)
  then show ?thesis using insert_audit_Inr [OF 3] refundPayout_frame [OF 2] q r by simp
qed

text \<open>The worker works on the row it selected earlier, whose claim is that of the row in the table.\<close>

lemma rollbackTx_ok:
  assumes "rollbackTx env p d = Inr d'" and "payouts_ok d" and "q \<in> set (pd_payouts d)" "same_claim p q"
  shows "payouts_ok d'"
proof -
  obtain r d1 where r: "lock_payout (py_ID p) d = Inr r" "py_Status r = PayoutPending"
    and 1: "refundPayout env ''withdrawal_rollback:'' ''withdrawal_fee_rollback:'' ''Withdrawal rollback: payout expired''
                   ''Withdrawal fee rollback: payout expired'' (py_ID p) (py_UserID p) (py_AmountCents p) (metadataFee p) d = Inr d1"
    and 2: "update_payout env InternalServerError (py_ID p) UNIV (\<lambda>q.
               q\<lparr>py_Status := PayoutFailed, py_CompletedAt := Some (we_stamp env)\<rparr>) d1 = Inr d'"
    using assms(1) by (auto simp: rollbackTx_def res_simps split: if_splits)
  note lr = lock_payout_Inr [OF r(1)]
  have "r = q"
    using lr assms(2-4) inj_onD [of py_ID "set (pd_payouts d)" r q] by (simp add: claims_ok_def same_claim_def distinct_map)
  then have eq: "py_ID p = py_ID r" "py_UserID p = py_UserID r" "py_AmountCents p = py_AmountCents r" "metadataFee p = metadataFee r"
    using assms(4) by (simp_all add: same_claim_def metadataFee_def)
  have "claims_ok (pd_funds d1) (map (stamped (pd_funds d1) (py_ID r) UNIV (\<lambda>q.
               q\<lparr>py_Status := PayoutFailed, py_CompletedAt := Some (we_stamp env)\<rparr>)) (pd_payouts d))"
    by (rule refund_ok [OF assms(2) _ _ _ _ _ 1 [unfolded eq] _ refund_key_families(3,4)])
      (use lr r in \<open>auto simp: same_claim_def payout_returned_def\<close>)
  then show ?thesis using update_payout_Inr [OF 2] refundPayout_frame [OF 1] by (simp add: eq)
qed

lemma processStuckPayout_ok:
  "payouts_ok d \<Longrightarrow> q \<in> set (pd_payouts d) \<Longrightarrow> same_claim p q \<Longrightarrow> payouts_ok (processStuckPayout env p d)"
  using rollbackTx_ok by (auto simp: processStuckPayout_def split: sum.split)

text \<open>A request.\<close>

definition fees_ok :: "WithdrawConfig \<Rightarrow> bool" where
  "fees_ok cfg \<longleftrightarrow> (\<forall>a. wc_MinWithdrawCents cfg \<le> a \<and> a \<le> wc_MaxWithdrawCents cfg \<longrightarrow> \<bar>withdrawFee cfg a\<bar> < 2 ^ 53)"

lemma precheck_amount:
  assumes "precheckWithdraw cfg env u k req d = Inr x"
  shows "wc_MinWithdrawCents cfg \<le> rq_AmountCents req" "rq_AmountCents req \<le> wc_MaxWithdrawCents cfg"
  using assms by (auto simp: precheckWithdraw_def validateWithdraw_def Let_def res_simps split: if_splits prod.splits)

lemma holdFunds_frame: "holdFunds env u a fee d = Inr d' \<Longrightarrow> pd_payouts d' = pd_payouts d"
  by (auto simp: holdFunds_def put_pfunds_def Let_def res_simps split: if_splits)

lemma insert_payout_Inr:
  assumes "insert_payout env p d = Inr d'"
  shows "d' = d\<lparr>pd_payouts := pd_payouts d @ [p]\<rparr>" "py_ID p \<notin> py_ID ` set (pd_payouts d)"
    "\<forall>k. py_IdempotencyKey p = Some k \<longrightarrow> k \<noteq> '''' \<longrightarrow> (\<forall>q \<in> set (pd_payouts d). py_UserID q = py_UserID p \<longrightarrow> py_IdempotencyKey q \<noteq> Some k)"
  using assms by (auto simp: insert_payout_def find_payout_def payout_by_key_def find_None_iff split: if_splits option.splits)

lemma createPayout_ok:
  assumes c: "createPayout cfg env u k req d = Inr (d', r)" and ok: "payouts_ok d"
    and a: "is_i64 (rq_AmountCents req)" "\<bar>withdrawFee cfg (rq_AmountCents req)\<bar> < 2 ^ 53"
  shows "payouts_ok d'"
proof -
  let ?fee = "withdrawFee cfg (rq_AmountCents req)" and ?p = "newPayout env u k req (withdrawFee cfg (rq_AmountCents req))"
  obtain d1 d2 where 1: "holdFunds env u (rq_AmountCents req) ?fee d = Inr d1"
    and 2: "insert_payout env ?p d1 = Inr d2" and 3: "insert_audit env u ''withdrawal.created'' (py_ID ?p) d2 = Inr d'"
    using c by (auto simp: createPayout_def Let_def res_simps)
  have i: "is_i64 ?fee" using a(2) by (auto simp: is_i64_def)
  obtain f' where f': "d1 = put_pfunds f' d" "movement (we_payoutID env) u (- (rq_AmountCents req + max 0 ?fee)) {} (pd_funds d) f'" "0 < rq_AmountCents req"
    using holdFunds_movement [OF 1 claims_ok_inv [OF ok] a(1) i, of "{}"] by blast
  note n = insert_payout_Inr [OF 2]
  have ps: "pd_payouts d1 = pd_payouts d" "pd_funds d1 = f'" using f'(1) by (simp_all add: put_pfunds_def)
  have "claims_ok f' (pd_payouts d @ [?p])"
  proof (rule claims_ok_new [OF ok])
    show "py_ID ?p \<notin> py_ID ` set (pd_payouts d)" using n(2) ps by simp
    show "\<not> payout_returned ?p" by (simp add: newPayout_def payout_returned_def)
    show "0 < py_AmountCents ?p" "is_i64 (py_AmountCents ?p)" using f'(3) a(1) by (simp_all add: newPayout_def)
    show "fee_exact (py_FeeCents ?p)" using a(2) by (simp add: newPayout_def fee_exact_def)
    show "\<forall>q \<in> set (pd_payouts d). py_IdempotencyKey ?p \<noteq> None \<longrightarrow> py_UserID q = py_UserID ?p \<longrightarrow> py_IdempotencyKey q \<noteq> py_IdempotencyKey ?p"
      using n(3) ps by (auto simp: newPayout_def)
    show "movement (py_ID ?p) (py_UserID ?p) (- (py_AmountCents ?p + payout_fee ?p)) {} (pd_funds d) f'"
      using f'(2) by (simp add: newPayout_def payout_fee_def)
  qed
  then show ?thesis using insert_audit_Inr [OF 3] n(1) ps by simp
qed

lemma HandleCreateWithdraw_ok:
  assumes "HandleCreateWithdraw cfg env u k req d0 d1 d = Inr (d', r)" and "payouts_ok d" and "fees_ok cfg" and "is_i64 (rq_AmountCents req)"
  shows "payouts_ok d'"
proof -
  obtain x p where x: "precheckWithdraw cfg env u k req d0 = Inr x"
    and p: "(case p of Some p \<Rightarrow> Inr (d, replayResponse p d1) | None \<Rightarrow> createPayout cfg env u k req d) = Inr (d', r)"
    using assms(1) unfolding HandleCreateWithdraw_def by (auto simp: res_simps)
  have "\<bar>withdrawFee cfg (rq_AmountCents req)\<bar> < 2 ^ 53" using precheck_amount [OF x] assms(3) by (simp add: fees_ok_def)
  then show ?thesis using p assms(2,4) createPayout_ok by (auto split: option.splits)
qed

end
