(* ===== verification/Withdrawal_Properties.thy ===== *)
theory Withdrawal_Properties
  imports Withdrawal_Invariant
begin

text \<open>
  Properties of withdrawals over every run of requests, reviews, the worker and the rest of the
  wallet service, and what the code does not do as meant.
\<close>

section \<open>Runs\<close>

text \<open>What other services post: rows that refer to no payout, under other keys.\<close>

definition other_rows :: "db \<Rightarrow> db \<Rightarrow> bool" where
  "other_rows f f' \<longleftrightarrow>
     (\<forall>e \<in> set (drop (length (db_ledger f)) (db_ledger f')). le_RefType e \<noteq> Some PayoutRef
        \<and> (\<forall>i. \<forall>k \<in> refund_keys i. le_IdempotencyKey e \<noteq> Some k))"

text \<open>
  A step is a committed handler, a row of the worker (read at some earlier time), a call of the
  wallet service by someone else, or a change of limits and verifications. A request reads its limits
  and its key in any tables at all.
\<close>

inductive payout_step :: "WithdrawConfig \<Rightarrow> pdb \<Rightarrow> pdb \<Rightarrow> bool" for cfg where
  requested: "is_i64 (rq_AmountCents req) \<Longrightarrow> HandleCreateWithdraw cfg env u k req d0 d1 d = Inr (d', r) \<Longrightarrow> payout_step cfg d d'"
| approved: "handleApproveWithdrawal env actor i comment d = Inr d' \<Longrightarrow> payout_step cfg d d'"
| rejected: "handleRejectWithdrawal env actor i comment d = Inr d' \<Longrightarrow> payout_step cfg d d'"
| completed: "handleCompleteWithdrawal env actor i comment tx d = Inr d' \<Longrightarrow> payout_step cfg d d'"
| failed: "handleFailWithdrawal env actor i comment d = Inr d' \<Longrightarrow> payout_step cfg d d'"
| commented: "handleAddWithdrawalComment env actor i comment d = Inr d' \<Longrightarrow> payout_step cfg d d'"
| expired: "q \<in> set (pd_payouts d) \<Longrightarrow> same_claim p q \<Longrightarrow> payout_step cfg d (processStuckPayout env p d)"
| charged: "handleChargeUserWallet env actor u rq d = Inr (d', b, i) \<Longrightarrow> payout_step cfg d d'"
| elsewhere: "wallet_step (pd_funds d) f' \<Longrightarrow> other_rows (pd_funds d) f' \<Longrightarrow> payout_step cfg d (put_pfunds f' d)"
| settings: "payout_step cfg d (d\<lparr>pd_limits := l, pd_kyc := kyc, pd_audit := a\<rparr>)"

inductive payout_steps :: "WithdrawConfig \<Rightarrow> pdb \<Rightarrow> pdb \<Rightarrow> bool" for cfg where
  pss_refl: "payout_steps cfg d d"
| pss_step: "payout_steps cfg d d' \<Longrightarrow> payout_step cfg d' d'' \<Longrightarrow> payout_steps cfg d d''"

text \<open>No payout yet, and no row of the ledger that pretends to belong to one.\<close>

definition no_payouts :: "pdb \<Rightarrow> bool" where
  "no_payouts d \<longleftrightarrow> pd_payouts d = [] \<and> wallet_inv (pd_funds d)
     \<and> (\<forall>e \<in> set (db_ledger (pd_funds d)). le_RefType e \<noteq> Some PayoutRef \<and> (\<forall>i. \<forall>k \<in> refund_keys i. le_IdempotencyKey e \<noteq> Some k))"

lemma no_payouts_ok: "no_payouts d \<Longrightarrow> payouts_ok d"
  by (auto simp: no_payouts_def claims_ok_def keys_unique_def payout_rows_def filter_empty_conv set_ledger_keys)

lemma appended_rows_ok:
  assumes "payouts_ok d" and "wallet_inv f'" and "\<exists>es. db_ledger f' = db_ledger (pd_funds d) @ es" and "other_rows (pd_funds d) f'"
  shows "claims_ok f' (pd_payouts d)"
proof -
  obtain es where es: "db_ledger f' = db_ledger (pd_funds d) @ es" using assms(3) by blast
  show ?thesis
    by (rule claims_ok_other [OF assms(1,2) es]) (use assms(4) es in \<open>auto simp: other_rows_def set_ledger_keys\<close>)
qed

lemma quiet_rows: "quiet f f' \<Longrightarrow> db_ledger f' = db_ledger f"
  by (simp add: quiet_def)

lemma entry_other_rows:
  assumes "entry_posted e f f'" and "le_RefType e \<noteq> Some PayoutRef" and "\<forall>i. \<forall>k \<in> refund_keys i. le_IdempotencyKey e \<noteq> Some k"
  shows "(\<exists>es. db_ledger f' = db_ledger f @ es) \<and> other_rows f f'"
  using assms by (auto simp: entry_posted_def other_rows_def)

lemma admin_key: "\<forall>i. \<forall>k \<in> refund_keys i. Some (''admin_charge:'' @ x) \<noteq> Some k"
  by (auto simp: refund_keys_def)

lemma chargeCredit_rows:
  assumes "wallet_inv f" and "is_i64 a" and "chargeCredit env u a de (''admin_charge:'' @ k) f = Inr (f', e)"
  shows "wallet_inv f' \<and> (\<exists>es. db_ledger f' = db_ledger f @ es) \<and> other_rows f f'"
proof -
  obtain y where y: "entry_posted y f f'" "le_IdempotencyKey y = Some (''admin_charge:'' @ k)" "le_RefType y = Some AdminActionRef"
    using CreditIdempotentWithReason_row [OF assms(1,2) assms(3) [unfolded chargeCredit_def]] by blast
  show ?thesis using entry_other_rows [OF y(1)] entry_posted_inv [OF assms(1) y(1)] y(2,3) admin_key by simp
qed

lemma chargeTx_rows:
  assumes "wallet_inv f" and "is_i64 a" "is_i64 (- a)" and "chargeTx env u a de (''admin_charge:'' @ k) f = Inr (f', e)"
  shows "wallet_inv f' \<and> (\<exists>es. db_ledger f' = db_ledger f @ es) \<and> other_rows f f'"
proof (cases "a > 0")
  case True
  then consider "chargeCredit env u a de (''admin_charge:'' @ k) f = Inr (f', e)"
    | f1 w where "CreateWallet u f = Inr (f1, w)" "chargeCredit env u a de (''admin_charge:'' @ k) f1 = Inr (f', e)"
    using assms(4) by (auto simp: chargeTx_def split: sum.splits wallet_error.splits)
  then show ?thesis
  proof cases
    case 1
    then show ?thesis by (rule chargeCredit_rows [OF assms(1,2)])
  next
    case 2
    then have q: "quiet f f1" by (blast intro: quiet_create)
    from chargeCredit_rows [OF quiet_inv [OF assms(1) q] assms(2) 2(2)] show ?thesis
      by (simp add: other_rows_def quiet_rows [OF q])
  qed
next
  case False
  then obtain x where x: "DebitWithReason (we_entryID env) u (- a) Adjustment (Some AdminActionRef) None (Some de) (Some RC_WalletTopup) f = Inr (f', x)"
    using assms(3,4) by (auto simp: chargeTx_def split: sum.splits wallet_error.splits)
  obtain w where w: "db_wallets f u = Some w" "0 < - a"
    "rbind (update_wallet_balance u (wrap64 (w_BalanceCents w - (- a))) f)
       (createLedgerEntryWithIdempotency (we_entryID env) u (wrap64 (- (- a))) (wrap64 (w_BalanceCents w - (- a))) Adjustment
          (Some AdminActionRef) None (Some de) (Some RC_WalletTopup) None) = Inr (f', x)"
    using x by (auto simp: DebitWithReason_def res_simps GetBalanceTx_Inr Let_def createLedgerEntry_eq split: if_splits)
  then obtain y where y: "entry_posted y f f'" "le_IdempotencyKey y = None" "le_RefType y = Some AdminActionRef"
    using createLedgerEntry_posted [OF assms(1) w(1) assms(2) refl] assms(2) by fastforce
  show ?thesis using entry_other_rows [OF y(1)] entry_posted_inv [OF assms(1) y(1)] y(2,3) by simp
qed

lemma handleChargeUserWallet_ok:
  assumes "handleChargeUserWallet env actor u rq d = Inr (d', b, i)" and "payouts_ok d"
  shows "payouts_ok d'"
proof -
  let ?de = "adminChargeLabel @ SanitizeString (cw_Reason rq)" and ?k = "actor @ '':'' @ u @ '':'' @ show_int (we_now env)"
  have a: "cw_Amount rq \<le> 10000000" "- 10000000 \<le> cw_Amount rq"
    using assms(1) by (auto simp: handleChargeUserWallet_def split: if_splits)
  obtain f e d1 where t: "chargeTx env u (cw_Amount rq) ?de (''admin_charge:'' @ ?k) (pd_funds d) = Inr (f, e)"
    and d1: "insert_audit env actor ''user.wallet.charged'' u (put_pfunds f d) = Inr d1" "d' = d1"
    using assms(1) unfolding handleChargeUserWallet_def Let_def
    by (cases "chargeTx env u (cw_Amount rq) ?de (''admin_charge:'' @ ?k) (pd_funds d)")
      (auto split: if_splits sum.splits)
  have d': "pd_funds d' = f" "pd_payouts d' = pd_payouts d" using insert_audit_Inr [OF d1(1)] d1(2) by (simp_all add: put_pfunds_def)
  have "is_i64 (cw_Amount rq)" "is_i64 (- cw_Amount rq)" using a by (auto simp: is_i64_def)
  from chargeTx_rows [OF claims_ok_inv [OF assms(2)] this t] show ?thesis
    unfolding d' using appended_rows_ok [OF assms(2)] by blast
qed

lemma payout_step_ok:
  assumes "payout_step cfg d d'" and ok: "payouts_ok d" and "fees_ok cfg"
  shows "payouts_ok d'"
  using assms(1)
proof (cases rule: payout_step.cases)
  case (elsewhere f')
  have "claims_ok f' (pd_payouts d)"
    using appended_rows_ok [OF ok _ _ elsewhere(3)] wallet_step_inv wallet_step_appends elsewhere(2) claims_ok_inv [OF ok] by blast
  then show ?thesis by (simp add: elsewhere(1) put_pfunds_def)
qed (use assms(2,3) in \<open>auto intro: HandleCreateWithdraw_ok handleApproveWithdrawal_ok handleRejectWithdrawal_ok handleCompleteWithdrawal_ok
    handleFailWithdrawal_ok handleAddWithdrawalComment_ok processStuckPayout_ok handleChargeUserWallet_ok\<close>)

lemma payout_steps_ok: "payout_steps cfg d d' \<Longrightarrow> payouts_ok d \<Longrightarrow> fees_ok cfg \<Longrightarrow> payouts_ok d'"
  by (induction rule: payout_steps.induct) (auto intro: payout_step_ok)

section \<open>Withdrawn once, returned once\<close>

text \<open>An example: a verified player with 1000 dollars, a fee of 10 cents and 1.5 percent.\<close>

definition sample_withdraw_cfg :: WithdrawConfig where
  "sample_withdraw_cfg = \<lparr>wc_MinWithdrawCents = 100, wc_MaxWithdrawCents = 100000, wc_WithdrawFeeCents = 10, wc_WithdrawFeePercent = 0,
     wc_limits = \<lparr>wl_DailyAmountCents = 5000, wl_MonthlyAmountCents = 50000, wl_DailyCount = 1, wl_MonthlyCount = 0\<rparr>\<rparr>"

definition sample_wenv :: "string \<Rightarrow> string \<Rightarrow> string \<Rightarrow> wenv" where
  "sample_wenv i j k = \<lparr>we_now = 86400000000000, we_stamp = 86400000000, we_payoutID = i, we_entryID = j, we_feeEntryID = k,
     we_fault = (\<lambda>_. False), we_provider = (\<lambda>_. None)\<rparr>"

definition sample_withdraw_req :: WithdrawRequest where
  "sample_withdraw_req = \<lparr>rq_AmountCents = 4000, rq_Currency = '''', rq_DestinationType = ''bank'', rq_BankAccount = ''1234'', rq_BankName = '''',
     rq_AccountHolder = ''1'', rq_WalletAddress = '''', rq_CryptoCurrency = '''', rq_Network = ''''\<rparr>"

definition sample_funds :: db where
  "sample_funds =
     \<lparr>db_now = 86400000000, db_users = {''u1'', ''adm''},
      db_wallets = [''u1'' \<mapsto> \<lparr>w_UserID = ''u1'', w_BalanceCents = 100000, w_Currency = ''USD'', w_Status = Active, w_CreatedAt = 0, w_UpdatedAt = 0\<rparr>],
      db_ledger = [\<lparr>le_ID = ''e0'', le_UserID = ''u1'', le_Type = Deposit, le_AmountCents = 100000, le_BalanceAfterCents = 100000,
        le_RefType = None, le_RefID = None, le_Description = None, le_ReasonCode = None, le_IdempotencyKey = None, le_CreatedAt = 0,
        le_OriginalID = None, le_EventID = None, le_ActorID = None\<rparr>],
      db_treasury = None, db_treasury_ledger = [], db_fee_account = None, db_fee_ledger = [], db_contests = Map.empty,
      db_pools = Map.empty, db_pool_ledger = [], db_events = {}\<rparr>"

definition sample_payouts :: pdb where
  "sample_payouts = \<lparr>pd_funds = sample_funds, pd_payouts = [], pd_limits = Map.empty, pd_kyc = [''u1'' \<mapsto> (''verified'', None)], pd_audit = []\<rparr>"

lemma sample_no_payouts: "no_payouts sample_payouts"
  by (simp add: no_payouts_def sample_payouts_def sample_funds_def wallet_inv_def ledger_keys_def List.map_filter_def)

lemma sample_fees_ok: "fees_ok sample_withdraw_cfg"
  by (simp add: fees_ok_def sample_withdraw_cfg_def withdrawFee_def)

lemma digits_trim: "list_all is_digit s \<Longrightarrow> trim_space s = s"
  by (rule trim_space_id) (auto simp: list_all_iff)

lemma sample_trim: "trim_space ''1234'' = ''1234''" "trim_space ''1'' = ''1''" "trim_space ''0'' = ''0''"
  by (rule digits_trim, simp add: is_digit_def)+

lemma sample_valid: "validateWithdraw sample_withdraw_cfg sample_withdraw_req = []"
  by (simp add: validateWithdraw_def required_error_def sample_trim sample_withdraw_cfg_def sample_withdraw_req_def)

lemma sample_in_limits:
  "CheckWithdrawalLimits (sample_wenv ''p1'' ''e1'' ''e2'') ''u1'' 4000 (wc_limits sample_withdraw_cfg) sample_payouts = Inr ()"
  by code_simp

lemma sample_precheck:
  "precheckWithdraw sample_withdraw_cfg (sample_wenv ''p1'' ''e1'' ''e2'') ''u1'' ''k'' sample_withdraw_req sample_payouts = Inr ()"
  using sample_valid sample_in_limits
  by (simp add: precheckWithdraw_def sample_wenv_def CheckVerification_def sample_payouts_def sample_withdraw_cfg_def sample_withdraw_req_def)

lemma sample_created:
  "isOK (createPayout sample_withdraw_cfg (sample_wenv ''p1'' ''e1'' ''e2'') ''u1'' ''k'' sample_withdraw_req sample_payouts)"
  by code_simp

lemma sample_request:
  "HandleCreateWithdraw sample_withdraw_cfg (sample_wenv ''p1'' ''e1'' ''e2'') ''u1'' ''k'' sample_withdraw_req
     sample_payouts sample_payouts sample_payouts =
   createPayout sample_withdraw_cfg (sample_wenv ''p1'' ''e1'' ''e2'') ''u1'' ''k'' sample_withdraw_req sample_payouts"
  unfolding HandleCreateWithdraw_def sample_precheck by (simp add: sql_def sample_wenv_def payout_by_key_def sample_payouts_def)

definition sample_requested :: pdb where
  "sample_requested = (case createPayout sample_withdraw_cfg (sample_wenv ''p1'' ''e1'' ''e2'') ''u1'' ''k'' sample_withdraw_req
     sample_payouts of Inl _ \<Rightarrow> sample_payouts | Inr (d, _) \<Rightarrow> d)"

lemma sample_requested_eq: "\<exists>r. HandleCreateWithdraw sample_withdraw_cfg (sample_wenv ''p1'' ''e1'' ''e2'') ''u1'' ''k'' sample_withdraw_req
     sample_payouts sample_payouts sample_payouts = Inr (sample_requested, r)"
  using sample_created unfolding sample_request sample_requested_def by (auto simp: isOK_iff)

lemma sample_requested_row:
  "map (\<lambda>p. (py_ID p, py_UserID p, py_AmountCents p, py_FeeCents p, py_Status p)) (pd_payouts sample_requested) = [(''p1'', ''u1'', 4000, Some 10, PayoutPending)]"
  by code_simp

text \<open>
  (C4) A withdrawal takes its amount and fee from the wallet of the player once and gives them back
  once: in every run of requests, replays, reviews, the worker for stuck payouts and the rest of the
  wallet service, the rows of the ledger that refer to a payout are the player's own and add up to
  minus amount and fee, or to nothing after it was rejected or failed.
\<close>
theorem withdrawal_exactly_once:
  assumes "no_payouts d" and "payout_steps cfg d d'" and "fees_ok cfg" and "p \<in> set (pd_payouts d')"
  shows "sum_list (map le_AmountCents (filter (\<lambda>e. le_RefType e = Some PayoutRef \<and> le_RefID e = Some (py_ID p)) (db_ledger (pd_funds d')))) =
      (if py_Status p \<in> {PayoutFailed, PayoutRejected} then 0 else - (py_AmountCents p + payout_fee p))
    \<and> (\<forall>e \<in> set (db_ledger (pd_funds d')). le_RefType e = Some PayoutRef \<longrightarrow> le_RefID e = Some (py_ID p) \<longrightarrow> le_UserID e = py_UserID p)
    \<and> wallet_inv (pd_funds d')"
proof -
  have ok: "payouts_ok d'" by (rule payout_steps_ok [OF assms(2) no_payouts_ok [OF assms(1)] assms(3)])
  then have "claim_ok (db_ledger (pd_funds d')) p" using assms(4) by (simp add: claims_ok_def)
  then show ?thesis using claims_ok_inv [OF ok]
    by (simp add: claim_ok_def payout_net_def payout_rows_def payout_held_def payout_returned_def)
qed

theorem withdrawal_exactly_once_witness:
  "sum_list (map le_AmountCents (filter (\<lambda>e. le_RefType e = Some PayoutRef \<and> le_RefID e = Some ''p1'') (db_ledger (pd_funds sample_requested)))) = - 4010"
proof -
  obtain p where p: "pd_payouts sample_requested = [p]" "py_ID p = ''p1''" "py_AmountCents p = 4000" "py_FeeCents p = Some 10" "py_Status p = PayoutPending"
    using sample_requested_row by (auto simp: map_eq_Cons_conv)
  obtain r where "HandleCreateWithdraw sample_withdraw_cfg (sample_wenv ''p1'' ''e1'' ''e2'') ''u1'' ''k'' sample_withdraw_req
     sample_payouts sample_payouts sample_payouts = Inr (sample_requested, r)" using sample_requested_eq by blast
  then have "payout_step sample_withdraw_cfg sample_payouts sample_requested"
    by (rule payout_step.requested [rotated]) (simp add: sample_withdraw_req_def is_i64_def)
  then have "payout_steps sample_withdraw_cfg sample_payouts sample_requested" by (rule pss_step [OF pss_refl])
  from withdrawal_exactly_once [OF sample_no_payouts this sample_fees_ok, of p] p show ?thesis
    by (simp add: payout_fee_def)
qed

section \<open>What the code does not do as meant\<close>

lemma lock_payout_own:
  assumes "payouts_ok d" and "p \<in> set (pd_payouts d)"
  shows "lock_payout (py_ID p) d = Inr p"
proof (cases "lock_payout (py_ID p) d")
  case (Inl e)
  then show ?thesis using assms(2) by (auto simp: lock_payout_def find_payout_def find_None_iff split: option.splits)
next
  case (Inr q)
  have "inj_on py_ID (set (pd_payouts d))" using assms(1) by (simp add: claims_ok_def distinct_map)
  with Inr lock_payout_Inr [OF Inr] assms(2) show ?thesis by (auto dest: inj_onD)
qed

lemma refundPayout_frozen:
  assumes "db_wallets (pd_funds d) u = Some w" and "w_Status w = Frozen" and "0 < a" and "pre @ i \<notin> set (ledger_keys (db_ledger (pd_funds d)))"
  shows "refundPayout env pre feePre de fde i u a fee d = Inl RefundFailed"
  using assms
  by (simp add: refundPayout_def credit_or_duplicate_def CreditIdempotent_def CreditIdempotentWithReason_def creditBalance_def
      GetBalanceTx_def key_fresh)

text \<open>
  (C22) While the wallet of its owner is frozen a withdrawal cannot be given back: rejecting it,
  failing it and the worker for stuck payouts all end in an error and change nothing, although a
  prize or a contest refund is credited to a frozen wallet.
\<close>
theorem frozen_wallet_withdrawal_stuck:
  assumes "payouts_ok d" and "p \<in> set (pd_payouts d)" and "\<not> payout_returned p"
    and "db_wallets (pd_funds d) (py_UserID p) = Some w" and "w_Status w = Frozen"
  shows "(\<exists>err. handleRejectWithdrawal env actor (py_ID p) comment d = Inl err)
    \<and> (\<exists>err. handleFailWithdrawal env actor (py_ID p) comment d = Inl err) \<and> processStuckPayout env p d = d"
proof -
  have c: "0 < py_AmountCents p" "\<forall>k \<in> refund_keys (py_ID p). k \<notin> set (ledger_keys (db_ledger (pd_funds d)))"
    using assms(1-3) by (auto simp: claims_ok_def claim_ok_def)
  have r: "refundPayout e pre feePre de fde (py_ID p) (py_UserID p) (py_AmountCents p) fee x = Inl RefundFailed"
    if "pd_funds x = pd_funds d" "pre @ py_ID p \<in> refund_keys (py_ID p)" for e pre feePre de fde fee x
    using refundPayout_frozen [of x "py_UserID p" w "py_AmountCents p" pre "py_ID p"] assms(4,5) c that by simp
  note l = lock_payout_own [OF assms(1,2)] and k = refund_key_families(1,3) [of "py_ID p"]
  have "\<not> isOK (handleRejectWithdrawal env actor (py_ID p) comment d)" unfolding isOK_iff
    using l r k by (auto simp: handleRejectWithdrawal_def res_simps dest!: review_payout_Inr split: if_splits)
  moreover have "\<not> isOK (handleFailWithdrawal env actor (py_ID p) comment d)" unfolding isOK_iff
    using l r k by (auto simp: handleFailWithdrawal_def res_simps dest!: review_payout_Inr split: if_splits)
  moreover have "\<not> isOK (rollbackTx env p d)" unfolding isOK_iff
    using l r k by (auto simp: rollbackTx_def res_simps split: if_splits)
  ultimately show ?thesis by (auto simp: processStuckPayout_def isOK_def split: sum.splits)
qed

lemma sample_requested_claims: "payouts_ok sample_requested"
proof -
  obtain r where "HandleCreateWithdraw sample_withdraw_cfg (sample_wenv ''p1'' ''e1'' ''e2'') ''u1'' ''k'' sample_withdraw_req
     sample_payouts sample_payouts sample_payouts = Inr (sample_requested, r)" using sample_requested_eq by blast
  then show ?thesis
    by (rule HandleCreateWithdraw_ok [OF _ no_payouts_ok [OF sample_no_payouts] sample_fees_ok])
      (simp add: sample_withdraw_req_def is_i64_def)
qed

definition sample_frozen :: pdb where
  "sample_frozen = put_pfunds (FreezeWallet ''u1'' (pd_funds sample_requested)) sample_requested"

theorem frozen_wallet_withdrawal_stuck_witness:
  "\<exists>err. handleRejectWithdrawal (sample_wenv '''' ''e3'' ''e4'') ''adm'' ''p1'' ''0'' sample_frozen = Inl err"
proof -
  obtain p where p: "pd_payouts sample_requested = [p]" "py_ID p = ''p1''" "py_UserID p = ''u1''" "py_Status p = PayoutPending"
    using sample_requested_row by (auto simp: map_eq_Cons_conv)
  have step: "wallet_step (pd_funds sample_requested) (FreezeWallet ''u1'' (pd_funds sample_requested))" by (rule ws_freeze)
  have "other_rows (pd_funds sample_requested) (FreezeWallet ''u1'' (pd_funds sample_requested))"
    by (simp add: other_rows_def quiet_rows [OF quiet_status] FreezeWallet_def)
  then have ok: "payouts_ok sample_frozen"
    using payout_step_ok [OF payout_step.elsewhere [OF step] sample_requested_claims sample_fees_ok] by (simp add: sample_frozen_def)
  have "map_option w_Status (db_wallets (pd_funds sample_requested) ''u1'') = Some Active" by code_simp
  then have "map_option w_Status (db_wallets (pd_funds sample_frozen) ''u1'') = Some Frozen"
    by (auto simp: sample_frozen_def put_pfunds_def FreezeWallet_def update_wallet_status_def)
  then obtain w where w: "db_wallets (pd_funds sample_frozen) ''u1'' = Some w" "w_Status w = Frozen" by auto
  have "p \<in> set (pd_payouts sample_frozen)" "\<not> payout_returned p" using p by (simp_all add: sample_frozen_def put_pfunds_def payout_returned_def)
  from frozen_wallet_withdrawal_stuck [OF ok this, of w] p w show ?thesis by auto
qed

lemma day_of_month_pos: "1 \<le> day_of_month n"
proof -
  have "1 \<le> x - (153 * ((5 * x + 2) div 153) + 2) div 5 + 1" for x :: int
  proof -
    have "153 * ((5 * x + 2) div 153) + 2 \<le> 5 * x + 4"
      using mult_div_mod_eq [of 153 "5 * x + 2"] pos_mod_sign [of 153 "5 * x + 2"] by linarith
    then have "(153 * ((5 * x + 2) div 153) + 2) div 5 \<le> (5 * x + 4) div 5" by (rule zdiv_mono1) simp
    then show ?thesis by simp
  qed
  then show ?thesis unfolding day_of_month_def Let_def .
qed

lemma startOfMonth_le: "startOfMonth t \<le> startOfDay t"
proof -
  have "86400000000 * (m - k + 1) \<le> 86400000000 * m" if "1 \<le> k" for m k :: int using that by simp
  then show ?thesis using day_of_month_pos unfolding startOfMonth_def startOfDay_def Let_def by blast
qed

lemma createPayout_frame:
  assumes "createPayout cfg env u k req d = Inr (d', r)"
  shows "pd_payouts d' = pd_payouts d @ [newPayout env u k req (withdrawFee cfg (rq_AmountCents req))]"
    and "pd_limits d' = pd_limits d" "pd_kyc d' = pd_kyc d"
proof -
  obtain d1 d2 where 1: "holdFunds env u (rq_AmountCents req) (withdrawFee cfg (rq_AmountCents req)) d = Inr d1"
    and 2: "insert_payout env (newPayout env u k req (withdrawFee cfg (rq_AmountCents req))) d1 = Inr d2"
    and 3: "insert_audit env u ''withdrawal.created'' (py_ID (newPayout env u k req (withdrawFee cfg (rq_AmountCents req)))) d2 = Inr d'"
    using assms by (auto simp: createPayout_def Let_def res_simps)
  obtain f where "d1 = put_pfunds f d" using 1 by (auto simp: holdFunds_def Let_def res_simps split: if_splits)
  then show "pd_payouts d' = pd_payouts d @ [newPayout env u k req (withdrawFee cfg (rq_AmountCents req))]"
    "pd_limits d' = pd_limits d" "pd_kyc d' = pd_kyc d"
    using insert_payout_Inr(1) [OF 2] insert_audit_Inr [OF 3] by (simp_all add: put_pfunds_def)
qed

lemma usage_after_request:
  assumes us: "getWithdrawalUsage e u d = Inr us" and ps: "pd_payouts d' = pd_payouts d @ [p]"
    and p: "py_UserID p = u" "startOfDay (we_now e) \<le> py_CreatedAt p" "py_Status p = PayoutPending"
    and i: "is_i64 (wu_MonthlyAmountCents us + py_AmountCents p)" "is_i64 (wu_DailyAmountCents us + py_AmountCents p)"
  shows "getWithdrawalUsage e u d' = Inr \<lparr>wu_DailyAmountCents = wu_DailyAmountCents us + py_AmountCents p,
      wu_MonthlyAmountCents = wu_MonthlyAmountCents us + py_AmountCents p, wu_DailyCount = wu_DailyCount us + 1, wu_MonthlyCount = wu_MonthlyCount us + 1\<rparr>"
proof -
  have "startOfMonth (we_now e) \<le> py_CreatedAt p" using p(2) startOfMonth_le [of "we_now e"] by simp
  then show ?thesis using us p i by (auto simp: getWithdrawalUsage_def Let_def ps split: if_splits)
qed

text \<open>
  (C23) A replay is not always a replay: the limits are checked before the idempotency key is looked
  up, so the repetition of the last withdrawal the daily count allows is refused as over the limit,
  although the payout of its key exists and would have been answered with.
\<close>
theorem replay_refused_after_last_withdrawal:
  assumes "HandleCreateWithdraw cfg env u k req d d d = Inr (d', r)" and "k \<noteq> ''''" and "payout_by_key u k d = None"
    and "getWithdrawalUsage e u d = Inr us" and "wl_DailyCount (resolveWithdrawalLimits u (wc_limits cfg) d) = wu_DailyCount us + 1"
    and "startOfDay (we_now e) \<le> we_stamp env" and "fst (CheckVerification e u d)" and "\<not> we_fault e ''CheckVerification''"
    and "is_i64 (wu_MonthlyAmountCents us + rq_AmountCents req)" and "is_i64 (wu_DailyAmountCents us + rq_AmountCents req)"
  shows "payout_by_key u k d' \<noteq> None
    \<and> HandleCreateWithdraw cfg e u k req d' d' d' = Inl (WithdrawalLimitExceeded ''daily_count'' (wu_DailyCount us + 1) (wu_DailyCount us + 1) 1)"
proof -
  let ?p = "newPayout env u k req (withdrawFee cfg (rq_AmountCents req))"
  obtain x where x: "precheckWithdraw cfg env u k req d = Inr x" and c: "createPayout cfg env u k req d = Inr (d', r)"
    using assms(1-3) by (auto simp: HandleCreateWithdraw_def res_simps)
  note fr = createPayout_frame [OF c]
  have "py_UserID ?p = u \<and> py_IdempotencyKey ?p = Some k" using assms(2) by (simp add: newPayout_def)
  then have "payout_by_key u k d' \<noteq> None" by (simp add: payout_by_key_def fr(1) find_None_iff) blast
  moreover have "getWithdrawalUsage e u d' = Inr \<lparr>wu_DailyAmountCents = wu_DailyAmountCents us + rq_AmountCents req,
      wu_MonthlyAmountCents = wu_MonthlyAmountCents us + rq_AmountCents req, wu_DailyCount = wu_DailyCount us + 1, wu_MonthlyCount = wu_MonthlyCount us + 1\<rparr>"
    using usage_after_request [OF assms(4) fr(1)] assms(6,9,10) by (simp add: newPayout_def)
  moreover have "0 \<le> wu_DailyCount us" using assms(4) by (auto simp: getWithdrawalUsage_def Let_def split: if_splits)
  moreover have "CheckVerification e u d' = CheckVerification e u d" "resolveWithdrawalLimits u (wc_limits cfg) d' = resolveWithdrawalLimits u (wc_limits cfg) d"
    by (simp_all add: CheckVerification_def resolveWithdrawalLimits_def fr)
  moreover have "u \<noteq> ''''" "length k \<le> 128" "wc_MinWithdrawCents cfg \<le> rq_AmountCents req"
    using x by (auto simp: precheckWithdraw_def Let_def split: if_splits prod.splits)
  ultimately show ?thesis
    using assms(5,7,8) by (simp add: HandleCreateWithdraw_def precheckWithdraw_def CheckWithdrawalLimits_def Let_def case_prod_beta)
qed

theorem replay_refused_after_last_withdrawal_witness:
  "HandleCreateWithdraw sample_withdraw_cfg (sample_wenv ''p2'' ''e5'' ''e6'') ''u1'' ''k'' sample_withdraw_req
     sample_requested sample_requested sample_requested = Inl (WithdrawalLimitExceeded ''daily_count'' 1 1 1)"
proof -
  obtain r where r: "HandleCreateWithdraw sample_withdraw_cfg (sample_wenv ''p1'' ''e1'' ''e2'') ''u1'' ''k'' sample_withdraw_req
     sample_payouts sample_payouts sample_payouts = Inr (sample_requested, r)" using sample_requested_eq by blast
  let ?us = "\<lparr>wu_DailyAmountCents = 0, wu_MonthlyAmountCents = 0, wu_DailyCount = 0, wu_MonthlyCount = 0\<rparr>"
  have "getWithdrawalUsage (sample_wenv ''p2'' ''e5'' ''e6'') ''u1'' sample_payouts = Inr ?us"
    by (simp add: getWithdrawalUsage_def sample_payouts_def is_i64_def)
  from replay_refused_after_last_withdrawal [OF r _ _ this] show ?thesis
    by (simp add: sample_payouts_def payout_by_key_def resolveWithdrawalLimits_def sample_withdraw_cfg_def sample_wenv_def
        sample_withdraw_req_def startOfDay_def CheckVerification_def is_i64_def)
qed

lemma sample_second_precheck:
  "precheckWithdraw sample_withdraw_cfg (sample_wenv ''p2'' ''e5'' ''e6'') ''u1'' ''l'' sample_withdraw_req sample_payouts = Inr ()"
proof -
  have "CheckWithdrawalLimits (sample_wenv ''p2'' ''e5'' ''e6'') ''u1'' 4000 (wc_limits sample_withdraw_cfg) sample_payouts = Inr ()"
    by code_simp
  then show ?thesis using sample_valid
    by (simp add: precheckWithdraw_def sample_wenv_def CheckVerification_def sample_payouts_def sample_withdraw_cfg_def sample_withdraw_req_def)
qed

lemma sample_second_created:
  "isOK (createPayout sample_withdraw_cfg (sample_wenv ''p2'' ''e5'' ''e6'') ''u1'' ''l'' sample_withdraw_req sample_requested)"
  by code_simp

definition sample_second :: pdb where
  "sample_second = (case createPayout sample_withdraw_cfg (sample_wenv ''p2'' ''e5'' ''e6'') ''u1'' ''l'' sample_withdraw_req
     sample_requested of Inl _ \<Rightarrow> sample_payouts | Inr (d, _) \<Rightarrow> d)"

lemma sample_second_usage:
  "getWithdrawalUsage (sample_wenv '''' '''' '''') ''u1'' sample_second =
     Inr \<lparr>wu_DailyAmountCents = 8000, wu_MonthlyAmountCents = 8000, wu_DailyCount = 2, wu_MonthlyCount = 2\<rparr>"
  by code_simp


end
