(* ===== verification/Money.thy ===== *)
theory Money
  imports Go_Strings
begin

text \<open>
  \<open>packages/money\<close>: checked 64-bit arithmetic (\<open>arith.go\<close>), money in minor units
  (\<open>money.go\<close>), basis points (\<open>bps.go\<close>), fixed-point values with an explicit scale
  (\<open>fixed.go\<close>) and rational weights (\<open>rational.go\<close>). The lemmas characterise the
  checked operations by exact integer arithmetic: they return the exact result where it
  fits in 64 bits and an error where it does not, division rounds half away from zero,
  and printing followed by parsing is the identity.
\<close>

section \<open>Errors\<close>

datatype money_error =
    AddOverflow
  | MulOverflow
  | DivisionByZero
  | NegativeBps
  | InvalidScale int
  | Pow10Range
  | EmptyDecimal
  | InvalidDecimal string
  | ExcessPrecision int
  | BpsOutOfRange int
  | RationalDenominator

type_synonym 'a money_result = "money_error + 'a"

section \<open>Checked arithmetic (arith.go)\<close>

definition mulInt64 :: "int \<Rightarrow> int \<Rightarrow> int money_result" where
  "mulInt64 a b =
     (if a = 0 \<or> b = 0 then Inr 0
      else if a = min_i64 \<and> b = -1 then Inl MulOverflow
      else if b = min_i64 \<and> a = -1 then Inl MulOverflow
      else let res = wrap64 (a * b)
           in if a \<noteq> 0 \<and> go_quot res a \<noteq> b then Inl MulOverflow else Inr res)"

definition addInt64 :: "int \<Rightarrow> int \<Rightarrow> int money_result" where
  "addInt64 a b =
     (if (b > 0 \<and> a > wrap64 (max_i64 - b)) \<or> (b < 0 \<and> a < wrap64 (min_i64 - b))
      then Inl AddOverflow else Inr (wrap64 (a + b)))"

definition abs64 :: "int \<Rightarrow> int" where
  "abs64 v = (if v < 0 then wrap64 (- v) else v)"

definition divRoundHalfUp :: "int \<Rightarrow> int \<Rightarrow> int money_result" where
  "divRoundHalfUp num den =
     (if den = 0 then Inl DivisionByZero
      else let neg = ((num < 0) \<noteq> (den < 0));
               an = abs64 num; ad = abs64 den;
               q = go_quot an ad; r = go_rem an ad;
               q' = (if wrap64 (r * 2) \<ge> ad then wrap64 (q + 1) else q)
           in if neg then Inr (wrap64 (- q')) else Inr q')"

definition MaxScale :: int where [simp]: "MaxScale = 18"

fun pow10_loop :: "nat \<Rightarrow> int \<Rightarrow> int money_result" where
  "pow10_loop 0 out = Inr out"
| "pow10_loop (Suc n) out = rbind (mulInt64 out 10) (\<lambda>next. pow10_loop n next)"

definition pow10 :: "int \<Rightarrow> int money_result" where
  "pow10 e = (if e < 0 \<or> e > MaxScale then Inl Pow10Range else pow10_loop (nat e) 1)"

definition formatUnits :: "int \<Rightarrow> int \<Rightarrow> string" where
  "formatUnits units scale =
     (if scale = 0 then show_int units
      else case pow10 scale of
             Inl _ \<Rightarrow> show_int units
           | Inr factor \<Rightarrow>
               (let u = abs64 units;
                    whole = go_quot u factor; frac = go_rem u factor;
                    out = show_int whole @ ''.'' @ show_int_pad (nat scale) frac
                in if units < 0 then ''-'' @ out else out))"

fun parseInt64_loop :: "int \<Rightarrow> string \<Rightarrow> int money_result" where
  "parseInt64_loop out [] = Inr out"
| "parseInt64_loop out (ch # s) =
     rbind (mulInt64 out 10) (\<lambda>next. rbind (addInt64 next (digit_val ch)) (\<lambda>out'. parseInt64_loop out' s))"

definition parseInt64 :: "string \<Rightarrow> int money_result" where
  "parseInt64 s = parseInt64_loop 0 s"

definition validateScale :: "int \<Rightarrow> unit money_result" where
  "validateScale scale = (if scale < 0 \<or> scale > MaxScale then Inl (InvalidScale scale) else Inr ())"

definition fracPart :: "string \<Rightarrow> string list \<Rightarrow> int \<Rightarrow> string money_result" where
  "fracPart s parts scale =
     (if length parts = 2 then
        (let frac = parts ! 1 in
         if \<not> list_all is_digit frac then Inl (InvalidDecimal s)
         else if int (length frac) > scale then Inl (ExcessPrecision scale)
         else Inr (frac @ replicate (nat scale - length frac) CHR ''0''))
      else Inr (replicate (nat scale) CHR ''0''))"

definition parseToUnits :: "string \<Rightarrow> int \<Rightarrow> int money_result" where
  "parseToUnits s0 scale =
     rbind (validateScale scale) (\<lambda>_.
     let s1 = trim_space s0 in
     if s1 = [] then Inl EmptyDecimal
     else
       let neg = (hd s1 = CHR ''-'');
           s = (if hd s1 = CHR ''-'' \<or> hd s1 = CHR ''+'' then tl s1 else s1);
           parts = split_on CHR ''.'' s
       in if length parts > 2 then Inl (InvalidDecimal s)
          else
            let whole = (if hd parts = [] then ''0'' else hd parts)
            in if \<not> list_all is_digit whole then Inl (InvalidDecimal s)
               else rbind (fracPart s parts scale) (\<lambda>frac.
                    rbind (pow10 scale) (\<lambda>factor.
                    rbind (parseInt64 whole) (\<lambda>w.
                    rbind (parseInt64 frac) (\<lambda>f.
                    rbind (mulInt64 w factor) (\<lambda>wu.
                    rbind (addInt64 wu f) (\<lambda>sum.
                    Inr (if neg then wrap64 (- sum) else sum))))))))"

section \<open>Money (money.go) and basis points (bps.go)\<close>

definition MoneyDisplayScale :: int where [simp]: "MoneyDisplayScale = 2"

definition money_Add :: "int \<Rightarrow> int \<Rightarrow> int money_result" where
  "money_Add m o' =
     (let a = m; b = o' in
      if (b > 0 \<and> a > wrap64 (max_i64 - b)) \<or> (b < 0 \<and> a < wrap64 (min_i64 - b))
      then Inl AddOverflow else Inr (wrap64 (a + b)))"

definition money_Sub :: "int \<Rightarrow> int \<Rightarrow> int money_result" where
  "money_Sub m o' = money_Add m (wrap64 (- o'))"

definition NewBPS :: "int \<Rightarrow> int money_result" where
  "NewBPS v = (if v < 0 \<or> v > 10000 then Inl (BpsOutOfRange v) else Inr v)"

definition money_ApplyBPS :: "int \<Rightarrow> int \<Rightarrow> int money_result" where
  "money_ApplyBPS m bps =
     (if bps < 0 then Inl NegativeBps
      else rbind (mulInt64 m bps) (\<lambda>prod. divRoundHalfUp prod 10000))"

definition money_FormatFixed :: "int \<Rightarrow> string" where
  "money_FormatFixed m = formatUnits m MoneyDisplayScale"

definition ParseMoney :: "string \<Rightarrow> int money_result" where
  "ParseMoney s = parseToUnits s MoneyDisplayScale"

section \<open>Fixed-point values (fixed.go)\<close>

text \<open>
  \<open>Price\<close>, \<open>Rate\<close>, \<open>PnL\<close> and \<open>Score\<close> are Go types with the representation of
  \<open>Fixed\<close>; their constructors and \<open>Format\<close> methods have the same bodies, so one
  definition stands for each.
\<close>

record fixed =
  Units :: int
  Scale :: int

definition NewFixed :: "int \<Rightarrow> int \<Rightarrow> fixed money_result" where
  "NewFixed units scale =
     rbind (validateScale scale) (\<lambda>_. Inr \<lparr>Units = units, Scale = scale\<rparr>)"

definition fixed_Format :: "fixed \<Rightarrow> string" where
  "fixed_Format f = formatUnits (Units f) (Scale f)"

definition ParseFixed :: "string \<Rightarrow> int \<Rightarrow> fixed money_result" where
  "ParseFixed s scale = rbind (parseToUnits s scale) (\<lambda>u. NewFixed u scale)"

definition Rescale :: "fixed \<Rightarrow> int \<Rightarrow> fixed money_result" where
  "Rescale f newScale =
     rbind (validateScale newScale) (\<lambda>_.
     if newScale = Scale f then Inr f
     else if newScale > Scale f then
       rbind (pow10 (wrap64 (newScale - Scale f))) (\<lambda>factor.
       rbind (mulInt64 (Units f) factor) (\<lambda>units.
       Inr \<lparr>Units = units, Scale = newScale\<rparr>))
     else
       rbind (pow10 (wrap64 (Scale f - newScale))) (\<lambda>factor.
       rbind (divRoundHalfUp (Units f) factor) (\<lambda>units.
       Inr \<lparr>Units = units, Scale = newScale\<rparr>)))"

section \<open>Rational weights (rational.go)\<close>

record rational =
  Num :: int
  Den :: int

definition NewRational :: "int \<Rightarrow> int \<Rightarrow> rational money_result" where
  "NewRational num den =
     (if den \<le> 0 then Inl RationalDenominator else Inr \<lparr>Num = num, Den = den\<rparr>)"

definition rational_ApplyToMoney :: "rational \<Rightarrow> int \<Rightarrow> int money_result" where
  "rational_ApplyToMoney r m =
     rbind (mulInt64 m (Num r)) (\<lambda>prod. divRoundHalfUp prod (Den r))"

section \<open>The checked operations against exact arithmetic\<close>

text \<open>The wrapped product divides back to \<open>b\<close> only when the product did not overflow.\<close>

lemma mul_check_detects:
  assumes a: "a \<noteq> 0" "is_i64 a" and b: "is_i64 b" and ov: "\<not> is_i64 (a * b)"
    and g: "\<not> (a = -1 \<and> b = min_i64)"
  shows "go_quot (wrap64 (a * b)) a \<noteq> b"
proof
  let ?res = "wrap64 (a * b)"
  let ?q = "?res sdiv a"
  assume q: "go_quot ?res a = b"
  obtain k where k: "?res = a * b - k * 18446744073709551616"
    using wrap64_cong by blast
  have "k \<noteq> 0"
    using ov k wrap64_eq_iff [of "a * b"] by auto
  then have far: "18446744073709551616 \<le> \<bar>?res - a * b\<bar>"
    using k by (simp add: abs_mult)
  have close: "\<bar>?res - a * ?q\<bar> < \<bar>a\<bar>"
    using sdiv_close [OF a(1), of ?res] .
  have "\<bar>a\<bar> \<le> 9223372036854775808"
    using a(2) by (auto simp: is_i64_def)
  with close far have ne: "?q \<noteq> b"
    by auto
  have "a \<noteq> 1" "a \<noteq> - 1"
    using ov b g by (auto simp: is_i64_def)
  then have "2 \<le> \<bar>a\<bar>" using a(1) by arith
  then have "\<bar>?q\<bar> \<le> \<bar>?res\<bar> div 2"
    by (intro abs_sdiv_le) simp_all
  moreover have "\<bar>?res\<bar> \<le> 9223372036854775808"
    using is_i64_wrap64 [of "a * b"] by (auto simp: is_i64_def)
  ultimately have "is_i64 ?q" by (auto simp: is_i64_def)
  with q ne show False by (simp add: go_quot_def)
qed

lemma mulInt64_exact:
  assumes "is_i64 a" "is_i64 b"
  shows "mulInt64 a b = (if is_i64 (a * b) then Inr (a * b) else Inl MulOverflow)"
proof (cases "a = 0 \<or> b = 0 \<or> (a = min_i64 \<and> b = -1) \<or> (b = min_i64 \<and> a = -1)")
  case True
  then show ?thesis by (auto simp: mulInt64_def is_i64_def)
next
  case False
  then have "a \<noteq> 0" by simp
  show ?thesis
  proof (cases "is_i64 (a * b)")
    case True
    then have "go_quot (wrap64 (a * b)) a = b"
      using \<open>a \<noteq> 0\<close> assms(2) by (simp add: go_quot_def sdiv_mult_exact)
    with True False show ?thesis by (auto simp: mulInt64_def Let_def)
  next
    case ov: False
    then have "go_quot (wrap64 (a * b)) a \<noteq> b"
      using False assms \<open>a \<noteq> 0\<close> by (intro mul_check_detects) auto
    with ov False show ?thesis by (auto simp: mulInt64_def Let_def)
  qed
qed

lemma addInt64_exact:
  assumes "is_i64 a" "is_i64 b"
  shows "addInt64 a b = (if is_i64 (a + b) then Inr (a + b) else Inl AddOverflow)"
proof -
  have "b > 0 \<Longrightarrow> is_i64 (max_i64 - b)" "b < 0 \<Longrightarrow> is_i64 (min_i64 - b)"
    using assms(2) by (simp_all add: is_i64_def)
  moreover have "is_i64 (a + b) \<longleftrightarrow> \<not> (b > 0 \<and> a > max_i64 - b) \<and> \<not> (b < 0 \<and> a < min_i64 - b)"
    using assms(1) by (auto simp: is_i64_def)
  ultimately show ?thesis
    by (auto simp: addInt64_def)
qed

lemma money_Add_eq_addInt64: "money_Add m n = addInt64 m n"
  by (simp add: money_Add_def addInt64_def Let_def)

section \<open>Rounding\<close>

text \<open>The policy rounding: half away from zero, on exact integers.\<close>

definition round_half_away :: "int \<Rightarrow> int \<Rightarrow> int" where
  "round_half_away n d = sgn n * ((2 * \<bar>n\<bar> + d) div (2 * d))"

lemma half_up_div:
  fixes n d :: int
  assumes "0 < d" "0 \<le> n"
  shows "(2 * n + d) div (2 * d) = n div d + (if 2 * (n mod d) \<ge> d then 1 else 0)"
proof -
  define q r x where "q = n div d" and "r = n mod d" and "x = d * q"
  have r: "0 \<le> r" "r < d" using assms by (simp_all add: r_def)
  have n: "n = x + r" by (simp add: x_def q_def r_def)
  have up: "2 * n + d = 2 * d * (q + 1) + (2 * r - d)" and down: "2 * n + d = 2 * d * q + (2 * r + d)"
    by (simp_all add: n x_def algebra_simps)
  have "2 * r \<ge> d \<Longrightarrow> (2 * n + d) div (2 * d) = q + 1"
    using r assms by (intro int_div_pos_eq [OF up]) simp_all
  moreover have "\<not> 2 * r \<ge> d \<Longrightarrow> (2 * n + d) div (2 * d) = q"
    using r assms by (intro int_div_pos_eq [OF down]) simp_all
  ultimately show ?thesis by (simp add: q_def r_def)
qed

lemma divRoundHalfUp_exact:
  assumes n: "is_i64 n" "n \<noteq> min_i64" and d: "0 < d" "d \<le> 4611686018427387904"
  shows "divRoundHalfUp n d = Inr (round_half_away n d)"
proof -
  let ?a = "\<bar>n\<bar>"
  have a: "0 \<le> ?a" "is_i64 ?a" "abs64 n = ?a"
    using n by (auto simp: is_i64_def abs64_def)
  have r: "0 \<le> ?a mod d" "?a mod d < d" using d by simp_all
  then have r2: "is_i64 (?a mod d * 2)" using d unfolding is_i64_def by linarith
  have q: "0 \<le> ?a div d" "?a div d \<le> ?a"
    using d a(1) zdiv_mono2 [of ?a 1 d] by (simp_all add: pos_imp_zdiv_nonneg_iff)
  have q1: "is_i64 (?a div d + 1)" if "d \<le> ?a mod d * 2"
  proof (cases "d = 1")
    case True
    with that show ?thesis by simp
  next
    case False
    with d have "?a div d \<le> ?a div 2" by (intro zdiv_mono2) simp_all
    then show ?thesis using q a(2) by (auto simp: is_i64_def)
  qed
  have nq: "is_i64 (- (?a div d))" "d \<le> ?a mod d * 2 \<Longrightarrow> is_i64 (- (?a div d + 1))"
    using q q1 a(2) by (auto simp: is_i64_def)
  have hu: "(2 * ?a + d) div (2 * d) = ?a div d + (if d \<le> ?a mod d * 2 then 1 else 0)"
    using half_up_div [OF d(1) a(1)] by (simp add: mult.commute)
  have ad: "abs64 d = d" using d by (simp add: abs64_def)
  show ?thesis
    using d(1) a r2 q1 nq hu ad is_i64_mono [OF a(2) q] go_quot_nonneg [OF a(1) d(1) a(2)]
      go_rem_nonneg [OF a(1) d(1)]
    by (auto simp: divRoundHalfUp_def Let_def round_half_away_def sgn_if)
qed

lemma round_half_away_error:
  fixes n d :: int
  assumes "0 < d"
  shows "2 * \<bar>d * round_half_away n d - n\<bar> \<le> d"
proof -
  define a x m where "a = \<bar>n\<bar>" and "x = d * ((2 * a + d) div (2 * d))"
    and "m = (2 * a + d) mod (2 * d)"
  have e: "2 * a + d = 2 * x + m"
    using mult_div_mod_eq [of "2 * d" "2 * a + d"] by (simp add: x_def m_def mult.assoc)
  have m: "0 \<le> m" "m < 2 * d"
    using assms by (simp_all add: m_def)
  have xa: "2 * \<bar>x - a\<bar> \<le> d" using e m by arith
  have "d * round_half_away n d - n = sgn n * (x - a)" if "n \<noteq> 0"
    using that by (simp add: round_half_away_def x_def a_def right_diff_distrib sgn_mult_abs mult.left_commute)
  moreover have "d * round_half_away n d - n = 0" if "n = 0"
    using that by (simp add: round_half_away_def)
  ultimately show ?thesis
    using xa assms by (cases "n = 0") (auto simp: abs_mult sgn_if)
qed

lemma abs_round_le:
  fixes q x m :: int
  assumes "2 * \<bar>10000 * q - x\<bar> \<le> 10000" "\<bar>x\<bar> \<le> 10000 * m"
  shows "\<bar>q\<bar> \<le> m"
  using assms by (simp add: abs_le_iff)

section \<open>Printing and parsing\<close>

lemma pow10_loop_exact:
  "0 < out \<Longrightarrow> out * 10 ^ n \<le> max_i64 \<Longrightarrow> pow10_loop n out = Inr (out * 10 ^ n)"
proof (induction n arbitrary: out)
  case 0
  then show ?case by simp
next
  case (Suc n)
  have le: "out * 10 \<le> out * 10 ^ Suc n"
    using Suc.prems(1) by (intro mult_left_mono self_le_power) simp_all
  have "is_i64 (out * 10)" "is_i64 out"
    unfolding is_i64_def using order_trans [OF le Suc.prems(2)] Suc.prems(1) by linarith+
  then have "mulInt64 out 10 = Inr (out * 10)"
    by (simp add: mulInt64_exact is_i64_def)
  with Suc show ?case by (simp add: mult.assoc)
qed

lemma pow10_exact:
  assumes "0 \<le> e" "e \<le> 18"
  shows "pow10 e = Inr (10 ^ nat e)"
proof -
  have "(10::int) ^ nat e \<le> 10 ^ 18"
    using assms by (intro power_increasing) simp_all
  then have "pow10_loop (nat e) 1 = Inr (1 * 10 ^ nat e)"
    by (intro pow10_loop_exact) simp_all
  then show ?thesis using assms by (simp add: pow10_def)
qed

lemma pow10_bounds: "0 \<le> e \<Longrightarrow> e \<le> 18 \<Longrightarrow> (1::int) \<le> 10 ^ nat e \<and> (10::int) ^ nat e \<le> 1000000000000000000"
  using power_increasing [of "nat e" 18 "10::int"] by simp

lemma pow10_i64: "0 \<le> e \<Longrightarrow> e \<le> 18 \<Longrightarrow> is_i64 (10 ^ nat e)"
proof -
  assume "0 \<le> e" "e \<le> 18"
  then have "(1::int) \<le> 10 ^ nat e" "(10::int) ^ nat e \<le> 1000000000000000000"
    using pow10_bounds [of e] by simp_all
  then show ?thesis unfolding is_i64_def by linarith
qed

definition dec_from :: "int \<Rightarrow> string \<Rightarrow> int" where
  "dec_from a s = foldl (\<lambda>a c. 10 * a + digit_val c) a s"

lemma dec_from_simps [simp]:
  "dec_from a [] = a" "dec_from a (c # s) = dec_from (10 * a + digit_val c) s"
  by (simp_all add: dec_from_def)

lemma dec_from_ge: "list_all is_digit s \<Longrightarrow> 0 \<le> a \<Longrightarrow> a \<le> dec_from a s"
proof (induction s arbitrary: a)
  case Nil
  then show ?case by simp
next
  case (Cons c s)
  then have "0 \<le> digit_val c" using digit_val_bounds by simp
  with Cons.prems have "10 * a + digit_val c \<le> dec_from (10 * a + digit_val c) s"
    by (intro Cons.IH) simp_all
  with \<open>0 \<le> digit_val c\<close> Cons.prems show ?case by simp
qed

lemma parseInt64_loop_exact:
  "list_all is_digit s \<Longrightarrow> 0 \<le> out \<Longrightarrow> dec_from out s \<le> max_i64 \<Longrightarrow>
   parseInt64_loop out s = Inr (dec_from out s)"
proof (induction s arbitrary: out)
  case Nil
  then show ?case by simp
next
  case (Cons c s)
  let ?o = "10 * out + digit_val c"
  have d: "0 \<le> digit_val c" "digit_val c \<le> 9"
    using Cons.prems(1) digit_val_bounds [of c] by simp_all
  have "?o \<le> dec_from ?o s"
    using Cons.prems d by (intro dec_from_ge) simp_all
  then have "is_i64 (out * 10)" "is_i64 out" "is_i64 (digit_val c)" "is_i64 (out * 10 + digit_val c)"
    using Cons.prems d by (simp_all add: is_i64_def)
  then have "parseInt64_loop out (c # s) = parseInt64_loop ?o s"
    by (simp add: mulInt64_exact addInt64_exact is_i64_def mult.commute)
  also have "\<dots> = Inr (dec_from ?o s)"
    using Cons.prems d by (intro Cons.IH) simp_all
  finally show ?case by simp
qed

lemma parseInt64_exact:
  "list_all is_digit s \<Longrightarrow> dec_val s \<le> max_i64 \<Longrightarrow> parseInt64 s = Inr (dec_val s)"
  using parseInt64_loop_exact [of s 0] by (simp add: parseInt64_def dec_val_def dec_from_def)

text \<open>What parsing does on the two shapes that printing produces.\<close>

lemma fracPart_exact: "int (length f) = scale \<Longrightarrow> list_all is_digit f \<Longrightarrow> fracPart s [w, f] scale = Inr f"
  by (auto simp: fracPart_def)

lemma parseToUnits_parts:
  assumes sc: "0 \<le> scale" "scale \<le> 18"
    and w: "list_all is_digit w" "w \<noteq> []" and f: "list_all is_digit f"
    and parts: "split_on CHR ''.'' s = w # fs" "length fs \<le> 1"
    and fp: "fracPart s (w # fs) scale = Inr f"
    and fit: "dec_val w * 10 ^ nat scale + dec_val f \<le> max_i64"
    and t: "s1 = (if neg then CHR ''-'' # s else s)" and s: "s \<noteq> []" "is_digit (hd s)"
    and tr: "trim_space s1 = s1"
  shows "parseToUnits s1 scale =
     Inr (if neg then - (dec_val w * 10 ^ nat scale + dec_val f)
          else dec_val w * 10 ^ nat scale + dec_val f)"
proof -
  let ?p = "(10::int) ^ nat scale"
  have p: "1 \<le> ?p" "?p \<le> 1000000000000000000" using pow10_bounds [OF sc] by simp_all
  have vw: "0 \<le> dec_val w" and vf: "0 \<le> dec_val f"
    using dec_from_ge [OF w(1), of 0] dec_from_ge [OF f, of 0] by (simp_all add: dec_val_def dec_from_def)
  have "dec_val w \<le> dec_val w * ?p" using vw p by (simp add: mult_le_cancel_left1)
  then have fw: "dec_val w \<le> max_i64" "dec_val f \<le> max_i64" "is_i64 (dec_val w * ?p)"
    using fit vf vw by (simp_all add: is_i64_def)
  have "0 \<le> dec_val w * ?p" using vw by simp
  then have "is_i64 (dec_val w)" "is_i64 ?p" "is_i64 (dec_val f)" "is_i64 (dec_val w * ?p + dec_val f)"
    "is_i64 (- (dec_val w * ?p + dec_val f))"
    unfolding is_i64_def using fw p vw vf fit by linarith+
  moreover have "hd s1 = CHR ''-'' \<longleftrightarrow> neg" "hd s1 \<noteq> CHR ''+''" "s1 \<noteq> []"
    using t s by auto
  moreover have "(if hd s1 = CHR ''-'' \<or> hd s1 = CHR ''+'' then tl s1 else s1) = s"
    using calculation t by auto
  ultimately show ?thesis
    using parts w fp sc fw parseInt64_exact [OF w(1) fw(1)] parseInt64_exact [OF f fw(2)]
    by (simp add: parseToUnits_def validateScale_def tr Let_def pow10_exact mulInt64_exact addInt64_exact)
qed

lemma parse_format_units:
  assumes u: "is_i64 u" "u \<noteq> min_i64" and sc: "0 \<le> scale" "scale \<le> 18"
  shows "parseToUnits (formatUnits u scale) scale = Inr u"
proof (cases "scale = 0")
  case True
  let ?w = "show_nat (nat \<bar>u\<bar>)"
  have "parseToUnits (formatUnits u scale) scale =
     Inr (if u < 0 then - (dec_val ?w * 10 ^ nat scale + dec_val []) else dec_val ?w * 10 ^ nat scale + dec_val [])"
  proof (rule parseToUnits_parts [where w = ?w and fs = "[]" and f = "[]" and s = ?w])
    show "trim_space (formatUnits u scale) = formatUnits u scale"
      using list_all_show_nat [of "nat \<bar>u\<bar>"] True
      by (intro trim_space_id) (auto simp: formatUnits_def show_int_def list_all_iff)
    show "split_on CHR ''.'' ?w = [?w]"
      by (rule split_on_none) (rule digits_no, simp_all)
    show "is_digit (hd ?w)"
      using list_all_show_nat [of "nat \<bar>u\<bar>"] by (simp add: list_all_iff)
  qed (use u sc True in \<open>auto simp: fracPart_def formatUnits_def show_int_def dec_val_def [of "[]"] is_i64_def\<close>)
  with True show ?thesis by (auto simp: dec_val_def [of "[]"])
next
  case False
  define a where "a = \<bar>u\<bar>"
  let ?p = "(10::int) ^ nat scale" and ?a = a
  let ?w = "show_nat (nat (?a div ?p))" and ?f = "show_int_pad (nat scale) (?a mod ?p)"
  have a: "0 \<le> ?a" "is_i64 ?a" "abs64 u = ?a" using u by (auto simp: a_def abs64_def is_i64_def)
  have p: "0 < ?p" by simp
  have q0: "0 \<le> ?a div ?p" using a(1) p by (simp add: pos_imp_zdiv_nonneg_iff)
  have fmt: "formatUnits u scale = (if u < 0 then CHR ''-'' # ?w @ CHR ''.'' # ?f else ?w @ CHR ''.'' # ?f)"
    using False sc q0 a go_quot_nonneg [OF a(1) p a(2)] go_rem_nonneg [OF a(1) p]
    by (simp add: formatUnits_def pow10_exact Let_def show_int_def)
  have f: "list_all is_digit ?f" "int (length ?f) = scale" "dec_val ?f = ?a mod ?p"
    using False sc by simp_all
  have sum: "dec_val ?w * ?p + dec_val ?f = ?a" using q0 f(3) by (simp add: div_mult_mod_eq)
  have "parseToUnits (formatUnits u scale) scale =
     Inr (if u < 0 then - (dec_val ?w * ?p + dec_val ?f) else dec_val ?w * ?p + dec_val ?f)"
  proof (rule parseToUnits_parts [where w = ?w and fs = "[?f]" and f = ?f and s = "?w @ CHR ''.'' # ?f"])
    show "trim_space (formatUnits u scale) = formatUnits u scale"
      using list_all_show_nat [of "nat (?a div ?p)"] f(1) unfolding fmt
      by (intro trim_space_id) (auto simp: list_all_iff)
    have "CHR ''.'' \<notin> set ?w" "CHR ''.'' \<notin> set ?f"
      by (rule digits_no [OF list_all_show_nat not_digit_punct(2)], rule digits_no [OF f(1) not_digit_punct(2)])
    then show "split_on CHR ''.'' (?w @ CHR ''.'' # ?f) = ?w # [?f]"
      by (simp add: split_on_append split_on_none)
    show "is_digit (hd (?w @ CHR ''.'' # ?f))"
      using list_all_show_nat [of "nat (?a div ?p)"] by (simp add: list_all_iff)
    show "dec_val ?w * ?p + dec_val ?f \<le> max_i64"
      using sum a(2) by (simp add: is_i64_def)
  qed (use sc f fmt in \<open>simp_all add: fracPart_exact\<close>)
  then show ?thesis unfolding sum by (auto simp: a_def)
qed

text \<open>Rounding a multiple of the divisor is exact; scaling up never hits the least integer.\<close>

lemma round_half_away_mult:
  assumes "0 < d"
  shows "round_half_away (n * d) d = n"
proof -
  have "2 * \<bar>d * (round_half_away (n * d) d - n)\<bar> \<le> d"
    using round_half_away_error [OF assms, of "n * d"] by (simp add: right_diff_distrib mult.commute)
  then have "2 * (d * \<bar>round_half_away (n * d) d - n\<bar>) \<le> d"
    using assms by (simp add: abs_mult)
  then have "d * (2 * \<bar>round_half_away (n * d) d - n\<bar>) \<le> d * 1"
    by (simp add: mult.left_commute)
  then have "2 * \<bar>round_half_away (n * d) d - n\<bar> \<le> 1"
    using assms by (simp only: mult_le_cancel_left_pos)
  then show ?thesis by arith
qed

lemma mult_pow10_ne_min: "0 < k \<Longrightarrow> n * 10 ^ k \<noteq> min_i64"
proof
  assume "0 < k" and eq: "n * 10 ^ k = min_i64"
  then have "(10::int) dvd n * 10 ^ k" by (cases k) simp_all
  then have "(10::int) dvd min_i64" by (simp only: eq)
  then show False by presburger
qed

lemma Rescale_up:
  assumes "is_i64 (Units f)" "0 \<le> Scale f" "Scale f < s" "s \<le> 18"
  shows "Rescale f s =
    (let u = Units f * 10 ^ nat (s - Scale f)
     in if is_i64 u then Inr \<lparr>Units = u, Scale = s\<rparr> else Inl MulOverflow)"
proof -
  have "is_i64 (s - Scale f)" "0 \<le> s - Scale f" "s - Scale f \<le> 18"
    using assms by (simp_all add: is_i64_def)
  moreover have "is_i64 (10 ^ nat (s - Scale f))"
    by (rule pow10_i64) (use calculation in simp_all)
  ultimately show ?thesis
    using assms by (simp add: Rescale_def validateScale_def pow10_exact mulInt64_exact Let_def)
qed

lemma Rescale_down:
  assumes "is_i64 (Units f)" "Units f \<noteq> min_i64" "0 \<le> s" "s < Scale f" "Scale f \<le> 18"
  shows "Rescale f s = Inr \<lparr>Units = round_half_away (Units f) (10 ^ nat (Scale f - s)), Scale = s\<rparr>"
proof -
  have "is_i64 (Scale f - s)" "0 \<le> Scale f - s" "Scale f - s \<le> 18"
    using assms by (simp_all add: is_i64_def)
  moreover have "divRoundHalfUp (Units f) (10 ^ nat (Scale f - s)) =
      Inr (round_half_away (Units f) (10 ^ nat (Scale f - s)))"
    using assms pow10_bounds [of "Scale f - s"] calculation by (intro divRoundHalfUp_exact) simp_all
  ultimately show ?thesis
    using assms by (simp add: Rescale_def validateScale_def pow10_exact)
qed

section \<open>Properties\<close>



text \<open>
  Rounding policy half-up, away from zero on a half: for a divisor up to \<open>2^62\<close> and any
  dividend but the least 64-bit integer, \<open>divRoundHalfUp\<close> returns the quotient rounded half
  away from zero, which is within half a unit of the exact quotient.
\<close>
theorem divRoundHalfUp_half_away:
  assumes "is_i64 n" "n \<noteq> min_i64" "0 < d" "d \<le> 2 ^ 62"
  shows "\<exists>q. divRoundHalfUp n d = Inr q \<and> q = sgn n * ((2 * \<bar>n\<bar> + d) div (2 * d)) \<and> 2 * \<bar>d * q - n\<bar> \<le> d"
  using assms divRoundHalfUp_exact [of n d] round_half_away_error [of d n]
  by (auto simp: round_half_away_def)

theorem divRoundHalfUp_half_away_witness:
  "\<exists>q. divRoundHalfUp (-25) 10 = Inr q \<and> q = -3 \<and> 2 * \<bar>10 * q - (-25)\<bar> \<le> 10"
  using divRoundHalfUp_half_away [of "-25" 10] by (simp add: is_i64_def)

text \<open>
  (C30) Round trip of the decimal format: for every scale from 0 to 18 and every 64-bit value
  but the least one, parsing what \<open>formatUnits\<close> prints gives the value back; in particular
  \<open>ParseMoney\<close> inverts \<open>Money.FormatFixed\<close>.
\<close>
theorem money_format_parse_roundtrip:
  assumes "is_i64 u" "u \<noteq> min_i64" "0 \<le> scale" "scale \<le> 18"
  shows "parseToUnits (formatUnits u scale) scale = Inr u \<and> ParseMoney (money_FormatFixed u) = Inr u"
  using assms by (simp add: parse_format_units ParseMoney_def money_FormatFixed_def)

theorem money_format_parse_roundtrip_witness:
  "parseToUnits (formatUnits (-1205) 3) 3 = Inr (-1205) \<and> ParseMoney (money_FormatFixed (-1205)) = Inr (-1205)"
  using money_format_parse_roundtrip [of "-1205" 3] by (simp add: is_i64_def)

text \<open>
  \<open>Money.ApplyBPS\<close>: when the product of the amount and the basis points fits in 64 bits
  (and is not the least 64-bit integer), the result is the product divided by 10000, rounded
  half away from zero, of the same sign as the amount and no larger than it for at most
  10000 basis points; when it does not fit, an overflow error.
\<close>
theorem money_ApplyBPS_exact:
  assumes m: "is_i64 m" and b: "0 \<le> bps" "bps \<le> 10000" and ne: "m * bps \<noteq> min_i64"
  shows "if is_i64 (m * bps)
    then \<exists>q. money_ApplyBPS m bps = Inr q \<and> 2 * \<bar>10000 * q - m * bps\<bar> \<le> 10000 \<and> \<bar>q\<bar> \<le> \<bar>m\<bar> \<and> 0 \<le> q * sgn m
    else money_ApplyBPS m bps = Inl MulOverflow"
proof (cases "is_i64 (m * bps)")
  case False
  moreover have "is_i64 bps" using b by (simp add: is_i64_def)
  ultimately show ?thesis
    using m b by (simp add: money_ApplyBPS_def mulInt64_exact)
next
  case True
  let ?q = "round_half_away (m * bps) 10000"
  have "money_ApplyBPS m bps = Inr ?q"
    using True m b ne divRoundHalfUp_exact [of "m * bps" 10000]
    by (simp add: money_ApplyBPS_def mulInt64_exact is_i64_def)
  moreover have err: "2 * \<bar>10000 * ?q - m * bps\<bar> \<le> 10000"
    by (rule round_half_away_error) simp
  moreover have "\<bar>?q\<bar> \<le> \<bar>m\<bar>"
  proof -
    have "\<bar>m * bps\<bar> \<le> 10000 * \<bar>m\<bar>"
      using b mult_right_mono [of bps 10000 "\<bar>m\<bar>"] by (simp add: abs_mult mult.commute)
    with err show ?thesis by (rule abs_round_le)
  qed
  moreover have "0 \<le> ?q * sgn m"
  proof -
    have "?q * sgn m = (2 * \<bar>m * bps\<bar> + 10000) div 20000 * (sgn m * sgn m * sgn bps)"
      by (simp add: round_half_away_def sgn_mult)
    moreover have "0 \<le> sgn m * sgn m * sgn bps" "0 \<le> (2 * \<bar>m * bps\<bar> + 10000) div 20000"
      using b by (simp_all add: sgn_if)
    ultimately show ?thesis by simp
  qed
  ultimately show ?thesis using True by auto
qed

theorem money_ApplyBPS_exact_witness:
  "\<exists>q. money_ApplyBPS 12345 2000 = Inr q \<and> 2 * \<bar>10000 * q - 12345 * 2000\<bar> \<le> 10000 \<and> \<bar>q\<bar> \<le> \<bar>12345\<bar> \<and> 0 \<le> q * sgn 12345"
  using money_ApplyBPS_exact [of 12345 2000] by (simp add: is_i64_def)

text \<open>
  Limits of the checked primitives at the least 64-bit integer: \<open>Money.Sub\<close> of it
  returns a value instead of the overflow error its comment promises, and \<open>ApplyBPS\<close> whose
  product is exactly that integer turns a negative amount into a positive fee.
\<close>
theorem money_min_int_defects:
  "money_Sub 0 min_i64 = Inr min_i64 \<and> \<not> is_i64 (0 - min_i64)
   \<and> money_ApplyBPS (-4611686018427387904) 2 = Inr 922337203685477"
  by code_simp

text \<open>
  Rescaling a fixed-point value to a finer scale either fails with an overflow error or
  is exact, and rescaling the result back gives the original value.
\<close>
theorem Rescale_roundtrip:
  assumes f: "is_i64 (Units f)" "0 \<le> Scale f" and s: "Scale f < s" "s \<le> 18"
  shows "Rescale f s = Inl MulOverflow \<and> \<not> is_i64 (Units f * 10 ^ nat (s - Scale f))
    \<or> (\<exists>g. Rescale f s = Inr g \<and> Units g = Units f * 10 ^ nat (s - Scale f) \<and> Scale g = s
          \<and> Rescale g (Scale f) = Inr f)"
proof (cases "is_i64 (Units f * 10 ^ nat (s - Scale f))")
  case False
  then show ?thesis using Rescale_up [OF f s] by (simp add: Let_def)
next
  case True
  let ?g = "\<lparr>Units = Units f * 10 ^ nat (s - Scale f), Scale = s\<rparr>"
  have "Rescale f s = Inr ?g"
    using Rescale_up [OF f s] True by (simp add: Let_def)
  moreover have "Rescale ?g (Scale f) = Inr f"
    using Rescale_down [of ?g "Scale f"] True f s mult_pow10_ne_min [of "nat (s - Scale f)" "Units f"]
    by (simp add: round_half_away_mult)
  ultimately show ?thesis by simp
qed

theorem Rescale_roundtrip_witness:
  "\<exists>g. Rescale \<lparr>Units = -125, Scale = 2\<rparr> 8 = Inr g \<and> Units g = -125000000 \<and> Scale g = 8
     \<and> Rescale g 2 = Inr \<lparr>Units = -125, Scale = 2\<rparr>"
  using Rescale_roundtrip [of "\<lparr>Units = -125, Scale = 2\<rparr>" 8] by (simp add: is_i64_def)

end
