(* ===== verification/Spec2Isabelle.thy ===== *)
theory Spec2Isabelle
  imports Contest_Admission Settlement_Properties Withdrawal_Properties Money
begin

text \<open>
  Verification of the money path and of the trading engine of the Tragge tournament platform.

  The program. Players deposit money into wallets, pay entry fees of trading contests, trade with a
  number of virtual units in the contest, and receive prizes by rank. The parts modelled here are

  \<^item> money: \<open>packages/money\<close> (theory Money) is checked fixed-point arithmetic;
  \<^item> prizes: \<open>packages/scoring/distribution\<close> (Prize_Distribution) splits a pool over ranks, and
    \<open>packages/scoring/economics\<close> (Economics) has fees, pools, join charges and the allocation;
  \<^item> wallets: \<open>packages/wallet/wallet.go\<close> over its tables and triggers (Wallet_Db has the rows and
    statements, Wallet the user wallets, Custody the treasury, fee wallet and prize pools);
  \<^item> contests: the state machine of \<open>packages/domain/statemachine\<close> (Contest_Machine), its
    refunds and the scheduler (Contest_Scheduler), the lifecycle snapshots of
    \<open>packages/db/contest_snapshots.go\<close> (Contest_Snapshots), and the join and leave handlers of
    \<open>apps/user-bff/server/contest_handlers.go\<close> (Contest_Join), over the rows of Contest_Db;
  \<^item> trading: \<open>packages/scoring/scoring.go\<close> and \<open>decimal_scoring.go\<close> (Trading_Scoring), the users in
    memory and the tables (\<open>state.go\<close> and \<open>db.go\<close>, Trading_State), ticks, the price book and the
    pending order book (\<open>tick_validation.go\<close>, \<open>pricebook.go\<close>, \<open>pending.go\<close>, Trading_Book), and the
    handlers (\<open>order_validation.go\<close>, \<open>contest_cache.go\<close>, \<open>order_processing.go\<close>,
    \<open>position_management.go\<close>, Trading_Orders), and the end of a contest (\<open>contest_operations.go\<close>,
    Trading_Closing), all of \<open>apps/trading-engine/server\<close>;
  \<^item> settlement: the tables and statements of \<open>apps/settlement-service/server/db.go\<close>
    (Settlement_Db), the closing attempts, rankings, prizes, refunds and retries of its
    \<open>settlement.go\<close> (Settlement), and the points of \<open>packages/domain/traggepoint\<close> (Tragge_Points);
  \<^item> withdrawals: the request (\<open>withdraw.go\<close> of \<open>apps/payment-service/handlers\<close>), the review
    (\<open>handlers_withdrawal.go\<close> of \<open>apps/admin-bff/server\<close>) and the rollback of stuck payouts
    (\<open>expiry.go\<close> of \<open>apps/payment-service/server\<close>), all in Withdrawals.

  How they interact. A join charges the wallet through Custody and writes the rows that the
  economics cutoff of Contest_Snapshots later demands; the state machine calls the snapshots and
  leaves the refunds to side effects; the engine reads the status of a contest before each fill. The
  settlement of an ended contest waits until the engine has cancelled its orders and closed its
  positions, ranks the scores the engine left in the tables, and pays through Wallet. The
  theories Wallet, Custody, Contest_Join and Contest_Machine share the record of the financial
  tables; the trading engine has a database record of its own with the columns it reads.

  The model. A Go struct is a record, an enumeration a datatype or the strings of the code, an
  \<open>int64\<close> is an \<open>int\<close> with \<open>wrap64\<close> written at each operation that can wrap (Go_Base), a \<open>float64\<close>
  is a rational on which each operation is followed by \<open>f64_round\<close> (Go_Float; binary64 on amd64,
  without fused multiply-add, of finite values; prices come from JSON, which has no others), text is
  in Go_Strings. A fallible function returns a sum with the error on the left. A table is a list of
  rows in insertion order, and a statement fails exactly when a constraint or a trigger of
  \<open>packages/db/migrations\<close> rejects it; a transaction is a function on the tables whose error leaves
  them as they were. Each handler is one definition on explicit state. What the code takes from
  outside is an argument: clocks, fresh identifiers, the verdicts of rate limiter, market hours, lock
  and shard assignment, the error of a transaction (record \<open>env\<close> of Trading_Orders), the order in
  which Go visits a map, and the decimal library and SQL driver. For the decimal library the locale
  \<open>decimals\<close> states what its documentation promises; its instance is \<open>shop_decimal\<close>.

  What the lemmas show. Custody_Invariant has the invariant of the financial tables, with the three
  custody accounts as interpretations of one locale \<open>account_ledger\<close>; Custody_Properties has
  conservation, exactly-once posting and the money flow of an admission and its reversal. The lemmas
  of Wallet are about the ledger and idempotency. Contest_Lifecycle has the step relation of
  committed transitions and its invariants; Contest_Properties and Contest_Admission the properties
  of contests. For the engine, Trading_Power shows what each statement does to the units held by
  positions, Trading_Conservation and Trading_Handlers that every handler keeps the invariant
  \<open>power_ok\<close> (units available, held and reserved add up to the total), Trading_Engine that every run
  of the step relation \<open>engine_step\<close> does, and Trading_Properties and Trading_Errors state the
  properties, among them the interleavings and failures in which the code does not do what it means
  to do. Trading_Final is about the end of a contest: when closing it gives every unit back, and when it
  cannot. Settlement_Prizes has the rankings and prizes, for any order a sort gives to ties (locale
  \<open>slice_sort\<close>, with the stable sort as its instance), against the allocation of Economics;
  Settlement_Money shows what every stage of an attempt does to the financial tables, on each of its
  error paths, and Settlement_Properties draws the properties of a whole settlement from it. The
  decimal functions of Tragge_Points are the locale \<open>point_math\<close>. Withdrawal_Invariant ties each payout to
  its rows in the ledger, handler by handler, and Withdrawal_Properties has the step relation
  \<open>payout_step\<close> and the properties of every run. A property is marked by its identifier in the text
  before its theorem, and the theorem whose name ends in \<open>_witness\<close> applies it to concrete data.

  Bounds. There is no fuel: the loops of the modelled code run over lists or over a decreasing
  number. The waiting loops of a settlement run over the list of what they see (clock ticks,
  tables read at a tick, cancellations), and a list that ends before the loop does gives no result, so that every
  statement about a settlement that returns holds for lists of any length; Settlement_Properties shows
  that it returns whenever the waits run into their deadlines. Amounts are bounded by the 64-bit range
  or by the constraints of the tables, as each property says. The run of a contest is bounded by its transitions and pauses.

  Not modelled. HTTP, Kafka, Redis, logging, metrics and configuration; authentication and
  notifications; market data connectors; the process mains; bots. Reads outside a transaction
  succeed. An engine handler is one atomic step: two handlers of one user that interleave inside a
  step, and the write-ahead log around the update of the memory, are outside the model, and so is a
  reload of a diverged contest. The events, e-mails and notifications of a settlement have no effect
  on its tables and are left out. The normalisation of a withdrawal request maps the case of
  Unicode letters and is left out. The leaderboard service, the providers and webhooks of the payment
  service, market hours and the stuck-contest detector are not modelled.
\<close>

end
